(* ===== verification/Prelude.thy ===== *)
theory Prelude
  imports Complex_Main "HOL-Library.Word" "HOL-Library.Sublist"
begin

text \<open>
  Shared vocabulary of the development: the C integer types as words, C strings as
  lists of characters without the terminating NUL, the string functions of the C
  library that the program calls (\<open>strstr\<close>, \<open>strchr\<close>, \<open>strcasecmp\<close>, the decimal
  conversions of \<open>printf\<close>), little-endian byte images, and the lemmas on lists,
  words and bits that several components use.
\<close>

unbundle bit_operations_syntax

section \<open>Machine integers\<close>

type_synonym u8 = "8 word"
type_synonym u16 = "16 word"
type_synonym u32 = "32 word"
type_synonym u64 = "64 word"

type_synonym bytes = "u8 list"

text \<open>
  \<open>model_simps\<close> collects the unfolding equations of small helpers that proofs about
  several components open together.
\<close>

named_theorems model_simps

definition SIZE_MOD :: nat where
  "SIZE_MOD = 2 ^ 32"

text \<open>\<open>size_t\<close> has 32 bits on the target; addition wraps.\<close>

definition size_add :: "nat \<Rightarrow> nat \<Rightarrow> nat" where
  "size_add a b = (a + b) mod SIZE_MOD"

lemma size_add_small [simp]: "a + b < SIZE_MOD \<Longrightarrow> size_add a b = a + b"
  by (simp add: size_add_def)

section \<open>Little-endian images\<close>

definition le16 :: "u16 \<Rightarrow> bytes" where
  "le16 w = [ucast w, ucast (drop_bit 8 w)]"

definition le32 :: "u32 \<Rightarrow> bytes" where
  "le32 w = [ucast w, ucast (drop_bit 8 w), ucast (drop_bit 16 w), ucast (drop_bit 24 w)]"

definition le64 :: "u64 \<Rightarrow> bytes" where
  "le64 w = [ucast w, ucast (drop_bit 8 w), ucast (drop_bit 16 w), ucast (drop_bit 24 w),
             ucast (drop_bit 32 w), ucast (drop_bit 40 w), ucast (drop_bit 48 w), ucast (drop_bit 56 w)]"

definition rd16 :: "bytes \<Rightarrow> nat \<Rightarrow> u16" where
  "rd16 buf i = ucast (buf ! i) OR push_bit 8 (ucast (buf ! Suc i))"

definition rd32 :: "bytes \<Rightarrow> nat \<Rightarrow> u32" where
  "rd32 buf i = ucast (buf ! i) OR push_bit 8 (ucast (buf ! (i + 1)))
     OR push_bit 16 (ucast (buf ! (i + 2))) OR push_bit 24 (ucast (buf ! (i + 3)))"

definition rd64 :: "bytes \<Rightarrow> nat \<Rightarrow> u64" where
  "rd64 buf i = ucast (rd32 buf i) OR push_bit 32 (ucast (rd32 buf (i + 4)))"

lemma length_le16 [simp]: "length (le16 w) = 2"
  by (simp add: le16_def)

lemma length_le32 [simp]: "length (le32 w) = 4"
  by (simp add: le32_def)

lemma length_le64 [simp]: "length (le64 w) = 8"
  by (simp add: le64_def)

lemma rd16_split: "(ucast (ucast w :: u8) :: u16) OR push_bit 8 (ucast (ucast (drop_bit 8 w) :: u8)) = w"
  by (rule bit_word_eqI) (auto simp: bit_simps)

lemma rd16_bytes:
  "buf ! i = ucast w \<Longrightarrow> buf ! Suc i = ucast (drop_bit 8 w) \<Longrightarrow> rd16 buf i = w"
  by (simp add: rd16_def rd16_split)

section \<open>C strings\<close>

definition NUL :: char where
  "NUL = CHR 0x00"

definition CR :: char where
  "CR = CHR 0x0D"

definition LF :: char where
  "LF = CHR 0x0A"

text \<open>The C string that starts a character array: it ends before the first NUL.\<close>

definition c_str :: "string \<Rightarrow> string" where
  "c_str s = takeWhile (\<lambda>c. c \<noteq> NUL) s"

lemma c_str_id: "NUL \<notin> set s \<Longrightarrow> c_str s = s"
  by (induction s) (auto simp: c_str_def)

definition bytes_of_string :: "string \<Rightarrow> bytes" where
  "bytes_of_string s = map (\<lambda>c. of_nat (of_char c)) s"

definition string_of_bytes :: "bytes \<Rightarrow> string" where
  "string_of_bytes bs = map (\<lambda>b. char_of (unat b)) bs"

lemma length_bytes_of_string [simp]: "length (bytes_of_string s) = length s"
  by (simp add: bytes_of_string_def)

lemma length_string_of_bytes [simp]: "length (string_of_bytes bs) = length bs"
  by (simp add: string_of_bytes_def)

lemma string_of_bytes_of_string [simp]: "string_of_bytes (bytes_of_string s) = s"
proof -
  have "char_of (unat (of_nat (of_char c) :: u8)) = c" for c :: char
  proof -
    have "(of_char c :: nat) < 256" by simp
    then have "unat (of_nat (of_char c) :: u8) = of_char c"
      by (simp add: unat_of_nat)
    then show ?thesis by simp
  qed
  then show ?thesis
    by (simp add: string_of_bytes_def bytes_of_string_def comp_def)
qed

text \<open>\<open>strstr\<close>: the suffix that starts at the first occurrence.\<close>

fun c_strstr :: "string \<Rightarrow> string \<Rightarrow> string option" where
  "c_strstr [] n = (if n = [] then Some [] else None)"
| "c_strstr (c # cs) n = (if prefix n (c # cs) then Some (c # cs) else c_strstr cs n)"

abbreviation c_contains :: "string \<Rightarrow> string \<Rightarrow> bool" where
  "c_contains h n \<equiv> c_strstr h n \<noteq> None"

lemma c_strstr_Some: "c_strstr h n = Some t \<Longrightarrow> prefix n t \<and> suffix t h"
  by (induction h) (auto split: if_splits intro: suffix_ConsI)

lemma c_contains_sublist: "c_contains h n \<longleftrightarrow> sublist n h"
proof (induction h)
  case Nil
  show ?case by simp
next
  case (Cons c cs)
  then show ?case by (simp add: sublist_Cons_right)
qed

lemma c_strstr_length: "c_strstr h n = Some t \<Longrightarrow> length t \<le> length h"
  by (drule c_strstr_Some) (auto dest: suffix_length_le)

text \<open>\<open>strchr\<close> for a character other than NUL.\<close>

definition c_strchr :: "string \<Rightarrow> char \<Rightarrow> string option" where
  "c_strchr s c = (if c \<in> set s then Some (dropWhile (\<lambda>x. x \<noteq> c) s) else None)"

text \<open>Character codes, and the range tests \<open>c >= 'a' && c <= 'z'\<close> of the source.\<close>

definition ccode :: "char \<Rightarrow> nat" where
  "ccode c = of_char c"

definition c_between :: "char \<Rightarrow> char \<Rightarrow> char \<Rightarrow> bool" where
  "c_between lo hi c \<longleftrightarrow> ccode lo \<le> ccode c \<and> ccode c \<le> ccode hi"

definition lower_code :: "char \<Rightarrow> nat" where
  "lower_code c = (if c_between CHR ''A'' CHR ''Z'' c then ccode c + 32 else ccode c)"

text \<open>\<open>strcasecmp (s, t) == 0\<close>.\<close>

definition c_strcaseeq :: "string \<Rightarrow> string \<Rightarrow> bool" where
  "c_strcaseeq s t \<longleftrightarrow> map lower_code s = map lower_code t"

definition digit_char :: "nat \<Rightarrow> char" where
  "digit_char d = char_of (48 + d)"

text \<open>The decimal conversions \<open>%u\<close>, \<open>%zu\<close> and \<open>%d\<close>.\<close>

fun show_nat :: "nat \<Rightarrow> string" where
  "show_nat n = (if n < 10 then [digit_char n] else show_nat (n div 10) @ [digit_char (n mod 10)])"

declare show_nat.simps [simp del]

definition show_int :: "int \<Rightarrow> string" where
  "show_int i = (if i < 0 then CHR ''-'' # show_nat (nat (- i)) else show_nat (nat i))"

text \<open>\<open>snprintf (buf, size, ...)\<close> stores at most \<open>size - 1\<close> characters of the output.\<close>

definition c_snprintf :: "nat \<Rightarrow> string \<Rightarrow> string" where
  "c_snprintf n s = take (n - 1) s"

section \<open>Lists updated through a pointer\<close>

text \<open>\<open>memcpy (buf, data, length data)\<close> at the start of a buffer.\<close>

definition overwrite :: "'a list \<Rightarrow> 'a list \<Rightarrow> 'a list" where
  "overwrite xs buf = xs @ drop (length xs) buf"

lemma length_overwrite: "length xs \<le> length buf \<Longrightarrow> length (overwrite xs buf) = length buf"
  by (simp add: overwrite_def)

lemma take_overwrite [simp]: "take (length xs) (overwrite xs buf) = xs"
  by (simp add: overwrite_def)

section \<open>Bits\<close>

lemma xor_right_cancel: "(a :: 'a::len word) XOR c = b XOR c \<longleftrightarrow> a = b"
  by (metis xor.assoc xor.right_neutral xor_self_eq)

lemma and_bit_mask_iff: "(w :: 'a::len word) AND push_bit k 1 \<noteq> 0 \<longleftrightarrow> bit w k"
proof
  assume "w AND push_bit k 1 \<noteq> 0"
  then obtain n where "bit (w AND push_bit k 1) n"
    using bit_eqI [of "w AND push_bit k 1" 0] by auto
  then show "bit w k" by (auto simp: bit_simps)
next
  assume "bit w k"
  moreover from this have "k < LENGTH('a)" by (rule bit_imp_le_length)
  ultimately have "bit (w AND push_bit k 1) k" by (simp add: bit_simps)
  then show "w AND push_bit k 1 \<noteq> 0" by auto
qed

lemma uint_unat: "uint w = int (unat w)"
  by simp

lemma nat_less_two_power: "v < 2 ^ w \<longleftrightarrow> int v < 2 ^ w"
  by (metis of_nat_less_iff of_nat_numeral of_nat_power)

lemma unat_ucast_byte: "8 \<le> LENGTH('a) \<Longrightarrow> unat (ucast (b :: u8) :: 'a::len word) = unat b"
  by (rule bit_eqI) (auto simp: bit_unsigned_iff bit_ucast_iff dest: bit_imp_le_length)

lemma not_bit_unat_u8: "8 \<le> k \<Longrightarrow> \<not> bit (unat (b :: u8)) k"
  by (auto simp: bit_unsigned_iff dest: bit_imp_le_length)

end
