(* ===== verification/Dbl.thy ===== *)
theory Dbl
  imports Prelude
begin

text \<open>
  The doubles of the decoders. Every double the decoders build is finite and normal
  (the scale factors lie between \<open>2 ^ -66\<close> and \<open>2 ^ 0\<close>, the raw values below
  \<open>2 ^ 36\<close>), so a double is a dyadic rational \<open>m * 2 ^ e\<close> and the operations round
  to 53 significant bits, ties to even, as IEEE 754 prescribes. Infinities, NaN and
  subnormal numbers do not occur and are not modelled. \<open>dval\<close> reads the rational
  value, \<open>dbl_bits\<close> the 64-bit image in memory.
\<close>

section \<open>Representation and rounding\<close>

datatype dbl = Dbl (mant: int) (expo: int)

definition dval :: "dbl \<Rightarrow> rat" where
  "dval d = of_int (mant d) * 2 powi (expo d)"

fun num_bits :: "nat \<Rightarrow> nat" where
  "num_bits n = (if n = 0 then 0 else Suc (num_bits (n div 2)))"

declare num_bits.simps [simp del]

definition round_half_even :: "nat \<Rightarrow> nat \<Rightarrow> nat" where
  "round_half_even a k =
     (let q = a div 2 ^ k; r = a mod 2 ^ k
      in if 2 * r > 2 ^ k \<or> (2 * r = 2 ^ k \<and> odd q) then q + 1 else q)"

definition dbl_round :: "int \<Rightarrow> int \<Rightarrow> dbl" where
  "dbl_round m e =
     (let a = nat \<bar>m\<bar>; l = num_bits a
      in if l \<le> 53 then Dbl m e
         else Dbl (sgn m * int (round_half_even a (l - 53))) (e + int (l - 53)))"

definition dbl_of_int :: "int \<Rightarrow> dbl" where
  "dbl_of_int i = dbl_round i 0"

fun dbl_mul :: "dbl \<Rightarrow> dbl \<Rightarrow> dbl" where
  "dbl_mul (Dbl m1 e1) (Dbl m2 e2) = dbl_round (m1 * m2) (e1 + e2)"

fun dbl_add :: "dbl \<Rightarrow> dbl \<Rightarrow> dbl" where
  "dbl_add (Dbl m1 e1) (Dbl m2 e2) =
     (let e = min e1 e2
      in dbl_round (m1 * 2 ^ nat (e1 - e) + m2 * 2 ^ nat (e2 - e)) e)"

text \<open>\<open>ldexp\<close> multiplies by a power of two, which is exact for normal results.\<close>

fun dbl_ldexp :: "dbl \<Rightarrow> int \<Rightarrow> dbl" where
  "dbl_ldexp (Dbl m e) k = Dbl m (e + k)"

section \<open>Constants of the source\<close>

text \<open>The doubles nearest to the decimal literals, as mantissa and exponent.\<close>

definition M_PI :: dbl where
  "M_PI = Dbl 7074237752028440 (- 51)"

definition c_1e_10 :: dbl where
  "c_1e_10 = Dbl 7737125245533627 (- 86)"

definition c_1e_8 :: dbl where
  "c_1e_8 = Dbl 6044629098073146 (- 79)"

definition c_1e_3 :: dbl where
  "c_1e_3 = Dbl 1152921504606847 (- 60)"

definition c_1e_2 :: dbl where
  "c_1e_2 = Dbl 5764607523034235 (- 59)"

definition c_1e_1 :: dbl where
  "c_1e_1 = Dbl 3602879701896397 (- 55)"

section \<open>The image in memory\<close>

definition dbl_bits :: "dbl \<Rightarrow> u64" where
  "dbl_bits d =
     (if mant d = 0 then 0
      else let a = nat \<bar>mant d\<bar>; l = num_bits a;
               f = (if l \<le> 53 then a * 2 ^ (53 - l) else a div 2 ^ (l - 53));
               be = nat (expo d + int l - 1 + 1023)
           in (if mant d < 0 then push_bit 63 1 else 0)
              OR push_bit 52 (of_nat be) OR of_nat (f - 2 ^ 52))"

definition dbl_bytes :: "dbl \<Rightarrow> bytes" where
  "dbl_bytes d = le64 (dbl_bits d)"

lemma length_dbl_bytes [simp]: "length (dbl_bytes d) = 8"
  by (simp add: dbl_bytes_def)

section \<open>Laws\<close>

lemma num_bits_eq_0: "num_bits n = 0 \<longleftrightarrow> n = 0"
  by (simp add: num_bits.simps [of n])

lemma num_bits_bounds: "n < 2 ^ num_bits n \<and> (0 < n \<longrightarrow> 2 ^ (num_bits n - 1) \<le> n)"
proof (induction n rule: num_bits.induct)
  case (1 n)
  show ?case
  proof (cases "n = 0")
    case True
    then show ?thesis by (simp add: num_bits.simps)
  next
    case False
    let ?l = "num_bits (n div 2)"
    from False have l: "num_bits n = Suc ?l" by (subst num_bits.simps) simp
    from False "1.IH" have ih: "n div 2 < 2 ^ ?l" "0 < n div 2 \<longrightarrow> 2 ^ (?l - 1) \<le> n div 2"
      by simp_all
    from ih(1) have "n < 2 ^ Suc ?l" by simp
    moreover have "2 ^ ?l \<le> n"
    proof (cases "n div 2 = 0")
      case True
      then have "?l = 0" by (simp add: num_bits.simps)
      with False show ?thesis by simp
    next
      case nz: False
      then have "?l = Suc (?l - 1)" using num_bits_eq_0 [of "n div 2"] by simp
      then have "(2::nat) ^ ?l = 2 * 2 ^ (?l - 1)" by (metis power_Suc)
      with ih(2) nz show ?thesis by simp
    qed
    ultimately show ?thesis by (simp add: l)
  qed
qed

lemma num_bits_le: "n < 2 ^ k \<Longrightarrow> num_bits n \<le> k"
proof (rule ccontr)
  assume n: "n < 2 ^ k" and "\<not> num_bits n \<le> k"
  then have k: "k \<le> num_bits n - 1" and n0: "0 < n"
    using num_bits_eq_0 [of n] by auto
  from k have "(2::nat) ^ k \<le> 2 ^ (num_bits n - 1)" by (rule power_increasing) simp
  also have "\<dots> \<le> n" using num_bits_bounds [of n] n0 by blast
  finally show False using n by simp
qed

lemma dbl_round_exact: "\<bar>m\<bar> < 2 ^ 53 \<Longrightarrow> dbl_round m e = Dbl m e"
  using num_bits_le [of "nat \<bar>m\<bar>" 53] by (simp add: dbl_round_def Let_def nat_less_iff)

lemma dbl_of_int_exact: "\<bar>i\<bar> < 2 ^ 53 \<Longrightarrow> dbl_of_int i = Dbl i 0"
  by (simp add: dbl_of_int_def dbl_round_exact)

lemma dval_Dbl: "dval (Dbl m e) = of_int m * 2 powi e"
  by (simp add: dval_def)

lemma dval_ldexp: "dval (dbl_ldexp d k) = dval d * 2 powi k"
  by (cases d) (simp add: dval_def power_int_add)

text \<open>Rounding moves a value by at most half a unit in the last place kept.\<close>

lemma round_half_even_error:
  "\<bar>int (round_half_even a k * 2 ^ k) - int a\<bar> * 2 \<le> 2 ^ k"
proof -
  define q r where qr: "q = a div 2 ^ k" "r = a mod 2 ^ k"
  have a: "a = q * 2 ^ k + r" unfolding qr by (rule div_mult_mod_eq [symmetric])
  have r: "r < 2 ^ k" unfolding qr by simp
  have ia: "int a = int q * 2 ^ k + int r" using a by simp
  have ir: "int r < 2 ^ k" using r by (metis of_nat_less_iff of_nat_numeral of_nat_power)
  show ?thesis
  proof (cases "2 * r > 2 ^ k \<or> (2 * r = 2 ^ k \<and> odd q)")
    case True
    then have e: "round_half_even a k = q + 1"
      by (auto simp: round_half_even_def Let_def qr)
    from True have "2 ^ k \<le> 2 * r" by auto
    then have "2 ^ k \<le> 2 * int r" by (metis of_nat_le_iff of_nat_mult of_nat_numeral of_nat_power)
    with ir show ?thesis by (simp add: e ia algebra_simps)
  next
    case False
    then have e: "round_half_even a k = q"
      unfolding round_half_even_def Let_def qr by (simp only: if_False)
    from False have "2 * r \<le> 2 ^ k" by auto
    then have "2 * int r \<le> 2 ^ k" by (metis of_nat_le_iff of_nat_mult of_nat_numeral of_nat_power)
    then show ?thesis by (simp add: e ia)
  qed
qed

text \<open>The relative error of a rounded result is at most \<open>2 ^ -53\<close>.\<close>

lemma dbl_round_rel_error:
  "\<bar>dval (dbl_round m e) - of_int m * 2 powi e\<bar> * 2 ^ 53 \<le> \<bar>of_int m * 2 powi e\<bar>"
proof (cases "num_bits (nat \<bar>m\<bar>) \<le> 53")
  case True
  then show ?thesis by (simp add: dbl_round_def Let_def dval_def)
next
  case False
  define a k where ak: "a = nat \<bar>m\<bar>" "k = num_bits (nat \<bar>m\<bar>) - 53"
  define q where "q = round_half_even a k"
  from False have m0: "m \<noteq> 0" by (auto simp: num_bits.simps)
  have m: "m = sgn m * int a" by (simp add: ak sgn_mult_abs)
  have rd: "dbl_round m e = Dbl (sgn m * int q) (e + int k)"
    using False by (simp add: dbl_round_def Let_def ak q_def)
  have p: "(2::rat) powi (e + int k) = 2 powi e * 2 ^ k"
    by (simp add: power_int_add)
  have "2 ^ (num_bits a - 1) \<le> a" using num_bits_bounds [of a] m0 by (simp add: ak)
  moreover have "num_bits a - 1 = k + 52" using False by (simp add: ak)
  ultimately have big: "2 ^ k * 2 ^ 52 \<le> a" by (simp add: power_add)
  have err: "\<bar>int (q * 2 ^ k) - int a\<bar> * 2 \<le> 2 ^ k"
    unfolding q_def by (rule round_half_even_error)
  have "\<bar>int (q * 2 ^ k) - int a\<bar> * 2 * 2 ^ 52 \<le> 2 ^ k * 2 ^ 52"
    by (rule mult_right_mono [OF err]) simp
  also have "\<dots> = int (2 ^ k * 2 ^ 52)" by simp
  also have "\<dots> \<le> int a" using big by (simp only: of_nat_le_iff)
  finally have "of_int (\<bar>int (q * 2 ^ k) - int a\<bar> * 2 * 2 ^ 52) \<le> (of_int (int a) :: rat)"
    by (simp only: of_int_le_iff)
  then have R: "\<bar>of_nat q * 2 ^ k - of_nat a\<bar> * 2 ^ 53 \<le> (of_nat a :: rat)"
    by simp
  have s: "\<bar>of_int (sgn m) :: rat\<bar> = 1" using m0 by (simp add: sgn_if)
  have lhs: "dval (dbl_round m e) - of_int m * 2 powi e
      = of_int (sgn m) * 2 powi e * (of_nat q * 2 ^ k - of_nat a)"
    unfolding rd dval_def dbl.sel p by (subst (2) m) (simp add: algebra_simps)
  have rhs: "(of_int m :: rat) * 2 powi e = of_int (sgn m) * 2 powi e * of_nat a"
    by (subst m) simp
  have "\<bar>dval (dbl_round m e) - of_int m * 2 powi e\<bar> * 2 ^ 53
      = 2 powi e * (\<bar>of_nat q * 2 ^ k - of_nat a\<bar> * 2 ^ 53)"
    unfolding lhs by (simp add: abs_mult s)
  also have "\<dots> \<le> 2 powi e * of_nat a"
    by (rule mult_left_mono [OF R]) simp
  also have "\<dots> = \<bar>of_int m * 2 powi e\<bar>"
    unfolding rhs by (simp add: abs_mult s)
  finally show ?thesis .
qed

end
