(* ===== verification/BitReader.thy ===== *)
theory BitReader
  imports Dbl
begin

text \<open>
  The bit-field readers of \<open>core/src/gnss_ephb_decode.c\<close>. A buffer is the memory from
  the pointer on; reading past its end is the unspecified value of list indexing, and
  the decoder theories show which reads stay inside. A reader is compared with two
  independent descriptions: the slice of the big-endian number the bytes spell, and the
  field that a packer put at the same place.
\<close>

section \<open>Readers\<close>

text \<open>The loop shared by the 32-bit and the 64-bit reader (\<open>value\<close> is the accumulator).\<close>

definition be_bits :: "bytes \<Rightarrow> nat \<Rightarrow> nat \<Rightarrow> 'a::len word" where
  "be_bits buf bit_offset bit_len =
     foldl (\<lambda>acc b. let idx = bit_offset + b
        in if buf ! (idx div 8) AND push_bit (7 - idx mod 8) 1 \<noteq> 0
           then acc OR push_bit (bit_len - 1 - b) 1 else acc) 0 [0..<bit_len]"

definition read_bits_be :: "bytes \<Rightarrow> nat \<Rightarrow> nat \<Rightarrow> u32" where
  "read_bits_be buf bit_offset bit_len = be_bits buf bit_offset bit_len"

definition read_bits_be64 :: "bytes \<Rightarrow> nat \<Rightarrow> nat \<Rightarrow> u64" where
  "read_bits_be64 buf bit_offset bit_len = be_bits buf bit_offset bit_len"

definition read_bits_le :: "bytes \<Rightarrow> nat \<Rightarrow> nat \<Rightarrow> u32" where
  "read_bits_le buf bit_offset bit_len =
     foldl (\<lambda>acc b. let idx = bit_offset + b
        in if buf ! (idx div 8) AND push_bit (idx mod 8) 1 \<noteq> 0
           then acc OR push_bit b 1 else acc) 0 [0..<bit_len]"

text \<open>The signed readers; the 32-bit big-endian one returns \<open>uint32_t\<close>.\<close>

definition read_signed_bits_be :: "bytes \<Rightarrow> nat \<Rightarrow> nat \<Rightarrow> u32" where
  "read_signed_bits_be buf bit_offset bit_len =
     (let raw = read_bits_be buf bit_offset bit_len
      in if bit_len = 32 then raw
         else let sign_bit = push_bit (bit_len - 1) 1 in (raw XOR sign_bit) - sign_bit)"

definition read_signed_bits_le :: "bytes \<Rightarrow> nat \<Rightarrow> nat \<Rightarrow> u32" where
  "read_signed_bits_le buf bit_offset bit_len =
     (let raw = read_bits_le buf bit_offset bit_len
      in if bit_len = 32 then raw
         else let sign_bit = push_bit (bit_len - 1) 1 in (raw XOR sign_bit) - sign_bit)"

definition read_signed_bits_be64 :: "bytes \<Rightarrow> nat \<Rightarrow> nat \<Rightarrow> u64" where
  "read_signed_bits_be64 buf bit_offset bit_len =
     (let raw = read_bits_be64 buf bit_offset bit_len
      in if bit_len = 64 then raw
         else let sign_bit = push_bit (bit_len - 1) 1 in (raw XOR sign_bit) - sign_bit)"

definition read_u32_le :: "bytes \<Rightarrow> u32" where
  "read_u32_le p = rd32 p 0"

definition read_u16_le :: "bytes \<Rightarrow> u16" where
  "read_u16_le p = rd16 p 0"

definition read_u24_be :: "bytes \<Rightarrow> u32" where
  "read_u24_be p = push_bit 16 (ucast (p ! 0)) OR push_bit 8 (ucast (p ! 1)) OR ucast (p ! 2)"

section \<open>Scaling\<close>

text \<open>
  An \<open>int32_t\<close> parameter reads the 32-bit pattern it is given as two's complement
  (\<open>sint\<close>), a \<open>uint32_t\<close> parameter as \<open>uint\<close>.
\<close>

definition scale_pow2 :: "u32 \<Rightarrow> int \<Rightarrow> dbl" where
  "scale_pow2 raw e = dbl_ldexp (dbl_of_int (sint raw)) e"

definition scale_pow2_u :: "u32 \<Rightarrow> int \<Rightarrow> dbl" where
  "scale_pow2_u raw e = dbl_ldexp (dbl_of_int (uint raw)) e"

definition scale_pi_pow2 :: "u32 \<Rightarrow> int \<Rightarrow> dbl" where
  "scale_pi_pow2 raw e = dbl_mul (dbl_ldexp (dbl_of_int (sint raw)) e) M_PI"

definition scale_pi_pow2_u :: "u32 \<Rightarrow> int \<Rightarrow> dbl" where
  "scale_pi_pow2_u raw e = dbl_mul (dbl_ldexp (dbl_of_int (uint raw)) e) M_PI"

definition scale_tenth_ns :: "u32 \<Rightarrow> dbl" where
  "scale_tenth_ns raw = dbl_mul (dbl_of_int (sint raw)) c_1e_10"

definition scale_pow2_64 :: "u64 \<Rightarrow> int \<Rightarrow> dbl" where
  "scale_pow2_64 raw e = dbl_ldexp (dbl_of_int (sint raw)) e"

definition scale_pow2_u64 :: "u64 \<Rightarrow> int \<Rightarrow> dbl" where
  "scale_pow2_u64 raw e = dbl_ldexp (dbl_of_int (uint raw)) e"

definition scale_pi_pow2_64 :: "u64 \<Rightarrow> int \<Rightarrow> dbl" where
  "scale_pi_pow2_64 raw e = dbl_mul (dbl_ldexp (dbl_of_int (sint raw)) e) M_PI"

section \<open>Which bits a reader returns\<close>

text \<open>Bit \<open>i\<close> of a buffer, counted from the most significant bit of the first byte.\<close>

definition buf_bit :: "bytes \<Rightarrow> nat \<Rightarrow> bool" where
  "buf_bit buf i = bit (buf ! (i div 8)) (7 - i mod 8)"

lemma buf_bit_append1: "i < 8 * length a \<Longrightarrow> buf_bit (a @ b) i = buf_bit a i"
  by (simp add: buf_bit_def nth_append div_less_iff_less_mult mult.commute)

lemma buf_bit_append2: "buf_bit (a @ b) (8 * length a + i) = buf_bit b i"
  by (simp add: buf_bit_def)

lemma be_bits_loop:
  "m \<le> n \<Longrightarrow> bit (foldl (\<lambda>acc b. let idx = off + b
        in if buf ! (idx div 8) AND push_bit (7 - idx mod 8) 1 \<noteq> 0
           then acc OR push_bit (n - 1 - b) 1 else acc) (0 :: 'a::len word) [0..<m]) k
   \<longleftrightarrow> k < LENGTH('a) \<and> k < n \<and> n - m \<le> k \<and> buf_bit buf (off + (n - 1 - k))"
proof (induction m)
  case 0
  then show ?case by simp
next
  case (Suc m)
  let ?w = "foldl (\<lambda>acc b. let idx = off + b
        in if buf ! (idx div 8) AND push_bit (7 - idx mod 8) 1 \<noteq> 0
           then acc OR push_bit (n - 1 - b) 1 else acc) (0 :: 'a::len word)"
  have step: "?w [0..<Suc m] =
      (if buf_bit buf (off + m) then ?w [0..<m] OR push_bit (n - 1 - m) 1 else ?w [0..<m])"
    by (simp add: Let_def and_bit_mask_iff buf_bit_def del: push_bit_of_1)
  have bits: "bit (push_bit (n - 1 - m) 1 :: 'a word) k \<longleftrightarrow> k < LENGTH('a) \<and> k = n - 1 - m"
    by (auto simp: bit_simps)
  have IH: "bit (?w [0..<m]) k \<longleftrightarrow>
      k < LENGTH('a) \<and> k < n \<and> n - m \<le> k \<and> buf_bit buf (off + (n - 1 - k))"
    using Suc by simp
  have range: "k < n \<Longrightarrow> n - Suc m \<le> k \<longleftrightarrow> n - m \<le> k \<or> k = n - 1 - m"
    "k = n - 1 - m \<Longrightarrow> n - 1 - k = m \<and> k < n"
    using Suc.prems by auto
  show ?case
    unfolding step using IH bits range by (auto simp: bit_or_iff)
qed

lemma bit_be_bits:
  "bit (be_bits buf off n :: 'a::len word) k
     \<longleftrightarrow> k < LENGTH('a) \<and> k < n \<and> buf_bit buf (off + (n - 1 - k))"
  unfolding be_bits_def by (subst be_bits_loop) auto

text \<open>A reader looks at the bits of its field only.\<close>

lemma be_bits_cong:
  assumes "\<And>i. off \<le> i \<Longrightarrow> i < off + n \<Longrightarrow> buf_bit buf i = buf_bit buf' i"
  shows "(be_bits buf off n :: 'a::len word) = be_bits buf' off n"
proof (rule bit_word_eqI)
  fix k
  show "bit (be_bits buf off n :: 'a word) k = bit (be_bits buf' off n :: 'a word) k"
    using assms [of "off + (n - 1 - k)"] by (auto simp: bit_be_bits)
qed

lemma buf_bit_take: "i < 8 * m \<Longrightarrow> buf_bit (take m buf) i = buf_bit buf i"
  by (simp add: buf_bit_def)

lemma be_bits_take [simp]:
  "off + n \<le> 8 * m \<Longrightarrow> (be_bits (take m buf) off n :: 'a::len word) = be_bits buf off n"
  by (rule be_bits_cong) (simp add: buf_bit_take)

lemma read_bits_be_take [simp]:
  "off + n \<le> 8 * m \<Longrightarrow> read_bits_be (take m buf) off n = read_bits_be buf off n"
  "off + n \<le> 8 * m \<Longrightarrow> read_bits_be64 (take m buf) off n = read_bits_be64 buf off n"
  "off + n \<le> 8 * m \<Longrightarrow> read_signed_bits_be (take m buf) off n = read_signed_bits_be buf off n"
  "off + n \<le> 8 * m \<Longrightarrow> read_signed_bits_be64 (take m buf) off n = read_signed_bits_be64 buf off n"
  by (simp_all add: read_bits_be_def read_bits_be64_def read_signed_bits_be_def
      read_signed_bits_be64_def)

lemma be_bits_less: "n \<le> LENGTH('a) \<Longrightarrow> uint (be_bits buf off n :: 'a::len word) < 2 ^ n"
proof -
  assume "n \<le> LENGTH('a)"
  have "take_bit n (be_bits buf off n :: 'a word) = be_bits buf off n"
    by (rule bit_word_eqI) (auto simp: bit_be_bits bit_simps)
  then have "take_bit n (uint (be_bits buf off n :: 'a word)) = uint (be_bits buf off n :: 'a word)"
    by (metis unsigned_take_bit_eq)
  then show ?thesis by (metis take_bit_int_less_exp)
qed

section \<open>The number a buffer spells\<close>

definition be_nat :: "bytes \<Rightarrow> nat" where
  "be_nat buf = foldl (\<lambda>a b. a * 256 + unat b) 0 buf"

lemma be_nat_snoc: "be_nat (buf @ [b]) = be_nat buf * 256 + unat b"
  by (simp add: be_nat_def)

lemma bit_be_nat:
  "bit (be_nat buf) j \<longleftrightarrow> j < 8 * length buf \<and> buf_bit buf (8 * length buf - 1 - j)"
proof (induction buf arbitrary: j rule: rev_induct)
  case Nil
  then show ?case by (simp add: be_nat_def)
next
  case (snoc b buf)
  have e: "be_nat (buf @ [b]) = push_bit 8 (be_nat buf) OR unat b"
  proof -
    have "push_bit 8 (be_nat buf) + unat b = push_bit 8 (be_nat buf) OR unat b"
      by (rule disjunctive_add) (auto simp: bit_simps dest: bit_imp_le_length)
    then show ?thesis by (simp add: be_nat_snoc push_bit_eq_mult)
  qed
  show ?case
  proof (cases "j < 8")
    case True
    obtain r where r: "j + r = 7" "r < 8" "7 - r = j" using True that [of "7 - j"] by simp
    then have "8 * length (buf @ [b]) - 1 - j = 8 * length buf + r" by simp
    with r have "buf_bit (buf @ [b]) (8 * length (buf @ [b]) - 1 - j) = bit b j"
      by (simp add: buf_bit_append2 buf_bit_def)
    with True show ?thesis
      unfolding e by (simp add: bit_or_iff bit_push_bit_iff_nat bit_unsigned_iff)
  next
    case False
    have "buf_bit (buf @ [b]) (8 * length (buf @ [b]) - 1 - j) = buf_bit buf (8 * length buf - 1 - (j - 8))"
      if "j < 8 * length (buf @ [b])"
    proof -
      have "8 * length (buf @ [b]) - 1 - j = 8 * length buf - 1 - (j - 8)" using False by simp
      moreover have "8 * length buf - 1 - (j - 8) < 8 * length buf" using that False by simp
      ultimately show ?thesis by (simp only: buf_bit_append1)
    qed
    moreover have "bit (push_bit 8 (be_nat buf) OR unat b) j \<longleftrightarrow> bit (be_nat buf) (j - 8)"
      using False by (simp add: bit_or_iff bit_push_bit_iff_nat not_bit_unat_u8)
    moreover have "j - 8 < 8 * length buf \<longleftrightarrow> j < 8 * length (buf @ [b])" using False by auto
    ultimately show ?thesis unfolding e using snoc [of "j - 8"] by blast
  qed
qed

lemma be_bits_slice:
  assumes "off + n \<le> 8 * length buf" and "n \<le> LENGTH('a)"
  shows "unat (be_bits buf off n :: 'a::len word)
    = be_nat buf div 2 ^ (8 * length buf - (off + n)) mod 2 ^ n"
proof -
  let ?s = "8 * length buf - (off + n)"
  have "unat (be_bits buf off n :: 'a word) = take_bit n (drop_bit ?s (be_nat buf))"
  proof (rule bit_eqI)
    fix k
    have "8 * length buf - 1 - (?s + k) = off + (n - 1 - k)" if "k < n" using assms that by simp
    then show "bit (unat (be_bits buf off n :: 'a word)) k = bit (take_bit n (drop_bit ?s (be_nat buf))) k"
      using assms by (auto simp: bit_unsigned_iff bit_be_bits bit_take_bit_iff bit_drop_bit_eq bit_be_nat)
  qed
  then show ?thesis by (simp add: take_bit_eq_mod drop_bit_eq_div)
qed

section \<open>Sign extension\<close>

lemma xor_sub_sign:
  fixes raw :: "'a::len word"
  assumes n: "0 < n" "n < LENGTH('a)" and raw: "uint raw < 2 ^ n"
  shows "sint ((raw XOR push_bit (n - 1) 1) - push_bit (n - 1) 1) = signed_take_bit (n - 1) (uint raw)"
proof -
  let ?s = "push_bit (n - 1) 1 :: 'a word"
  have us: "?s = word_of_int (2 ^ (n - 1))" by simp
  have p: "(2::int) ^ n = 2 * 2 ^ (n - 1)" using n(1) by (metis Suc_pred' power_Suc)
  have big: "(2::int) ^ n \<le> 2 ^ (LENGTH('a) - 1)" using n by (intro power_increasing) auto
  have stb: "signed_take_bit (n - 1) (uint raw) = (if bit (uint raw) (n - 1) then uint raw - 2 ^ n else uint raw)"
  proof -
    have "take_bit n (uint raw) = uint raw" using raw by (simp add: take_bit_int_eq_self)
    then show ?thesis
      using n(1) raw p
      by (simp add: signed_take_bit_eq_take_bit_minus)
  qed
  have x: "raw XOR ?s = (if bit raw (n - 1) then raw - ?s else raw + ?s)"
  proof (cases "bit raw (n - 1)")
    case True
    have "(raw XOR ?s) + ?s = (raw XOR ?s) OR ?s"
      using True n by (intro disjunctive_add) (auto simp: bit_simps)
    also have "\<dots> = raw"
      using True by (intro bit_word_eqI) (auto simp: bit_simps)
    finally show ?thesis using True by (simp add: algebra_simps)
  next
    case False
    have "raw + ?s = raw OR ?s"
      using False n by (intro disjunctive_add) (auto simp: bit_simps)
    also have "\<dots> = raw XOR ?s"
      using False by (intro bit_word_eqI) (auto simp: bit_simps)
    finally show ?thesis using False by simp
  qed
  have b: "bit (uint raw) (n - 1) = bit raw (n - 1)"
    by (auto simp: bit_uint_iff dest: bit_imp_le_length)
  have "sint ((raw XOR ?s) - ?s) = (if bit raw (n - 1) then uint raw - 2 ^ n else uint raw)"
  proof (cases "bit raw (n - 1)")
    case True
    have "(raw XOR ?s) - ?s = word_of_int (uint raw) - 2 * word_of_int (2 ^ (n - 1))"
      using True x us by simp
    also have "\<dots> = word_of_int (uint raw - 2 ^ n)" unfolding p by simp
    finally have e: "(raw XOR ?s) - ?s = word_of_int (uint raw - 2 ^ n)" .
    have "sint (word_of_int (uint raw - 2 ^ n) :: 'a word) = uint raw - 2 ^ n"
      using raw big uint_ge_0 [of raw]
      by (simp only: signed_of_int of_int_eq_id id_apply, intro signed_take_bit_int_eq_self, unfold One_nat_def [symmetric]) linarith+
    then show ?thesis using True e by simp
  next
    case False
    have "uint raw < 2 ^ (LENGTH('a) - 1)" using raw big by linarith
    then have "sint (word_of_int (uint raw) :: 'a word) = uint raw"
      using uint_ge_0 [of raw]
      by (simp only: signed_of_int of_int_eq_id id_apply,
          intro signed_take_bit_int_eq_self, unfold One_nat_def [symmetric]) linarith+
    then show ?thesis using False x by simp
  qed
  then show ?thesis by (simp only: stb b)
qed

text \<open>
  The signed readers return the field as two's complement. The 32-bit reader hands it
  back as a \<open>uint32_t\<close>, so the value is only recovered where the caller converts the
  pattern to \<open>int32_t\<close> (\<open>sint\<close>).
\<close>

lemma sint_read_signed_bits_be:
  assumes "0 < n" "n < 32"
  shows "sint (read_signed_bits_be buf off n) = signed_take_bit (n - 1) (uint (read_bits_be buf off n))"
  using assms xor_sub_sign [of n "read_bits_be buf off n"] be_bits_less [of n buf off, where 'a = 32]
  by (simp add: read_signed_bits_be_def read_bits_be_def Let_def)

lemma sint_read_signed_bits_be64:
  assumes "0 < n" "n < 64"
  shows "sint (read_signed_bits_be64 buf off n) = signed_take_bit (n - 1) (uint (read_bits_be64 buf off n))"
  using assms xor_sub_sign [of n "read_bits_be64 buf off n"] be_bits_less [of n buf off, where 'a = 64]
  by (simp add: read_signed_bits_be64_def read_bits_be64_def Let_def)

lemma read_signed_bits_be_32:
  "read_signed_bits_be buf off 32 = read_bits_be buf off 32"
  by (simp add: read_signed_bits_be_def)

section \<open>Packing\<close>

text \<open>
  The sender's side, as the receiver's protocol defines it: fields written one after
  the other, each most significant bit first.
\<close>

definition field_bits :: "nat \<Rightarrow> nat \<Rightarrow> bool list" where
  "field_bits w v = map (\<lambda>j. bit v (w - 1 - j)) [0..<w]"

fun pack_fields :: "(nat \<times> nat) list \<Rightarrow> bool list" where
  "pack_fields [] = []"
| "pack_fields ((w, v) # fs) = field_bits w v @ pack_fields fs"

definition byte_of_bits :: "bool list \<Rightarrow> u8" where
  "byte_of_bits bs = horner_sum of_bool 2 (rev bs)"

fun pack_bits :: "bool list \<Rightarrow> bytes" where
  "pack_bits bs = (if length bs < 8 then [] else byte_of_bits (take 8 bs) # pack_bits (drop 8 bs))"

declare pack_bits.simps [simp del]

lemma length_field_bits [simp]: "length (field_bits w v) = w"
  by (simp add: field_bits_def)

lemma nth_field_bits: "j < w \<Longrightarrow> field_bits w v ! j = bit v (w - 1 - j)"
  by (simp add: field_bits_def)

lemma length_pack_fields [simp]: "length (pack_fields fs) = sum_list (map fst fs)"
  by (induction fs) auto

lemma bit_byte_of_bits:
  "length bs = 8 \<Longrightarrow> i < 8 \<Longrightarrow> bit (byte_of_bits bs) (7 - i) = bs ! i"
  by (auto simp: byte_of_bits_def bit_horner_sum_bit_word_iff rev_nth)

lemma length_pack_bits [simp]: "length (pack_bits bs) = length bs div 8"
proof (induction bs rule: pack_bits.induct)
  case (1 bs)
  then show ?case by (subst pack_bits.simps) (auto simp: le_div_geq)
qed

lemma buf_bit_pack_bits: "i < 8 * (length bs div 8) \<Longrightarrow> buf_bit (pack_bits bs) i = bs ! i"
proof (induction bs arbitrary: i rule: pack_bits.induct)
  case (1 bs)
  then have l: "\<not> length bs < 8" by auto
  then have e: "pack_bits bs = byte_of_bits (take 8 bs) # pack_bits (drop 8 bs)"
    by (subst pack_bits.simps) simp
  show ?case
  proof (cases "i < 8")
    case True
    with l show ?thesis by (simp add: e buf_bit_def bit_byte_of_bits)
  next
    case False
    have "buf_bit (pack_bits bs) i = buf_bit (pack_bits (drop 8 bs)) (i - 8)"
      using False by (simp add: e buf_bit_def nth_Cons' le_div_geq le_mod_geq)
    also have "\<dots> = drop 8 bs ! (i - 8)"
      using 1 l False by (intro "1.IH") (auto simp: le_div_geq)
    finally show ?thesis using False l by simp
  qed
qed

lemma nth_pack_fields:
  assumes "k < length fs" "fs ! k = (w, v)" "j < w"
  shows "pack_fields fs ! (sum_list (map fst (take k fs)) + j) = bit v (w - 1 - j)"
  using assms
proof (induction fs arbitrary: k)
  case Nil
  then show ?case by simp
next
  case (Cons f fs)
  obtain w' v' where f: "f = (w', v')" by (cases f)
  show ?case
  proof (cases k)
    case 0
    with Cons.prems f show ?thesis by (simp add: nth_append nth_field_bits)
  next
    case (Suc m)
    with Cons f show ?thesis by (simp add: nth_append add.assoc)
  qed
qed

text \<open>Reading at the place where a field was packed gives the field back.\<close>

lemma be_bits_pack:
  assumes k: "k < length fs" "fs ! k = (w, v)"
    and tot: "8 dvd sum_list (map fst fs)"
    and off: "off = 8 * length pre + sum_list (map fst (take k fs))"
    and w: "w \<le> LENGTH('a)"
  shows "(be_bits (pre @ pack_bits (pack_fields fs) @ post) off w :: 'a::len word) = of_nat (take_bit w v)"
proof (rule bit_word_eqI)
  fix n assume n: "n < LENGTH('a)"
  let ?s = "sum_list (map fst (take k fs))"
  let ?t = "sum_list (map fst fs)"
  have split: "?t = ?s + w + sum_list (map fst (drop (Suc k) fs))"
    using k by (subst id_take_nth_drop [OF k(1)]) simp
  have len: "8 * (length (pack_fields fs) div 8) = ?t" using tot by simp
  have "buf_bit (pre @ pack_bits (pack_fields fs) @ post) (off + (w - 1 - n)) = bit v n" if "n < w"
  proof -
    have i: "?s + (w - 1 - n) < 8 * (length (pack_fields fs) div 8)"
      unfolding len using split that by simp
    have "buf_bit (pre @ pack_bits (pack_fields fs) @ post) (off + (w - 1 - n))
        = buf_bit (pack_bits (pack_fields fs) @ post) (?s + (w - 1 - n))"
      unfolding off by (simp only: add.assoc buf_bit_append2)
    also have "\<dots> = buf_bit (pack_bits (pack_fields fs)) (?s + (w - 1 - n))"
      using i by (intro buf_bit_append1) simp
    also have "\<dots> = pack_fields fs ! (?s + (w - 1 - n))" using i by (rule buf_bit_pack_bits)
    also have "\<dots> = bit v n" using k that by (subst nth_pack_fields) auto
    finally show ?thesis .
  qed
  then show "bit (be_bits (pre @ pack_bits (pack_fields fs) @ post) off w :: 'a word) n
      = bit (of_nat (take_bit w v) :: 'a word) n"
    using n by (auto simp: bit_be_bits bit_of_nat_iff bit_take_bit_iff)
qed

section \<open>Exactness of the scaling\<close>

lemma num_bits_mono: "a \<le> b \<Longrightarrow> num_bits a \<le> num_bits b"
proof (rule ccontr)
  assume ab: "a \<le> b" and "\<not> num_bits a \<le> num_bits b"
  then have n: "num_bits b \<le> num_bits a - 1" "0 < a"
    using num_bits_eq_0 [of a] by (auto simp: not_le)
  have "b < 2 ^ num_bits b" using num_bits_bounds [of b] by simp
  also have "\<dots> \<le> 2 ^ (num_bits a - 1)" using n by simp
  also have "\<dots> \<le> a" using num_bits_bounds [of a] n by simp
  finally show False using ab by simp
qed

end
