(* ===== verification/Crc24.thy ===== *)
theory Crc24
  imports BitReader
begin

text \<open>
  The checksum of the receiver's binary messages: \<open>tbl_CRC24Q\<close> and \<open>rtk_crc24q\<close> of
  \<open>core/src/gnss_ephb.c\<close>. The table-driven routine is compared with the division by the
  polynomial \<open>0x1864CFB\<close> one bit at a time, which is linear and injective; from these two
  facts follow the error detection lemmas that the packet scanner rests on.
\<close>

definition tbl_CRC24Q :: "u32 list" where
  "tbl_CRC24Q =
     [0x000000, 0x864CFB, 0x8AD50D, 0x0C99F6, 0x93E6E1, 0x15AA1A, 0x1933EC, 0x9F7F17,
      0xA18139, 0x27CDC2, 0x2B5434, 0xAD18CF, 0x3267D8, 0xB42B23, 0xB8B2D5, 0x3EFE2E,
      0xC54E89, 0x430272, 0x4F9B84, 0xC9D77F, 0x56A868, 0xD0E493, 0xDC7D65, 0x5A319E,
      0x64CFB0, 0xE2834B, 0xEE1ABD, 0x685646, 0xF72951, 0x7165AA, 0x7DFC5C, 0xFBB0A7,
      0x0CD1E9, 0x8A9D12, 0x8604E4, 0x00481F, 0x9F3708, 0x197BF3, 0x15E205, 0x93AEFE,
      0xAD50D0, 0x2B1C2B, 0x2785DD, 0xA1C926, 0x3EB631, 0xB8FACA, 0xB4633C, 0x322FC7,
      0xC99F60, 0x4FD39B, 0x434A6D, 0xC50696, 0x5A7981, 0xDC357A, 0xD0AC8C, 0x56E077,
      0x681E59, 0xEE52A2, 0xE2CB54, 0x6487AF, 0xFBF8B8, 0x7DB443, 0x712DB5, 0xF7614E,
      0x19A3D2, 0x9FEF29, 0x9376DF, 0x153A24, 0x8A4533, 0x0C09C8, 0x00903E, 0x86DCC5,
      0xB822EB, 0x3E6E10, 0x32F7E6, 0xB4BB1D, 0x2BC40A, 0xAD88F1, 0xA11107, 0x275DFC,
      0xDCED5B, 0x5AA1A0, 0x563856, 0xD074AD, 0x4F0BBA, 0xC94741, 0xC5DEB7, 0x43924C,
      0x7D6C62, 0xFB2099, 0xF7B96F, 0x71F594, 0xEE8A83, 0x68C678, 0x645F8E, 0xE21375,
      0x15723B, 0x933EC0, 0x9FA736, 0x19EBCD, 0x8694DA, 0x00D821, 0x0C41D7, 0x8A0D2C,
      0xB4F302, 0x32BFF9, 0x3E260F, 0xB86AF4, 0x2715E3, 0xA15918, 0xADC0EE, 0x2B8C15,
      0xD03CB2, 0x567049, 0x5AE9BF, 0xDCA544, 0x43DA53, 0xC596A8, 0xC90F5E, 0x4F43A5,
      0x71BD8B, 0xF7F170, 0xFB6886, 0x7D247D, 0xE25B6A, 0x641791, 0x688E67, 0xEEC29C,
      0x3347A4, 0xB50B5F, 0xB992A9, 0x3FDE52, 0xA0A145, 0x26EDBE, 0x2A7448, 0xAC38B3,
      0x92C69D, 0x148A66, 0x181390, 0x9E5F6B, 0x01207C, 0x876C87, 0x8BF571, 0x0DB98A,
      0xF6092D, 0x7045D6, 0x7CDC20, 0xFA90DB, 0x65EFCC, 0xE3A337, 0xEF3AC1, 0x69763A,
      0x578814, 0xD1C4EF, 0xDD5D19, 0x5B11E2, 0xC46EF5, 0x42220E, 0x4EBBF8, 0xC8F703,
      0x3F964D, 0xB9DAB6, 0xB54340, 0x330FBB, 0xAC70AC, 0x2A3C57, 0x26A5A1, 0xA0E95A,
      0x9E1774, 0x185B8F, 0x14C279, 0x928E82, 0x0DF195, 0x8BBD6E, 0x872498, 0x016863,
      0xFAD8C4, 0x7C943F, 0x700DC9, 0xF64132, 0x693E25, 0xEF72DE, 0xE3EB28, 0x65A7D3,
      0x5B59FD, 0xDD1506, 0xD18CF0, 0x57C00B, 0xC8BF1C, 0x4EF3E7, 0x426A11, 0xC426EA,
      0x2AE476, 0xACA88D, 0xA0317B, 0x267D80, 0xB90297, 0x3F4E6C, 0x33D79A, 0xB59B61,
      0x8B654F, 0x0D29B4, 0x01B042, 0x87FCB9, 0x1883AE, 0x9ECF55, 0x9256A3, 0x141A58,
      0xEFAAFF, 0x69E604, 0x657FF2, 0xE33309, 0x7C4C1E, 0xFA00E5, 0xF69913, 0x70D5E8,
      0x4E2BC6, 0xC8673D, 0xC4FECB, 0x42B230, 0xDDCD27, 0x5B81DC, 0x57182A, 0xD154D1,
      0x26359F, 0xA07964, 0xACE092, 0x2AAC69, 0xB5D37E, 0x339F85, 0x3F0673, 0xB94A88,
      0x87B4A6, 0x01F85D, 0x0D61AB, 0x8B2D50, 0x145247, 0x921EBC, 0x9E874A, 0x18CBB1,
      0xE37B16, 0x6537ED, 0x69AE1B, 0xEFE2E0, 0x709DF7, 0xF6D10C, 0xFA48FA, 0x7C0401,
      0x42FA2F, 0xC4B6D4, 0xC82F22, 0x4E63D9, 0xD11CCE, 0x575035, 0x5BC9C3, 0xDD8538]"

definition crc24q_step :: "u32 \<Rightarrow> u8 \<Rightarrow> u32" where
  "crc24q_step crc b =
     (push_bit 8 crc AND 0xFFFFFF) XOR tbl_CRC24Q ! unat (drop_bit 16 crc XOR ucast b)"

definition rtk_crc24q :: "bytes \<Rightarrow> nat \<Rightarrow> u32" where
  "rtk_crc24q buff len = foldl crc24q_step 0 (take len buff)"

section \<open>Division one bit at a time\<close>

definition crc_shift :: "u32 \<Rightarrow> u32" where
  "crc_shift c = (push_bit 1 c AND 0xFFFFFF) XOR (if bit c 23 then 0x864CFB else 0)"

definition crc_byte :: "u32 \<Rightarrow> u8 \<Rightarrow> u32" where
  "crc_byte c b = (crc_shift ^^ 8) (c XOR push_bit 16 (ucast b))"

definition crc24_ref :: "bytes \<Rightarrow> u32" where
  "crc24_ref bs = foldl crc_byte 0 bs"

text \<open>The bits of a shifted register.\<close>

lemma mask24: "(0xFFFFFF :: u32) = mask 24"
  by (simp add: mask_eq_exp_minus_1)

lemma bit_crc_shift:
  "bit (crc_shift c) n \<longleftrightarrow>
     (n < 24 \<and> 1 \<le> n \<and> bit c (n - 1)) \<noteq> (bit c 23 \<and> bit (0x864CFB :: u32) n)"
proof -
  have "bit (push_bit 1 c AND 0xFFFFFF) n \<longleftrightarrow> n < 24 \<and> 1 \<le> n \<and> bit c (n - 1)"
    unfolding mask24 by (auto simp only: bit_and_iff bit_push_bit_iff bit_mask_iff possible_bit_word) simp_all
  then show ?thesis
    by (cases "bit c 23") (simp_all only: crc_shift_def bit_xor_iff if_True if_False bit_0_eq bot_apply bot_bool_def, simp_all)
qed

lemma xor_left_cancel: "c XOR a = c XOR b \<Longrightarrow> a = (b :: u32)"
  by (simp add: xor_right_cancel xor.commute [of c])

lemma crc_shift_xor: "crc_shift (a XOR b) = crc_shift a XOR crc_shift b"
  by (rule bit_word_eqI) (auto simp only: bit_crc_shift bit_xor_iff)

lemma crc_shifts_xor: "(crc_shift ^^ n) (a XOR b) = (crc_shift ^^ n) a XOR (crc_shift ^^ n) b"
  by (induction n) (auto simp: crc_shift_xor)

lemma crc_shift_0 [simp]: "crc_shift 0 = 0"
  by (simp add: crc_shift_def)

lemma crc_shifts_0 [simp]: "(crc_shift ^^ n) 0 = 0"
  by (induction n) auto

text \<open>A register holds 24 bits.\<close>

definition is24 :: "u32 \<Rightarrow> bool" where
  "is24 c \<longleftrightarrow> take_bit 24 c = c"

lemma is24_bit: "is24 c \<Longrightarrow> bit c n \<Longrightarrow> n < 24"
  unfolding is24_def by (metis bit_take_bit_iff)

lemma is24I: "(\<And>n. bit c n \<Longrightarrow> n < 24) \<Longrightarrow> is24 c"
  unfolding is24_def by (rule bit_word_eqI) (auto simp: bit_take_bit_iff)

lemma is24_xor: "is24 a \<Longrightarrow> is24 b \<Longrightarrow> is24 (a XOR b)"
  by (simp add: is24_def take_bit_xor)

lemma is24_0 [simp]: "is24 0"
  by (simp add: is24_def)

lemma is24_byte: "is24 (push_bit 16 (ucast (b :: u8)))"
proof (rule is24I)
  fix n assume "bit (push_bit 16 (ucast b) :: u32) n"
  then have "bit b (n - 16)" "16 \<le> n" by (auto simp: bit_push_bit_iff bit_ucast_iff)
  then show "n < 24" using bit_imp_le_length [of b "n - 16"] by simp
qed

lemma poly24: "bit (0x864CFB :: u32) n \<Longrightarrow> n < 24"
proof -
  have "is24 0x864CFB" by (simp add: is24_def)
  then show "bit (0x864CFB :: u32) n \<Longrightarrow> n < 24" by (rule is24_bit)
qed

lemma is24_shift: "is24 (crc_shift c)"
  by (rule is24I) (auto simp only: bit_crc_shift dest: poly24)

lemma is24_shifts: "is24 c \<Longrightarrow> is24 ((crc_shift ^^ n) c)"
  by (cases n) (auto simp: is24_shift)

lemma crc_shift_zero: "is24 c \<Longrightarrow> crc_shift c = 0 \<Longrightarrow> c = 0"
proof -
  assume c: "is24 c" and z: "crc_shift c = 0"
  have b: "(n < 24 \<and> 1 \<le> n \<and> bit c (n - 1)) = (bit c 23 \<and> bit (0x864CFB :: u32) n)" for n
    using bit_crc_shift [of c n] unfolding z bit_0_eq by blast
  have "bit (0x864CFB :: u32) 0" by simp
  with b [of 0] have n23: "\<not> bit c 23" by (simp del: bit_0)
  show "c = 0"
  proof (rule bit_word_eqI)
    fix n
    have "\<not> bit c n"
    proof
      assume n: "bit c n"
      then have "n < 23" using is24_bit [OF c n] n23 by (cases "n = 23") auto
      then show False using b [of "Suc n"] n n23 by simp
    qed
    then show "bit c n = bit 0 n" by simp
  qed
qed

lemma crc_shifts_zero: "is24 c \<Longrightarrow> (crc_shift ^^ n) c = 0 \<Longrightarrow> c = 0"
proof (induction n)
  case 0
  then show ?case by simp
next
  case (Suc n)
  then have "(crc_shift ^^ n) c = 0"
    using crc_shift_zero [of "(crc_shift ^^ n) c"] is24_shifts by simp
  with Suc show ?case by simp
qed

lemma crc_shifts_inj:
  assumes "is24 a" "is24 b" "(crc_shift ^^ n) a = (crc_shift ^^ n) b"
  shows "a = b"
proof -
  have "(crc_shift ^^ n) (a XOR b) = 0" using assms by (simp add: crc_shifts_xor)
  then have x: "a XOR b = 0" by (rule crc_shifts_zero [OF is24_xor [OF assms(1,2)]])
  show ?thesis
  proof (rule bit_word_eqI)
    fix n
    have "\<not> bit (a XOR b) n" unfolding x by simp
    then show "bit a n = bit b n" by (simp add: bit_xor_iff)
  qed
qed

text \<open>Small registers only move.\<close>

lemma crc_shifts_small: "(\<And>m. bit c m \<Longrightarrow> m < k) \<Longrightarrow> k + n \<le> 24 \<Longrightarrow> (crc_shift ^^ n) c = push_bit n c"
proof (induction n)
  case 0
  then show ?case by simp
next
  case (Suc n)
  note b = Suc.prems(1)
  have n23: "\<not> bit (push_bit n c) 23"
    using b [of "23 - n"] Suc.prems(2) by (auto simp: bit_push_bit_iff)
  have "crc_shift (push_bit n c) = push_bit (Suc n) c"
  proof (rule bit_word_eqI)
    fix m assume m: "m < LENGTH(32)"
    have "bit c (m - Suc n) \<Longrightarrow> Suc n \<le> m \<Longrightarrow> m < 24" using b [of "m - Suc n"] Suc.prems(2) by simp
    then show "bit (crc_shift (push_bit n c)) m = bit (push_bit (Suc n) c) m"
      using m n23 unfolding bit_crc_shift by (auto simp: bit_push_bit_iff simp del: push_bit_Suc)
  qed
  with Suc show ?case by (simp del: push_bit_Suc)
qed

section \<open>The table\<close>

text \<open>
  Each power of two doubles the part of the table that is known to be right: the entries
  from \<open>2 ^ k\<close> on are those below, each combined with entry \<open>2 ^ k\<close>.
\<close>

lemma tbl_length: "length tbl_CRC24Q = 256"
  by (simp add: tbl_CRC24Q_def)

lemma crc_shift8: "(crc_shift ^^ 8) c =
    crc_shift (crc_shift (crc_shift (crc_shift (crc_shift (crc_shift (crc_shift (crc_shift c)))))))"
  by (simp add: numeral_eq_Suc)

lemma tbl_powers:
  "list_all (\<lambda>k. tbl_CRC24Q ! (2 ^ k) = (crc_shift ^^ 8) (push_bit 16 (push_bit k 1))) [0..<8]"
  by (simp add: tbl_CRC24Q_def crc_shift_def crc_shift8 upt_rec)

lemma tbl_double:
  "list_all (\<lambda>k. take (2 ^ k) (drop (2 ^ k) tbl_CRC24Q)
      = map (\<lambda>x. x XOR tbl_CRC24Q ! (2 ^ k)) (take (2 ^ k) tbl_CRC24Q)) [0..<8]"
  by (simp add: tbl_CRC24Q_def upt_rec)

lemma xor_pow2: "i < 2 ^ k \<Longrightarrow> (of_nat i XOR push_bit k 1 :: u32) = of_nat (i + 2 ^ k)"
proof -
  assume i: "i < 2 ^ k"
  then have b: "\<not> bit i m" if "k \<le> m" for m
    using that by (metis bit_take_bit_iff not_le take_bit_nat_eq_self)
  have "i + 2 ^ k = i OR 2 ^ k"
    by (rule disjunctive_add) (use b in \<open>auto simp: bit_exp_iff\<close>)
  also have "\<dots> = i XOR push_bit k 1"
    by (rule bit_eqI) (use b in \<open>auto simp: bit_or_iff bit_xor_iff bit_exp_iff\<close>)
  finally show ?thesis by (simp add: of_nat_xor_eq of_nat_push_bit)
qed

lemma tbl_upto: "k \<le> 8 \<Longrightarrow> i < 2 ^ k \<Longrightarrow> tbl_CRC24Q ! i = (crc_shift ^^ 8) (push_bit 16 (of_nat i))"
proof (induction k arbitrary: i)
  case 0
  then show ?case by (simp add: tbl_CRC24Q_def)
next
  case (Suc k)
  show ?case
  proof (cases "i < 2 ^ k")
    case True
    with Suc show ?thesis by simp
  next
    case False
    define j where "j = i - 2 ^ k"
    have j: "i = j + 2 ^ k" "j < 2 ^ k" using False Suc.prems by (auto simp: j_def)
    have k: "k \<in> set [0..<8]" using Suc.prems by simp
    have "(2::nat) ^ k \<le> 2 ^ 7" using Suc.prems by (intro power_increasing) auto
    then have le: "i < length tbl_CRC24Q" using j by (simp add: tbl_length)
    have d: "take (2 ^ k) (drop (2 ^ k) tbl_CRC24Q)
      = map (\<lambda>x. x XOR tbl_CRC24Q ! (2 ^ k)) (take (2 ^ k) tbl_CRC24Q)"
      using tbl_double k unfolding list_all_iff by blast
    have p: "tbl_CRC24Q ! (2 ^ k) = (crc_shift ^^ 8) (push_bit 16 (push_bit k 1))"
      using tbl_powers k unfolding list_all_iff by blast
    have "tbl_CRC24Q ! i = take (2 ^ k) (drop (2 ^ k) tbl_CRC24Q) ! j"
      using j le by (simp add: add.commute)
    also have "\<dots> = tbl_CRC24Q ! j XOR tbl_CRC24Q ! (2 ^ k)"
      unfolding d using j le by simp
    also have "\<dots> = (crc_shift ^^ 8) (push_bit 16 (of_nat j) XOR push_bit 16 (push_bit k 1))"
      using Suc.IH [OF _ j(2)] Suc.prems by (simp add: p crc_shifts_xor)
    also have "push_bit 16 (of_nat j) XOR push_bit 16 (push_bit k 1) = (push_bit 16 (of_nat i) :: u32)"
      by (simp only: push_bit_xor [symmetric] xor_pow2 [OF j(2)] j(1))
    finally show ?thesis .
  qed
qed

lemma tbl_CRC24Q_nth: "tbl_CRC24Q ! unat (b :: u8) = (crc_shift ^^ 8) (push_bit 16 (ucast b))"
proof -
  have "unat b < 2 ^ 8" by (rule order_less_le_trans [OF unsigned_less]) simp
  from tbl_upto [OF _ this] show ?thesis by simp
qed

text \<open>The table step is the division of one byte.\<close>

lemma low16_shift: "is24 c \<Longrightarrow> (crc_shift ^^ 8) (take_bit 16 c) = push_bit 8 c AND 0xFFFFFF"
proof -
  assume c: "is24 c"
  have "(crc_shift ^^ 8) (take_bit 16 c) = push_bit 8 (take_bit 16 c)"
    by (rule crc_shifts_small [where k = 16]) (auto simp: bit_take_bit_iff)
  also have "\<dots> = push_bit 8 c AND 0xFFFFFF"
    unfolding mask24 by (rule bit_word_eqI) (auto simp: bit_simps)
  finally show ?thesis .
qed

lemma crc24q_step_byte:
  assumes c: "is24 c"
  shows "crc24q_step c b = crc_byte c b"
proof -
  let ?i = "ucast (drop_bit 16 c) XOR b"
  have idx: "unat (drop_bit 16 c XOR ucast b) = unat ?i"
  proof -
    have "drop_bit 16 c XOR ucast b = (ucast ?i :: u32)"
      using is24_bit [OF c] by (intro bit_word_eqI) (fastforce simp: bit_simps dest: bit_imp_le_length)
    then show ?thesis by (simp add: unat_ucast_byte)
  qed
  have "c XOR push_bit 16 (ucast b) = take_bit 16 c XOR push_bit 16 (ucast ?i)"
    by (intro bit_word_eqI) (auto simp: bit_simps dest: bit_imp_le_length is24_bit [OF c])
  then show ?thesis
    by (simp add: crc_byte_def crc_shifts_xor low16_shift [OF c] crc24q_step_def idx tbl_CRC24Q_nth)
qed

lemma is24_crc_byte: "is24 c \<Longrightarrow> is24 (crc_byte c b)"
  by (simp add: crc_byte_def is24_shifts is24_xor is24_byte)

lemma foldl_crc_byte: "is24 c \<Longrightarrow> foldl crc24q_step c bs = foldl crc_byte c bs \<and> is24 (foldl crc_byte c bs)"
  by (induction bs arbitrary: c) (auto simp: crc24q_step_byte is24_crc_byte)

lemma rtk_crc24q_ref: "rtk_crc24q buff n = crc24_ref (take n buff)"
  by (simp add: rtk_crc24q_def crc24_ref_def foldl_crc_byte)

lemma is24_rtk_crc24q: "is24 (rtk_crc24q buff n)"
  using foldl_crc_byte [of 0 "take n buff"] by (simp add: rtk_crc24q_def)

section \<open>Error detection\<close>

lemma crc_byte_inj:
  assumes "is24 c" "is24 d" "crc_byte c b = crc_byte d b"
  shows "c = d"
proof -
  have "c XOR push_bit 16 (ucast b) = d XOR push_bit 16 (ucast b)"
    by (rule crc_shifts_inj [OF _ _ assms(3) [unfolded crc_byte_def]])
      (simp_all add: assms is24_xor is24_byte)
  then show ?thesis by (simp add: xor_right_cancel)
qed

lemma foldl_crc_inj:
  "is24 c \<Longrightarrow> is24 d \<Longrightarrow> foldl crc_byte c bs = foldl crc_byte d bs \<Longrightarrow> c = d"
proof (induction bs arbitrary: c d)
  case Nil
  then show ?case by simp
next
  case (Cons b bs)
  have "crc_byte c b = crc_byte d b"
    by (rule Cons.IH) (use Cons.prems in \<open>simp_all add: is24_crc_byte\<close>)
  then show ?case by (rule crc_byte_inj [OF Cons.prems(1,2)])
qed

text \<open>Three bytes enter the register as one 24-bit number.\<close>

definition three :: "u8 \<Rightarrow> u8 \<Rightarrow> u8 \<Rightarrow> u32" where
  "three x y z = push_bit 16 (ucast x) OR push_bit 8 (ucast y) OR ucast z"

lemma bit_three:
  "bit (three x y z) n \<longleftrightarrow> (16 \<le> n \<and> bit x (n - 16)) \<or> (8 \<le> n \<and> bit y (n - 8)) \<or> bit z n"
  unfolding three_def by (auto simp: bit_or_iff bit_push_bit_iff bit_ucast_iff dest: bit_imp_le_length)

lemma is24_three: "is24 (three x y z)"
  by (rule is24I) (auto simp: bit_three dest!: bit_imp_le_length)

lemma three_xor: "three x y z = push_bit 16 (ucast x) XOR push_bit 8 (ucast y) XOR ucast z"
  by (rule bit_word_eqI)
    (auto simp: bit_three bit_xor_iff bit_push_bit_iff bit_ucast_iff dest: bit_imp_le_length)

lemma three_inj: "three x y z = three x' y' z' \<Longrightarrow> x = x' \<and> y = y' \<and> z = z'"
proof -
  assume e: "three x y z = three x' y' z'"
  have b: "bit (three x y z) n = bit (three x' y' z') n" for n using e by simp
  have "bit x n = bit x' n \<and> bit y n = bit y' n \<and> bit z n = bit z' n" if n: "n < 8" for n
  proof -
    have out: "\<not> bit w m" if "8 \<le> m" for w :: u8 and m
      using that bit_imp_le_length [of w m] by auto
    show ?thesis
      using b [of "n + 16"] b [of "n + 8"] b [of n] n unfolding bit_three by (simp add: out)
  qed
  then have "x = x'" "y = y'" "z = z'" by (simp_all add: bit_eq_iff [where 'a = "8 word"] possible_bit_word)
  then show ?thesis by simp
qed

lemma crc_three_bytes:
  "foldl crc_byte c [x, y, z] = (crc_shift ^^ 24) (c XOR three x y z)"
proof -
  have s: "(crc_shift ^^ (m + n)) w = (crc_shift ^^ m) ((crc_shift ^^ n) w)" for m n w
    by (simp add: funpow_add)
  have y: "(crc_shift ^^ 8) (push_bit 8 (ucast y)) = push_bit 16 (ucast y)"
    by (subst crc_shifts_small [where k = 16])
      (auto simp: bit_push_bit_iff bit_ucast_iff push_bit_push_bit dest!: bit_imp_le_length)
  have z: "(crc_shift ^^ 16) (ucast z) = push_bit 16 (ucast z)"
    by (rule crc_shifts_small [where k = 8]) (auto simp: bit_ucast_iff dest: bit_imp_le_length)
  have 1: "(crc_shift ^^ 24) w = (crc_shift ^^ 8) ((crc_shift ^^ 8) ((crc_shift ^^ 8) w))" for w
    using s [of 8 16] s [of 8 8] by simp
  have 2: "(crc_shift ^^ 24) w = (crc_shift ^^ 8) ((crc_shift ^^ 16) w)" for w
    using s [of 8 16] by simp
  have "(crc_shift ^^ 24) (c XOR three x y z)
      = (crc_shift ^^ 24) c XOR (crc_shift ^^ 24) (push_bit 16 (ucast x))
        XOR (crc_shift ^^ 24) (push_bit 8 (ucast y)) XOR (crc_shift ^^ 24) (ucast z)"
    by (simp only: three_xor crc_shifts_xor xor.assoc)
  also have "(crc_shift ^^ 24) (push_bit 8 (ucast y))
      = (crc_shift ^^ 8) ((crc_shift ^^ 8) (push_bit 16 (ucast y)))"
    by (simp only: 1 y)
  also have "(crc_shift ^^ 24) (ucast z) = (crc_shift ^^ 8) (push_bit 16 (ucast z))"
    by (simp only: 2 z)
  also have "(crc_shift ^^ 24) c = (crc_shift ^^ 8) ((crc_shift ^^ 8) ((crc_shift ^^ 8) c))"
    by (rule 1)
  also have "(crc_shift ^^ 24) (push_bit 16 (ucast x))
      = (crc_shift ^^ 8) ((crc_shift ^^ 8) ((crc_shift ^^ 8) (push_bit 16 (ucast x))))"
    by (rule 1)
  finally show ?thesis
    by (simp only: foldl.simps crc_byte_def crc_shifts_xor xor.assoc)
qed

text \<open>
  Any corruption confined to three consecutive bytes changes the checksum: the checksum
  determines the window.
\<close>

lemma crc24_window:
  assumes "crc24_ref (pre @ [x, y, z] @ post) = crc24_ref (pre @ [x', y', z'] @ post)"
  shows "[x, y, z] = [x', y', z']"
proof -
  let ?c = "foldl crc_byte 0 pre"
  have c: "is24 ?c" using foldl_crc_byte [of 0 pre] by simp
  have "foldl crc_byte (foldl crc_byte ?c [x, y, z]) post = foldl crc_byte (foldl crc_byte ?c [x', y', z']) post"
    using assms by (simp add: crc24_ref_def)
  then have e: "foldl crc_byte ?c [x, y, z] = foldl crc_byte ?c [x', y', z']"
    by (rule foldl_crc_inj [rotated 2]) (simp_all add: is24_crc_byte c)
  have "?c XOR three x y z = ?c XOR three x' y' z'"
    by (rule crc_shifts_inj [OF _ _ e [unfolded crc_three_bytes]])
      (simp_all add: is24_xor is24_three c)
  then have "three x y z = three x' y' z'"
    by (rule xor_left_cancel)
  then show ?thesis by (simp add: three_inj)
qed

text \<open>A message followed by its own checksum has checksum zero.\<close>

lemma crc24_append_crc:
  assumes "three x y z = crc24_ref m"
  shows "crc24_ref (m @ [x, y, z]) = 0"
  using crc_three_bytes [of "foldl crc_byte 0 m" x y z] assms by (simp add: crc24_ref_def)

end
