(* ===== verification/GnssTypes.thy ===== *)
theory GnssTypes
  imports Prelude
begin

text \<open>
  The state that the GNSS thread and the network service share: \<open>gnss_ctrl_t\<close> of
  \<open>core/inc/gnss_func.h\<close> with its nested configuration structs, and
  \<open>glob_comm_config_t\<close> of \<open>core/inc/glob_value.h\<close>. Struct members carry the prefix of
  their struct; the two unions of bit-fields are their integer view, and the bit-field
  members are the bits from the least significant one on. The mutex is not state.
\<close>

datatype gnss_ParseDataType_t = GNSS_DATA_AUTO | GNSS_DATA_NMEA | GNSS_DATA_EPHB

datatype gnss_PrintType_t = GNSS_PRINT_NONE | GNSS_PRINT_FULL | GNSS_PRINT_SUMMARY

datatype gnss_CalcType_t = GNSS_CALC_FPPP | GNSS_CALC_DPPP | GNSS_CALC_PPP | GNSS_CALC_RTK
  | GNSS_CALC_RTD | GNSS_CALC_BDS_PPP | GNSS_CALC_BDS_RTK | GNSS_CALC_BDS_RTD

record File_cfg_t =
  file_en :: u8
  file_fd :: int
  file_path :: string

record gnss_eph_data_info_t =
  eph_output :: u8
  eph_file :: File_cfg_t

record gnss_nmea_data_info_t =
  nmea_output :: u8
  nmea_file :: File_cfg_t
  nmea_file_ex :: File_cfg_t

record gnss_ephb_cfg_t =
  ephb_print :: gnss_PrintType_t
  eph_bdxw :: gnss_eph_data_info_t
  eph_bd2 :: gnss_eph_data_info_t
  eph_bd3 :: gnss_eph_data_info_t
  eph_bd3cnav2 :: gnss_eph_data_info_t
  eph_bd3cnav3 :: gnss_eph_data_info_t
  eph_gps :: gnss_eph_data_info_t
  eph_gal :: gnss_eph_data_info_t
  eph_glo :: gnss_eph_data_info_t

record gnss_nmea_cfg_t =
  nmea_print :: gnss_PrintType_t
  nmea_print_ex :: gnss_PrintType_t
  nmea_gbs :: gnss_nmea_data_info_t
  nmea_gga :: gnss_nmea_data_info_t
  nmea_gll :: gnss_nmea_data_info_t
  nmea_gsa :: gnss_nmea_data_info_t
  nmea_gst :: gnss_nmea_data_info_t
  nmea_gsv :: gnss_nmea_data_info_t
  nmea_rmc :: gnss_nmea_data_info_t
  nmea_vtg :: gnss_nmea_data_info_t
  nmea_zda :: gnss_nmea_data_info_t

record gnss_data_cfg_t =
  cfg_ephb :: gnss_ephb_cfg_t
  cfg_nmea :: gnss_nmea_cfg_t

text \<open>
  \<open>data_nmea\<close> is the text collected so far and \<open>data_nmea_len\<close> its length. \<open>data_raw\<close>
  is the whole array of 8192 bytes, of which the first \<open>data_raw_len\<close> are pending data.
\<close>

record gnss_ctrl_t =
  gnss_fd :: int
  parseDataType :: gnss_ParseDataType_t
  data_nmea :: string
  data_raw :: bytes
  data_raw_len :: nat
  calcType :: gnss_CalcType_t
  sysType :: u8
  data_cfg :: gnss_data_cfg_t

abbreviation data_nmea_len :: "gnss_ctrl_t \<Rightarrow> nat" where
  "data_nmea_len g \<equiv> length (data_nmea g)"

definition MINMEA_MAX_SENTENCE_LENGTH :: nat where
  "MINMEA_MAX_SENTENCE_LENGTH = 80"

definition DATA_NMEA_SIZE :: nat where
  "DATA_NMEA_SIZE = MINMEA_MAX_SENTENCE_LENGTH + 16"

definition DATA_RAW_SIZE :: nat where
  "DATA_RAW_SIZE = 8192"

text \<open>The initial value of \<open>gnss_ctrl\<close>; members without an initializer are zero.\<close>

definition file_zero :: File_cfg_t where
  "file_zero = \<lparr>file_en = 0, file_fd = 0, file_path = ''''\<rparr>"

definition eph_zero :: gnss_eph_data_info_t where
  "eph_zero = \<lparr>eph_output = 0, eph_file = file_zero\<rparr>"

definition nmea_zero :: gnss_nmea_data_info_t where
  "nmea_zero = \<lparr>nmea_output = 0, nmea_file = file_zero, nmea_file_ex = file_zero\<rparr>"

definition gnss_ctrl_init :: gnss_ctrl_t where
  "gnss_ctrl_init =
     \<lparr>gnss_fd = - 1, parseDataType = GNSS_DATA_AUTO, data_nmea = [],
      data_raw = replicate DATA_RAW_SIZE 0, data_raw_len = 0,
      calcType = GNSS_CALC_FPPP, sysType = 0,
      data_cfg =
        \<lparr>cfg_ephb =
           \<lparr>ephb_print = GNSS_PRINT_SUMMARY, eph_bdxw = eph_zero, eph_bd2 = eph_zero,
            eph_bd3 = eph_zero, eph_bd3cnav2 = eph_zero, eph_bd3cnav3 = eph_zero,
            eph_gps = eph_zero, eph_gal = eph_zero, eph_glo = eph_zero\<rparr>,
         cfg_nmea =
           \<lparr>nmea_print = GNSS_PRINT_NONE, nmea_print_ex = GNSS_PRINT_SUMMARY,
            nmea_gbs = nmea_zero, nmea_gga = nmea_zero, nmea_gll = nmea_zero,
            nmea_gsa = nmea_zero, nmea_gst = nmea_zero, nmea_gsv = nmea_zero,
            nmea_rmc = nmea_zero, nmea_vtg = nmea_zero, nmea_zda = nmea_zero\<rparr>\<rparr>\<rparr>"

section \<open>The network configuration\<close>

datatype EPH_Type_t = BDXWEPH | BD2EPH | BD3EPH | BD3CNAV2EPH | BD3CNAV3EPH | GPSEPH | GALEPH | GLOEPH

text \<open>The value of the enumerator, which starts at 1.\<close>

fun EPH_Type_code :: "EPH_Type_t \<Rightarrow> u8" where
  "EPH_Type_code BDXWEPH = 1"
| "EPH_Type_code BD2EPH = 2"
| "EPH_Type_code BD3EPH = 3"
| "EPH_Type_code BD3CNAV2EPH = 4"
| "EPH_Type_code BD3CNAV3EPH = 5"
| "EPH_Type_code GPSEPH = 6"
| "EPH_Type_code GALEPH = 7"
| "EPH_Type_code GLOEPH = 8"

text \<open>The bit-field of a message type in \<open>eph_sw_t\<close>.\<close>

fun sw_bit :: "EPH_Type_t \<Rightarrow> nat" where
  "sw_bit BDXWEPH = 0"
| "sw_bit BD2EPH = 1"
| "sw_bit BD3EPH = 2"
| "sw_bit BD3CNAV2EPH = 3"
| "sw_bit BD3CNAV3EPH = 4"
| "sw_bit GPSEPH = 5"
| "sw_bit GALEPH = 6"
| "sw_bit GLOEPH = 7"

record glob_comm_config_t =
  eph_sw :: u16
  output_freq :: u8
  comm_id :: u16

definition glob_comm_config_init :: glob_comm_config_t where
  "glob_comm_config_init = \<lparr>eph_sw = 0, output_freq = 1, comm_id = 1\<rparr>"

definition eph_sw_on :: "glob_comm_config_t \<Rightarrow> EPH_Type_t \<Rightarrow> bool" where
  "eph_sw_on c t = bit (eph_sw c) (sw_bit t)"

end
