(* ===== verification/Layout.thy ===== *)
theory Layout
  imports BitReader
begin

text \<open>
  What the receiver protocol says about a binary message: a row per field with its
  width and the meaning of its bits. \<open>field_value\<close> interprets a raw field without
  words, loops or shifts, and \<open>fields_at\<close> cuts a message into raw fields; the decoder
  theories prove that each decoder is the row-wise interpretation of its table.
\<close>

datatype field_kind =
    Raw                \<comment> \<open>an unsigned number\<close>
  | Times nat          \<comment> \<open>an unsigned number in units\<close>
  | Uns int            \<comment> \<open>unsigned, scaled by a power of two\<close>
  | Sig int            \<comment> \<open>two's complement, scaled by a power of two\<close>
  | UnsPi int          \<comment> \<open>unsigned semicircles, scaled by a power of two\<close>
  | SigPi int          \<comment> \<open>two's complement semicircles, scaled by a power of two\<close>
  | Decimal dbl        \<comment> \<open>unsigned, in decimal units\<close>
  | SigDecimal dbl     \<comment> \<open>two's complement, in decimal units\<close>
  | WrapDecimal dbl    \<comment> \<open>two's complement taken modulo \<open>2 ^ 32\<close>, in decimal units\<close>
  | Gap                \<comment> \<open>bits without a meaning\<close>

datatype field_val = N nat | D dbl

text \<open>The value of the row \<open>(w, k)\<close> for the raw bits \<open>v\<close>.\<close>

definition signed_of :: "nat \<Rightarrow> nat \<Rightarrow> int" where
  "signed_of w v = (if v < 2 ^ (w - 1) then int v else int v - 2 ^ w)"

fun field_value :: "nat \<times> field_kind \<Rightarrow> nat \<Rightarrow> field_val list" where
  "field_value (w, Raw) v = [N v]"
| "field_value (w, Times n) v = [N (n * v)]"
| "field_value (w, Uns e) v = [D (Dbl (int v) e)]"
| "field_value (w, Sig e) v = [D (Dbl (signed_of w v) e)]"
| "field_value (w, UnsPi e) v = [D (dbl_mul (Dbl (int v) e) M_PI)]"
| "field_value (w, SigPi e) v = [D (dbl_mul (Dbl (signed_of w v) e) M_PI)]"
| "field_value (w, Decimal c) v = [D (dbl_mul (Dbl (int v) 0) c)]"
| "field_value (w, SigDecimal c) v = [D (dbl_mul (Dbl (signed_of w v) 0) c)]"
| "field_value (w, WrapDecimal c) v = [D (dbl_mul (Dbl (signed_of w v mod 2 ^ 32) 0) c)]"
| "field_value (w, Gap) v = []"

text \<open>Raw field at a bit offset, and the successive raw fields of a message.\<close>

definition fld :: "bytes \<Rightarrow> nat \<Rightarrow> nat \<Rightarrow> nat" where
  "fld buf off w = unat (be_bits buf off w :: u64)"

fun fields_at :: "nat list \<Rightarrow> nat \<Rightarrow> bytes \<Rightarrow> nat list" where
  "fields_at [] off buf = []"
| "fields_at (w # ws) off buf = fld buf off w # fields_at ws (off + w) buf"

definition interpret_fields :: "(nat \<times> field_kind) list \<Rightarrow> nat list \<Rightarrow> field_val list" where
  "interpret_fields rows vs = concat (map2 field_value rows vs)"

definition decode_rows :: "(nat \<times> field_kind) list \<Rightarrow> nat \<Rightarrow> bytes \<Rightarrow> field_val list" where
  "decode_rows rows off buf = interpret_fields rows (fields_at (map fst rows) off buf)"

lemma fields_at_pack_gen:
  assumes "length vs = length ws" "8 dvd (sum_list ws0 + sum_list ws)" "\<forall>w \<in> set ws. w \<le> 64"
    and "length vs0 = length ws0"
    and "off = 8 * length pre + sum_list ws0"
  shows "fields_at ws off (pre @ pack_bits (pack_fields (zip (ws0 @ ws) (vs0 @ vs))) @ post)
     = map2 (\<lambda>w v. take_bit w v) ws vs"
  using assms
proof (induction ws arbitrary: vs ws0 vs0 off)
  case Nil
  then show ?case by simp
next
  case (Cons w ws)
  then obtain v vs' where vs: "vs = v # vs'" by (cases vs) auto
  let ?fs = "zip (ws0 @ w # ws) (vs0 @ v # vs')"
  let ?B = "pre @ pack_bits (pack_fields ?fs) @ post"
  have len: "length vs0 = length ws0" "length vs' = length ws" using Cons.prems vs by auto
  have fst: "map fst ?fs = ws0 @ w # ws" using len by simp
  have fs: "?fs ! length ws0 = (w, v)" "length ws0 < length ?fs"
    using len by (simp_all add: nth_append)
  have tk: "map fst (take (length ws0) ?fs) = ws0"
    using len by (simp add: take_zip)
  have "(be_bits ?B off w :: u64) = of_nat (take_bit w v)"
  proof (rule be_bits_pack [OF fs(2) fs(1)])
    show "8 dvd sum_list (map fst ?fs)" unfolding fst using Cons.prems by (simp add: add.assoc)
    show "off = 8 * length pre + sum_list (map fst (take (length ws0) ?fs))"
      unfolding tk using Cons.prems by simp
    show "w \<le> LENGTH(64)" using Cons.prems by simp
  qed
  moreover have "take_bit w v < 2 ^ 64"
    by (rule order_less_le_trans [OF take_bit_nat_less_exp], rule power_increasing)
      (use Cons.prems in auto)
  ultimately have h: "fld ?B off w = take_bit w v"
    by (simp add: fld_def unat_of_nat take_bit_nat_eq_self flip: take_bit_eq_mod)
  have t: "fields_at ws (off + w) (pre @ pack_bits (pack_fields (zip ((ws0 @ [w]) @ ws) ((vs0 @ [v]) @ vs'))) @ post)
      = map2 (\<lambda>w v. take_bit w v) ws vs'"
    using Cons.prems len by (intro Cons.IH) (auto simp: add.assoc)
  show ?case using h t by (simp add: vs)
qed

text \<open>Cutting a packed message gives the packed raw fields.\<close>

theorem fields_at_pack:
  assumes "length vs = length ws" "8 dvd sum_list ws" "\<forall>w \<in> set ws. w \<le> 64"
  shows "fields_at ws (8 * length pre) (pre @ pack_bits (pack_fields (zip ws vs)) @ post)
     = map2 (\<lambda>w v. take_bit w v) ws vs"
  using fields_at_pack_gen [of vs ws "[]" "[]" "8 * length pre" pre post] assms by simp

section \<open>The readers and scalings as rows\<close>

text \<open>These equations turn every expression of a decoder into a row of its table.\<close>

named_theorems row_simps

lemma unat_read [row_simps]: "w \<le> 32 \<Longrightarrow> unat (read_bits_be buf off w) = fld buf off w"
proof -
  assume "w \<le> 32"
  then have "unat (be_bits buf off w :: u32) = unat (be_bits buf off w :: u64)"
    by (intro bit_eqI) (auto simp: bit_unsigned_iff bit_be_bits)
  then show ?thesis by (simp only: read_bits_be_def fld_def)
qed

lemma unat_read64 [row_simps]: "unat (read_bits_be64 buf off w) = fld buf off w"
  by (simp add: read_bits_be64_def fld_def)

lemma fld_less: "w \<le> 64 \<Longrightarrow> fld buf off w < 2 ^ w"
  using be_bits_less [where 'a = 64, of w buf off]
  by (simp add: fld_def nat_less_two_power)

text \<open>A conversion to a narrower type keeps a field that fits.\<close>

lemma unat_narrow8 [row_simps]:
  "w \<le> 8 \<Longrightarrow> unat (ucast (read_bits_be buf off w) :: u8) = fld buf off w"
proof -
  assume w: "w \<le> 8"
  have "fld buf off w < 2 ^ w" using w by (intro fld_less) simp
  also have "\<dots> \<le> 2 ^ 8" using w by (intro power_increasing) auto
  finally show ?thesis using w
    by (simp add: unsigned_ucast_eq unat_read take_bit_nat_eq_self)
qed

lemma unat_narrow16 [row_simps]:
  "w \<le> 16 \<Longrightarrow> unat (ucast (read_bits_be buf off w) :: u16) = fld buf off w"
proof -
  assume w: "w \<le> 16"
  have "fld buf off w < 2 ^ w" using w by (intro fld_less) simp
  also have "\<dots> \<le> 2 ^ 16" using w by (intro power_increasing) auto
  finally show ?thesis using w
    by (simp add: unsigned_ucast_eq unat_read take_bit_nat_eq_self)
qed

lemma unat_times_read [row_simps]:
  assumes "w \<le> 17" "n \<le> 300"
  shows "unat (read_bits_be buf off w * of_nat n) = n * fld buf off w"
proof -
  have f: "fld buf off w < 2 ^ w" using assms by (intro fld_less) simp
  also have "(2::nat) ^ w \<le> 2 ^ 17" using assms by (intro power_increasing) auto
  finally have "n * fld buf off w \<le> 300 * 2 ^ 17" using assms by (intro mult_mono) auto
  then show ?thesis using assms
    by (simp add: unat_word_ariths unat_read unat_of_nat mult.commute)
qed

lemmas unat_times_numeral [row_simps] =
  unat_times_read [of _ "numeral k" for k, unfolded of_nat_numeral]

lemma signed_of_eq: "0 < w \<Longrightarrow> v < 2 ^ w \<Longrightarrow> signed_take_bit (w - 1) (int v) = signed_of w v"
proof -
  assume w: "0 < w" and v: "v < 2 ^ w"
  have p: "(2::nat) ^ w = 2 * 2 ^ (w - 1)" using w by (metis Suc_pred' power_Suc)
  have pi: "(2::int) ^ w = 2 * 2 ^ (w - 1)" using w by (metis Suc_pred' power_Suc)
  show ?thesis
  proof (cases "v < 2 ^ (w - 1)")
    case True
    then have "int v < 2 ^ (w - 1)" by (metis of_nat_less_iff of_nat_numeral of_nat_power)
    then have "signed_take_bit (w - 1) (int v) = int v"
      by (intro signed_take_bit_int_eq_self) (auto intro: order_trans [of _ 0])
    with True show ?thesis by (simp add: signed_of_def)
  next
    case False
    then have lo: "2 ^ (w - 1) \<le> int v" by (metis not_le of_nat_less_iff of_nat_numeral of_nat_power)
    have "int v < 2 ^ w" using v by (metis of_nat_less_iff of_nat_numeral of_nat_power)
    then have "signed_take_bit (w - 1) (int v - 2 ^ w) = int v - 2 ^ w"
      using lo pi by (intro signed_take_bit_int_eq_self) auto
    moreover have "signed_take_bit (w - 1) (int v - 2 ^ w) = signed_take_bit (w - 1) (int v)"
    proof -
      have "take_bit w (int v - 2 ^ w) = take_bit w (int v)"
        by (simp add: take_bit_eq_mod)
      then show ?thesis using w by (simp add: signed_take_bit_eq_iff_take_bit_eq)
    qed
    ultimately show ?thesis using False by (simp add: signed_of_def)
  qed
qed

lemma sint_signed [row_simps]:
  assumes "0 < w" "w < 32"
  shows "sint (read_signed_bits_be buf off w) = signed_of w (fld buf off w)"
proof -
  have "uint (read_bits_be buf off w) = int (fld buf off w)"
    using assms unat_read [of w buf off] by (simp only: uint_unat)
  then show ?thesis
    using assms fld_less [of w buf off]
    by (simp only: sint_read_signed_bits_be signed_of_eq)
qed

lemma sint_signed32 [row_simps]:
  "sint (read_signed_bits_be buf off 32) = signed_of 32 (fld buf off 32)"
proof -
  have "sint (read_bits_be buf off 32) = signed_take_bit 31 (uint (read_bits_be buf off 32))"
    by (simp add: sint_uint)
  also have "uint (read_bits_be buf off 32) = int (fld buf off 32)"
    using unat_read [of 32 buf off] by (simp only: uint_unat)
  also have "signed_take_bit 31 (int (fld buf off 32)) = signed_of 32 (fld buf off 32)"
    using signed_of_eq [of 32 "fld buf off 32"] fld_less [of 32 buf off] by simp
  finally show ?thesis by (simp add: read_signed_bits_be_32)
qed

lemma sint_signed64 [row_simps]:
  assumes "0 < w" "w < 64"
  shows "sint (read_signed_bits_be64 buf off w) = signed_of w (fld buf off w)"
proof -
  have "uint (read_bits_be64 buf off w) = int (fld buf off w)"
    using unat_read64 [of buf off w] by (simp only: uint_unat)
  then show ?thesis
    using assms fld_less [of w buf off]
    by (simp only: sint_read_signed_bits_be64 signed_of_eq)
qed

lemma uint_read [row_simps]: "w \<le> 32 \<Longrightarrow> uint (read_bits_be buf off w) = int (fld buf off w)"
  using unat_read [of w buf off] by (simp only: uint_unat)

lemma uint_read64 [row_simps]: "uint (read_bits_be64 buf off w) = int (fld buf off w)"
  using unat_read64 [of buf off w] by (simp only: uint_unat)

lemma sint_read64 [row_simps]:
  assumes "w < 64"
  shows "sint (read_bits_be64 buf off w) = int (fld buf off w)"
proof -
  have "fld buf off w < 2 ^ w" using assms by (intro fld_less) simp
  also have "\<dots> \<le> 2 ^ 63" using assms by (intro power_increasing) auto
  finally have "int (fld buf off w) < 2 ^ 63" by simp
  then show ?thesis
    by (simp add: sint_uint uint_read64 signed_take_bit_int_eq_self)
qed

lemma abs_signed_of: "v < 2 ^ w \<Longrightarrow> 0 < w \<Longrightarrow> w \<le> 53 \<Longrightarrow> \<bar>signed_of w v\<bar> < 2 ^ 53"
proof -
  assume v: "v < 2 ^ w" and w: "0 < w" "w \<le> 53"
  have v': "0 \<le> int v" by simp
  have v'': "int v < 2 ^ w" using nat_less_two_power [of v w] v by blast
  have p: "(2::int) ^ w \<le> 2 ^ 53" using w by (intro power_increasing) auto
  show ?thesis
  proof (cases "v < 2 ^ (w - 1)")
    case True
    show ?thesis unfolding signed_of_def if_P [OF True] using v' v'' p by linarith
  next
    case False
    then have "2 ^ (w - 1) \<le> int v" by (simp only: nat_less_two_power not_less)
    then have "0 < int v" using zero_less_power [of "2::int" "w - 1"] by linarith
    then show ?thesis unfolding signed_of_def if_not_P [OF False] using v' v'' p by linarith
  qed
qed

lemma dbl_signed [row_simps]:
  assumes "0 < w" "w \<le> 53"
  shows "dbl_of_int (signed_of w (fld buf off w)) = Dbl (signed_of w (fld buf off w)) 0"
  using assms abs_signed_of [of "fld buf off w" w] fld_less [of w buf off]
  by (intro dbl_of_int_exact) auto

lemma dbl_unsigned [row_simps]:
  assumes "w \<le> 53"
  shows "dbl_of_int (int (fld buf off w)) = Dbl (int (fld buf off w)) 0"
proof (rule dbl_of_int_exact)
  have "fld buf off w < 2 ^ w" using assms by (intro fld_less) simp
  also have "\<dots> \<le> 2 ^ 53" using assms by (intro power_increasing) auto
  finally show "\<bar>int (fld buf off w)\<bar> < 2 ^ 53" by simp
qed

lemmas scale_defs [row_simps] = scale_pow2_def scale_pow2_u_def scale_pi_pow2_def
  scale_pi_pow2_u_def scale_tenth_ns_def scale_pow2_64_def scale_pow2_u64_def scale_pi_pow2_64_def

lemmas interpret_simps = decode_rows_def interpret_fields_def

lemma fields_take: "sum_list ws + off \<le> 8 * m \<Longrightarrow> fields_at ws off (take m buf) = fields_at ws off buf"
  by (induction ws off buf rule: fields_at.induct) (auto simp: fld_def)

text \<open>Decoding by rows undoes packing by rows.\<close>

lemma decode_rows_pack:
  assumes "length vs = length rows" "8 dvd sum_list (map fst rows)" "list_all (\<lambda>(w, k). w \<le> 64) rows"
    and "off = 8 * length pre"
  shows "decode_rows rows off (pre @ pack_bits (pack_fields (zip (map fst rows) vs)) @ post)
     = interpret_fields rows (map2 (\<lambda>w v. take_bit w v) (map fst rows) vs)"
  using assms fields_at_pack [of vs "map fst rows" pre post]
  by (force simp: decode_rows_def list_all_iff)

lemma decode_rows_take:
  "sum_list (map fst rows) + off \<le> 8 * m \<Longrightarrow> decode_rows rows off (take m buf) = decode_rows rows off buf"
  by (simp add: decode_rows_def fields_take)

text \<open>
  A \<open>uint32_t\<close> that holds a sign-extended field: its conversion to \<open>double\<close> takes a
  negative value modulo \<open>2 ^ 32\<close>.
\<close>

lemma uint_signed [row_simps]:
  assumes "0 < w" "w < 32"
  shows "uint (read_signed_bits_be buf off w) = signed_of w (fld buf off w) mod 2 ^ 32"
proof -
  have "uint x = sint x mod 2 ^ 32" for x :: u32
    using uint_sint [of x] by (simp add: take_bit_eq_mod)
  then show ?thesis using assms sint_signed [of w buf off] by metis
qed

lemma dbl_wrapped [row_simps]:
  "dbl_of_int (i mod 4294967296) = Dbl (i mod 4294967296) 0"
proof (rule dbl_of_int_exact)
  have "0 \<le> i mod 4294967296" "i mod 4294967296 < 4294967296" by simp_all
  then show "\<bar>i mod 4294967296\<bar> < 2 ^ 53" by (simp only: abs_of_nonneg) simp
qed

lemma unat_signed8 [row_simps]:
  "unat (ucast (read_signed_bits_be buf off 8) :: u8) = fld buf off 8"
proof -
  have "uint (ucast (read_signed_bits_be buf off 8) :: u8) = uint (read_signed_bits_be buf off 8) mod 256"
    by (simp add: unsigned_ucast_eq take_bit_eq_mod)
  also have "\<dots> = int (fld buf off 8)"
    using fld_less [of 8 buf off]
    by (auto simp: uint_signed signed_of_def mod_mod_cancel)
  finally show ?thesis by (simp flip: nat_uint_eq)
qed

end
