(* ===== verification/DecodeBd2.thy ===== *)
theory DecodeBd2
  imports Layout
begin

text \<open>
  BeiDou-2 broadcast ephemerides (\<open>RAW_BD2EPHB\<close>): the packed struct \<open>BD2EPHB_Decoded_t\<close> of
  \<open>core/inc/gnss_func.h\<close>, \<open>decode_bd2ephb\<close> of \<open>core/src/gnss_ephb_decode.c\<close>,
  and the protocol's field table that the decoder is checked against. The decoder reads
  78 bytes from the packet header on: 8 of header, 67 of payload, 3 of CRC.
\<close>

record BD2EPHB_Decoded_t =
  head :: bytes
  gps_week_count :: u16
  gps_tow_s :: u32
  bd2_satid :: u8
  bd2_sv_urai :: u8
  bd2_sv_health :: u8
  bd2_week :: u16
  bd2_toe :: u32
  bd2_toc :: u32
  bd2_af0 :: dbl
  bd2_af1 :: dbl
  bd2_af2 :: dbl
  bd2_aode :: u8
  bd2_aodc :: u8
  bd2_idot :: dbl
  bd2_crs :: dbl
  bd2_crc :: dbl
  bd2_cus :: dbl
  bd2_cuc :: dbl
  bd2_cis :: dbl
  bd2_cic :: dbl
  bd2_delta_n :: dbl
  bd2_m0 :: dbl
  bd2_ecc :: dbl
  bd2_a_half :: dbl
  bd2_omega0 :: dbl
  bd2_i0 :: dbl
  bd2_omega :: dbl
  bd2_omegadot :: dbl
  bd2_tgd1 :: dbl
  bd2_tgd2 :: dbl
  bd2_reserved :: u8
  crc24 :: u32

definition decode_bd2ephb :: "bytes \<Rightarrow> BD2EPHB_Decoded_t" where
  "decode_bd2ephb payload =
     (let bit = 64;
          gps_week_count_v = ucast (read_bits_be payload bit 12);
          bit = bit + 12;
          gps_tow_s_v = read_bits_be payload bit 20;
          bit = bit + 20;
          bd2_satid_v = ucast (read_bits_be payload bit 6);
          bit = bit + 6;
          bd2_sv_urai_v = ucast (read_bits_be payload bit 4);
          bit = bit + 4;
          bd2_sv_health_v = ucast (read_bits_be payload bit 1);
          bit = bit + 1;
          bd2_week_v = ucast (read_bits_be payload bit 13);
          bit = bit + 13;
          bd2_toe_v = read_bits_be payload bit 17;
          bit = bit + 17;
          bd2_toc_v = read_bits_be payload bit 17;
          bit = bit + 17;
          bd2_af0_v = scale_pow2 (read_signed_bits_be payload bit 24) (- 33);
          bit = bit + 24;
          bd2_af1_v = scale_pow2 (read_signed_bits_be payload bit 22) (- 50);
          bit = bit + 22;
          bd2_af2_v = scale_pow2 (read_signed_bits_be payload bit 11) (- 66);
          bit = bit + 11;
          bd2_aode_v = ucast (read_bits_be payload bit 5);
          bit = bit + 5;
          bd2_aodc_v = ucast (read_bits_be payload bit 5);
          bit = bit + 5;
          bd2_idot_v = scale_pi_pow2 (read_signed_bits_be payload bit 14) (- 43);
          bit = bit + 14;
          bd2_crs_v = scale_pow2 (read_signed_bits_be payload bit 18) (- 6);
          bit = bit + 18;
          bd2_crc_v = scale_pow2 (read_signed_bits_be payload bit 18) (- 6);
          bit = bit + 18;
          bd2_cus_v = scale_pow2 (read_signed_bits_be payload bit 18) (- 31);
          bit = bit + 18;
          bd2_cuc_v = scale_pow2 (read_signed_bits_be payload bit 18) (- 31);
          bit = bit + 18;
          bd2_cis_v = scale_pow2 (read_signed_bits_be payload bit 18) (- 31);
          bit = bit + 18;
          bd2_cic_v = scale_pow2 (read_signed_bits_be payload bit 18) (- 31);
          bit = bit + 18;
          bd2_delta_n_v = scale_pi_pow2 (read_signed_bits_be payload bit 16) (- 43);
          bit = bit + 16;
          bd2_m0_v = scale_pi_pow2 (read_signed_bits_be payload bit 32) (- 31);
          bit = bit + 32;
          bd2_ecc_v = scale_pow2_u (read_bits_be payload bit 32) (- 33);
          bit = bit + 32;
          bd2_a_half_v = scale_pow2_u (read_bits_be payload bit 32) (- 19);
          bit = bit + 32;
          bd2_omega0_v = scale_pi_pow2 (read_signed_bits_be payload bit 32) (- 31);
          bit = bit + 32;
          bd2_i0_v = scale_pi_pow2 (read_signed_bits_be payload bit 32) (- 31);
          bit = bit + 32;
          bd2_omega_v = scale_pi_pow2 (read_signed_bits_be payload bit 32) (- 31);
          bit = bit + 32;
          bd2_omegadot_v = scale_pi_pow2 (read_signed_bits_be payload bit 24) (- 43);
          bit = bit + 24;
          bd2_tgd1_v = scale_tenth_ns (read_signed_bits_be payload bit 10);
          bit = bit + 10;
          bd2_tgd2_v = scale_tenth_ns (read_signed_bits_be payload bit 10);
          bit = bit + 10;
          bd2_reserved_v = ucast (read_bits_be payload bit 5);
          bit = bit + 5;
          crc24_v = read_bits_be payload bit 24
      in \<lparr>head = take 8 payload,
           gps_week_count = gps_week_count_v,
           gps_tow_s = gps_tow_s_v,
           bd2_satid = bd2_satid_v,
           bd2_sv_urai = bd2_sv_urai_v,
           bd2_sv_health = bd2_sv_health_v,
           bd2_week = bd2_week_v,
           bd2_toe = bd2_toe_v,
           bd2_toc = bd2_toc_v,
           bd2_af0 = bd2_af0_v,
           bd2_af1 = bd2_af1_v,
           bd2_af2 = bd2_af2_v,
           bd2_aode = bd2_aode_v,
           bd2_aodc = bd2_aodc_v,
           bd2_idot = bd2_idot_v,
           bd2_crs = bd2_crs_v,
           bd2_crc = bd2_crc_v,
           bd2_cus = bd2_cus_v,
           bd2_cuc = bd2_cuc_v,
           bd2_cis = bd2_cis_v,
           bd2_cic = bd2_cic_v,
           bd2_delta_n = bd2_delta_n_v,
           bd2_m0 = bd2_m0_v,
           bd2_ecc = bd2_ecc_v,
           bd2_a_half = bd2_a_half_v,
           bd2_omega0 = bd2_omega0_v,
           bd2_i0 = bd2_i0_v,
           bd2_omega = bd2_omega_v,
           bd2_omegadot = bd2_omegadot_v,
           bd2_tgd1 = bd2_tgd1_v,
           bd2_tgd2 = bd2_tgd2_v,
           bd2_reserved = bd2_reserved_v,
           crc24 = crc24_v\<rparr>)"

text \<open>The bytes of the packed struct, as they are sent over the network (194 of them).\<close>

definition bd2_bytes :: "BD2EPHB_Decoded_t \<Rightarrow> bytes" where
  "bd2_bytes eph = head eph @
      le16 (gps_week_count eph) @ le32 (gps_tow_s eph) @ [bd2_satid eph] @
      [bd2_sv_urai eph] @ [bd2_sv_health eph] @ le16 (bd2_week eph) @
      le32 (bd2_toe eph) @ le32 (bd2_toc eph) @ dbl_bytes (bd2_af0 eph) @
      dbl_bytes (bd2_af1 eph) @ dbl_bytes (bd2_af2 eph) @ [bd2_aode eph] @
      [bd2_aodc eph] @ dbl_bytes (bd2_idot eph) @ dbl_bytes (bd2_crs eph) @
      dbl_bytes (bd2_crc eph) @ dbl_bytes (bd2_cus eph) @ dbl_bytes (bd2_cuc eph) @
      dbl_bytes (bd2_cis eph) @ dbl_bytes (bd2_cic eph) @ dbl_bytes (bd2_delta_n eph) @
      dbl_bytes (bd2_m0 eph) @ dbl_bytes (bd2_ecc eph) @ dbl_bytes (bd2_a_half eph) @
      dbl_bytes (bd2_omega0 eph) @ dbl_bytes (bd2_i0 eph) @ dbl_bytes (bd2_omega eph) @
      dbl_bytes (bd2_omegadot eph) @ dbl_bytes (bd2_tgd1 eph) @ dbl_bytes (bd2_tgd2 eph) @
      [bd2_reserved eph] @ le32 (crc24 eph)"

text \<open>The fields after the header, and the table.\<close>

definition bd2_values :: "BD2EPHB_Decoded_t \<Rightarrow> field_val list" where
  "bd2_values eph =
     [N (unat (gps_week_count eph)), N (unat (gps_tow_s eph)), N (unat (bd2_satid eph)),
      N (unat (bd2_sv_urai eph)), N (unat (bd2_sv_health eph)), N (unat (bd2_week eph)),
      N (unat (bd2_toe eph)), N (unat (bd2_toc eph)), D (bd2_af0 eph),
      D (bd2_af1 eph), D (bd2_af2 eph), N (unat (bd2_aode eph)),
      N (unat (bd2_aodc eph)), D (bd2_idot eph), D (bd2_crs eph),
      D (bd2_crc eph), D (bd2_cus eph), D (bd2_cuc eph),
      D (bd2_cis eph), D (bd2_cic eph), D (bd2_delta_n eph),
      D (bd2_m0 eph), D (bd2_ecc eph), D (bd2_a_half eph),
      D (bd2_omega0 eph), D (bd2_i0 eph), D (bd2_omega eph),
      D (bd2_omegadot eph), D (bd2_tgd1 eph), D (bd2_tgd2 eph),
      N (unat (bd2_reserved eph)), N (unat (crc24 eph))]"

definition bd2_layout :: "(nat \<times> field_kind) list" where
  "bd2_layout =
     [(12, Raw), (20, Raw), (6, Raw), (4, Raw),
      (1, Raw), (13, Raw), (17, Raw), (17, Raw),
      (24, Sig (- 33)), (22, Sig (- 50)), (11, Sig (- 66)), (5, Raw),
      (5, Raw), (14, SigPi (- 43)), (18, Sig (- 6)), (18, Sig (- 6)),
      (18, Sig (- 31)), (18, Sig (- 31)), (18, Sig (- 31)), (18, Sig (- 31)),
      (16, SigPi (- 43)), (32, SigPi (- 31)), (32, Uns (- 33)), (32, Uns (- 19)),
      (32, SigPi (- 31)), (32, SigPi (- 31)), (32, SigPi (- 31)), (24, SigPi (- 43)),
      (10, SigDecimal c_1e_10), (10, SigDecimal c_1e_10), (5, Raw), (24, Raw)]"

lemma bd2_values_decode:
  "bd2_values (decode_bd2ephb payload) = decode_rows bd2_layout 64 payload"
  by (simp add: decode_bd2ephb_def bd2_values_def bd2_layout_def interpret_simps row_simps Let_def)

lemma bd2_head_decode [simp]: "head (decode_bd2ephb payload) = take 8 payload"
  by (simp add: decode_bd2ephb_def Let_def)

lemma bd2_decode_take: "decode_bd2ephb (take 78 payload) = decode_bd2ephb payload"
  by (simp add: decode_bd2ephb_def Let_def)

lemma bd2_layout_ok [simp]:
  "length bd2_layout = 32" "sum_list (map fst bd2_layout) = 560"
  "list_all (\<lambda>(w, k). w \<le> 64) bd2_layout"
  by (simp_all add: bd2_layout_def)

lemma length_bd2_bytes: "length (bd2_bytes eph) = length (head eph) + 186"
  by (simp add: bd2_bytes_def)

end
