(* ===== verification/DecodeBd3.thy ===== *)
theory DecodeBd3
  imports Layout
begin

text \<open>
  BeiDou-3 CNAV1 ephemerides (\<open>RAW_BD3EPHB\<close>): the packed struct \<open>BD3EPHB_Decoded_t\<close> of
  \<open>core/inc/gnss_func.h\<close>, \<open>decode_bd3ephb\<close> of \<open>core/src/gnss_ephb_decode.c\<close>,
  and the protocol's field table that the decoder is checked against. The decoder reads
  87 bytes from the packet header on: 8 of header, 76 of payload, 3 of CRC.
\<close>

record BD3EPHB_Decoded_t =
  head :: bytes
  gps_week_count :: u16
  gps_tow_s :: u32
  bd3_satid :: u8
  bd3_sattype :: u8
  bd3_week :: u16
  bd3_toe :: u32
  bd3_toc :: u32
  bd3_af0 :: dbl
  bd3_af1 :: dbl
  bd3_af2 :: dbl
  bd3_iode :: u8
  bd3_iodc :: u16
  bd3_idot :: dbl
  bd3_crs :: dbl
  bd3_crc :: dbl
  bd3_cus :: dbl
  bd3_cuc :: dbl
  bd3_cis :: dbl
  bd3_cic :: dbl
  bd3_delta_n0 :: dbl
  bd3_delta_n0_dot :: dbl
  bd3_m0 :: dbl
  bd3_ecc :: dbl
  bd3_deltaA :: dbl
  bd3_adot :: dbl
  bd3_omega0 :: dbl
  bd3_i0 :: dbl
  bd3_omega :: dbl
  bd3_omegadot :: dbl
  bd3_tgdb1cp :: dbl
  bd3_tgdb2ap :: dbl
  bd3_iscb1cd :: dbl
  bd3_reserved :: u8
  crc24 :: u32

definition decode_bd3ephb :: "bytes \<Rightarrow> BD3EPHB_Decoded_t" where
  "decode_bd3ephb payload =
     (let bit = 64;
          gps_week_count_v = ucast (read_bits_be payload bit 12);
          bit = bit + 12;
          gps_tow_s_v = read_bits_be payload bit 20;
          bit = bit + 20;
          bd3_satid_v = ucast (read_bits_be payload bit 6);
          bit = bit + 6;
          bd3_sattype_v = ucast (read_bits_be payload bit 3);
          bit = bit + 3;
          bd3_week_v = ucast (read_bits_be payload bit 13);
          bit = bit + 13;
          bd3_toe_v = read_bits_be payload bit 11 * 300;
          bit = bit + 11;
          bd3_toc_v = read_bits_be payload bit 11 * 300;
          bit = bit + 11;
          bd3_af0_v = scale_pow2_64 (read_signed_bits_be64 payload bit 25) (- 34);
          bit = bit + 25;
          bd3_af1_v = scale_pow2_64 (read_signed_bits_be64 payload bit 22) (- 50);
          bit = bit + 22;
          bd3_af2_v = scale_pow2_64 (read_signed_bits_be64 payload bit 11) (- 66);
          bit = bit + 11;
          bd3_iode_v = ucast (read_bits_be payload bit 8);
          bit = bit + 8;
          bd3_iodc_v = ucast (read_bits_be payload bit 16);
          bit = bit + 16;
          bd3_idot_v = scale_pi_pow2_64 (read_signed_bits_be64 payload bit 15) (- 44);
          bit = bit + 15;
          bd3_crs_v = scale_pow2_64 (read_signed_bits_be64 payload bit 24) (- 8);
          bit = bit + 24;
          bd3_crc_v = scale_pow2_64 (read_signed_bits_be64 payload bit 24) (- 8);
          bit = bit + 24;
          bd3_cus_v = scale_pow2_64 (read_signed_bits_be64 payload bit 21) (- 30);
          bit = bit + 21;
          bd3_cuc_v = scale_pow2_64 (read_signed_bits_be64 payload bit 21) (- 30);
          bit = bit + 21;
          bd3_cis_v = scale_pow2_64 (read_signed_bits_be64 payload bit 16) (- 30);
          bit = bit + 16;
          bd3_cic_v = scale_pow2_64 (read_signed_bits_be64 payload bit 16) (- 30);
          bit = bit + 16;
          bd3_delta_n0_v = scale_pi_pow2_64 (read_signed_bits_be64 payload bit 17) (- 44);
          bit = bit + 17;
          bd3_delta_n0_dot_v = scale_pi_pow2_64 (read_signed_bits_be64 payload bit 23) (- 57);
          bit = bit + 23;
          bd3_m0_v = scale_pi_pow2_64 (read_bits_be64 payload bit 33) (- 32);
          bit = bit + 33;
          bd3_ecc_v = scale_pow2_u64 (read_bits_be64 payload bit 33) (- 34);
          bit = bit + 33;
          bd3_deltaA_v = scale_pow2_64 (read_bits_be64 payload bit 26) (- 9);
          bit = bit + 26;
          bd3_adot_v = scale_pow2_64 (read_signed_bits_be64 payload bit 25) (- 21);
          bit = bit + 25;
          bd3_omega0_v = scale_pi_pow2_64 (read_bits_be64 payload bit 33) (- 32);
          bit = bit + 33;
          bd3_i0_v = scale_pi_pow2_64 (read_bits_be64 payload bit 33) (- 32);
          bit = bit + 33;
          bd3_omega_v = scale_pi_pow2_64 (read_bits_be64 payload bit 33) (- 32);
          bit = bit + 33;
          bd3_omegadot_v = scale_pi_pow2_64 (read_signed_bits_be64 payload bit 19) (- 44);
          bit = bit + 19;
          bd3_tgdb1cp_v = scale_pow2_64 (read_signed_bits_be64 payload bit 12) (- 34);
          bit = bit + 12;
          bd3_tgdb2ap_v = scale_pow2_64 (read_signed_bits_be64 payload bit 12) (- 34);
          bit = bit + 12;
          bd3_iscb1cd_v = scale_pow2_64 (read_signed_bits_be64 payload bit 12) (- 34);
          bit = bit + 12;
          bd3_reserved_v = ucast (read_bits_be payload bit 2);
          bit = bit + 2;
          crc24_v = read_bits_be payload bit 24
      in \<lparr>head = take 8 payload,
           gps_week_count = gps_week_count_v,
           gps_tow_s = gps_tow_s_v,
           bd3_satid = bd3_satid_v,
           bd3_sattype = bd3_sattype_v,
           bd3_week = bd3_week_v,
           bd3_toe = bd3_toe_v,
           bd3_toc = bd3_toc_v,
           bd3_af0 = bd3_af0_v,
           bd3_af1 = bd3_af1_v,
           bd3_af2 = bd3_af2_v,
           bd3_iode = bd3_iode_v,
           bd3_iodc = bd3_iodc_v,
           bd3_idot = bd3_idot_v,
           bd3_crs = bd3_crs_v,
           bd3_crc = bd3_crc_v,
           bd3_cus = bd3_cus_v,
           bd3_cuc = bd3_cuc_v,
           bd3_cis = bd3_cis_v,
           bd3_cic = bd3_cic_v,
           bd3_delta_n0 = bd3_delta_n0_v,
           bd3_delta_n0_dot = bd3_delta_n0_dot_v,
           bd3_m0 = bd3_m0_v,
           bd3_ecc = bd3_ecc_v,
           bd3_deltaA = bd3_deltaA_v,
           bd3_adot = bd3_adot_v,
           bd3_omega0 = bd3_omega0_v,
           bd3_i0 = bd3_i0_v,
           bd3_omega = bd3_omega_v,
           bd3_omegadot = bd3_omegadot_v,
           bd3_tgdb1cp = bd3_tgdb1cp_v,
           bd3_tgdb2ap = bd3_tgdb2ap_v,
           bd3_iscb1cd = bd3_iscb1cd_v,
           bd3_reserved = bd3_reserved_v,
           crc24 = crc24_v\<rparr>)"

text \<open>The bytes of the packed struct, as they are sent over the network (218 of them).\<close>

definition bd3_bytes :: "BD3EPHB_Decoded_t \<Rightarrow> bytes" where
  "bd3_bytes eph = head eph @
      le16 (gps_week_count eph) @ le32 (gps_tow_s eph) @ [bd3_satid eph] @
      [bd3_sattype eph] @ le16 (bd3_week eph) @ le32 (bd3_toe eph) @
      le32 (bd3_toc eph) @ dbl_bytes (bd3_af0 eph) @ dbl_bytes (bd3_af1 eph) @
      dbl_bytes (bd3_af2 eph) @ [bd3_iode eph] @ le16 (bd3_iodc eph) @
      dbl_bytes (bd3_idot eph) @ dbl_bytes (bd3_crs eph) @ dbl_bytes (bd3_crc eph) @
      dbl_bytes (bd3_cus eph) @ dbl_bytes (bd3_cuc eph) @ dbl_bytes (bd3_cis eph) @
      dbl_bytes (bd3_cic eph) @ dbl_bytes (bd3_delta_n0 eph) @ dbl_bytes (bd3_delta_n0_dot eph) @
      dbl_bytes (bd3_m0 eph) @ dbl_bytes (bd3_ecc eph) @ dbl_bytes (bd3_deltaA eph) @
      dbl_bytes (bd3_adot eph) @ dbl_bytes (bd3_omega0 eph) @ dbl_bytes (bd3_i0 eph) @
      dbl_bytes (bd3_omega eph) @ dbl_bytes (bd3_omegadot eph) @ dbl_bytes (bd3_tgdb1cp eph) @
      dbl_bytes (bd3_tgdb2ap eph) @ dbl_bytes (bd3_iscb1cd eph) @ [bd3_reserved eph] @
      le32 (crc24 eph)"

text \<open>The fields after the header, and the table.\<close>

definition bd3_values :: "BD3EPHB_Decoded_t \<Rightarrow> field_val list" where
  "bd3_values eph =
     [N (unat (gps_week_count eph)), N (unat (gps_tow_s eph)), N (unat (bd3_satid eph)),
      N (unat (bd3_sattype eph)), N (unat (bd3_week eph)), N (unat (bd3_toe eph)),
      N (unat (bd3_toc eph)), D (bd3_af0 eph), D (bd3_af1 eph),
      D (bd3_af2 eph), N (unat (bd3_iode eph)), N (unat (bd3_iodc eph)),
      D (bd3_idot eph), D (bd3_crs eph), D (bd3_crc eph),
      D (bd3_cus eph), D (bd3_cuc eph), D (bd3_cis eph),
      D (bd3_cic eph), D (bd3_delta_n0 eph), D (bd3_delta_n0_dot eph),
      D (bd3_m0 eph), D (bd3_ecc eph), D (bd3_deltaA eph),
      D (bd3_adot eph), D (bd3_omega0 eph), D (bd3_i0 eph),
      D (bd3_omega eph), D (bd3_omegadot eph), D (bd3_tgdb1cp eph),
      D (bd3_tgdb2ap eph), D (bd3_iscb1cd eph), N (unat (bd3_reserved eph)),
      N (unat (crc24 eph))]"

definition bd3_layout :: "(nat \<times> field_kind) list" where
  "bd3_layout =
     [(12, Raw), (20, Raw), (6, Raw), (3, Raw),
      (13, Raw), (11, Times 300), (11, Times 300), (25, Sig (- 34)),
      (22, Sig (- 50)), (11, Sig (- 66)), (8, Raw), (16, Raw),
      (15, SigPi (- 44)), (24, Sig (- 8)), (24, Sig (- 8)), (21, Sig (- 30)),
      (21, Sig (- 30)), (16, Sig (- 30)), (16, Sig (- 30)), (17, SigPi (- 44)),
      (23, SigPi (- 57)), (33, UnsPi (- 32)), (33, Uns (- 34)), (26, Uns (- 9)),
      (25, Sig (- 21)), (33, UnsPi (- 32)), (33, UnsPi (- 32)), (33, UnsPi (- 32)),
      (19, SigPi (- 44)), (12, Sig (- 34)), (12, Sig (- 34)), (12, Sig (- 34)),
      (2, Raw), (24, Raw)]"

lemma bd3_values_decode:
  "bd3_values (decode_bd3ephb payload) = decode_rows bd3_layout 64 payload"
  by (simp add: decode_bd3ephb_def bd3_values_def bd3_layout_def interpret_simps row_simps Let_def)

lemma bd3_head_decode [simp]: "head (decode_bd3ephb payload) = take 8 payload"
  by (simp add: decode_bd3ephb_def Let_def)

lemma bd3_decode_take: "decode_bd3ephb (take 87 payload) = decode_bd3ephb payload"
  by (simp add: decode_bd3ephb_def Let_def)

lemma bd3_layout_ok [simp]:
  "length bd3_layout = 34" "sum_list (map fst bd3_layout) = 632"
  "list_all (\<lambda>(w, k). w \<le> 64) bd3_layout"
  by (simp_all add: bd3_layout_def)

lemma length_bd3_bytes: "length (bd3_bytes eph) = length (head eph) + 210"
  by (simp add: bd3_bytes_def)

end
