(* ===== verification/DecodeCnav2.thy ===== *)
theory DecodeCnav2
  imports Layout
begin

text \<open>
  BeiDou-3 CNAV2 ephemerides (\<open>RAW_BD3CNAV2EPHB\<close>): the packed struct \<open>BD3CNAV2EPHB_Decoded_t\<close> of
  \<open>core/inc/gnss_func.h\<close>, \<open>decode_bd3cnav2ephb\<close> of \<open>core/src/gnss_ephb_decode.c\<close>,
  and the protocol's field table that the decoder is checked against. The decoder reads
  87 bytes from the packet header on: 8 of header, 76 of payload, 3 of CRC.
\<close>

record BD3CNAV2EPHB_Decoded_t =
  head :: bytes
  gps_week_count :: u16
  gps_tow_s :: u32
  bds_satid :: u8
  bds_sattype :: u8
  bds_week :: u16
  bds_toe :: u32
  bds_toc :: u32
  bds_af0 :: dbl
  bds_af1 :: dbl
  bds_af2 :: dbl
  bds_iode :: u8
  bds_iodc :: u16
  bds_idot :: dbl
  bds_crs :: dbl
  bds_crc :: dbl
  bds_cus :: dbl
  bds_cuc :: dbl
  bds_cis :: dbl
  bds_cic :: dbl
  bds_delta_n0 :: dbl
  bds_delta_n0_dot :: dbl
  bds_m0 :: dbl
  bds_ecc :: dbl
  bds_AA :: dbl
  bds_adot :: dbl
  bds_omega0 :: dbl
  bds_i0 :: dbl
  bds_omega :: dbl
  bds_omegadot :: dbl
  bds_tgdb1cp :: dbl
  bds_tgdb2ap :: dbl
  bds_iscb2ad :: dbl
  bds_reserved :: u8
  crc24 :: u32

definition decode_bd3cnav2ephb :: "bytes \<Rightarrow> BD3CNAV2EPHB_Decoded_t" where
  "decode_bd3cnav2ephb payload =
     (let bit = 64;
          gps_week_count_v = ucast (read_bits_be payload bit 12);
          bit = bit + 12;
          gps_tow_s_v = read_bits_be payload bit 20;
          bit = bit + 20;
          bds_satid_v = ucast (read_bits_be payload bit 6);
          bit = bit + 6;
          bds_sattype_v = ucast (read_bits_be payload bit 3);
          bit = bit + 3;
          bds_week_v = ucast (read_bits_be payload bit 13);
          bit = bit + 13;
          bds_toe_v = read_bits_be payload bit 11 * 300;
          bit = bit + 11;
          bds_toc_v = read_bits_be payload bit 11 * 300;
          bit = bit + 11;
          bds_af0_v = scale_pow2_64 (read_signed_bits_be64 payload bit 25) (- 34);
          bit = bit + 25;
          bds_af1_v = scale_pow2_64 (read_signed_bits_be64 payload bit 22) (- 50);
          bit = bit + 22;
          bds_af2_v = scale_pow2_64 (read_signed_bits_be64 payload bit 11) (- 66);
          bit = bit + 11;
          bds_iode_v = ucast (read_bits_be payload bit 8);
          bit = bit + 8;
          bds_iodc_v = ucast (read_bits_be payload bit 16);
          bit = bit + 16;
          bds_idot_v = scale_pi_pow2_64 (read_signed_bits_be64 payload bit 15) (- 44);
          bit = bit + 15;
          bds_crs_v = scale_pow2_64 (read_signed_bits_be64 payload bit 24) (- 8);
          bit = bit + 24;
          bds_crc_v = scale_pow2_64 (read_signed_bits_be64 payload bit 24) (- 8);
          bit = bit + 24;
          bds_cus_v = scale_pow2_64 (read_signed_bits_be64 payload bit 21) (- 30);
          bit = bit + 21;
          bds_cuc_v = scale_pow2_64 (read_signed_bits_be64 payload bit 21) (- 30);
          bit = bit + 21;
          bds_cis_v = scale_pow2_64 (read_signed_bits_be64 payload bit 16) (- 30);
          bit = bit + 16;
          bds_cic_v = scale_pow2_64 (read_signed_bits_be64 payload bit 16) (- 30);
          bit = bit + 16;
          bds_delta_n0_v = scale_pi_pow2_64 (read_signed_bits_be64 payload bit 17) (- 44);
          bit = bit + 17;
          bds_delta_n0_dot_v = scale_pow2_64 (read_signed_bits_be64 payload bit 23) (- 57);
          bit = bit + 23;
          bds_m0_v = scale_pi_pow2_64 (read_bits_be64 payload bit 33) (- 32);
          bit = bit + 33;
          bds_ecc_v = scale_pow2_u64 (read_bits_be64 payload bit 33) (- 34);
          bit = bit + 33;
          bds_AA_v = scale_pow2_64 (read_bits_be64 payload bit 26) (- 9);
          bit = bit + 26;
          bds_adot_v = scale_pow2_64 (read_signed_bits_be64 payload bit 25) (- 21);
          bit = bit + 25;
          bds_omega0_v = scale_pi_pow2_64 (read_bits_be64 payload bit 33) (- 32);
          bit = bit + 33;
          bds_i0_v = scale_pi_pow2_64 (read_bits_be64 payload bit 33) (- 32);
          bit = bit + 33;
          bds_omega_v = scale_pi_pow2_64 (read_bits_be64 payload bit 33) (- 32);
          bit = bit + 33;
          bds_omegadot_v = scale_pi_pow2_64 (read_signed_bits_be64 payload bit 19) (- 44);
          bit = bit + 19;
          bds_tgdb1cp_v = scale_pow2_64 (read_signed_bits_be64 payload bit 12) (- 34);
          bit = bit + 12;
          bds_tgdb2ap_v = scale_pow2_64 (read_signed_bits_be64 payload bit 12) (- 34);
          bit = bit + 12;
          bds_iscb2ad_v = scale_pow2_64 (read_signed_bits_be64 payload bit 12) (- 34);
          bit = bit + 12;
          bds_reserved_v = ucast (read_bits_be payload bit 2);
          bit = bit + 2;
          crc24_v = read_bits_be payload bit 24
      in \<lparr>head = take 8 payload,
           gps_week_count = gps_week_count_v,
           gps_tow_s = gps_tow_s_v,
           bds_satid = bds_satid_v,
           bds_sattype = bds_sattype_v,
           bds_week = bds_week_v,
           bds_toe = bds_toe_v,
           bds_toc = bds_toc_v,
           bds_af0 = bds_af0_v,
           bds_af1 = bds_af1_v,
           bds_af2 = bds_af2_v,
           bds_iode = bds_iode_v,
           bds_iodc = bds_iodc_v,
           bds_idot = bds_idot_v,
           bds_crs = bds_crs_v,
           bds_crc = bds_crc_v,
           bds_cus = bds_cus_v,
           bds_cuc = bds_cuc_v,
           bds_cis = bds_cis_v,
           bds_cic = bds_cic_v,
           bds_delta_n0 = bds_delta_n0_v,
           bds_delta_n0_dot = bds_delta_n0_dot_v,
           bds_m0 = bds_m0_v,
           bds_ecc = bds_ecc_v,
           bds_AA = bds_AA_v,
           bds_adot = bds_adot_v,
           bds_omega0 = bds_omega0_v,
           bds_i0 = bds_i0_v,
           bds_omega = bds_omega_v,
           bds_omegadot = bds_omegadot_v,
           bds_tgdb1cp = bds_tgdb1cp_v,
           bds_tgdb2ap = bds_tgdb2ap_v,
           bds_iscb2ad = bds_iscb2ad_v,
           bds_reserved = bds_reserved_v,
           crc24 = crc24_v\<rparr>)"

text \<open>The bytes of the packed struct, as they are sent over the network (218 of them).\<close>

definition cnav2_bytes :: "BD3CNAV2EPHB_Decoded_t \<Rightarrow> bytes" where
  "cnav2_bytes eph = head eph @
      le16 (gps_week_count eph) @ le32 (gps_tow_s eph) @ [bds_satid eph] @
      [bds_sattype eph] @ le16 (bds_week eph) @ le32 (bds_toe eph) @
      le32 (bds_toc eph) @ dbl_bytes (bds_af0 eph) @ dbl_bytes (bds_af1 eph) @
      dbl_bytes (bds_af2 eph) @ [bds_iode eph] @ le16 (bds_iodc eph) @
      dbl_bytes (bds_idot eph) @ dbl_bytes (bds_crs eph) @ dbl_bytes (bds_crc eph) @
      dbl_bytes (bds_cus eph) @ dbl_bytes (bds_cuc eph) @ dbl_bytes (bds_cis eph) @
      dbl_bytes (bds_cic eph) @ dbl_bytes (bds_delta_n0 eph) @ dbl_bytes (bds_delta_n0_dot eph) @
      dbl_bytes (bds_m0 eph) @ dbl_bytes (bds_ecc eph) @ dbl_bytes (bds_AA eph) @
      dbl_bytes (bds_adot eph) @ dbl_bytes (bds_omega0 eph) @ dbl_bytes (bds_i0 eph) @
      dbl_bytes (bds_omega eph) @ dbl_bytes (bds_omegadot eph) @ dbl_bytes (bds_tgdb1cp eph) @
      dbl_bytes (bds_tgdb2ap eph) @ dbl_bytes (bds_iscb2ad eph) @ [bds_reserved eph] @
      le32 (crc24 eph)"

text \<open>The fields after the header, and the table.\<close>

definition cnav2_values :: "BD3CNAV2EPHB_Decoded_t \<Rightarrow> field_val list" where
  "cnav2_values eph =
     [N (unat (gps_week_count eph)), N (unat (gps_tow_s eph)), N (unat (bds_satid eph)),
      N (unat (bds_sattype eph)), N (unat (bds_week eph)), N (unat (bds_toe eph)),
      N (unat (bds_toc eph)), D (bds_af0 eph), D (bds_af1 eph),
      D (bds_af2 eph), N (unat (bds_iode eph)), N (unat (bds_iodc eph)),
      D (bds_idot eph), D (bds_crs eph), D (bds_crc eph),
      D (bds_cus eph), D (bds_cuc eph), D (bds_cis eph),
      D (bds_cic eph), D (bds_delta_n0 eph), D (bds_delta_n0_dot eph),
      D (bds_m0 eph), D (bds_ecc eph), D (bds_AA eph),
      D (bds_adot eph), D (bds_omega0 eph), D (bds_i0 eph),
      D (bds_omega eph), D (bds_omegadot eph), D (bds_tgdb1cp eph),
      D (bds_tgdb2ap eph), D (bds_iscb2ad eph), N (unat (bds_reserved eph)),
      N (unat (crc24 eph))]"

definition cnav2_layout :: "(nat \<times> field_kind) list" where
  "cnav2_layout =
     [(12, Raw), (20, Raw), (6, Raw), (3, Raw),
      (13, Raw), (11, Times 300), (11, Times 300), (25, Sig (- 34)),
      (22, Sig (- 50)), (11, Sig (- 66)), (8, Raw), (16, Raw),
      (15, SigPi (- 44)), (24, Sig (- 8)), (24, Sig (- 8)), (21, Sig (- 30)),
      (21, Sig (- 30)), (16, Sig (- 30)), (16, Sig (- 30)), (17, SigPi (- 44)),
      (23, Sig (- 57)), (33, UnsPi (- 32)), (33, Uns (- 34)), (26, Uns (- 9)),
      (25, Sig (- 21)), (33, UnsPi (- 32)), (33, UnsPi (- 32)), (33, UnsPi (- 32)),
      (19, SigPi (- 44)), (12, Sig (- 34)), (12, Sig (- 34)), (12, Sig (- 34)),
      (2, Raw), (24, Raw)]"

lemma cnav2_values_decode:
  "cnav2_values (decode_bd3cnav2ephb payload) = decode_rows cnav2_layout 64 payload"
  by (simp add: decode_bd3cnav2ephb_def cnav2_values_def cnav2_layout_def interpret_simps row_simps Let_def)

lemma cnav2_head_decode [simp]: "head (decode_bd3cnav2ephb payload) = take 8 payload"
  by (simp add: decode_bd3cnav2ephb_def Let_def)

lemma cnav2_decode_take: "decode_bd3cnav2ephb (take 87 payload) = decode_bd3cnav2ephb payload"
  by (simp add: decode_bd3cnav2ephb_def Let_def)

lemma cnav2_layout_ok [simp]:
  "length cnav2_layout = 34" "sum_list (map fst cnav2_layout) = 632"
  "list_all (\<lambda>(w, k). w \<le> 64) cnav2_layout"
  by (simp_all add: cnav2_layout_def)

lemma length_cnav2_bytes: "length (cnav2_bytes eph) = length (head eph) + 210"
  by (simp add: cnav2_bytes_def)

end
