(* ===== verification/DecodeXw.thy ===== *)
theory DecodeXw
  imports Layout
begin

text \<open>
  BDXW/XWS ephemerides (\<open>RAW_BDXWEPHB\<close>): the packed struct \<open>BDXWEPHB_Decoded_t\<close> of
  \<open>core/inc/gnss_func.h\<close>, \<open>decode_bdxwephb\<close> of \<open>core/src/gnss_ephb_decode.c\<close>,
  and the protocol's field table that the decoder is checked against. The decoder reads
  104 bytes from the packet header on: 8 of header, 93 of payload, 3 of CRC.
\<close>

record BDXWEPHB_Decoded_t =
  head :: bytes
  gps_week_count :: u16
  gps_tow_s :: u32
  xws_satid :: u8
  xws_sattype :: u8
  xws_week :: u16
  xws_toe :: u32
  xws_toc :: u32
  xws_af0 :: dbl
  xws_af1 :: dbl
  xws_iodc :: u8
  xws_iode :: u8
  xws_crs :: dbl
  xws_crc :: dbl
  xws_cus :: dbl
  xws_cuc :: dbl
  xws_cis :: dbl
  xws_cic :: dbl
  xws_deltacic :: dbl
  xws_deltacis :: dbl
  xws_deltacrs :: dbl
  xws_deltacrc :: dbl
  xws_delta_n0 :: dbl
  xws_delta_n0_dot :: dbl
  xws_m0 :: dbl
  xws_ecc :: dbl
  xws_deltaA0 :: dbl
  xws_i0_dot :: dbl
  xws_a_dot :: dbl
  xws_delta_i0 :: dbl
  xws_omega0 :: dbl
  xws_omega_dot :: dbl
  xws_omega :: dbl
  xws_reserved :: u64
  crc24 :: u32

definition decode_bdxwephb :: "bytes \<Rightarrow> BDXWEPHB_Decoded_t" where
  "decode_bdxwephb payload =
     (let bit = 64;
          gps_week_count_v = ucast (read_bits_be payload bit 12);
          bit = bit + 12;
          gps_tow_s_v = read_bits_be payload bit 20;
          bit = bit + 20;
          xws_satid_v = ucast (read_bits_be payload bit 8);
          bit = bit + 8;
          xws_sattype_v = ucast (read_bits_be payload bit 2);
          bit = bit + 2;
          xws_week_v = ucast (read_bits_be payload bit 13);
          bit = bit + 13;
          xws_toe_v = read_bits_be payload bit 16 * 12;
          bit = bit + 16;
          xws_toc_v = read_bits_be payload bit 17 * 6;
          bit = bit + 17;
          xws_af0_v = scale_pow2 (read_signed_bits_be payload bit 27) (- 36);
          bit = bit + 27;
          xws_af1_v = scale_pow2 (read_signed_bits_be payload bit 22) (- 50);
          bit = bit + 22;
          xws_iodc_v = ucast (read_bits_be payload bit 4);
          bit = bit + 4;
          xws_iode_v = ucast (read_bits_be payload bit 3);
          bit = bit + 3;
          xws_crs_v = scale_pow2 (read_signed_bits_be payload bit 26) (- 11);
          bit = bit + 26;
          xws_crc_v = scale_pow2 (read_signed_bits_be payload bit 26) (- 11);
          bit = bit + 26;
          xws_cus_v = scale_pi_pow2 (read_signed_bits_be payload bit 25) (- 34);
          bit = bit + 25;
          xws_cuc_v = scale_pi_pow2 (read_signed_bits_be payload bit 25) (- 34);
          bit = bit + 25;
          xws_cis_v = scale_pi_pow2 (read_signed_bits_be payload bit 21) (- 34);
          bit = bit + 21;
          xws_cic_v = scale_pi_pow2 (read_signed_bits_be payload bit 21) (- 34);
          bit = bit + 21;
          xws_deltacic_v = scale_pi_pow2 (read_signed_bits_be payload bit 21) (- 34);
          bit = bit + 21;
          xws_deltacis_v = scale_pi_pow2 (read_signed_bits_be payload bit 21) (- 34);
          bit = bit + 21;
          xws_deltacrs_v = scale_pi_pow2 (read_signed_bits_be payload bit 26) (- 11);
          bit = bit + 26;
          xws_deltacrc_v = scale_pi_pow2 (read_signed_bits_be payload bit 26) (- 11);
          bit = bit + 26;
          xws_delta_n0_v = scale_pi_pow2 (read_signed_bits_be payload bit 27) (- 45);
          bit = bit + 27;
          xws_delta_n0_dot_v = scale_pi_pow2_64 (read_signed_bits_be64 payload bit 33) (- 54);
          bit = bit + 33;
          xws_m0_v = scale_pi_pow2_64 (read_signed_bits_be64 payload bit 36) (- 35);
          bit = bit + 36;
          xws_ecc_v = scale_pow2_u64 (read_bits_be64 payload bit 30) (- 35);
          bit = bit + 30;
          xws_deltaA0_v = scale_pow2 (read_signed_bits_be payload bit 27) (- 10);
          bit = bit + 27;
          xws_i0_dot_v = scale_pi_pow2 (read_signed_bits_be payload bit 22) (- 45);
          bit = bit + 22;
          xws_a_dot_v = scale_pow2 (read_signed_bits_be payload bit 22) (- 19);
          bit = bit + 22;
          xws_delta_i0_v = scale_pi_pow2_64 (read_signed_bits_be64 payload bit 31) (- 35);
          bit = bit + 31;
          xws_omega0_v = scale_pi_pow2_64 (read_signed_bits_be64 payload bit 36) (- 35);
          bit = bit + 36;
          xws_omega_dot_v = scale_pi_pow2 (read_signed_bits_be payload bit 26) (- 45);
          bit = bit + 26;
          xws_omega_v = scale_pi_pow2_64 (read_signed_bits_be64 payload bit 36) (- 35);
          bit = bit + 36;
          xws_reserved_v = read_bits_be64 payload bit 36;
          bit = bit + 36;
          crc24_v = read_bits_be payload bit 24
      in \<lparr>head = take 8 payload,
           gps_week_count = gps_week_count_v,
           gps_tow_s = gps_tow_s_v,
           xws_satid = xws_satid_v,
           xws_sattype = xws_sattype_v,
           xws_week = xws_week_v,
           xws_toe = xws_toe_v,
           xws_toc = xws_toc_v,
           xws_af0 = xws_af0_v,
           xws_af1 = xws_af1_v,
           xws_iodc = xws_iodc_v,
           xws_iode = xws_iode_v,
           xws_crs = xws_crs_v,
           xws_crc = xws_crc_v,
           xws_cus = xws_cus_v,
           xws_cuc = xws_cuc_v,
           xws_cis = xws_cis_v,
           xws_cic = xws_cic_v,
           xws_deltacic = xws_deltacic_v,
           xws_deltacis = xws_deltacis_v,
           xws_deltacrs = xws_deltacrs_v,
           xws_deltacrc = xws_deltacrc_v,
           xws_delta_n0 = xws_delta_n0_v,
           xws_delta_n0_dot = xws_delta_n0_dot_v,
           xws_m0 = xws_m0_v,
           xws_ecc = xws_ecc_v,
           xws_deltaA0 = xws_deltaA0_v,
           xws_i0_dot = xws_i0_dot_v,
           xws_a_dot = xws_a_dot_v,
           xws_delta_i0 = xws_delta_i0_v,
           xws_omega0 = xws_omega0_v,
           xws_omega_dot = xws_omega_dot_v,
           xws_omega = xws_omega_v,
           xws_reserved = xws_reserved_v,
           crc24 = crc24_v\<rparr>)"

text \<open>The bytes of the packed struct, as they are sent over the network (224 of them).\<close>

definition bdxw_bytes :: "BDXWEPHB_Decoded_t \<Rightarrow> bytes" where
  "bdxw_bytes eph = head eph @
      le16 (gps_week_count eph) @ le32 (gps_tow_s eph) @ [xws_satid eph] @
      [xws_sattype eph] @ le16 (xws_week eph) @ le32 (xws_toe eph) @
      le32 (xws_toc eph) @ dbl_bytes (xws_af0 eph) @ dbl_bytes (xws_af1 eph) @
      [xws_iodc eph] @ [xws_iode eph] @ dbl_bytes (xws_crs eph) @
      dbl_bytes (xws_crc eph) @ dbl_bytes (xws_cus eph) @ dbl_bytes (xws_cuc eph) @
      dbl_bytes (xws_cis eph) @ dbl_bytes (xws_cic eph) @ dbl_bytes (xws_deltacic eph) @
      dbl_bytes (xws_deltacis eph) @ dbl_bytes (xws_deltacrs eph) @ dbl_bytes (xws_deltacrc eph) @
      dbl_bytes (xws_delta_n0 eph) @ dbl_bytes (xws_delta_n0_dot eph) @ dbl_bytes (xws_m0 eph) @
      dbl_bytes (xws_ecc eph) @ dbl_bytes (xws_deltaA0 eph) @ dbl_bytes (xws_i0_dot eph) @
      dbl_bytes (xws_a_dot eph) @ dbl_bytes (xws_delta_i0 eph) @ dbl_bytes (xws_omega0 eph) @
      dbl_bytes (xws_omega_dot eph) @ dbl_bytes (xws_omega eph) @ le64 (xws_reserved eph) @
      le32 (crc24 eph)"

text \<open>The fields after the header, and the table.\<close>

definition bdxw_values :: "BDXWEPHB_Decoded_t \<Rightarrow> field_val list" where
  "bdxw_values eph =
     [N (unat (gps_week_count eph)), N (unat (gps_tow_s eph)), N (unat (xws_satid eph)),
      N (unat (xws_sattype eph)), N (unat (xws_week eph)), N (unat (xws_toe eph)),
      N (unat (xws_toc eph)), D (xws_af0 eph), D (xws_af1 eph),
      N (unat (xws_iodc eph)), N (unat (xws_iode eph)), D (xws_crs eph),
      D (xws_crc eph), D (xws_cus eph), D (xws_cuc eph),
      D (xws_cis eph), D (xws_cic eph), D (xws_deltacic eph),
      D (xws_deltacis eph), D (xws_deltacrs eph), D (xws_deltacrc eph),
      D (xws_delta_n0 eph), D (xws_delta_n0_dot eph), D (xws_m0 eph),
      D (xws_ecc eph), D (xws_deltaA0 eph), D (xws_i0_dot eph),
      D (xws_a_dot eph), D (xws_delta_i0 eph), D (xws_omega0 eph),
      D (xws_omega_dot eph), D (xws_omega eph), N (unat (xws_reserved eph)),
      N (unat (crc24 eph))]"

definition bdxw_layout :: "(nat \<times> field_kind) list" where
  "bdxw_layout =
     [(12, Raw), (20, Raw), (8, Raw), (2, Raw),
      (13, Raw), (16, Times 12), (17, Times 6), (27, Sig (- 36)),
      (22, Sig (- 50)), (4, Raw), (3, Raw), (26, Sig (- 11)),
      (26, Sig (- 11)), (25, SigPi (- 34)), (25, SigPi (- 34)), (21, SigPi (- 34)),
      (21, SigPi (- 34)), (21, SigPi (- 34)), (21, SigPi (- 34)), (26, SigPi (- 11)),
      (26, SigPi (- 11)), (27, SigPi (- 45)), (33, SigPi (- 54)), (36, SigPi (- 35)),
      (30, Uns (- 35)), (27, Sig (- 10)), (22, SigPi (- 45)), (22, Sig (- 19)),
      (31, SigPi (- 35)), (36, SigPi (- 35)), (26, SigPi (- 45)), (36, SigPi (- 35)),
      (36, Raw), (24, Raw)]"

lemma bdxw_values_decode:
  "bdxw_values (decode_bdxwephb payload) = decode_rows bdxw_layout 64 payload"
  by (simp add: decode_bdxwephb_def bdxw_values_def bdxw_layout_def interpret_simps row_simps Let_def)

lemma bdxw_head_decode [simp]: "head (decode_bdxwephb payload) = take 8 payload"
  by (simp add: decode_bdxwephb_def Let_def)

lemma bdxw_decode_take: "decode_bdxwephb (take 104 payload) = decode_bdxwephb payload"
  by (simp add: decode_bdxwephb_def Let_def)

lemma bdxw_layout_ok [simp]:
  "length bdxw_layout = 34" "sum_list (map fst bdxw_layout) = 768"
  "list_all (\<lambda>(w, k). w \<le> 64) bdxw_layout"
  by (simp_all add: bdxw_layout_def)

lemma length_bdxw_bytes: "length (bdxw_bytes eph) = length (head eph) + 216"
  by (simp add: bdxw_bytes_def)

end
