(* ===== verification/DecodeGps.thy ===== *)
theory DecodeGps
  imports Layout
begin

text \<open>
  GPS ephemerides (\<open>RAW_GPSEPHB\<close>): the packed struct \<open>GPSEPHB_Decoded_t\<close> of
  \<open>core/inc/gnss_func.h\<close>, \<open>decode_gpsephb\<close> of \<open>core/src/gnss_ephb_decode.c\<close>,
  and the protocol's field table that the decoder is checked against. The decoder reads
  75 bytes from the packet header on: 8 of header, 64 of payload, 3 of CRC.
\<close>

record GPSEPHB_Decoded_t =
  head :: bytes
  gps_week_count :: u16
  gps_tow_s :: u32
  gps_satid :: u8
  gps_sv_accuracy :: u8
  gps_sv_health :: u8
  gps_week :: u16
  gps_toe :: u16
  gps_toc :: u16
  gps_af0 :: dbl
  gps_af1 :: dbl
  gps_af2 :: dbl
  gps_iode :: u8
  gps_iodc :: u16
  gps_idot :: dbl
  gps_crs :: dbl
  gps_crc :: dbl
  gps_cus :: dbl
  gps_cuc :: dbl
  gps_cis :: dbl
  gps_cic :: dbl
  gps_delta_n :: dbl
  gps_m0 :: dbl
  gps_ecc :: dbl
  gps_a_half :: dbl
  gps_omega0 :: dbl
  gps_i0 :: dbl
  gps_omega :: dbl
  gps_omegadot :: dbl
  gps_tgd :: dbl
  gps_code_on_l2 :: u8
  gps_l2p_data_flag :: u8
  gps_fit :: u8
  reserved :: u8
  crc24 :: u32

definition decode_gpsephb :: "bytes \<Rightarrow> GPSEPHB_Decoded_t" where
  "decode_gpsephb payload =
     (let bit = 64;
          gps_week_count_v = ucast (read_bits_be payload bit 12);
          bit = bit + 12;
          gps_tow_s_v = read_bits_be payload bit 20;
          bit = bit + 20;
          gps_satid_v = ucast (read_bits_be payload bit 6);
          bit = bit + 6;
          gps_sv_accuracy_v = ucast (read_bits_be payload bit 4);
          bit = bit + 4;
          gps_sv_health_v = ucast (read_bits_be payload bit 6);
          bit = bit + 6;
          gps_week_v = ucast (read_bits_be payload bit 10);
          bit = bit + 10;
          gps_toe_v = ucast (read_bits_be payload bit 16);
          bit = bit + 16;
          gps_toc_v = ucast (read_bits_be payload bit 16);
          bit = bit + 16;
          gps_af0_v = scale_pow2 (read_signed_bits_be payload bit 22) (- 31);
          bit = bit + 22;
          gps_af1_v = scale_pow2 (read_signed_bits_be payload bit 16) (- 43);
          bit = bit + 16;
          gps_af2_v = scale_pow2 (read_signed_bits_be payload bit 8) (- 55);
          bit = bit + 8;
          gps_iode_v = ucast (read_bits_be payload bit 8);
          bit = bit + 8;
          gps_iodc_v = ucast (read_bits_be payload bit 10);
          bit = bit + 10;
          gps_idot_v = scale_pow2 (read_signed_bits_be payload bit 14) (- 43);
          bit = bit + 14;
          gps_crs_v = scale_pow2 (read_signed_bits_be payload bit 16) (- 5);
          bit = bit + 16;
          gps_crc_v = scale_pow2 (read_signed_bits_be payload bit 16) (- 5);
          bit = bit + 16;
          gps_cus_v = scale_pow2 (read_signed_bits_be payload bit 16) (- 29);
          bit = bit + 16;
          gps_cuc_v = scale_pow2 (read_signed_bits_be payload bit 16) (- 29);
          bit = bit + 16;
          gps_cis_v = scale_pow2 (read_signed_bits_be payload bit 16) (- 29);
          bit = bit + 16;
          gps_cic_v = scale_pow2 (read_signed_bits_be payload bit 16) (- 29);
          bit = bit + 16;
          gps_delta_n_v = scale_pow2 (read_signed_bits_be payload bit 16) (- 43);
          bit = bit + 16;
          gps_m0_v = scale_pow2 (read_signed_bits_be payload bit 22) (- 31);
          bit = bit + 32;
          gps_ecc_v = scale_pow2_u (read_bits_be payload bit 32) (- 33);
          bit = bit + 32;
          gps_a_half_v = scale_pow2_u (read_bits_be payload bit 32) (- 19);
          bit = bit + 32;
          gps_omega0_v = scale_pow2 (read_signed_bits_be payload bit 32) (- 31);
          bit = bit + 32;
          gps_i0_v = scale_pow2 (read_signed_bits_be payload bit 32) (- 31);
          bit = bit + 32;
          gps_omega_v = scale_pow2 (read_signed_bits_be payload bit 32) (- 31);
          bit = bit + 32;
          gps_omegadot_v = scale_pow2 (read_signed_bits_be payload bit 24) (- 43);
          bit = bit + 24;
          gps_tgd_v = scale_pow2 (read_signed_bits_be payload bit 8) (- 31);
          bit = bit + 8;
          gps_code_on_l2_v = ucast (read_bits_be payload bit 2);
          bit = bit + 2;
          gps_l2p_data_flag_v = ucast (read_bits_be payload bit 1);
          bit = bit + 1;
          gps_fit_v = ucast (read_bits_be payload bit 1);
          bit = bit + 1;
          reserved_v = ucast (read_bits_be payload bit 4);
          bit = bit + 4;
          crc24_v = read_bits_be payload bit 24
      in \<lparr>head = take 8 payload,
           gps_week_count = gps_week_count_v,
           gps_tow_s = gps_tow_s_v,
           gps_satid = gps_satid_v,
           gps_sv_accuracy = gps_sv_accuracy_v,
           gps_sv_health = gps_sv_health_v,
           gps_week = gps_week_v,
           gps_toe = gps_toe_v,
           gps_toc = gps_toc_v,
           gps_af0 = gps_af0_v,
           gps_af1 = gps_af1_v,
           gps_af2 = gps_af2_v,
           gps_iode = gps_iode_v,
           gps_iodc = gps_iodc_v,
           gps_idot = gps_idot_v,
           gps_crs = gps_crs_v,
           gps_crc = gps_crc_v,
           gps_cus = gps_cus_v,
           gps_cuc = gps_cuc_v,
           gps_cis = gps_cis_v,
           gps_cic = gps_cic_v,
           gps_delta_n = gps_delta_n_v,
           gps_m0 = gps_m0_v,
           gps_ecc = gps_ecc_v,
           gps_a_half = gps_a_half_v,
           gps_omega0 = gps_omega0_v,
           gps_i0 = gps_i0_v,
           gps_omega = gps_omega_v,
           gps_omegadot = gps_omegadot_v,
           gps_tgd = gps_tgd_v,
           gps_code_on_l2 = gps_code_on_l2_v,
           gps_l2p_data_flag = gps_l2p_data_flag_v,
           gps_fit = gps_fit_v,
           reserved = reserved_v,
           crc24 = crc24_v\<rparr>)"

text \<open>The bytes of the packed struct, as they are sent over the network (186 of them).\<close>

definition gps_bytes :: "GPSEPHB_Decoded_t \<Rightarrow> bytes" where
  "gps_bytes eph = head eph @
      le16 (gps_week_count eph) @ le32 (gps_tow_s eph) @ [gps_satid eph] @
      [gps_sv_accuracy eph] @ [gps_sv_health eph] @ le16 (gps_week eph) @
      le16 (gps_toe eph) @ le16 (gps_toc eph) @ dbl_bytes (gps_af0 eph) @
      dbl_bytes (gps_af1 eph) @ dbl_bytes (gps_af2 eph) @ [gps_iode eph] @
      le16 (gps_iodc eph) @ dbl_bytes (gps_idot eph) @ dbl_bytes (gps_crs eph) @
      dbl_bytes (gps_crc eph) @ dbl_bytes (gps_cus eph) @ dbl_bytes (gps_cuc eph) @
      dbl_bytes (gps_cis eph) @ dbl_bytes (gps_cic eph) @ dbl_bytes (gps_delta_n eph) @
      dbl_bytes (gps_m0 eph) @ dbl_bytes (gps_ecc eph) @ dbl_bytes (gps_a_half eph) @
      dbl_bytes (gps_omega0 eph) @ dbl_bytes (gps_i0 eph) @ dbl_bytes (gps_omega eph) @
      dbl_bytes (gps_omegadot eph) @ dbl_bytes (gps_tgd eph) @ [gps_code_on_l2 eph] @
      [gps_l2p_data_flag eph] @ [gps_fit eph] @ [reserved eph] @
      le32 (crc24 eph)"

text \<open>The fields after the header, and the table.\<close>

definition gps_values :: "GPSEPHB_Decoded_t \<Rightarrow> field_val list" where
  "gps_values eph =
     [N (unat (gps_week_count eph)), N (unat (gps_tow_s eph)), N (unat (gps_satid eph)),
      N (unat (gps_sv_accuracy eph)), N (unat (gps_sv_health eph)), N (unat (gps_week eph)),
      N (unat (gps_toe eph)), N (unat (gps_toc eph)), D (gps_af0 eph),
      D (gps_af1 eph), D (gps_af2 eph), N (unat (gps_iode eph)),
      N (unat (gps_iodc eph)), D (gps_idot eph), D (gps_crs eph),
      D (gps_crc eph), D (gps_cus eph), D (gps_cuc eph),
      D (gps_cis eph), D (gps_cic eph), D (gps_delta_n eph),
      D (gps_m0 eph), D (gps_ecc eph), D (gps_a_half eph),
      D (gps_omega0 eph), D (gps_i0 eph), D (gps_omega eph),
      D (gps_omegadot eph), D (gps_tgd eph), N (unat (gps_code_on_l2 eph)),
      N (unat (gps_l2p_data_flag eph)), N (unat (gps_fit eph)), N (unat (reserved eph)),
      N (unat (crc24 eph))]"

definition gps_layout :: "(nat \<times> field_kind) list" where
  "gps_layout =
     [(12, Raw), (20, Raw), (6, Raw), (4, Raw),
      (6, Raw), (10, Raw), (16, Raw), (16, Raw),
      (22, Sig (- 31)), (16, Sig (- 43)), (8, Sig (- 55)), (8, Raw),
      (10, Raw), (14, Sig (- 43)), (16, Sig (- 5)), (16, Sig (- 5)),
      (16, Sig (- 29)), (16, Sig (- 29)), (16, Sig (- 29)), (16, Sig (- 29)),
      (16, Sig (- 43)), (22, Sig (- 31)), (10, Gap), (32, Uns (- 33)),
      (32, Uns (- 19)), (32, Sig (- 31)), (32, Sig (- 31)), (32, Sig (- 31)),
      (24, Sig (- 43)), (8, Sig (- 31)), (2, Raw), (1, Raw),
      (1, Raw), (4, Raw), (24, Raw)]"

lemma gps_values_decode:
  "gps_values (decode_gpsephb payload) = decode_rows gps_layout 64 payload"
  by (simp add: decode_gpsephb_def gps_values_def gps_layout_def interpret_simps row_simps Let_def)

lemma gps_head_decode [simp]: "head (decode_gpsephb payload) = take 8 payload"
  by (simp add: decode_gpsephb_def Let_def)

lemma gps_decode_take: "decode_gpsephb (take 75 payload) = decode_gpsephb payload"
  by (simp add: decode_gpsephb_def Let_def)

lemma gps_layout_ok [simp]:
  "length gps_layout = 35" "sum_list (map fst gps_layout) = 536"
  "list_all (\<lambda>(w, k). w \<le> 64) gps_layout"
  by (simp_all add: gps_layout_def)

lemma length_gps_bytes: "length (gps_bytes eph) = length (head eph) + 178"
  by (simp add: gps_bytes_def)

end
