(* ===== verification/DecodeGlo.thy ===== *)
theory DecodeGlo
  imports Layout
begin

text \<open>
  GLONASS ephemerides (\<open>RAW_GLOEPHB\<close>): the packed struct \<open>GLOEPHB_Decoded_t\<close> of
  \<open>core/inc/gnss_func.h\<close>, \<open>decode_gloephb\<close> of \<open>core/src/gnss_ephb_decode.c\<close>,
  and the protocol's field table that the decoder is checked against. The decoder reads
  46 bytes from the packet header on: 8 of header, 35 of payload, 3 of CRC.
\<close>

record GLOEPHB_Decoded_t =
  head :: bytes
  gps_week_count :: u16
  gps_tow_s :: u32
  glo_satid :: u8
  glo_freq :: u8
  glo_bn_msb :: u8
  glo_n4 :: u8
  glo_nt :: u16
  glo_tk :: u16
  glo_tb :: u8
  glo_gamma :: dbl
  glo_tau :: dbl
  glo_x :: dbl
  glo_x_dot :: dbl
  glo_x_ddot :: dbl
  glo_y :: dbl
  glo_y_dot :: dbl
  glo_y_ddot :: dbl
  glo_z :: dbl
  glo_z_dot :: dbl
  glo_z_ddot :: dbl
  crc24 :: u32

definition decode_gloephb :: "bytes \<Rightarrow> GLOEPHB_Decoded_t" where
  "decode_gloephb payload =
     (let bit = 64;
          gps_week_count_v = ucast (read_bits_be payload bit 12);
          bit = bit + 12;
          gps_tow_s_v = read_bits_be payload bit 20;
          bit = bit + 20;
          glo_satid_v = ucast (read_bits_be payload bit 6);
          bit = bit + 6;
          glo_freq_v = ucast (read_bits_be payload bit 5);
          bit = bit + 5;
          glo_bn_msb_v = ucast (read_bits_be payload bit 1);
          bit = bit + 1;
          glo_n4_v = ucast (read_bits_be payload bit 5);
          bit = bit + 5;
          glo_nt_v = ucast (read_bits_be payload bit 11);
          bit = bit + 11;
          glo_tk_v = ucast (read_bits_be payload bit 12);
          bit = bit + 12;
          glo_tb_v = ucast (read_bits_be payload bit 7);
          bit = bit + 7;
          glo_gamma_v = scale_pow2 (read_signed_bits_be payload bit 11) (- 40);
          bit = bit + 11;
          glo_tau_v = scale_pow2 (read_signed_bits_be payload bit 22) (- 30);
          bit = bit + 22;
          glo_x_v = scale_pow2 (read_signed_bits_be payload bit 27) (- 11);
          bit = bit + 27;
          glo_x_dot_v = scale_pow2 (read_signed_bits_be payload bit 24) (- 20);
          bit = bit + 24;
          glo_x_ddot_v = scale_pow2 (read_signed_bits_be payload bit 5) (- 30);
          bit = bit + 5;
          glo_y_v = scale_pow2 (read_signed_bits_be payload bit 27) (- 11);
          bit = bit + 27;
          glo_y_dot_v = scale_pow2 (read_signed_bits_be payload bit 24) (- 20);
          bit = bit + 24;
          glo_y_ddot_v = scale_pow2 (read_signed_bits_be payload bit 5) (- 30);
          bit = bit + 5;
          glo_z_v = scale_pow2 (read_signed_bits_be payload bit 27) (- 11);
          bit = bit + 27;
          glo_z_dot_v = scale_pow2 (read_signed_bits_be payload bit 24) (- 20);
          bit = bit + 24;
          glo_z_ddot_v = scale_pow2 (read_signed_bits_be payload bit 5) (- 30);
          bit = bit + 5;
          crc24_v = read_bits_be payload bit 24
      in \<lparr>head = take 8 payload,
           gps_week_count = gps_week_count_v,
           gps_tow_s = gps_tow_s_v,
           glo_satid = glo_satid_v,
           glo_freq = glo_freq_v,
           glo_bn_msb = glo_bn_msb_v,
           glo_n4 = glo_n4_v,
           glo_nt = glo_nt_v,
           glo_tk = glo_tk_v,
           glo_tb = glo_tb_v,
           glo_gamma = glo_gamma_v,
           glo_tau = glo_tau_v,
           glo_x = glo_x_v,
           glo_x_dot = glo_x_dot_v,
           glo_x_ddot = glo_x_ddot_v,
           glo_y = glo_y_v,
           glo_y_dot = glo_y_dot_v,
           glo_y_ddot = glo_y_ddot_v,
           glo_z = glo_z_v,
           glo_z_dot = glo_z_dot_v,
           glo_z_ddot = glo_z_ddot_v,
           crc24 = crc24_v\<rparr>)"

text \<open>The bytes of the packed struct, as they are sent over the network (115 of them).\<close>

definition glo_bytes :: "GLOEPHB_Decoded_t \<Rightarrow> bytes" where
  "glo_bytes eph = head eph @
      le16 (gps_week_count eph) @ le32 (gps_tow_s eph) @ [glo_satid eph] @
      [glo_freq eph] @ [glo_bn_msb eph] @ [glo_n4 eph] @
      le16 (glo_nt eph) @ le16 (glo_tk eph) @ [glo_tb eph] @
      dbl_bytes (glo_gamma eph) @ dbl_bytes (glo_tau eph) @ dbl_bytes (glo_x eph) @
      dbl_bytes (glo_x_dot eph) @ dbl_bytes (glo_x_ddot eph) @ dbl_bytes (glo_y eph) @
      dbl_bytes (glo_y_dot eph) @ dbl_bytes (glo_y_ddot eph) @ dbl_bytes (glo_z eph) @
      dbl_bytes (glo_z_dot eph) @ dbl_bytes (glo_z_ddot eph) @ le32 (crc24 eph)"

text \<open>The fields after the header, and the table.\<close>

definition glo_values :: "GLOEPHB_Decoded_t \<Rightarrow> field_val list" where
  "glo_values eph =
     [N (unat (gps_week_count eph)), N (unat (gps_tow_s eph)), N (unat (glo_satid eph)),
      N (unat (glo_freq eph)), N (unat (glo_bn_msb eph)), N (unat (glo_n4 eph)),
      N (unat (glo_nt eph)), N (unat (glo_tk eph)), N (unat (glo_tb eph)),
      D (glo_gamma eph), D (glo_tau eph), D (glo_x eph),
      D (glo_x_dot eph), D (glo_x_ddot eph), D (glo_y eph),
      D (glo_y_dot eph), D (glo_y_ddot eph), D (glo_z eph),
      D (glo_z_dot eph), D (glo_z_ddot eph), N (unat (crc24 eph))]"

definition glo_layout :: "(nat \<times> field_kind) list" where
  "glo_layout =
     [(12, Raw), (20, Raw), (6, Raw), (5, Raw),
      (1, Raw), (5, Raw), (11, Raw), (12, Raw),
      (7, Raw), (11, Sig (- 40)), (22, Sig (- 30)), (27, Sig (- 11)),
      (24, Sig (- 20)), (5, Sig (- 30)), (27, Sig (- 11)), (24, Sig (- 20)),
      (5, Sig (- 30)), (27, Sig (- 11)), (24, Sig (- 20)), (5, Sig (- 30)),
      (24, Raw)]"

lemma glo_values_decode:
  "glo_values (decode_gloephb payload) = decode_rows glo_layout 64 payload"
  by (simp add: decode_gloephb_def glo_values_def glo_layout_def interpret_simps row_simps Let_def)

lemma glo_head_decode [simp]: "head (decode_gloephb payload) = take 8 payload"
  by (simp add: decode_gloephb_def Let_def)

lemma glo_decode_take: "decode_gloephb (take 46 payload) = decode_gloephb payload"
  by (simp add: decode_gloephb_def Let_def)

lemma glo_layout_ok [simp]:
  "length glo_layout = 21" "sum_list (map fst glo_layout) = 304"
  "list_all (\<lambda>(w, k). w \<le> 64) glo_layout"
  by (simp_all add: glo_layout_def)

lemma length_glo_bytes: "length (glo_bytes eph) = length (head eph) + 107"
  by (simp add: glo_bytes_def)

end
