(* ===== verification/DecodeGal.thy ===== *)
theory DecodeGal
  imports Layout
begin

text \<open>
  Galileo ephemerides (\<open>RAW_GALEPHB\<close>, \<open>RAW_GALINAV\<close>): the packed struct \<open>GALEPHB_Decoded_t\<close> of
  \<open>core/inc/gnss_func.h\<close>, \<open>decode_galephb\<close> of \<open>core/src/gnss_ephb_decode.c\<close>,
  and the protocol's field table that the decoder is checked against. The decoder reads
  77 bytes from the packet header on: 8 of header, 66 of payload, 3 of CRC.
\<close>

record GALEPHB_Decoded_t =
  head :: bytes
  gps_week_count :: u16
  gps_tow_s :: u32
  gal_satid :: u8
  gal_sisa :: u8
  gal_e5b_sv_health :: u8
  gal_e5b_valid :: u8
  gal_e1b_health :: u8
  gal_e1b_valid :: u8
  gal_week :: u16
  gal_toe :: u32
  gal_toc :: u32
  gal_af0 :: dbl
  gal_af1 :: dbl
  gal_af2 :: dbl
  gal_iodnav :: u16
  gal_idot :: dbl
  gal_crs :: dbl
  gal_crc :: dbl
  gal_cus :: dbl
  gal_cuc :: dbl
  gal_cis :: dbl
  gal_cic :: dbl
  gal_delta_n :: dbl
  gal_m0 :: dbl
  gal_ecc :: dbl
  gal_a_half :: dbl
  gal_omega0 :: dbl
  gal_i0 :: dbl
  gal_omega :: dbl
  gal_omegadot :: dbl
  gal_bgd_e5a_e1 :: dbl
  gal_bgd_e5b_e1 :: dbl
  gal_navtype :: u8
  gal_reserved :: u8
  crc24 :: u32

definition decode_galephb :: "bytes \<Rightarrow> GALEPHB_Decoded_t" where
  "decode_galephb payload =
     (let bit = 64;
          gps_week_count_v = ucast (read_bits_be payload bit 12);
          bit = bit + 12;
          gps_tow_s_v = read_bits_be payload bit 20;
          bit = bit + 20;
          gal_satid_v = ucast (read_bits_be payload bit 6);
          bit = bit + 6;
          gal_sisa_v = ucast (read_bits_be payload bit 8);
          bit = bit + 8;
          gal_e5b_sv_health_v = ucast (read_bits_be payload bit 2);
          bit = bit + 2;
          gal_e5b_valid_v = ucast (read_bits_be payload bit 1);
          bit = bit + 1;
          gal_e1b_health_v = ucast (read_bits_be payload bit 2);
          bit = bit + 2;
          gal_e1b_valid_v = ucast (read_bits_be payload bit 1);
          bit = bit + 1;
          gal_week_v = ucast (read_bits_be payload bit 12);
          bit = bit + 12;
          gal_toe_v = read_bits_be payload bit 14 * 60;
          bit = bit + 14;
          gal_toc_v = read_bits_be payload bit 14 * 60;
          bit = bit + 14;
          gal_af0_v = scale_pow2 (read_signed_bits_be payload bit 31) (- 34);
          bit = bit + 31;
          gal_af1_v = scale_pow2 (read_signed_bits_be payload bit 21) (- 46);
          bit = bit + 21;
          gal_af2_v = scale_pow2 (read_signed_bits_be payload bit 6) (- 59);
          bit = bit + 6;
          gal_iodnav_v = ucast (read_bits_be payload bit 10);
          bit = bit + 10;
          gal_idot_v = scale_pi_pow2 (read_signed_bits_be payload bit 14) (- 43);
          bit = bit + 14;
          gal_crs_v = scale_pow2 (read_signed_bits_be payload bit 16) (- 5);
          bit = bit + 16;
          gal_crc_v = scale_pow2 (read_signed_bits_be payload bit 16) (- 5);
          bit = bit + 16;
          gal_cus_v = scale_pow2 (read_signed_bits_be payload bit 16) (- 29);
          bit = bit + 16;
          gal_cuc_v = scale_pow2 (read_signed_bits_be payload bit 16) (- 29);
          bit = bit + 16;
          gal_cis_v = scale_pow2 (read_signed_bits_be payload bit 16) (- 29);
          bit = bit + 16;
          gal_cic_v = scale_pow2 (read_signed_bits_be payload bit 16) (- 29);
          bit = bit + 16;
          gal_delta_n_v = scale_pi_pow2 (read_signed_bits_be payload bit 16) (- 43);
          bit = bit + 16;
          gal_m0_v = scale_pi_pow2 (read_signed_bits_be payload bit 32) (- 31);
          bit = bit + 32;
          gal_ecc_v = scale_pow2_u (read_bits_be payload bit 32) (- 33);
          bit = bit + 32;
          gal_a_half_v = scale_pow2_u (read_bits_be payload bit 32) (- 19);
          bit = bit + 32;
          gal_omega0_v = scale_pi_pow2 (read_signed_bits_be payload bit 32) (- 31);
          bit = bit + 32;
          gal_i0_v = scale_pi_pow2 (read_signed_bits_be payload bit 32) (- 31);
          bit = bit + 32;
          gal_omega_v = scale_pi_pow2 (read_signed_bits_be payload bit 32) (- 31);
          bit = bit + 32;
          gal_omegadot_v = scale_pi_pow2 (read_signed_bits_be payload bit 24) (- 43);
          bit = bit + 24;
          gal_bgd_e5a_e1_v = scale_pow2 (read_signed_bits_be payload bit 10) (- 32);
          bit = bit + 10;
          gal_bgd_e5b_e1_v = scale_pow2 (read_signed_bits_be payload bit 10) (- 32);
          bit = bit + 10;
          gal_navtype_v = ucast (read_bits_be payload bit 2);
          bit = bit + 2;
          gal_reserved_v = ucast (read_bits_be payload bit 4);
          bit = bit + 4;
          crc24_v = read_bits_be payload bit 24
      in \<lparr>head = take 8 payload,
           gps_week_count = gps_week_count_v,
           gps_tow_s = gps_tow_s_v,
           gal_satid = gal_satid_v,
           gal_sisa = gal_sisa_v,
           gal_e5b_sv_health = gal_e5b_sv_health_v,
           gal_e5b_valid = gal_e5b_valid_v,
           gal_e1b_health = gal_e1b_health_v,
           gal_e1b_valid = gal_e1b_valid_v,
           gal_week = gal_week_v,
           gal_toe = gal_toe_v,
           gal_toc = gal_toc_v,
           gal_af0 = gal_af0_v,
           gal_af1 = gal_af1_v,
           gal_af2 = gal_af2_v,
           gal_iodnav = gal_iodnav_v,
           gal_idot = gal_idot_v,
           gal_crs = gal_crs_v,
           gal_crc = gal_crc_v,
           gal_cus = gal_cus_v,
           gal_cuc = gal_cuc_v,
           gal_cis = gal_cis_v,
           gal_cic = gal_cic_v,
           gal_delta_n = gal_delta_n_v,
           gal_m0 = gal_m0_v,
           gal_ecc = gal_ecc_v,
           gal_a_half = gal_a_half_v,
           gal_omega0 = gal_omega0_v,
           gal_i0 = gal_i0_v,
           gal_omega = gal_omega_v,
           gal_omegadot = gal_omegadot_v,
           gal_bgd_e5a_e1 = gal_bgd_e5a_e1_v,
           gal_bgd_e5b_e1 = gal_bgd_e5b_e1_v,
           gal_navtype = gal_navtype_v,
           gal_reserved = gal_reserved_v,
           crc24 = crc24_v\<rparr>)"

text \<open>The bytes of the packed struct, as they are sent over the network (198 of them).\<close>

definition gal_bytes :: "GALEPHB_Decoded_t \<Rightarrow> bytes" where
  "gal_bytes eph = head eph @
      le16 (gps_week_count eph) @ le32 (gps_tow_s eph) @ [gal_satid eph] @
      [gal_sisa eph] @ [gal_e5b_sv_health eph] @ [gal_e5b_valid eph] @
      [gal_e1b_health eph] @ [gal_e1b_valid eph] @ le16 (gal_week eph) @
      le32 (gal_toe eph) @ le32 (gal_toc eph) @ dbl_bytes (gal_af0 eph) @
      dbl_bytes (gal_af1 eph) @ dbl_bytes (gal_af2 eph) @ le16 (gal_iodnav eph) @
      dbl_bytes (gal_idot eph) @ dbl_bytes (gal_crs eph) @ dbl_bytes (gal_crc eph) @
      dbl_bytes (gal_cus eph) @ dbl_bytes (gal_cuc eph) @ dbl_bytes (gal_cis eph) @
      dbl_bytes (gal_cic eph) @ dbl_bytes (gal_delta_n eph) @ dbl_bytes (gal_m0 eph) @
      dbl_bytes (gal_ecc eph) @ dbl_bytes (gal_a_half eph) @ dbl_bytes (gal_omega0 eph) @
      dbl_bytes (gal_i0 eph) @ dbl_bytes (gal_omega eph) @ dbl_bytes (gal_omegadot eph) @
      dbl_bytes (gal_bgd_e5a_e1 eph) @ dbl_bytes (gal_bgd_e5b_e1 eph) @ [gal_navtype eph] @
      [gal_reserved eph] @ le32 (crc24 eph)"

text \<open>The fields after the header, and the table.\<close>

definition gal_values :: "GALEPHB_Decoded_t \<Rightarrow> field_val list" where
  "gal_values eph =
     [N (unat (gps_week_count eph)), N (unat (gps_tow_s eph)), N (unat (gal_satid eph)),
      N (unat (gal_sisa eph)), N (unat (gal_e5b_sv_health eph)), N (unat (gal_e5b_valid eph)),
      N (unat (gal_e1b_health eph)), N (unat (gal_e1b_valid eph)), N (unat (gal_week eph)),
      N (unat (gal_toe eph)), N (unat (gal_toc eph)), D (gal_af0 eph),
      D (gal_af1 eph), D (gal_af2 eph), N (unat (gal_iodnav eph)),
      D (gal_idot eph), D (gal_crs eph), D (gal_crc eph),
      D (gal_cus eph), D (gal_cuc eph), D (gal_cis eph),
      D (gal_cic eph), D (gal_delta_n eph), D (gal_m0 eph),
      D (gal_ecc eph), D (gal_a_half eph), D (gal_omega0 eph),
      D (gal_i0 eph), D (gal_omega eph), D (gal_omegadot eph),
      D (gal_bgd_e5a_e1 eph), D (gal_bgd_e5b_e1 eph), N (unat (gal_navtype eph)),
      N (unat (gal_reserved eph)), N (unat (crc24 eph))]"

definition gal_layout :: "(nat \<times> field_kind) list" where
  "gal_layout =
     [(12, Raw), (20, Raw), (6, Raw), (8, Raw),
      (2, Raw), (1, Raw), (2, Raw), (1, Raw),
      (12, Raw), (14, Times 60), (14, Times 60), (31, Sig (- 34)),
      (21, Sig (- 46)), (6, Sig (- 59)), (10, Raw), (14, SigPi (- 43)),
      (16, Sig (- 5)), (16, Sig (- 5)), (16, Sig (- 29)), (16, Sig (- 29)),
      (16, Sig (- 29)), (16, Sig (- 29)), (16, SigPi (- 43)), (32, SigPi (- 31)),
      (32, Uns (- 33)), (32, Uns (- 19)), (32, SigPi (- 31)), (32, SigPi (- 31)),
      (32, SigPi (- 31)), (24, SigPi (- 43)), (10, Sig (- 32)), (10, Sig (- 32)),
      (2, Raw), (4, Raw), (24, Raw)]"

lemma gal_values_decode:
  "gal_values (decode_galephb payload) = decode_rows gal_layout 64 payload"
  by (simp add: decode_galephb_def gal_values_def gal_layout_def interpret_simps row_simps Let_def)

lemma gal_head_decode [simp]: "head (decode_galephb payload) = take 8 payload"
  by (simp add: decode_galephb_def Let_def)

lemma gal_decode_take: "decode_galephb (take 77 payload) = decode_galephb payload"
  by (simp add: decode_galephb_def Let_def)

lemma gal_layout_ok [simp]:
  "length gal_layout = 35" "sum_list (map fst gal_layout) = 552"
  "list_all (\<lambda>(w, k). w \<le> 64) gal_layout"
  by (simp_all add: gal_layout_def)

lemma length_gal_bytes: "length (gal_bytes eph) = length (head eph) + 190"
  by (simp add: gal_bytes_def)

end
