(* ===== verification/DecodePos.thy ===== *)
theory DecodePos
  imports Layout
begin

text \<open>
  position reports (\<open>RAW_POSDATAB\<close>): the packed struct \<open>POSDATAB_Decoded_t\<close> of
  \<open>core/inc/gnss_func.h\<close>, \<open>decode_posdatab\<close> of \<open>core/src/gnss_ephb_decode.c\<close>,
  and the protocol's field table that the decoder is checked against. The decoder reads
  85 bytes from the packet header on: 12 of header, 70 of payload, 3 of CRC.
\<close>

record POSDATAB_Decoded_t =
  head :: bytes
  time_system :: u8
  week_num :: u16
  sec_in_week :: dbl
  leap_second :: u8
  sys_status :: u8
  pos_type :: u8
  azi_type :: u8
  latitude :: dbl
  longitude :: dbl
  altitude :: dbl
  east_velocity :: dbl
  north_velocity :: dbl
  up_velocity :: dbl
  pitch :: dbl
  roll :: dbl
  azimuth :: dbl
  lat_sigma :: dbl
  lon_sigma :: dbl
  altitude_sigma :: dbl
  east_vel_sigma :: dbl
  north_vel_sigma :: dbl
  up_vel_sigma :: dbl
  pitch_sigma :: dbl
  roll_sigma :: dbl
  azimuth_sigma :: dbl
  gnss_sat_m :: u8
  gnss_sat_s :: u8
  diff_age :: dbl
  odo_flag :: u8
  gear :: u8
  fl_wheel_speed :: dbl
  fr_wheel_speed :: dbl
  rl_wheel_speed :: dbl
  rr_wheel_speed :: dbl
  reserved0 :: u32
  reserved1 :: u32
  crc24 :: u32

definition decode_posdatab :: "bytes \<Rightarrow> POSDATAB_Decoded_t" where
  "decode_posdatab payload =
     (let bit = 96;
          time_system_v = ucast (read_bits_be payload bit 3);
          bit = bit + 3;
          week_num_v = ucast (read_bits_be payload bit 13);
          bit = bit + 13;
          sec_in_week_v = dbl_mul (dbl_of_int (uint (read_bits_be payload bit 32))) c_1e_3;
          bit = bit + 32;
          leap_second_v = ucast (read_signed_bits_be payload bit 8);
          bit = bit + 8;
          sys_status_v = ucast (read_bits_be payload bit 4);
          bit = bit + 4;
          pos_type_v = ucast (read_bits_be payload bit 6);
          bit = bit + 6;
          azi_type_v = ucast (read_bits_be payload bit 6);
          bit = bit + 6;
          latitude_v = dbl_mul (dbl_of_int (sint (read_signed_bits_be64 payload bit 36))) c_1e_8;
          bit = bit + 36;
          longitude_v = dbl_mul (dbl_of_int (sint (read_signed_bits_be64 payload bit 36))) c_1e_8;
          bit = bit + 36;
          altitude_v = dbl_mul (dbl_of_int (sint (read_signed_bits_be64 payload bit 30))) c_1e_3;
          bit = bit + 30;
          east_velocity_v = dbl_mul (dbl_of_int (uint (read_signed_bits_be payload bit 16))) c_1e_2;
          bit = bit + 16;
          north_velocity_v = dbl_mul (dbl_of_int (uint (read_signed_bits_be payload bit 16))) c_1e_2;
          bit = bit + 16;
          up_velocity_v = dbl_mul (dbl_of_int (uint (read_signed_bits_be payload bit 16))) c_1e_2;
          bit = bit + 16;
          pitch_v = dbl_mul (dbl_of_int (uint (read_signed_bits_be payload bit 16))) c_1e_2;
          bit = bit + 16;
          roll_v = dbl_mul (dbl_of_int (uint (read_signed_bits_be payload bit 16))) c_1e_2;
          bit = bit + 16;
          azimuth_v = dbl_mul (dbl_of_int (uint (read_signed_bits_be payload bit 16))) c_1e_2;
          bit = bit + 16;
          lat_sigma_v = dbl_mul (dbl_of_int (uint (read_signed_bits_be payload bit 18))) c_1e_3;
          bit = bit + 18;
          lon_sigma_v = dbl_mul (dbl_of_int (uint (read_signed_bits_be payload bit 18))) c_1e_3;
          bit = bit + 18;
          altitude_sigma_v = dbl_mul (dbl_of_int (uint (read_signed_bits_be payload bit 18))) c_1e_3;
          bit = bit + 18;
          east_vel_sigma_v = dbl_mul (dbl_of_int (uint (read_signed_bits_be payload bit 12))) c_1e_2;
          bit = bit + 12;
          north_vel_sigma_v = dbl_mul (dbl_of_int (uint (read_signed_bits_be payload bit 12))) c_1e_2;
          bit = bit + 12;
          up_vel_sigma_v = dbl_mul (dbl_of_int (uint (read_signed_bits_be payload bit 12))) c_1e_2;
          bit = bit + 12;
          pitch_sigma_v = dbl_mul (dbl_of_int (uint (read_signed_bits_be payload bit 12))) c_1e_2;
          bit = bit + 12;
          roll_sigma_v = dbl_mul (dbl_of_int (uint (read_signed_bits_be payload bit 12))) c_1e_2;
          bit = bit + 12;
          azimuth_sigma_v = dbl_mul (dbl_of_int (uint (read_signed_bits_be payload bit 12))) c_1e_2;
          bit = bit + 12;
          gnss_sat_m_v = ucast (read_bits_be payload bit 8);
          bit = bit + 8;
          gnss_sat_s_v = ucast (read_bits_be payload bit 8);
          bit = bit + 8;
          diff_age_v = dbl_mul (dbl_of_int (uint (read_bits_be payload bit 16))) c_1e_1;
          bit = bit + 16;
          odo_flag_v = ucast (read_bits_be payload bit 1);
          bit = bit + 1;
          gear_v = ucast (read_bits_be payload bit 3);
          bit = bit + 3;
          fl_wheel_speed_v = dbl_mul (dbl_of_int (uint (read_signed_bits_be payload bit 16))) c_1e_2;
          bit = bit + 16;
          fr_wheel_speed_v = dbl_mul (dbl_of_int (uint (read_signed_bits_be payload bit 16))) c_1e_2;
          bit = bit + 16;
          rl_wheel_speed_v = dbl_mul (dbl_of_int (uint (read_signed_bits_be payload bit 16))) c_1e_2;
          bit = bit + 16;
          rr_wheel_speed_v = dbl_mul (dbl_of_int (uint (read_signed_bits_be payload bit 16))) c_1e_2;
          bit = bit + 16;
          reserved0_v = read_bits_be payload bit 32;
          bit = bit + 32;
          reserved1_v = read_bits_be payload bit 32;
          bit = bit + 32;
          crc24_v = read_bits_be payload bit 24
      in \<lparr>head = take 12 payload,
           time_system = time_system_v,
           week_num = week_num_v,
           sec_in_week = sec_in_week_v,
           leap_second = leap_second_v,
           sys_status = sys_status_v,
           pos_type = pos_type_v,
           azi_type = azi_type_v,
           latitude = latitude_v,
           longitude = longitude_v,
           altitude = altitude_v,
           east_velocity = east_velocity_v,
           north_velocity = north_velocity_v,
           up_velocity = up_velocity_v,
           pitch = pitch_v,
           roll = roll_v,
           azimuth = azimuth_v,
           lat_sigma = lat_sigma_v,
           lon_sigma = lon_sigma_v,
           altitude_sigma = altitude_sigma_v,
           east_vel_sigma = east_vel_sigma_v,
           north_vel_sigma = north_vel_sigma_v,
           up_vel_sigma = up_vel_sigma_v,
           pitch_sigma = pitch_sigma_v,
           roll_sigma = roll_sigma_v,
           azimuth_sigma = azimuth_sigma_v,
           gnss_sat_m = gnss_sat_m_v,
           gnss_sat_s = gnss_sat_s_v,
           diff_age = diff_age_v,
           odo_flag = odo_flag_v,
           gear = gear_v,
           fl_wheel_speed = fl_wheel_speed_v,
           fr_wheel_speed = fr_wheel_speed_v,
           rl_wheel_speed = rl_wheel_speed_v,
           rr_wheel_speed = rr_wheel_speed_v,
           reserved0 = reserved0_v,
           reserved1 = reserved1_v,
           crc24 = crc24_v\<rparr>)"

text \<open>The bytes of the packed struct, as they are sent over the network (227 of them).\<close>

definition pos_bytes :: "POSDATAB_Decoded_t \<Rightarrow> bytes" where
  "pos_bytes eph = head eph @
      [time_system eph] @ le16 (week_num eph) @ dbl_bytes (sec_in_week eph) @
      [leap_second eph] @ [sys_status eph] @ [pos_type eph] @
      [azi_type eph] @ dbl_bytes (latitude eph) @ dbl_bytes (longitude eph) @
      dbl_bytes (altitude eph) @ dbl_bytes (east_velocity eph) @ dbl_bytes (north_velocity eph) @
      dbl_bytes (up_velocity eph) @ dbl_bytes (pitch eph) @ dbl_bytes (roll eph) @
      dbl_bytes (azimuth eph) @ dbl_bytes (lat_sigma eph) @ dbl_bytes (lon_sigma eph) @
      dbl_bytes (altitude_sigma eph) @ dbl_bytes (east_vel_sigma eph) @ dbl_bytes (north_vel_sigma eph) @
      dbl_bytes (up_vel_sigma eph) @ dbl_bytes (pitch_sigma eph) @ dbl_bytes (roll_sigma eph) @
      dbl_bytes (azimuth_sigma eph) @ [gnss_sat_m eph] @ [gnss_sat_s eph] @
      dbl_bytes (diff_age eph) @ [odo_flag eph] @ [gear eph] @
      dbl_bytes (fl_wheel_speed eph) @ dbl_bytes (fr_wheel_speed eph) @ dbl_bytes (rl_wheel_speed eph) @
      dbl_bytes (rr_wheel_speed eph) @ le32 (reserved0 eph) @ le32 (reserved1 eph) @
      le32 (crc24 eph)"

text \<open>The fields after the header, and the table.\<close>

definition pos_values :: "POSDATAB_Decoded_t \<Rightarrow> field_val list" where
  "pos_values eph =
     [N (unat (time_system eph)), N (unat (week_num eph)), D (sec_in_week eph),
      N (unat (leap_second eph)), N (unat (sys_status eph)), N (unat (pos_type eph)),
      N (unat (azi_type eph)), D (latitude eph), D (longitude eph),
      D (altitude eph), D (east_velocity eph), D (north_velocity eph),
      D (up_velocity eph), D (pitch eph), D (roll eph),
      D (azimuth eph), D (lat_sigma eph), D (lon_sigma eph),
      D (altitude_sigma eph), D (east_vel_sigma eph), D (north_vel_sigma eph),
      D (up_vel_sigma eph), D (pitch_sigma eph), D (roll_sigma eph),
      D (azimuth_sigma eph), N (unat (gnss_sat_m eph)), N (unat (gnss_sat_s eph)),
      D (diff_age eph), N (unat (odo_flag eph)), N (unat (gear eph)),
      D (fl_wheel_speed eph), D (fr_wheel_speed eph), D (rl_wheel_speed eph),
      D (rr_wheel_speed eph), N (unat (reserved0 eph)), N (unat (reserved1 eph)),
      N (unat (crc24 eph))]"

definition pos_layout :: "(nat \<times> field_kind) list" where
  "pos_layout =
     [(3, Raw), (13, Raw), (32, Decimal c_1e_3), (8, Raw),
      (4, Raw), (6, Raw), (6, Raw), (36, SigDecimal c_1e_8),
      (36, SigDecimal c_1e_8), (30, SigDecimal c_1e_3), (16, WrapDecimal c_1e_2), (16, WrapDecimal c_1e_2),
      (16, WrapDecimal c_1e_2), (16, WrapDecimal c_1e_2), (16, WrapDecimal c_1e_2), (16, WrapDecimal c_1e_2),
      (18, WrapDecimal c_1e_3), (18, WrapDecimal c_1e_3), (18, WrapDecimal c_1e_3), (12, WrapDecimal c_1e_2),
      (12, WrapDecimal c_1e_2), (12, WrapDecimal c_1e_2), (12, WrapDecimal c_1e_2), (12, WrapDecimal c_1e_2),
      (12, WrapDecimal c_1e_2), (8, Raw), (8, Raw), (16, Decimal c_1e_1),
      (1, Raw), (3, Raw), (16, WrapDecimal c_1e_2), (16, WrapDecimal c_1e_2),
      (16, WrapDecimal c_1e_2), (16, WrapDecimal c_1e_2), (32, Raw), (32, Raw),
      (24, Raw)]"

lemma pos_values_decode:
  "pos_values (decode_posdatab payload) = decode_rows pos_layout 96 payload"
  by (simp add: decode_posdatab_def pos_values_def pos_layout_def interpret_simps row_simps Let_def)

lemma pos_head_decode [simp]: "head (decode_posdatab payload) = take 12 payload"
  by (simp add: decode_posdatab_def Let_def)

lemma pos_decode_take: "decode_posdatab (take 85 payload) = decode_posdatab payload"
  by (simp add: decode_posdatab_def Let_def)

lemma pos_layout_ok [simp]:
  "length pos_layout = 37" "sum_list (map fst pos_layout) = 584"
  "list_all (\<lambda>(w, k). w \<le> 64) pos_layout"
  by (simp_all add: pos_layout_def)

lemma length_pos_bytes: "length (pos_bytes eph) = length (head eph) + 215"
  by (simp add: pos_bytes_def)

end
