(* ===== verification/DecodePrange.thy ===== *)
theory DecodePrange
  imports Layout
begin

text \<open>
  Raw observations (\<open>RAW_PRANGEB\<close>): \<open>PRANGEB_Decoded_t\<close> of \<open>core/inc/gnss_func.h\<close> and
  \<open>decode_prangeb\<close> of \<open>core/src/gnss_ephb_decode.c\<close>. The numbers of satellites and of
  signals come from the message, so the decoder's reach depends on its input. The two
  arrays of the struct are lists of the elements that the decoder writes; the rest is the
  zero of the initial \<open>memset\<close>.
\<close>

record signal_info_t =
  signal_id :: u8
  phase_lock_flag :: u8
  precise_pr :: dbl
  precise_phase :: dbl
  precise_phase_rate :: dbl
  cn0 :: dbl
  half_cycle :: u8

record sat_info_t =
  sat_id :: u8
  signal_count :: u8
  apd_ms :: dbl
  approx_phase_rate :: u16
  signal_info :: "signal_info_t list"

record PRANGEB_Decoded_t =
  head :: bytes
  gps_week_count :: u16
  gps_tow_s :: u32
  ms_count :: u8
  sync_flag :: u8
  system_id :: u8
  sat_count :: u8
  sat_info :: "sat_info_t list"
  crc24 :: u32

definition PRANGEB_MAX_SATS :: nat where
  "PRANGEB_MAX_SATS = 64"

text \<open>\<open>(int16_t) raw\<close>, promoted to \<open>int32_t\<close> again.\<close>

definition as_int16 :: "u32 \<Rightarrow> u32" where
  "as_int16 raw = scast (ucast raw :: u16)"

definition decode_signal :: "bytes \<Rightarrow> nat \<Rightarrow> signal_info_t \<times> nat" where
  "decode_signal payload start =
     (let bit = start;
          signal_id_v = ucast (read_bits_be payload bit 6);
          bit = bit + 6;
          phase_lock_flag_v = ucast (read_bits_be payload bit 4);
          bit = bit + 4;
          precise_pr_v = scale_pow2 (as_int16 (read_signed_bits_be payload bit 15)) (- 24);
          bit = bit + 15;
          precise_phase_v = scale_pow2 (read_signed_bits_be payload bit 22) (- 29);
          bit = bit + 22;
          precise_phase_rate_v = scale_pow2 (as_int16 (read_signed_bits_be payload bit 15)) (- 4);
          bit = bit + 15;
          cn0_v = scale_pow2_u (ucast (ucast (read_bits_be payload bit 13) :: u16)) (- 2);
          bit = bit + 13;
          half_cycle_v = ucast (read_bits_be payload bit 1);
          bit = bit + 1;
          bit = bit + 4
      in (\<lparr>signal_id = signal_id_v, phase_lock_flag = phase_lock_flag_v,
           precise_pr = precise_pr_v, precise_phase = precise_phase_v,
           precise_phase_rate = precise_phase_rate_v, cn0 = cn0_v, half_cycle = half_cycle_v\<rparr>, bit))"

fun decode_signals :: "nat \<Rightarrow> bytes \<Rightarrow> nat \<Rightarrow> signal_info_t list \<times> nat" where
  "decode_signals 0 payload start = ([], start)"
| "decode_signals (Suc n) payload start =
     (let (s, bit) = decode_signal payload start;
          (ss, bit) = decode_signals n payload bit
      in (s # ss, bit))"

definition decode_sat :: "bytes \<Rightarrow> nat \<Rightarrow> sat_info_t \<times> nat" where
  "decode_sat payload start =
     (let bit = start;
          sat_id_v = ucast (read_bits_be payload bit 6);
          bit = bit + 6;
          signal_count_v = ucast (read_bits_be payload bit 4) :: u8;
          bit = bit + 4;
          int_ms = ucast (read_bits_be payload bit 8) :: u16;
          bit = bit + 8;
          frac_ms = ucast (read_bits_be payload bit 10) :: u16;
          apd_ms_v = dbl_add (dbl_of_int (uint int_ms)) (scale_pow2 (ucast frac_ms) (- 10));
          bit = bit + 10;
          approx_phase_rate_v = ucast (read_signed_bits_be payload bit 14);
          bit = bit + 14;
          bit = bit + 6;
          (signals, bit) = decode_signals (unat signal_count_v) payload bit
      in (\<lparr>sat_id = sat_id_v, signal_count = signal_count_v, apd_ms = apd_ms_v,
           approx_phase_rate = approx_phase_rate_v, signal_info = signals\<rparr>, bit))"

fun decode_sats :: "nat \<Rightarrow> bytes \<Rightarrow> nat \<Rightarrow> sat_info_t list \<times> nat" where
  "decode_sats 0 payload start = ([], start)"
| "decode_sats (Suc n) payload start =
     (let (s, bit) = decode_sat payload start;
          (ss, bit) = decode_sats n payload bit
      in (s # ss, bit))"

text \<open>
  \<open>out\<close> after \<open>memset\<close>, which is all that a message shorter than three bytes leaves. The
  second result is the bit position after the CRC, up to which the message was read.
\<close>

definition prangeb_zero :: PRANGEB_Decoded_t where
  "prangeb_zero = \<lparr>head = replicate 8 0, gps_week_count = 0, gps_tow_s = 0, ms_count = 0,
     sync_flag = 0, system_id = 0, sat_count = 0, sat_info = [], crc24 = 0\<rparr>"

definition prangeb_walk :: "bytes \<Rightarrow> PRANGEB_Decoded_t \<times> nat" where
  "prangeb_walk payload =
     (let bit = 64;
          gps_week_count_v = ucast (read_bits_be payload bit 12);
          bit = bit + 12;
          gps_tow_s_v = read_bits_be payload bit 20;
          bit = bit + 20;
          ms_count_v = ucast (read_bits_be payload bit 7);
          bit = bit + 7;
          sync_flag_v = ucast (read_bits_be payload bit 1);
          bit = bit + 1;
          system_id_v = ucast (read_bits_be payload bit 3);
          bit = bit + 3;
          sat_count_v = ucast (read_bits_be payload bit 6) :: u8;
          bit = bit + 6;
          bit = bit + 7;
          (sats, bit) = decode_sats (unat sat_count_v) payload bit;
          crc24_v = read_bits_be payload bit 24
      in (\<lparr>head = take 8 payload, gps_week_count = gps_week_count_v, gps_tow_s = gps_tow_s_v,
           ms_count = ms_count_v, sync_flag = sync_flag_v, system_id = system_id_v,
           sat_count = sat_count_v, sat_info = sats, crc24 = crc24_v\<rparr>, bit + 24))"

definition decode_prangeb :: "bytes \<Rightarrow> nat \<Rightarrow> PRANGEB_Decoded_t" where
  "decode_prangeb payload payload_len =
     (if payload_len < 3 then prangeb_zero else fst (prangeb_walk payload))"

section \<open>Reach and array bounds\<close>

lemma decode_signal_end: "snd (decode_signal payload start) = start + 80"
  by (simp add: decode_signal_def Let_def)

lemma decode_signals_end:
  "length (fst (decode_signals n payload start)) = n \<and> snd (decode_signals n payload start) = start + 80 * n"
proof (induction n arbitrary: start)
  case 0
  then show ?case by simp
next
  case (Suc n)
  then show ?case using decode_signal_end [of payload start]
    by (auto simp: split_beta Let_def)
qed

lemma decode_sat_end:
  "length (signal_info (fst (decode_sat payload start))) = unat (signal_count (fst (decode_sat payload start)))"
  "unat (signal_count (fst (decode_sat payload start))) = fld payload (start + 6) 4"
  "snd (decode_sat payload start) = start + 48 + 80 * fld payload (start + 6) 4"
  by (simp_all add: decode_sat_def Let_def split_beta decode_signals_end row_simps)

text \<open>The bits that a list of decoded satellites occupied.\<close>

definition sats_bits :: "sat_info_t list \<Rightarrow> nat" where
  "sats_bits ss = sum_list (map (\<lambda>s. 48 + 80 * length (signal_info s)) ss)"

lemma decode_sats_end:
  "length (fst (decode_sats n payload start)) = n
   \<and> (\<forall>s \<in> set (fst (decode_sats n payload start)).
        length (signal_info s) = unat (signal_count s) \<and> unat (signal_count s) < 16)
   \<and> snd (decode_sats n payload start) = start + sats_bits (fst (decode_sats n payload start))"
proof (induction n arbitrary: start)
  case 0
  then show ?case by (simp add: sats_bits_def)
next
  case (Suc n)
  have b: "fld payload (start + 6) 4 < 16" using fld_less [of 4 payload "start + 6"] by simp
  show ?case using decode_sat_end [of payload start] Suc [of "snd (decode_sat payload start)"] b
    by (auto simp: sats_bits_def split_beta Let_def)
qed

text \<open>The arrays of the struct have 64 elements; at most 63 and 15 of them are written.\<close>

lemma prangeb_walk_bounds:
  "length (sat_info (fst (prangeb_walk payload))) = unat (sat_count (fst (prangeb_walk payload)))"
  "unat (sat_count (fst (prangeb_walk payload))) = fld payload 107 6"
  "snd (prangeb_walk payload) = 144 + sats_bits (sat_info (fst (prangeb_walk payload)))"
  "s \<in> set (sat_info (fst (prangeb_walk payload))) \<Longrightarrow>
     length (signal_info s) = unat (signal_count s) \<and> unat (signal_count s) < 16"
  using decode_sats_end [of "unat (ucast (read_bits_be payload 107 6) :: u8)" payload 120]
  by (auto simp: prangeb_walk_def Let_def split_beta row_simps)

end
