(* ===== verification/RawScan.thy ===== *)
theory RawScan
  imports Crc24 GnssTypes DecodeBd2 DecodeBd3 DecodeCnav2 DecodeCnav3 DecodeXw DecodeGps
    DecodeGlo DecodeGal DecodePos DecodePrange
begin

text \<open>
  \<open>handle_gnss_raw\<close> of \<open>core/src/gnss_ephb.c\<close>: the scan of the receive buffer for binary
  packets, their acceptance and their dispatch to the decoders. The effects of the scan
  on the rest of the program (printing, the CSV files, the network) are a list of events
  in the order of the calls; every event carries the arguments of the call.

  The buffer is the memory from \<open>data\<close> on, of which the first \<open>len\<close> bytes are data. The
  decoders read a fixed number of bytes, for some types beyond the packet; those bytes are
  the memory that follows.
\<close>

definition Header1 :: u32 where "Header1 = 0x47485343"
definition Header2 :: u64 where "Header2 = 0x4154414458454824"

definition GPSEPHB_PAYLOAD_LEN :: nat where "GPSEPHB_PAYLOAD_LEN = 64"
definition BD2EPHB_PAYLOAD_LEN :: nat where "BD2EPHB_PAYLOAD_LEN = 67"
definition POSDATAB_PAYLOAD_LEN :: nat where "POSDATAB_PAYLOAD_LEN = 70"
definition BD3EPHB_PAYLOAD_LEN :: nat where "BD3EPHB_PAYLOAD_LEN = 76"
definition GALEPHB_PAYLOAD_LEN :: nat where "GALEPHB_PAYLOAD_LEN = 66"

definition RAW_BD2EPHB :: u16 where "RAW_BD2EPHB = 1"
definition RAW_BD2IonoB :: u16 where "RAW_BD2IonoB = 205"
definition RAW_BD3EPHB :: u16 where "RAW_BD3EPHB = 2"
definition RAW_BD3CNAV2EPHB :: u16 where "RAW_BD3CNAV2EPHB = 3"
definition RAW_BD3CNAV3EPHB :: u16 where "RAW_BD3CNAV3EPHB = 4"
definition RAW_BDXWEPHB :: u16 where "RAW_BDXWEPHB = 41"
definition RAW_BD3IonoB :: u16 where "RAW_BD3IonoB = 206"
definition RAW_GPSEPHB :: u16 where "RAW_GPSEPHB = 11"
definition RAW_GPSIonoB :: u16 where "RAW_GPSIonoB = 214"
definition RAW_GLOEPHB :: u16 where "RAW_GLOEPHB = 21"
definition RAW_GALEPHB :: u16 where "RAW_GALEPHB = 31"
definition RAW_GALINAV :: u16 where "RAW_GALINAV = 32"
definition RAW_PRANGEB :: u16 where "RAW_PRANGEB = 61"
definition RAW_PRANGE2B :: u16 where "RAW_PRANGE2B = 62"
definition RAW_POSDATAB :: u16 where "RAW_POSDATAB = 0xF090"

text \<open>\<open>sizeof (gns_raw_data1_packet_t)\<close> and \<open>sizeof (gns_raw_data2_packet_t)\<close>.\<close>

definition RAW1_SIZE :: nat where "RAW1_SIZE = 11"
definition RAW2_SIZE :: nat where "RAW2_SIZE = 15"

lemmas raw_consts [model_simps] = GPSEPHB_PAYLOAD_LEN_def BD2EPHB_PAYLOAD_LEN_def
  POSDATAB_PAYLOAD_LEN_def BD3EPHB_PAYLOAD_LEN_def GALEPHB_PAYLOAD_LEN_def
  RAW_BD2EPHB_def RAW_BD2IonoB_def RAW_BD3EPHB_def RAW_BD3CNAV2EPHB_def RAW_BD3CNAV3EPHB_def
  RAW_BDXWEPHB_def RAW_BD3IonoB_def RAW_GPSEPHB_def RAW_GPSIonoB_def RAW_GLOEPHB_def
  RAW_GALEPHB_def RAW_GALINAV_def RAW_PRANGEB_def RAW_PRANGE2B_def RAW_POSDATAB_def
  RAW1_SIZE_def RAW2_SIZE_def

section \<open>Events\<close>

datatype raw_event =
    Print_bd2ephb BD2EPHB_Decoded_t u32
  | Print_bd3ephb BD3EPHB_Decoded_t u32
  | Print_bd3cnav2ephb BD3CNAV2EPHB_Decoded_t u32
  | Print_bd3cnav3ephb BD3CNAV3EPHB_Decoded_t u32
  | Print_bdxwephb BDXWEPHB_Decoded_t u32
  | Print_gpsephb GPSEPHB_Decoded_t u32
  | Print_gloephb GLOEPHB_Decoded_t u32
  | Print_galephb GALEPHB_Decoded_t u32
  | Print_prangeb PRANGEB_Decoded_t u32
  | Print_posdatab POSDATAB_Decoded_t u32
  | Log_summary string u16 u32 u8
  | Append_bd2ephb BD2EPHB_Decoded_t
  | Append_bd3ephb BD3EPHB_Decoded_t
  | Append_bd3cnav2ephb BD3CNAV2EPHB_Decoded_t
  | Append_bd3cnav3ephb BD3CNAV3EPHB_Decoded_t
  | Append_bdxwephb BDXWEPHB_Decoded_t
  | Append_gpsephb GPSEPHB_Decoded_t
  | Net_send_eph EPH_Type_t bytes
  | Unknown_packet u16
  | Unknown_packet2 u16

text \<open>
  \<open>Log_summary name week tow satid\<close> is a call of \<open>GNSS_EPHB_LOG_SUMMARY\<close>: the line
  \<open>date:<UTC of week and tow> <name>: satid=<satid>\<close>.
\<close>

definition on_file :: "gnss_eph_data_info_t \<Rightarrow> raw_event \<Rightarrow> raw_event list" where
  "on_file info e = (if file_en (eph_file info) \<noteq> 0 then [e] else [])"

text \<open>
  \<open>net_send_eph (COMM_SERVICE_UDP, t, (uint8_t * ) &eph + 8, sizeof (eph) - trim)\<close>: the struct
  from its ninth byte on, \<open>trim - 8\<close> bytes short of its end.
\<close>

definition on_net :: "glob_comm_config_t \<Rightarrow> EPH_Type_t \<Rightarrow> bytes \<Rightarrow> nat \<Rightarrow> raw_event list" where
  "on_net net t eph_bytes trim =
     (if eph_sw_on net t then [Net_send_eph t (take (length eph_bytes - trim) (drop 8 eph_bytes))] else [])"

section \<open>One packet\<close>

text \<open>
  The cases of the \<open>switch\<close> on the packet type, for the packet at \<open>p\<close> with the length field
  \<open>n\<close> and the checksum \<open>crc\<close>.
\<close>

definition handle_packet1 ::
    "gnss_ephb_cfg_t \<Rightarrow> glob_comm_config_t \<Rightarrow> u16 \<Rightarrow> nat \<Rightarrow> u32 \<Rightarrow> bytes \<Rightarrow> raw_event list" where
  "handle_packet1 cfg net type n crc p =
     (if type = RAW_BD2EPHB then
        if n \<ge> BD2EPHB_PAYLOAD_LEN then
          let eph = decode_bd2ephb p
          in [Log_summary ''BDS-2 EPHB'' (DecodeBd2.gps_week_count eph) (DecodeBd2.gps_tow_s eph) (bd2_satid eph),
             Print_bd2ephb eph crc] @ on_file (eph_bd2 cfg) (Append_bd2ephb eph)
             @ on_net net BD2EPH (bd2_bytes eph) 13
        else []
      else if type = RAW_BD3EPHB then
        if n \<ge> BD3EPHB_PAYLOAD_LEN then
          let eph = decode_bd3ephb p
          in [Log_summary ''BDS-3 EPHB'' (DecodeBd3.gps_week_count eph) (DecodeBd3.gps_tow_s eph) (bd3_satid eph),
             Print_bd3ephb eph crc] @ on_file (eph_bd3 cfg) (Append_bd3ephb eph)
             @ on_net net BD3EPH (bd3_bytes eph) 13
        else []
      else if type = RAW_BD3CNAV2EPHB then
        if n > 0 then
          let eph = decode_bd3cnav2ephb p
          in [Log_summary ''BDS-3 CNAV2 Ephemeris'' (DecodeCnav2.gps_week_count eph) (DecodeCnav2.gps_tow_s eph) (DecodeCnav2.bds_satid eph),
             Print_bd3cnav2ephb eph crc] @ on_file (eph_bd3cnav2 cfg) (Append_bd3cnav2ephb eph)
             @ on_net net BD3CNAV2EPH (cnav2_bytes eph) 13
        else []
      else if type = RAW_BD3CNAV3EPHB then
        if n > 0 then
          let eph = decode_bd3cnav3ephb p
          in [Log_summary ''BDS-3 CNAV3 Ephemeris'' (DecodeCnav3.gps_week_count eph) (DecodeCnav3.gps_tow_s eph) (DecodeCnav3.bds_satid eph),
             Print_bd3cnav3ephb eph crc] @ on_file (eph_bd3cnav3 cfg) (Append_bd3cnav3ephb eph)
             @ on_net net BD3CNAV3EPH (cnav3_bytes eph) 16
        else []
      else if type = RAW_BDXWEPHB then
        if n > 0 then
          let eph = decode_bdxwephb p
          in [Print_bdxwephb eph crc,
             Log_summary ''BDXW EPHB'' (DecodeXw.gps_week_count eph) (DecodeXw.gps_tow_s eph) (xws_satid eph)] @ on_file (eph_bdxw cfg) (Append_bdxwephb eph)
             @ on_net net BDXWEPH (bdxw_bytes eph) 20
        else []
      else if type = RAW_GPSEPHB then
        if n \<ge> GPSEPHB_PAYLOAD_LEN then
          let eph = decode_gpsephb p
          in [Print_gpsephb eph crc,
             Log_summary ''GPS Ephemeris'' (DecodeGps.gps_week_count eph) (DecodeGps.gps_tow_s eph) (gps_satid eph)] @ on_file (eph_gps cfg) (Append_gpsephb eph)
             @ on_net net GPSEPH (gps_bytes eph) 13
        else []
      else if type = RAW_GLOEPHB then
        if n > 0 then
          let eph = decode_gloephb p
          in [Print_gloephb eph crc,
             Log_summary ''GLO EPHB'' (DecodeGlo.gps_week_count eph) (DecodeGlo.gps_tow_s eph) (glo_satid eph)] @ on_net net GLOEPH (glo_bytes eph) 12
        else []
      else if type = RAW_GALEPHB \<or> type = RAW_GALINAV then
        if n \<ge> GALEPHB_PAYLOAD_LEN then
          let eph = decode_galephb p
          in [Print_galephb eph crc,
             Log_summary ''Galileo EPHB'' (DecodeGal.gps_week_count eph) (DecodeGal.gps_tow_s eph) (gal_satid eph)] @ on_net net GALEPH (gal_bytes eph) 13
        else []
      else if type = RAW_PRANGEB \<or> type = RAW_PRANGE2B then
        if n > 0 then [Print_prangeb (decode_prangeb p n) crc] else []
      else if type = RAW_BD2IonoB \<or> type = RAW_BD3IonoB \<or> type = RAW_GPSIonoB then []
      else [Unknown_packet type])"

definition handle_packet2 :: "u16 \<Rightarrow> nat \<Rightarrow> u32 \<Rightarrow> bytes \<Rightarrow> raw_event list" where
  "handle_packet2 type n crc p =
     (if type = RAW_POSDATAB then
        if n \<ge> POSDATAB_PAYLOAD_LEN then [Print_posdatab (decode_posdatab p) crc] else []
      else [Unknown_packet2 type])"

definition crc_at :: "bytes \<Rightarrow> nat \<Rightarrow> u32" where
  "crc_at data k = push_bit 16 (ucast (data ! k)) OR push_bit 8 (ucast (data ! (k + 1))) OR ucast (data ! (k + 2))"

section \<open>The scan\<close>

text \<open>
  The body of the \<open>for\<close> loop at \<open>i\<close>: the events, the new \<open>i\<close> before the increment and the
  new \<open>handle_cnt\<close>. \<open>i += packet->length - 1\<close> is an addition modulo \<open>2 ^ 32\<close>.
\<close>

definition raw_body ::
    "gnss_ephb_cfg_t \<Rightarrow> glob_comm_config_t \<Rightarrow> bytes \<Rightarrow> nat \<Rightarrow> nat \<Rightarrow> nat \<Rightarrow> raw_event list \<times> nat \<times> nat" where
  "raw_body cfg net data len i cnt =
     (let p = drop i data
      in if len - i > RAW1_SIZE \<and> rd32 p 0 = Header1 then
           let n = unat (rd16 p 6)
           in if n > len - i - RAW1_SIZE then ([], i, cnt)
              else let crc = rtk_crc24q p (n + 8)
                   in if crc = crc_at data (i + RAW1_SIZE + n - 3)
                      then (handle_packet1 cfg net (rd16 p 4) n crc p,
                            (i + n + (SIZE_MOD - 1)) mod SIZE_MOD, i + n)
                      else ([], i, cnt)
         else if len - i > RAW2_SIZE \<and> rd64 p 0 = Header2 then
           let n = unat (rd16 p 10)
           in if n > len - i - RAW2_SIZE then ([], i, cnt)
              else let crc = rtk_crc24q p (n + 12)
                   in if crc = crc_at data (i + RAW2_SIZE + n - 3)
                      then (handle_packet2 (rd16 p 8) n crc p, i, cnt)
                      else ([], i, cnt)
         else ([], i, cnt))"

text \<open>
  The loop. \<open>fuel\<close> bounds the number of iterations, and \<open>None\<close> is a loop that has not ended
  when the fuel is gone.
\<close>

fun raw_loop ::
    "nat \<Rightarrow> gnss_ephb_cfg_t \<Rightarrow> glob_comm_config_t \<Rightarrow> bytes \<Rightarrow> nat \<Rightarrow> nat \<Rightarrow> nat
      \<Rightarrow> (raw_event list \<times> nat) option" where
  "raw_loop fuel cfg net data len i cnt =
     (if \<not> i < len - 3 then Some ([], cnt)
      else case fuel of
        0 \<Rightarrow> None
      | Suc fuel' \<Rightarrow>
          (let (evs, i', cnt') = raw_body cfg net data len i cnt
           in map_option (\<lambda>(evs', c). (evs @ evs', c))
                (raw_loop fuel' cfg net data len ((i' + 1) mod SIZE_MOD) cnt')))"

declare raw_loop.simps [simp del]

definition handle_gnss_raw ::
    "nat \<Rightarrow> gnss_ephb_cfg_t \<Rightarrow> glob_comm_config_t \<Rightarrow> bytes \<Rightarrow> nat \<Rightarrow> (raw_event list \<times> nat) option" where
  "handle_gnss_raw fuel cfg net data len =
     (if len < RAW1_SIZE then Some ([], 0) else raw_loop fuel cfg net data len 0 0)"

section \<open>Safety of the dispatch\<close>

text \<open>
  The packets that the scan may dispatch: a header inside the data, the packet with its
  checksum inside the data, and the checksum right.
\<close>

definition valid_packet1 :: "bytes \<Rightarrow> nat \<Rightarrow> nat \<Rightarrow> bool" where
  "valid_packet1 data len i \<longleftrightarrow>
     i + RAW1_SIZE < len \<and> rd32 (drop i data) 0 = Header1
     \<and> i + RAW1_SIZE + unat (rd16 (drop i data) 6) \<le> len
     \<and> rtk_crc24q (drop i data) (unat (rd16 (drop i data) 6) + 8)
       = crc_at data (i + 8 + unat (rd16 (drop i data) 6))"

definition valid_packet2 :: "bytes \<Rightarrow> nat \<Rightarrow> nat \<Rightarrow> bool" where
  "valid_packet2 data len i \<longleftrightarrow>
     i + RAW2_SIZE < len \<and> rd64 (drop i data) 0 = Header2
     \<and> i + RAW2_SIZE + unat (rd16 (drop i data) 10) \<le> len
     \<and> rtk_crc24q (drop i data) (unat (rd16 (drop i data) 10) + 12)
       = crc_at data (i + 12 + unat (rd16 (drop i data) 10))"

definition packet1_events :: "gnss_ephb_cfg_t \<Rightarrow> glob_comm_config_t \<Rightarrow> bytes \<Rightarrow> nat \<Rightarrow> raw_event list" where
  "packet1_events cfg net data i =
     (let p = drop i data; n = unat (rd16 p 6)
      in handle_packet1 cfg net (rd16 p 4) n (rtk_crc24q p (n + 8)) p)"

definition packet2_events :: "bytes \<Rightarrow> nat \<Rightarrow> raw_event list" where
  "packet2_events data i =
     (let p = drop i data; n = unat (rd16 p 10)
      in handle_packet2 (rd16 p 8) n (rtk_crc24q p (n + 12)) p)"

text \<open>The body, by cases.\<close>

lemma headers_differ: "rd32 p 0 = Header1 \<Longrightarrow> rd64 p 0 \<noteq> Header2"
proof
  assume a: "rd32 p 0 = Header1" and b: "rd64 p 0 = Header2"
  have "take_bit 32 (rd64 p 0) = ucast (rd32 p 0)"
    unfolding rd64_def by (rule bit_word_eqI) (auto simp: bit_simps dest: bit_imp_le_length)
  then have "take_bit 32 Header2 = (ucast Header1 :: u64)" using a b by simp
  then show False by (simp add: Header1_def Header2_def)
qed

lemma raw_body_cases:
  "raw_body cfg net data len i cnt =
     (if valid_packet1 data len i
      then (packet1_events cfg net data i,
            (i + unat (rd16 (drop i data) 6) + (SIZE_MOD - 1)) mod SIZE_MOD, i + unat (rd16 (drop i data) 6))
      else if valid_packet2 data len i then (packet2_events data i, i, cnt)
      else ([], i, cnt))"
proof -
  let ?n1 = "unat (rd16 (drop i data) 6)" and ?n2 = "unat (rd16 (drop i data) 10)"
  have e: "i + RAW1_SIZE + ?n1 - 3 = i + 8 + ?n1" "i + RAW2_SIZE + ?n2 - 3 = i + 12 + ?n2"
    by (simp_all add: RAW1_SIZE_def RAW2_SIZE_def)
  have g1: "len - i > RAW1_SIZE \<longleftrightarrow> i + RAW1_SIZE < len"
    and g2: "len - i > RAW2_SIZE \<longleftrightarrow> i + RAW2_SIZE < len"
    and h1: "len - i > RAW1_SIZE \<Longrightarrow> ?n1 > len - i - RAW1_SIZE \<longleftrightarrow> \<not> i + RAW1_SIZE + ?n1 \<le> len"
    and h2: "len - i > RAW2_SIZE \<Longrightarrow> ?n2 > len - i - RAW2_SIZE \<longleftrightarrow> \<not> i + RAW2_SIZE + ?n2 \<le> len"
    by auto
  show ?thesis
    unfolding raw_body_def Let_def valid_packet1_def valid_packet2_def packet1_events_def
      packet2_events_def e
    using g1 g2 h1 h2 headers_differ [of "drop i data"] by auto
qed

lemma wrap_step:
  "n \<noteq> 0 \<Longrightarrow> i + n < SIZE_MOD \<Longrightarrow> ((i + n + (SIZE_MOD - 1)) mod SIZE_MOD + 1) mod SIZE_MOD = i + n"
proof -
  assume a: "n \<noteq> 0" "i + n < SIZE_MOD"
  then have "i + n + (SIZE_MOD - 1) = (i + n - 1) + SIZE_MOD" by (simp add: SIZE_MOD_def)
  then have "(i + n + (SIZE_MOD - 1)) mod SIZE_MOD = i + n - 1"
    using a by (simp only: mod_add_self2) simp
  with a show ?thesis by simp
qed

lemma wrap_step_0: "i < SIZE_MOD \<Longrightarrow> ((i + 0 + (SIZE_MOD - 1)) mod SIZE_MOD + 1) mod SIZE_MOD = i"
proof -
  assume a: "i < SIZE_MOD"
  have "((i + (SIZE_MOD - 1)) mod SIZE_MOD + 1) mod SIZE_MOD = (i + (SIZE_MOD - 1) + 1) mod SIZE_MOD"
    by (rule mod_add_left_eq)
  also have "i + (SIZE_MOD - 1) + 1 = i + SIZE_MOD" by (simp add: SIZE_MOD_def)
  finally show ?thesis using a by simp
qed

text \<open>Every event comes from a packet that was accepted.\<close>

lemma raw_loop_sound:
  "raw_loop fuel cfg net data len i cnt = Some (evs, c) \<Longrightarrow> e \<in> set evs \<Longrightarrow>
     \<exists>j. (valid_packet1 data len j \<and> e \<in> set (packet1_events cfg net data j))
       \<or> (valid_packet2 data len j \<and> e \<in> set (packet2_events data j))"
proof (induction fuel arbitrary: i cnt evs)
  case 0
  then show ?case by (auto simp: raw_loop.simps [of 0] split: if_splits)
next
  case (Suc fuel)
  then show ?case
    by (subst (asm) raw_loop.simps)
      (auto simp: raw_body_cases Let_def split: if_splits prod.splits)
qed

text \<open>The number of bytes reported as consumed stays in the data.\<close>

lemma raw_loop_count:
  "raw_loop fuel cfg net data len i cnt = Some (evs, c) \<Longrightarrow> cnt \<le> len \<Longrightarrow> c \<le> len"
proof (induction fuel arbitrary: i cnt evs)
  case 0
  then show ?case by (auto simp: raw_loop.simps [of 0] split: if_splits)
next
  case (Suc fuel)
  have "valid_packet1 data len i \<Longrightarrow> i + unat (rd16 (drop i data) 6) \<le> len"
    by (simp add: valid_packet1_def RAW1_SIZE_def)
  with Suc show ?case
    by (subst (asm) (2) raw_loop.simps)
      (auto simp: raw_body_cases Let_def split: if_splits prod.splits)
qed

section \<open>Termination\<close>

text \<open>The scan of a buffer ends unless it accepts a packet whose length field is zero.\<close>

definition zero_packet :: "bytes \<Rightarrow> nat \<Rightarrow> nat \<Rightarrow> bool" where
  "zero_packet data len i \<longleftrightarrow> valid_packet1 data len i \<and> rd16 (drop i data) 6 = 0"

lemma raw_loop_terminates:
  assumes "\<And>j. \<not> zero_packet data len j" "len < SIZE_MOD"
  shows "len < fuel + i \<Longrightarrow> \<exists>r. raw_loop fuel cfg net data len i cnt = Some r"
proof (induction fuel arbitrary: i cnt)
  case 0
  then show ?case by (simp add: raw_loop.simps [of 0])
next
  case (Suc fuel)
  show ?case
  proof (cases "i < len - 3")
    case False
    then show ?thesis by (simp add: raw_loop.simps [of "Suc fuel"])
  next
    case True
    obtain evs i' cnt' where b: "raw_body cfg net data len i cnt = (evs, i', cnt')"
      by (cases "raw_body cfg net data len i cnt")
    have "i < (i' + 1) mod SIZE_MOD"
    proof (cases "valid_packet1 data len i")
      case v: True
      let ?n = "unat (rd16 (drop i data) 6)"
      have "?n \<noteq> 0" using assms(1) [of i] v by (auto simp: zero_packet_def unat_eq_0)
      moreover have "i + ?n < SIZE_MOD" using v assms(2) by (simp add: valid_packet1_def RAW1_SIZE_def)
      ultimately have "(i' + 1) mod SIZE_MOD = i + ?n"
        using b v wrap_step [of ?n i] by (auto simp: raw_body_cases)
      with \<open>?n \<noteq> 0\<close> show ?thesis by simp
    next
      case False
      then have "i' = i" using b by (auto simp: raw_body_cases split: if_splits)
      moreover have "i + 1 < SIZE_MOD" using True assms(2) by simp
      ultimately show ?thesis by simp
    qed
    then have "len < fuel + (i' + 1) mod SIZE_MOD" using Suc.prems by simp
    then obtain r where "raw_loop fuel cfg net data len ((i' + 1) mod SIZE_MOD) cnt' = Some r"
      using Suc.IH by blast
    then show ?thesis by (simp add: raw_loop.simps [of "Suc fuel"] b split_beta)
  qed
qed

lemma raw_loop_fuel_mono:
  "raw_loop fuel cfg net data len i cnt = Some r \<Longrightarrow> fuel \<le> fuel2 \<Longrightarrow> raw_loop fuel2 cfg net data len i cnt = Some r"
proof (induction fuel arbitrary: fuel2 i cnt r)
  case 0
  then show ?case by (simp add: raw_loop.simps [of 0] raw_loop.simps [of fuel2] split: if_splits)
next
  case (Suc fuel)
  from Suc.prems(2) obtain f where f: "fuel2 = Suc f" "fuel \<le> f" by (cases fuel2) auto
  show ?case
  proof (cases "i < len - 3")
    case False
    with Suc.prems show ?thesis by (simp add: raw_loop.simps [of "Suc fuel"] raw_loop.simps [of fuel2])
  next
    case True
    obtain evs i' cnt' where b: "raw_body cfg net data len i cnt = (evs, i', cnt')"
      by (cases "raw_body cfg net data len i cnt")
    from Suc.prems(1) True b obtain r' where
      r': "raw_loop fuel cfg net data len ((i' + 1) mod SIZE_MOD) cnt' = Some r'"
        "r = (evs @ fst r', snd r')"
      by (auto simp: raw_loop.simps [of "Suc fuel"])
    from Suc.IH [OF r'(1) f(2)] True b r'(2) show ?thesis
      unfolding f(1) by (simp add: raw_loop.simps [of "Suc f"] split_beta)
  qed
qed

text \<open>At a packet of length zero the loop stays where it is, whatever the fuel.\<close>

lemma raw_loop_diverges:
  assumes z: "zero_packet data len i" and len: "len < SIZE_MOD"
  shows "raw_loop fuel cfg net data len i cnt = None"
proof (induction fuel arbitrary: cnt)
  case 0
  have "i < len - 3" using z by (auto simp: zero_packet_def valid_packet1_def RAW1_SIZE_def)
  then show ?case by (simp add: raw_loop.simps [of 0])
next
  case (Suc fuel)
  have "i < len - 3" using z by (auto simp: zero_packet_def valid_packet1_def RAW1_SIZE_def)
  moreover have "i < SIZE_MOD" using calculation len by simp
  then have "((i + (SIZE_MOD - 1)) mod SIZE_MOD + 1) mod SIZE_MOD = i" using wrap_step_0 [of i] by simp
  moreover have "raw_body cfg net data len i cnt
      = (packet1_events cfg net data i, (i + (SIZE_MOD - 1)) mod SIZE_MOD, i)"
    using z by (simp add: raw_body_cases zero_packet_def)
  ultimately show ?case using Suc by (simp add: raw_loop.simps [of "Suc fuel"])
qed

end
