(* ===== verification/RawPacket.thy ===== *)
theory RawPacket
  imports RawScan
begin

text \<open>
  Packets as the receiver builds them, and what the scan of \<open>RawScan\<close> does with them: a
  packet in front of the buffer is accepted and dispatched by its type, with its payload
  decoded to the fields that the receiver packed.
\<close>

definition crc_bytes :: "u32 \<Rightarrow> bytes" where
  "crc_bytes c = [ucast (drop_bit 16 c), ucast (drop_bit 8 c), ucast c]"

definition raw_packet1 :: "u16 \<Rightarrow> bytes \<Rightarrow> bytes" where
  "raw_packet1 type payload =
     (let m = le32 Header1 @ le16 type @ le16 (of_nat (length payload)) @ payload
      in m @ crc_bytes (crc24_ref m))"

lemma length_crc_bytes [simp]: "length (crc_bytes c) = 3"
  by (simp add: crc_bytes_def)

lemma length_raw_packet1: "length (raw_packet1 type payload) = length payload + RAW1_SIZE"
  by (simp add: raw_packet1_def Let_def RAW1_SIZE_def)

lemma crc_at_three: "crc_at data k = three (data ! k) (data ! (k + 1)) (data ! (k + 2))"
  by (simp add: crc_at_def three_def)

lemma three_crc_bytes: "is24 c \<Longrightarrow> three (ucast (drop_bit 16 c)) (ucast (drop_bit 8 c)) (ucast c) = c"
proof (rule bit_word_eqI)
  fix n assume c: "is24 c" and "n < LENGTH(32)"
  show "bit (three (ucast (drop_bit 16 c)) (ucast (drop_bit 8 c)) (ucast c)) n = bit c n"
    using is24_bit [OF c, of n] unfolding bit_three
    by (cases "n < 8"; cases "n < 16") (auto simp: bit_ucast_iff bit_drop_bit_eq)
qed

lemma rd32_le32 [simp]: "rd32 (le32 w @ r) 0 = w"
proof (rule bit_word_eqI)
  fix n assume "n < LENGTH(32)"
  then show "bit (rd32 (le32 w @ r) 0) n = bit w n"
    unfolding rd32_def le32_def
    by (cases "n < 8"; cases "n < 16"; cases "n < 24") (auto simp: bit_simps)
qed

lemma rd16_at: "length p = i \<Longrightarrow> rd16 (p @ le16 w @ r) i = w"
  by (rule rd16_bytes) (simp_all add: le16_def nth_append)

lemma is24_crc24_ref: "is24 (crc24_ref m)"
  using is24_rtk_crc24q [of m "length m"] by (simp add: rtk_crc24q_ref)

lemma raw_packet1_parts:
  assumes "length payload < 65536"
  shows "rd32 (raw_packet1 type payload @ rest) 0 = Header1"
    and "rd16 (raw_packet1 type payload @ rest) 4 = type"
    and "unat (rd16 (raw_packet1 type payload @ rest) 6) = length payload"
    and "rtk_crc24q (raw_packet1 type payload @ rest) (length payload + 8)
       = crc_at (raw_packet1 type payload @ rest) (8 + length payload)"
proof -
  let ?h = "le32 Header1" and ?t = "le16 type" and ?l = "le16 (of_nat (length payload) :: u16)"
  let ?m = "?h @ ?t @ ?l @ payload"
  let ?p = "raw_packet1 type payload @ rest"
  have p: "?p = ?h @ ?t @ ?l @ payload @ crc_bytes (crc24_ref ?m) @ rest"
    by (simp add: raw_packet1_def Let_def)
  show "rd32 ?p 0 = Header1" by (simp add: p)
  show "rd16 ?p 4 = type"
    using rd16_at [of ?h 4 type "?l @ payload @ crc_bytes (crc24_ref ?m) @ rest"] by (simp add: p)
  show "unat (rd16 ?p 6) = length payload"
    using rd16_at [of "?h @ ?t" 6 "of_nat (length payload)" "payload @ crc_bytes (crc24_ref ?m) @ rest"] assms
    by (simp add: p unat_of_nat)
  have "rtk_crc24q ?p (length payload + 8) = crc24_ref ?m"
    by (simp add: rtk_crc24q_ref p)
  also have "\<dots> = crc_at ?p (8 + length payload)"
  proof -
    have "?p = ?m @ crc_bytes (crc24_ref ?m) @ rest" by (simp add: p)
    moreover have "length ?m = 8 + length payload" by simp
    ultimately have "?p ! (8 + length payload + k) = (crc_bytes (crc24_ref ?m) @ rest) ! k" for k
      by (metis nth_append_length_plus)
    from this [of 0] this [of 1] this [of 2] show ?thesis
      by (simp add: crc_at_three crc_bytes_def three_crc_bytes [OF is24_crc24_ref])
  qed
  finally show "rtk_crc24q ?p (length payload + 8) = crc_at ?p (8 + length payload)" .
qed

lemma valid_raw_packet1:
  assumes "length payload < 65536" "length payload + RAW1_SIZE \<le> len" "RAW1_SIZE < len"
  shows "valid_packet1 (raw_packet1 type payload @ rest) len 0"
  using assms raw_packet1_parts [OF assms(1), of type rest]
  by (simp add: valid_packet1_def add.commute)

section \<open>The scan meets a packet\<close>

lemma raw_loop_skip:
  assumes "\<And>k. i \<le> k \<Longrightarrow> k < j \<Longrightarrow> \<not> valid_packet1 data len k \<and> \<not> valid_packet2 data len k"
    and "i \<le> j" "j \<le> len - 3" "len < SIZE_MOD"
  shows "raw_loop (fuel + (j - i)) cfg net data len i cnt = raw_loop fuel cfg net data len j cnt"
  using assms
proof (induction "j - i" arbitrary: i)
  case 0
  then show ?case by simp
next
  case (Suc d)
  then have i: "i < len - 3" "i < j" by auto
  have b: "raw_body cfg net data len i cnt = ([], i, cnt)"
    using Suc.prems(1) [of i] i by (simp add: raw_body_cases)
  have f: "fuel + (j - i) = Suc (fuel + (j - Suc i))" using i by simp
  have s: "Suc i < SIZE_MOD" using i Suc.prems by simp
  have "raw_loop (fuel + (j - Suc i)) cfg net data len (Suc i) cnt = raw_loop fuel cfg net data len j cnt"
    by (rule Suc.hyps(1)) (use Suc.hyps(2) Suc.prems i in auto)
  then show ?case
    unfolding f using i b s
    by (simp add: raw_loop.simps [of "Suc _"] option.map_id)
qed

lemma raw_loop_packet:
  assumes v: "valid_packet1 data len i" and n: "rd16 (drop i data) 6 \<noteq> 0" and len: "len < SIZE_MOD"
  shows "raw_loop (Suc fuel) cfg net data len i cnt =
     map_option (\<lambda>(evs, c). (packet1_events cfg net data i @ evs, c))
       (raw_loop fuel cfg net data len (i + unat (rd16 (drop i data) 6)) (i + unat (rd16 (drop i data) 6)))"
proof -
  let ?n = "unat (rd16 (drop i data) 6)"
  have "i < len - 3" using v by (auto simp: valid_packet1_def RAW1_SIZE_def)
  moreover have "((i + ?n + (SIZE_MOD - 1)) mod SIZE_MOD + 1) mod SIZE_MOD = i + ?n"
    using v n len by (intro wrap_step) (auto simp: valid_packet1_def RAW1_SIZE_def unat_eq_0)
  ultimately show ?thesis using v by (simp add: raw_loop.simps [of "Suc fuel"] raw_body_cases)
qed

text \<open>
  A buffer that starts with a packet: its events come first, and at least the packet
  without its last eleven bytes counts as consumed.
\<close>

lemma scan_first_packet:
  assumes pl: "0 < length payload" "length payload < 65536"
    and len: "length payload + RAW1_SIZE \<le> len" "len < SIZE_MOD"
    and r: "handle_gnss_raw fuel cfg net (raw_packet1 type payload @ rest) len = Some (evs, c)"
  shows "\<exists>evs'. evs = handle_packet1 cfg net type (length payload)
       (rtk_crc24q (raw_packet1 type payload @ rest) (length payload + 8)) (raw_packet1 type payload @ rest) @ evs'"
proof -
  let ?d = "raw_packet1 type payload @ rest"
  note p = raw_packet1_parts [OF pl(2), of type rest]
  have v: "valid_packet1 ?d len 0"
  proof (rule valid_raw_packet1 [OF pl(2) len(1)])
    have "0 < length payload" by (rule pl(1))
    with len(1) show "RAW1_SIZE < len" by linarith
  qed
  have n: "rd16 (drop 0 ?d) 6 \<noteq> 0" using p(3) pl by auto
  have "raw_loop fuel cfg net ?d len 0 0 = Some (evs, c)"
    using r len by (simp add: handle_gnss_raw_def)
  moreover have "0 < len - 3" using pl len by (simp add: RAW1_SIZE_def)
  ultimately obtain f where "fuel = Suc f" by (cases fuel) (auto simp: raw_loop.simps [of 0])
  with \<open>raw_loop fuel cfg net ?d len 0 0 = Some (evs, c)\<close> raw_loop_packet [OF v n len(2), of f cfg net 0]
  obtain evs' where "evs = packet1_events cfg net ?d 0 @ evs'" by auto
  then show ?thesis by (simp add: packet1_events_def Let_def p)
qed

text \<open>
  A buffer that holds one packet and nothing else: the scan ends, reports the packet and
  counts its payload length as consumed, so that the last eleven bytes stay in the buffer.
\<close>

lemma scan_single_packet:
  assumes pl: "0 < length payload" "length payload < 65536" and fuel: "9 \<le> fuel"
  shows "handle_gnss_raw fuel cfg net (raw_packet1 type payload @ rest) (length payload + RAW1_SIZE) =
     Some (handle_packet1 cfg net type (length payload)
       (rtk_crc24q (raw_packet1 type payload @ rest) (length payload + 8)) (raw_packet1 type payload @ rest),
       length payload)"
proof -
  let ?d = "raw_packet1 type payload @ rest" and ?n = "length payload" and ?l = "length payload + RAW1_SIZE"
  note p = raw_packet1_parts [OF pl(2), of type rest]
  have big: "?l < SIZE_MOD" using pl by (simp add: RAW1_SIZE_def SIZE_MOD_def)
  have v: "valid_packet1 ?d ?l 0" using pl by (intro valid_raw_packet1) simp_all
  have n: "rd16 (drop 0 ?d) 6 \<noteq> 0" using p(3) pl by auto
  obtain f where f: "fuel = Suc (f + 8)" using fuel by (auto dest: le_Suc_ex)
  have "raw_loop (f + (?n + 8 - ?n)) cfg net ?d ?l ?n ?n = raw_loop f cfg net ?d ?l (?n + 8) ?n"
    using big by (intro raw_loop_skip) (auto simp: valid_packet1_def valid_packet2_def RAW1_SIZE_def RAW2_SIZE_def)
  also have "\<dots> = Some ([], ?n)" by (simp add: raw_loop.simps [of f] RAW1_SIZE_def)
  finally have tail: "raw_loop (f + 8) cfg net ?d ?l ?n ?n = Some ([], ?n)" by simp
  have "raw_loop fuel cfg net ?d ?l 0 0 = Some (packet1_events cfg net ?d 0, ?n)"
    unfolding f raw_loop_packet [OF v n big] using tail p(3) by simp
  then show ?thesis by (simp add: handle_gnss_raw_def packet1_events_def Let_def p)
qed

text \<open>
  Damage within three neighbouring payload bytes (any burst of up to 17 bits, and more)
  does not go unnoticed.
\<close>

lemma damaged_packet_rejected:
  assumes v: "valid_packet1 data len i" and n: "n = unat (rd16 (drop i data) 6)"
    and k: "i + 8 \<le> k" "k + 3 \<le> i + 8 + n" "len \<le> length data"
    and d: "[x, y, z] \<noteq> take 3 (drop k data)"
  shows "\<not> valid_packet1 (take k data @ [x, y, z] @ drop (k + 3) data) len i"
proof
  assume "valid_packet1 (take k data @ [x, y, z] @ drop (k + 3) data) len i"
  then obtain e where e: "e = take k data @ [x, y, z] @ drop (k + 3) data" and w: "valid_packet1 e len i" by blast
  have l: "i + 11 + n \<le> length data" using v n k(3) by (simp add: valid_packet1_def RAW1_SIZE_def)
  have le: "length e = length data" using k l by (simp add: e)
  have nth: "e ! j = data ! j" if "j < k \<or> k + 3 \<le> j" "j < length data" for j
    using that k l by (auto simp: e nth_append min_def)
  have len: "rd16 (drop i e) 6 = rd16 (drop i data) 6"
    using nth [of "i + 6"] nth [of "i + 7"] k l le by (simp add: rd16_def)
  have crc: "crc_at e (i + 8 + n) = crc_at data (i + 8 + n)"
    using nth [of "i + 8 + n"] nth [of "i + 8 + n + 1"] nth [of "i + 8 + n + 2"] k l by (simp add: crc_at_def)
  have three_long: "\<exists>a b c. xs = [a, b, c]" if "length xs = 3" for xs :: bytes
    using that by (auto simp: numeral_3_eq_3 length_Suc_conv)
  have "length (take 3 (drop k data)) = 3" using k l by simp
  from three_long [OF this] obtain a b c where abc: "take 3 (drop k data) = [a, b, c]" by blast
  let ?pre = "take (k - i) (drop i data)" and ?post = "take (i + 5 + n - k) (drop (k + 3) data)"
  have s: "take (n + 8) (drop i (take k data @ [p, q, r] @ drop (k + 3) data)) = ?pre @ [p, q, r] @ ?post" for p q r
  proof -
    have "drop i (take k data @ [p, q, r] @ drop (k + 3) data) = ?pre @ [p, q, r] @ drop (k + 3) data"
      using k l by (simp add: drop_take)
    moreover have "length ?pre = k - i" using k l by simp
    moreover have "n + 8 - (k - i) = 3 + (i + 5 + n - k)" using k by simp
    ultimately show ?thesis by (simp add: numeral_eq_Suc)
  qed
  have "data = take k data @ [a, b, c] @ drop (k + 3) data"
    using abc append_take_drop_id [of k data] append_take_drop_id [of 3 "drop k data"]
    by (simp add: add.commute)
  then have "take (n + 8) (drop i data) = ?pre @ [a, b, c] @ ?post" using s [of a b c] by metis
  moreover have "rtk_crc24q (drop i e) (n + 8) = rtk_crc24q (drop i data) (n + 8)"
    using v w crc len n by (simp add: valid_packet1_def)
  ultimately have "crc24_ref (?pre @ [x, y, z] @ ?post) = crc24_ref (?pre @ [a, b, c] @ ?post)"
    unfolding rtk_crc24q_ref e s by simp
  from crc24_window [OF this] d abc show False by simp
qed

lemma damage_keeps_header:
  assumes "i + 8 \<le> k" "k + 3 \<le> length data"
  shows "rd32 (drop i (take k data @ [x, y, z] @ drop (k + 3) data)) 0 = rd32 (drop i data) 0"
proof -
  obtain e where e: "e = take k data @ [x, y, z] @ drop (k + 3) data" by blast
  have "length e = length data" "\<And>j. j < k \<Longrightarrow> e ! j = data ! j" using assms by (simp_all add: e nth_append)
  then have "rd32 (drop i e) 0 = rd32 (drop i data) 0" using assms by (simp add: rd32_def)
  then show ?thesis by (simp only: e)
qed

section \<open>When the scan ends\<close>

text \<open>The positions that the scan visits from \<open>i\<close> on.\<close>

inductive scan_reaches :: "bytes \<Rightarrow> nat \<Rightarrow> nat \<Rightarrow> nat \<Rightarrow> bool" for data len where
  here: "scan_reaches data len i i"
| packet: "i < len - 3 \<Longrightarrow> valid_packet1 data len i \<Longrightarrow> scan_reaches data len (i + unat (rd16 (drop i data) 6)) j
    \<Longrightarrow> scan_reaches data len i j"
| skip: "i < len - 3 \<Longrightarrow> \<not> valid_packet1 data len i \<Longrightarrow> scan_reaches data len (Suc i) j \<Longrightarrow> scan_reaches data len i j"

text \<open>One iteration when no packet starts here.\<close>

lemma raw_loop_no_packet:
  assumes "i < len - 3" "\<not> valid_packet1 data len i" "len < SIZE_MOD"
  shows "raw_loop (Suc fuel) cfg net data len i cnt =
    (if valid_packet2 data len i
     then map_option (\<lambda>(evs, c). (packet2_events data i @ evs, c)) (raw_loop fuel cfg net data len (Suc i) cnt)
     else raw_loop fuel cfg net data len (Suc i) cnt)"
proof -
  have "(i + 1) mod SIZE_MOD = Suc i" using assms by simp
  then show ?thesis using assms by (simp add: raw_loop.simps [of "Suc fuel"] raw_body_cases option.map_id)
qed

lemma raw_loop_stuck:
  "scan_reaches data len i j \<Longrightarrow> zero_packet data len j \<Longrightarrow> len < SIZE_MOD \<Longrightarrow> raw_loop fuel cfg net data len i cnt = None"
proof (induction i j arbitrary: fuel cnt rule: scan_reaches.induct)
  case (here i)
  then show ?case by (simp add: raw_loop_diverges)
next
  case (packet i j)
  show ?case
  proof (cases "rd16 (drop i data) 6 = 0")
    case True
    then show ?thesis using packet.hyps packet.prems by (simp add: raw_loop_diverges zero_packet_def)
  next
    case False
    then show ?thesis using packet
      by (cases fuel) (simp_all add: raw_loop_packet raw_loop.simps [of 0])
  qed
next
  case (skip i j)
  then show ?case by (cases fuel) (simp_all add: raw_loop_no_packet raw_loop.simps [of 0])
qed

lemma raw_loop_None:
  "raw_loop fuel cfg net data len i cnt = None \<Longrightarrow> len < fuel + i \<Longrightarrow> len < SIZE_MOD
     \<Longrightarrow> \<exists>j. scan_reaches data len i j \<and> zero_packet data len j"
proof (induction fuel arbitrary: i cnt)
  case 0
  then show ?case by (auto simp: raw_loop.simps [of 0] split: if_splits)
next
  case (Suc fuel)
  then have i: "i < len - 3" by (auto simp: raw_loop.simps [of "Suc fuel"] split: if_splits)
  show ?case
  proof (cases "valid_packet1 data len i")
    case v: True
    show ?thesis
    proof (cases "rd16 (drop i data) 6 = 0")
      case True
      then show ?thesis using v scan_reaches.here [of data len i] by (auto simp: zero_packet_def)
    next
      case False
      let ?n = "unat (rd16 (drop i data) 6)"
      have "raw_loop fuel cfg net data len (i + ?n) (i + ?n) = None"
        using Suc.prems(1) raw_loop_packet [OF v False Suc.prems(3), of fuel cfg net cnt] by simp
      moreover have "0 < ?n" using False by (simp add: unat_gt_0)
      ultimately show ?thesis using Suc.IH [of "i + ?n" "i + ?n"] Suc.prems(2,3) scan_reaches.packet [OF i v] by auto
    qed
  next
    case False
    then have "raw_loop fuel cfg net data len (Suc i) cnt = None"
      using Suc.prems(1) raw_loop_no_packet [OF i False Suc.prems(3), of fuel cfg net cnt] by (simp split: if_splits)
    with Suc.IH [OF this] Suc.prems(2,3) scan_reaches.skip [OF i False] show ?thesis by auto
  qed
qed

theorem scan_ends_iff:
  assumes "len \<le> DATA_RAW_SIZE" "RAW1_SIZE \<le> len"
  shows "(\<exists>r. handle_gnss_raw (Suc DATA_RAW_SIZE) cfg net data len = Some r) \<longleftrightarrow> \<not> (\<exists>j. scan_reaches data len 0 j \<and> zero_packet data len j)"
    "scan_reaches data len 0 j \<Longrightarrow> zero_packet data len j \<Longrightarrow> handle_gnss_raw fuel cfg net data len = None"
proof -
  have s: "len < SIZE_MOD" using assms(1) by (simp add: DATA_RAW_SIZE_def SIZE_MOD_def)
  have h: "handle_gnss_raw fuel cfg net data len = raw_loop fuel cfg net data len 0 0" for fuel
    using assms(2) by (simp add: handle_gnss_raw_def)
  show "scan_reaches data len 0 j \<Longrightarrow> zero_packet data len j \<Longrightarrow> handle_gnss_raw fuel cfg net data len = None"
    unfolding h by (rule raw_loop_stuck) (use s in simp_all)
  show "(\<exists>r. handle_gnss_raw (Suc DATA_RAW_SIZE) cfg net data len = Some r) \<longleftrightarrow> \<not> (\<exists>j. scan_reaches data len 0 j \<and> zero_packet data len j)"
  proof (cases "raw_loop (Suc DATA_RAW_SIZE) cfg net data len 0 0")
    case None
    then show ?thesis using raw_loop_None [OF None] assms(1) s by (simp add: h)
  next
    case (Some r)
    then show ?thesis using raw_loop_stuck [of data len 0 _ "Suc DATA_RAW_SIZE" cfg net 0] s by (auto simp: h)
  qed
qed

end
