(* ===== verification/Ephemeris.thy ===== *)
theory Ephemeris
  imports RawPacket
begin

text \<open>
  The eight ephemeris messages seen uniformly: the packet type, the protocol table, what a
  print event says about the fields, and the bytes of the struct that go to the network.
  The dispatch of \<open>handle_gnss_raw\<close> treats all of them alike, and a packet whose payload
  was packed from raw fields is reported with the values that the table gives them.
\<close>

fun eph_packet_type :: "EPH_Type_t \<Rightarrow> u16" where
  "eph_packet_type BDXWEPH = RAW_BDXWEPHB"
| "eph_packet_type BD2EPH = RAW_BD2EPHB"
| "eph_packet_type BD3EPH = RAW_BD3EPHB"
| "eph_packet_type BD3CNAV2EPH = RAW_BD3CNAV2EPHB"
| "eph_packet_type BD3CNAV3EPH = RAW_BD3CNAV3EPHB"
| "eph_packet_type GPSEPH = RAW_GPSEPHB"
| "eph_packet_type GALEPH = RAW_GALEPHB"
| "eph_packet_type GLOEPH = RAW_GLOEPHB"

text \<open>The rows of the payload; the last row of every table is the checksum behind it.\<close>

fun eph_layout :: "EPH_Type_t \<Rightarrow> (nat \<times> field_kind) list" where
  "eph_layout BDXWEPH = butlast bdxw_layout"
| "eph_layout BD2EPH = butlast bd2_layout"
| "eph_layout BD3EPH = butlast bd3_layout"
| "eph_layout BD3CNAV2EPH = butlast cnav2_layout"
| "eph_layout BD3CNAV3EPH = butlast cnav3_layout"
| "eph_layout GPSEPH = butlast gps_layout"
| "eph_layout GALEPH = butlast gal_layout"
| "eph_layout GLOEPH = butlast glo_layout"

text \<open>The message and the field values that a print event reports, without the checksum.\<close>

fun event_values :: "raw_event \<Rightarrow> (EPH_Type_t \<times> field_val list) option" where
  "event_values (Print_bdxwephb eph crc) = Some (BDXWEPH, butlast (bdxw_values eph))"
| "event_values (Print_bd2ephb eph crc) = Some (BD2EPH, butlast (bd2_values eph))"
| "event_values (Print_bd3ephb eph crc) = Some (BD3EPH, butlast (bd3_values eph))"
| "event_values (Print_bd3cnav2ephb eph crc) = Some (BD3CNAV2EPH, butlast (cnav2_values eph))"
| "event_values (Print_bd3cnav3ephb eph crc) = Some (BD3CNAV3EPH, butlast (cnav3_values eph))"
| "event_values (Print_gpsephb eph crc) = Some (GPSEPH, butlast (gps_values eph))"
| "event_values (Print_galephb eph crc) = Some (GALEPH, butlast (gal_values eph))"
| "event_values (Print_gloephb eph crc) = Some (GLOEPH, butlast (glo_values eph))"
| "event_values e = None"

text \<open>The payload that carries the raw fields \<open>vs\<close>.\<close>

definition payload_of :: "(nat \<times> field_kind) list \<Rightarrow> nat list \<Rightarrow> bytes" where
  "payload_of rows vs = pack_bits (pack_fields (zip (map fst rows) vs))"

definition masked :: "(nat \<times> field_kind) list \<Rightarrow> nat list \<Rightarrow> nat list" where
  "masked rows vs = map2 (\<lambda>w v. take_bit w v) (map fst rows) vs"

section \<open>Tables\<close>

lemma butlast_layouts:
  "bdxw_layout = butlast bdxw_layout @ [(24, Raw)]" "bd2_layout = butlast bd2_layout @ [(24, Raw)]"
  "bd3_layout = butlast bd3_layout @ [(24, Raw)]" "cnav2_layout = butlast cnav2_layout @ [(24, Raw)]"
  "cnav3_layout = butlast cnav3_layout @ [(24, Raw)]" "gps_layout = butlast gps_layout @ [(24, Raw)]"
  "gal_layout = butlast gal_layout @ [(24, Raw)]" "glo_layout = butlast glo_layout @ [(24, Raw)]"
  by (simp_all add: bdxw_layout_def bd2_layout_def bd3_layout_def cnav2_layout_def cnav3_layout_def
      gps_layout_def gal_layout_def glo_layout_def)

text \<open>Payload sizes in bits.\<close>

lemma eph_layout_bits:
  "sum_list (map fst (eph_layout t)) =
     (case t of BDXWEPH \<Rightarrow> 744 | BD2EPH \<Rightarrow> 536 | BD3EPH \<Rightarrow> 608 | BD3CNAV2EPH \<Rightarrow> 608 | BD3CNAV3EPH \<Rightarrow> 608
      | GPSEPH \<Rightarrow> 512 | GALEPH \<Rightarrow> 528 | GLOEPH \<Rightarrow> 280)"
  by (cases t) (simp_all add: bdxw_layout_def bd2_layout_def bd3_layout_def cnav2_layout_def cnav3_layout_def
      gps_layout_def gal_layout_def glo_layout_def)

lemma eph_layout_ok:
  "8 dvd sum_list (map fst (eph_layout t))" "list_all (\<lambda>(w, k). w \<le> 64) (eph_layout t)"
  "\<exists>rows. eph_layout t = (12, Raw) # rows"
  by (cases t; simp add: bdxw_layout_def bd2_layout_def bd3_layout_def cnav2_layout_def cnav3_layout_def
      gps_layout_def gal_layout_def glo_layout_def)+

lemma fields_at_append:
  "fields_at (a @ b) off buf = fields_at a off buf @ fields_at b (off + sum_list a) buf"
  by (induction a arbitrary: off) (simp_all add: add.assoc)

lemma length_fields_at [simp]: "length (fields_at ws off buf) = length ws"
  by (induction ws arbitrary: off) simp_all

lemma butlast_decode_rows:
  "butlast (decode_rows (rows @ [(24, Raw)]) off buf) = decode_rows rows off buf"
  by (simp add: decode_rows_def interpret_fields_def fields_at_append zip_append)

lemma length_payload_of:
  "length vs = length rows \<Longrightarrow> length (payload_of rows vs) = sum_list (map fst rows) div 8"
  by (simp add: payload_of_def)

section \<open>Decoding a packet\<close>

definition packet_values :: "EPH_Type_t \<Rightarrow> bytes \<Rightarrow> field_val list" where
  "packet_values t p = decode_rows (eph_layout t) 64 p"

lemma raw_packet1_split: "\<exists>h c. raw_packet1 type pl @ rest = h @ pl @ c \<and> length h = 8"
proof -
  let ?h = "le32 Header1 @ le16 type @ le16 (of_nat (length pl))"
  have "raw_packet1 type pl @ rest = ?h @ pl @ crc_bytes (crc24_ref (?h @ pl)) @ rest"
    by (simp add: raw_packet1_def)
  moreover have "length ?h = 8" by (simp add: le32_def le16_def)
  ultimately show ?thesis by blast
qed

lemma packet_values_pack:
  assumes "length vs = length (eph_layout t)"
  shows "packet_values t (raw_packet1 type (payload_of (eph_layout t) vs) @ rest)
     = interpret_fields (eph_layout t) (masked (eph_layout t) vs)"
proof -
  let ?pl = "payload_of (eph_layout t) vs"
  obtain h c where d: "raw_packet1 type ?pl @ rest = h @ ?pl @ c" "length h = 8"
    using raw_packet1_split [of type ?pl rest] by blast
  show ?thesis unfolding packet_values_def masked_def d(1) unfolding payload_of_def
    by (rule decode_rows_pack) (use assms d(2) eph_layout_ok [of t] in simp_all)
qed

fun eph_struct :: "EPH_Type_t \<Rightarrow> bytes \<Rightarrow> bytes" where
  "eph_struct BDXWEPH p = bdxw_bytes (decode_bdxwephb p)"
| "eph_struct BD2EPH p = bd2_bytes (decode_bd2ephb p)"
| "eph_struct BD3EPH p = bd3_bytes (decode_bd3ephb p)"
| "eph_struct BD3CNAV2EPH p = cnav2_bytes (decode_bd3cnav2ephb p)"
| "eph_struct BD3CNAV3EPH p = cnav3_bytes (decode_bd3cnav3ephb p)"
| "eph_struct GPSEPH p = gps_bytes (decode_gpsephb p)"
| "eph_struct GALEPH p = gal_bytes (decode_galephb p)"
| "eph_struct GLOEPH p = glo_bytes (decode_gloephb p)"

text \<open>The bytes that each call of \<open>net_send_eph\<close> leaves out.\<close>

fun eph_trim :: "EPH_Type_t \<Rightarrow> nat" where
  "eph_trim BDXWEPH = 20" | "eph_trim BD2EPH = 13" | "eph_trim BD3EPH = 13" | "eph_trim BD3CNAV2EPH = 13"
| "eph_trim BD3CNAV3EPH = 16" | "eph_trim GPSEPH = 13" | "eph_trim GALEPH = 13" | "eph_trim GLOEPH = 12"

lemma event_values_decode:
  "event_values (Print_bdxwephb (decode_bdxwephb p) crc) = Some (BDXWEPH, packet_values BDXWEPH p)"
  "event_values (Print_bd2ephb (decode_bd2ephb p) crc) = Some (BD2EPH, packet_values BD2EPH p)"
  "event_values (Print_bd3ephb (decode_bd3ephb p) crc) = Some (BD3EPH, packet_values BD3EPH p)"
  "event_values (Print_bd3cnav2ephb (decode_bd3cnav2ephb p) crc) = Some (BD3CNAV2EPH, packet_values BD3CNAV2EPH p)"
  "event_values (Print_bd3cnav3ephb (decode_bd3cnav3ephb p) crc) = Some (BD3CNAV3EPH, packet_values BD3CNAV3EPH p)"
  "event_values (Print_gpsephb (decode_gpsephb p) crc) = Some (GPSEPH, packet_values GPSEPH p)"
  "event_values (Print_galephb (decode_galephb p) crc) = Some (GALEPH, packet_values GALEPH p)"
  "event_values (Print_gloephb (decode_gloephb p) crc) = Some (GLOEPH, packet_values GLOEPH p)"
  unfolding event_values.simps packet_values_def eph_layout.simps bdxw_values_decode bd2_values_decode
    bd3_values_decode cnav2_values_decode cnav3_values_decode gps_values_decode gal_values_decode glo_values_decode
  by (subst butlast_layouts, simp only: butlast_decode_rows)+

definition no_send :: "raw_event list \<Rightarrow> bool" where
  "no_send es \<longleftrightarrow> (\<forall>t data. Net_send_eph t data \<notin> set es)"

definition weeks_ok :: "nat \<Rightarrow> raw_event list \<Rightarrow> bool" where
  "weeks_ok n es \<longleftrightarrow> (\<forall>name w tow sat. Log_summary name w tow sat \<in> set es \<longrightarrow> unat w = n)"

lemma week_read [simp]: "unat (ucast (read_bits_be p 64 12) :: u16) = fld p 64 12"
  by (rule unat_narrow16) simp

lemma decode_week:
  "unat (DecodeXw.gps_week_count (decode_bdxwephb p)) = fld p 64 12"
  "unat (DecodeBd2.gps_week_count (decode_bd2ephb p)) = fld p 64 12"
  "unat (DecodeBd3.gps_week_count (decode_bd3ephb p)) = fld p 64 12"
  "unat (DecodeCnav2.gps_week_count (decode_bd3cnav2ephb p)) = fld p 64 12"
  "unat (DecodeCnav3.gps_week_count (decode_bd3cnav3ephb p)) = fld p 64 12"
  "unat (DecodeGps.gps_week_count (decode_gpsephb p)) = fld p 64 12"
  "unat (DecodeGal.gps_week_count (decode_galephb p)) = fld p 64 12"
  "unat (DecodeGlo.gps_week_count (decode_gloephb p)) = fld p 64 12"
  by (simp_all add: decode_bdxwephb_def decode_bd2ephb_def decode_bd3ephb_def decode_bd3cnav2ephb_def
      decode_bd3cnav3ephb_def decode_gpsephb_def decode_galephb_def decode_gloephb_def Let_def)

text \<open>The two calls that every case starts with, and the call that may follow.\<close>

fun eph_report :: "EPH_Type_t \<Rightarrow> u32 \<Rightarrow> bytes \<Rightarrow> raw_event list" where
  "eph_report BDXWEPH crc p =
     [Print_bdxwephb (decode_bdxwephb p) crc,
      Log_summary ''BDXW EPHB'' (DecodeXw.gps_week_count (decode_bdxwephb p)) (DecodeXw.gps_tow_s (decode_bdxwephb p)) (DecodeXw.xws_satid (decode_bdxwephb p))]"
| "eph_report BD2EPH crc p =
     [Log_summary ''BDS-2 EPHB'' (DecodeBd2.gps_week_count (decode_bd2ephb p)) (DecodeBd2.gps_tow_s (decode_bd2ephb p)) (DecodeBd2.bd2_satid (decode_bd2ephb p)),
      Print_bd2ephb (decode_bd2ephb p) crc]"
| "eph_report BD3EPH crc p =
     [Log_summary ''BDS-3 EPHB'' (DecodeBd3.gps_week_count (decode_bd3ephb p)) (DecodeBd3.gps_tow_s (decode_bd3ephb p)) (DecodeBd3.bd3_satid (decode_bd3ephb p)),
      Print_bd3ephb (decode_bd3ephb p) crc]"
| "eph_report BD3CNAV2EPH crc p =
     [Log_summary ''BDS-3 CNAV2 Ephemeris'' (DecodeCnav2.gps_week_count (decode_bd3cnav2ephb p)) (DecodeCnav2.gps_tow_s (decode_bd3cnav2ephb p)) (DecodeCnav2.bds_satid (decode_bd3cnav2ephb p)),
      Print_bd3cnav2ephb (decode_bd3cnav2ephb p) crc]"
| "eph_report BD3CNAV3EPH crc p =
     [Log_summary ''BDS-3 CNAV3 Ephemeris'' (DecodeCnav3.gps_week_count (decode_bd3cnav3ephb p)) (DecodeCnav3.gps_tow_s (decode_bd3cnav3ephb p)) (DecodeCnav3.bds_satid (decode_bd3cnav3ephb p)),
      Print_bd3cnav3ephb (decode_bd3cnav3ephb p) crc]"
| "eph_report GPSEPH crc p =
     [Print_gpsephb (decode_gpsephb p) crc,
      Log_summary ''GPS Ephemeris'' (DecodeGps.gps_week_count (decode_gpsephb p)) (DecodeGps.gps_tow_s (decode_gpsephb p)) (DecodeGps.gps_satid (decode_gpsephb p))]"
| "eph_report GALEPH crc p =
     [Print_galephb (decode_galephb p) crc,
      Log_summary ''Galileo EPHB'' (DecodeGal.gps_week_count (decode_galephb p)) (DecodeGal.gps_tow_s (decode_galephb p)) (DecodeGal.gal_satid (decode_galephb p))]"
| "eph_report GLOEPH crc p =
     [Print_gloephb (decode_gloephb p) crc,
      Log_summary ''GLO EPHB'' (DecodeGlo.gps_week_count (decode_gloephb p)) (DecodeGlo.gps_tow_s (decode_gloephb p)) (DecodeGlo.glo_satid (decode_gloephb p))]"

fun eph_record :: "EPH_Type_t \<Rightarrow> gnss_ephb_cfg_t \<Rightarrow> bytes \<Rightarrow> raw_event list" where
  "eph_record BDXWEPH cfg p = on_file (eph_bdxw cfg) (Append_bdxwephb (decode_bdxwephb p))"
| "eph_record BD2EPH cfg p = on_file (eph_bd2 cfg) (Append_bd2ephb (decode_bd2ephb p))"
| "eph_record BD3EPH cfg p = on_file (eph_bd3 cfg) (Append_bd3ephb (decode_bd3ephb p))"
| "eph_record BD3CNAV2EPH cfg p = on_file (eph_bd3cnav2 cfg) (Append_bd3cnav2ephb (decode_bd3cnav2ephb p))"
| "eph_record BD3CNAV3EPH cfg p = on_file (eph_bd3cnav3 cfg) (Append_bd3cnav3ephb (decode_bd3cnav3ephb p))"
| "eph_record GPSEPH cfg p = on_file (eph_gps cfg) (Append_gpsephb (decode_gpsephb p))"
| "eph_record GALEPH cfg p = []"
| "eph_record GLOEPH cfg p = []"

lemma handle_packet1_eph:
  "sum_list (map fst (eph_layout t)) \<le> 8 * n \<Longrightarrow>
     handle_packet1 cfg net (eph_packet_type t) n crc p =
       eph_report t crc p @ eph_record t cfg p @ on_net net t (eph_struct t p) (eph_trim t)"
  unfolding eph_layout_bits
  by (cases t) (simp_all add: handle_packet1_def raw_consts Let_def)

lemma eph_report_ok:
  "no_send (eph_report t crc p)" "weeks_ok (fld p 64 12) (eph_report t crc p)"
  "\<exists>e \<in> set (eph_report t crc p). event_values e = Some (t, packet_values t p)"
  by (cases t; simp add: no_send_def weeks_ok_def decode_week del: event_values.simps add: event_values_decode)+

lemma eph_record_ok: "no_send (eph_record t cfg p)" "weeks_ok n (eph_record t cfg p)"
  by (cases t; simp add: no_send_def weeks_ok_def on_file_def)+

text \<open>The payload of a message, and the scan of the packet that carries it.\<close>

lemma payload_of_length:
  "length vs = length (eph_layout t) \<Longrightarrow> 8 * length (payload_of (eph_layout t) vs) = sum_list (map fst (eph_layout t))"
  by (simp add: length_payload_of eph_layout_ok(1))

lemma payload_of_sizes:
  assumes "length vs = length (eph_layout t)"
  shows "0 < length (payload_of (eph_layout t) vs)" "length (payload_of (eph_layout t) vs) \<le> 93"
  using payload_of_length [OF assms] unfolding eph_layout_bits by (cases t; simp)+

lemma packet_week:
  assumes "length vs = length (eph_layout t)"
  shows "fld (raw_packet1 type (payload_of (eph_layout t) vs) @ rest) 64 12 = take_bit 12 (hd vs)"
proof -
  obtain rows where r: "eph_layout t = (12, Raw) # rows" using eph_layout_ok(3) by blast
  then obtain v vs' where v: "vs = v # vs'" using assms by (cases vs) auto
  have "N (fld (raw_packet1 type (payload_of (eph_layout t) vs) @ rest) 64 12) = N (take_bit 12 v)"
    using packet_values_pack [OF assms, of type rest]
    by (simp add: packet_values_def decode_rows_def interpret_fields_def masked_def r v)
  then show ?thesis by (simp add: v)
qed

end
