(* ===== verification/GnssCtl.thy ===== *)
theory GnssCtl
  imports GnssTypes
begin

text \<open>
  The parts of \<open>core/src/gnss_thread.c\<close> that assemble NMEA sentences from the serial
  stream and that send configuration commands to the receiver. \<open>gnss_world\<close> is the control
  block together with the serial device: the commands written so far, and whether each of
  the next writes will succeed (when the list is used up, they do).
\<close>

section \<open>NMEA sentences\<close>

text \<open>
  One character of \<open>gnss_handle_nmea_bytes\<close>: the new \<open>data_nmea\<close>, and the sentence passed
  to \<open>handle_gnss_nmea\<close>, if any.
\<close>

definition nmea_char :: "bool \<Rightarrow> char \<Rightarrow> string \<Rightarrow> string \<times> string option" where
  "nmea_char require_sentence_start c nmea =
     (if c = CR then (nmea, None)
      else let nmea = (if require_sentence_start \<and> c = CHR ''$'' then [] else nmea)
           in if nmea = [] \<and> require_sentence_start \<and> c \<noteq> CHR ''$'' then (nmea, None)
              else if nmea = [] \<and> \<not> require_sentence_start \<and> c = LF then (nmea, None)
              else if c = LF then
                (if length nmea > 0 then ([], Some (c_str nmea)) else (nmea, None))
              else if length nmea < DATA_NMEA_SIZE - 1 then (nmea @ [c], None)
              else ([], None))"

fun nmea_chars :: "bool \<Rightarrow> string \<Rightarrow> string \<Rightarrow> string \<times> string list" where
  "nmea_chars req [] nmea = (nmea, [])"
| "nmea_chars req (c # cs) nmea =
     (let (nmea', s) = nmea_char req c nmea; (nmea'', ss) = nmea_chars req cs nmea'
      in (nmea'', (case s of None \<Rightarrow> ss | Some x \<Rightarrow> x # ss)))"

definition gnss_handle_nmea_bytes :: "bytes \<Rightarrow> bool \<Rightarrow> gnss_ctrl_t \<Rightarrow> gnss_ctrl_t \<times> string list" where
  "gnss_handle_nmea_bytes buf req g =
     (let (nmea, ss) = nmea_chars req (string_of_bytes buf) (data_nmea g)
      in (g\<lparr>data_nmea := nmea\<rparr>, ss))"

text \<open>Splitting the stream into reads does not matter.\<close>

lemma nmea_chars_append:
  "nmea_chars req (xs @ ys) n =
     (let (n1, s1) = nmea_chars req xs n; (n2, s2) = nmea_chars req ys n1 in (n2, s1 @ s2))"
  by (induction xs arbitrary: n) (auto simp: Let_def split: prod.splits option.splits)

text \<open>The body without the inner reset.\<close>

lemma dollar_not_eol [simp]: "CHR ''$'' \<noteq> CR" "CHR ''$'' \<noteq> LF" "CR \<noteq> LF"
    "CR \<noteq> CHR ''$''" "LF \<noteq> CHR ''$''" "LF \<noteq> CR"
  by (simp_all add: CR_def LF_def)

lemma nmea_size: "DATA_NMEA_SIZE = 96"
  by (simp add: DATA_NMEA_SIZE_def MINMEA_MAX_SENTENCE_LENGTH_def)

lemma nmea_char_eq:
  "nmea_char req c n =
     (if c = CR then (n, None)
      else if req \<and> c = CHR ''$'' then ([c], None)
      else if n = [] \<and> (req \<or> c = LF) then (n, None)
      else if c = LF then ([], Some (c_str n))
      else if length n < DATA_NMEA_SIZE - 1 then (n @ [c], None)
      else ([], None))"
proof (cases "req \<and> c = CHR ''$''")
  case True
  then show ?thesis by (simp add: nmea_char_def nmea_size)
next
  case False
  then show ?thesis
    by (cases "c = CHR ''$''"; cases req) (simp_all add: nmea_char_def)
qed

text \<open>The buffer never overflows; the terminating NUL is written at index 95 at most.\<close>

lemma nmea_char_bound:
  "nmea_char req c n = (n', s) \<Longrightarrow> length n \<le> DATA_NMEA_SIZE - 1 \<Longrightarrow> length n' \<le> DATA_NMEA_SIZE - 1"
  by (auto simp: nmea_char_eq nmea_size split: if_splits)

lemma nmea_chars_bound:
  "nmea_chars req cs n = (n', ss) \<Longrightarrow> length n \<le> DATA_NMEA_SIZE - 1 \<Longrightarrow> length n' \<le> DATA_NMEA_SIZE - 1"
  by (induction cs arbitrary: n ss) (auto simp: Let_def dest: nmea_char_bound split: prod.splits)

text \<open>
  In the automatic mode the collected text is empty or starts with the only \<open>$\<close> in it,
  and contains no line end.
\<close>

definition nmea_text :: "string \<Rightarrow> bool" where
  "nmea_text n \<longleftrightarrow> n = [] \<or> (\<exists>r. n = CHR ''$'' # r \<and> CHR ''$'' \<notin> set r \<and> CR \<notin> set r \<and> LF \<notin> set r)"

lemma nmea_char_text:
  assumes "nmea_char True c n = (n', s)" "nmea_text n"
  shows "nmea_text n' \<and> (\<forall>x. s = Some x \<longrightarrow> n \<noteq> [] \<and> x = c_str n \<and> n' = [])"
  using assms by (auto simp: nmea_char_eq nmea_text_def split: if_splits)

lemma nmea_chars_text:
  assumes "nmea_chars True cs n = (n', ss)" "nmea_text n" "length n \<le> DATA_NMEA_SIZE - 1"
  shows "nmea_text n' \<and> (\<forall>x \<in> set ss. \<exists>r. x = CHR ''$'' # r \<and> CHR ''$'' \<notin> set r \<and> CR \<notin> set r
     \<and> LF \<notin> set r \<and> NUL \<notin> set r \<and> length x \<le> DATA_NMEA_SIZE - 1)"
  using assms
proof (induction cs arbitrary: n ss)
  case Nil
  then show ?case by simp
next
  case (Cons c cs)
  obtain n1 s where s: "nmea_char True c n = (n1, s)" by (cases "nmea_char True c n")
  obtain ss' where r: "nmea_chars True cs n1 = (n', ss')" "ss = (case s of None \<Rightarrow> ss' | Some x \<Rightarrow> x # ss')"
    using Cons.prems(1) s by (auto split: prod.splits)
  note t = nmea_char_text [OF s Cons.prems(2)]
  have ih: "nmea_text n' \<and> (\<forall>x \<in> set ss'. \<exists>r. x = CHR ''$'' # r \<and> CHR ''$'' \<notin> set r \<and> CR \<notin> set r
     \<and> LF \<notin> set r \<and> NUL \<notin> set r \<and> length x \<le> DATA_NMEA_SIZE - 1)"
    using Cons.IH [OF r(1)] t nmea_char_bound [OF s Cons.prems(3)] by blast
  have "\<exists>r. x = CHR ''$'' # r \<and> CHR ''$'' \<notin> set r \<and> CR \<notin> set r \<and> LF \<notin> set r \<and> NUL \<notin> set r
      \<and> length x \<le> DATA_NMEA_SIZE - 1" if x: "s = Some x" for x
  proof -
    from t x Cons.prems(2) obtain q where q: "n = CHR ''$'' # q" "x = c_str n"
      "CHR ''$'' \<notin> set q" "CR \<notin> set q" "LF \<notin> set q"
      by (auto simp: nmea_text_def)
    have "x = CHR ''$'' # c_str q" unfolding q(1,2) by (simp add: c_str_def NUL_def)
    moreover have "set (c_str q) \<subseteq> set q" "NUL \<notin> set (c_str q)"
      by (auto simp: c_str_def dest: set_takeWhileD)
    moreover have "length (c_str q) \<le> length q" by (simp add: c_str_def length_takeWhile_le)
    ultimately show ?thesis using q Cons.prems(3) by auto
  qed
  with ih r(2) show ?case by (auto split: option.splits)
qed

text \<open>
  A complete sentence that fits the buffer is delivered, whatever was collected before
  it. \<open>s\<close> is the sentence without the leading \<open>$\<close>.
\<close>

lemma nmea_chars_body:
  assumes "CHR ''$'' \<notin> set s" "CR \<notin> set s" "LF \<notin> set s" "n \<noteq> []" "length n + length s \<le> DATA_NMEA_SIZE - 1"
  shows "nmea_chars True s n = (n @ s, [])"
  using assms
proof (induction s arbitrary: n)
  case Nil
  then show ?case by simp
next
  case (Cons c s)
  then have "nmea_char True c n = (n @ [c], None)"
    by (auto simp: nmea_char_eq)
  with Cons show ?case by simp
qed

lemma nmea_sentence:
  assumes "CHR ''$'' \<notin> set s" "CR \<notin> set s" "LF \<notin> set s" "NUL \<notin> set s" "length s + 1 \<le> DATA_NMEA_SIZE - 1"
  shows "nmea_chars True (CHR ''$'' # s @ [CR, LF]) n = ([], [CHR ''$'' # s])"
proof -
  have h: "nmea_char True CHR ''$'' n = ([CHR ''$''], None)"
    by (simp add: nmea_char_eq)
  have b: "nmea_chars True s [CHR ''$''] = (CHR ''$'' # s, [])"
    using nmea_chars_body [of s "[CHR ''$'']"] assms by simp
  have "c_str (CHR ''$'' # s) = CHR ''$'' # s"
    using assms(4) by (intro c_str_id) (auto simp: NUL_def)
  then have "nmea_chars True [CR, LF] (CHR ''$'' # s) = ([], [CHR ''$'' # s])"
    by (simp add: nmea_char_eq)
  then show ?thesis by (simp add: h nmea_chars_append b)
qed

section \<open>Commands to the receiver\<close>

record gnss_world =
  gctrl :: gnss_ctrl_t
  dev_out :: "string list"
  dev_script :: "bool list"

definition gnss_dev_write :: "string \<Rightarrow> gnss_world \<Rightarrow> int \<times> gnss_world" where
  "gnss_dev_write buf w =
     (if gnss_fd (gctrl w) < 0 then (- 1, w)
      else case dev_script w of
        False # rest \<Rightarrow> (- 1, w\<lparr>dev_script := rest\<rparr>)
      | True # rest \<Rightarrow> (int (length buf), w\<lparr>dev_script := rest, dev_out := dev_out w @ [buf]\<rparr>)
      | [] \<Rightarrow> (int (length buf), w\<lparr>dev_out := dev_out w @ [buf]\<rparr>))"

text \<open>\<open>snprintf\<close> into the 128 bytes of \<open>buff\<close>.\<close>

definition cmd_buff :: "string \<Rightarrow> string" where
  "cmd_buff s = c_snprintf 128 (c_str s)"

definition CRLF :: string where "CRLF = [CR, LF]"

definition gnss_reset :: "gnss_world \<Rightarrow> gnss_world" where
  "gnss_reset w = snd (gnss_dev_write (cmd_buff (''CSHG FRESET'' @ CRLF)) w)"

definition gnss_cfg_save :: "gnss_world \<Rightarrow> gnss_world" where
  "gnss_cfg_save w = snd (gnss_dev_write (cmd_buff (''CSHG SAVECONFIG'' @ CRLF)) w)"

definition gnss_cfg_disable_out :: "gnss_world \<Rightarrow> gnss_world" where
  "gnss_cfg_disable_out w = snd (gnss_dev_write (cmd_buff (''CSHG CLOSEALL COM1 '' @ CRLF)) w)"

definition set_eph_output ::
    "((gnss_eph_data_info_t \<Rightarrow> gnss_eph_data_info_t) \<Rightarrow> gnss_ephb_cfg_t \<Rightarrow> gnss_ephb_cfg_t) \<Rightarrow> u8 \<Rightarrow> gnss_ctrl_t \<Rightarrow> gnss_ctrl_t" where
  "set_eph_output upd enable g =
     g\<lparr>data_cfg := (data_cfg g)\<lparr>cfg_ephb := upd (eph_output_update (\<lambda>_. enable)) (cfg_ephb (data_cfg g))\<rparr>\<rparr>"

definition set_nmea_output ::
    "((gnss_nmea_data_info_t \<Rightarrow> gnss_nmea_data_info_t) \<Rightarrow> gnss_nmea_cfg_t \<Rightarrow> gnss_nmea_cfg_t) \<Rightarrow> u8 \<Rightarrow> gnss_ctrl_t \<Rightarrow> gnss_ctrl_t" where
  "set_nmea_output upd enable g =
     g\<lparr>data_cfg := (data_cfg g)\<lparr>cfg_nmea := upd (nmea_output_update (\<lambda>_. enable)) (cfg_nmea (data_cfg g))\<rparr>\<rparr>"

definition CfgdataType_from_name :: "string \<Rightarrow> u8 \<Rightarrow> gnss_ctrl_t \<Rightarrow> gnss_ctrl_t" where
  "CfgdataType_from_name type enable g =
     (if c_strcaseeq type ''gbs'' then set_nmea_output nmea_gbs_update enable g
      else if c_strcaseeq type ''gga'' then set_nmea_output nmea_gga_update enable g
      else if c_strcaseeq type ''gll'' then set_nmea_output nmea_gll_update enable g
      else if c_strcaseeq type ''gsa'' then set_nmea_output nmea_gsa_update enable g
      else if c_strcaseeq type ''gst'' then set_nmea_output nmea_gst_update enable g
      else if c_strcaseeq type ''gsv'' then set_nmea_output nmea_gsv_update enable g
      else if c_strcaseeq type ''rmc'' then set_nmea_output nmea_rmc_update enable g
      else if c_strcaseeq type ''vtg'' then set_nmea_output nmea_vtg_update enable g
      else if c_strcaseeq type ''zda'' then set_nmea_output nmea_zda_update enable g
      else if c_strcaseeq type ''bdxwephb'' then set_eph_output eph_bdxw_update enable g
      else if c_strcaseeq type ''gpsephb'' then set_eph_output eph_gps_update enable g
      else if c_strcaseeq type ''bd2ephb'' then set_eph_output eph_bd2_update enable g
      else if c_strcaseeq type ''bd3ephb'' then set_eph_output eph_bd3_update enable g
      else if c_strcaseeq type ''bd3cnav2ephb'' then set_eph_output eph_bd3cnav2_update enable g
      else if c_strcaseeq type ''bd3cnav3ephb'' then set_eph_output eph_bd3cnav3_update enable g
      else if c_strcaseeq type ''gloephb'' then set_eph_output eph_glo_update enable g
      else if c_strcaseeq type ''galephb'' then set_eph_output eph_gal_update enable g
      else g)"

definition gnss_cfg_data :: "string \<Rightarrow> u8 \<Rightarrow> u8 \<Rightarrow> gnss_world \<Rightarrow> gnss_world" where
  "gnss_cfg_data type enable per_second w =
     (let buff = (if enable \<noteq> 0
            then cmd_buff (''CSHG OPEN COM1 '' @ type @ '' ONTIME '' @ show_nat (unat per_second) @ '' '' @ CRLF)
            else cmd_buff (''CSHG CLOSE COM1 '' @ type @ '' '' @ CRLF));
          (result, w) = gnss_dev_write buff w
      in if result < 0 then w else w\<lparr>gctrl := CfgdataType_from_name type enable (gctrl w)\<rparr>)"

definition gnss_cfg_data_onchange :: "string \<Rightarrow> gnss_world \<Rightarrow> gnss_world" where
  "gnss_cfg_data_onchange type w =
     (let (result, w) = gnss_dev_write (cmd_buff (''CSHG ONCHANGE COM1 '' @ type @ '' ONCHANGED '' @ CRLF)) w
      in if result < 0 then w else w\<lparr>gctrl := CfgdataType_from_name type 1 (gctrl w)\<rparr>)"

text \<open>The bit-fields of \<open>gnss_SysType_t\<close>; a bit-field keeps the lowest bit of what is stored.\<close>

definition set_sys_bit :: "nat \<Rightarrow> u8 \<Rightarrow> gnss_ctrl_t \<Rightarrow> gnss_ctrl_t" where
  "set_sys_bit k enable g =
     g\<lparr>sysType := (if bit enable 0 then sysType g OR push_bit k 1 else sysType g AND NOT (push_bit k 1))\<rparr>"

definition CfgsysType_from_name :: "string \<Rightarrow> u8 \<Rightarrow> gnss_ctrl_t \<Rightarrow> gnss_ctrl_t" where
  "CfgsysType_from_name sys enable g =
     (if c_strcaseeq sys ''bds'' then set_sys_bit 0 enable g
      else if c_strcaseeq sys ''gps'' then set_sys_bit 1 enable g
      else if c_strcaseeq sys ''gal'' then set_sys_bit 2 enable g
      else if c_strcaseeq sys ''glo'' then set_sys_bit 3 enable g
      else if c_strcaseeq sys ''all'' then
        set_sys_bit 3 enable (set_sys_bit 2 enable (set_sys_bit 1 enable (set_sys_bit 0 enable g)))
      else g)"

definition gnss_cfg_sys :: "string \<Rightarrow> u8 \<Rightarrow> gnss_world \<Rightarrow> gnss_world" where
  "gnss_cfg_sys sys enable w =
     (let buff = (if enable \<noteq> 0 then cmd_buff (''CSHG SYSEN '' @ sys @ '' ON '' @ CRLF)
                  else cmd_buff (''CSHG SYSEN '' @ sys @ '' OFF '' @ CRLF));
          (result, w) = gnss_dev_write buff w
      in if result < 0 then w else w\<lparr>gctrl := CfgsysType_from_name sys enable (gctrl w)\<rparr>)"

definition set_calcType :: "gnss_CalcType_t \<Rightarrow> gnss_world \<Rightarrow> gnss_world" where
  "set_calcType t w = w\<lparr>gctrl := (gctrl w)\<lparr>calcType := t\<rparr>\<rparr>"

definition gnss_cfg_calcType_ex :: "string \<Rightarrow> string \<Rightarrow> u8 \<Rightarrow> gnss_world \<Rightarrow> gnss_world" where
  "gnss_cfg_calcType_ex workMode ct freqCode w =
     (let (result, w) = gnss_dev_write (cmd_buff
            (''CSHG MODE '' @ workMode @ '' '' @ ct @ '' '' @ show_nat (unat freqCode) @ '' '' @ CRLF)) w
      in if result < 0 then w
         else if c_strcaseeq ct ''ppp'' then set_calcType GNSS_CALC_PPP w
         else if c_strcaseeq ct ''fppp'' then set_calcType GNSS_CALC_FPPP w
         else if c_strcaseeq ct ''rtk'' then set_calcType GNSS_CALC_RTK w
         else if c_strcaseeq ct ''rtd'' then set_calcType GNSS_CALC_RTD w
         else if c_strcaseeq ct ''dppp'' then set_calcType GNSS_CALC_DPPP w
         else w)"

text \<open>
  The two shapes of the branches of \<open>gnss_cfg_calcType\<close>. The result of the write is not
  looked at.
\<close>

definition calc_rover :: "string \<Rightarrow> gnss_CalcType_t \<Rightarrow> gnss_world \<Rightarrow> gnss_world" where
  "calc_rover ct t w =
     set_calcType t (snd (gnss_dev_write (cmd_buff (''CSHG MODE rover '' @ ct @ '' 13 '' @ CRLF)) w))"

definition calc_bds :: "string \<Rightarrow> gnss_CalcType_t \<Rightarrow> gnss_world \<Rightarrow> gnss_world" where
  "calc_bds ct t w =
     (let w = snd (gnss_dev_write (cmd_buff (''CSHG MODE rover '' @ ct @ '' 13 '' @ CRLF)) w);
          w = snd (gnss_dev_write (cmd_buff (''CSHG SYSEN bds ON '' @ CRLF)) w)
      in set_calcType t w)"

definition gnss_cfg_calcType :: "string \<Rightarrow> gnss_world \<Rightarrow> gnss_world" where
  "gnss_cfg_calcType ct w =
     (if c_strcaseeq ct ''ppp'' then calc_rover ct GNSS_CALC_PPP w
      else if c_strcaseeq ct ''fppp'' then calc_rover ct GNSS_CALC_FPPP w
      else if c_strcaseeq ct ''rtk'' then calc_rover ct GNSS_CALC_RTK w
      else if c_strcaseeq ct ''rtd'' then calc_rover ct GNSS_CALC_RTD w
      else if c_strcaseeq ct ''dppp'' then calc_rover ct GNSS_CALC_DPPP w
      else if c_strcaseeq ct ''bds_ppp'' then calc_bds ''ppp'' GNSS_CALC_BDS_PPP w
      else if c_strcaseeq ct ''bds_rtk'' then calc_bds ''rtk'' GNSS_CALC_BDS_RTK w
      else if c_strcaseeq ct ''bds_rtd'' then calc_bds ''rtd'' GNSS_CALC_BDS_RTD w
      else w)"

section \<open>Laws of the commands\<close>

text \<open>A device that is open and whose writes succeed.\<close>

definition dev_ok :: "gnss_world \<Rightarrow> bool" where
  "dev_ok w \<longleftrightarrow> 0 \<le> gnss_fd (gctrl w) \<and> list_all id (dev_script w)"

lemma dev_write_ok:
  "dev_ok w \<Longrightarrow> \<exists>rest. list_all id rest \<and>
     gnss_dev_write buf w = (int (length buf), w\<lparr>dev_script := rest, dev_out := dev_out w @ [buf]\<rparr>)"
  by (cases "dev_script w") (auto simp: dev_ok_def gnss_dev_write_def intro: exI [of _ "[]"])

lemma gctrl_dev_write [simp]: "gctrl (snd (gnss_dev_write buf w)) = gctrl w"
  by (auto simp: gnss_dev_write_def split: list.splits bool.splits)

lemma gnss_fd_Cfgdata [simp]: "gnss_fd (CfgdataType_from_name t e g) = gnss_fd g"
  by (simp add: CfgdataType_from_name_def set_eph_output_def set_nmea_output_def)

definition cfg_command :: "string \<Rightarrow> u8 \<Rightarrow> u8 \<Rightarrow> string" where
  "cfg_command type enable per_second =
     (if enable \<noteq> 0
      then cmd_buff (''CSHG OPEN COM1 '' @ type @ '' ONTIME '' @ show_nat (unat per_second) @ '' '' @ CRLF)
      else cmd_buff (''CSHG CLOSE COM1 '' @ type @ '' '' @ CRLF))"

lemma gnss_cfg_data_ok:
  assumes "dev_ok w"
  shows "dev_ok (gnss_cfg_data t e p w)"
    and "dev_out (gnss_cfg_data t e p w) = dev_out w @ [cfg_command t e p]"
    and "gctrl (gnss_cfg_data t e p w) = CfgdataType_from_name t e (gctrl w)"
proof -
  obtain rest where r: "list_all id rest"
    "gnss_dev_write (cfg_command t e p) w
       = (int (length (cfg_command t e p)), w\<lparr>dev_script := rest, dev_out := dev_out w @ [cfg_command t e p]\<rparr>)"
    using dev_write_ok [OF assms] by blast
  have g: "gnss_cfg_data t e p w = w\<lparr>dev_script := rest, dev_out := dev_out w @ [cfg_command t e p],
      gctrl := CfgdataType_from_name t e (gctrl w)\<rparr>"
    using r(2) by (simp add: gnss_cfg_data_def cfg_command_def Let_def)
  show "dev_ok (gnss_cfg_data t e p w)" using assms r(1) by (simp add: g dev_ok_def)
  show "dev_out (gnss_cfg_data t e p w) = dev_out w @ [cfg_command t e p]"
    "gctrl (gnss_cfg_data t e p w) = CfgdataType_from_name t e (gctrl w)"
    by (simp_all add: g)
qed

text \<open>The configuration follows the device: a failed write leaves it as it was.\<close>

lemma gnss_cfg_data_fail:
  "gnss_fd (gctrl w) < 0 \<or> (\<exists>r. dev_script w = False # r) \<Longrightarrow>
     gctrl (gnss_cfg_data t e p w) = gctrl w \<and> dev_out (gnss_cfg_data t e p w) = dev_out w"
  by (auto simp: gnss_cfg_data_def gnss_dev_write_def Let_def)

end
