(* ===== verification/GnssRx.thy ===== *)
theory GnssRx
  imports RawPacket GnssCtl
begin

text \<open>
  The receive side of \<open>core/src/gnss_thread.c\<close>: \<open>gnss_handle_raw_bytes\<close>, which collects
  binary data in the 8192 bytes of \<open>data_raw\<close> and gives them to the scan, and what the
  thread does with the bytes of one successful \<open>read\<close>. \<open>None\<close> is a scan that does not end
  within the fuel; \<open>DATA_RAW_SIZE + 1\<close> iterations are enough for every buffer on which the
  scan ends at all.
\<close>

definition RAW_FUEL :: nat where
  "RAW_FUEL = DATA_RAW_SIZE + 1"

text \<open>\<open>memmove\<close> of the last \<open>n - k\<close> of the first \<open>n\<close> bytes to the front.\<close>

definition move_front :: "nat \<Rightarrow> nat \<Rightarrow> bytes \<Rightarrow> bytes" where
  "move_front k n raw = drop k (take n raw) @ drop (n - k) raw"

text \<open>The three parts of the function: filling the buffer, the scan, dropping what it consumed.\<close>

definition raw_append :: "bytes \<Rightarrow> gnss_ctrl_t \<Rightarrow> gnss_ctrl_t" where
  "raw_append buf g =
     (let g = (if data_raw_len g = DATA_RAW_SIZE then g\<lparr>data_raw_len := 0\<rparr> else g);
          n = data_raw_len g;
          room = DATA_RAW_SIZE - n;
          copy_len = (if length buf < room then length buf else room)
      in g\<lparr>data_raw := take n (data_raw g) @ take copy_len buf @ drop (n + copy_len) (data_raw g),
           data_raw_len := n + copy_len\<rparr>)"

definition raw_consume :: "nat \<Rightarrow> gnss_ctrl_t \<Rightarrow> gnss_ctrl_t" where
  "raw_consume cnt g =
     (let handle_len = cnt mod 65536
      in if handle_len > 0 then
           let g = (if handle_len < data_raw_len g
                    then g\<lparr>data_raw := move_front handle_len (data_raw_len g) (data_raw g)\<rparr> else g)
           in g\<lparr>data_raw_len := data_raw_len g - handle_len\<rparr>
         else g)"

definition gnss_handle_raw_bytes ::
    "glob_comm_config_t \<Rightarrow> bytes \<Rightarrow> gnss_ctrl_t \<Rightarrow> (gnss_ctrl_t \<times> raw_event list) option" where
  "gnss_handle_raw_bytes net buf g =
     (let g = raw_append buf g
      in case handle_gnss_raw RAW_FUEL (cfg_ephb (data_cfg g)) net (data_raw g) (data_raw_len g) of
           None \<Rightarrow> None
         | Some (evs, cnt) \<Rightarrow> Some (raw_consume cnt g, evs))"

text \<open>The branch of \<open>gnss_thread_func\<close> for \<open>n > 0\<close> bytes read from the device.\<close>

definition gnss_thread_data ::
    "glob_comm_config_t \<Rightarrow> bytes \<Rightarrow> gnss_ctrl_t \<Rightarrow> (gnss_ctrl_t \<times> raw_event list \<times> string list) option" where
  "gnss_thread_data net buf g =
     (case parseDataType g of
        GNSS_DATA_AUTO \<Rightarrow>
          (case gnss_handle_raw_bytes net buf g of
             None \<Rightarrow> None
           | Some (g, evs) \<Rightarrow> let (g, ss) = gnss_handle_nmea_bytes buf True g in Some (g, evs, ss))
      | GNSS_DATA_NMEA \<Rightarrow>
          (let (g, ss) = gnss_handle_nmea_bytes buf False g in Some (g, [], ss))
      | GNSS_DATA_EPHB \<Rightarrow>
          (case gnss_handle_raw_bytes net buf g of None \<Rightarrow> None | Some (g, evs) \<Rightarrow> Some (g, evs, [])))"

section \<open>Invariant\<close>

definition gnss_ctrl_inv :: "gnss_ctrl_t \<Rightarrow> bool" where
  "gnss_ctrl_inv g \<longleftrightarrow> length (data_raw g) = DATA_RAW_SIZE \<and> data_raw_len g \<le> DATA_RAW_SIZE
     \<and> data_nmea_len g \<le> DATA_NMEA_SIZE - 1"

lemma gnss_ctrl_init_inv: "gnss_ctrl_inv gnss_ctrl_init"
  by (simp add: gnss_ctrl_inv_def gnss_ctrl_init_def)

text \<open>The data that wait for the scan.\<close>

definition raw_pending :: "gnss_ctrl_t \<Rightarrow> bytes" where
  "raw_pending g = take (data_raw_len g) (data_raw g)"

lemma raw_append_inv:
  assumes "gnss_ctrl_inv g"
  shows "gnss_ctrl_inv (raw_append buf g)" "data_cfg (raw_append buf g) = data_cfg g"
    "data_nmea (raw_append buf g) = data_nmea g"
  using assms by (auto simp: raw_append_def gnss_ctrl_inv_def Let_def)

text \<open>The new data follow the pending ones, as far as there is room.\<close>

lemma raw_pending_append:
  assumes "gnss_ctrl_inv g"
  shows "raw_pending (raw_append buf g) =
    (if data_raw_len g = DATA_RAW_SIZE then take DATA_RAW_SIZE buf
     else raw_pending g @ take (DATA_RAW_SIZE - data_raw_len g) buf)"
  using assms by (auto simp: raw_append_def raw_pending_def gnss_ctrl_inv_def Let_def min_def)

lemma handle_raw_count:
  "handle_gnss_raw fuel cfg net data len = Some (evs, c) \<Longrightarrow> c \<le> len"
  by (auto simp: handle_gnss_raw_def dest: raw_loop_count split: if_splits)

lemma length_move_front: "k \<le> n \<Longrightarrow> n \<le> length raw \<Longrightarrow> length (move_front k n raw) = length raw"
  by (simp add: move_front_def)

lemma take_move_front: "k \<le> n \<Longrightarrow> n \<le> length raw \<Longrightarrow> take (n - k) (move_front k n raw) = drop k (take n raw)"
  by (simp add: move_front_def)

lemma raw_consume_inv:
  assumes "gnss_ctrl_inv g" "c \<le> data_raw_len g"
  shows "gnss_ctrl_inv (raw_consume c g)" "raw_pending (raw_consume c g) = drop c (raw_pending g)"
    "data_cfg (raw_consume c g) = data_cfg g" "data_nmea (raw_consume c g) = data_nmea g"
proof -
  have m: "c mod 65536 = c"
    using assms by (simp add: gnss_ctrl_inv_def DATA_RAW_SIZE_def)
  show "gnss_ctrl_inv (raw_consume c g)" "raw_pending (raw_consume c g) = drop c (raw_pending g)"
    "data_cfg (raw_consume c g) = data_cfg g" "data_nmea (raw_consume c g) = data_nmea g"
    using assms
    by (auto simp: raw_consume_def m Let_def gnss_ctrl_inv_def raw_pending_def length_move_front take_move_front)
qed

text \<open>One call: what it scans, what it keeps, and what it leaves unchanged.\<close>

lemma handle_raw_bytes_step:
  assumes inv: "gnss_ctrl_inv g" and r: "gnss_handle_raw_bytes net buf g = Some (g', evs)"
  shows "\<exists>c. handle_gnss_raw RAW_FUEL (cfg_ephb (data_cfg g)) net (data_raw (raw_append buf g))
         (data_raw_len (raw_append buf g)) = Some (evs, c)
      \<and> raw_pending g' = drop c (raw_pending (raw_append buf g))
      \<and> gnss_ctrl_inv g' \<and> data_nmea g' = data_nmea g \<and> data_cfg g' = data_cfg g"
proof -
  note a = raw_append_inv [OF inv, of buf]
  from r obtain c where h: "handle_gnss_raw RAW_FUEL (cfg_ephb (data_cfg g)) net (data_raw (raw_append buf g))
         (data_raw_len (raw_append buf g)) = Some (evs, c)" "g' = raw_consume c (raw_append buf g)"
    by (auto simp: gnss_handle_raw_bytes_def Let_def a(2) split: option.splits)
  show ?thesis
    using h raw_consume_inv [OF a(1) handle_raw_count [OF h(1)]] a by auto
qed

lemma nmea_bytes_step:
  assumes "gnss_ctrl_inv g" "gnss_handle_nmea_bytes buf req g = (g', ss)"
  shows "gnss_ctrl_inv g' \<and> data_cfg g' = data_cfg g \<and> raw_pending g' = raw_pending g"
proof -
  obtain n' where n: "nmea_chars req (string_of_bytes buf) (data_nmea g) = (n', ss)" "g' = g\<lparr>data_nmea := n'\<rparr>"
    using assms(2) by (auto simp: gnss_handle_nmea_bytes_def split: prod.splits)
  from nmea_chars_bound [OF n(1)] assms(1) show ?thesis
    by (simp add: gnss_ctrl_inv_def n(2) raw_pending_def)
qed

lemma gnss_thread_data_inv:
  assumes "gnss_ctrl_inv g" "gnss_thread_data net buf g = Some (g', evs, ss)"
  shows "gnss_ctrl_inv g'"
  using assms(2)
proof (cases "parseDataType g")
  case GNSS_DATA_AUTO
  then obtain g1 where "gnss_handle_raw_bytes net buf g = Some (g1, evs)"
    "gnss_handle_nmea_bytes buf True g1 = (g', ss)"
    using assms(2) by (auto simp: gnss_thread_data_def split: option.splits prod.splits)
  then show ?thesis using handle_raw_bytes_step [OF assms(1)] nmea_bytes_step by blast
next
  case GNSS_DATA_NMEA
  then show ?thesis using assms nmea_bytes_step
    by (auto simp: gnss_thread_data_def split: prod.splits)
next
  case GNSS_DATA_EPHB
  then show ?thesis using assms handle_raw_bytes_step [OF assms(1)]
    by (auto simp: gnss_thread_data_def split: option.splits)
qed

section \<open>Termination\<close>

lemma handle_gnss_raw_ends:
  assumes "\<And>j. \<not> zero_packet data len j" "len \<le> DATA_RAW_SIZE"
  shows "\<exists>r. handle_gnss_raw RAW_FUEL cfg net data len = Some r"
proof -
  have "len < SIZE_MOD" using assms(2) by (simp add: DATA_RAW_SIZE_def SIZE_MOD_def)
  then have "\<exists>r. raw_loop RAW_FUEL cfg net data len 0 0 = Some r"
    using assms by (intro raw_loop_terminates) (auto simp: RAW_FUEL_def)
  then show ?thesis by (auto simp: handle_gnss_raw_def)
qed

lemma handle_raw_bytes_ends:
  assumes "gnss_ctrl_inv g" "\<And>j. \<not> zero_packet (data_raw (raw_append buf g)) (data_raw_len (raw_append buf g)) j"
  shows "\<exists>r. gnss_handle_raw_bytes net buf g = Some r"
proof -
  have "data_raw_len (raw_append buf g) \<le> DATA_RAW_SIZE"
    using raw_append_inv(1) [OF assms(1), of buf] by (simp add: gnss_ctrl_inv_def)
  from handle_gnss_raw_ends [OF assms(2) this] show ?thesis
    by (fastforce simp: gnss_handle_raw_bytes_def Let_def split: option.splits)
qed

end
