(* ===== verification/Fmt.thy ===== *)
theory Fmt
  imports Layout
begin

text \<open>
  The conversions of \<open>printf\<close> that the reports and the CSV files use: \<open>%u\<close>, \<open>%0nX\<close> and
  \<open>% .12e\<close>. The last prints the exact value of a double rounded to 13 significant decimal
  digits, ties to even, as the C library does in the default rounding mode.
\<close>

section \<open>Hexadecimal numbers\<close>

definition hex_digit_char :: "nat \<Rightarrow> char" where
  "hex_digit_char d = (if d < 10 then char_of (48 + d) else char_of (55 + d))"

fun show_hex :: "nat \<Rightarrow> string" where
  "show_hex n = (if n < 16 then [hex_digit_char n] else show_hex (n div 16) @ [hex_digit_char (n mod 16)])"

declare show_hex.simps [simp del]

definition pad_zero :: "nat \<Rightarrow> string \<Rightarrow> string" where
  "pad_zero n s = replicate (n - length s) (CHR ''0'') @ s"

text \<open>\<open>%0nX\<close>\<close>

definition fmt_hex :: "nat \<Rightarrow> nat \<Rightarrow> string" where
  "fmt_hex n v = pad_zero n (show_hex v)"

section \<open>Doubles\<close>

text \<open>The decimal exponent of a positive fraction: how often it can be divided or multiplied by ten.\<close>

function exp_up :: "nat \<Rightarrow> nat \<Rightarrow> nat" where
  "exp_up n d = (if d \<noteq> 0 \<and> 10 * d \<le> n then Suc (exp_up n (10 * d)) else 0)"
  by pat_completeness auto
termination
  by (relation "measure (\<lambda>(n, d). n - d)") auto

function exp_down :: "nat \<Rightarrow> nat \<Rightarrow> nat" where
  "exp_down n d = (if n \<noteq> 0 \<and> n < d then Suc (exp_down (10 * n) d) else 0)"
  by pat_completeness auto
termination
  by (relation "measure (\<lambda>(n, d). d - n)") auto

declare exp_up.simps [simp del] exp_down.simps [simp del]

definition round_frac :: "nat \<Rightarrow> nat \<Rightarrow> nat" where
  "round_frac n d =
     (let q = n div d; r = n mod d
      in if 2 * r > d \<or> (2 * r = d \<and> odd q) then q + 1 else q)"

text \<open>The 13 significant digits and the exponent of a positive fraction.\<close>

definition decimal13 :: "nat \<Rightarrow> nat \<Rightarrow> nat \<times> int" where
  "decimal13 n d =
     (let k = int (exp_up n d) - int (exp_down n d);
          q = round_frac (n * 10 ^ nat (12 - k)) (d * 10 ^ nat (k - 12))
      in if q = 10 ^ 13 then (10 ^ 12, k + 1) else (q, k))"

definition show_exponent :: "int \<Rightarrow> string" where
  "show_exponent k =
     (if k < 0 then ''e-'' @ pad_zero 2 (show_nat (nat (- k))) else ''e+'' @ pad_zero 2 (show_nat (nat k)))"

text \<open>\<open>% .12e\<close>\<close>

fun fmt_e12 :: "dbl \<Rightarrow> string" where
  "fmt_e12 (Dbl m e) =
     (let a = nat \<bar>m\<bar>;
          n = a * 2 ^ nat e;
          d = 2 ^ nat (- e);
          (q, k) = (if a = 0 then (0, 0) else decimal13 n d);
          ds = pad_zero 13 (show_nat q)
      in (if m < 0 then CHR ''-'' else CHR '' '') # hd ds # CHR ''.'' # tl ds @ show_exponent k)"

section \<open>Cells and rows\<close>

fun fmt_cell :: "field_val \<Rightarrow> string" where
  "fmt_cell (N n) = show_nat n"
| "fmt_cell (D d) = fmt_e12 d"

fun join_commas :: "string list \<Rightarrow> string" where
  "join_commas [] = []"
| "join_commas [s] = s"
| "join_commas (s # t # ss) = s @ CHR '','' # join_commas (t # ss)"

definition csv_row :: "field_val list \<Rightarrow> string" where
  "csv_row vs = join_commas (map fmt_cell vs) @ [LF]"

section \<open>Columns\<close>

text \<open>The columns of a line: one more than its commas.\<close>

definition columns :: "string \<Rightarrow> nat" where
  "columns s = length (filter (\<lambda>c. c = CHR '','') s) + 1"

lemma show_nat_no_comma: "filter (\<lambda>c. c = CHR '','') (show_nat n) = []"
proof (induction n rule: show_nat.induct)
  case (1 n)
  have d: "digit_char k \<noteq> CHR '',''" if "k < 10" for k
  proof
    assume "digit_char k = CHR '',''"
    then have "(of_char (digit_char k) :: nat) = of_char (CHR '','')" by simp
    then show False using that by (simp add: digit_char_def)
  qed
  show ?case using 1 d by (subst show_nat.simps) (simp add: filter_empty_conv)
qed

lemma pad_zero_no_comma: "filter (\<lambda>c. c = CHR '','') (pad_zero n s) = filter (\<lambda>c. c = CHR '','') s"
  by (simp add: pad_zero_def)

lemma length_pad_zero: "n \<le> length (pad_zero n s)"
  by (simp add: pad_zero_def)

lemma fmt_e12_no_comma: "filter (\<lambda>c. c = CHR '','') (fmt_e12 x) = []"
proof (cases x)
  case (Dbl m e)
  define r where "r = (if nat \<bar>m\<bar> = 0 then (0, 0) else decimal13 (nat \<bar>m\<bar> * 2 ^ nat e) (2 ^ nat (- e)))"
  obtain q k where r: "r = (q, k)" by force
  have d: "filter (\<lambda>c. c = CHR '','') (pad_zero 13 (show_nat q)) = []"
    by (simp add: pad_zero_no_comma show_nat_no_comma)
  obtain c cs where p: "pad_zero 13 (show_nat q) = c # cs"
    using length_pad_zero [of 13 "show_nat q"] by (cases "pad_zero 13 (show_nat q)") auto
  have x: "filter (\<lambda>c. c = CHR '','') (show_exponent k) = []"
    by (simp add: show_exponent_def pad_zero_no_comma show_nat_no_comma)
  have "fmt_e12 x = (if m < 0 then CHR ''-'' else CHR '' '') # c # CHR ''.'' # cs @ show_exponent k"
    unfolding Dbl fmt_e12.simps Let_def r_def [symmetric] r by (simp add: p)
  then show ?thesis using d x p by (auto simp: split: if_splits)
qed

lemma fmt_cell_no_comma: "filter (\<lambda>c. c = CHR '','') (fmt_cell v) = []"
  by (cases v) (simp_all add: show_nat_no_comma fmt_e12_no_comma)

lemma columns_join:
  "(\<And>s. s \<in> set ss \<Longrightarrow> filter (\<lambda>c. c = CHR '','') s = []) \<Longrightarrow> ss \<noteq> [] \<Longrightarrow> columns (join_commas ss) = length ss"
  by (induction ss rule: join_commas.induct) (auto simp: columns_def)

lemma columns_csv_row: "vs \<noteq> [] \<Longrightarrow> columns (csv_row vs) = length vs"
  using columns_join [of "map fmt_cell vs"] fmt_cell_no_comma
  by (auto simp: csv_row_def columns_def LF_def)

end
