(* ===== verification/Report.thy ===== *)
theory Report
  imports Fmt DecodeBd2 DecodeBd3 DecodeCnav2 DecodeCnav3 DecodeXw DecodeGps DecodeGlo DecodeGal DecodePos
    DecodePrange GnssTypes
begin

text \<open>
  The printed reports of \<open>core/src/gnss_ephb_info.c\<close>: the description functions and, for
  each message, the text that \<open>print_*\<close> writes when the print level is \<open>FULL\<close>. One list
  element for each call of \<open>GNSS_EPHB_LOG_FULL\<close> with a format of its own.
\<close>

section \<open>Descriptions\<close>

definition gps_l2_code_desc :: "u8 \<Rightarrow> string" where
  "gps_l2_code_desc v =
     (if v = 0 then ''reserved''
      else if v = 1 then ''P''
      else if v = 2 then ''C/A''
      else if v = 3 then ''L2C''
      else ''unknown'')"

definition pos_time_system_desc :: "u8 \<Rightarrow> string" where
  "pos_time_system_desc v =
     (if v = 0 then ''invalid''
      else if v = 1 then ''BDS''
      else if v = 2 then ''GPS''
      else if v = 3 then ''GAL''
      else if v = 4 then ''GLO''
      else ''reserved'')"

definition pos_sys_status_desc :: "u8 \<Rightarrow> string" where
  "pos_sys_status_desc v =
     (if v = 0 then ''not positioned''
      else if v = 1 then ''GNSS only''
      else if v = 2 then ''combined nav''
      else if v = 3 then ''INS only''
      else ''reserved'')"

definition pos_fix_type_desc :: "u8 \<Rightarrow> string" where
  "pos_fix_type_desc v =
     (if v = 0 then ''invalid''
      else if v = 1 then ''single point''
      else if v = 2 then ''differential''
      else if v = 3 then ''PPS''
      else if v = 4 then ''fixed''
      else if v = 5 then ''float''
      else if v = 6 then ''dead reckoning''
      else if v = 7 then ''user input''
      else if v = 8 then ''PPP''
      else ''reserved'')"

definition pos_gear_desc :: "u8 \<Rightarrow> string" where
  "pos_gear_desc v =
     (if v = 1 then ''N/D''
      else if v = 2 then ''R''
      else if v = 3 then ''P''
      else ''reserved'')"

definition gps_fit_desc :: "u8 \<Rightarrow> string" where
  "gps_fit_desc fit = (if fit \<noteq> 0 then ''curve fit interval > 4 h'' else ''curve fit interval = 4 h'')"

section \<open>Parts of a report\<close>

text \<open>\<open>GNSS_EPHB_LOG_FULL\<close>\<close>

definition ephb_log_full :: "gnss_PrintType_t \<Rightarrow> string list \<Rightarrow> string" where
  "ephb_log_full level parts = (if level = GNSS_PRINT_FULL then concat parts else [])"

text \<open>The bytes of the head, with blanks between them.\<close>

fun head_bytes :: "bytes \<Rightarrow> string" where
  "head_bytes [] = []"
| "head_bytes [b] = fmt_hex 2 (unat b)"
| "head_bytes (b # c # bs) = fmt_hex 2 (unat b) @ '' '' @ head_bytes (c # bs)"

text \<open>The conversions \<open>%llx\<close> and \<open>%.12e\<close>.\<close>

definition lower_hex_char :: "char \<Rightarrow> char" where
  "lower_hex_char c = (if c_between CHR ''A'' CHR ''F'' c then char_of (ccode c + 32) else c)"

definition show_hex_lower :: "nat \<Rightarrow> string" where
  "show_hex_lower v = map lower_hex_char (show_hex v)"

definition fmt_e12_plain :: "dbl \<Rightarrow> string" where
  "fmt_e12_plain d = (if hd (fmt_e12 d) = CHR '' '' then tl (fmt_e12 d) else fmt_e12 d)"

text \<open>
  \<open>gps_week_sec_to_utc\<close>: the seconds since 1970 that it turns into a date. The product
  is computed in \<open>int\<close>; \<open>None\<close> is its overflow, which C leaves undefined. The rendering of
  the date is the C library's.
\<close>

definition gps_week_sec_to_utc :: "u16 \<Rightarrow> u32 \<Rightarrow> int option" where
  "gps_week_sec_to_utc week_v sec_v =
     (let product = uint week_v * 7 * 24 * 3600
      in if product > 2147483647 then None
         else Some (315964800 + product + uint sec_v))"

section \<open>Reports\<close>

definition print_bd2ephb :: "gnss_PrintType_t \<Rightarrow> BD2EPHB_Decoded_t \<Rightarrow> u32 \<Rightarrow> string" where
  "print_bd2ephb level eph payload_crc_calc =
     ephb_log_full level
     [''BD2EPHB decoded frame:'' @ [CHR 0x0A],
      ''  head: '',
      head_bytes (DecodeBd2.head eph),
      [CHR 0x0A],
      ''  gps_week_count  : raw='' @ show_nat (unat (DecodeBd2.gps_week_count eph)) @ [CHR 0x0A],
      ''  gps_tow_s       : raw='' @ show_nat (unat (DecodeBd2.gps_tow_s eph)) @ '' s'' @ [CHR 0x0A],
      ''  bd2_satid       : raw='' @ show_nat (unat (DecodeBd2.bd2_satid eph)) @ [CHR 0x0A],
      ''  bd2_sv_urai     : raw='' @ show_nat (unat (DecodeBd2.bd2_sv_urai eph)) @ [CHR 0x0A],
      ''  bd2_sv_health   : raw='' @ show_nat (unat (DecodeBd2.bd2_sv_health eph)) @ [CHR 0x0A],
      ''  bd2_week        : raw='' @ show_nat (unat (DecodeBd2.bd2_week eph)) @ [CHR 0x0A],
      ''  bd2_toe         : raw='' @ show_nat (unat (DecodeBd2.bd2_toe eph)) @ '' s'' @ [CHR 0x0A],
      ''  bd2_toc         : raw='' @ show_nat (unat (DecodeBd2.bd2_toc eph)) @ '' s'' @ [CHR 0x0A],
      ''  bd2_af0         : ='' @ fmt_e12 (DecodeBd2.bd2_af0 eph) @ '' s'' @ [CHR 0x0A],
      ''  bd2_af1         : ='' @ fmt_e12 (DecodeBd2.bd2_af1 eph) @ '' s/s'' @ [CHR 0x0A],
      ''  bd2_af2         : ='' @ fmt_e12 (DecodeBd2.bd2_af2 eph) @ '' s/s^2'' @ [CHR 0x0A],
      ''  bd2_aode        : raw='' @ show_nat (unat (DecodeBd2.bd2_aode eph)) @ [CHR 0x0A],
      ''  bd2_aodc        : raw='' @ show_nat (unat (DecodeBd2.bd2_aodc eph)) @ [CHR 0x0A],
      ''  bd2_idot        : ='' @ fmt_e12 (DecodeBd2.bd2_idot eph) @ '' rad/s'' @ [CHR 0x0A],
      ''  bd2_crs         : ='' @ fmt_e12 (DecodeBd2.bd2_crs eph) @ '' m'' @ [CHR 0x0A],
      ''  bd2_crc         : ='' @ fmt_e12 (DecodeBd2.bd2_crc eph) @ '' m'' @ [CHR 0x0A],
      ''  bd2_cus         : ='' @ fmt_e12 (DecodeBd2.bd2_cus eph) @ '' rad'' @ [CHR 0x0A],
      ''  bd2_cuc         : ='' @ fmt_e12 (DecodeBd2.bd2_cuc eph) @ '' rad'' @ [CHR 0x0A],
      ''  bd2_cis         : ='' @ fmt_e12 (DecodeBd2.bd2_cis eph) @ '' rad'' @ [CHR 0x0A],
      ''  bd2_cic         : ='' @ fmt_e12 (DecodeBd2.bd2_cic eph) @ '' rad'' @ [CHR 0x0A],
      ''  bd2_delta_n     : ='' @ fmt_e12 (DecodeBd2.bd2_delta_n eph) @ '' rad/s'' @ [CHR 0x0A],
      ''  bd2_m0          : ='' @ fmt_e12 (DecodeBd2.bd2_m0 eph) @ '' rad'' @ [CHR 0x0A],
      ''  bd2_ecc         : ='' @ fmt_e12 (DecodeBd2.bd2_ecc eph) @ [CHR 0x0A],
      ''  bd2_a_half      : ='' @ fmt_e12 (DecodeBd2.bd2_a_half eph) @ '' m^1/2'' @ [CHR 0x0A],
      ''  bd2_omega0      : ='' @ fmt_e12 (DecodeBd2.bd2_omega0 eph) @ '' rad'' @ [CHR 0x0A],
      ''  bd2_i0          : ='' @ fmt_e12 (DecodeBd2.bd2_i0 eph) @ '' rad'' @ [CHR 0x0A],
      ''  bd2_omega       : ='' @ fmt_e12 (DecodeBd2.bd2_omega eph) @ '' rad'' @ [CHR 0x0A],
      ''  bd2_omegadot    : ='' @ fmt_e12 (DecodeBd2.bd2_omegadot eph) @ '' rad/s'' @ [CHR 0x0A],
      ''  bd2_tgd1        : ='' @ fmt_e12 (DecodeBd2.bd2_tgd1 eph) @ '' s'' @ [CHR 0x0A],
      ''  bd2_tgd2        : ='' @ fmt_e12 (DecodeBd2.bd2_tgd2 eph) @ '' s'' @ [CHR 0x0A],
      ''  bd2_reserved    : raw='' @ show_nat (unat (DecodeBd2.bd2_reserved eph)) @ [CHR 0x0A],
      ''  payload_crc24   : raw='' @ fmt_hex 6 (unat (DecodeBd2.crc24 eph)) @ '' calc='' @ fmt_hex 6 (unat payload_crc_calc) @ '' ['' @ (if DecodeBd2.crc24 eph = payload_crc_calc then ''OK'' else ''BAD'') @ '']'' @ [CHR 0x0A]]"

definition print_bd3ephb :: "gnss_PrintType_t \<Rightarrow> BD3EPHB_Decoded_t \<Rightarrow> u32 \<Rightarrow> string" where
  "print_bd3ephb level eph payload_crc_calc =
     ephb_log_full level
     [''BD3EPHB decoded frame:'' @ [CHR 0x0A],
      ''  head: '',
      head_bytes (DecodeBd3.head eph),
      [CHR 0x0A],
      ''  gps_week_count : raw='' @ show_nat (unat (DecodeBd3.gps_week_count eph)) @ [CHR 0x0A],
      ''  gps_tow_s      : raw='' @ show_nat (unat (DecodeBd3.gps_tow_s eph)) @ '' s'' @ [CHR 0x0A],
      ''  bd3_satid      : raw='' @ show_nat (unat (DecodeBd3.bd3_satid eph)) @ [CHR 0x0A],
      ''  bd3_sattype    : raw='' @ show_nat (unat (DecodeBd3.bd3_sattype eph)) @ [CHR 0x0A],
      ''  bd3_week       : raw='' @ show_nat (unat (DecodeBd3.bd3_week eph)) @ [CHR 0x0A],
      ''  bd3_toe        : ='' @ show_nat (unat (DecodeBd3.bd3_toe eph)) @ '' s '' @ [CHR 0x0A],
      ''  bd3_toc        : ='' @ show_nat (unat (DecodeBd3.bd3_toc eph)) @ '' s '' @ [CHR 0x0A],
      ''  bd3_af0        : ='' @ fmt_e12 (DecodeBd3.bd3_af0 eph) @ '' s'' @ [CHR 0x0A],
      ''  bd3_af1        : ='' @ fmt_e12 (DecodeBd3.bd3_af1 eph) @ '' s/s'' @ [CHR 0x0A],
      ''  bd3_af2        : ='' @ fmt_e12 (DecodeBd3.bd3_af2 eph) @ '' s/s^2'' @ [CHR 0x0A],
      ''  bd3_iode       : raw='' @ show_nat (unat (DecodeBd3.bd3_iode eph)) @ [CHR 0x0A],
      ''  bd3_iodc       : raw='' @ show_nat (unat (DecodeBd3.bd3_iodc eph)) @ [CHR 0x0A],
      ''  bd3_idot       : ='' @ fmt_e12 (DecodeBd3.bd3_idot eph) @ '' rad/s'' @ [CHR 0x0A],
      ''  bd3_crs        : ='' @ fmt_e12 (DecodeBd3.bd3_crs eph) @ '' m'' @ [CHR 0x0A],
      ''  bd3_crc        : ='' @ fmt_e12 (DecodeBd3.bd3_crc eph) @ '' m'' @ [CHR 0x0A],
      ''  bd3_cus        : ='' @ fmt_e12 (DecodeBd3.bd3_cus eph) @ '' rad'' @ [CHR 0x0A],
      ''  bd3_cuc        : ='' @ fmt_e12 (DecodeBd3.bd3_cuc eph) @ '' rad'' @ [CHR 0x0A],
      ''  bd3_cis        : ='' @ fmt_e12 (DecodeBd3.bd3_cis eph) @ '' rad'' @ [CHR 0x0A],
      ''  bd3_cic        : ='' @ fmt_e12 (DecodeBd3.bd3_cic eph) @ '' rad'' @ [CHR 0x0A],
      ''  bd3_delta_n0   : ='' @ fmt_e12 (DecodeBd3.bd3_delta_n0 eph) @ '' rad/s'' @ [CHR 0x0A],
      ''  bd3_delta_n0_dot: ='' @ fmt_e12 (DecodeBd3.bd3_delta_n0_dot eph) @ '' rad/s^2'' @ [CHR 0x0A],
      ''  bd3_m0         : ='' @ fmt_e12 (DecodeBd3.bd3_m0 eph) @ '' rad'' @ [CHR 0x0A],
      ''  bd3_ecc        : ='' @ fmt_e12 (DecodeBd3.bd3_ecc eph) @ [CHR 0x0A],
      ''  bd3_deltaA     : ='' @ fmt_e12 (DecodeBd3.bd3_deltaA eph) @ '' m'' @ [CHR 0x0A],
      ''  bd3_adot       : ='' @ fmt_e12 (DecodeBd3.bd3_adot eph) @ '' m/s'' @ [CHR 0x0A],
      ''  bd3_omega0     : ='' @ fmt_e12 (DecodeBd3.bd3_omega0 eph) @ '' rad'' @ [CHR 0x0A],
      ''  bd3_i0         : ='' @ fmt_e12 (DecodeBd3.bd3_i0 eph) @ '' rad'' @ [CHR 0x0A],
      ''  bd3_omega      : ='' @ fmt_e12 (DecodeBd3.bd3_omega eph) @ '' rad'' @ [CHR 0x0A],
      ''  bd3_omegadot   : ='' @ fmt_e12 (DecodeBd3.bd3_omegadot eph) @ '' rad/s'' @ [CHR 0x0A],
      ''  bd3_tgdb1cp    : ='' @ fmt_e12 (DecodeBd3.bd3_tgdb1cp eph) @ '' s'' @ [CHR 0x0A],
      ''  bd3_tgdb2ap    : ='' @ fmt_e12 (DecodeBd3.bd3_tgdb2ap eph) @ '' s'' @ [CHR 0x0A],
      ''  bd3_iscb1cd    : ='' @ fmt_e12 (DecodeBd3.bd3_iscb1cd eph) @ '' s'' @ [CHR 0x0A],
      ''  bd3_reserved   : raw='' @ show_nat (unat (DecodeBd3.bd3_reserved eph)) @ [CHR 0x0A],
      ''  payload_crc24  : raw='' @ fmt_hex 6 (unat (DecodeBd3.crc24 eph)) @ '' calc='' @ fmt_hex 6 (unat payload_crc_calc) @ '' ['' @ (if DecodeBd3.crc24 eph = payload_crc_calc then ''OK'' else ''BAD'') @ '']'' @ [CHR 0x0A]]"

definition print_bdxwephb :: "gnss_PrintType_t \<Rightarrow> BDXWEPHB_Decoded_t \<Rightarrow> u32 \<Rightarrow> string" where
  "print_bdxwephb level eph payload_crc_calc =
     ephb_log_full level
     [''BDXWEPHB decoded frame:'' @ [CHR 0x0A],
      ''  gps_week_count  : '' @ show_nat (unat (DecodeXw.gps_week_count eph)) @ [CHR 0x0A],
      ''  gps_tow_s       : '' @ show_nat (unat (DecodeXw.gps_tow_s eph)) @ [CHR 0x0A],
      ''  xws_satid       : '' @ show_nat (unat (DecodeXw.xws_satid eph)) @ [CHR 0x0A],
      ''  xws_sattype     : '' @ show_nat (unat (DecodeXw.xws_sattype eph)) @ [CHR 0x0A],
      ''  xws_week        : '' @ show_nat (unat (DecodeXw.xws_week eph)) @ [CHR 0x0A],
      ''  xws_toe         : '' @ show_nat (unat (DecodeXw.xws_toe eph)) @ '' s'' @ [CHR 0x0A],
      ''  xws_toc         : '' @ show_nat (unat (DecodeXw.xws_toc eph)) @ '' s'' @ [CHR 0x0A],
      ''  xws_af0         : '' @ fmt_e12_plain (DecodeXw.xws_af0 eph) @ '' s'' @ [CHR 0x0A],
      ''  xws_af1         : '' @ fmt_e12_plain (DecodeXw.xws_af1 eph) @ '' s/s'' @ [CHR 0x0A],
      ''  xws_iodc        : '' @ show_nat (unat (DecodeXw.xws_iodc eph)) @ [CHR 0x0A],
      ''  xws_iode        : '' @ show_nat (unat (DecodeXw.xws_iode eph)) @ [CHR 0x0A],
      ''  xws_crs         : '' @ fmt_e12_plain (DecodeXw.xws_crs eph) @ '' m'' @ [CHR 0x0A],
      ''  xws_crc         : '' @ fmt_e12_plain (DecodeXw.xws_crc eph) @ '' m'' @ [CHR 0x0A],
      ''  xws_cus         : '' @ fmt_e12_plain (DecodeXw.xws_cus eph) @ '' rad'' @ [CHR 0x0A],
      ''  xws_cuc         : '' @ fmt_e12_plain (DecodeXw.xws_cuc eph) @ '' rad'' @ [CHR 0x0A],
      ''  xws_cis         : '' @ fmt_e12_plain (DecodeXw.xws_cis eph) @ '' rad'' @ [CHR 0x0A],
      ''  xws_cic         : '' @ fmt_e12_plain (DecodeXw.xws_cic eph) @ '' rad'' @ [CHR 0x0A],
      ''  xws_delta_n0    : '' @ fmt_e12_plain (DecodeXw.xws_delta_n0 eph) @ '' rad/s'' @ [CHR 0x0A],
      ''  xws_delta_n0_dot: '' @ fmt_e12_plain (DecodeXw.xws_delta_n0_dot eph) @ '' rad/s^2'' @ [CHR 0x0A],
      ''  xws_m0          : '' @ fmt_e12_plain (DecodeXw.xws_m0 eph) @ '' rad'' @ [CHR 0x0A],
      ''  xws_ecc         : '' @ fmt_e12_plain (DecodeXw.xws_ecc eph) @ [CHR 0x0A],
      ''  xws_deltaA0     : '' @ fmt_e12_plain (DecodeXw.xws_deltaA0 eph) @ '' m'' @ [CHR 0x0A],
      ''  xws_i0_dot      : '' @ fmt_e12_plain (DecodeXw.xws_i0_dot eph) @ '' rad/s'' @ [CHR 0x0A],
      ''  xws_a_dot       : '' @ fmt_e12_plain (DecodeXw.xws_a_dot eph) @ '' m/s'' @ [CHR 0x0A],
      ''  xws_delta_i0    : '' @ fmt_e12_plain (DecodeXw.xws_delta_i0 eph) @ '' rad'' @ [CHR 0x0A],
      ''  xws_omega0      : '' @ fmt_e12_plain (DecodeXw.xws_omega0 eph) @ '' rad'' @ [CHR 0x0A],
      ''  xws_omega_dot   : '' @ fmt_e12_plain (DecodeXw.xws_omega_dot eph) @ '' rad/s'' @ [CHR 0x0A],
      ''  xws_omega       : '' @ fmt_e12_plain (DecodeXw.xws_omega eph) @ '' rad'' @ [CHR 0x0A],
      ''  reserved        : 0x'' @ show_hex_lower (unat (DecodeXw.xws_reserved eph)) @ [CHR 0x0A],
      ''  crc24           : 0x'' @ pad_zero 6 (show_hex_lower (unat (DecodeXw.crc24 eph))) @ '' (calc:0x'' @ pad_zero 6 (show_hex_lower (unat payload_crc_calc)) @ '')'' @ (if DecodeXw.crc24 eph = payload_crc_calc then '' OK'' else '' ERR'') @ [CHR 0x0A]]"

definition print_bd3cnav2ephb :: "gnss_PrintType_t \<Rightarrow> BD3CNAV2EPHB_Decoded_t \<Rightarrow> u32 \<Rightarrow> string" where
  "print_bd3cnav2ephb level eph payload_crc_calc =
     ephb_log_full level
     [''BD3CNAV2EPHB decoded frame:'' @ [CHR 0x0A],
      ''  head: '',
      head_bytes (DecodeCnav2.head eph),
      [CHR 0x0A],
      ''  gps_week_count : raw='' @ show_nat (unat (DecodeCnav2.gps_week_count eph)) @ [CHR 0x0A],
      ''  gps_tow_s      : raw='' @ show_nat (unat (DecodeCnav2.gps_tow_s eph)) @ '' s'' @ [CHR 0x0A],
      ''  bds_satid      : raw='' @ show_nat (unat (DecodeCnav2.bds_satid eph)) @ [CHR 0x0A],
      ''  bds_sattype    : raw='' @ show_nat (unat (DecodeCnav2.bds_sattype eph)) @ [CHR 0x0A],
      ''  bds_week       : raw='' @ show_nat (unat (DecodeCnav2.bds_week eph)) @ [CHR 0x0A],
      ''  bds_toe        : raw='' @ show_nat (unat (DecodeCnav2.bds_toe eph)) @ '' s '' @ [CHR 0x0A],
      ''  bds_toc        : raw='' @ show_nat (unat (DecodeCnav2.bds_toc eph)) @ '' s '' @ [CHR 0x0A],
      ''  bds_af0        : ='' @ fmt_e12 (DecodeCnav2.bds_af0 eph) @ '' s'' @ [CHR 0x0A],
      ''  bds_af1        : ='' @ fmt_e12 (DecodeCnav2.bds_af1 eph) @ '' s/s'' @ [CHR 0x0A],
      ''  bds_af2        : ='' @ fmt_e12 (DecodeCnav2.bds_af2 eph) @ '' s/s^2'' @ [CHR 0x0A],
      ''  bds_iode       : raw='' @ show_nat (unat (DecodeCnav2.bds_iode eph)) @ [CHR 0x0A],
      ''  bds_iodc       : raw='' @ show_nat (unat (DecodeCnav2.bds_iodc eph)) @ [CHR 0x0A],
      ''  bds_idot       : ='' @ fmt_e12 (DecodeCnav2.bds_idot eph) @ '' rad/s'' @ [CHR 0x0A],
      ''  bds_crs        : ='' @ fmt_e12 (DecodeCnav2.bds_crs eph) @ '' m'' @ [CHR 0x0A],
      ''  bds_crc        : ='' @ fmt_e12 (DecodeCnav2.bds_crc eph) @ '' m'' @ [CHR 0x0A],
      ''  bds_cus        : ='' @ fmt_e12 (DecodeCnav2.bds_cus eph) @ '' rad'' @ [CHR 0x0A],
      ''  bds_cuc        : ='' @ fmt_e12 (DecodeCnav2.bds_cuc eph) @ '' rad'' @ [CHR 0x0A],
      ''  bds_cis        : ='' @ fmt_e12 (DecodeCnav2.bds_cis eph) @ '' rad'' @ [CHR 0x0A],
      ''  bds_cic        : ='' @ fmt_e12 (DecodeCnav2.bds_cic eph) @ '' rad'' @ [CHR 0x0A],
      ''  bds_delta_n0   : ='' @ fmt_e12 (DecodeCnav2.bds_delta_n0 eph) @ '' rad/s'' @ [CHR 0x0A],
      ''  bds_delta_n0_dot: ='' @ fmt_e12 (DecodeCnav2.bds_delta_n0_dot eph) @ [CHR 0x0A],
      ''  bds_m0         : ='' @ fmt_e12 (DecodeCnav2.bds_m0 eph) @ '' rad'' @ [CHR 0x0A],
      ''  bds_ecc        : ='' @ fmt_e12 (DecodeCnav2.bds_ecc eph) @ [CHR 0x0A],
      ''  bds_AA         : ='' @ fmt_e12 (DecodeCnav2.bds_AA eph) @ '' m'' @ [CHR 0x0A],
      ''  bds_adot       : ='' @ fmt_e12 (DecodeCnav2.bds_adot eph) @ '' m/s'' @ [CHR 0x0A],
      ''  bds_omega0     : ='' @ fmt_e12 (DecodeCnav2.bds_omega0 eph) @ '' rad'' @ [CHR 0x0A],
      ''  bds_i0         : ='' @ fmt_e12 (DecodeCnav2.bds_i0 eph) @ '' rad'' @ [CHR 0x0A],
      ''  bds_omega      : ='' @ fmt_e12 (DecodeCnav2.bds_omega eph) @ '' rad'' @ [CHR 0x0A],
      ''  bds_omegadot   : ='' @ fmt_e12 (DecodeCnav2.bds_omegadot eph) @ '' rad/s'' @ [CHR 0x0A],
      ''  bds_tgdb1cp    : ='' @ fmt_e12 (DecodeCnav2.bds_tgdb1cp eph) @ '' s'' @ [CHR 0x0A],
      ''  bds_tgdb2ap    : ='' @ fmt_e12 (DecodeCnav2.bds_tgdb2ap eph) @ '' s'' @ [CHR 0x0A],
      ''  bds_iscb2ad    : ='' @ fmt_e12 (DecodeCnav2.bds_iscb2ad eph) @ '' s'' @ [CHR 0x0A],
      ''  bds_reserved   : raw='' @ show_nat (unat (DecodeCnav2.bds_reserved eph)) @ [CHR 0x0A],
      ''  payload_crc24  : raw='' @ fmt_hex 6 (unat (DecodeCnav2.crc24 eph)) @ '' calc='' @ fmt_hex 6 (unat payload_crc_calc) @ '' ['' @ (if DecodeCnav2.crc24 eph = payload_crc_calc then ''OK'' else ''BAD'') @ '']'' @ [CHR 0x0A]]"

definition print_bd3cnav3ephb :: "gnss_PrintType_t \<Rightarrow> BD3CNAV3EPHB_Decoded_t \<Rightarrow> u32 \<Rightarrow> string" where
  "print_bd3cnav3ephb level eph payload_crc_calc =
     ephb_log_full level
     [''BD3CNAV3EPHB decoded frame:'' @ [CHR 0x0A],
      ''  head: '',
      head_bytes (DecodeCnav3.head eph),
      [CHR 0x0A],
      ''  gps_week_count : raw='' @ show_nat (unat (DecodeCnav3.gps_week_count eph)) @ [CHR 0x0A],
      ''  gps_tow_s      : raw='' @ show_nat (unat (DecodeCnav3.gps_tow_s eph)) @ '' s'' @ [CHR 0x0A],
      ''  bds_satid      : raw='' @ show_nat (unat (DecodeCnav3.bds_satid eph)) @ [CHR 0x0A],
      ''  bds_sattype    : raw='' @ show_nat (unat (DecodeCnav3.bds_sattype eph)) @ [CHR 0x0A],
      ''  bds_week       : raw='' @ show_nat (unat (DecodeCnav3.bds_week eph)) @ [CHR 0x0A],
      ''  bds_toe        : raw='' @ show_nat (unat (DecodeCnav3.bds_toe eph)) @ '' s '' @ [CHR 0x0A],
      ''  bds_toc        : raw='' @ show_nat (unat (DecodeCnav3.bds_toc eph)) @ '' s '' @ [CHR 0x0A],
      ''  bds_af0        : ='' @ fmt_e12 (DecodeCnav3.bds_af0 eph) @ '' s'' @ [CHR 0x0A],
      ''  bds_af1        : ='' @ fmt_e12 (DecodeCnav3.bds_af1 eph) @ '' s/s'' @ [CHR 0x0A],
      ''  bds_af2        : ='' @ fmt_e12 (DecodeCnav3.bds_af2 eph) @ '' s/s^2'' @ [CHR 0x0A],
      ''  bds_iode       : raw='' @ show_nat (unat (DecodeCnav3.bds_iode eph)) @ [CHR 0x0A],
      ''  bds_iodc       : raw='' @ show_nat (unat (DecodeCnav3.bds_iodc eph)) @ [CHR 0x0A],
      ''  bds_idot       : ='' @ fmt_e12 (DecodeCnav3.bds_idot eph) @ '' rad/s'' @ [CHR 0x0A],
      ''  bds_crs        : ='' @ fmt_e12 (DecodeCnav3.bds_crs eph) @ '' m'' @ [CHR 0x0A],
      ''  bds_crc        : ='' @ fmt_e12 (DecodeCnav3.bds_crc eph) @ '' m'' @ [CHR 0x0A],
      ''  bds_cus        : ='' @ fmt_e12 (DecodeCnav3.bds_cus eph) @ '' rad'' @ [CHR 0x0A],
      ''  bds_cuc        : ='' @ fmt_e12 (DecodeCnav3.bds_cuc eph) @ '' rad'' @ [CHR 0x0A],
      ''  bds_cis        : ='' @ fmt_e12 (DecodeCnav3.bds_cis eph) @ '' rad'' @ [CHR 0x0A],
      ''  bds_cic        : ='' @ fmt_e12 (DecodeCnav3.bds_cic eph) @ '' rad'' @ [CHR 0x0A],
      ''  bds_delta_n0   : ='' @ fmt_e12 (DecodeCnav3.bds_delta_n0 eph) @ '' rad/s'' @ [CHR 0x0A],
      ''  bds_delta_n0_dot: ='' @ fmt_e12 (DecodeCnav3.bds_delta_n0_dot eph) @ [CHR 0x0A],
      ''  bds_m0         : ='' @ fmt_e12 (DecodeCnav3.bds_m0 eph) @ '' rad'' @ [CHR 0x0A],
      ''  bds_ecc        : ='' @ fmt_e12 (DecodeCnav3.bds_ecc eph) @ [CHR 0x0A],
      ''  bds_deltaA     : ='' @ fmt_e12 (DecodeCnav3.bds_deltaA eph) @ '' m'' @ [CHR 0x0A],
      ''  bds_adot       : ='' @ fmt_e12 (DecodeCnav3.bds_adot eph) @ '' m/s'' @ [CHR 0x0A],
      ''  bds_omega0     : ='' @ fmt_e12 (DecodeCnav3.bds_omega0 eph) @ '' rad'' @ [CHR 0x0A],
      ''  bds_i0         : ='' @ fmt_e12 (DecodeCnav3.bds_i0 eph) @ '' rad'' @ [CHR 0x0A],
      ''  bds_omega      : ='' @ fmt_e12 (DecodeCnav3.bds_omega eph) @ '' rad'' @ [CHR 0x0A],
      ''  bds_omegadot   : ='' @ fmt_e12 (DecodeCnav3.bds_omegadot eph) @ '' rad/s'' @ [CHR 0x0A],
      ''  bds_tgdb2bI    : ='' @ fmt_e12 (DecodeCnav3.bds_tgdb2bI eph) @ '' s'' @ [CHR 0x0A],
      ''  bds_reserved   : raw='' @ show_nat (unat (DecodeCnav3.bds_reserved eph)) @ [CHR 0x0A],
      ''  payload_crc24  : raw='' @ fmt_hex 6 (unat (DecodeCnav3.crc24 eph)) @ '' calc='' @ fmt_hex 6 (unat payload_crc_calc) @ '' ['' @ (if DecodeCnav3.crc24 eph = payload_crc_calc then ''OK'' else ''BAD'') @ '']'' @ [CHR 0x0A]]"

definition print_gpsephb :: "gnss_PrintType_t \<Rightarrow> GPSEPHB_Decoded_t \<Rightarrow> u32 \<Rightarrow> string" where
  "print_gpsephb level eph payload_crc_calc =
     ephb_log_full level
     [''GPSEPHB decoded frame:'' @ [CHR 0x0A],
      ''  head: '',
      head_bytes (DecodeGps.head eph),
      [CHR 0x0A],
      ''  gps_week_count   : raw='' @ show_nat (unat (DecodeGps.gps_week_count eph)) @ [CHR 0x0A],
      ''  gps_tow_s        : raw='' @ show_nat (unat (DecodeGps.gps_tow_s eph)) @ '' s'' @ [CHR 0x0A],
      ''  gps_satid        : raw='' @ show_nat (unat (DecodeGps.gps_satid eph)) @ [CHR 0x0A],
      ''  gps_sv_accuracy   : raw='' @ show_nat (unat (DecodeGps.gps_sv_accuracy eph)) @ '' m'' @ [CHR 0x0A],
      ''  gps_sv_health    : raw='' @ show_nat (unat (DecodeGps.gps_sv_health eph)) @ [CHR 0x0A],
      ''  gps_week         : raw='' @ show_nat (unat (DecodeGps.gps_week eph)) @ [CHR 0x0A],
      ''  gps_toe          : raw='' @ show_nat (unat (DecodeGps.gps_toe eph)) @ '' s'' @ [CHR 0x0A],
      ''  gps_toc          : raw='' @ show_nat (unat (DecodeGps.gps_toc eph)) @ '' s'' @ [CHR 0x0A],
      ''  gps_af0          : ='' @ fmt_e12 (DecodeGps.gps_af0 eph) @ '' s'' @ [CHR 0x0A],
      ''  gps_af1          : ='' @ fmt_e12 (DecodeGps.gps_af1 eph) @ '' s/s'' @ [CHR 0x0A],
      ''  gps_af2          : ='' @ fmt_e12 (DecodeGps.gps_af2 eph) @ '' s/s^2'' @ [CHR 0x0A],
      ''  gps_iode         : raw='' @ show_nat (unat (DecodeGps.gps_iode eph)) @ [CHR 0x0A],
      ''  gps_iodc         : raw='' @ show_nat (unat (DecodeGps.gps_iodc eph)) @ [CHR 0x0A],
      ''  gps_idot         : ='' @ fmt_e12 (DecodeGps.gps_idot eph) @ '' rad/s'' @ [CHR 0x0A],
      ''  gps_crs          : ='' @ fmt_e12 (DecodeGps.gps_crs eph) @ '' m'' @ [CHR 0x0A],
      ''  gps_crc          : ='' @ fmt_e12 (DecodeGps.gps_crc eph) @ '' m'' @ [CHR 0x0A],
      ''  gps_cus          : ='' @ fmt_e12 (DecodeGps.gps_cus eph) @ '' rad'' @ [CHR 0x0A],
      ''  gps_cuc          : ='' @ fmt_e12 (DecodeGps.gps_cuc eph) @ '' rad'' @ [CHR 0x0A],
      ''  gps_cis          : ='' @ fmt_e12 (DecodeGps.gps_cis eph) @ '' rad'' @ [CHR 0x0A],
      ''  gps_cic          : ='' @ fmt_e12 (DecodeGps.gps_cic eph) @ '' rad'' @ [CHR 0x0A],
      ''  gps_delta_n      : ='' @ fmt_e12 (DecodeGps.gps_delta_n eph) @ '' rad/s'' @ [CHR 0x0A],
      ''  gps_m0           : ='' @ fmt_e12 (DecodeGps.gps_m0 eph) @ '' rad'' @ [CHR 0x0A],
      ''  gps_ecc          : ='' @ fmt_e12 (DecodeGps.gps_ecc eph) @ [CHR 0x0A],
      ''  gps_a_half       : ='' @ fmt_e12 (DecodeGps.gps_a_half eph) @ '' m^1/2'' @ [CHR 0x0A],
      ''  gps_omega0       : ='' @ fmt_e12 (DecodeGps.gps_omega0 eph) @ '' rad'' @ [CHR 0x0A],
      ''  gps_i0           : ='' @ fmt_e12 (DecodeGps.gps_i0 eph) @ '' rad'' @ [CHR 0x0A],
      ''  gps_omega        : ='' @ fmt_e12 (DecodeGps.gps_omega eph) @ '' rad'' @ [CHR 0x0A],
      ''  gps_omegadot     : ='' @ fmt_e12 (DecodeGps.gps_omegadot eph) @ '' rad/s'' @ [CHR 0x0A],
      ''  gps_tgd          : ='' @ fmt_e12 (DecodeGps.gps_tgd eph) @ '' s'' @ [CHR 0x0A],
      ''  gps_code_on_l2   : raw='' @ show_nat (unat (DecodeGps.gps_code_on_l2 eph)) @ '' ('' @ gps_l2_code_desc (DecodeGps.gps_code_on_l2 eph) @ '')'' @ [CHR 0x0A],
      ''  gps_l2p_data_flag: raw='' @ show_nat (unat (DecodeGps.gps_l2p_data_flag eph)) @ [CHR 0x0A],
      ''  gps_fit          : raw='' @ show_nat (unat (DecodeGps.gps_fit eph)) @ '' ('' @ gps_fit_desc (DecodeGps.gps_fit eph) @ '')'' @ [CHR 0x0A],
      ''  reserved         : raw='' @ show_nat (unat (DecodeGps.reserved eph)) @ [CHR 0x0A],
      ''  payload_crc24    : raw='' @ fmt_hex 6 (unat (DecodeGps.crc24 eph)) @ '' calc='' @ fmt_hex 6 (unat payload_crc_calc) @ '' ['' @ (if DecodeGps.crc24 eph = payload_crc_calc then ''OK'' else ''BAD'') @ '']'' @ [CHR 0x0A]]"

definition print_gloephb :: "gnss_PrintType_t \<Rightarrow> GLOEPHB_Decoded_t \<Rightarrow> u32 \<Rightarrow> string" where
  "print_gloephb level eph payload_crc_calc =
     (let tk = DecodeGlo.glo_tk eph;
           tk_hour = unat (drop_bit 7 tk AND 0x1F);
           tk_min = unat (drop_bit 1 tk AND 0x3F);
           tk_sec = (if tk AND 0x1 \<noteq> 0 then 30 else 0)
       in ephb_log_full level
     [''GLOEPHB decoded frame:'' @ [CHR 0x0A],
      ''  head: '',
      head_bytes (DecodeGlo.head eph),
      [CHR 0x0A],
      ''  gps_week_count : raw='' @ show_nat (unat (DecodeGlo.gps_week_count eph)) @ [CHR 0x0A],
      ''  gps_tow_s      : raw='' @ show_nat (unat (DecodeGlo.gps_tow_s eph)) @ '' s'' @ [CHR 0x0A],
      ''  glo_satid      : raw='' @ show_nat (unat (DecodeGlo.glo_satid eph)) @ [CHR 0x0A],
      ''  glo_freq       : raw='' @ show_nat (unat (DecodeGlo.glo_freq eph)) @ [CHR 0x0A],
      ''  glo_bn_msb     : raw='' @ show_nat (unat (DecodeGlo.glo_bn_msb eph)) @ [CHR 0x0A],
      ''  glo_n4         : raw='' @ show_nat (unat (DecodeGlo.glo_n4 eph)) @ '' (4-year cycles since 1996)'' @ [CHR 0x0A],
      ''  glo_nt         : raw='' @ show_nat (unat (DecodeGlo.glo_nt eph)) @ '' (days since leap-year start)'' @ [CHR 0x0A],
      ''  glo_tk         : raw='' @ show_nat (unat (DecodeGlo.glo_tk eph)) @ '' => '' @ pad_zero 2 (show_nat (tk_hour)) @ '':'' @ pad_zero 2 (show_nat (tk_min)) @ '':'' @ pad_zero 2 (show_nat (tk_sec)) @ [CHR 0x0A],
      ''  glo_tb         : raw='' @ show_nat (unat (DecodeGlo.glo_tb eph)) @ '' => '' @ show_nat (unat (DecodeGlo.glo_tb eph) * 15) @ '' min (tb*15min)'' @ [CHR 0x0A],
      ''  glo_gamma      : ='' @ fmt_e12 (DecodeGlo.glo_gamma eph) @ [CHR 0x0A],
      ''  glo_tau        : ='' @ fmt_e12 (DecodeGlo.glo_tau eph) @ '' s'' @ [CHR 0x0A],
      ''  glo_x          : ='' @ fmt_e12 (DecodeGlo.glo_x eph) @ '' km'' @ [CHR 0x0A],
      ''  glo_x_dot      : ='' @ fmt_e12 (DecodeGlo.glo_x_dot eph) @ '' km/s'' @ [CHR 0x0A],
      ''  glo_x_ddot     : ='' @ fmt_e12 (DecodeGlo.glo_x_ddot eph) @ '' km/s^2'' @ [CHR 0x0A],
      ''  glo_y          : ='' @ fmt_e12 (DecodeGlo.glo_y eph) @ '' km'' @ [CHR 0x0A],
      ''  glo_y_dot      : ='' @ fmt_e12 (DecodeGlo.glo_y_dot eph) @ '' km/s'' @ [CHR 0x0A],
      ''  glo_y_ddot     : ='' @ fmt_e12 (DecodeGlo.glo_y_ddot eph) @ '' km/s^2'' @ [CHR 0x0A],
      ''  glo_z          : ='' @ fmt_e12 (DecodeGlo.glo_z eph) @ '' km'' @ [CHR 0x0A],
      ''  glo_z_dot      : ='' @ fmt_e12 (DecodeGlo.glo_z_dot eph) @ '' km/s'' @ [CHR 0x0A],
      ''  glo_z_ddot     : ='' @ fmt_e12 (DecodeGlo.glo_z_ddot eph) @ '' km/s^2'' @ [CHR 0x0A],
      ''  payload_crc24  : raw='' @ fmt_hex 6 (unat (DecodeGlo.crc24 eph)) @ '' calc='' @ fmt_hex 6 (unat payload_crc_calc) @ '' ['' @ (if DecodeGlo.crc24 eph = payload_crc_calc then ''OK'' else ''BAD'') @ '']'' @ [CHR 0x0A]])"

definition print_galephb :: "gnss_PrintType_t \<Rightarrow> GALEPHB_Decoded_t \<Rightarrow> u32 \<Rightarrow> string" where
  "print_galephb level eph payload_crc_calc =
     ephb_log_full level
     [''GALEPHB decoded frame:'' @ [CHR 0x0A],
      ''  head: '',
      head_bytes (DecodeGal.head eph),
      [CHR 0x0A],
      ''  gps_week_count : raw='' @ show_nat (unat (DecodeGal.gps_week_count eph)) @ [CHR 0x0A],
      ''  gps_tow_s      : raw='' @ show_nat (unat (DecodeGal.gps_tow_s eph)) @ '' s'' @ [CHR 0x0A],
      ''  gal_satid      : raw='' @ show_nat (unat (DecodeGal.gal_satid eph)) @ [CHR 0x0A],
      ''  gal_sisa       : raw='' @ show_nat (unat (DecodeGal.gal_sisa eph)) @ [CHR 0x0A],
      ''  gal_e5b_sv_health: raw='' @ show_nat (unat (DecodeGal.gal_e5b_sv_health eph)) @ [CHR 0x0A],
      ''  gal_e5b_valid  : raw='' @ show_nat (unat (DecodeGal.gal_e5b_valid eph)) @ [CHR 0x0A],
      ''  gal_e1b_health : raw='' @ show_nat (unat (DecodeGal.gal_e1b_health eph)) @ [CHR 0x0A],
      ''  gal_e1b_valid  : raw='' @ show_nat (unat (DecodeGal.gal_e1b_valid eph)) @ [CHR 0x0A],
      ''  gal_week       : raw='' @ show_nat (unat (DecodeGal.gal_week eph)) @ [CHR 0x0A],
      ''  gal_toe        : raw='' @ show_nat (unat (DecodeGal.gal_toe eph)) @ '' s '' @ [CHR 0x0A],
      ''  gal_toc        : raw='' @ show_nat (unat (DecodeGal.gal_toc eph)) @ '' s '' @ [CHR 0x0A],
      ''  gal_af0        : ='' @ fmt_e12 (DecodeGal.gal_af0 eph) @ '' s'' @ [CHR 0x0A],
      ''  gal_af1        : ='' @ fmt_e12 (DecodeGal.gal_af1 eph) @ '' s/s'' @ [CHR 0x0A],
      ''  gal_af2        : ='' @ fmt_e12 (DecodeGal.gal_af2 eph) @ '' s/s^2'' @ [CHR 0x0A],
      ''  gal_iodnav     : raw='' @ show_nat (unat (DecodeGal.gal_iodnav eph)) @ [CHR 0x0A],
      ''  gal_idot       : ='' @ fmt_e12 (DecodeGal.gal_idot eph) @ '' '' @ [CHR 0xCF, CHR 0x80] @ ''/s'' @ [CHR 0x0A],
      ''  gal_crs        : ='' @ fmt_e12 (DecodeGal.gal_crs eph) @ '' m'' @ [CHR 0x0A],
      ''  gal_crc        : ='' @ fmt_e12 (DecodeGal.gal_crc eph) @ '' m'' @ [CHR 0x0A],
      ''  gal_cus        : ='' @ fmt_e12 (DecodeGal.gal_cus eph) @ '' rad'' @ [CHR 0x0A],
      ''  gal_cuc        : ='' @ fmt_e12 (DecodeGal.gal_cuc eph) @ '' rad'' @ [CHR 0x0A],
      ''  gal_cis        : ='' @ fmt_e12 (DecodeGal.gal_cis eph) @ '' rad'' @ [CHR 0x0A],
      ''  gal_cic        : ='' @ fmt_e12 (DecodeGal.gal_cic eph) @ '' rad'' @ [CHR 0x0A],
      ''  gal_delta_n    : ='' @ fmt_e12 (DecodeGal.gal_delta_n eph) @ '' '' @ [CHR 0xCF, CHR 0x80] @ ''/s'' @ [CHR 0x0A],
      ''  gal_m0         : ='' @ fmt_e12 (DecodeGal.gal_m0 eph) @ '' '' @ [CHR 0xCF, CHR 0x80, CHR 0x0A],
      ''  gal_ecc        : ='' @ fmt_e12 (DecodeGal.gal_ecc eph) @ [CHR 0x0A],
      ''  gal_a_half     : ='' @ fmt_e12 (DecodeGal.gal_a_half eph) @ '' m^1/2'' @ [CHR 0x0A],
      ''  gal_omega0     : ='' @ fmt_e12 (DecodeGal.gal_omega0 eph) @ '' '' @ [CHR 0xCF, CHR 0x80, CHR 0x0A],
      ''  gal_i0         : ='' @ fmt_e12 (DecodeGal.gal_i0 eph) @ '' '' @ [CHR 0xCF, CHR 0x80, CHR 0x0A],
      ''  gal_omega      : ='' @ fmt_e12 (DecodeGal.gal_omega eph) @ '' '' @ [CHR 0xCF, CHR 0x80, CHR 0x0A],
      ''  gal_omegadot   : ='' @ fmt_e12 (DecodeGal.gal_omegadot eph) @ '' '' @ [CHR 0xCF, CHR 0x80] @ ''/s'' @ [CHR 0x0A],
      ''  gal_bgd_e5a_e1 : ='' @ fmt_e12 (DecodeGal.gal_bgd_e5a_e1 eph) @ '' s'' @ [CHR 0x0A],
      ''  gal_bgd_e5b_e1 : ='' @ fmt_e12 (DecodeGal.gal_bgd_e5b_e1 eph) @ '' s'' @ [CHR 0x0A],
      ''  gal_navtype    : raw='' @ show_nat (unat (DecodeGal.gal_navtype eph)) @ [CHR 0x0A],
      ''  gal_reserved   : raw='' @ show_nat (unat (DecodeGal.gal_reserved eph)) @ [CHR 0x0A],
      ''  payload_crc24  : raw='' @ fmt_hex 6 (unat (DecodeGal.crc24 eph)) @ '' calc='' @ fmt_hex 6 (unat payload_crc_calc) @ '' ['' @ (if DecodeGal.crc24 eph = payload_crc_calc then ''OK'' else ''BAD'') @ '']'' @ [CHR 0x0A]]"

definition print_posdatab :: "gnss_PrintType_t \<Rightarrow> POSDATAB_Decoded_t \<Rightarrow> u32 \<Rightarrow> string" where
  "print_posdatab level eph payload_crc_calc =
     ephb_log_full level
     [''POSDATAB decoded frame:'' @ [CHR 0x0A],
      ''  head: '',
      head_bytes (DecodePos.head eph),
      [CHR 0x0A],
      ''  time_system     : raw='' @ show_nat (unat (DecodePos.time_system eph)) @ '' ('' @ pos_time_system_desc (DecodePos.time_system eph) @ '')'' @ [CHR 0x0A],
      ''  week_num        : raw='' @ show_nat (unat (DecodePos.week_num eph)) @ [CHR 0x0A],
      ''  sec_in_week     : ='' @ fmt_e12 (DecodePos.sec_in_week eph) @ '' s'' @ [CHR 0x0A],
      ''  leap_second     : raw='' @ show_int (sint (DecodePos.leap_second eph)) @ '' s'' @ [CHR 0x0A],
      ''  sys_status      : raw='' @ show_nat (unat (DecodePos.sys_status eph)) @ '' ('' @ pos_sys_status_desc (DecodePos.sys_status eph) @ '')'' @ [CHR 0x0A],
      ''  pos_type        : raw='' @ show_nat (unat (DecodePos.pos_type eph)) @ '' ('' @ pos_fix_type_desc (DecodePos.pos_type eph) @ '')'' @ [CHR 0x0A],
      ''  azi_type        : raw='' @ show_nat (unat (DecodePos.azi_type eph)) @ '' ('' @ pos_fix_type_desc (DecodePos.azi_type eph) @ '')'' @ [CHR 0x0A],
      ''  latitude        : ='' @ fmt_e12 (DecodePos.latitude eph) @ '' deg'' @ [CHR 0x0A],
      ''  longitude       : ='' @ fmt_e12 (DecodePos.longitude eph) @ '' deg'' @ [CHR 0x0A],
      ''  altitude        : ='' @ fmt_e12 (DecodePos.altitude eph) @ '' m'' @ [CHR 0x0A],
      ''  east_velocity   : ='' @ fmt_e12 (DecodePos.east_velocity eph) @ '' m/s'' @ [CHR 0x0A],
      ''  north_velocity  : ='' @ fmt_e12 (DecodePos.north_velocity eph) @ '' m/s'' @ [CHR 0x0A],
      ''  up_velocity     : ='' @ fmt_e12 (DecodePos.up_velocity eph) @ '' m/s'' @ [CHR 0x0A],
      ''  pitch           : ='' @ fmt_e12 (DecodePos.pitch eph) @ '' deg'' @ [CHR 0x0A],
      ''  roll            : ='' @ fmt_e12 (DecodePos.roll eph) @ '' deg'' @ [CHR 0x0A],
      ''  azimuth         : ='' @ fmt_e12 (DecodePos.azimuth eph) @ '' deg'' @ [CHR 0x0A],
      ''  lat_sigma       : ='' @ fmt_e12 (DecodePos.lat_sigma eph) @ '' m'' @ [CHR 0x0A],
      ''  lon_sigma       : ='' @ fmt_e12 (DecodePos.lon_sigma eph) @ '' m'' @ [CHR 0x0A],
      ''  altitude_sigma  : ='' @ fmt_e12 (DecodePos.altitude_sigma eph) @ '' m'' @ [CHR 0x0A],
      ''  east_vel_sigma  : ='' @ fmt_e12 (DecodePos.east_vel_sigma eph) @ '' m/s'' @ [CHR 0x0A],
      ''  north_vel_sigma : ='' @ fmt_e12 (DecodePos.north_vel_sigma eph) @ '' m/s'' @ [CHR 0x0A],
      ''  up_vel_sigma    : ='' @ fmt_e12 (DecodePos.up_vel_sigma eph) @ '' m/s'' @ [CHR 0x0A],
      ''  pitch_sigma     : ='' @ fmt_e12 (DecodePos.pitch_sigma eph) @ '' deg'' @ [CHR 0x0A],
      ''  roll_sigma      : ='' @ fmt_e12 (DecodePos.roll_sigma eph) @ '' deg'' @ [CHR 0x0A],
      ''  azimuth_sigma   : ='' @ fmt_e12 (DecodePos.azimuth_sigma eph) @ '' deg'' @ [CHR 0x0A],
      ''  gnss_sat_m      : raw='' @ show_nat (unat (DecodePos.gnss_sat_m eph)) @ [CHR 0x0A],
      ''  gnss_sat_s      : raw='' @ show_nat (unat (DecodePos.gnss_sat_s eph)) @ [CHR 0x0A],
      ''  diff_age        : ='' @ fmt_e12 (DecodePos.diff_age eph) @ '' s'' @ [CHR 0x0A],
      ''  odo_flag        : raw='' @ show_nat (unat (DecodePos.odo_flag eph)) @ [CHR 0x0A],
      ''  gear            : raw='' @ show_nat (unat (DecodePos.gear eph)) @ '' ('' @ pos_gear_desc (DecodePos.gear eph) @ '')'' @ [CHR 0x0A],
      ''  fl_wheel_speed  : ='' @ fmt_e12 (DecodePos.fl_wheel_speed eph) @ '' m/s'' @ [CHR 0x0A],
      ''  fr_wheel_speed  : ='' @ fmt_e12 (DecodePos.fr_wheel_speed eph) @ '' m/s'' @ [CHR 0x0A],
      ''  rl_wheel_speed  : ='' @ fmt_e12 (DecodePos.rl_wheel_speed eph) @ '' m/s'' @ [CHR 0x0A],
      ''  rr_wheel_speed  : ='' @ fmt_e12 (DecodePos.rr_wheel_speed eph) @ '' m/s'' @ [CHR 0x0A],
      ''  reserved0       : raw='' @ fmt_hex 8 (unat (DecodePos.reserved0 eph)) @ [CHR 0x0A],
      ''  reserved1       : raw='' @ fmt_hex 8 (unat (DecodePos.reserved1 eph)) @ [CHR 0x0A],
      ''  payload_crc24   : raw='' @ fmt_hex 6 (unat (DecodePos.crc24 eph)) @ '' calc='' @ fmt_hex 6 (unat payload_crc_calc) @ '' ['' @ (if DecodePos.crc24 eph = payload_crc_calc then ''OK'' else ''BAD'') @ '']'' @ [CHR 0x0A]]"

text \<open>The two-line form for GPS.\<close>

definition print_gpsephb_simple :: "gnss_PrintType_t \<Rightarrow> GPSEPHB_Decoded_t \<Rightarrow> string" where
  "print_gpsephb_simple level eph =
     ephb_log_full level
     [show_nat (unat (DecodeGps.gps_satid eph)) @ '' '' @ show_nat (unat (DecodeGps.gps_toe eph)) @ '' '' @ show_nat (unat (DecodeGps.gps_toc eph)) @ '' '' @ fmt_e12 (DecodeGps.gps_af0 eph) @ '' '' @ fmt_e12 (DecodeGps.gps_af1 eph) @ '' '' @ fmt_e12 (DecodeGps.gps_cuc eph) @ '' '' @ fmt_e12 (DecodeGps.gps_cus eph) @ '' '' @ fmt_e12 (DecodeGps.gps_crc eph) @ '' '' @ fmt_e12 (DecodeGps.gps_crs eph) @ '' '' @ fmt_e12 (DecodeGps.gps_cic eph) @ '' '' @ fmt_e12 (DecodeGps.gps_cis eph) @ '' '' @ show_nat (unat (DecodeGps.gps_iodc eph)) @ '' '' @ fmt_e12 (DecodeGps.gps_omegadot eph) @ '' '' @ [CHR 0x0A],
      show_nat (unat (DecodeGps.gps_satid eph)) @ '' '' @ fmt_e12 (DecodeGps.gps_i0 eph) @ '' '' @ fmt_e12 (DecodeGps.gps_omega0 eph) @ '' '' @ fmt_e12 (DecodeGps.gps_ecc eph) @ '' '' @ fmt_e12 (DecodeGps.gps_omega eph) @ '' '' @ fmt_e12 (DecodeGps.gps_m0 eph) @ '' '' @ fmt_e12 (DecodeGps.gps_delta_n eph) @ [CHR 0x0A, CHR 0x0A]]"

text \<open>
  Pseudo-ranges. The loops run to \<open>sat_count\<close> and \<open>signal_count\<close>, which count the elements
  that the decoder stored.
\<close>

definition print_signal :: "nat \<Rightarrow> signal_info_t \<Rightarrow> string" where
  "print_signal j s = concat
     [''      --- signal '' @ show_nat j @ '' ---'' @ [LF],
      ''        signal_id       : '' @ show_nat (unat (signal_id s)) @ [LF],
      ''        phase_lock_flag : '' @ show_nat (unat (phase_lock_flag s)) @ [LF],
      ''        precise_pr      : '' @ fmt_e12 (precise_pr s) @ '' ms'' @ [LF],
      ''        precise_phase   : '' @ fmt_e12 (precise_phase s) @ '' ms'' @ [LF],
      ''        precise_phase_rate: '' @ fmt_e12 (precise_phase_rate s) @ '' m/s'' @ [LF],
      ''        cn0             : '' @ fmt_e12 (cn0 s) @ '' dB'' @ [LF],
      ''        half_cycle      : '' @ show_nat (unat (half_cycle s)) @ [LF]]"

definition print_sat :: "nat \<Rightarrow> sat_info_t \<Rightarrow> string" where
  "print_sat i s = concat
     ([''  --- sat '' @ show_nat i @ '' ---'' @ [LF],
       ''    sat_id          : '' @ show_nat (unat (sat_id s)) @ [LF],
       ''    signal_count    : '' @ show_nat (unat (signal_count s)) @ [LF],
       ''    apd_ms          : '' @ fmt_e12 (apd_ms s) @ '' ms'' @ [LF],
       ''    approx_phase_rate: '' @ show_int (sint (approx_phase_rate s)) @ '' (Sint14 raw)'' @ [LF]]
      @ map (\<lambda>j. print_signal j (signal_info s ! j)) [0..<unat (signal_count s)])"

definition print_prangeb :: "gnss_PrintType_t \<Rightarrow> PRANGEB_Decoded_t \<Rightarrow> u32 \<Rightarrow> string" where
  "print_prangeb level d payload_crc_calc =
     ephb_log_full level
     ([''PRANGEB decoded frame:'' @ [LF], ''  head: '', head_bytes (DecodePrange.head d), [LF],
       ''  gps_week_count: '' @ show_nat (unat (DecodePrange.gps_week_count d)) @ [LF],
       ''  gps_tow_s     : '' @ show_nat (unat (DecodePrange.gps_tow_s d)) @ '' s'' @ [LF],
       ''  ms_count      : '' @ show_nat (unat (ms_count d)) @ [LF],
       ''  sync_flag     : '' @ show_nat (unat (sync_flag d)) @ [LF],
       ''  system_id     : '' @ show_nat (unat (system_id d)) @ [LF],
       ''  sat_count     : '' @ show_nat (unat (sat_count d)) @ [LF]]
      @ map (\<lambda>i. print_sat i (sat_info d ! i)) [0..<unat (sat_count d)]
      @ [''  embedded_crc24  : '' @ fmt_hex 6 (unat (DecodePrange.crc24 d)) @ '' calc='' @ fmt_hex 6 (unat payload_crc_calc)
         @ '' ['' @ (if DecodePrange.crc24 d = payload_crc_calc then ''OK'' else ''BAD'') @ '']'' @ [LF]])"

section \<open>Rows of the CSV files\<close>

definition bd2ephb_cells :: "BD2EPHB_Decoded_t \<Rightarrow> field_val list" where
  "bd2ephb_cells eph =
     [N (unat (DecodeBd2.gps_week_count eph)),
      N (unat (DecodeBd2.gps_tow_s eph)),
      N (unat (DecodeBd2.bd2_satid eph)),
      N (unat (DecodeBd2.bd2_sv_urai eph)),
      N (unat (DecodeBd2.bd2_sv_health eph)),
      N (unat (DecodeBd2.bd2_week eph)),
      N (unat (DecodeBd2.bd2_toe eph)),
      N (unat (DecodeBd2.bd2_toc eph)),
      D (DecodeBd2.bd2_af0 eph),
      D (DecodeBd2.bd2_af1 eph),
      D (DecodeBd2.bd2_af2 eph),
      N (unat (DecodeBd2.bd2_aode eph)),
      N (unat (DecodeBd2.bd2_aodc eph)),
      D (DecodeBd2.bd2_idot eph),
      D (DecodeBd2.bd2_crs eph),
      D (DecodeBd2.bd2_crc eph),
      D (DecodeBd2.bd2_cus eph),
      D (DecodeBd2.bd2_cuc eph),
      D (DecodeBd2.bd2_cis eph),
      D (DecodeBd2.bd2_cic eph),
      D (DecodeBd2.bd2_delta_n eph),
      D (DecodeBd2.bd2_m0 eph),
      D (DecodeBd2.bd2_ecc eph),
      D (DecodeBd2.bd2_a_half eph),
      D (DecodeBd2.bd2_omega0 eph),
      D (DecodeBd2.bd2_i0 eph),
      D (DecodeBd2.bd2_omega eph),
      D (DecodeBd2.bd2_omegadot eph),
      D (DecodeBd2.bd2_tgd1 eph),
      D (DecodeBd2.bd2_tgd2 eph)]"

definition bd3ephb_cells :: "BD3EPHB_Decoded_t \<Rightarrow> field_val list" where
  "bd3ephb_cells eph =
     [N (unat (DecodeBd3.gps_week_count eph)),
      N (unat (DecodeBd3.gps_tow_s eph)),
      N (unat (DecodeBd3.bd3_satid eph)),
      N (unat (DecodeBd3.bd3_sattype eph)),
      N (unat (DecodeBd3.bd3_week eph)),
      N (unat (DecodeBd3.bd3_toe eph)),
      N (unat (DecodeBd3.bd3_toc eph)),
      D (DecodeBd3.bd3_af0 eph),
      D (DecodeBd3.bd3_af1 eph),
      D (DecodeBd3.bd3_af2 eph),
      N (unat (DecodeBd3.bd3_iode eph)),
      N (unat (DecodeBd3.bd3_iodc eph)),
      D (DecodeBd3.bd3_idot eph),
      D (DecodeBd3.bd3_crs eph),
      D (DecodeBd3.bd3_crc eph),
      D (DecodeBd3.bd3_cus eph),
      D (DecodeBd3.bd3_cuc eph),
      D (DecodeBd3.bd3_cis eph),
      D (DecodeBd3.bd3_cic eph),
      D (DecodeBd3.bd3_delta_n0 eph),
      D (DecodeBd3.bd3_delta_n0_dot eph),
      D (DecodeBd3.bd3_m0 eph),
      D (DecodeBd3.bd3_ecc eph),
      D (DecodeBd3.bd3_deltaA eph),
      D (DecodeBd3.bd3_adot eph),
      D (DecodeBd3.bd3_omega0 eph),
      D (DecodeBd3.bd3_i0 eph),
      D (DecodeBd3.bd3_omega eph),
      D (DecodeBd3.bd3_omegadot eph),
      D (DecodeBd3.bd3_tgdb1cp eph),
      D (DecodeBd3.bd3_tgdb2ap eph),
      D (DecodeBd3.bd3_iscb1cd eph)]"

definition bdxwephb_cells :: "BDXWEPHB_Decoded_t \<Rightarrow> field_val list" where
  "bdxwephb_cells eph =
     [N (unat (DecodeXw.gps_week_count eph)),
      N (unat (DecodeXw.gps_tow_s eph)),
      N (unat (DecodeXw.xws_satid eph)),
      N (unat (DecodeXw.xws_sattype eph)),
      N (unat (DecodeXw.xws_week eph)),
      N (unat (DecodeXw.xws_toe eph)),
      N (unat (DecodeXw.xws_toc eph)),
      D (DecodeXw.xws_af0 eph),
      D (DecodeXw.xws_af1 eph),
      N (unat (DecodeXw.xws_iodc eph)),
      N (unat (DecodeXw.xws_iode eph)),
      D (DecodeXw.xws_crs eph),
      D (DecodeXw.xws_crc eph),
      D (DecodeXw.xws_cus eph),
      D (DecodeXw.xws_cuc eph),
      D (DecodeXw.xws_cis eph),
      D (DecodeXw.xws_cic eph),
      D (DecodeXw.xws_delta_n0 eph),
      D (DecodeXw.xws_delta_n0_dot eph),
      D (DecodeXw.xws_m0 eph),
      D (DecodeXw.xws_ecc eph),
      D (DecodeXw.xws_deltaA0 eph),
      D (DecodeXw.xws_i0_dot eph),
      D (DecodeXw.xws_a_dot eph),
      D (DecodeXw.xws_delta_i0 eph),
      D (DecodeXw.xws_omega0 eph),
      D (DecodeXw.xws_omega_dot eph),
      D (DecodeXw.xws_omega eph)]"

definition bd3cnav2ephb_cells :: "BD3CNAV2EPHB_Decoded_t \<Rightarrow> field_val list" where
  "bd3cnav2ephb_cells eph =
     [N (unat (DecodeCnav2.gps_week_count eph)),
      N (unat (DecodeCnav2.gps_tow_s eph)),
      N (unat (DecodeCnav2.bds_satid eph)),
      N (unat (DecodeCnav2.bds_sattype eph)),
      N (unat (DecodeCnav2.bds_week eph)),
      N (unat (DecodeCnav2.bds_toe eph)),
      N (unat (DecodeCnav2.bds_toc eph)),
      D (DecodeCnav2.bds_af0 eph),
      D (DecodeCnav2.bds_af1 eph),
      D (DecodeCnav2.bds_af2 eph),
      N (unat (DecodeCnav2.bds_iode eph)),
      N (unat (DecodeCnav2.bds_iodc eph)),
      D (DecodeCnav2.bds_idot eph),
      D (DecodeCnav2.bds_crs eph),
      D (DecodeCnav2.bds_crc eph),
      D (DecodeCnav2.bds_cus eph),
      D (DecodeCnav2.bds_cuc eph),
      D (DecodeCnav2.bds_cis eph),
      D (DecodeCnav2.bds_cic eph),
      D (DecodeCnav2.bds_delta_n0 eph),
      D (DecodeCnav2.bds_delta_n0_dot eph),
      D (DecodeCnav2.bds_m0 eph),
      D (DecodeCnav2.bds_ecc eph),
      D (DecodeCnav2.bds_AA eph),
      D (DecodeCnav2.bds_adot eph),
      D (DecodeCnav2.bds_omega0 eph),
      D (DecodeCnav2.bds_i0 eph),
      D (DecodeCnav2.bds_omega eph),
      D (DecodeCnav2.bds_omegadot eph),
      D (DecodeCnav2.bds_tgdb1cp eph),
      D (DecodeCnav2.bds_tgdb2ap eph),
      D (DecodeCnav2.bds_iscb2ad eph)]"

definition bd3cnav3ephb_cells :: "BD3CNAV3EPHB_Decoded_t \<Rightarrow> field_val list" where
  "bd3cnav3ephb_cells eph =
     [N (unat (DecodeCnav3.gps_week_count eph)),
      N (unat (DecodeCnav3.gps_tow_s eph)),
      N (unat (DecodeCnav3.bds_satid eph)),
      N (unat (DecodeCnav3.bds_sattype eph)),
      N (unat (DecodeCnav3.bds_week eph)),
      N (unat (DecodeCnav3.bds_toe eph)),
      N (unat (DecodeCnav3.bds_toc eph)),
      D (DecodeCnav3.bds_af0 eph),
      D (DecodeCnav3.bds_af1 eph),
      D (DecodeCnav3.bds_af2 eph),
      N (unat (DecodeCnav3.bds_iode eph)),
      N (unat (DecodeCnav3.bds_iodc eph)),
      D (DecodeCnav3.bds_idot eph),
      D (DecodeCnav3.bds_crs eph),
      D (DecodeCnav3.bds_crc eph),
      D (DecodeCnav3.bds_cus eph),
      D (DecodeCnav3.bds_cuc eph),
      D (DecodeCnav3.bds_cis eph),
      D (DecodeCnav3.bds_cic eph),
      D (DecodeCnav3.bds_delta_n0 eph),
      D (DecodeCnav3.bds_delta_n0_dot eph),
      D (DecodeCnav3.bds_m0 eph),
      D (DecodeCnav3.bds_ecc eph),
      D (DecodeCnav3.bds_deltaA eph),
      D (DecodeCnav3.bds_adot eph),
      D (DecodeCnav3.bds_omega0 eph),
      D (DecodeCnav3.bds_i0 eph),
      D (DecodeCnav3.bds_omega eph),
      D (DecodeCnav3.bds_omegadot eph),
      D (DecodeCnav3.bds_tgdb2bI eph)]"

definition gpsephb_cells :: "GPSEPHB_Decoded_t \<Rightarrow> field_val list" where
  "gpsephb_cells eph =
     [N (unat (DecodeGps.gps_week_count eph)),
      N (unat (DecodeGps.gps_tow_s eph)),
      N (unat (DecodeGps.gps_satid eph)),
      N (unat (DecodeGps.gps_sv_accuracy eph)),
      N (unat (DecodeGps.gps_sv_health eph)),
      N (unat (DecodeGps.gps_week eph)),
      N (unat (DecodeGps.gps_toe eph)),
      N (unat (DecodeGps.gps_toc eph)),
      D (DecodeGps.gps_af0 eph),
      D (DecodeGps.gps_af1 eph),
      D (DecodeGps.gps_af2 eph),
      N (unat (DecodeGps.gps_iode eph)),
      N (unat (DecodeGps.gps_iodc eph)),
      D (DecodeGps.gps_idot eph),
      D (DecodeGps.gps_crs eph),
      D (DecodeGps.gps_crc eph),
      D (DecodeGps.gps_cus eph),
      D (DecodeGps.gps_cuc eph),
      D (DecodeGps.gps_cis eph),
      D (DecodeGps.gps_cic eph),
      D (DecodeGps.gps_delta_n eph),
      D (DecodeGps.gps_m0 eph),
      D (DecodeGps.gps_ecc eph),
      D (DecodeGps.gps_a_half eph),
      D (DecodeGps.gps_omega0 eph),
      D (DecodeGps.gps_i0 eph),
      D (DecodeGps.gps_omega eph),
      D (DecodeGps.gps_omegadot eph),
      D (DecodeGps.gps_tgd eph),
      N (unat (DecodeGps.gps_code_on_l2 eph)),
      N (unat (DecodeGps.gps_l2p_data_flag eph)),
      N (unat (DecodeGps.gps_fit eph))]"

end
