(* ===== verification/Codec.thy ===== *)
theory Codec
  imports Prelude
begin

text \<open>
  The codecs of \<open>core/src/dbb_handle.c\<close>: hexadecimal, Base64 and the semi-octet (BCD)
  coding of telephone numbers. A codec that fails returns \<open>None\<close>; pointers are not null.
  Strings are C strings, so they hold no NUL.
\<close>

section \<open>Hexadecimal\<close>

definition hex_lut :: string where
  "hex_lut = ''0123456789ABCDEF''"

definition hex_pair :: "u8 \<Rightarrow> string" where
  "hex_pair b = [hex_lut ! unat (drop_bit 4 b AND 0x0F), hex_lut ! unat (b AND 0x0F)]"

definition dbb_hex_encode :: "bytes \<Rightarrow> nat \<Rightarrow> string option" where
  "dbb_hex_encode input output_size =
     (if output_size < length input * 2 + 1 then None else Some (concat (map hex_pair input)))"

definition bytes_to_hex :: "bytes \<Rightarrow> nat \<Rightarrow> string option" where
  "bytes_to_hex data hex_out_size =
     (if hex_out_size < length data * 2 + 1 then None else Some (concat (map hex_pair data)))"

definition hex_char_to_nibble :: "char \<Rightarrow> int" where
  "hex_char_to_nibble c =
     (if c_between CHR ''0'' CHR ''9'' c then int (ccode c) - int (ccode CHR ''0'')
      else if c_between CHR ''A'' CHR ''F'' c then int (ccode c) - int (ccode CHR ''A'') + 10
      else if c_between CHR ''a'' CHR ''f'' c then int (ccode c) - int (ccode CHR ''a'') + 10
      else - 1)"

definition isxdigit :: "char \<Rightarrow> bool" where
  "isxdigit c \<longleftrightarrow> c_between CHR ''0'' CHR ''9'' c \<or> c_between CHR ''A'' CHR ''F'' c \<or> c_between CHR ''a'' CHR ''f'' c"

definition isdigit :: "char \<Rightarrow> bool" where
  "isdigit c \<longleftrightarrow> c_between CHR ''0'' CHR ''9'' c"

definition is_hex_string :: "string \<Rightarrow> bool" where
  "is_hex_string s \<longleftrightarrow> length s \<noteq> 0 \<and> length s mod 2 = 0 \<and> list_all isxdigit s"

fun hex_loop :: "string \<Rightarrow> bytes option" where
  "hex_loop (a # b # s) =
     (let hi = hex_char_to_nibble a; lo = hex_char_to_nibble b
      in if hi < 0 \<or> lo < 0 then None
         else map_option (\<lambda>bs. (push_bit 4 (of_int hi) OR of_int lo) # bs) (hex_loop s))"
| "hex_loop s = Some []"

definition hex_to_bytes :: "string \<Rightarrow> nat \<Rightarrow> bytes option" where
  "hex_to_bytes hex out_size =
     (if \<not> is_hex_string hex then None
      else if length hex div 2 > out_size then None
      else hex_loop hex)"

section \<open>Base64\<close>

definition b64_table :: string where
  "b64_table = ''ABCDEFGHIJKLMNOPQRSTUVWXYZabcdefghijklmnopqrstuvwxyz0123456789+/''"

definition dbb_base64_value :: "char \<Rightarrow> int" where
  "dbb_base64_value c =
     (if c_between CHR ''A'' CHR ''Z'' c then int (ccode c) - int (ccode CHR ''A'')
      else if c_between CHR ''a'' CHR ''z'' c then int (ccode c) - int (ccode CHR ''a'') + 26
      else if c_between CHR ''0'' CHR ''9'' c then int (ccode c) - int (ccode CHR ''0'') + 52
      else if c = CHR ''+'' then 62
      else if c = CHR ''/'' then 63
      else - 1)"

definition b64_triple :: "u8 \<Rightarrow> u8 \<Rightarrow> u8 \<Rightarrow> u32" where
  "b64_triple a b c = push_bit 16 (ucast a) OR push_bit 8 (ucast b) OR ucast c"

definition b64_char :: "u32 \<Rightarrow> nat \<Rightarrow> char" where
  "b64_char triple s = b64_table ! unat (drop_bit s triple AND 0x3F)"

text \<open>One pass of the \<open>while\<close> loop takes up to three bytes.\<close>

fun b64_encode_loop :: "bytes \<Rightarrow> string" where
  "b64_encode_loop [] = []"
| "b64_encode_loop [a] =
     (let t = b64_triple a 0 0 in [b64_char t 18, b64_char t 12, CHR ''='', CHR ''=''])"
| "b64_encode_loop [a, b] =
     (let t = b64_triple a b 0 in [b64_char t 18, b64_char t 12, b64_char t 6, CHR ''=''])"
| "b64_encode_loop (a # b # c # r) =
     (let t = b64_triple a b c
      in [b64_char t 18, b64_char t 12, b64_char t 6, b64_char t 0] @ b64_encode_loop r)"

definition dbb_base64_encode :: "bytes \<Rightarrow> nat \<Rightarrow> string option" where
  "dbb_base64_encode input output_size =
     (let out_len = ((length input + 2) div 3) * 4
      in if output_size < out_len + 1 then None else Some (b64_encode_loop input))"

definition isspace :: "char \<Rightarrow> bool" where
  "isspace c \<longleftrightarrow> ccode c = 32 \<or> (9 \<le> ccode c \<and> ccode c \<le> 13)"

text \<open>The inner loop: up to four values, \<open>- 2\<close> for a padding character.\<close>

fun b64_gather :: "string \<Rightarrow> int list \<Rightarrow> (int list \<times> string) option" where
  "b64_gather [] quartet = Some (quartet, [])"
| "b64_gather (c # cs) quartet =
     (if \<not> length quartet < 4 then Some (quartet, c # cs)
      else if isspace c then b64_gather cs quartet
      else if c = CHR ''='' then b64_gather cs (quartet @ [- 2])
      else let val = dbb_base64_value c
           in if val < 0 then None else b64_gather cs (quartet @ [val]))"

definition b64_put :: "nat \<Rightarrow> u32 \<Rightarrow> nat \<Rightarrow> bytes \<Rightarrow> bytes option" where
  "b64_put output_size triple s out =
     (if length out \<ge> output_size then None else Some (out @ [ucast (drop_bit s triple AND 0xFF)]))"

text \<open>What a quartet adds to the output, with the number of padding characters.\<close>

definition b64_quartet :: "nat \<Rightarrow> int list \<Rightarrow> bytes \<Rightarrow> (nat \<times> bytes) option" where
  "b64_quartet output_size quartet out =
     (let pad = length (filter (\<lambda>v. v = - 2) quartet);
          v = map (\<lambda>v. if v = - 2 then 0 else v) quartet;
          triple = (push_bit 18 (of_int (v ! 0)) OR push_bit 12 (of_int (v ! 1))
                    OR push_bit 6 (of_int (v ! 2)) OR of_int (v ! 3)) :: u32
      in Option.bind (b64_put output_size triple 16 out) (\<lambda>out.
         Option.bind (if pad < 2 then b64_put output_size triple 8 out else Some out) (\<lambda>out.
         Option.bind (if pad < 1 then b64_put output_size triple 0 out else Some out) (\<lambda>out.
           Some (pad, out)))))"

lemma b64_gather_length: "b64_gather p qs = Some (q, p') \<Longrightarrow> length p' + length q \<le> length p + length qs"
  by (induction p qs rule: b64_gather.induct) (auto simp: Let_def split: if_splits)

function b64_decode_loop :: "string \<Rightarrow> nat \<Rightarrow> bytes \<Rightarrow> bytes option" where
  "b64_decode_loop p output_size out =
     (case b64_gather p [] of
        None \<Rightarrow> None
      | Some (quartet, p') \<Rightarrow>
          if length quartet = 0 then Some out
          else if length quartet \<noteq> 4 then None
          else case b64_quartet output_size quartet out of
                 None \<Rightarrow> None
               | Some (pad, out) \<Rightarrow> if pad > 0 then Some out else b64_decode_loop p' output_size out)"
  by pat_completeness auto
termination
  by (relation "measure (\<lambda>(p, n, out). length p)") (auto dest!: b64_gather_length)

declare b64_decode_loop.simps [simp del]

definition dbb_base64_decode :: "string \<Rightarrow> nat \<Rightarrow> bytes option" where
  "dbb_base64_decode input output_size = b64_decode_loop input output_size []"

text \<open>
  What the decoder has stored in its output when it stops, also when it stops with an error:
  the bytes of a quartet are stored one by one while there is room.
\<close>

definition b64_quartet_pad :: "int list \<Rightarrow> nat" where
  "b64_quartet_pad quartet = length (filter (\<lambda>v. v = - 2) quartet)"

definition b64_quartet_bytes :: "int list \<Rightarrow> bytes" where
  "b64_quartet_bytes quartet =
     (let pad = b64_quartet_pad quartet;
          v = map (\<lambda>v. if v = - 2 then 0 else v) quartet;
          triple = (push_bit 18 (of_int (v ! 0)) OR push_bit 12 (of_int (v ! 1))
                    OR push_bit 6 (of_int (v ! 2)) OR of_int (v ! 3)) :: u32
      in [ucast (drop_bit 16 triple AND 0xFF)]
         @ (if pad < 2 then [ucast (drop_bit 8 triple AND 0xFF)] else [])
         @ (if pad < 1 then [ucast (drop_bit 0 triple AND 0xFF)] else []))"

function b64_output :: "string \<Rightarrow> nat \<Rightarrow> bytes \<Rightarrow> bytes" where
  "b64_output p output_size out =
     (case b64_gather p [] of
        None \<Rightarrow> out
      | Some (quartet, p') \<Rightarrow>
          if length quartet \<noteq> 4 then out
          else
            let out' = out @ b64_quartet_bytes quartet
            in if length out' > output_size then take output_size out'
               else if b64_quartet_pad quartet > 0 then out' else b64_output p' output_size out')"
  by pat_completeness auto
termination
  by (relation "measure (\<lambda>(p, n, out). length p)") (auto dest!: b64_gather_length)

declare b64_output.simps [simp del]

lemma b64_quartet_Some:
  "b64_quartet n q out = Some (pad, out') \<longleftrightarrow>
     pad = b64_quartet_pad q \<and> out' = out @ b64_quartet_bytes q \<and> length out' \<le> n"
  by (auto simp: b64_quartet_def b64_quartet_bytes_def b64_quartet_pad_def b64_put_def Let_def
      Option.bind_eq_Some_conv split: if_splits)

lemma b64_output_decode: "b64_decode_loop p n out = Some r \<Longrightarrow> b64_output p n out = r"
proof (induction p n out rule: b64_decode_loop.induct)
  case (1 p n out)
  show ?case using "1.prems" "1.IH"
    by (subst (asm) b64_decode_loop.simps, subst b64_output.simps)
      (auto simp: b64_quartet_Some Let_def split: option.splits if_splits prod.splits)
qed

lemma b64_output_bound: "length out \<le> n \<Longrightarrow> length (b64_output p n out) \<le> n"
proof (induction p n out rule: b64_output.induct)
  case (1 p n out)
  then show ?case
    by (subst b64_output.simps) (auto simp: Let_def split: option.splits)
qed

section \<open>Telephone numbers\<close>

definition DBB_MAX_SMS_TARGET_LEN :: nat where "DBB_MAX_SMS_TARGET_LEN = 32"

text \<open>The scan of the number: the digits, and whether a plus sign set \<open>*toa\<close>.\<close>

fun bcd_scan :: "string \<Rightarrow> string \<Rightarrow> u8 \<Rightarrow> (string \<times> u8) option" where
  "bcd_scan [] digits toa = Some (digits, toa)"
| "bcd_scan (c # cs) digits toa =
     (if c = CHR ''+'' then bcd_scan cs digits 0x91
      else if \<not> isdigit c then None
      else if length digits \<ge> DBB_MAX_SMS_TARGET_LEN - 1 then None
      else bcd_scan cs (digits @ [c]) toa)"

definition digit_val :: "char \<Rightarrow> u8" where
  "digit_val c = of_nat (ccode c - ccode CHR ''0'')"

fun bcd_pack :: "string \<Rightarrow> bytes" where
  "bcd_pack [] = []"
| "bcd_pack [d] = [push_bit 4 0x0F OR digit_val d]"
| "bcd_pack (d # e # ds) = (push_bit 4 (digit_val e) OR digit_val d) # bcd_pack ds"

text \<open>\<open>toa0\<close> is the value of \<open>*toa\<close> at the call. The result: bytes, digit count, type of address.\<close>

definition encode_bcd_number :: "string \<Rightarrow> nat \<Rightarrow> u8 \<Rightarrow> (bytes \<times> u8 \<times> u8) option" where
  "encode_bcd_number number bcd_out_size toa0 =
     (case bcd_scan number [] toa0 of
        None \<Rightarrow> None
      | Some (digits, toa) \<Rightarrow>
          if length digits = 0 then None
          else
            let toa = (if toa \<noteq> 0x91 then
                         if length digits \<ge> 11 \<and> digits ! 0 = CHR ''8'' \<and> digits ! 1 = CHR ''6'' then 0x91 else 0x81
                       else toa)
            in if (length digits + 1) div 2 > bcd_out_size then None
               else Some (bcd_pack digits, of_nat (length digits), toa))"

text \<open>One half-octet of \<open>decode_bcd_number\<close>: written while digits are missing.\<close>

definition bcd_put :: "nat \<Rightarrow> nat \<Rightarrow> u8 \<Rightarrow> string \<Rightarrow> string option" where
  "bcd_put digits_len out_size nibble out =
     (if length out < digits_len then
        if nibble > 9 \<or> length out + 1 \<ge> out_size then None
        else Some (out @ [digit_char (unat nibble)])
      else Some out)"

fun bcd_unpack :: "bytes \<Rightarrow> nat \<Rightarrow> nat \<Rightarrow> string \<Rightarrow> string option" where
  "bcd_unpack [] digits_len out_size out = Some out"
| "bcd_unpack (b # bs) digits_len out_size out =
     Option.bind (bcd_put digits_len out_size (b AND 0x0F) out) (\<lambda>out.
     Option.bind (bcd_put digits_len out_size (drop_bit 4 b AND 0x0F) out) (\<lambda>out.
       bcd_unpack bs digits_len out_size out))"

definition decode_bcd_number :: "bytes \<Rightarrow> u8 \<Rightarrow> nat \<Rightarrow> string option" where
  "decode_bcd_number bcd digits_len out_size =
     (if out_size = 0 then None else bcd_unpack bcd (unat digits_len) out_size [])"

section \<open>Hexadecimal round trip\<close>

lemma hex_digit_check:
  "list_all (\<lambda>n. isxdigit (hex_lut ! n) \<and> hex_char_to_nibble (hex_lut ! n) = int n) [0..<16]"
  by (simp add: upt_rec hex_lut_def isxdigit_def hex_char_to_nibble_def c_between_def ccode_def)

lemma nibble_less: "unat ((b :: u8) AND 0x0F) < 16"
proof -
  have "b AND 0x0F = take_bit 4 b" by (simp add: take_bit_eq_mask mask_eq_exp_minus_1)
  moreover have "unat (take_bit 4 b) < 2 ^ 4"
    by (simp only: unsigned_take_bit_eq take_bit_nat_less_exp)
  ultimately show ?thesis by simp
qed

lemma hex_digit:
  "isxdigit (hex_lut ! unat ((b :: u8) AND 0x0F))"
  "hex_char_to_nibble (hex_lut ! unat ((b :: u8) AND 0x0F)) = uint (b AND 0x0F)"
  using hex_digit_check nibble_less [of b] by (simp_all add: list_all_iff)

lemma nibbles_join: "push_bit 4 (drop_bit 4 b AND 0x0F) OR (b AND 0x0F) = (b :: u8)"
proof -
  have m: "(0x0F :: u8) = mask 4" by (simp add: mask_eq_exp_minus_1)
  show ?thesis unfolding m by (rule bit_word_eqI) (auto simp: bit_simps)
qed

lemma nibbles_join': "push_bit 4 (drop_bit 4 b) AND 240 OR (b AND 15) = (b :: u8)"
  using nibbles_join [of b] by (simp add: push_bit_and)

lemma hex_loop_pairs: "hex_loop (concat (map hex_pair bs)) = Some bs"
proof (induction bs)
  case Nil
  then show ?case by simp
next
  case (Cons b bs)
  have "\<not> uint (w :: u8) < 0" for w by simp
  with Cons show ?case
    by (simp add: hex_pair_def hex_digit nibbles_join' Let_def del: not_less)
qed

lemma hex_pairs_hex: "bs \<noteq> [] \<Longrightarrow> is_hex_string (concat (map hex_pair bs))"
proof -
  have "length (concat (map hex_pair bs)) = 2 * length bs"
    by (induction bs) (auto simp: hex_pair_def)
  moreover have "list_all isxdigit (concat (map hex_pair bs))"
    by (induction bs) (auto simp: hex_pair_def hex_digit)
  ultimately show "bs \<noteq> [] \<Longrightarrow> ?thesis" by (simp add: is_hex_string_def)
qed

lemma length_hex_pairs: "length (concat (map hex_pair bs)) = 2 * length bs"
  by (induction bs) (auto simp: hex_pair_def)

lemma hex_roundtrip:
  assumes "dbb_hex_encode bs n = Some s" "bs \<noteq> []" "length bs \<le> out_size"
  shows "hex_to_bytes s out_size = Some bs"
  using assms hex_pairs_hex [of bs]
  by (auto simp: dbb_hex_encode_def hex_to_bytes_def length_hex_pairs hex_loop_pairs split: if_splits)

section \<open>Base64 round trip\<close>

lemma b64_char_check:
  "list_all (\<lambda>n. dbb_base64_value (b64_table ! n) = int n \<and> \<not> isspace (b64_table ! n)
      \<and> b64_table ! n \<noteq> CHR ''='') [0..<64]"
  by (simp add: upt_rec b64_table_def dbb_base64_value_def c_between_def ccode_def isspace_def)

text \<open>The six bits of a triple at a shift.\<close>

definition six :: "u32 \<Rightarrow> nat \<Rightarrow> int" where
  "six t s = uint (drop_bit s t AND 0x3F)"

lemma mask6: "(0x3F :: u32) = mask 6"
  by (simp add: mask_eq_exp_minus_1)

lemma six_less: "unat (drop_bit s t AND 0x3F :: u32) < 64"
proof -
  have "drop_bit s t AND 0x3F = take_bit 6 (drop_bit s t)" unfolding mask6 by (simp add: take_bit_eq_mask)
  moreover have "unat (take_bit 6 (drop_bit s t)) < 2 ^ 6"
    by (simp only: unsigned_take_bit_eq take_bit_nat_less_exp)
  ultimately show ?thesis by simp
qed

lemma b64_char_value:
  "dbb_base64_value (b64_char t s) = six t s" "\<not> isspace (b64_char t s)" "b64_char t s \<noteq> CHR ''=''"
  using b64_char_check six_less [of s t] by (auto simp: list_all_iff b64_char_def six_def)

lemma six_ge0: "0 \<le> six t s"
  by (simp add: six_def)

lemma gather_char: "length q < 4 \<Longrightarrow> b64_gather (b64_char t s # cs) q = b64_gather cs (q @ [six t s])"
  using b64_char_value [of t s] six_ge0 [of t s] by (simp add: Let_def)

lemma gather_pad: "length q < 4 \<Longrightarrow> b64_gather (CHR ''='' # cs) q = b64_gather cs (q @ [- 2])"
  by (simp add: isspace_def ccode_def)

lemma gather_full: "length q = 4 \<Longrightarrow> b64_gather cs q = Some (q, cs)"
  by (cases cs) auto

lemma six_not_pad: "six t s \<noteq> - 2"
  using six_ge0 [of t s] by auto

lemma triple_bits: "bit (b64_triple a b c) n \<longleftrightarrow>
    (16 \<le> n \<and> bit a (n - 16)) \<or> (8 \<le> n \<and> bit b (n - 8)) \<or> bit c n"
  unfolding b64_triple_def
  by (auto simp: bit_or_iff bit_push_bit_iff bit_ucast_iff dest: bit_imp_le_length)

lemma triple_24: "bit (b64_triple a b c) n \<Longrightarrow> n < 24"
  by (auto simp: triple_bits dest!: bit_imp_le_length)

lemma bit_six: "bit (of_int (six t s) :: u32) n \<longleftrightarrow> n < 6 \<and> bit t (n + s)"
proof -
  have "(of_int (six t s) :: u32) = drop_bit s t AND mask 6" unfolding six_def mask6 by simp
  then show ?thesis
    by (auto simp: bit_and_iff bit_drop_bit_eq bit_mask_iff add.commute dest: bit_imp_le_length)
qed

lemma six_join:
  assumes "t = b64_triple a b c"
  shows "(push_bit 18 (of_int (six t 18)) OR push_bit 12 (of_int (six t 12))
      OR push_bit 6 (of_int (six t 6)) OR of_int (six t 0) :: u32) = t"
proof (rule bit_word_eqI)
  fix n assume "n < LENGTH(32)"
  have t: "bit t n \<Longrightarrow> n < 24" using triple_24 assms by blast
  show "bit (push_bit 18 (of_int (six t 18)) OR push_bit 12 (of_int (six t 12))
      OR push_bit 6 (of_int (six t 6)) OR of_int (six t 0) :: u32) n = bit t n"
    using t \<open>n < LENGTH(32)\<close>
    by (cases "n < 6"; cases "n < 12"; cases "n < 18") (auto simp: bit_or_iff bit_push_bit_iff bit_six)
qed

text \<open>The last six bits of a short group are zero.\<close>

lemma six_zero: "six (b64_triple a b 0) 0 = 0" "six (b64_triple a 0 0) 6 = 0"
proof -
  have z: "six t s = 0" if "\<And>n. n < 6 \<Longrightarrow> \<not> bit t (n + s)" for t s
  proof -
    have "drop_bit s t AND 0x3F = 0"
      unfolding mask6 using that
      by (intro bit_word_eqI) (auto simp: bit_and_iff bit_drop_bit_eq bit_mask_iff add.commute)
    then show ?thesis by (simp add: six_def)
  qed
  show "six (b64_triple a b 0) 0 = 0" by (rule z) (auto simp: triple_bits)
  show "six (b64_triple a 0 0) 6 = 0" by (rule z) (auto simp: triple_bits)
qed

lemma triple_bytes:
  "(ucast (drop_bit 16 (b64_triple a b c) AND 0xFF) :: u8) = a"
  "(ucast (drop_bit 8 (b64_triple a b c) AND 0xFF) :: u8) = b"
  "(ucast (drop_bit 0 (b64_triple a b c) AND 0xFF) :: u8) = c"
proof -
  have m: "(0xFF :: u32) = mask 8" by (simp add: mask_eq_exp_minus_1)
  have out: "\<not> bit w k" if "8 \<le> k" for w :: u8 and k
    using that bit_imp_le_length [of w k] by auto
  show "(ucast (drop_bit 16 (b64_triple a b c) AND 0xFF) :: u8) = a"
    "(ucast (drop_bit 8 (b64_triple a b c) AND 0xFF) :: u8) = b"
    "(ucast (drop_bit 0 (b64_triple a b c) AND 0xFF) :: u8) = c"
    unfolding m
    by (rule bit_word_eqI; simp add: bit_ucast_iff bit_and_iff bit_drop_bit_eq bit_mask_iff triple_bits out)+
qed

lemma b64_put_triple:
  "length out < n \<Longrightarrow> b64_put n (b64_triple a b c) 16 out = Some (out @ [a])"
  "length out < n \<Longrightarrow> b64_put n (b64_triple a b c) 8 out = Some (out @ [b])"
  "length out < n \<Longrightarrow> b64_put n (b64_triple a b c) 0 out = Some (out @ [c])"
  by (simp_all only: b64_put_def triple_bytes not_le [symmetric] if_False not_not if_not_P)

text \<open>Decoding the encoding of three, two or one bytes.\<close>

lemma quartet_3:
  "length out + 3 \<le> n \<Longrightarrow> t = b64_triple a b c \<Longrightarrow>
     b64_quartet n [six t 18, six t 12, six t 6, six t 0] out = Some (0, out @ [a, b, c])"
  using six_join [of t a b c]
  by (simp add: b64_quartet_def Let_def six_not_pad b64_put_triple)

lemma quartet_2:
  "length out + 2 \<le> n \<Longrightarrow> t = b64_triple a b 0 \<Longrightarrow>
     b64_quartet n [six t 18, six t 12, six t 6, - 2] out = Some (1, out @ [a, b])"
  using six_join [of t a b 0] six_zero(1) [of a b]
  by (simp add: b64_quartet_def Let_def six_not_pad b64_put_triple)

lemma quartet_1:
  "length out + 1 \<le> n \<Longrightarrow> t = b64_triple a 0 0 \<Longrightarrow>
     b64_quartet n [six t 18, six t 12, - 2, - 2] out = Some (2, out @ [a])"
  using six_join [of t a 0 0] six_zero(1) [of a 0] six_zero(2) [of a]
  by (simp add: b64_quartet_def Let_def six_not_pad b64_put_triple)

lemma b64_decode_encode:
  "length out + length bs \<le> n \<Longrightarrow> b64_decode_loop (b64_encode_loop bs) n out = Some (out @ bs)"
proof (induction bs arbitrary: out rule: b64_encode_loop.induct)
  case 1
  then show ?case by (simp add: b64_decode_loop.simps [of "[]"])
next
  case (2 a)
  then show ?case
    by (subst b64_decode_loop.simps)
      (simp add: Let_def gather_char gather_pad gather_full quartet_1 del: b64_gather.simps(2))
next
  case (3 a b)
  then show ?case
    by (subst b64_decode_loop.simps)
      (simp add: Let_def gather_char gather_pad gather_full quartet_2 del: b64_gather.simps(2))
next
  case (4 a b c r)
  let ?t = "b64_triple a b c"
  have "b64_decode_loop (b64_encode_loop r) n (out @ [a, b, c]) = Some (out @ a # b # c # r)"
    using "4.IH" [OF refl, of "out @ [a, b, c]"] "4.prems" by simp
  then show ?case using "4.prems"
    by (subst b64_decode_loop.simps)
      (simp add: Let_def gather_char gather_full quartet_3 del: b64_gather.simps(2))
qed

lemma base64_roundtrip:
  assumes "dbb_base64_encode bs m = Some s" "length bs \<le> n"
  shows "dbb_base64_decode s n = Some bs"
  using assms b64_decode_encode [of "[]" bs n]
  by (auto simp: dbb_base64_encode_def dbb_base64_decode_def Let_def split: if_splits)

text \<open>The encoder writes what it checked the room for.\<close>

lemma length_b64: "length (b64_encode_loop bs) = (length bs + 2) div 3 * 4"
proof (induction bs rule: b64_encode_loop.induct)
  case (4 a b c r)
  have "(5 + length r) div 3 = Suc ((2 + length r) div 3)" by presburger
  with 4 show ?case by (simp add: Let_def)
qed (simp_all add: Let_def)

text \<open>The decoder never writes past the end of its output.\<close>

lemma b64_put_bound: "b64_put n t s out = Some out' \<Longrightarrow> length out' \<le> n"
  by (auto simp: b64_put_def split: if_splits)

lemma b64_quartet_bound: "b64_quartet n q out = Some (pad, out') \<Longrightarrow> length out' \<le> n"
  by (auto simp: b64_quartet_def Let_def Option.bind_eq_Some_conv dest: b64_put_bound split: if_splits)

lemma b64_decode_bound:
  "b64_decode_loop p n out = Some r \<Longrightarrow> length out \<le> n \<Longrightarrow> length r \<le> n"
proof (induction p n out rule: b64_decode_loop.induct)
  case (1 p n out)
  obtain q p' where g: "b64_gather p [] = Some (q, p')"
    using "1.prems"(1) by (subst (asm) b64_decode_loop.simps) (auto split: option.splits)
  show ?case
  proof (cases "length q = 0")
    case True
    then show ?thesis using "1.prems" g by (subst (asm) b64_decode_loop.simps) simp
  next
    case False
    then have l: "length q = 4" using "1.prems"(1) g by (subst (asm) b64_decode_loop.simps) (auto split: if_splits)
    then obtain pad out' where b: "b64_quartet n q out = Some (pad, out')"
      using "1.prems"(1) g l by (subst (asm) b64_decode_loop.simps) (auto split: option.splits if_splits)
    have o: "length out' \<le> n" using b64_quartet_bound [OF b] .
    show ?thesis
    proof (cases "pad > 0")
      case True
      then show ?thesis using "1.prems"(1) g l b o
        by (subst (asm) b64_decode_loop.simps) (auto split: if_splits)
    next
      case F: False
      then have "b64_decode_loop p' n out' = Some r"
        using "1.prems"(1) g l b by (subst (asm) b64_decode_loop.simps) (auto split: if_splits)
      then show ?thesis using "1.IH" [OF g refl False _ b refl F] l o by simp
    qed
  qed
qed

section \<open>Telephone number round trip\<close>

lemma digit_cases: "isdigit c \<Longrightarrow> \<exists>n < 10. c = digit_char n"
proof -
  assume "isdigit c"
  then have n: "48 \<le> ccode c" "ccode c \<le> 57" by (simp_all add: isdigit_def c_between_def ccode_def)
  then have "c = digit_char (ccode c - 48)" by (simp add: digit_char_def ccode_def)
  moreover have "ccode c - 48 < 10" using n by simp
  ultimately show ?thesis by blast
qed

lemma ccode_digit: "n < 10 \<Longrightarrow> ccode (digit_char n) = 48 + n"
  by (simp add: ccode_def digit_char_def)

lemma digit_val_digit: "n < 10 \<Longrightarrow> digit_val (digit_char n) = of_nat n"
  by (simp add: digit_val_def ccode_digit) (simp add: ccode_def)

lemma bcd_scan_digits:
  "bcd_scan s ds toa = Some (ds', toa') \<Longrightarrow>
     ds' = ds @ filter (\<lambda>c. c \<noteq> CHR ''+'') s \<and> list_all isdigit (filter (\<lambda>c. c \<noteq> CHR ''+'') s)
     \<and> (length ds \<le> 31 \<longrightarrow> length ds' \<le> 31)"
  by (induction s ds toa rule: bcd_scan.induct)
    (auto simp: DBB_MAX_SMS_TARGET_LEN_def split: if_splits)

text \<open>Packing two digits a byte and unpacking them again.\<close>

lemma nibble_digit:
  "n < 10 \<Longrightarrow> m < 16 \<Longrightarrow> (push_bit 4 (of_nat m) OR of_nat n) AND 0x0F = (of_nat n :: u8)"
  "n < 10 \<Longrightarrow> m < 16 \<Longrightarrow> drop_bit 4 (push_bit 4 (of_nat m) OR of_nat n) AND 0x0F = (of_nat m :: u8)"
proof -
  have m4: "(0x0F :: u8) = mask 4" by (simp add: mask_eq_exp_minus_1)
  have lt: "j < 4" if "k < 16" "bit (k :: nat) j" for k j
  proof -
    have "take_bit 4 k = k" using that(1) by (intro take_bit_nat_eq_self) simp
    then show ?thesis using that(2) by (metis bit_take_bit_iff)
  qed
  assume n: "n < 10" and m: "m < 16"
  then have ln: "bit n j \<Longrightarrow> j < 4" and lm: "bit m j \<Longrightarrow> j < 4" for j
    using lt [of n j] lt [of m j] by auto
  show "(push_bit 4 (of_nat m) OR of_nat n) AND 0x0F = (of_nat n :: u8)"
    unfolding m4 by (rule bit_word_eqI)
      (auto simp: bit_and_iff bit_or_iff bit_push_bit_iff bit_mask_iff bit_of_nat_iff dest: ln)
  show "drop_bit 4 (push_bit 4 (of_nat m) OR of_nat n) AND 0x0F = (of_nat m :: u8)"
    unfolding m4 by (rule bit_word_eqI)
      (auto simp: bit_and_iff bit_or_iff bit_push_bit_iff bit_drop_bit_eq bit_mask_iff bit_of_nat_iff dest: ln lm)
qed

lemma bcd_put_digit:
  "n < 10 \<Longrightarrow> length out < k \<Longrightarrow> length out + 1 < size_v \<Longrightarrow>
     bcd_put k size_v (of_nat n) out = Some (out @ [digit_char n])"
proof -
  assume n: "n < 10" and o: "length out < k" "length out + 1 < size_v"
  have u: "unat (of_nat n :: u8) = n" using n by (simp add: unat_of_nat)
  then have "\<not> (9 :: u8) < of_nat n" using n by (simp add: word_less_nat_alt)
  then show ?thesis using o u by (simp add: bcd_put_def)
qed

lemma bcd_put_done: "k \<le> length out \<Longrightarrow> bcd_put k size_v b out = Some out"
  by (simp add: bcd_put_def)

lemma bcd_unpack_pack:
  assumes "list_all isdigit ds" "length out + length ds = k" "k < size_v"
  shows "bcd_unpack (bcd_pack ds) k size_v out = Some (out @ ds)"
  using assms
proof (induction ds arbitrary: out rule: bcd_pack.induct)
  case 1
  then show ?case by simp
next
  case (2 d)
  then obtain n where n: "n < 10" "d = digit_char n" using digit_cases [of d] by auto
  have "(push_bit 4 0x0F OR digit_val d) AND 0x0F = (of_nat n :: u8)"
    using nibble_digit(1) [of n 15] n by (simp add: digit_val_digit)
  with 2 n show ?case by (simp add: bcd_put_digit bcd_put_done)
next
  case (3 d e ds)
  then obtain n m where n: "n < 10" "d = digit_char n" and m: "m < 10" "e = digit_char m"
    using digit_cases [of d] digit_cases [of e] by auto
  let ?b = "push_bit 4 (digit_val e) OR digit_val d"
  have b: "?b AND 0x0F = of_nat n" "drop_bit 4 ?b AND 0x0F = of_nat m"
    using nibble_digit [of n m] n m by (simp_all add: digit_val_digit)
  have p: "bcd_put k size_v (of_nat n) out = Some (out @ [d])"
    "bcd_put k size_v (of_nat m) (out @ [d]) = Some (out @ [d, e])"
    using 3 n m bcd_put_digit [of n out k size_v] bcd_put_digit [of m "out @ [d]" k size_v] by simp_all
  have "bcd_unpack (bcd_pack ds) k size_v (out @ [d, e]) = Some (out @ d # e # ds)"
    using 3 by simp
  then show ?case by (simp add: b p del: drop_bit_or)
qed

lemma length_bcd_pack: "length (bcd_pack ds) = (length ds + 1) div 2"
  by (induction ds rule: bcd_pack.induct) auto

text \<open>Decoding an encoded number gives its digits.\<close>

lemma bcd_roundtrip:
  assumes "encode_bcd_number number m toa0 = Some (bcd, k, toa)" "32 \<le> out_size"
  shows "decode_bcd_number bcd k out_size = Some (filter (\<lambda>c. c \<noteq> CHR ''+'') number)"
proof -
  obtain ds toa1 where s: "bcd_scan number [] toa0 = Some (ds, toa1)"
    and r: "bcd = bcd_pack ds" "k = of_nat (length ds)"
    using assms(1) by (auto simp: encode_bcd_number_def Let_def split: option.splits if_splits)
  note d = bcd_scan_digits [OF s]
  have a: "list_all isdigit ds" "filter (\<lambda>c. c \<noteq> CHR ''+'') number = ds" and l: "length ds \<le> 31"
    using d by (metis append_Nil list.size(3) zero_le)+
  have u: "unat k = length ds" unfolding r(2) using l by (simp add: unat_of_nat)
  have "bcd_unpack (bcd_pack ds) (length ds) out_size [] = Some ([] @ ds)"
    by (rule bcd_unpack_pack) (use a(1) l assms(2) in simp_all)
  then show ?thesis using l assms(2)
    by (simp add: decode_bcd_number_def r(1) u a(2) del: r(2))
qed

section \<open>Decimal numbers\<close>

definition digits_value :: "string \<Rightarrow> nat" where
  "digits_value ds = foldl (\<lambda>n d. 10 * n + (ccode d - ccode CHR ''0'')) 0 ds"

lemma digits_value_append:
  "digits_value (ds @ [d]) = 10 * digits_value ds + (ccode d - ccode CHR ''0'')"
  by (simp add: digits_value_def)

lemma digits_value_show: "digits_value (show_nat n) = n"
proof (induction n rule: show_nat.induct)
  case (1 n)
  show ?case
  proof (cases "n < 10")
    case True
    then show ?thesis by (subst show_nat.simps) (simp add: digits_value_def ccode_digit [unfolded ccode_def] ccode_def)
  next
    case False
    then show ?thesis using 1
      by (subst show_nat.simps) (simp add: digits_value_append ccode_digit [unfolded ccode_def] ccode_def)
  qed
qed

lemma digit_not_special: "isdigit c \<Longrightarrow> \<not> isspace c \<and> c \<noteq> CHR ''-'' \<and> c \<noteq> CHR ''+''"
  by (auto simp: isdigit_def isspace_def c_between_def ccode_def)

lemma isdigit_digit_char: "n < 10 \<Longrightarrow> isdigit (digit_char n)"
  by (auto simp: isdigit_def c_between_def ccode_def digit_char_def)

lemma show_nat_digits: "list_all isdigit (show_nat n)" "show_nat n \<noteq> []"
  by (induction n rule: show_nat.induct) (subst show_nat.simps, simp add: isdigit_digit_char)+

section \<open>The contract of the two encodings\<close>

text \<open>
  An encoder into a text buffer that refuses exactly what does not fit (with its terminator), and a
  decoder that recovers what was encoded.
\<close>

locale text_codec =
  fixes encode :: "bytes \<Rightarrow> nat \<Rightarrow> string option"
    and text_len :: "nat \<Rightarrow> nat"
    and decode :: "string \<Rightarrow> nat \<Rightarrow> bytes option"
  assumes encode_room: "encode bs m = None \<longleftrightarrow> \<not> text_len (length bs) < m"
    and encode_length: "encode bs m = Some s \<Longrightarrow> length s = text_len (length bs)"
    and decode_encode: "encode bs m = Some s \<Longrightarrow> bs \<noteq> [] \<Longrightarrow> length bs \<le> n \<Longrightarrow> decode s n = Some bs"
begin

lemma roundtrip:
  assumes "bs \<noteq> []" "length bs \<le> n"
  shows "if text_len (length bs) < m
    then \<exists>s. encode bs m = Some s \<and> length s = text_len (length bs) \<and> decode s n = Some bs
    else encode bs m = None"
  using assms encode_room [of bs m] encode_length decode_encode by (cases "encode bs m") auto

text \<open>Two different messages never have the same text.\<close>

lemma encode_inj:
  assumes "encode bs m = Some s" "encode bs' m' = Some s" "bs \<noteq> []" "bs' \<noteq> []"
  shows "bs = bs'"
proof -
  let ?n = "max (length bs) (length bs')"
  have "decode s ?n = Some bs" by (rule decode_encode [OF assms(1,3)]) simp
  moreover have "decode s ?n = Some bs'" by (rule decode_encode [OF assms(2,4)]) simp
  ultimately show ?thesis by simp
qed

end

interpretation hex: text_codec dbb_hex_encode "\<lambda>n. 2 * n" hex_to_bytes
  by unfold_locales (auto simp: hex_roundtrip dbb_hex_encode_def length_hex_pairs split: if_splits)

interpretation b64: text_codec dbb_base64_encode "\<lambda>n. (n + 2) div 3 * 4" dbb_base64_decode
  by unfold_locales (auto simp: base64_roundtrip dbb_base64_encode_def length_b64 Let_def split: if_splits)

end
