(* ===== verification/Flt.thy ===== *)
theory Flt
  imports Dbl Fmt "HOL-Library.Signed_Division"
begin

text \<open>
  Division of floating-point numbers and the conversions \<open>%.nf\<close> and \<open>%0nd\<close> of \<open>printf\<close>,
  which the NMEA reports use. Single precision has 24 significant bits, double precision
  53; as in \<open>Dbl\<close>, results are finite and normal, and a NaN is the value \<open>None\<close>.
\<close>

section \<open>Quotients\<close>

text \<open>The positive fraction \<open>n / d\<close> as \<open>q * 2 ^ e\<close> with \<open>p\<close> significant bits, ties to even.\<close>

definition frac_round :: "nat \<Rightarrow> nat \<Rightarrow> nat \<Rightarrow> nat \<times> int" where
  "frac_round p n d =
     (let e = int (num_bits n) - int (num_bits d) - int p;
          e = (if 2 ^ p * (d * 2 ^ nat e) \<le> n * 2 ^ nat (- e) then e + 1 else e)
      in (round_frac (n * 2 ^ nat (- e)) (d * 2 ^ nat e), e))"

fun fl_quot :: "nat \<Rightarrow> dbl \<Rightarrow> dbl \<Rightarrow> dbl" where
  "fl_quot p (Dbl m1 e1) (Dbl m2 e2) =
     (if m1 = 0 then Dbl 0 0
      else let (q, e) = frac_round p (nat \<bar>m1\<bar>) (nat \<bar>m2\<bar>)
           in Dbl (sgn m1 * sgn m2 * int q) (e + e1 - e2))"

text \<open>The conversion of an \<open>int\<close> to \<open>float\<close>, and the division of two floats.\<close>

definition flt_of_int :: "int \<Rightarrow> dbl" where
  "flt_of_int i = fl_quot 24 (Dbl i 0) (Dbl 1 0)"

definition flt_div :: "dbl \<Rightarrow> dbl \<Rightarrow> dbl" where
  "flt_div a b = fl_quot 24 a b"

definition dbl_div :: "dbl \<Rightarrow> dbl \<Rightarrow> dbl" where
  "dbl_div a b = fl_quot 53 a b"

section \<open>Output conversions\<close>

text \<open>\<open>%.kf\<close> of a finite number; a NaN prints as \<open>nan\<close>.\<close>

fun fmt_fixed :: "nat \<Rightarrow> dbl \<Rightarrow> string" where
  "fmt_fixed k (Dbl m e) =
     (let q = round_frac (nat \<bar>m\<bar> * 2 ^ nat e * 10 ^ k) (2 ^ nat (- e))
      in (if m < 0 then ''-'' else []) @ show_nat (q div 10 ^ k) @ ''.'' @ pad_zero k (show_nat (q mod 10 ^ k)))"

definition fmt_float :: "nat \<Rightarrow> dbl option \<Rightarrow> string" where
  "fmt_float k v = (case v of None \<Rightarrow> ''nan'' | Some d \<Rightarrow> fmt_fixed k d)"

text \<open>\<open>%0nd\<close> and \<open>%+0nd\<close>\<close>

definition fmt_int0 :: "nat \<Rightarrow> int \<Rightarrow> string" where
  "fmt_int0 n i = (if i < 0 then CHR ''-'' # pad_zero (n - 1) (show_nat (nat (- i))) else pad_zero n (show_nat (nat i)))"

definition fmt_int_sign0 :: "nat \<Rightarrow> int \<Rightarrow> string" where
  "fmt_int_sign0 n i = (if i < 0 then CHR ''-'' else CHR ''+'') # pad_zero (n - 1) (show_nat (nat \<bar>i\<bar>))"

section \<open>Accuracy\<close>

lemma round_frac_error:
  assumes "0 < d"
  shows "\<bar>of_nat (round_frac n d) - of_nat n / of_nat d\<bar> * 2 \<le> (1 :: rat)"
proof -
  obtain x :: rat where x: "x = of_nat (n mod d) / of_nat d" by blast
  have n: "(of_nat n :: rat) = of_nat (n div d) * of_nat d + of_nat (n mod d)"
    by (metis div_mult_mod_eq of_nat_add of_nat_mult)
  have q: "(of_nat n :: rat) / of_nat d = of_nat (n div d) + x"
    unfolding n x using assms by (simp add: add_divide_distrib)
  have r: "x < 1" "0 \<le> x" using assms by (simp_all add: x divide_less_eq)
  show ?thesis
  proof (cases "2 * (n mod d) > d \<or> (2 * (n mod d) = d \<and> odd (n div d))")
    case True
    then have "d \<le> 2 * (n mod d)" by auto
    then have "(of_nat d :: rat) \<le> 2 * of_nat (n mod d)" by (metis of_nat_le_iff of_nat_mult of_nat_numeral)
    then have "1 \<le> 2 * x" using assms by (simp add: x le_divide_eq)
    moreover have "round_frac n d = n div d + 1" using True by (simp add: round_frac_def Let_def)
    ultimately show ?thesis using r unfolding q by (simp add: abs_le_iff)
  next
    case False
    then have "2 * (n mod d) \<le> d" by auto
    then have "2 * (of_nat (n mod d) :: rat) \<le> of_nat d" by (metis of_nat_le_iff of_nat_mult of_nat_numeral)
    then have "2 * x \<le> 1" using assms by (simp add: x divide_le_eq)
    moreover have "round_frac n d = n div d" unfolding round_frac_def Let_def by (simp only: False if_False)
    ultimately show ?thesis using r unfolding q by (simp add: abs_le_iff)
  qed
qed

text \<open>The scaled fraction has at least \<open>p\<close> bits, so half a unit is at most \<open>2 ^ -p\<close> of it.\<close>

lemma powi_split: "(2 :: rat) ^ nat (- e) / 2 ^ nat e = 2 powi (- e)"
  by (cases "0 \<le> e") (auto simp: power_int_def field_simps)

lemma frac_round_error:
  assumes "0 < n" "0 < d" "frac_round p n d = (q, e)"
  shows "\<bar>of_nat q * 2 powi e - of_nat n / of_nat d\<bar> * 2 ^ p \<le> (of_nat n / of_nat d :: rat)"
proof -
  let ?e0 = "int (num_bits n) - int (num_bits d) - int p"
  obtain x :: rat where x: "x = of_nat n / of_nat d" "0 < x" using assms by simp
  have nb: "2 ^ (num_bits n - 1) \<le> n" "d < 2 ^ num_bits d" "0 < num_bits n"
    using num_bits_bounds [of n] num_bits_bounds [of d] assms num_bits_eq_0 [of n] by auto
  have scaled: "(of_nat (n * 2 ^ nat (- k)) :: rat) / of_nat (d * 2 ^ nat k) = x * 2 powi (- k)" for k
    unfolding x(1) powi_split [symmetric] by simp
  have big: "2 powi (int p - 1) \<le> x * 2 powi (- e)"
  proof (cases "2 ^ p * (d * 2 ^ nat ?e0) \<le> n * 2 ^ nat (- ?e0)")
    case True
    then have e: "e = ?e0 + 1" using assms(3) unfolding frac_round_def Let_def by simp
    have "(of_nat (2 ^ p * (d * 2 ^ nat ?e0)) :: rat) \<le> of_nat (n * 2 ^ nat (- ?e0))"
      using True by (simp only: of_nat_le_iff)
    then have "(2 :: rat) ^ p \<le> of_nat (n * 2 ^ nat (- ?e0)) / of_nat (d * 2 ^ nat ?e0)"
      using assms(2) by (simp add: le_divide_eq)
    then have "2 powi int p \<le> x * 2 powi (- ?e0)" unfolding scaled by simp
    moreover have "(2 :: rat) powi (- ?e0) = 2 * 2 powi (- e)" "(2 :: rat) powi int p = 2 * 2 powi (int p - 1)"
      unfolding e by (simp_all flip: power_int_add_1')
    ultimately show ?thesis by simp
  next
    case False
    then have e: "e = ?e0" using assms(3) unfolding frac_round_def Let_def by simp
    have "(2 :: rat) powi (int (num_bits n) - 1) \<le> of_nat n"
    proof -
      have "(of_nat (2 ^ (num_bits n - 1)) :: rat) \<le> of_nat n" using nb(1) by (simp only: of_nat_le_iff)
      moreover have "int (num_bits n) - 1 = int (num_bits n - 1)" using nb(3) by simp
      ultimately show ?thesis by (simp only: power_int_of_nat of_nat_power of_nat_numeral)
    qed
    moreover have "(of_nat d :: rat) \<le> 2 powi int (num_bits d)"
    proof -
      have "(of_nat d :: rat) \<le> of_nat (2 ^ num_bits d)" using nb(2) by (simp only: of_nat_le_iff)
      then show ?thesis by (simp only: power_int_of_nat of_nat_power of_nat_numeral)
    qed
    ultimately have "2 powi (int (num_bits n) - 1) / 2 powi int (num_bits d) \<le> x"
      unfolding x(1) using assms by (intro frac_le) simp_all
    then have "2 powi (int (num_bits n) - 1) / 2 powi int (num_bits d) * 2 powi (- e) \<le> x * 2 powi (- e)"
      by (rule mult_right_mono) simp
    moreover have "(2 :: rat) powi (int (num_bits n) - 1) / 2 powi int (num_bits d) * 2 powi (- e) = 2 powi (int p - 1)"
      unfolding e by (subst power_int_diff [symmetric], simp, subst power_int_add [symmetric], simp, simp)
    ultimately show ?thesis by simp
  qed
  have "q = round_frac (n * 2 ^ nat (- e)) (d * 2 ^ nat e)"
    using assms(3) unfolding frac_round_def Let_def by auto
  then have "\<bar>of_nat q - x * 2 powi (- e)\<bar> * 2 \<le> 1"
    using round_frac_error [of "d * 2 ^ nat e" "n * 2 ^ nat (- e)"] assms(2) unfolding scaled by simp
  then have "\<bar>of_nat q - x * 2 powi (- e)\<bar> * 2 * 2 powi (int p - 1) \<le> 1 * (x * 2 powi (- e))"
    using big by (intro mult_mono) simp_all
  moreover have "(2 :: rat) * 2 powi (int p - 1) = 2 ^ p"
    by (simp add: power_int_diff)
  ultimately have "\<bar>of_nat q - x * 2 powi (- e)\<bar> * 2 ^ p \<le> x * 2 powi (- e)"
    by (metis mult.assoc mult_1)
  then have "\<bar>of_nat q - x * 2 powi (- e)\<bar> * 2 ^ p * 2 powi e \<le> x * 2 powi (- e) * 2 powi e"
    by (rule mult_right_mono) simp
  moreover have "x * 2 powi (- e) * 2 powi e = x" by (simp add: mult.assoc flip: power_int_add)
  moreover have "\<bar>of_nat q - x * 2 powi (- e)\<bar> * 2 ^ p * 2 powi e = \<bar>of_nat q * 2 powi e - x\<bar> * 2 ^ p"
  proof -
    have "of_nat q * 2 powi e - x = (of_nat q - x * 2 powi (- e)) * 2 powi e"
      by (simp add: left_diff_distrib mult.assoc flip: power_int_add)
    then show ?thesis by (simp add: abs_mult)
  qed
  ultimately show ?thesis by (simp only: x(1))
qed

lemma fl_quot_error:
  assumes "mant b \<noteq> 0"
  shows "\<bar>dval (fl_quot p a b) - dval a / dval b\<bar> * 2 ^ p \<le> \<bar>dval a / dval b\<bar>"
proof (cases "mant a = 0")
  case True
  then show ?thesis by (cases a; cases b) (simp add: dval_def)
next
  case False
  obtain m1 e1 m2 e2 where ab: "a = Dbl m1 e1" "b = Dbl m2 e2" by (metis dbl.exhaust)
  obtain q e where r: "frac_round p (nat \<bar>m1\<bar>) (nat \<bar>m2\<bar>) = (q, e)" by force
  have m: "m1 \<noteq> 0" "m2 \<noteq> 0" using False assms by (simp_all add: ab)
  obtain s :: rat where s: "s = of_int (sgn m1 * sgn m2) * 2 powi (e1 - e2)" by blast
  have s0: "\<bar>s\<bar> = 2 powi (e1 - e2)" using m by (simp add: s abs_mult sgn_if)
  have f: "dval (fl_quot p a b) = s * (of_nat q * 2 powi e)"
    using m by (simp add: ab r dval_def s power_int_add power_int_diff field_simps)
  have g: "dval a / dval b = s * (of_nat (nat \<bar>m1\<bar>) / of_nat (nat \<bar>m2\<bar>))"
    using m by (simp add: ab dval_def s power_int_diff sgn_if mult.commute)
  have "\<bar>s\<bar> * (\<bar>of_nat q * 2 powi e - of_nat (nat \<bar>m1\<bar>) / of_nat (nat \<bar>m2\<bar>)\<bar> * 2 ^ p)
      \<le> \<bar>s\<bar> * (of_nat (nat \<bar>m1\<bar>) / of_nat (nat \<bar>m2\<bar>))"
    by (rule mult_left_mono [OF frac_round_error [OF _ _ r]]) (use m in simp_all)
  then show ?thesis unfolding f g right_diff_distrib [symmetric] abs_mult by simp
qed

end
