(* ===== verification/Minmea.thy ===== *)
theory Minmea
  imports Codec Flt
begin

text \<open>
  The NMEA parser \<open>core/third_party/minmea.c\<close>, as far as the program uses it: the check of a
  sentence, the scanner that reads its fields by a format string, and the parsers of the nine
  sentences. A sentence is a C string (no NUL), the target is a 32-bit ARM, so \<open>int\<close> and \<open>long\<close>
  have 32 bits. What the C standard leaves undefined is the result \<open>Undefined\<close>: a scale that
  overflows, a signal name longer than its array, \<open>abs (INT_MIN)\<close>.
\<close>

section \<open>Results\<close>

datatype 'a parse = Parsed 'a | Parse_error | Undefined

fun bind_parse :: "'a parse \<Rightarrow> ('a \<Rightarrow> 'b parse) \<Rightarrow> 'b parse" where
  "bind_parse (Parsed x) f = f x"
| "bind_parse Parse_error f = Parse_error"
| "bind_parse Undefined f = Undefined"

named_theorems parse_iff

lemma bind_parse_Parsed [parse_iff]: "bind_parse m f = Parsed y \<longleftrightarrow> (\<exists>x. m = Parsed x \<and> f x = Parsed y)"
  by (cases m) auto

lemma bind_parse_Undefined [parse_iff]:
  "bind_parse m f = Undefined \<longleftrightarrow> m = Undefined \<or> (\<exists>x. m = Parsed x \<and> f x = Undefined)"
  by (cases m) auto

section \<open>Checking a sentence\<close>

definition isprint :: "char \<Rightarrow> bool" where
  "isprint c \<longleftrightarrow> c_between CHR '' '' CHR ''~'' c"

definition minmea_isfield :: "char \<Rightarrow> bool" where
  "minmea_isfield c \<longleftrightarrow> isprint c \<and> c \<noteq> CHR '','' \<and> c \<noteq> CHR ''*''"

definition hex2int :: "char \<Rightarrow> int" where
  "hex2int c =
     (if c_between CHR ''0'' CHR ''9'' c then int (ccode c) - int (ccode CHR ''0'')
      else if c_between CHR ''A'' CHR ''F'' c then int (ccode c) - int (ccode CHR ''A'') + 10
      else if c_between CHR ''a'' CHR ''f'' c then int (ccode c) - int (ccode CHR ''a'') + 10
      else - 1)"

text \<open>The loop over the bytes between the dollar sign and the asterisk.\<close>

fun check_xor :: "string \<Rightarrow> u8 \<Rightarrow> u8 \<times> string" where
  "check_xor [] checksum = (checksum, [])"
| "check_xor (c # s) checksum =
     (if c \<noteq> CHR ''*'' \<and> isprint c then check_xor s (checksum XOR of_nat (ccode c)) else (checksum, c # s))"

definition minmea_check :: "string \<Rightarrow> bool \<Rightarrow> bool" where
  "minmea_check sentence strict =
     (case sentence of
        [] \<Rightarrow> False
      | c # s \<Rightarrow>
          if c \<noteq> CHR ''$'' then False
          else let (checksum, s) = check_xor s 0
               in (case s of
                     a # r \<Rightarrow>
                       if a = CHR ''*'' then
                         (case r of
                            u # l # r \<Rightarrow>
                              hex2int u \<noteq> - 1 \<and> hex2int l \<noteq> - 1
                              \<and> int (unat checksum) = 16 * hex2int u + hex2int l
                              \<and> dropWhile (\<lambda>c. c = CR \<or> c = LF) r = []
                          | _ \<Rightarrow> False)
                       else \<not> strict \<and> dropWhile (\<lambda>c. c = CR \<or> c = LF) s = []
                   | [] \<Rightarrow> \<not> strict))"

section \<open>Fields\<close>

record minmea_float =
  mf_value :: int
  mf_scale :: int

record minmea_date =
  md_day :: int
  md_month :: int
  md_year :: int

record minmea_time =
  mt_hours :: int
  mt_minutes :: int
  mt_seconds :: int
  mt_microseconds :: int

text \<open>What the scanner stores through its pointers. A type is the talker and the sentence name.\<close>

datatype nmea_val =
    Chr char | Dir int | Flt minmea_float | Num int | Str string | Typ string string
  | Dat minmea_date | Tim minmea_time

definition INT_MAX :: int where "INT_MAX = 2147483647"

text \<open>
  The loop of format \<open>f\<close>: sign (0 when there was none), value (-1 without digits) and scale
  (0 without a decimal point). Digits beyond the range of the value are cut off after the
  decimal point and an error before it.
\<close>

fun scan_float :: "string \<Rightarrow> int \<Rightarrow> int \<Rightarrow> int \<Rightarrow> (int \<times> int \<times> int) parse" where
  "scan_float [] sign v scale = Parsed (sign, v, scale)"
| "scan_float (c # s) sign v scale =
     (if \<not> minmea_isfield c then Parsed (sign, v, scale)
      else if c = CHR ''+'' \<and> sign = 0 \<and> v = - 1 then scan_float s 1 v scale
      else if c = CHR ''-'' \<and> sign = 0 \<and> v = - 1 then scan_float s (- 1) v scale
      else if isdigit c then
        (let digit = int (ccode c) - int (ccode CHR ''0'');
             v = (if v = - 1 then 0 else v)
         in if v > (INT_MAX - digit) div 10 then
              (if scale \<noteq> 0 then Parsed (sign, v, scale) else Parse_error)
            else if 10 * scale > INT_MAX then Undefined
            else scan_float s sign (10 * v + digit) (10 * scale))
      else if c = CHR ''.'' \<and> scale = 0 then scan_float s sign v 1
      else if c = CHR '' '' then
        (if sign \<noteq> 0 \<or> v \<noteq> - 1 \<or> scale \<noteq> 0 then Parse_error else scan_float s sign v scale)
      else Parse_error)"

definition float_field :: "string option \<Rightarrow> minmea_float parse" where
  "float_field field =
     bind_parse (case field of None \<Rightarrow> Parsed (0, - 1, 0) | Some s \<Rightarrow> scan_float s 0 (- 1) 0)
       (\<lambda>(sign, v, scale).
          if (sign \<noteq> 0 \<or> scale \<noteq> 0) \<and> v = - 1 then Parse_error
          else
            let (v, scale) = (if v = - 1 then (0, 0) else if scale = 0 then (v, 1) else (v, scale))
            in Parsed \<lparr>mf_value = (if sign \<noteq> 0 then v * sign else v), mf_scale = scale\<rparr>)"

text \<open>\<open>strtol (s, \<And>end, 10)\<close>: the value, clamped to 32 bits, and the text at \<open>end\<close>.\<close>

definition strtol10 :: "string \<Rightarrow> int \<times> string" where
  "strtol10 s =
     (let t = dropWhile isspace s;
          (neg, t) = (case t of c # cs \<Rightarrow> if c = CHR ''-'' then (True, cs) else if c = CHR ''+'' then (False, cs) else (False, t)
                      | [] \<Rightarrow> (False, t));
          ds = takeWhile isdigit t;
          v = int (digits_value ds)
      in if ds = [] then (0, s)
         else (if neg then max (- INT_MAX - 1) (- v) else min INT_MAX v, dropWhile isdigit t))"

definition int_field :: "string option \<Rightarrow> int parse" where
  "int_field field =
     (case field of
        None \<Rightarrow> Parsed 0
      | Some s \<Rightarrow>
          let (v, r) = strtol10 s
          in (case r of c # _ \<Rightarrow> if minmea_isfield c then Parse_error else Parsed v | [] \<Rightarrow> Parsed v))"

definition char_field :: "string option \<Rightarrow> char" where
  "char_field field = (case field of Some (c # _) \<Rightarrow> if minmea_isfield c then c else NUL | _ \<Rightarrow> NUL)"

definition dir_field :: "string option \<Rightarrow> int parse" where
  "dir_field field =
     (let c = char_field field
      in if c = NUL then Parsed 0
         else if c = CHR ''N'' \<or> c = CHR ''E'' then Parsed 1
         else if c = CHR ''S'' \<or> c = CHR ''W'' then Parsed (- 1)
         else Parse_error)"

definition string_field :: "string option \<Rightarrow> string" where
  "string_field field = (case field of None \<Rightarrow> [] | Some s \<Rightarrow> takeWhile minmea_isfield s)"

text \<open>Six digits at the start of a text, and the three numbers they stand for.\<close>

definition six_digits :: "string \<Rightarrow> bool" where
  "six_digits s \<longleftrightarrow> 6 \<le> length s \<and> list_all isdigit (take 6 s)"

definition two :: "string \<Rightarrow> nat \<Rightarrow> int" where
  "two s i = int (digits_value (take 2 (drop i s)))"

definition date_field :: "string option \<Rightarrow> minmea_date parse" where
  "date_field field =
     (if char_field field = NUL then Parsed \<lparr>md_day = - 1, md_month = - 1, md_year = - 1\<rparr>
      else case field of
        None \<Rightarrow> Parse_error
      | Some s \<Rightarrow>
          if six_digits s then Parsed \<lparr>md_day = two s 0, md_month = two s 2, md_year = two s 4\<rparr>
          else Parse_error)"

text \<open>The fraction of a second: at most six digits, scaled to microseconds.\<close>

fun micros :: "string \<Rightarrow> u32 \<Rightarrow> u32 \<Rightarrow> u32" where
  "micros (c # s) v scale =
     (if isdigit c \<and> scale > 1 then micros s (v * 10 + of_nat (ccode c - ccode CHR ''0'')) (scale div 10) else v * scale)"
| "micros [] v scale = v * scale"

definition time_field :: "string option \<Rightarrow> minmea_time parse" where
  "time_field field =
     (if char_field field = NUL
      then Parsed \<lparr>mt_hours = - 1, mt_minutes = - 1, mt_seconds = - 1, mt_microseconds = - 1\<rparr>
      else case field of
        None \<Rightarrow> Parse_error
      | Some s \<Rightarrow>
          if six_digits s then
            Parsed \<lparr>mt_hours = two s 0, mt_minutes = two s 2, mt_seconds = two s 4,
                    mt_microseconds = (case drop 6 s of c # r \<Rightarrow> if c = CHR ''.'' then uint (micros r 0 1000000) else 0 | [] \<Rightarrow> 0)\<rparr>
          else Parse_error)"

definition type_field :: "string option \<Rightarrow> nmea_val parse" where
  "type_field field =
     (case field of
        Some (d # s) \<Rightarrow>
          if d = CHR ''$'' \<and> 5 \<le> length s \<and> list_all minmea_isfield (take 5 s)
          then Parsed (Typ (take 2 s) (take 3 (drop 2 s)))
          else Parse_error
      | _ \<Rightarrow> Parse_error)"

section \<open>The scanner\<close>

definition map_parse :: "('a \<Rightarrow> nmea_val) \<Rightarrow> 'a parse \<Rightarrow> nmea_val list parse" where
  "map_parse f m = bind_parse m (\<lambda>x. Parsed [f x])"

definition scan_field :: "char \<Rightarrow> string option \<Rightarrow> nmea_val list parse" where
  "scan_field type field =
     (if type = CHR ''c'' then Parsed [Chr (char_field field)]
      else if type = CHR ''d'' then map_parse Dir (dir_field field)
      else if type = CHR ''f'' then map_parse Flt (float_field field)
      else if type = CHR ''i'' then map_parse Num (int_field field)
      else if type = CHR ''s'' then Parsed [Str (string_field field)]
      else if type = CHR ''t'' then map_parse id (type_field field)
      else if type = CHR ''D'' then map_parse Dat (date_field field)
      else if type = CHR ''T'' then map_parse Tim (time_field field)
      else if type = CHR ''_'' then Parsed []
      else Parse_error)"

text \<open>The macro \<open>next_field\<close>: the scanner's position, and the field there.\<close>

definition next_field :: "string \<Rightarrow> string \<times> string option" where
  "next_field sentence =
     (case dropWhile minmea_isfield sentence of
        c # s \<Rightarrow> if c = CHR '','' then (s, Some s) else (c # s, None)
      | [] \<Rightarrow> ([], None))"

fun scan_loop :: "string \<Rightarrow> string \<Rightarrow> string option \<Rightarrow> bool \<Rightarrow> nmea_val list parse" where
  "scan_loop [] sentence field optional = Parsed []"
| "scan_loop (type # format) sentence field optional =
     (if type = CHR '';'' then scan_loop format sentence field True
      else if field = None \<and> \<not> optional then Parse_error
      else bind_parse (scan_field type field)
             (\<lambda>v. let (sentence, field) = next_field sentence
                  in bind_parse (scan_loop format sentence field optional) (\<lambda>vs. Parsed (v @ vs))))"

definition minmea_scan :: "string \<Rightarrow> string \<Rightarrow> nmea_val list parse" where
  "minmea_scan sentence format = scan_loop format sentence (Some sentence) False"

definition minmea_talker_id :: "string \<Rightarrow> string option" where
  "minmea_talker_id sentence =
     (case minmea_scan sentence ''t'' of Parsed [Typ talker _] \<Rightarrow> Some talker | _ \<Rightarrow> None)"

section \<open>Sentences\<close>

datatype minmea_sentence_id =
    MINMEA_INVALID | MINMEA_UNKNOWN | MINMEA_SENTENCE_GBS | MINMEA_SENTENCE_GGA | MINMEA_SENTENCE_GLL
  | MINMEA_SENTENCE_GSA | MINMEA_SENTENCE_GST | MINMEA_SENTENCE_GSV | MINMEA_SENTENCE_RMC
  | MINMEA_SENTENCE_VTG | MINMEA_SENTENCE_ZDA | MINMEA_SENTENCE_HDT | MINMEA_SENTENCE_NTR
  | MINMEA_SENTENCE_ORI | MINMEA_SENTENCE_ROT | MINMEA_SENTENCE_TRA | MINMEA_SENTENCE_DTM

definition sentence_id_map :: "(string \<times> minmea_sentence_id) list" where
  "sentence_id_map =
     [(''INVALID'', MINMEA_INVALID), (''GBS'', MINMEA_SENTENCE_GBS), (''GGA'', MINMEA_SENTENCE_GGA),
      (''GLL'', MINMEA_SENTENCE_GLL), (''GSA'', MINMEA_SENTENCE_GSA), (''GST'', MINMEA_SENTENCE_GST),
      (''GSV'', MINMEA_SENTENCE_GSV), (''RMC'', MINMEA_SENTENCE_RMC), (''VTG'', MINMEA_SENTENCE_VTG),
      (''ZDA'', MINMEA_SENTENCE_ZDA), (''HDT'', MINMEA_SENTENCE_HDT), (''NTR'', MINMEA_SENTENCE_NTR),
      (''ORI'', MINMEA_SENTENCE_ORI), (''ROT'', MINMEA_SENTENCE_ROT), (''TRA'', MINMEA_SENTENCE_TRA),
      (''DTM'', MINMEA_SENTENCE_DTM)]"

text \<open>\<open>memcmp\<close> compares the first three characters of an entry.\<close>

definition minmea_sentence_id_of :: "string \<Rightarrow> bool \<Rightarrow> minmea_sentence_id" where
  "minmea_sentence_id_of sentence strict =
     (if \<not> minmea_check sentence strict then MINMEA_INVALID
      else case minmea_scan sentence ''t'' of
        Parsed [Typ talker name] \<Rightarrow>
          (case find (\<lambda>(str, _). take 3 str = name) sentence_id_map of
             None \<Rightarrow> MINMEA_UNKNOWN
           | Some (_, t) \<Rightarrow> t)
      | _ \<Rightarrow> MINMEA_INVALID)"

record minmea_sentence_gbs =
  gbs_time :: minmea_time
  gbs_err_latitude :: minmea_float
  gbs_err_longitude :: minmea_float
  gbs_err_altitude :: minmea_float
  gbs_svid :: int
  gbs_prob :: minmea_float
  gbs_bias :: minmea_float
  gbs_stddev :: minmea_float

record minmea_sentence_rmc =
  rmc_time :: minmea_time
  rmc_valid :: bool
  rmc_latitude :: minmea_float
  rmc_longitude :: minmea_float
  rmc_speed :: minmea_float
  rmc_course :: minmea_float
  rmc_date :: minmea_date
  rmc_variation :: minmea_float

record minmea_sentence_gga =
  gga_time :: minmea_time
  gga_latitude :: minmea_float
  gga_longitude :: minmea_float
  gga_fix_quality :: int
  gga_satellites_tracked :: int
  gga_hdop :: minmea_float
  gga_altitude :: minmea_float
  gga_altitude_units :: char
  gga_height :: minmea_float
  gga_height_units :: char
  gga_dgps_age :: minmea_float

record minmea_sentence_gll =
  gll_latitude :: minmea_float
  gll_longitude :: minmea_float
  gll_time :: minmea_time
  gll_status :: char
  gll_mode :: char

record minmea_sentence_gst =
  gst_time :: minmea_time
  gst_rms_deviation :: minmea_float
  gst_semi_major_deviation :: minmea_float
  gst_semi_minor_deviation :: minmea_float
  gst_semi_major_orientation :: minmea_float
  gst_latitude_error_deviation :: minmea_float
  gst_longitude_error_deviation :: minmea_float
  gst_altitude_error_deviation :: minmea_float

record minmea_sentence_gsa =
  gsa_mode :: char
  gsa_fix_type :: int
  gsa_sats :: "int list"
  gsa_pdop :: minmea_float
  gsa_hdop :: minmea_float
  gsa_vdop :: minmea_float

record minmea_sat_info =
  sv_nr :: int
  sv_elevation :: int
  sv_azimuth :: int
  sv_snr :: minmea_float

record minmea_sentence_gsv =
  gsv_total_msgs :: int
  gsv_msg_nr :: int
  gsv_total_sats :: int
  gsv_signal_id :: string
  gsv_sats :: "minmea_sat_info list"

record minmea_sentence_vtg =
  vtg_true_track_degrees :: minmea_float
  vtg_magnetic_track_degrees :: minmea_float
  vtg_speed_knots :: minmea_float
  vtg_speed_kph :: minmea_float
  vtg_faa_mode :: char

record minmea_sentence_zda =
  zda_time :: minmea_time
  zda_date :: minmea_date
  zda_hour_offset :: int
  zda_minute_offset :: int

definition sat_info_of :: "int \<Rightarrow> int \<Rightarrow> int \<Rightarrow> minmea_float \<Rightarrow> minmea_sat_info" where
  "sat_info_of nr elevation azimuth snr = \<lparr>sv_nr = nr, sv_elevation = elevation, sv_azimuth = azimuth, sv_snr = snr\<rparr>"

text \<open>A coordinate with the sign of its direction, and a value that needs its unit.\<close>

definition mf_times :: "minmea_float \<Rightarrow> int \<Rightarrow> minmea_float" where
  "mf_times f d = f\<lparr>mf_value := mf_value f * d\<rparr>"

definition mf_unit :: "char \<Rightarrow> char \<Rightarrow> minmea_float \<Rightarrow> minmea_float" where
  "mf_unit unit c f = (if c \<noteq> unit then f\<lparr>mf_scale := 0\<rparr> else f)"

definition minmea_parse_gbs :: "string \<Rightarrow> minmea_sentence_gbs parse" where
  "minmea_parse_gbs sentence =
     bind_parse (minmea_scan sentence ''tTfffifff'')
       (\<lambda>vs. case vs of
          [Typ _ name, Tim t, Flt elat, Flt elon, Flt ealt, Num svid, Flt prob, Flt bias, Flt stddev] \<Rightarrow>
            if name \<noteq> ''GBS'' then Parse_error
            else Parsed \<lparr>gbs_time = t, gbs_err_latitude = elat, gbs_err_longitude = elon, gbs_err_altitude = ealt,
                         gbs_svid = svid, gbs_prob = prob, gbs_bias = bias, gbs_stddev = stddev\<rparr>
        | _ \<Rightarrow> Parse_error)"

definition minmea_parse_rmc :: "string \<Rightarrow> minmea_sentence_rmc parse" where
  "minmea_parse_rmc sentence =
     bind_parse (minmea_scan sentence ''tTcfdfdffDfd'')
       (\<lambda>vs. case vs of
          [Typ _ name, Tim t, Chr validity, Flt lat, Dir latd, Flt lon, Dir lond, Flt speed, Flt course,
           Dat date, Flt variation, Dir vard] \<Rightarrow>
            if name \<noteq> ''RMC'' then Parse_error
            else Parsed \<lparr>rmc_time = t, rmc_valid = (validity = CHR ''A''), rmc_latitude = mf_times lat latd,
                         rmc_longitude = mf_times lon lond, rmc_speed = speed, rmc_course = course,
                         rmc_date = date, rmc_variation = mf_times variation vard\<rparr>
        | _ \<Rightarrow> Parse_error)"

definition minmea_parse_gga :: "string \<Rightarrow> minmea_sentence_gga parse" where
  "minmea_parse_gga sentence =
     bind_parse (minmea_scan sentence ''tTfdfdiiffcfcf_'')
       (\<lambda>vs. case vs of
          [Typ _ name, Tim t, Flt lat, Dir latd, Flt lon, Dir lond, Num fix_q, Num sats, Flt hdop,
           Flt alt, Chr altu, Flt height, Chr heightu, Flt age] \<Rightarrow>
            if name \<noteq> ''GGA'' then Parse_error
            else Parsed \<lparr>gga_time = t, gga_latitude = mf_times lat latd, gga_longitude = mf_times lon lond,
                         gga_fix_quality = fix_q, gga_satellites_tracked = sats, gga_hdop = hdop,
                         gga_altitude = alt, gga_altitude_units = altu, gga_height = height,
                         gga_height_units = heightu, gga_dgps_age = age\<rparr>
        | _ \<Rightarrow> Parse_error)"

definition minmea_parse_gsa :: "string \<Rightarrow> minmea_sentence_gsa parse" where
  "minmea_parse_gsa sentence =
     bind_parse (minmea_scan sentence ''tciiiiiiiiiiiiifff'')
       (\<lambda>vs. case vs of
          [Typ _ name, Chr mode, Num fix_t, Num s0, Num s1, Num s2, Num s3, Num s4, Num s5, Num s6, Num s7,
           Num s8, Num s9, Num s10, Num s11, Flt pdop, Flt hdop, Flt vdop] \<Rightarrow>
            if name \<noteq> ''GSA'' then Parse_error
            else Parsed \<lparr>gsa_mode = mode, gsa_fix_type = fix_t,
                         gsa_sats = [s0, s1, s2, s3, s4, s5, s6, s7, s8, s9, s10, s11],
                         gsa_pdop = pdop, gsa_hdop = hdop, gsa_vdop = vdop\<rparr>
        | _ \<Rightarrow> Parse_error)"

definition minmea_parse_gll :: "string \<Rightarrow> minmea_sentence_gll parse" where
  "minmea_parse_gll sentence =
     bind_parse (minmea_scan sentence ''tfdfdTc;c'')
       (\<lambda>vs. case vs of
          [Typ _ name, Flt lat, Dir latd, Flt lon, Dir lond, Tim t, Chr status, Chr mode] \<Rightarrow>
            if name \<noteq> ''GLL'' then Parse_error
            else Parsed \<lparr>gll_latitude = mf_times lat latd, gll_longitude = mf_times lon lond, gll_time = t,
                         gll_status = status, gll_mode = mode\<rparr>
        | _ \<Rightarrow> Parse_error)"

definition minmea_parse_gst :: "string \<Rightarrow> minmea_sentence_gst parse" where
  "minmea_parse_gst sentence =
     bind_parse (minmea_scan sentence ''tTfffffff'')
       (\<lambda>vs. case vs of
          [Typ _ name, Tim t, Flt rms, Flt smaj, Flt smin, Flt orient, Flt elat, Flt elon, Flt ealt] \<Rightarrow>
            if name \<noteq> ''GST'' then Parse_error
            else Parsed \<lparr>gst_time = t, gst_rms_deviation = rms, gst_semi_major_deviation = smaj,
                         gst_semi_minor_deviation = smin, gst_semi_major_orientation = orient,
                         gst_latitude_error_deviation = elat, gst_longitude_error_deviation = elon,
                         gst_altitude_error_deviation = ealt\<rparr>
        | _ \<Rightarrow> Parse_error)"

text \<open>The array of the signal name has eight characters.\<close>

definition minmea_parse_gsv :: "string \<Rightarrow> minmea_sentence_gsv parse" where
  "minmea_parse_gsv sentence =
     bind_parse (minmea_scan sentence ''tiii;iiifiiifiiifiiif;s'')
       (\<lambda>vs. case vs of
          [Typ _ name, Num tot, Num nr, Num sats, Num n0, Num e0, Num a0, Flt r0, Num n1, Num e1, Num a1, Flt r1,
           Num n2, Num e2, Num a2, Flt r2, Num n3, Num e3, Num a3, Flt r3, Str signal] \<Rightarrow>
            if 8 \<le> length signal then Undefined
            else if name \<noteq> ''GSV'' then Parse_error
            else Parsed \<lparr>gsv_total_msgs = tot, gsv_msg_nr = nr, gsv_total_sats = sats, gsv_signal_id = signal,
                         gsv_sats = [sat_info_of n0 e0 a0 r0, sat_info_of n1 e1 a1 r1,
                                     sat_info_of n2 e2 a2 r2, sat_info_of n3 e3 a3 r3]\<rparr>
        | _ \<Rightarrow> Parse_error)"

definition minmea_parse_vtg :: "string \<Rightarrow> minmea_sentence_vtg parse" where
  "minmea_parse_vtg sentence =
     bind_parse (minmea_scan sentence ''t;fcfcfcfcc'')
       (\<lambda>vs. case vs of
          [Typ _ name, Flt tr, Chr ctr, Flt mag, Chr cmag, Flt knots, Chr cknots, Flt kph, Chr ckph, Chr faa] \<Rightarrow>
            if name \<noteq> ''VTG'' then Parse_error
            else Parsed \<lparr>vtg_true_track_degrees = mf_unit CHR ''T'' ctr tr,
                         vtg_magnetic_track_degrees = mf_unit CHR ''M'' cmag mag,
                         vtg_speed_knots = mf_unit CHR ''N'' cknots knots,
                         vtg_speed_kph = mf_unit CHR ''K'' ckph kph, vtg_faa_mode = faa\<rparr>
        | _ \<Rightarrow> Parse_error)"

definition minmea_parse_zda :: "string \<Rightarrow> minmea_sentence_zda parse" where
  "minmea_parse_zda sentence =
     bind_parse (minmea_scan sentence ''tTiiiii'')
       (\<lambda>vs. case vs of
          [Typ _ name, Tim t, Num day, Num month, Num year, Num ho, Num mo] \<Rightarrow>
            if name \<noteq> ''ZDA'' then Parse_error
            else if ho = - INT_MAX - 1 then Undefined
            else if \<bar>ho\<bar> > 13 \<or> mo > 59 \<or> mo < 0 then Parse_error
            else Parsed \<lparr>zda_time = t, zda_date = \<lparr>md_day = day, md_month = month, md_year = year\<rparr>,
                         zda_hour_offset = ho, zda_minute_offset = mo\<rparr>
        | _ \<Rightarrow> Parse_error)"

section \<open>Conversions\<close>

definition minmea_tofloat :: "minmea_float \<Rightarrow> dbl option" where
  "minmea_tofloat f =
     (if mf_scale f = 0 then None else Some (flt_div (flt_of_int (mf_value f)) (flt_of_int (mf_scale f))))"

definition minmea_tocoord :: "minmea_float \<Rightarrow> dbl option" where
  "minmea_tocoord f =
     (if mf_scale f = 0 \<or> mf_scale f > INT_MAX div 100 \<or> mf_scale f < (- INT_MAX - 1) sdiv 100 then None
      else
        let degrees = mf_value f sdiv (mf_scale f * 100);
            minutes = mf_value f smod (mf_scale f * 100)
        in Some (dbl_add (dbl_of_int degrees) (dbl_div (dbl_of_int minutes) (dbl_of_int (60 * mf_scale f)))))"

end
