(* ===== verification/GnssFile.thy ===== *)
theory GnssFile
  imports Report GnssCtl Minmea
begin

text \<open>
  The files that the gateway writes: \<open>gnss_ephb_info_file_header\<close> and the CSV appends of
  \<open>core/src/gnss_ephb_info.c\<close>, and \<open>gnss_nmea_file_header\<close>, \<open>gnss_nmea_ex_file_header\<close> of
  \<open>core/src/gnss_nmea.c\<close>. \<open>tstr\<close> is the local time as \<open>strftime\<close> prints it. Whether
  \<open>fopen\<close> succeeds is a script; the files are a log of what was written where.
\<close>

section \<open>Files\<close>

datatype file_event = File_created string | File_text string string

record file_world =
  fgnss :: gnss_world
  fopen_script :: "bool list"       \<comment> \<open>the next \<open>fopen\<close> calls; afterwards they succeed\<close>
  file_log :: "file_event list"
  ephb_path_buf :: string           \<comment> \<open>the static \<open>file_path\<close> of each function\<close>
  nmea_path_buf :: string
  nmea_ex_path_buf :: string

definition run_fopen :: "file_world \<Rightarrow> bool \<times> file_world" where
  "run_fopen w = (case fopen_script w of [] \<Rightarrow> (True, w) | b # bs \<Rightarrow> (b, w\<lparr>fopen_script := bs\<rparr>))"

definition log_file :: "file_event list \<Rightarrow> file_world \<Rightarrow> file_world" where
  "log_file es w = w\<lparr>file_log := file_log w @ es\<rparr>"

definition set_gctrl :: "(gnss_ctrl_t \<Rightarrow> gnss_ctrl_t) \<Rightarrow> file_world \<Rightarrow> file_world" where
  "set_gctrl f w = w\<lparr>fgnss := (fgnss w)\<lparr>gctrl := f (gctrl (fgnss w))\<rparr>\<rparr>"

section \<open>NMEA files\<close>

definition nmea_file_type_from_name :: "string \<Rightarrow> minmea_sentence_id" where
  "nmea_file_type_from_name name =
     (if name = ''gbs'' then MINMEA_SENTENCE_GBS
      else if name = ''gga'' then MINMEA_SENTENCE_GGA
      else if name = ''gll'' then MINMEA_SENTENCE_GLL
      else if name = ''gsa'' then MINMEA_SENTENCE_GSA
      else if name = ''gst'' then MINMEA_SENTENCE_GST
      else if name = ''gsv'' then MINMEA_SENTENCE_GSV
      else if name = ''rmc'' then MINMEA_SENTENCE_RMC
      else if name = ''vtg'' then MINMEA_SENTENCE_VTG
      else if name = ''zda'' then MINMEA_SENTENCE_ZDA
      else MINMEA_UNKNOWN)"

text \<open>
  \<open>nmea_file_config\<close> and \<open>nmea_ex_file_config\<close> return a pointer into \<open>gnss_ctrl\<close>: here
  the member of a sentence, as a reader and as an updater.
\<close>

fun nmea_info :: "minmea_sentence_id \<Rightarrow> gnss_nmea_cfg_t \<Rightarrow> gnss_nmea_data_info_t option" where
  "nmea_info MINMEA_SENTENCE_GBS c = Some (nmea_gbs c)"
| "nmea_info MINMEA_SENTENCE_GGA c = Some (nmea_gga c)"
| "nmea_info MINMEA_SENTENCE_GLL c = Some (nmea_gll c)"
| "nmea_info MINMEA_SENTENCE_GSA c = Some (nmea_gsa c)"
| "nmea_info MINMEA_SENTENCE_GST c = Some (nmea_gst c)"
| "nmea_info MINMEA_SENTENCE_GSV c = Some (nmea_gsv c)"
| "nmea_info MINMEA_SENTENCE_RMC c = Some (nmea_rmc c)"
| "nmea_info MINMEA_SENTENCE_VTG c = Some (nmea_vtg c)"
| "nmea_info MINMEA_SENTENCE_ZDA c = Some (nmea_zda c)"
| "nmea_info _ c = None"

fun nmea_info_set :: "minmea_sentence_id \<Rightarrow> (gnss_nmea_data_info_t \<Rightarrow> gnss_nmea_data_info_t) \<Rightarrow> gnss_nmea_cfg_t \<Rightarrow> gnss_nmea_cfg_t" where
  "nmea_info_set MINMEA_SENTENCE_GBS f c = nmea_gbs_update f c"
| "nmea_info_set MINMEA_SENTENCE_GGA f c = nmea_gga_update f c"
| "nmea_info_set MINMEA_SENTENCE_GLL f c = nmea_gll_update f c"
| "nmea_info_set MINMEA_SENTENCE_GSA f c = nmea_gsa_update f c"
| "nmea_info_set MINMEA_SENTENCE_GST f c = nmea_gst_update f c"
| "nmea_info_set MINMEA_SENTENCE_GSV f c = nmea_gsv_update f c"
| "nmea_info_set MINMEA_SENTENCE_RMC f c = nmea_rmc_update f c"
| "nmea_info_set MINMEA_SENTENCE_VTG f c = nmea_vtg_update f c"
| "nmea_info_set MINMEA_SENTENCE_ZDA f c = nmea_zda_update f c"
| "nmea_info_set _ f c = c"

definition nmea_file_config :: "minmea_sentence_id \<Rightarrow> gnss_ctrl_t \<Rightarrow> File_cfg_t option" where
  "nmea_file_config t g = map_option nmea_file (nmea_info t (cfg_nmea (data_cfg g)))"

definition nmea_ex_file_config :: "minmea_sentence_id \<Rightarrow> gnss_ctrl_t \<Rightarrow> File_cfg_t option" where
  "nmea_ex_file_config t g = map_option nmea_file_ex (nmea_info t (cfg_nmea (data_cfg g)))"

definition set_nmea_info :: "minmea_sentence_id \<Rightarrow> (gnss_nmea_data_info_t \<Rightarrow> gnss_nmea_data_info_t) \<Rightarrow> gnss_ctrl_t \<Rightarrow> gnss_ctrl_t" where
  "set_nmea_info t f g = g\<lparr>data_cfg := (data_cfg g)\<lparr>cfg_nmea := nmea_info_set t f (cfg_nmea (data_cfg g))\<rparr>\<rparr>"

text \<open>
  Both functions have the same body: \<open>part\<close> is the prefix of the file name, \<open>upd\<close> the
  member that is set. The result is the new path, the state after the call.
\<close>

definition nmea_header_body ::
    "string \<Rightarrow> ((File_cfg_t \<Rightarrow> File_cfg_t) \<Rightarrow> gnss_nmea_data_info_t \<Rightarrow> gnss_nmea_data_info_t) \<Rightarrow>
     minmea_sentence_id \<Rightarrow> string \<Rightarrow> u8 \<Rightarrow> string \<Rightarrow> file_world \<Rightarrow> string \<times> file_world" where
  "nmea_header_body part upd t type enable tstr w =
     (let path = c_snprintf 128 (part @ type @ ''_'' @ tstr @ ''.txt'');
          set_en = (\<lambda>v. set_gctrl (set_nmea_info t (upd (file_en_update (\<lambda>_. v)))))
      in if enable \<noteq> 0 then
           let (ok, w) = run_fopen w
           in if \<not> ok then (path, set_en 0 w)
              else
                let w = log_file [File_created path] w;
                    w = set_gctrl (set_nmea_info t (upd (file_path_update (\<lambda>_. c_snprintf 128 path)))) w
                in (path, set_en 1 w)
         else (path, set_en 0 w))"

definition gnss_nmea_file_header :: "string \<Rightarrow> u8 \<Rightarrow> string \<Rightarrow> file_world \<Rightarrow> string \<times> file_world" where
  "gnss_nmea_file_header type enable tstr w =
     (let t = nmea_file_type_from_name type
      in case nmea_file_config t (gctrl (fgnss w)) of
           None \<Rightarrow> (nmea_path_buf w, w)
         | Some _ \<Rightarrow>
             (let (path, w) = nmea_header_body ''/root/nmea_'' nmea_file_update t type enable tstr w
              in (path, w\<lparr>nmea_path_buf := path\<rparr>)))"

definition gnss_nmea_ex_file_header :: "string \<Rightarrow> u8 \<Rightarrow> string \<Rightarrow> file_world \<Rightarrow> string \<times> file_world" where
  "gnss_nmea_ex_file_header type enable tstr w =
     (let t = nmea_file_type_from_name type
      in case nmea_ex_file_config t (gctrl (fgnss w)) of
           None \<Rightarrow> (nmea_ex_path_buf w, w)
         | Some _ \<Rightarrow>
             (let (path, w) = nmea_header_body ''/root/nmea_ex_'' nmea_file_ex_update t type enable tstr w
              in (path, w\<lparr>nmea_ex_path_buf := path\<rparr>)))"

section \<open>Ephemeris files\<close>

text \<open>The header lines, as the source has them.\<close>

definition gpsephb_header :: string where
  "gpsephb_header =
     ''gps_week_count,gps_tow_s,gps_satid,gps_sv_accuracy,gps_sv_health,gps_week,gps_toe,gps_toc,gps_af0,gps_af1,gps_af2,gps_iode,gps_iodc,gps_idot,gps_crs,gps_crc,gps_cus,gps_cuc,gps_cis,gps_cic,gps_delta_n,gps_m0,gps_ecc,gps_a_half,gps_omega0,gps_i0,gps_omega,gps_omegadot,gps_tgd,gps_code_on_l2,gps_l2p_data_flag,gps_fit'' @
     [CHR 0x0A]"

definition gloephb_header :: string where
  "gloephb_header =
     ''gps_week_count,gps_tow_s,glo_satid,glo_freq,glo_bn_msb,glo_n4,glo_nt,glo_tk_hour:glo_tk_min:glo_tk_sec,glo_tb_minute:glo_tb_minute*glo_tb, glo_gamma, glo_tau, glo_x, glo_x_dot, glo_x_ddot, glo_y, glo_y_dot, glo_y_ddot, glo_z, glo_z_dot, glo_z_ddot'' @
     [CHR 0x0A]"

definition galephb_header :: string where
  "galephb_header =
     ''gps_week_count,gps_tow_s,gal_satid,gal_sisa,gal_e5b_sv_health,gal_e5b_valid,gal_e1b_health,gal_e1b_valid,gal_week,gal_toe,gal_toc,gal_af0,gal_af1,gal_af2,gal_iodnav,gal_idot,gal_crs,gal_crc,gal_cus,gal_cuc,gal_cis,gal_cic,gal_delta_n,gal_m0,gal_ecc,gal_a_half,gal_omega0,gal_i0,gal_omega,gal_omegadot,gal_bgd_e5a_e1,gal_bgd_e5b_e1,gal_navtype'' @
     [CHR 0x0A]"

definition bd2ephb_header :: string where
  "bd2ephb_header =
     ''gps_week_count,gps_tow_s,bd2_satid,bd2_sv_urai,bd2_sv_health,bd2_week,bd2_toe,bd2_toc,bd2_af0,bd2_af1,bd2_af2,bd2_aode,bd2_aodc,bd2_idot,bd2_crs,bd2_crc,bd2_cus,bd2_cuc,bd2_cis,bd2_cic,bd2_delta_n,bd2_m0,bd2_ecc,bd2_a_half,bd2_omega0,bd2_i0,bd2_omega,bd2_omegadot,bd2_tgd1,bd2_tgd2'' @
     [CHR 0x0A]"

definition bd3ephb_header :: string where
  "bd3ephb_header =
     ''gps_week_count,gps_tow_s,bd3_satid,bd3_sattype,bd3_week,bd3_toe,bd3_toc,bd3_af0,bd3_af1,bd3_af2,bd3_iode,bd3_iodc,bd3_idot,bd3_crs,bd3_crc,bd3_cus,bd3_cuc,bd3_cis,bd3_cic'' @
     [CHR 0x09] @
     ''bd3_delta_n0'' @
     [CHR 0x09] @
     ''b'' @
     [CHR 0xD0, CHR 0xB4] @
     ''3_delta_n0_dot'' @
     [CHR 0x09] @
     ''b'' @
     [CHR 0xD0, CHR 0xB4] @
     ''3_m0'' @
     [CHR 0x09] @
     ''b'' @
     [CHR 0xD0, CHR 0xB4] @
     ''3_ecc'' @
     [CHR 0x09] @
     ''b'' @
     [CHR 0xD0, CHR 0xB4] @
     ''3_deltaA'' @
     [CHR 0x09] @
     ''b'' @
     [CHR 0xD0, CHR 0xB4] @
     ''3_adot'' @
     [CHR 0x09] @
     ''b'' @
     [CHR 0xD0, CHR 0xB4] @
     ''3_omega0'' @
     [CHR 0x09] @
     ''b'' @
     [CHR 0xD0, CHR 0xB4] @
     ''3_i0'' @
     [CHR 0x09] @
     ''b'' @
     [CHR 0xD0, CHR 0xB4] @
     ''3_omega'' @
     [CHR 0x09] @
     ''b'' @
     [CHR 0xD0, CHR 0xB4] @
     ''3_omegadot'' @
     [CHR 0x09] @
     ''b'' @
     [CHR 0xD0, CHR 0xB4] @
     ''3_tgdb1cp'' @
     [CHR 0x09] @
     ''b'' @
     [CHR 0xD0, CHR 0xB4] @
     ''3_tgdb2ap'' @
     [CHR 0x09] @
     ''b'' @
     [CHR 0xD0, CHR 0xB4] @
     ''3_iscb1cd'' @
     [CHR 0x0A]"

definition bdxwephb_header :: string where
  "bdxwephb_header =
     ''gps_week_count,gps_tow_s,xws_satid,xws_sattype,xws_week,xws_toe,xws_toc,xws_af0,xws_af1,xws_iodc,xws_iode,xws_crs,xws_crc,xws_cus,xws_cuc,xws_cis,xws_cic,xws_delta_n0,xws_delta_n0_dot,xws_m0,xws_ecc,xws_deltaA0,xws_i0_dot,xws_a_dot,xws_delta_i0,xws_omega0,xws_omega_dot,xws_omega'' @
     [CHR 0x0A]"

definition bd3cnav2ephb_header :: string where
  "bd3cnav2ephb_header =
     ''gps_week_count,gps_tow_s,bds_satid,bds_sattype,bds_week,bds_toe,bds_toc,bds_af0,bds_af1,bds_af2,bds_iode,bds_iodc,bds_idot,bds_crs,bds_crc,bds_cus,bds_cuc,bds_cis,bds_cic,bds_delta_n0,bds_delta_n0_dot,bds_m0,bds_ecc,bds_AA,bds_adot,bds_omega0,bds_i0,bds_omega,bds_omegadot,bds_tgdb1cp,bds_tgdb2ap,bds_iscb2ad'' @
     [CHR 0x0A]"

definition bd3cnav3ephb_header :: string where
  "bd3cnav3ephb_header =
     ''gps_week_count,gps_tow_s,bds_satid,bds_sattype,bds_week,bds_toe,bds_toc,bds_af0,bds_af1,bds_af2,bds_iode,bds_iodc,but bgs_idot,but bgs_crs,but bgs_crc,but bgs_cus,but bgs_cuc,but bgs_cis,but bgs_cic,but bgs_delta_n0,but bgs_delta_n0_dot,but bgs_m0,but bgs_ecc,but bgs_deltaA,but bgs_adot,but bgs_omega0,but bgs_i0,but bgs_omega,but bgs_omegadot,but bgs_tgdb2bI'' @
     [CHR 0x0A]"

text \<open>The branch of \<open>gnss_ephb_info_file_header\<close> for a type name.\<close>

definition ephb_branch ::
    "string \<Rightarrow> (((gnss_eph_data_info_t \<Rightarrow> gnss_eph_data_info_t) \<Rightarrow> gnss_ephb_cfg_t \<Rightarrow> gnss_ephb_cfg_t) \<times> string) option" where
  "ephb_branch type =
     (if type = ''gpsephb'' then Some (eph_gps_update, gpsephb_header)
      else if type = ''gloephb'' then Some (eph_glo_update, gloephb_header)
      else if type = ''galephb'' then Some (eph_gal_update, galephb_header)
      else if type = ''bd2ephb'' then Some (eph_bd2_update, bd2ephb_header)
      else if type = ''bd3ephb'' then Some (eph_bd3_update, bd3ephb_header)
      else if type = ''bdxwephb'' then Some (eph_bdxw_update, bdxwephb_header)
      else if type = ''bd3cnav2ephb'' then Some (eph_bd3cnav2_update, bd3cnav2ephb_header)
      else if type = ''bd3cnav3ephb'' then Some (eph_bd3cnav3_update, bd3cnav3ephb_header)
      else None)"

definition set_eph_file ::
    "((gnss_eph_data_info_t \<Rightarrow> gnss_eph_data_info_t) \<Rightarrow> gnss_ephb_cfg_t \<Rightarrow> gnss_ephb_cfg_t) \<Rightarrow>
     (File_cfg_t \<Rightarrow> File_cfg_t) \<Rightarrow> gnss_ctrl_t \<Rightarrow> gnss_ctrl_t" where
  "set_eph_file upd f g =
     g\<lparr>data_cfg := (data_cfg g)\<lparr>cfg_ephb := upd (eph_file_update f) (cfg_ephb (data_cfg g))\<rparr>\<rparr>"

text \<open>\<open>memcpy\<close> of the 128 bytes of \<open>path\<close>; \<open>en\<close> is set whether or not the file was opened.\<close>

definition gnss_ephb_info_file_header :: "string \<Rightarrow> u8 \<Rightarrow> string \<Rightarrow> file_world \<Rightarrow> string \<times> file_world" where
  "gnss_ephb_info_file_header type enable tstr w =
     (let path = c_snprintf 256 (''/root/ephb_'' @ type @ ''_'' @ tstr @ ''.csv'');
          w = w\<lparr>ephb_path_buf := path\<rparr>;
          w = (case ephb_branch type of
                 None \<Rightarrow> w
               | Some (upd, header) \<Rightarrow>
                   let (ok, w) = (if enable \<noteq> 0 then run_fopen w else (False, w));
                       w = (if ok then log_file [File_created path, File_text path header]
                              (set_gctrl (set_eph_file upd (file_path_update (\<lambda>_. take 128 path))) w)
                            else w)
                   in set_gctrl (set_eph_file upd (file_en_update (\<lambda>_. if enable \<noteq> 0 then 1 else 0))) w)
      in (path, w\<lparr>fgnss := gnss_cfg_data type enable 1 (fgnss w)\<rparr>))"

text \<open>
  The appends. \<open>gpsephb_file_append\<close> closes the stream also when \<open>fopen\<close> failed, and
  \<open>fclose (NULL)\<close> is undefined: \<open>None\<close>.
\<close>

definition append_row :: "string \<Rightarrow> string \<Rightarrow> file_world \<Rightarrow> file_world" where
  "append_row path row w =
     (let (ok, w) = run_fopen w in if ok then log_file [File_text path row] w else w)"

definition eph_cfg_of :: "file_world \<Rightarrow> gnss_ephb_cfg_t" where
  "eph_cfg_of w = cfg_ephb (data_cfg (gctrl (fgnss w)))"

definition bd2ephb_file_append :: "BD2EPHB_Decoded_t \<Rightarrow> file_world \<Rightarrow> file_world" where
  "bd2ephb_file_append eph w = append_row (file_path (eph_file (eph_bd2 (eph_cfg_of w)))) (csv_row (bd2ephb_cells eph)) w"

definition bd3ephb_file_append :: "BD3EPHB_Decoded_t \<Rightarrow> file_world \<Rightarrow> file_world" where
  "bd3ephb_file_append eph w = append_row (file_path (eph_file (eph_bd3 (eph_cfg_of w)))) (csv_row (bd3ephb_cells eph)) w"

definition csv_row_plain :: "field_val list \<Rightarrow> string" where
  "csv_row_plain vs =
     join_commas (map (\<lambda>v. case v of N n \<Rightarrow> show_nat n | D d \<Rightarrow> fmt_e12_plain d) vs) @ [LF]"

definition bdxwephb_file_append :: "BDXWEPHB_Decoded_t \<Rightarrow> file_world \<Rightarrow> file_world" where
  "bdxwephb_file_append eph w = append_row (file_path (eph_file (eph_bdxw (eph_cfg_of w)))) (csv_row_plain (bdxwephb_cells eph)) w"

definition bd3cnav2ephb_file_append :: "BD3CNAV2EPHB_Decoded_t \<Rightarrow> file_world \<Rightarrow> file_world" where
  "bd3cnav2ephb_file_append eph w = append_row (file_path (eph_file (eph_bd3cnav2 (eph_cfg_of w)))) (csv_row (bd3cnav2ephb_cells eph)) w"

definition bd3cnav3ephb_file_append :: "BD3CNAV3EPHB_Decoded_t \<Rightarrow> file_world \<Rightarrow> file_world" where
  "bd3cnav3ephb_file_append eph w = append_row (file_path (eph_file (eph_bd3cnav3 (eph_cfg_of w)))) (csv_row (bd3cnav3ephb_cells eph)) w"

definition gpsephb_file_append :: "GPSEPHB_Decoded_t \<Rightarrow> file_world \<Rightarrow> file_world option" where
  "gpsephb_file_append eph w =
     (let (ok, w) = run_fopen w
      in if ok then Some (log_file [File_text (file_path (eph_file (eph_gps (eph_cfg_of w))))
                                      (c_snprintf 2048 (csv_row (gpsephb_cells eph)))] w)
         else None)"

section \<open>Header lines and rows\<close>

lemma header_columns:
  "columns gpsephb_header = 32" "columns bd2ephb_header = 30" "columns bd3ephb_header = 19"
  "columns bdxwephb_header = 28" "columns bd3cnav2ephb_header = 32" "columns bd3cnav3ephb_header = 30"
  by (simp_all add: columns_def gpsephb_header_def bd2ephb_header_def bd3ephb_header_def
      bdxwephb_header_def bd3cnav2ephb_header_def bd3cnav3ephb_header_def)

lemma row_cells:
  "length (gpsephb_cells g) = 32" "length (bd2ephb_cells b2) = 30" "length (bd3ephb_cells b3) = 32"
  "length (bdxwephb_cells x) = 28" "length (bd3cnav2ephb_cells c2) = 32" "length (bd3cnav3ephb_cells c3) = 30"
  by (simp_all add: gpsephb_cells_def bd2ephb_cells_def bd3ephb_cells_def bdxwephb_cells_def
      bd3cnav2ephb_cells_def bd3cnav3ephb_cells_def)

lemma plain_no_comma: "filter (\<lambda>c. c = CHR '','') (fmt_e12_plain d) = []"
proof -
  have "fmt_e12 d \<noteq> []" by (cases d) (auto simp: Let_def split: prod.splits)
  then show ?thesis using fmt_e12_no_comma [of d]
    by (cases "fmt_e12 d") (auto simp: fmt_e12_plain_def split: if_splits)
qed

lemma columns_csv_row_plain: "vs \<noteq> [] \<Longrightarrow> columns (csv_row_plain vs) = length vs"
proof -
  assume ne: "vs \<noteq> []"
  let ?ss = "map (\<lambda>v. case v of N n \<Rightarrow> show_nat n | D d \<Rightarrow> fmt_e12_plain d) vs"
  have "columns (join_commas ?ss) = length ?ss"
    by (rule columns_join) (use ne in \<open>auto simp: show_nat_no_comma plain_no_comma split: field_val.splits\<close>)
  then show ?thesis by (simp add: csv_row_plain_def columns_def LF_def)
qed

lemma columns_of_cells:
  "length vs = n \<Longrightarrow> 0 < n \<Longrightarrow> columns (csv_row vs) = n"
  "length vs = n \<Longrightarrow> 0 < n \<Longrightarrow> columns (csv_row_plain vs) = n"
  using columns_csv_row [of vs] columns_csv_row_plain [of vs] by auto

lemma row_columns:
  "columns (csv_row (gpsephb_cells g)) = 32" "columns (csv_row (bd2ephb_cells b2)) = 30"
  "columns (csv_row (bd3ephb_cells b3)) = 32" "columns (csv_row_plain (bdxwephb_cells x)) = 28"
  "columns (csv_row (bd3cnav2ephb_cells c2)) = 32" "columns (csv_row (bd3cnav3ephb_cells c3)) = 30"
  by (rule columns_of_cells, rule row_cells, simp)+

text \<open>The cells of a row are the decoded fields in the order of the message; the BDXW row leaves
  out the four corrections \<open>xws_deltacic\<close> to \<open>xws_deltacrc\<close>.\<close>

lemma cells_values:
  "bd2ephb_cells b2 = take 30 (bd2_values b2)"
  "bd3ephb_cells b3 = take 32 (bd3_values b3)"
  "bdxwephb_cells x = take 17 (bdxw_values x) @ take 11 (drop 21 (bdxw_values x))"
  "bd3cnav2ephb_cells c2 = take 32 (cnav2_values c2)"
  "bd3cnav3ephb_cells c3 = take 30 (cnav3_values c3)"
  "gpsephb_cells g = take 32 (gps_values g)"
  by (simp_all add: bd2ephb_cells_def bd3ephb_cells_def bdxwephb_cells_def bd3cnav2ephb_cells_def
      bd3cnav3ephb_cells_def gpsephb_cells_def bd2_values_def bd3_values_def bdxw_values_def
      cnav2_values_def cnav3_values_def gps_values_def)

end
