(* ===== verification/NetFrame.thy ===== *)
theory NetFrame
  imports GnssTypes
begin

text \<open>
  The frames exchanged with a network client (\<open>core/src/comm_service.c\<close>): the checksum,
  the two frame builders \<open>net_send\<close> and \<open>net_send_eph\<close> up to the call of the transport,
  and the acceptance test of \<open>comm_service_receive\<close>. A frame is
  \<open>AA 55 | id | cmd | len | payload | checksum | FF EE\<close>, integers little-endian.
\<close>

definition NET_FRAME_HEAD_REVERSE :: u16 where
  "NET_FRAME_HEAD_REVERSE = 0x55AA"

definition NET_FRAME_TAIL_REVERSE :: u16 where
  "NET_FRAME_TAIL_REVERSE = 0xEEFF"

definition SEND_CMD_EPH_INFO :: u8 where "SEND_CMD_EPH_INFO = 0x11"
definition SEND_CMD_EPH_SW :: u8 where "SEND_CMD_EPH_SW = 0x20"
definition SEND_CMD_OUTPUT_FREQ :: u8 where "SEND_CMD_OUTPUT_FREQ = 0x21"

text \<open>\<open>sizeof (net_frame_t)\<close>, the frame without its payload.\<close>

definition NET_FRAME_SIZE :: nat where
  "NET_FRAME_SIZE = 10"

definition check_sum :: "bytes \<Rightarrow> nat \<Rightarrow> u8" where
  "check_sum data len = (if len = 0 then 0 else foldl (+) 0 (take len data))"

text \<open>
  The contents of \<open>send_buf\<close> up to the length given to the transport. The length field
  is the low 16 bits of the length. The payload must fit the 65536 bytes of the buffer;
  the program's payloads have at most 227 bytes.
\<close>

definition net_frame :: "glob_comm_config_t \<Rightarrow> u8 \<Rightarrow> bytes \<Rightarrow> bytes" where
  "net_frame cfg cmd data =
     (let body = le16 (comm_id cfg) @ [cmd] @ le16 (of_nat (length data)) @ data
      in le16 NET_FRAME_HEAD_REVERSE @ body
         @ [check_sum body (length data + 5)] @ le16 NET_FRAME_TAIL_REVERSE)"

definition net_frame_eph :: "glob_comm_config_t \<Rightarrow> EPH_Type_t \<Rightarrow> bytes \<Rightarrow> bytes" where
  "net_frame_eph cfg eph_type data =
     (let body = le16 (comm_id cfg) @ [SEND_CMD_EPH_INFO] @ le16 (of_nat (length data + 1))
            @ [EPH_Type_code eph_type] @ data
      in le16 NET_FRAME_HEAD_REVERSE @ body
         @ [check_sum body (length data + 6)] @ le16 NET_FRAME_TAIL_REVERSE)"

text \<open>
  The test of \<open>comm_service_receive\<close> on a receive buffer \<open>mem\<close> that holds \<open>len\<close> bytes of
  data, and the command and payload that it hands on.
\<close>

definition rx_frame :: "bytes \<Rightarrow> nat \<Rightarrow> (u8 \<times> bytes) option" where
  "rx_frame mem len =
     (let flen = unat (rd16 mem 5)
      in if rd16 mem 0 \<noteq> NET_FRAME_HEAD_REVERSE \<or> len < flen + NET_FRAME_SIZE
            \<or> mem ! (7 + flen) \<noteq> check_sum (drop 2 mem) (flen + 5)
            \<or> rd16 mem (8 + flen) \<noteq> NET_FRAME_TAIL_REVERSE
         then None
         else Some (mem ! 4, take flen (drop 7 mem)))"

section \<open>Frames that were sent are accepted\<close>

lemma foldl_plus: "foldl (+) a bs = a + foldl (+) (0 :: 'a::monoid_add) bs"
  by (induction bs arbitrary: a) (simp, metis add.assoc add.left_neutral foldl_Cons)

lemma check_sum_sum_list: "check_sum data len = sum_list (take len data)"
proof -
  have "foldl (+) 0 bs = sum_list bs" for bs :: bytes
    by (induction bs) (simp, metis foldl_Cons foldl_plus add_0 sum_list.Cons)
  then show ?thesis by (simp add: check_sum_def)
qed

lemma rd16_le16 [simp]: "rd16 (le16 w @ r) 0 = w"
  by (rule rd16_bytes) (simp_all add: le16_def)

lemma rd16_skip: "length p = i \<Longrightarrow> rd16 (p @ r) (i + j) = rd16 r j"
  by (auto simp: rd16_def nth_append simp flip: add_Suc_right)

lemma rd16_le16_at: "length p = i \<Longrightarrow> rd16 (p @ le16 w @ r) i = w"
  using rd16_skip [of p i "le16 w @ r" 0] by simp

lemma nth_at: "length p = i \<Longrightarrow> (p @ x # r) ! i = x"
  by (simp add: nth_append)

lemma unat_of_nat16: "n < 65536 \<Longrightarrow> unat (of_nat n :: u16) = n"
  by (simp add: unat_of_nat)

lemma net_frame_length: "length (net_frame cfg cmd data) = length data + NET_FRAME_SIZE"
  by (simp add: net_frame_def Let_def NET_FRAME_SIZE_def)

lemma net_frame_eph_as_frame: "net_frame_eph cfg t data = net_frame cfg SEND_CMD_EPH_INFO (EPH_Type_code t # data)"
  by (simp add: net_frame_eph_def net_frame_def Let_def add.commute)

lemma rx_net_frame:
  assumes "length data < 65536" "length data + NET_FRAME_SIZE \<le> len"
  shows "rx_frame (net_frame cfg cmd data @ rest) len = Some (cmd, data)"
proof -
  let ?L = "length data"
  let ?h = "le16 NET_FRAME_HEAD_REVERSE" and ?i = "le16 (comm_id cfg)" and ?l = "le16 (of_nat ?L :: u16)"
  let ?body = "?i @ [cmd] @ ?l @ data"
  let ?c = "check_sum ?body (?L + 5)" and ?t = "le16 NET_FRAME_TAIL_REVERSE"
  let ?m = "net_frame cfg cmd data @ rest"
  have m: "?m = ?h @ ?body @ [?c] @ ?t @ rest" by (simp add: net_frame_def Let_def)
  have flen: "unat (rd16 ?m 5) = ?L"
    using rd16_le16_at [of "?h @ ?i @ [cmd]" 5 "of_nat ?L" "data @ [?c] @ ?t @ rest"] assms
    by (simp add: m unat_of_nat16)
  have hd: "rd16 ?m 0 = NET_FRAME_HEAD_REVERSE" by (simp add: m)
  have chk: "?m ! (7 + ?L) = ?c"
    using nth_at [of "?h @ ?body" "7 + ?L" ?c "?t @ rest"] by (simp add: m)
  have sum: "check_sum (drop 2 ?m) (?L + 5) = ?c"
  proof -
    have "drop 2 ?m = ?body @ [?c] @ ?t @ rest" by (simp add: m)
    moreover have "length ?body = ?L + 5" by simp
    ultimately have "take (?L + 5) (drop 2 ?m) = take (?L + 5) ?body"
      by (simp only: take_append) simp
    then show ?thesis by (simp only: check_sum_def)
  qed
  have tl: "rd16 ?m (8 + ?L) = NET_FRAME_TAIL_REVERSE"
    using rd16_le16_at [of "?h @ ?body @ [?c]" "8 + ?L" NET_FRAME_TAIL_REVERSE rest] by (simp add: m)
  have cmd: "?m ! 4 = cmd"
    using nth_at [of "?h @ ?i" 4 cmd "?l @ data @ [?c] @ ?t @ rest"] by (simp add: m)
  have pay: "take ?L (drop 7 ?m) = data" by (simp add: m)
  show ?thesis
    unfolding rx_frame_def Let_def flen hd chk sum tl cmd pay using assms by simp
qed

section \<open>Corrupted frames are rejected\<close>

lemma sum_list_update:
  "k < length bs \<Longrightarrow> sum_list (bs[k := b]) = sum_list bs + b - (bs ! k :: u8)"
  by (induction bs arbitrary: k) (auto split: nat.split simp: nth_Cons' algebra_simps)

text \<open>
  A frame with one altered byte, other than in the length field, fails the test: the
  checksum covers the bytes after the start marker.
\<close>

lemma rx_corrupt_body:
  assumes ok: "rx_frame mem len = Some (cmd, data)" and mem: "length data + NET_FRAME_SIZE \<le> length mem"
    and k: "k < length data + NET_FRAME_SIZE" "k \<notin> {5, 6}" and b: "b \<noteq> mem ! k"
  shows "rx_frame (mem[k := b]) len = None"
proof -
  let ?f = "unat (rd16 mem 5)" and ?m = "mem[k := b]"
  have f: "length data = ?f" and acc: "rd16 mem 0 = NET_FRAME_HEAD_REVERSE"
    "?f + NET_FRAME_SIZE \<le> len" "mem ! (7 + ?f) = check_sum (drop 2 mem) (?f + 5)"
    "rd16 mem (8 + ?f) = NET_FRAME_TAIL_REVERSE"
    using ok mem by (auto simp: rx_frame_def Let_def NET_FRAME_SIZE_def split: if_splits)
  have f': "rd16 ?m 5 = rd16 mem 5" using k by (auto simp: rd16_def nth_list_update)
  have rd: "rd16 ?m j = rd16 mem j \<longleftrightarrow> k \<noteq> j \<and> k \<noteq> Suc j" if j: "Suc j < length mem" for j
  proof (cases "k = j \<or> k = Suc j")
    case True
    obtain n where n: "n < 8" "bit b n \<noteq> bit (mem ! k) n"
      using b bit_word_eqI [of b "mem ! k"] by auto
    have low: "bit (rd16 q j) n = bit (q ! j) n" "bit (rd16 q j) (n + 8) = bit (q ! Suc j) n" for q
      using n(1) bit_imp_le_length [of "q ! j" "n + 8"] bit_imp_le_length [of "q ! Suc j" n]
      by (auto simp: rd16_def bit_or_iff bit_push_bit_iff bit_ucast_iff)
    have "rd16 ?m j \<noteq> rd16 mem j"
    proof
      assume e: "rd16 ?m j = rd16 mem j"
      have "bit (?m ! j) n = bit (mem ! j) n" "bit (?m ! Suc j) n = bit (mem ! Suc j) n"
        using low [of ?m] low [of mem] unfolding e by simp_all
      with True n(2) j show False by (auto simp: nth_list_update)
    qed
    with True show ?thesis by blast
  next
    case False
    then show ?thesis by (simp add: rd16_def nth_list_update)
  qed
  consider "k < 2" | "2 \<le> k" "k < ?f + 7" | "k = ?f + 7" | "k = ?f + 8 \<or> k = ?f + 9"
    using k f unfolding NET_FRAME_SIZE_def by linarith
  then show ?thesis
  proof cases
    case 1
    then have "rd16 ?m 0 \<noteq> rd16 mem 0" using rd [of 0] mem by (auto simp: NET_FRAME_SIZE_def)
    with acc show ?thesis by (simp add: rx_frame_def Let_def)
  next
    case 2
    let ?bs = "take (?f + 5) (drop 2 mem)"
    have len: "k - 2 < length ?bs" using 2 mem f by (simp add: NET_FRAME_SIZE_def)
    have e: "take (?f + 5) (drop 2 ?m) = ?bs[k - 2 := b]"
      using 2 by (simp add: drop_update_swap take_update_swap)
    have "sum_list (?bs[k - 2 := b]) = sum_list ?bs + b - ?bs ! (k - 2)"
      using len by (rule sum_list_update)
    moreover have "Suc (Suc (k - 2)) = k" using 2 by simp
    then have "?bs ! (k - 2) = mem ! k" using 2 len mem f by (simp add: NET_FRAME_SIZE_def)
    ultimately have "check_sum (drop 2 ?m) (?f + 5) \<noteq> check_sum (drop 2 mem) (?f + 5)"
      using b by (simp add: check_sum_sum_list e)
    moreover have "?m ! (7 + ?f) = mem ! (7 + ?f)" using 2 by simp
    ultimately show ?thesis using acc by (simp add: rx_frame_def Let_def f')
  next
    case 3
    have "drop 2 ?m = (drop 2 mem)[k - 2 := b]" using 3 by (simp add: drop_update_swap)
    then have "check_sum (drop 2 ?m) (?f + 5) = check_sum (drop 2 mem) (?f + 5)"
      using 3 by (simp add: check_sum_sum_list take_update_cancel)
    moreover have "?m ! (7 + ?f) = b" using 3 mem f by (simp add: NET_FRAME_SIZE_def add.commute)
    moreover have "mem ! k = check_sum (drop 2 mem) (?f + 5)" using acc 3 by (simp add: add.commute)
    ultimately show ?thesis using b unfolding rx_frame_def Let_def f' by simp
  next
    case 4
    then have "rd16 ?m (8 + ?f) \<noteq> rd16 mem (8 + ?f)"
      using rd [of "8 + ?f"] mem f by (auto simp: NET_FRAME_SIZE_def)
    with acc show ?thesis by (simp add: rx_frame_def Let_def f')
  qed
qed

end
