(* ===== verification/RingQueue.thy ===== *)
theory RingQueue
  imports Prelude
begin

text \<open>
  The contract of the transmit queues of the network services, and the arithmetic of the
  ring buffers that implement them. \<open>bounded_fifo\<close> states what a service relies on; the
  lemmas in it are about any sequence of submissions and deliveries, so they hold for
  every interleaving of the threads at the queue (each operation runs under the queue's
  mutex). The services interpret it on their own operations.
\<close>

section \<open>Ring buffers\<close>

definition ring_elems :: "'a list \<Rightarrow> nat \<Rightarrow> nat \<Rightarrow> 'a list" where
  "ring_elems slots h n = map (\<lambda>k. slots ! ((h + k) mod length slots)) [0..<n]"

definition ring_ok :: "nat \<Rightarrow> 'a list \<Rightarrow> nat \<Rightarrow> nat \<Rightarrow> nat \<Rightarrow> bool" where
  "ring_ok cap slots h t n \<longleftrightarrow>
     length slots = cap \<and> h < cap \<and> t = (h + n) mod cap \<and> n \<le> cap"

lemma length_ring_elems [simp]: "length (ring_elems slots h n) = n"
  by (simp add: ring_elems_def)

lemma ring_elems_0 [simp]: "ring_elems slots h 0 = []"
  by (simp add: ring_elems_def)

lemma mod_inj_less:
  assumes "(h + j) mod c = (h + k) mod c" "j < c" "k < (c :: nat)"
  shows "j = k"
proof -
  have "int c dvd (int h + int j) - (int h + int k)"
    using assms(1) by (metis mod_eq_dvd_iff of_nat_add of_nat_mod)
  then have "int c dvd int j - int k" by simp
  then have "int j mod int c = int k mod int c" by (simp add: mod_eq_dvd_iff)
  then show ?thesis using assms by simp
qed

lemma ring_push:
  assumes "ring_ok cap slots h t n" "n < cap"
  shows "ring_elems (slots[t := x]) h (Suc n) = ring_elems slots h n @ [x]"
    and "ring_ok cap (slots[t := x]) h ((t + 1) mod cap) (Suc n)"
proof -
  have t: "t = (h + n) mod cap" "length slots = cap" "t < cap"
    using assms by (auto simp: ring_ok_def)
  have "(slots[t := x]) ! ((h + k) mod cap) = slots ! ((h + k) mod cap)" if "k < n" for k
  proof -
    have "(h + k) mod cap \<noteq> t" using mod_inj_less [of h k cap n] that assms t by auto
    then show ?thesis by simp
  qed
  then show "ring_elems (slots[t := x]) h (Suc n) = ring_elems slots h n @ [x]"
    using t by (simp add: ring_elems_def)
  show "ring_ok cap (slots[t := x]) h ((t + 1) mod cap) (Suc n)"
    using assms t by (simp add: ring_ok_def mod_Suc_eq)
qed

lemma ring_pop:
  assumes "ring_ok cap slots h t n" "0 < n"
  shows "ring_elems slots h n = slots ! h # ring_elems (slots[h := y]) ((h + 1) mod cap) (n - 1)"
    and "ring_ok cap (slots[h := y]) ((h + 1) mod cap) t (n - 1)"
proof -
  have h: "h < cap" "length slots = cap" "n \<le> cap" "t = (h + n) mod cap"
    using assms by (auto simp: ring_ok_def)
  have "slots ! ((h + Suc k) mod cap) = (slots[h := y]) ! (((h + 1) mod cap + k) mod cap)"
    if "k < n - 1" for k
  proof -
    have e: "((h + 1) mod cap + k) mod cap = (h + Suc k) mod cap" by (simp add: mod_add_left_eq)
    have "Suc k < cap" using that h(3) by linarith
    then have "(h + Suc k) mod cap \<noteq> (h + 0) mod cap"
      using mod_inj_less [of h "Suc k" cap 0] h by auto
    then show ?thesis using h unfolding e by simp
  qed
  then have "map (\<lambda>k. slots ! ((h + Suc k) mod cap)) [0..<n - 1]
      = map (\<lambda>k. (slots[h := y]) ! (((h + 1) mod cap + k) mod cap)) [0..<n - 1]"
    by simp
  moreover have "map (\<lambda>k. slots ! ((h + Suc k) mod cap)) [0..<n - 1]
      = map (\<lambda>k. slots ! ((h + k) mod cap)) (map Suc [0..<n - 1])"
    by simp
  moreover have "map Suc [0..<n - 1] = [1..<n]"
    using map_Suc_upt [of 0 "n - 1"] assms(2) by simp
  ultimately have "map (\<lambda>k. slots ! ((h + k) mod cap)) [1..<n]
      = map (\<lambda>k. (slots[h := y]) ! (((h + 1) mod cap + k) mod cap)) [0..<n - 1]"
    by (simp only:)
  moreover have "[0..<n] = 0 # [1..<n]" using assms(2) by (simp add: upt_rec)
  ultimately show "ring_elems slots h n = slots ! h # ring_elems (slots[h := y]) ((h + 1) mod cap) (n - 1)"
    using h by (simp add: ring_elems_def)
  have "((h + 1) mod cap + (n - 1)) mod cap = (h + 1 + (n - 1)) mod cap"
    by (rule mod_add_left_eq)
  then have "(h + n) mod cap = ((h + 1) mod cap + (n - 1)) mod cap"
    using assms(2) by simp
  then show "ring_ok cap (slots[h := y]) ((h + 1) mod cap) t (n - 1)"
    using h by (simp add: ring_ok_def)
qed

lemma ring_empty: "0 < cap \<Longrightarrow> ring_ok cap (replicate cap x) 0 0 0"
  by (simp add: ring_ok_def)

section \<open>The contract\<close>

text \<open>
  The operations that the services' threads call at a queue, as a client sees them. A run
  records what was accepted, what was refused and what was delivered.
\<close>

datatype 'a queue_op = Submit 'a | Deliver

locale bounded_fifo =
  fixes cap :: nat
    and elems :: "'s \<Rightarrow> 'a list"
    and inv :: "'s \<Rightarrow> bool"
    and push :: "'a \<Rightarrow> 's \<Rightarrow> bool \<times> 's"
    and pop :: "'s \<Rightarrow> ('a \<times> 's) option"
  assumes inv_cap: "inv s \<Longrightarrow> length (elems s) \<le> cap"
    and push_room: "inv s \<Longrightarrow> length (elems s) < cap \<Longrightarrow>
        fst (push a s) \<and> inv (snd (push a s)) \<and> elems (snd (push a s)) = elems s @ [a]"
    and push_full: "inv s \<Longrightarrow> length (elems s) = cap \<Longrightarrow> push a s = (False, s)"
    and pop_none: "inv s \<Longrightarrow> elems s = [] \<Longrightarrow> pop s = None"
    and pop_some: "inv s \<Longrightarrow> elems s = a # as \<Longrightarrow> \<exists>s'. pop s = Some (a, s') \<and> inv s' \<and> elems s' = as"
begin

text \<open>A run of operations: accepted and delivered elements in order, and the final state.\<close>

fun run :: "'a queue_op list \<Rightarrow> 's \<Rightarrow> 'a list \<times> 'a list \<times> 's" where
  "run [] s = ([], [], s)"
| "run (Submit a # ops) s =
     (let (ok, s') = push a s; (acc, del, t) = run ops s'
      in (if ok then a # acc else acc, del, t))"
| "run (Deliver # ops) s =
     (case pop s of
        None \<Rightarrow> run ops s
      | Some (a, s') \<Rightarrow> (let (acc, del, t) = run ops s' in (acc, a # del, t)))"

lemma push_cases:
  assumes "inv s"
  obtains s' where "push a s = (True, s')" "inv s'" "elems s' = elems s @ [a]" "length (elems s) < cap"
  | "push a s = (False, s)" "length (elems s) = cap"
  using push_room [OF assms, of a] push_full [OF assms, of a] inv_cap [OF assms]
  by (cases "push a s"; cases "length (elems s) = cap") (auto simp: le_neq_implies_less)

lemma pop_cases:
  assumes "inv s"
  obtains "pop s = None" "elems s = []"
  | a s' where "pop s = Some (a, s')" "inv s'" "elems s = a # elems s'"
  using pop_none [OF assms] pop_some [OF assms] by (cases "elems s") auto

text \<open>Nothing is lost, duplicated or reordered between acceptance and delivery.\<close>

lemma run_fifo:
  "inv s \<Longrightarrow> run ops s = (acc, del, t) \<Longrightarrow> inv t \<and> elems s @ acc = del @ elems t"
proof (induction ops arbitrary: s acc del t)
  case Nil
  then show ?case by simp
next
  case (Cons op ops)
  show ?case
  proof (cases op)
    case (Submit a)
    from Cons.prems(1) show ?thesis
    proof (cases s rule: push_cases [where a = a])
      case (1 s')
      obtain acc' where r: "run ops s' = (acc', del, t)" "acc = a # acc'"
        using Cons.prems(2) 1(1) Submit by (auto split: prod.splits)
      show ?thesis using Cons.IH [OF 1(2) r(1)] 1(3) r(2) by simp
    next
      case 2
      then have "run ops s = (acc, del, t)" using Cons.prems(2) Submit by (auto split: prod.splits)
      with Cons.IH Cons.prems(1) show ?thesis by blast
    qed
  next
    case Deliver
    from Cons.prems(1) show ?thesis
    proof (cases s rule: pop_cases)
      case 1
      then have "run ops s = (acc, del, t)" using Cons.prems(2) Deliver by simp
      with Cons.IH Cons.prems(1) show ?thesis by blast
    next
      case (2 a s')
      obtain del' where r: "run ops s' = (acc, del', t)" "del = a # del'"
        using Cons.prems(2) 2(1) Deliver by (auto split: prod.splits)
      show ?thesis using Cons.IH [OF 2(2) r(1)] 2(3) r(2) by simp
    qed
  qed
qed

text \<open>From an empty queue, the deliveries are a prefix of the accepted submissions.\<close>

lemma run_prefix:
  assumes "inv s" "elems s = []" "run ops s = (acc, del, t)"
  shows "prefix del acc" "length acc \<le> length del + cap"
  using run_fifo [OF assms(1,3)] assms(2) inv_cap [of t] by auto

text \<open>Enough deliveries empty the queue.\<close>

lemma run_drain:
  "inv s \<Longrightarrow> length (elems s) \<le> n \<Longrightarrow> \<exists>t. run (replicate n Deliver) s = ([], elems s, t) \<and> elems t = []"
proof (induction n arbitrary: s)
  case 0
  then show ?case by simp
next
  case (Suc n)
  from Suc.prems(1) show ?case
  proof (cases s rule: pop_cases)
    case 1
    with Suc.IH [OF Suc.prems(1)] show ?thesis by simp
  next
    case (2 a s')
    with Suc.IH [of s'] Suc.prems show ?thesis by fastforce
  qed
qed

end

end
