(* ===== verification/Transition.thy ===== *)
theory Transition
  imports Prelude
begin

text \<open>
  The contract between a step relation and its invariant, for the threads that share a state: what
  is reachable is what a run of steps leads to, and the invariant holds at every point of it.
\<close>

lemma reachable_runs:
  assumes "R s0" "\<And>s t. R s \<Longrightarrow> step s t \<Longrightarrow> R t" "\<And>t. R t \<Longrightarrow> step\<^sup>*\<^sup>* s0 t"
  shows "R t \<longleftrightarrow> (\<exists>s. s = s0 \<and> step\<^sup>*\<^sup>* s t)"
proof -
  have "step\<^sup>*\<^sup>* s0 t \<Longrightarrow> R t" by (induction rule: rtranclp_induct) (use assms(1,2) in blast)+
  with assms(3) show ?thesis by blast
qed

lemmas run_step = rtranclp.rtrancl_into_rtrancl

locale step_system =
  fixes start :: "'s \<Rightarrow> bool"
    and step :: "'s \<Rightarrow> 's \<Rightarrow> bool"
    and reach :: "'s \<Rightarrow> bool"
  assumes reach_run: "reach t \<longleftrightarrow> (\<exists>s. start s \<and> step\<^sup>*\<^sup>* s t)"
begin

lemma reach_start: "start s \<Longrightarrow> reach s"
  using reach_run by blast

lemma reach_steps: "reach s \<Longrightarrow> step\<^sup>*\<^sup>* s t \<Longrightarrow> reach t"
  using reach_run by (meson rtranclp_trans)

end

locale safe_system = step_system +
  fixes inv :: "'a \<Rightarrow> bool"
  assumes inv_start: "start s \<Longrightarrow> inv s"
    and inv_step: "step s t \<Longrightarrow> inv s \<Longrightarrow> inv t"
begin

lemma inv_steps: "step\<^sup>*\<^sup>* s t \<Longrightarrow> inv s \<Longrightarrow> inv t"
  by (induction rule: rtranclp_induct) (auto intro: inv_step)

lemma reach_inv: "reach s \<Longrightarrow> inv s"
  using reach_run inv_start inv_steps by blast

end

end
