(* ===== verification/CommUdp.thy ===== *)
theory CommUdp
  imports RingQueue Transition
begin

text \<open>
  The UDP service (\<open>core/src/comm_udp.c\<close>): its context, the transmit queue, the client
  call \<open>comm_udp_send\<close>, and the three kinds of threads that share the context. Every
  section under a mutex is one step; the threads' steps interleave in any order. Calls of
  the operating system (\<open>malloc\<close>, \<open>recvfrom\<close>, \<open>sendto\<close>) appear with their outcome.
\<close>

datatype errno = EINVAL | EAGAIN | ENOTCONN | ENOMEM | EMSGSIZE | EIO

record sockaddr_in =
  sin_addr :: u32
  sin_port :: u16

definition COMM_UDP_PORT :: u16 where "COMM_UDP_PORT = 8888"
definition COMM_UDP_QUEUE_CAPACITY :: nat where "COMM_UDP_QUEUE_CAPACITY = 16"

text \<open>\<open>uf_data\<close> is \<open>None\<close> for a null pointer, otherwise the heap block it points to.\<close>

record comm_udp_frame_t =
  uf_data :: "bytes option"
  uf_len :: nat
  uf_peer :: sockaddr_in

record comm_udp_context_t =
  udp_fd :: int
  udp_running :: bool
  last_peer_valid :: bool
  last_peer :: sockaddr_in
  udp_port :: u16
  udp_queue :: "comm_udp_frame_t list"
  udp_head :: nat
  udp_tail :: nat
  udp_count :: nat

definition no_peer :: sockaddr_in where
  "no_peer = \<lparr>sin_addr = 0, sin_port = 0\<rparr>"

definition udp_frame_zero :: comm_udp_frame_t where
  "udp_frame_zero = \<lparr>uf_data = None, uf_len = 0, uf_peer = no_peer\<rparr>"

definition g_comm_udp_ctx :: comm_udp_context_t where
  "g_comm_udp_ctx =
     \<lparr>udp_fd = - 1, udp_running = False, last_peer_valid = False, last_peer = no_peer,
      udp_port = COMM_UDP_PORT, udp_queue = replicate COMM_UDP_QUEUE_CAPACITY udp_frame_zero,
      udp_head = 0, udp_tail = 0, udp_count = 0\<rparr>"

section \<open>The queue\<close>

text \<open>\<open>malloc_ok\<close> tells whether \<open>malloc\<close> returned a block.\<close>

definition comm_udp_queue_push_frame ::
    "bool \<Rightarrow> bytes \<Rightarrow> sockaddr_in \<Rightarrow> comm_udp_context_t \<Rightarrow> errno option \<times> comm_udp_context_t" where
  "comm_udp_queue_push_frame malloc_ok data peer c =
     (if \<not> malloc_ok then (Some ENOMEM, c)
      else if udp_count c = COMM_UDP_QUEUE_CAPACITY then (Some EAGAIN, c)
      else (None,
        c\<lparr>udp_queue := (udp_queue c)[udp_tail c :=
              \<lparr>uf_data = Some data, uf_len = length data, uf_peer = peer\<rparr>],
          udp_tail := (udp_tail c + 1) mod COMM_UDP_QUEUE_CAPACITY,
          udp_count := udp_count c + 1\<rparr>))"

text \<open>The three ways a call of \<open>comm_udp_queue_pop_frame\<close> can stand.\<close>

datatype 'f pop_result = Blocked | Stopped | Popped 'f

definition comm_udp_queue_pop_frame ::
    "comm_udp_context_t \<Rightarrow> comm_udp_frame_t pop_result \<times> comm_udp_context_t" where
  "comm_udp_queue_pop_frame c =
     (if udp_running c \<and> udp_count c = 0 then (Blocked, c)
      else if \<not> udp_running c \<and> udp_count c = 0 then (Stopped, c)
      else let frame = udp_queue c ! udp_head c
           in (Popped frame,
               c\<lparr>udp_queue := (udp_queue c)[udp_head c := frame\<lparr>uf_data := None, uf_len := 0\<rparr>],
                 udp_head := (udp_head c + 1) mod COMM_UDP_QUEUE_CAPACITY,
                 udp_count := udp_count c - 1\<rparr>))"

definition comm_udp_send :: "bool \<Rightarrow> bytes option \<Rightarrow> comm_udp_context_t \<Rightarrow> errno option \<times> comm_udp_context_t" where
  "comm_udp_send malloc_ok data c =
     (case data of
        None \<Rightarrow> (Some EINVAL, c)
      | Some d \<Rightarrow>
          if length d = 0 then (Some EINVAL, c)
          else if \<not> last_peer_valid c then (Some ENOTCONN, c)
          else comm_udp_queue_push_frame malloc_ok d (last_peer c) c)"

definition comm_udp_init :: "comm_udp_context_t \<Rightarrow> comm_udp_context_t" where
  "comm_udp_init c = c\<lparr>udp_running := True\<rparr>"

text \<open>\<open>None\<close> is a null pointer; port 0 leaves the configuration as it is.\<close>

definition comm_udp_configure :: "u16 option \<Rightarrow> comm_udp_context_t \<Rightarrow> comm_udp_context_t" where
  "comm_udp_configure cfg c =
     (case cfg of None \<Rightarrow> c | Some port \<Rightarrow> if port = 0 then c else c\<lparr>udp_port := port\<rparr>)"

section \<open>The queue is a bounded first-in first-out queue\<close>

definition udp_elems :: "comm_udp_context_t \<Rightarrow> (bytes \<times> sockaddr_in) list" where
  "udp_elems c = map (\<lambda>f. (the (uf_data f), uf_peer f)) (ring_elems (udp_queue c) (udp_head c) (udp_count c))"

definition udp_inv :: "comm_udp_context_t \<Rightarrow> bool" where
  "udp_inv c \<longleftrightarrow> ring_ok COMM_UDP_QUEUE_CAPACITY (udp_queue c) (udp_head c) (udp_tail c) (udp_count c)
     \<and> (\<forall>f \<in> set (ring_elems (udp_queue c) (udp_head c) (udp_count c)).
          \<exists>d. uf_data f = Some d \<and> uf_len f = length d)"

definition udp_push :: "bytes \<times> sockaddr_in \<Rightarrow> comm_udp_context_t \<Rightarrow> bool \<times> comm_udp_context_t" where
  "udp_push a c = (let (e, c') = comm_udp_queue_push_frame True (fst a) (snd a) c in (e = None, c'))"

definition udp_pop :: "comm_udp_context_t \<Rightarrow> ((bytes \<times> sockaddr_in) \<times> comm_udp_context_t) option" where
  "udp_pop c = (case comm_udp_queue_pop_frame c of
     (Popped f, c') \<Rightarrow> Some ((the (uf_data f), uf_peer f), c') | _ \<Rightarrow> None)"

lemma length_udp_elems [simp]: "length (udp_elems c) = udp_count c"
  by (simp add: udp_elems_def)

lemma udp_init_inv: "udp_inv g_comm_udp_ctx" "udp_elems g_comm_udp_ctx = []"
  by (simp_all add: udp_inv_def udp_elems_def g_comm_udp_ctx_def ring_empty COMM_UDP_QUEUE_CAPACITY_def)

lemma udp_push_law:
  assumes i: "udp_inv c" and n: "udp_count c < COMM_UDP_QUEUE_CAPACITY"
    and r: "comm_udp_queue_push_frame True d p c = (e, c')"
  shows "e = None" "udp_inv c'" "udp_elems c' = udp_elems c @ [(d, p)]"
proof -
  have ok: "ring_ok COMM_UDP_QUEUE_CAPACITY (udp_queue c) (udp_head c) (udp_tail c) (udp_count c)"
    using i by (simp add: udp_inv_def)
  let ?f = "\<lparr>uf_data = Some d, uf_len = length d, uf_peer = p\<rparr>"
  have c': "c' = c\<lparr>udp_queue := (udp_queue c)[udp_tail c := ?f],
          udp_tail := (udp_tail c + 1) mod COMM_UDP_QUEUE_CAPACITY, udp_count := udp_count c + 1\<rparr>"
    and "e = None"
    using n r by (auto simp: comm_udp_queue_push_frame_def)
  then show "e = None" by simp
  show "udp_inv c'" using i ring_push [OF ok n, of ?f] by (simp add: udp_inv_def c')
  show "udp_elems c' = udp_elems c @ [(d, p)]"
    using ring_push(1) [OF ok n, of ?f] by (simp add: udp_elems_def c')
qed

lemma udp_pop_law:
  assumes i: "udp_inv c" and n: "0 < udp_count c" and r: "comm_udp_queue_pop_frame c = (res, c')"
  shows "\<exists>f d. res = Popped f \<and> uf_data f = Some d \<and> uf_len f = length d \<and> udp_inv c'
     \<and> udp_elems c = (d, uf_peer f) # udp_elems c'"
proof -
  have ok: "ring_ok COMM_UDP_QUEUE_CAPACITY (udp_queue c) (udp_head c) (udp_tail c) (udp_count c)"
    using i by (simp add: udp_inv_def)
  let ?f = "udp_queue c ! udp_head c"
  let ?y = "?f\<lparr>uf_data := None, uf_len := 0\<rparr>"
  have c': "c' = c\<lparr>udp_queue := (udp_queue c)[udp_head c := ?y],
      udp_head := (udp_head c + 1) mod COMM_UDP_QUEUE_CAPACITY, udp_count := udp_count c - 1\<rparr>"
    and res: "res = Popped ?f"
    using n r by (auto simp: comm_udp_queue_pop_frame_def Let_def)
  note p = ring_pop [OF ok n, of ?y]
  obtain d where d: "uf_data ?f = Some d" "uf_len ?f = length d"
    using i p(1) by (auto simp: udp_inv_def)
  have "udp_inv c'" using i p by (simp add: udp_inv_def c')
  moreover have "udp_elems c = (d, uf_peer ?f) # udp_elems c'"
    unfolding udp_elems_def p(1) by (simp add: c' d)
  ultimately show ?thesis using d res by blast
qed

interpretation udp: bounded_fifo COMM_UDP_QUEUE_CAPACITY udp_elems udp_inv udp_push udp_pop
proof
  fix c assume "udp_inv c"
  then show "length (udp_elems c) \<le> COMM_UDP_QUEUE_CAPACITY" by (simp add: udp_inv_def ring_ok_def)
next
  fix c a assume "udp_inv c" "length (udp_elems c) < COMM_UDP_QUEUE_CAPACITY"
  then show "fst (udp_push a c) \<and> udp_inv (snd (udp_push a c)) \<and> udp_elems (snd (udp_push a c)) = udp_elems c @ [a]"
    using udp_push_law [of c "fst a" "snd a"] by (auto simp: udp_push_def split: prod.splits)
next
  fix c a assume "udp_inv c" "length (udp_elems c) = COMM_UDP_QUEUE_CAPACITY"
  then show "udp_push a c = (False, c)" by (simp add: udp_push_def comm_udp_queue_push_frame_def)
next
  fix c assume "udp_inv c" "udp_elems c = []"
  then have "udp_count c = 0" by (simp flip: length_udp_elems)
  then show "udp_pop c = None" by (simp add: udp_pop_def comm_udp_queue_pop_frame_def)
next
  fix c a as assume i: "udp_inv c" and e: "udp_elems c = a # as"
  then have n: "0 < udp_count c" by (simp flip: length_udp_elems)
  obtain res c' where r: "comm_udp_queue_pop_frame c = (res, c')" by (cases "comm_udp_queue_pop_frame c")
  from udp_pop_law [OF i n r] e show "\<exists>c'. udp_pop c = Some (a, c') \<and> udp_inv c' \<and> udp_elems c' = as"
    by (auto simp: udp_pop_def r)
qed

section \<open>The threads\<close>

text \<open>
  The service with its threads: the context, the frame that the transmit thread has taken
  out of the queue, the datagrams it has taken out so far, those that went out to the
  network, and all submissions that were accepted, each with the peer address.
\<close>

record udp_system =
  ctx :: comm_udp_context_t
  tx_frame :: "comm_udp_frame_t option"
  popped :: "(bytes \<times> sockaddr_in) list"
  wire :: "(bytes \<times> sockaddr_in) list"
  accepted :: "(bytes \<times> sockaddr_in) list"
  peers_seen :: "sockaddr_in list"

definition udp_start :: "u16 option \<Rightarrow> udp_system" where
  "udp_start cfg = \<lparr>ctx = comm_udp_init (comm_udp_configure cfg g_comm_udp_ctx), tx_frame = None,
     popped = [], wire = [], accepted = [], peers_seen = []\<rparr>"

text \<open>
  One step: the receive thread opens the socket; it takes a datagram and records the
  sender; some thread calls \<open>comm_udp_send\<close>; the transmit thread takes a frame; it sends
  the frame when the socket is open, successfully or not, and frees it.
\<close>

inductive udp_step :: "udp_system \<Rightarrow> udp_system \<Rightarrow> bool" where
  rx_open: "0 \<le> fd \<Longrightarrow> udp_step s (s\<lparr>ctx := (ctx s)\<lparr>udp_fd := fd\<rparr>\<rparr>)"
| rx_datagram: "udp_step s (s\<lparr>ctx := (ctx s)\<lparr>last_peer := peer, last_peer_valid := True\<rparr>,
      peers_seen := peers_seen s @ [peer]\<rparr>)"
| send_ok: "comm_udp_send m (Some d) (ctx s) = (None, c') \<Longrightarrow>
    udp_step s (s\<lparr>ctx := c', accepted := accepted s @ [(d, last_peer (ctx s))]\<rparr>)"
| send_fail: "comm_udp_send m data (ctx s) = (Some e, c') \<Longrightarrow> udp_step s (s\<lparr>ctx := c'\<rparr>)"
| tx_pop: "tx_frame s = None \<Longrightarrow> comm_udp_queue_pop_frame (ctx s) = (Popped f, c') \<Longrightarrow>
    udp_step s (s\<lparr>ctx := c', tx_frame := Some f, popped := popped s @ [(the (uf_data f), uf_peer f)]\<rparr>)"
| tx_send: "tx_frame s = Some f \<Longrightarrow> 0 \<le> udp_fd (ctx s) \<Longrightarrow>
    udp_step s (s\<lparr>tx_frame := None, wire := wire s @ [(take (uf_len f) (the (uf_data f)), uf_peer f)]\<rparr>)"
| tx_drop: "tx_frame s = Some f \<Longrightarrow> udp_step s (s\<lparr>tx_frame := None\<rparr>)"

inductive udp_reachable :: "u16 option \<Rightarrow> udp_system \<Rightarrow> bool" for cfg where
  init: "udp_reachable cfg (udp_start cfg)"
| step: "udp_reachable cfg s \<Longrightarrow> udp_step s t \<Longrightarrow> udp_reachable cfg t"

inductive_cases udp_stepE: "udp_step s t"

text \<open>
  What holds at every point of every interleaving. The frame in the transmit thread is the
  last one popped and has not been sent.
\<close>

definition udp_sys_inv :: "udp_system \<Rightarrow> bool" where
  "udp_sys_inv s \<longleftrightarrow> udp_inv (ctx s) \<and> udp_running (ctx s)
     \<and> accepted s = popped s @ udp_elems (ctx s)
     \<and> (case tx_frame s of
          None \<Rightarrow> subseq (wire s) (popped s)
        | Some f \<Rightarrow> (\<exists>d ps. uf_data f = Some d \<and> uf_len f = length d
              \<and> popped s = ps @ [(d, uf_peer f)] \<and> subseq (wire s) ps))
     \<and> (\<forall>(d, p) \<in> set (accepted s). d \<noteq> [] \<and> p \<in> set (peers_seen s))
     \<and> (last_peer_valid (ctx s) \<longrightarrow> last_peer (ctx s) \<in> set (peers_seen s))"

lemma comm_udp_send_None:
  assumes "comm_udp_send m (Some d) c = (None, c')"
  shows "d \<noteq> []" "last_peer_valid c" "udp_count c < COMM_UDP_QUEUE_CAPACITY \<or> \<not> udp_inv c"
    "comm_udp_queue_push_frame True d (last_peer c) c = (None, c')"
  using assms
  by (auto simp: comm_udp_send_def comm_udp_queue_push_frame_def udp_inv_def ring_ok_def
      split: if_splits)

lemma push_frame_other:
  "comm_udp_queue_push_frame m d p c = (e, c') \<Longrightarrow>
     udp_running c' = udp_running c \<and> last_peer_valid c' = last_peer_valid c \<and> last_peer c' = last_peer c"
  by (auto simp: comm_udp_queue_push_frame_def split: if_splits)

lemma pop_frame_other:
  "comm_udp_queue_pop_frame c = (r, c') \<Longrightarrow>
     udp_running c' = udp_running c \<and> last_peer_valid c' = last_peer_valid c \<and> last_peer c' = last_peer c"
  by (auto simp: comm_udp_queue_pop_frame_def Let_def split: if_splits)

lemma comm_udp_send_Some: "comm_udp_send m data c = (Some e, c') \<Longrightarrow> c' = c"
  by (auto simp: comm_udp_send_def comm_udp_queue_push_frame_def split: if_splits option.splits)

lemma udp_ctx_upd:
  "udp_inv (c\<lparr>udp_fd := fd\<rparr>) = udp_inv c" "udp_elems (c\<lparr>udp_fd := fd\<rparr>) = udp_elems c"
  "udp_inv (c\<lparr>last_peer := p, last_peer_valid := v\<rparr>) = udp_inv c"
  "udp_elems (c\<lparr>last_peer := p, last_peer_valid := v\<rparr>) = udp_elems c"
  by (simp_all add: udp_inv_def udp_elems_def)

lemma udp_step_inv:
  assumes "udp_step s t" "udp_sys_inv s"
  shows "udp_sys_inv t"
  using assms
proof (cases rule: udp_step.cases)
  case (rx_open fd)
  then show ?thesis using assms(2)
    by (auto simp: udp_sys_inv_def udp_ctx_upd split: option.splits)
next
  case (rx_datagram peer)
  then show ?thesis using assms(2)
    by (auto simp: udp_sys_inv_def udp_ctx_upd split: option.splits)
next
  case (send_ok m d c')
  note sd = comm_udp_send_None [OF send_ok(2)]
  have i: "udp_inv (ctx s)" using assms(2) by (simp add: udp_sys_inv_def)
  note p = udp_push_law [OF i _ sd(4)]
  show ?thesis
    using assms(2) sd i p push_frame_other [OF sd(4)] unfolding send_ok(1)
    by (auto simp: udp_sys_inv_def split: option.splits)
next
  case (send_fail m data e c')
  then show ?thesis using assms(2) comm_udp_send_Some [OF send_fail(2)] by (simp add: udp_sys_inv_def)
next
  case (tx_pop f c')
  have i: "udp_inv (ctx s)" using assms(2) by (simp add: udp_sys_inv_def)
  have n: "0 < udp_count (ctx s)"
    using tx_pop(3) by (auto simp: comm_udp_queue_pop_frame_def split: if_splits)
  from udp_pop_law [OF i n tx_pop(3)] obtain d where
    d: "uf_data f = Some d" "uf_len f = length d" "udp_inv c'" "udp_elems (ctx s) = (d, uf_peer f) # udp_elems c'"
    by auto
  show ?thesis
    using assms(2) d pop_frame_other [OF tx_pop(3)] tx_pop(2) unfolding tx_pop(1)
    by (auto simp: udp_sys_inv_def)
next
  case (tx_send f)
  then obtain d ps where "uf_data f = Some d" "uf_len f = length d"
    "popped s = ps @ [(d, uf_peer f)]" "subseq (wire s) ps"
    using assms(2) by (auto simp: udp_sys_inv_def)
  then show ?thesis using assms(2) unfolding tx_send(1)
    by (auto simp: udp_sys_inv_def list_emb_append_mono)
next
  case (tx_drop f)
  then obtain d ps where "popped s = ps @ [(d, uf_peer f)]" "subseq (wire s) ps"
    using assms(2) by (auto simp: udp_sys_inv_def)
  then show ?thesis using assms(2) unfolding tx_drop(1)
    by (auto simp: udp_sys_inv_def list_emb_append2)
qed

lemma udp_start_inv: "udp_sys_inv (udp_start cfg)"
proof -
  have "udp_inv (comm_udp_init (comm_udp_configure cfg g_comm_udp_ctx))
      \<and> udp_elems (comm_udp_init (comm_udp_configure cfg g_comm_udp_ctx)) = []"
    using udp_init_inv
    by (auto simp: udp_inv_def udp_elems_def comm_udp_init_def comm_udp_configure_def split: option.splits)
  moreover have "\<not> last_peer_valid (comm_udp_configure cfg g_comm_udp_ctx)"
    by (auto simp: comm_udp_configure_def g_comm_udp_ctx_def split: option.splits)
  ultimately show ?thesis by (simp add: udp_sys_inv_def udp_start_def comm_udp_init_def)
qed

lemma udp_runs: "udp_reachable cfg t \<Longrightarrow> udp_step\<^sup>*\<^sup>* (udp_start cfg) t"
  by (induction rule: udp_reachable.induct) (auto intro: run_step)

interpretation udp_threads: safe_system "\<lambda>s. s = udp_start cfg" udp_step "udp_reachable cfg" udp_sys_inv for cfg
  by (unfold_locales, rule reachable_runs) (auto intro: udp_reachable.intros udp_runs udp_start_inv udp_step_inv)

lemmas udp_reachable_inv = udp_threads.reach_inv

end
