(* ===== verification/CommTcp.thy ===== *)
theory CommTcp
  imports CommUdp
begin

text \<open>
  The TCP service (\<open>core/src/comm_tcp.c\<close>): the queue, the client connection, and the
  loops of its threads. \<open>comm_tcp_write_all\<close> is shared in shape with the other writers of
  the program: its model runs against the list of results that \<open>send\<close> will return.
\<close>

definition COMM_TCP_PORT :: u16 where "COMM_TCP_PORT = 9001"
definition COMM_TCP_QUEUE_CAPACITY :: nat where "COMM_TCP_QUEUE_CAPACITY = 16"

record comm_tcp_frame_t =
  tf_data :: "bytes option"
  tf_len :: nat

record comm_tcp_context_t =
  tcp_listen_fd :: int
  tcp_client_fd :: int
  tcp_running :: bool
  tcp_port :: u16
  tcp_queue :: "comm_tcp_frame_t list"
  tcp_head :: nat
  tcp_tail :: nat
  tcp_count :: nat

definition g_comm_tcp_ctx :: comm_tcp_context_t where
  "g_comm_tcp_ctx =
     \<lparr>tcp_listen_fd = - 1, tcp_client_fd = - 1, tcp_running = False, tcp_port = COMM_TCP_PORT,
      tcp_queue = replicate COMM_TCP_QUEUE_CAPACITY \<lparr>tf_data = None, tf_len = 0\<rparr>,
      tcp_head = 0, tcp_tail = 0, tcp_count = 0\<rparr>"

section \<open>Writing a buffer\<close>

text \<open>
  The results of successive \<open>send\<close> calls: \<open>Sent n\<close> wrote \<open>n\<close> bytes, \<open>Interrupted\<close> is
  \<open>EINTR\<close>, \<open>Failed\<close> any other error. When the list is used up the call blocks. The
  result is the return value, \<open>None\<close> while it blocks, and the bytes that went out.
\<close>

datatype send_result = Sent nat | Interrupted | Failed

fun comm_tcp_write_all :: "send_result list \<Rightarrow> bytes \<Rightarrow> nat \<Rightarrow> int option \<times> bytes" where
  "comm_tcp_write_all rs buf written =
     (if \<not> written < length buf then (Some 0, [])
      else case rs of
        [] \<Rightarrow> (None, [])
      | Interrupted # rs' \<Rightarrow> comm_tcp_write_all rs' buf written
      | Failed # rs' \<Rightarrow> (Some (- 1), [])
      | Sent n # rs' \<Rightarrow>
          (let (r, out) = comm_tcp_write_all rs' buf (written + n)
           in (r, take n (drop written buf) @ out)))"

declare comm_tcp_write_all.simps [simp del]

lemma tcp_write_all_simps [simp]:
  "\<not> w < length buf \<Longrightarrow> comm_tcp_write_all rs buf w = (Some 0, [])"
  "w < length buf \<Longrightarrow> comm_tcp_write_all [] buf w = (None, [])"
  "w < length buf \<Longrightarrow> comm_tcp_write_all (Interrupted # rs) buf w = comm_tcp_write_all rs buf w"
  "w < length buf \<Longrightarrow> comm_tcp_write_all (Failed # rs) buf w = (Some (- 1), [])"
  "w < length buf \<Longrightarrow> comm_tcp_write_all (Sent n # rs) buf w =
     (let (r, out) = comm_tcp_write_all rs buf (w + n) in (r, take n (drop w buf) @ out))"
  by (simp_all add: comm_tcp_write_all.simps [of rs] comm_tcp_write_all.simps [of "[]"]
      comm_tcp_write_all.simps [of "_ # _"])

text \<open>Whatever the kernel does, the output is a prefix of the buffer, all of it on success.\<close>

lemma tcp_write_all_prefix:
  "comm_tcp_write_all rs buf written = (r, out) \<Longrightarrow>
     prefix out (drop written buf) \<and> (r = Some 0 \<longrightarrow> out = drop written buf)"
proof (induction rs buf written arbitrary: r out rule: comm_tcp_write_all.induct)
  case (1 rs buf written)
  show ?case
  proof (cases "written < length buf")
    case False
    with "1.prems" show ?thesis by simp
  next
    case True
    show ?thesis
    proof (cases rs)
      case Nil
      with "1.prems" True show ?thesis by simp
    next
      case (Cons x rs')
      show ?thesis
      proof (cases x)
        case (Sent n)
        obtain out' where o: "comm_tcp_write_all rs' buf (written + n) = (r, out')"
          "out = take n (drop written buf) @ out'"
          using "1.prems" True Cons Sent
          by (auto split: prod.splits)
        have "prefix out' (drop (written + n) buf) \<and> (r = Some 0 \<longrightarrow> out' = drop (written + n) buf)"
          using "1.IH" True Cons Sent o(1) by auto
        moreover have "drop written buf = take n (drop written buf) @ drop (written + n) buf"
          by (metis append_take_drop_id drop_drop add.commute)
        ultimately show ?thesis unfolding o(2) by (metis same_prefix_prefix)
      next
        case Interrupted
        with "1.prems" "1.IH" True Cons show ?thesis by simp
      next
        case Failed
        with "1.prems" True Cons show ?thesis by auto
      qed
    qed
  qed
qed

section \<open>The queue\<close>

definition comm_tcp_queue_push :: "bool \<Rightarrow> bytes \<Rightarrow> comm_tcp_context_t \<Rightarrow> errno option \<times> comm_tcp_context_t" where
  "comm_tcp_queue_push malloc_ok data c =
     (if \<not> malloc_ok then (Some ENOMEM, c)
      else if tcp_count c = COMM_TCP_QUEUE_CAPACITY then (Some EAGAIN, c)
      else (None,
        c\<lparr>tcp_queue := (tcp_queue c)[tcp_tail c := \<lparr>tf_data = Some data, tf_len = length data\<rparr>],
          tcp_tail := (tcp_tail c + 1) mod COMM_TCP_QUEUE_CAPACITY,
          tcp_count := tcp_count c + 1\<rparr>))"

definition comm_tcp_queue_pop :: "comm_tcp_context_t \<Rightarrow> comm_tcp_frame_t pop_result \<times> comm_tcp_context_t" where
  "comm_tcp_queue_pop c =
     (if tcp_running c \<and> tcp_count c = 0 then (Blocked, c)
      else if \<not> tcp_running c \<and> tcp_count c = 0 then (Stopped, c)
      else let frame = tcp_queue c ! tcp_head c
           in (Popped frame,
               c\<lparr>tcp_queue := (tcp_queue c)[tcp_head c := \<lparr>tf_data = None, tf_len = 0\<rparr>],
                 tcp_head := (tcp_head c + 1) mod COMM_TCP_QUEUE_CAPACITY,
                 tcp_count := tcp_count c - 1\<rparr>))"

definition comm_tcp_send :: "bool \<Rightarrow> bytes option \<Rightarrow> comm_tcp_context_t \<Rightarrow> errno option \<times> comm_tcp_context_t" where
  "comm_tcp_send malloc_ok data c =
     (case data of
        None \<Rightarrow> (Some EINVAL, c)
      | Some d \<Rightarrow> if length d = 0 then (Some EINVAL, c) else comm_tcp_queue_push malloc_ok d c)"

definition comm_tcp_init :: "comm_tcp_context_t \<Rightarrow> comm_tcp_context_t" where
  "comm_tcp_init c = c\<lparr>tcp_running := True\<rparr>"

definition comm_tcp_configure :: "u16 option \<Rightarrow> comm_tcp_context_t \<Rightarrow> comm_tcp_context_t" where
  "comm_tcp_configure cfg c =
     (case cfg of None \<Rightarrow> c | Some port \<Rightarrow> if port = 0 then c else c\<lparr>tcp_port := port\<rparr>)"

section \<open>The connection\<close>

text \<open>The second result is the descriptors that were closed.\<close>

definition comm_tcp_close_client :: "comm_tcp_context_t \<Rightarrow> comm_tcp_context_t \<times> int list" where
  "comm_tcp_close_client c =
     (if 0 \<le> tcp_client_fd c then (c\<lparr>tcp_client_fd := - 1\<rparr>, [tcp_client_fd c]) else (c, []))"

definition comm_tcp_get_client_fd :: "comm_tcp_context_t \<Rightarrow> int" where
  "comm_tcp_get_client_fd c = tcp_client_fd c"

text \<open>The body of the accept loop after \<open>accept\<close> returned a descriptor.\<close>

definition comm_tcp_accept_client :: "int \<Rightarrow> comm_tcp_context_t \<Rightarrow> comm_tcp_context_t \<times> int list" where
  "comm_tcp_accept_client client_fd c =
     (if client_fd < 0 then (c, [])
      else (c\<lparr>tcp_client_fd := client_fd\<rparr>,
            if 0 \<le> tcp_client_fd c then [tcp_client_fd c] else []))"

text \<open>The results of \<open>recv\<close>, and the body of the receive loop.\<close>

datatype recv_result = Received bytes | Recv_interrupted | Recv_failed

definition comm_tcp_rx_body :: "recv_result \<Rightarrow> comm_tcp_context_t \<Rightarrow> comm_tcp_context_t \<times> int list \<times> bytes option" where
  "comm_tcp_rx_body r c =
     (if comm_tcp_get_client_fd c < 0 then (c, [], None)
      else case r of
        Recv_interrupted \<Rightarrow> (c, [], None)
      | Recv_failed \<Rightarrow> (let (c', cl) = comm_tcp_close_client c in (c', cl, None))
      | Received d \<Rightarrow>
          if length d = 0 then (let (c', cl) = comm_tcp_close_client c in (c', cl, None))
          else (c, [], Some (take (if length d \<ge> 1024 then 1023 else length d) d)))"

text \<open>
  The body of the transmit loop for a frame that was popped: the new context, the closed
  descriptors, and what went out, with the descriptor it was written to.
\<close>

definition comm_tcp_tx_body ::
    "send_result list \<Rightarrow> comm_tcp_frame_t \<Rightarrow> comm_tcp_context_t \<Rightarrow> (comm_tcp_context_t \<times> int list \<times> (int \<times> bytes)) option" where
  "comm_tcp_tx_body rs frame c =
     (let client_fd = comm_tcp_get_client_fd c
      in if 0 \<le> client_fd then
           (case comm_tcp_write_all rs (take (tf_len frame) (the (tf_data frame))) 0 of
              (None, out) \<Rightarrow> None
            | (Some r, out) \<Rightarrow>
                if r < 0 then (let (c', cl) = comm_tcp_close_client c in Some (c', cl, (client_fd, out)))
                else Some (c, [], (client_fd, out)))
         else Some (c, [], (client_fd, [])))"

section \<open>The queue is a bounded first-in first-out queue\<close>

definition tcp_elems :: "comm_tcp_context_t \<Rightarrow> bytes list" where
  "tcp_elems c = map (\<lambda>f. the (tf_data f)) (ring_elems (tcp_queue c) (tcp_head c) (tcp_count c))"

definition tcp_inv :: "comm_tcp_context_t \<Rightarrow> bool" where
  "tcp_inv c \<longleftrightarrow> ring_ok COMM_TCP_QUEUE_CAPACITY (tcp_queue c) (tcp_head c) (tcp_tail c) (tcp_count c)
     \<and> (\<forall>f \<in> set (ring_elems (tcp_queue c) (tcp_head c) (tcp_count c)).
          \<exists>d. tf_data f = Some d \<and> tf_len f = length d)"

definition tcp_push :: "bytes \<Rightarrow> comm_tcp_context_t \<Rightarrow> bool \<times> comm_tcp_context_t" where
  "tcp_push d c = (let (e, c') = comm_tcp_queue_push True d c in (e = None, c'))"

definition tcp_pop :: "comm_tcp_context_t \<Rightarrow> (bytes \<times> comm_tcp_context_t) option" where
  "tcp_pop c = (case comm_tcp_queue_pop c of (Popped f, c') \<Rightarrow> Some (the (tf_data f), c') | _ \<Rightarrow> None)"

lemma length_tcp_elems [simp]: "length (tcp_elems c) = tcp_count c"
  by (simp add: tcp_elems_def)

lemma tcp_init_inv: "tcp_inv g_comm_tcp_ctx" "tcp_elems g_comm_tcp_ctx = []"
  by (simp_all add: tcp_inv_def tcp_elems_def g_comm_tcp_ctx_def ring_empty COMM_TCP_QUEUE_CAPACITY_def)

lemma tcp_push_law:
  assumes i: "tcp_inv c" and n: "tcp_count c < COMM_TCP_QUEUE_CAPACITY"
  shows "fst (tcp_push d c)" "tcp_inv (snd (tcp_push d c))" "tcp_elems (snd (tcp_push d c)) = tcp_elems c @ [d]"
proof -
  have ok: "ring_ok COMM_TCP_QUEUE_CAPACITY (tcp_queue c) (tcp_head c) (tcp_tail c) (tcp_count c)"
    using i by (simp add: tcp_inv_def)
  note p = ring_push [OF ok n, of "\<lparr>tf_data = Some d, tf_len = length d\<rparr>"]
  show "fst (tcp_push d c)" "tcp_inv (snd (tcp_push d c))"
    "tcp_elems (snd (tcp_push d c)) = tcp_elems c @ [d]"
    using i n p by (simp_all add: tcp_push_def comm_tcp_queue_push_def tcp_inv_def tcp_elems_def)
qed

lemma tcp_pop_law:
  assumes i: "tcp_inv c" and e: "tcp_elems c = a # as"
  shows "\<exists>c'. tcp_pop c = Some (a, c') \<and> tcp_inv c' \<and> tcp_elems c' = as"
proof -
  have ok: "ring_ok COMM_TCP_QUEUE_CAPACITY (tcp_queue c) (tcp_head c) (tcp_tail c) (tcp_count c)"
    using i by (simp add: tcp_inv_def)
  have n: "0 < tcp_count c" using e by (simp flip: length_tcp_elems)
  note p = ring_pop [OF ok n, of "\<lparr>tf_data = None, tf_len = 0\<rparr>"]
  show ?thesis
    using i n p e
    by (simp add: tcp_pop_def comm_tcp_queue_pop_def Let_def tcp_inv_def tcp_elems_def)
qed

interpretation tcp: bounded_fifo COMM_TCP_QUEUE_CAPACITY tcp_elems tcp_inv tcp_push tcp_pop
proof
  fix c assume "tcp_inv c"
  then show "length (tcp_elems c) \<le> COMM_TCP_QUEUE_CAPACITY" by (simp add: tcp_inv_def ring_ok_def)
next
  fix c a assume "tcp_inv c" "length (tcp_elems c) < COMM_TCP_QUEUE_CAPACITY"
  then show "fst (tcp_push a c) \<and> tcp_inv (snd (tcp_push a c)) \<and> tcp_elems (snd (tcp_push a c)) = tcp_elems c @ [a]"
    using tcp_push_law [of c a] by simp
next
  fix c a assume "tcp_inv c" "length (tcp_elems c) = COMM_TCP_QUEUE_CAPACITY"
  then show "tcp_push a c = (False, c)" by (simp add: tcp_push_def comm_tcp_queue_push_def)
next
  fix c assume "tcp_inv c" "tcp_elems c = []"
  then have "tcp_count c = 0" by (simp flip: length_tcp_elems)
  then show "tcp_pop c = None" by (simp add: tcp_pop_def comm_tcp_queue_pop_def)
qed (rule tcp_pop_law)

end
