(* ===== verification/Mqtt.thy ===== *)
theory Mqtt
  imports CommTcp
begin

text \<open>
  The MQTT client (\<open>core/src/comm_mqtt.c\<close>): the packet encoders and the connection state; its
  threads are in \<open>MqttThreads\<close>. The three packet kinds are byte lists; the 256 and 512 bytes of the packet
  buffers are bounds that the lemmas check. The decoder of the protocol's variable-length
  integer is the reference that the encoder is proved against.
\<close>

record comm_mqtt_config_t =
  mqtt_host :: string
  mqtt_port :: string
  mqtt_client_id :: string
  mqtt_topic :: string
  mqtt_keepalive :: u32

record comm_mqtt_context_t =
  mqtt_fd :: int
  mqtt_connected :: bool
  mqtt_running :: bool
  mqtt_config :: comm_mqtt_config_t

definition g_comm_mqtt_ctx :: comm_mqtt_context_t where
  "g_comm_mqtt_ctx = \<lparr>mqtt_fd = - 1, mqtt_connected = False, mqtt_running = False,
     mqtt_config = \<lparr>mqtt_host = ''127.0.0.1'', mqtt_port = ''1883'', mqtt_client_id = ''ok3506-demo'',
       mqtt_topic = ''ok3506/demo/status'', mqtt_keepalive = 30\<rparr>\<rparr>"

section \<open>Encoders\<close>

text \<open>The \<open>do\<close> loop at \<open>index\<close>; it writes at most four bytes.\<close>

function encode_remaining_loop :: "nat \<Rightarrow> nat \<Rightarrow> bytes" where
  "encode_remaining_loop length_v index =
     (let encoded = of_nat (length_v mod 128) :: u8;
          length_v = length_v div 128;
          encoded = (if length_v > 0 then encoded OR 0x80 else encoded);
          index = index + 1
      in encoded # (if length_v > 0 \<and> index < 4 then encode_remaining_loop length_v index else []))"
  by pat_completeness auto
termination by (relation "measure (\<lambda>(n, i). 4 - i)") auto

declare encode_remaining_loop.simps [simp del]

definition comm_mqtt_encode_remaining_length :: "nat \<Rightarrow> bytes" where
  "comm_mqtt_encode_remaining_length n = encode_remaining_loop n 0"

definition comm_mqtt_put_utf8 :: "string \<Rightarrow> bytes" where
  "comm_mqtt_put_utf8 text_v =
     (let len = length text_v
      in [of_nat (len div 256 mod 256), of_nat (len mod 256)] @ bytes_of_string text_v)"

definition mqtt_connect_packet :: "comm_mqtt_config_t \<Rightarrow> bytes" where
  "mqtt_connect_packet cfg =
     (let client_id_len = length (c_str (mqtt_client_id cfg));
          payload_len = 2 + client_id_len;
          remaining_len = 10 + payload_len
      in [0x10] @ comm_mqtt_encode_remaining_length remaining_len
         @ [0x00, 0x04] @ bytes_of_string ''MQTT'' @ [0x04, 0x02,
            ucast (drop_bit 8 (mqtt_keepalive cfg) AND 0xFF), ucast (mqtt_keepalive cfg AND 0xFF)]
         @ comm_mqtt_put_utf8 (c_str (mqtt_client_id cfg)))"

definition MQTT_PACKET_SIZE :: nat where "MQTT_PACKET_SIZE = 512"

definition mqtt_publish_packet :: "comm_mqtt_config_t \<Rightarrow> bytes option \<Rightarrow> errno + bytes" where
  "mqtt_publish_packet cfg payload =
     (case payload of
        None \<Rightarrow> Inl EINVAL
      | Some d \<Rightarrow>
          if length d = 0 then Inl EINVAL
          else let topic = c_str (mqtt_topic cfg);
                   remaining_len = 2 + length topic + length d
               in if remaining_len + 2 \<ge> MQTT_PACKET_SIZE then Inl EMSGSIZE
                  else Inr ([0x30] @ comm_mqtt_encode_remaining_length remaining_len
                            @ comm_mqtt_put_utf8 topic @ d))"

definition mqtt_pingreq_packet :: bytes where
  "mqtt_pingreq_packet = [0xC0, 0x00]"

text \<open>\<open>comm_mqtt_parse_packet\<close> recognises the broker's answer to a connect packet.\<close>

datatype mqtt_rx = Mqtt_none | Connack u8 | Mqtt_other u8 nat

definition comm_mqtt_parse_packet :: "bytes \<Rightarrow> mqtt_rx" where
  "comm_mqtt_parse_packet packet =
     (if length packet = 0 then Mqtt_none
      else let packet_type = drop_bit 4 (packet ! 0)
           in if packet_type = 2 \<and> length packet \<ge> 4 then Connack (packet ! 3)
              else Mqtt_other packet_type (length packet))"

section \<open>The connection\<close>

text \<open>The second result is the descriptors that were closed.\<close>

definition comm_mqtt_set_connection :: "int \<Rightarrow> bool \<Rightarrow> comm_mqtt_context_t \<Rightarrow> comm_mqtt_context_t \<times> int list" where
  "comm_mqtt_set_connection fd conn c =
     (c\<lparr>mqtt_fd := fd, mqtt_connected := conn\<rparr>,
      if 0 \<le> mqtt_fd c \<and> mqtt_fd c \<noteq> fd \<and> \<not> conn then [mqtt_fd c] else [])"

definition comm_mqtt_get_connection :: "comm_mqtt_context_t \<Rightarrow> int \<times> bool" where
  "comm_mqtt_get_connection c = (mqtt_fd c, mqtt_connected c)"

definition comm_mqtt_configure :: "comm_mqtt_config_t option \<Rightarrow> comm_mqtt_context_t \<Rightarrow> comm_mqtt_context_t" where
  "comm_mqtt_configure cfg c = (case cfg of None \<Rightarrow> c | Some v \<Rightarrow> c\<lparr>mqtt_config := v\<rparr>)"

text \<open>\<open>comm_mqtt_send\<close>: the checks, then the packet that is written to the descriptor.\<close>

definition comm_mqtt_send :: "bytes option \<Rightarrow> comm_mqtt_context_t \<Rightarrow> errno + int \<times> bytes" where
  "comm_mqtt_send data c =
     (if data = None \<or> data = Some [] then Inl EINVAL
      else let (fd, conn) = comm_mqtt_get_connection c
           in if \<not> conn \<or> fd < 0 then Inl ENOTCONN
              else (case mqtt_publish_packet (mqtt_config c) data of
                      Inl e \<Rightarrow> Inl e | Inr p \<Rightarrow> Inr (fd, p)))"

text \<open>The status message of the transmit thread.\<close>

definition mqtt_status_payload :: "u32 \<Rightarrow> string" where
  "mqtt_status_payload tick =
     c_snprintf 256 (''{\"device\":\"ok3506\",\"tick\":'' @ show_nat (unat tick) @ ''}'')"

section \<open>Remaining length\<close>

text \<open>
  The decoder of the MQTT specification: seven bits a byte, least significant first, the
  top bit set on all but the last.
\<close>

fun decode_remaining :: "nat \<Rightarrow> bytes \<Rightarrow> (nat \<times> bytes) option" where
  "decode_remaining 0 bs = None"
| "decode_remaining (Suc k) [] = None"
| "decode_remaining (Suc k) (b # bs) =
     (if bit b 7 then map_option (\<lambda>(n, r). (unat b mod 128 + 128 * n, r)) (decode_remaining k bs)
      else Some (unat b, bs))"

lemma bit7_iff: "bit (b :: u8) 7 \<longleftrightarrow> 128 \<le> unat b"
proof -
  have "unat b < 2 ^ 8" by (rule order_less_le_trans [OF unsigned_less]) simp
  then have "unat b div 128 < 2" by (simp add: less_mult_imp_div_less)
  then have "odd (unat b div 128) \<longleftrightarrow> 128 \<le> unat b"
    by (cases "unat b div 128 = 0") (auto simp: div_eq_0_iff less_2_cases_iff)
  moreover have "bit b 7 = bit (unat b) 7" by (simp add: bit_unsigned_iff)
  ultimately show ?thesis by (simp add: bit_iff_odd)
qed

lemma low7:
  assumes "m < 128"
  shows "unat (of_nat m :: u8) = m" "\<not> bit (of_nat m :: u8) 7"
    "unat (of_nat m OR 0x80 :: u8) = m + 128" "bit (of_nat m OR 0x80 :: u8) 7"
proof -
  show u: "unat (of_nat m :: u8) = m" using assms by (simp add: unat_of_nat)
  then show b: "\<not> bit (of_nat m :: u8) 7" using assms unfolding bit7_iff by simp
  have p: "(0x80 :: u8) = push_bit 7 1" by simp
  have "bit (0x80 :: u8) j \<Longrightarrow> j = 7" for j
    unfolding p by (simp only: bit_push_bit_iff bit_1_iff) linarith
  then have "\<not> bit (of_nat m :: u8) j \<or> \<not> bit (0x80 :: u8) j" for j
    using b by blast
  then have e: "(of_nat m OR 0x80 :: u8) = of_nat m + 0x80"
    by (rule disjunctive_add [symmetric])
  also have "\<dots> = of_nat (m + 128)" by simp
  finally show r: "unat (of_nat m OR 0x80 :: u8) = m + 128"
    using assms by (simp only: unat_of_nat) simp
  then show "bit (of_nat m OR 0x80 :: u8) 7" unfolding bit7_iff by simp
qed

lemma decode_remaining_loop:
  "i + k = 4 \<Longrightarrow> 0 < k \<Longrightarrow> n < 128 ^ k \<Longrightarrow> decode_remaining k (encode_remaining_loop n i @ rest) = Some (n, rest)"
proof (induction n i arbitrary: k rule: encode_remaining_loop.induct)
  case (1 n i)
  obtain k' where k: "k = Suc k'" using "1.prems" by (cases k) auto
  have m: "n mod 128 < 128" by simp
  show ?case
  proof (cases "n div 128 > 0")
    case False
    then have "n < 128" by (simp add: div_eq_0_iff)
    with False show ?thesis
      by (simp add: encode_remaining_loop.simps [of n i] k low7)
  next
    case True
    have "n div 128 < 128 ^ k'" using "1.prems"(3) k by (simp add: less_mult_imp_div_less mult.commute)
    moreover from this True have "0 < k'" by (cases k') auto
    moreover have "i + 1 < 4" using "1.prems" k \<open>0 < k'\<close> by simp
    ultimately have ih: "decode_remaining k' (encode_remaining_loop (n div 128) (i + 1) @ rest) = Some (n div 128, rest)"
      using True "1.prems" k by (intro "1.IH") auto
    show ?thesis using True \<open>i + 1 < 4\<close> ih low7 [OF m]
      by (simp add: encode_remaining_loop.simps [of n i] k Let_def)
  qed
qed

lemma decode_encode_remaining:
  "n < 128 ^ 4 \<Longrightarrow> decode_remaining 4 (comm_mqtt_encode_remaining_length n @ rest) = Some (n, rest)"
  unfolding comm_mqtt_encode_remaining_length_def by (rule decode_remaining_loop) auto

lemma length_encode_remaining: "n < 16384 \<Longrightarrow> length (comm_mqtt_encode_remaining_length n) \<le> 2"
  unfolding comm_mqtt_encode_remaining_length_def
  by (subst encode_remaining_loop.simps, subst encode_remaining_loop.simps)
    (auto simp: Let_def div_mult2_eq [symmetric])

lemma length_put_utf8 [simp]: "length (comm_mqtt_put_utf8 t) = length t + 2"
  by (simp add: comm_mqtt_put_utf8_def Let_def)

text \<open>A publish packet fits the 512 bytes of its buffer, a connect packet its 256.\<close>

lemma publish_fits: "mqtt_publish_packet cfg payload = Inr p \<Longrightarrow> length p \<le> MQTT_PACKET_SIZE"
proof -
  assume r: "mqtt_publish_packet cfg payload = Inr p"
  then obtain d where d: "payload = Some d" by (auto simp: mqtt_publish_packet_def split: option.splits)
  let ?n = "2 + length (c_str (mqtt_topic cfg)) + length d"
  have "?n + 2 < 512" and p: "p = 0x30 # comm_mqtt_encode_remaining_length ?n @ comm_mqtt_put_utf8 (c_str (mqtt_topic cfg)) @ d"
    using r d by (auto simp: mqtt_publish_packet_def MQTT_PACKET_SIZE_def Let_def split: if_splits)
  moreover from this have "length (comm_mqtt_encode_remaining_length ?n) \<le> 2"
    by (intro length_encode_remaining) simp
  ultimately show ?thesis by (simp add: MQTT_PACKET_SIZE_def)
qed

lemma length_c_str: "length (c_str s) \<le> length s"
  by (simp add: c_str_def length_takeWhile_le)

lemma connect_fits: "length (mqtt_client_id cfg) \<le> 64 \<Longrightarrow> length (mqtt_connect_packet cfg) \<le> 256"
  using length_encode_remaining [of "12 + length (c_str (mqtt_client_id cfg))"]
    length_c_str [of "mqtt_client_id cfg"]
  by (simp add: mqtt_connect_packet_def Let_def)

section \<open>Reading a packet back\<close>

text \<open>The fields of a publish packet as a broker reads them: topic and payload.\<close>

definition broker_publish :: "bytes \<Rightarrow> (bytes \<times> bytes) option" where
  "broker_publish p =
     (case p of
        [] \<Rightarrow> None
      | t # r \<Rightarrow>
          if t \<noteq> 0x30 then None
          else (case decode_remaining 4 r of
                  None \<Rightarrow> None
                | Some (n, body) \<Rightarrow>
                    if length body \<noteq> n \<or> n < 2 then None
                    else let tl = unat (body ! 0) * 256 + unat (body ! 1)
                         in if n < 2 + tl then None
                            else Some (take tl (drop 2 body), drop (2 + tl) body)))"

lemma put_utf8_len:
  assumes "length t < 65536"
  shows "unat (comm_mqtt_put_utf8 t ! 0) * 256 + unat (comm_mqtt_put_utf8 t ! 1) = length t"
proof -
  have "unat (of_nat (length t div 256 mod 256) :: u8) = length t div 256"
    using assms by (simp add: unat_of_nat less_mult_imp_div_less)
  moreover have "unat (of_nat (length t mod 256) :: u8) = length t mod 256"
    by (simp add: unat_of_nat)
  ultimately show ?thesis by (simp add: comm_mqtt_put_utf8_def Let_def)
qed

lemma publish_roundtrip:
  assumes "mqtt_publish_packet cfg (Some d) = Inr p"
  shows "broker_publish p = Some (bytes_of_string (c_str (mqtt_topic cfg)), d)"
proof -
  let ?t = "c_str (mqtt_topic cfg)"
  let ?n = "2 + length ?t + length d"
  have p: "p = 0x30 # comm_mqtt_encode_remaining_length ?n @ comm_mqtt_put_utf8 ?t @ d"
    and n: "?n + 2 < 512"
    using assms by (auto simp: mqtt_publish_packet_def MQTT_PACKET_SIZE_def Let_def split: if_splits)
  have "decode_remaining 4 (comm_mqtt_encode_remaining_length ?n @ comm_mqtt_put_utf8 ?t @ d)
      = Some (?n, comm_mqtt_put_utf8 ?t @ d)"
    using n by (intro decode_encode_remaining) simp
  moreover have "unat ((comm_mqtt_put_utf8 ?t @ d) ! 0) * 256 + unat ((comm_mqtt_put_utf8 ?t @ d) ! 1) = length ?t"
    using put_utf8_len [of ?t] n by (simp add: nth_append)
  moreover have "take (length ?t) (drop 2 (comm_mqtt_put_utf8 ?t @ d)) = bytes_of_string ?t"
    "drop (2 + length ?t) (comm_mqtt_put_utf8 ?t @ d) = d"
    by (simp_all add: comm_mqtt_put_utf8_def Let_def)
  ultimately show ?thesis by (simp add: broker_publish_def p)
qed

end
