(* ===== verification/CommService.thy ===== *)
theory CommService
  imports GnssCtl NetFrame Mqtt
begin

text \<open>
  The command service (\<open>core/src/comm_service.c\<close>): sending frames over one of the three
  transports, the commands that a network client can give, and the reception of a
  datagram. \<open>comm_world\<close> holds what these functions read and write: the configuration, the
  contexts of the transports and the GNSS side. A call of \<open>malloc\<close> succeeds, and so does
  writing an MQTT packet, which is then logged in \<open>mqtt_out\<close>; delays are not modelled.
\<close>

datatype comm_service_kind_t = COMM_SERVICE_UDP | COMM_SERVICE_TCP | COMM_SERVICE_MQTT

record comm_service_config_t =
  cfg_udp_port :: u16
  cfg_tcp_port :: u16
  cfg_mqtt :: comm_mqtt_config_t

definition k_comm_service_default_config :: comm_service_config_t where
  "k_comm_service_default_config =
     \<lparr>cfg_udp_port = 8888, cfg_tcp_port = 9001, cfg_mqtt = mqtt_config g_comm_mqtt_ctx\<rparr>"

record comm_world =
  comm_cfg :: glob_comm_config_t
  service_cfg :: comm_service_config_t
  udp_ctx :: comm_udp_context_t
  tcp_ctx :: comm_tcp_context_t
  mqtt_ctx :: comm_mqtt_context_t
  mqtt_out :: "(int \<times> bytes) list"
  gworld :: gnss_world

definition REV_CMD_SET_EPH_SW :: u8 where "REV_CMD_SET_EPH_SW = 0xA0"
definition REV_CMD_SET_OUTPUT_FREQ :: u8 where "REV_CMD_SET_OUTPUT_FREQ = 0xA1"
definition REV_CMD_QUERY_EPH_SW :: u8 where "REV_CMD_QUERY_EPH_SW = 0xB0"
definition REV_CMD_QUERY_OUTPUT_FREQ :: u8 where "REV_CMD_QUERY_OUTPUT_FREQ = 0xB1"

lemmas rev_consts = REV_CMD_SET_EPH_SW_def REV_CMD_SET_OUTPUT_FREQ_def REV_CMD_QUERY_EPH_SW_def
  REV_CMD_QUERY_OUTPUT_FREQ_def

section \<open>Configuration\<close>

definition comm_service_normalize_config :: "comm_service_config_t option \<Rightarrow> comm_service_config_t" where
  "comm_service_normalize_config config =
     (case config of Some c \<Rightarrow> c | None \<Rightarrow> k_comm_service_default_config)"

definition comm_service_apply_config :: "comm_service_config_t option \<Rightarrow> comm_world \<Rightarrow> comm_world" where
  "comm_service_apply_config config w =
     (let g = comm_service_normalize_config config
      in w\<lparr>service_cfg := g,
           udp_ctx := comm_udp_configure (Some (cfg_udp_port g)) (udp_ctx w),
           tcp_ctx := comm_tcp_configure (Some (cfg_tcp_port g)) (tcp_ctx w),
           mqtt_ctx := comm_mqtt_configure (Some (cfg_mqtt g)) (mqtt_ctx w)\<rparr>)"

text \<open>The TCP and MQTT services are not started.\<close>

definition comm_service_init :: "comm_service_config_t option \<Rightarrow> comm_world \<Rightarrow> comm_world" where
  "comm_service_init config w =
     (let w = comm_service_apply_config config w in w\<lparr>udp_ctx := comm_udp_init (udp_ctx w)\<rparr>)"

section \<open>Sending\<close>

definition result_code :: "errno option \<Rightarrow> int" where
  "result_code e = (if e = None then 0 else - 1)"

definition comm_service_send :: "comm_service_kind_t \<Rightarrow> bytes \<Rightarrow> comm_world \<Rightarrow> int \<times> comm_world" where
  "comm_service_send kind data w =
     (case kind of
        COMM_SERVICE_UDP \<Rightarrow>
          (let (e, c) = comm_udp_send True (Some data) (udp_ctx w) in (result_code e, w\<lparr>udp_ctx := c\<rparr>))
      | COMM_SERVICE_TCP \<Rightarrow>
          (let (e, c) = comm_tcp_send True (Some data) (tcp_ctx w) in (result_code e, w\<lparr>tcp_ctx := c\<rparr>))
      | COMM_SERVICE_MQTT \<Rightarrow>
          (case comm_mqtt_send (Some data) (mqtt_ctx w) of
             Inl e \<Rightarrow> (- 1, w) | Inr p \<Rightarrow> (0, w\<lparr>mqtt_out := mqtt_out w @ [p]\<rparr>)))"

definition net_send :: "comm_service_kind_t \<Rightarrow> u8 \<Rightarrow> bytes \<Rightarrow> comm_world \<Rightarrow> int \<times> comm_world" where
  "net_send kind cmd data w = comm_service_send kind (net_frame (comm_cfg w) cmd data) w"

definition net_send_eph :: "comm_service_kind_t \<Rightarrow> EPH_Type_t \<Rightarrow> bytes \<Rightarrow> comm_world \<Rightarrow> int \<times> comm_world" where
  "net_send_eph kind t data w = comm_service_send kind (net_frame_eph (comm_cfg w) t data) w"

section \<open>Commands\<close>

definition sw_apply :: "glob_comm_config_t \<Rightarrow> EPH_Type_t \<Rightarrow> string \<Rightarrow> gnss_world \<Rightarrow> gnss_world" where
  "sw_apply cfg t name w =
     (if eph_sw_on cfg t then gnss_cfg_data name 1 (output_freq cfg) w
      else gnss_cfg_data name 0 (output_freq cfg) w)"

text \<open>The names are the source's, the misspelt one of the CNAV2 messages included.\<close>

definition update_eph_sw :: "comm_world \<Rightarrow> comm_world" where
  "update_eph_sw w =
     (let cfg = comm_cfg w; g = gworld w;
          g = sw_apply cfg BDXWEPH ''BDXWEPHB'' g;
          g = sw_apply cfg BD2EPH ''BD2EPHB'' g;
          g = sw_apply cfg BD3EPH ''BD3EPHB'' g;
          g = sw_apply cfg GPSEPH ''GPSEPHB'' g;
          g = sw_apply cfg GALEPH ''GALEPHB'' g;
          g = sw_apply cfg GLOEPH ''GLOEPHB'' g;
          g = sw_apply cfg BD3CNAV2EPH ''BD3CANV2EPHB'' g;
          g = sw_apply cfg BD3CNAV3EPH ''BD3CNAV3EPHB'' g
      in w\<lparr>gworld := g\<rparr>)"

definition rev_process :: "u8 \<Rightarrow> bytes \<Rightarrow> comm_world \<Rightarrow> comm_world" where
  "rev_process cmd data w =
     (if cmd = REV_CMD_SET_EPH_SW then
        (let w = (if length data = 2
                  then update_eph_sw (w\<lparr>comm_cfg := (comm_cfg w)\<lparr>eph_sw := rd16 data 0\<rparr>\<rparr>) else w)
         in snd (net_send COMM_SERVICE_UDP SEND_CMD_EPH_SW (le16 (eph_sw (comm_cfg w))) w))
      else if cmd = REV_CMD_SET_OUTPUT_FREQ then
        (let w = (if length data = 1
                  then w\<lparr>comm_cfg := (comm_cfg w)\<lparr>output_freq := data ! 0\<rparr>\<rparr> else w)
         in snd (net_send COMM_SERVICE_UDP SEND_CMD_OUTPUT_FREQ [output_freq (comm_cfg w)] w))
      else if cmd = REV_CMD_QUERY_EPH_SW then
        snd (net_send COMM_SERVICE_UDP SEND_CMD_EPH_SW (le16 (eph_sw (comm_cfg w))) w)
      else if cmd = REV_CMD_QUERY_OUTPUT_FREQ then
        snd (net_send COMM_SERVICE_UDP SEND_CMD_OUTPUT_FREQ [output_freq (comm_cfg w)] w)
      else w)"

definition comm_service_receive :: "comm_service_kind_t \<Rightarrow> bytes \<Rightarrow> nat \<Rightarrow> comm_world \<Rightarrow> int \<times> comm_world" where
  "comm_service_receive kind buffer len w =
     (case kind of
        COMM_SERVICE_UDP \<Rightarrow>
          (case rx_frame buffer len of
             None \<Rightarrow> (- 1, w)
           | Some (cmd, data) \<Rightarrow> (0, rev_process cmd data w))
      | COMM_SERVICE_TCP \<Rightarrow> (0, w)
      | COMM_SERVICE_MQTT \<Rightarrow> (0, w))"

text \<open>
  One round of the receive loop of \<open>comm_udp_rx_thread_func\<close>: the datagram is stored in the
  buffer of 1024 bytes, at most 1023 of it, and a NUL follows; \<open>stale\<close> is what the rest of
  the buffer holds.
\<close>

definition udp_rx_datagram :: "bytes \<Rightarrow> bytes \<Rightarrow> sockaddr_in \<Rightarrow> comm_world \<Rightarrow> comm_world" where
  "udp_rx_datagram datagram stale peer w =
     (let d = take 1023 datagram;
          w = w\<lparr>udp_ctx := (udp_ctx w)\<lparr>last_peer := peer, last_peer_valid := True\<rparr>\<rparr>
      in snd (comm_service_receive COMM_SERVICE_UDP (d @ [0] @ stale) (length d) w))"

section \<open>The switches\<close>

fun eph_info :: "EPH_Type_t \<Rightarrow> gnss_ctrl_t \<Rightarrow> gnss_eph_data_info_t" where
  "eph_info BDXWEPH g = eph_bdxw (cfg_ephb (data_cfg g))"
| "eph_info BD2EPH g = eph_bd2 (cfg_ephb (data_cfg g))"
| "eph_info BD3EPH g = eph_bd3 (cfg_ephb (data_cfg g))"
| "eph_info BD3CNAV2EPH g = eph_bd3cnav2 (cfg_ephb (data_cfg g))"
| "eph_info BD3CNAV3EPH g = eph_bd3cnav3 (cfg_ephb (data_cfg g))"
| "eph_info GPSEPH g = eph_gps (cfg_ephb (data_cfg g))"
| "eph_info GALEPH g = eph_gal (cfg_ephb (data_cfg g))"
| "eph_info GLOEPH g = eph_glo (cfg_ephb (data_cfg g))"

lemmas caseeq_simps = c_strcaseeq_def lower_code_def c_between_def ccode_def

lemma Cfgdata_names:
  "CfgdataType_from_name ''BDXWEPHB'' e g = set_eph_output eph_bdxw_update e g"
  "CfgdataType_from_name ''BD2EPHB'' e g = set_eph_output eph_bd2_update e g"
  "CfgdataType_from_name ''BD3EPHB'' e g = set_eph_output eph_bd3_update e g"
  "CfgdataType_from_name ''GPSEPHB'' e g = set_eph_output eph_gps_update e g"
  "CfgdataType_from_name ''GALEPHB'' e g = set_eph_output eph_gal_update e g"
  "CfgdataType_from_name ''GLOEPHB'' e g = set_eph_output eph_glo_update e g"
  "CfgdataType_from_name ''BD3CANV2EPHB'' e g = g"
  "CfgdataType_from_name ''BD3CNAV2EPHB'' e g = set_eph_output eph_bd3cnav2_update e g"
  "CfgdataType_from_name ''BD3CNAV3EPHB'' e g = set_eph_output eph_bd3cnav3_update e g"
  by (simp_all add: CfgdataType_from_name_def caseeq_simps)

definition sw_enable :: "glob_comm_config_t \<Rightarrow> EPH_Type_t \<Rightarrow> u8" where
  "sw_enable cfg t = (if eph_sw_on cfg t then 1 else 0)"

lemma sw_apply_eq: "sw_apply cfg t name w = gnss_cfg_data name (sw_enable cfg t) (output_freq cfg) w"
  by (simp add: sw_apply_def sw_enable_def)

text \<open>With a working device every switch reaches the configuration, except CNAV2.\<close>

lemma update_eph_sw_ok:
  assumes "dev_ok (gworld w)"
  shows "gctrl (gworld (update_eph_sw w)) =
      (let e = sw_enable (comm_cfg w)
       in set_eph_output eph_bd3cnav3_update (e BD3CNAV3EPH) (set_eph_output eph_glo_update (e GLOEPH)
         (set_eph_output eph_gal_update (e GALEPH) (set_eph_output eph_gps_update (e GPSEPH)
         (set_eph_output eph_bd3_update (e BD3EPH) (set_eph_output eph_bd2_update (e BD2EPH)
         (set_eph_output eph_bdxw_update (e BDXWEPH) (gctrl (gworld w)))))))))"
    and "dev_out (gworld (update_eph_sw w)) = dev_out (gworld w) @
      map (\<lambda>(t, n). cfg_command n (sw_enable (comm_cfg w) t) (output_freq (comm_cfg w)))
        [(BDXWEPH, ''BDXWEPHB''), (BD2EPH, ''BD2EPHB''), (BD3EPH, ''BD3EPHB''), (GPSEPH, ''GPSEPHB''),
         (GALEPH, ''GALEPHB''), (GLOEPH, ''GLOEPHB''), (BD3CNAV2EPH, ''BD3CANV2EPHB''),
         (BD3CNAV3EPH, ''BD3CNAV3EPHB'')]"
  using assms by (simp_all add: update_eph_sw_def Let_def sw_apply_eq gnss_cfg_data_ok Cfgdata_names)

lemma eph_output_update_eph_sw:
  assumes "dev_ok (gworld w)" "t \<noteq> BD3CNAV2EPH"
  shows "eph_output (eph_info t (gctrl (gworld (update_eph_sw w)))) = sw_enable (comm_cfg w) t"
  using assms by (cases t) (simp_all add: update_eph_sw_ok set_eph_output_def Let_def)

lemma eph_output_cnav2:
  assumes "dev_ok (gworld w)"
  shows "eph_info BD3CNAV2EPH (gctrl (gworld (update_eph_sw w))) = eph_info BD3CNAV2EPH (gctrl (gworld w))"
  using assms by (simp add: update_eph_sw_ok set_eph_output_def Let_def)

lemma update_eph_sw_other [simp]:
  "comm_cfg (update_eph_sw w) = comm_cfg w" "udp_ctx (update_eph_sw w) = udp_ctx w"
  by (simp_all add: update_eph_sw_def Let_def)

section \<open>Replies\<close>

lemma le16_rd16: "length d = 2 \<Longrightarrow> le16 (rd16 d 0) = d"
proof -
  assume "length d = 2"
  then obtain a b where d: "d = [a, b]" by (auto simp: length_Suc_conv numeral_2_eq_2)
  have "ucast (rd16 d 0) = a"
    unfolding d rd16_def by (rule bit_word_eqI) (auto simp: bit_simps)
  moreover have "ucast (drop_bit 8 (rd16 d 0)) = b"
    unfolding d rd16_def by (rule bit_word_eqI) (auto simp: bit_simps dest: bit_imp_le_length)
  ultimately show ?thesis by (simp add: le16_def d)
qed

text \<open>A frame sent over UDP is queued for the last peer when there is room.\<close>

lemma net_send_udp:
  assumes "udp_inv (udp_ctx w)" "udp_count (udp_ctx w) < COMM_UDP_QUEUE_CAPACITY" "last_peer_valid (udp_ctx w)"
  shows "\<exists>c. net_send COMM_SERVICE_UDP cmd data w = (0, w\<lparr>udp_ctx := c\<rparr>) \<and> udp_inv c
     \<and> udp_elems c = udp_elems (udp_ctx w) @ [(net_frame (comm_cfg w) cmd data, last_peer (udp_ctx w))]"
proof -
  let ?f = "net_frame (comm_cfg w) cmd data"
  obtain e c where p: "comm_udp_queue_push_frame True ?f (last_peer (udp_ctx w)) (udp_ctx w) = (e, c)"
    by (cases "comm_udp_queue_push_frame True ?f (last_peer (udp_ctx w)) (udp_ctx w)")
  note l = udp_push_law [OF assms(1,2) p]
  have "?f \<noteq> []" by (simp add: net_frame_def Let_def)
  then have "comm_udp_send True (Some ?f) (udp_ctx w) = (None, c)"
    using assms(3) p l(1) by (simp add: comm_udp_send_def)
  then have "net_send COMM_SERVICE_UDP cmd data w = (0, w\<lparr>udp_ctx := c\<rparr>)"
    by (simp add: net_send_def comm_service_send_def result_code_def)
  with l show ?thesis by blast
qed

lemma udp_rx_frame:
  assumes d: "datagram = net_frame cfg cmd data" and len: "length data \<le> 1013"
  shows "udp_rx_datagram datagram stale peer w =
     rev_process cmd data (w\<lparr>udp_ctx := (udp_ctx w)\<lparr>last_peer := peer, last_peer_valid := True\<rparr>\<rparr>)"
proof -
  have l: "length datagram = length data + 10" unfolding d by (simp add: net_frame_length NET_FRAME_SIZE_def)
  have t: "take 1023 datagram = datagram" using l len by simp
  have "rx_frame (datagram @ [0] @ stale) (length datagram) = Some (cmd, data)"
    unfolding d by (rule rx_net_frame) (use len in \<open>simp_all add: net_frame_length\<close>)
  then show ?thesis by (simp add: udp_rx_datagram_def Let_def t comm_service_receive_def)
qed

end
