(* ===== verification/NmeaLog.thy ===== *)
theory NmeaLog
  imports GnssFile CommService
begin

text \<open>
  What the gateway does with an NMEA sentence: \<open>handle_gnss_nmea\<close> of \<open>core/src/gnss_nmea.c\<close>.
  A sentence that checks and parses is logged as it is, logged in a readable form, and a
  position (RMC) also sets the system clock and goes to the network client. Every piece of the
  readable form is a call of \<open>GNSS_NMEA_EX_LOG\<close>, which opens and closes the file on its own.
\<close>

section \<open>State\<close>

text \<open>The calendar fields of \<open>struct tm\<close> that the code sets, and what happens to the clock.\<close>

record tm =
  tm_year :: int
  tm_mon :: int
  tm_mday :: int
  tm_hour :: int
  tm_min :: int
  tm_sec :: int

datatype clock_event = Clock_set int int | Clock_command string

record nmea_world =
  nm_files :: file_world
  nm_comm :: comm_world
  nm_out :: string                     \<comment> \<open>the standard output\<close>
  nm_file_type :: minmea_sentence_id   \<comment> \<open>\<open>nmea_file_type\<close>\<close>
  nm_clock :: "clock_event list"

text \<open>
  The clock during a call: the seconds of \<open>gettimeofday\<close>, \<open>mktime\<close> in the time zone of the
  system (it also normalises the fields), and whether \<open>settimeofday\<close> succeeds.
\<close>

record clock =
  ck_now :: int
  ck_mktime :: "tm \<Rightarrow> int \<times> tm"
  ck_settime :: bool

definition nm_ctrl :: "nmea_world \<Rightarrow> gnss_ctrl_t" where
  "nm_ctrl w = gctrl (fgnss (nm_files w))"

text \<open>\<open>timegm\<close>: the seconds since 1970 of a date in UTC, months and days out of range included.\<close>

definition days_from_civil :: "int \<Rightarrow> int \<Rightarrow> int \<Rightarrow> int" where
  "days_from_civil y m d =
     (let y = (if m \<le> 2 then y - 1 else y);
          era = y div 400;
          yoe = y - era * 400;
          doy = (153 * (if m > 2 then m - 3 else m + 9) + 2) div 5 + d - 1;
          doe = yoe * 365 + yoe div 4 - yoe div 100 + doy
      in era * 146097 + doe - 719468)"

definition timegm :: "tm \<Rightarrow> int" where
  "timegm t =
     (days_from_civil (tm_year t + 1900 + tm_mon t div 12) (tm_mon t mod 12 + 1) 1 + tm_mday t - 1) * 86400
     + tm_hour t * 3600 + tm_min t * 60 + tm_sec t"

section \<open>The two logs\<close>

definition append_text :: "File_cfg_t option \<Rightarrow> string \<Rightarrow> nmea_world \<Rightarrow> nmea_world" where
  "append_text cfg txt w =
     (case cfg of
        None \<Rightarrow> w
      | Some f \<Rightarrow>
          if file_en f \<noteq> 0 then
            let (ok, fw) = run_fopen (nm_files w)
            in w\<lparr>nm_files := if ok then log_file [File_text (file_path f) txt] fw else fw\<rparr>
          else w)"

definition GNSS_NMEA_EX_LOG :: "string \<Rightarrow> nmea_world \<Rightarrow> nmea_world" where
  "GNSS_NMEA_EX_LOG txt w =
     (let cfg = nmea_ex_file_config (nm_file_type w) (nm_ctrl w);
          w = (if nmea_print_ex (cfg_nmea (data_cfg (nm_ctrl w))) \<noteq> GNSS_PRINT_NONE
               then w\<lparr>nm_out := nm_out w @ txt\<rparr> else w)
      in append_text cfg txt w)"

definition ESC :: string where "ESC = [CHR 0x1B]"

definition GNSS_NMEA_LOG :: "string \<Rightarrow> nmea_world \<Rightarrow> nmea_world" where
  "GNSS_NMEA_LOG txt w =
     (let cfg = nmea_file_config (nm_file_type w) (nm_ctrl w);
          w = (if nmea_print (cfg_nmea (data_cfg (nm_ctrl w))) \<noteq> GNSS_PRINT_NONE
               then w\<lparr>nm_out := nm_out w @ ESC @ ''[34m'' @ txt @ ESC @ ''[0m''\<rparr> else w)
      in append_text cfg txt w)"

definition ex_logs :: "string list \<Rightarrow> nmea_world \<Rightarrow> nmea_world" where
  "ex_logs ts w = fold GNSS_NMEA_EX_LOG ts w"

section \<open>The readable forms\<close>

definition print_coord :: "string \<Rightarrow> minmea_float \<Rightarrow> string" where
  "print_coord label f = label @ ''='' @ fmt_float 7 (minmea_tocoord f)"

definition print_float_field :: "string \<Rightarrow> minmea_float \<Rightarrow> string" where
  "print_float_field label f = label @ ''='' @ fmt_float 2 (minmea_tofloat f)"

definition print_time_field :: "minmea_time \<Rightarrow> string" where
  "print_time_field t =
     fmt_int0 2 (mt_hours t) @ '':'' @ fmt_int0 2 (mt_minutes t) @ '':'' @ fmt_int0 2 (mt_seconds t)
     @ ''.'' @ fmt_int0 6 (mt_microseconds t)"

definition print_date_field :: "minmea_date \<Rightarrow> string" where
  "print_date_field d = fmt_int0 2 (md_day d) @ ''-'' @ fmt_int0 2 (md_month d) @ ''-'' @ fmt_int0 4 (md_year d)"

definition gsv_talker_name :: "string \<Rightarrow> string" where
  "gsv_talker_name talker =
     (if talker = ''GB'' then ''BDS'' else if talker = ''GP'' then ''GPS''
      else if talker = ''GL'' then ''GLONASS'' else if talker = ''GA'' then ''Galileo''
      else if talker = ''GQ'' then ''QZSS'' else if talker = ''GX'' then ''XW'' else ''UNKNOWN'')"

definition gsv_signal_name :: "string \<Rightarrow> string \<Rightarrow> string" where
  "gsv_signal_name talker sgn_id =
     (if sgn_id = [] then []
      else if talker = ''GB'' then
        (if sgn_id = ''0'' then ''ALL SIGNALS'' else if sgn_id = ''1'' then ''B1I''
         else if sgn_id = ''3'' then ''B1C'' else if sgn_id = ''5'' then ''B2a''
         else if sgn_id = ''6'' then ''B2b'' else if sgn_id = ''8'' then ''B3I''
         else if sgn_id = ''B'' then ''B2I'' else ''RESERVED'')
      else if talker = ''GP'' then
        (if sgn_id = ''0'' then ''ALL SIGNALS'' else if sgn_id = ''1'' then ''L1CA''
         else if sgn_id = ''3'' then ''L1C'' else if sgn_id = ''4'' then ''L2P''
         else if sgn_id = ''5'' then ''L2C'' else if sgn_id = ''7'' then ''L5'' else ''RESERVED'')
      else if talker = ''GL'' then
        (if sgn_id = ''0'' then ''ALL SIGNALS'' else if sgn_id = ''1'' then ''G1''
         else if sgn_id = ''3'' then ''G2'' else ''RESERVED'')
      else if talker = ''GA'' then
        (if sgn_id = ''0'' then ''ALL SIGNALS'' else if sgn_id = ''1'' then ''E5a''
         else if sgn_id = ''2'' then ''E5b'' else if sgn_id = ''7'' then ''E1'' else ''RESERVED'')
      else if talker = ''GQ'' then
        (if sgn_id = ''0'' then ''ALL SIGNALS'' else if sgn_id = ''1'' then ''L1''
         else if sgn_id = ''5'' then ''L2'' else if sgn_id = ''7'' then ''L5'' else ''RESERVED'')
      else if talker = ''GX'' then
        (if sgn_id = ''1'' then ''XW-CNL'' else if sgn_id = ''2'' then ''XW-B2b'' else ''RESERVED'')
      else ''UNKNOWN'')"

definition c_1_852 :: dbl where
  "c_1_852 = Dbl 8340666509890159 (- 52)"

definition rmc_text :: "minmea_sentence_rmc \<Rightarrow> string list" where
  "rmc_text f =
     [''RMC '' @ print_time_field (rmc_time f) @ '' '',
      print_coord ''lat'' (rmc_latitude f), '' '', print_coord ''lon'' (rmc_longitude f),
      '' speed='' @ fmt_float 2 (minmea_tofloat (rmc_speed f)) @ ''kn(''
        @ fmt_float 2 (map_option (\<lambda>v. dbl_mul v c_1_852) (minmea_tofloat (rmc_speed f))) @ ''km/h) course=''
        @ fmt_float 2 (minmea_tofloat (rmc_course f)) @ '' valid='' @ (if rmc_valid f then ''A'' else ''V'')
        @ '' date='' @ fmt_int0 2 (md_year (rmc_date f)) @ ''-'' @ fmt_int0 2 (md_month (rmc_date f)) @ ''-''
        @ fmt_int0 2 (md_day (rmc_date f)) @ [LF]]"

definition gga_text :: "minmea_sentence_gga \<Rightarrow> string list" where
  "gga_text f =
     [''GGA '', print_time_field (gga_time f), '' '', print_coord ''lat'' (gga_latitude f), '' '',
      print_coord ''lon'' (gga_longitude f),
      '' fix='' @ show_int (gga_fix_quality f) @ '' sats='' @ show_int (gga_satellites_tracked f) @ '' '',
      print_float_field ''hdop'' (gga_hdop f), '' '', print_float_field ''alt'' (gga_altitude f),
      [gga_altitude_units f, LF]]"

definition gll_text :: "minmea_sentence_gll \<Rightarrow> string list" where
  "gll_text f =
     [''GLL '', print_coord ''lat'' (gll_latitude f), '' '', print_coord ''lon'' (gll_longitude f), '' '',
      print_time_field (gll_time f), '' status='' @ [gll_status f] @ '' mode='' @ [gll_mode f, LF]]"

definition gsa_text :: "minmea_sentence_gsa \<Rightarrow> string list" where
  "gsa_text f =
     [''GSA mode='' @ [gsa_mode f] @ '' fix='' @ show_int (gsa_fix_type f) @ '' sats='']
     @ concat (map (\<lambda>(i, n). if n > 0 then [(if i = 0 then [] else '','') @ show_int n] else [])
                 (enumerate 0 (gsa_sats f)))
     @ ['' '', print_float_field ''pdop'' (gsa_pdop f), '' '', print_float_field ''hdop'' (gsa_hdop f), '' '',
        print_float_field ''vdop'' (gsa_vdop f), [LF]]"

definition gsv_text :: "string \<Rightarrow> minmea_sentence_gsv \<Rightarrow> string list" where
  "gsv_text talker f =
     (let msgs = '' msgs='' @ show_int (gsv_msg_nr f) @ ''/'' @ show_int (gsv_total_msgs f)
                 @ '' sats='' @ show_int (gsv_total_sats f);
          who = ''GSV talker='' @ talker @ ''('' @ gsv_talker_name talker @ '')''
      in [if gsv_signal_id f \<noteq> []
          then who @ '' signal_id='' @ gsv_signal_id f @ ''('' @ gsv_signal_name talker (gsv_signal_id f) @ '')'' @ msgs
          else who @ '' signal_id=-'' @ msgs]
         @ concat (map (\<lambda>s. if sv_nr s > 0
                      then ['' [prn='' @ show_int (sv_nr s) @ '' elev='' @ show_int (sv_elevation s) @ '' az=''
                              @ show_int (sv_azimuth s) @ '' '',
                            print_float_field ''snr'' (sv_snr s), '']'']
                      else []) (gsv_sats f))
         @ [[LF]])"

definition vtg_text :: "minmea_sentence_vtg \<Rightarrow> string list" where
  "vtg_text f =
     [''VTG '', print_float_field ''true'' (vtg_true_track_degrees f), '' '',
      print_float_field ''mag'' (vtg_magnetic_track_degrees f), '' '',
      print_float_field ''knots'' (vtg_speed_knots f), '' '', print_float_field ''kph'' (vtg_speed_kph f),
      '' faa='' @ [vtg_faa_mode f, LF]]"

definition zda_text :: "minmea_sentence_zda \<Rightarrow> string list" where
  "zda_text f =
     [''ZDA '', print_time_field (zda_time f), '' '', print_date_field (zda_date f),
      '' offset='' @ fmt_int_sign0 3 (zda_hour_offset f) @ '':'' @ fmt_int0 2 (zda_minute_offset f) @ [LF]]"

definition gbs_text :: "minmea_sentence_gbs \<Rightarrow> string list" where
  "gbs_text f =
     [''GBS '', print_time_field (gbs_time f), '' svid='' @ show_int (gbs_svid f) @ '' '',
      print_float_field ''err_lat'' (gbs_err_latitude f), '' '', print_float_field ''err_lon'' (gbs_err_longitude f), '' '',
      print_float_field ''err_alt'' (gbs_err_altitude f),
      '' prob='' @ fmt_float 6 (minmea_tofloat (gbs_prob f)) @ '' bias='' @ fmt_float 6 (minmea_tofloat (gbs_bias f))
        @ '' stddev='' @ fmt_float 6 (minmea_tofloat (gbs_stddev f)) @ [LF]]"

definition gst_text :: "minmea_sentence_gst \<Rightarrow> string list" where
  "gst_text f =
     [''GST '', print_time_field (gst_time f), print_float_field '' rms_dev'' (gst_rms_deviation f), '' '',
      print_float_field ''semi_major_dev'' (gst_semi_major_deviation f), '' '',
      print_float_field ''semi_minor_dev'' (gst_semi_minor_deviation f), '' '',
      print_float_field ''semi_major_orientation'' (gst_semi_major_orientation f), '' '',
      print_float_field ''lat_error_dev'' (gst_latitude_error_deviation f), '' '',
      print_float_field ''lon_error_dev'' (gst_longitude_error_deviation f), '' '',
      print_float_field ''alt_error_dev'' (gst_altitude_error_deviation f), [LF]]"

section \<open>Clock and position\<close>

definition rmc_tm :: "minmea_sentence_rmc \<Rightarrow> tm" where
  "rmc_tm f =
     \<lparr>tm_year = md_year (rmc_date f) + 2000 - 1900, tm_mon = md_month (rmc_date f) - 1, tm_mday = md_day (rmc_date f),
      tm_hour = mt_hours (rmc_time f), tm_min = mt_minutes (rmc_time f), tm_sec = mt_seconds (rmc_time f)\<rparr>"

definition date_command :: "tm \<Rightarrow> string" where
  "date_command t =
     c_snprintf 128 (''date -s '' @ [CHR 0x22] @ fmt_int0 4 (tm_year t + 1900) @ ''-'' @ fmt_int0 2 (tm_mon t + 1) @ ''-''
       @ fmt_int0 2 (tm_mday t) @ '' '' @ fmt_int0 2 (tm_hour t) @ '':'' @ fmt_int0 2 (tm_min t) @ '':''
       @ fmt_int0 2 (tm_sec t) @ [CHR 0x22])"

text \<open>The system clock is set when it is off by more than ten seconds; \<open>mktime\<close> runs on the
  fields that its first call normalised. The result is the calendar time after these calls.\<close>

definition set_clock :: "clock \<Rightarrow> minmea_sentence_rmc \<Rightarrow> nmea_world \<Rightarrow> tm \<times> nmea_world" where
  "set_clock ck f w =
     (let t = rmc_tm f
      in if rmc_valid f then
           let (m, t) = ck_mktime ck t
           in if \<bar>ck_now ck - m\<bar> > 10 then
                let (m, t) = ck_mktime ck t
                in if ck_settime ck
                   then (t, w\<lparr>nm_clock := nm_clock w @ [Clock_set m (mt_microseconds (rmc_time f))]\<rparr>)
                   else (t, w\<lparr>nm_clock := nm_clock w @ [Clock_command (date_command t)]\<rparr>)
              else (t, w)
         else (t, w))"

definition SEND_CMD_POS :: u8 where "SEND_CMD_POS = 0x10"

text \<open>The image of a double that may be a NaN.\<close>

definition coord_bytes :: "dbl option \<Rightarrow> bytes" where
  "coord_bytes v = (case v of None \<Rightarrow> le64 0x7FF8000000000000 | Some d \<Rightarrow> dbl_bytes d)"

definition pos_info :: "minmea_sentence_rmc \<Rightarrow> tm \<Rightarrow> bytes" where
  "pos_info f t =
     coord_bytes (minmea_tocoord (rmc_longitude f)) @ coord_bytes (minmea_tocoord (rmc_latitude f))
     @ le64 (of_int (timegm t) * 1000 + of_int (mt_microseconds (rmc_time f) sdiv 1000))"

definition send_position :: "minmea_sentence_rmc \<Rightarrow> tm \<Rightarrow> nmea_world \<Rightarrow> nmea_world" where
  "send_position f t w = w\<lparr>nm_comm := snd (net_send COMM_SERVICE_UDP SEND_CMD_POS (pos_info f t) (nm_comm w))\<rparr>"

section \<open>The handler\<close>

text \<open>A parser's result: nothing happens on an error.\<close>

definition on_parse :: "'a parse \<Rightarrow> ('a \<Rightarrow> nmea_world \<Rightarrow> nmea_world) \<Rightarrow> nmea_world \<Rightarrow> nmea_world option" where
  "on_parse r f w =
     (case r of Undefined \<Rightarrow> None | Parse_error \<Rightarrow> Some w | Parsed x \<Rightarrow> Some (f x w))"

definition log_sentence :: "string \<Rightarrow> string list \<Rightarrow> nmea_world \<Rightarrow> nmea_world" where
  "log_sentence sentence ts w = ex_logs ts (GNSS_NMEA_LOG (sentence @ [LF]) w)"

definition handle_rmc :: "clock \<Rightarrow> string \<Rightarrow> minmea_sentence_rmc \<Rightarrow> nmea_world \<Rightarrow> nmea_world" where
  "handle_rmc ck sentence f w =
     (let (t, w) = set_clock ck f (log_sentence sentence (rmc_text f) w) in send_position f t w)"

definition handle_parsed :: "clock \<Rightarrow> string \<Rightarrow> minmea_sentence_id \<Rightarrow> nmea_world \<Rightarrow> nmea_world option" where
  "handle_parsed ck sentence t w =
     (case t of
        MINMEA_SENTENCE_RMC \<Rightarrow> on_parse (minmea_parse_rmc sentence) (handle_rmc ck sentence) w
      | MINMEA_SENTENCE_GGA \<Rightarrow> on_parse (minmea_parse_gga sentence) (\<lambda>f. log_sentence sentence (gga_text f)) w
      | MINMEA_SENTENCE_GLL \<Rightarrow> on_parse (minmea_parse_gll sentence) (\<lambda>f. log_sentence sentence (gll_text f)) w
      | MINMEA_SENTENCE_GSA \<Rightarrow> on_parse (minmea_parse_gsa sentence) (\<lambda>f. log_sentence sentence (gsa_text f)) w
      | MINMEA_SENTENCE_GSV \<Rightarrow>
          on_parse (minmea_parse_gsv sentence)
            (\<lambda>f. log_sentence sentence
                   (gsv_text (case minmea_talker_id sentence of None \<Rightarrow> ''??'' | Some k \<Rightarrow> k) f)) w
      | MINMEA_SENTENCE_VTG \<Rightarrow> on_parse (minmea_parse_vtg sentence) (\<lambda>f. log_sentence sentence (vtg_text f)) w
      | MINMEA_SENTENCE_ZDA \<Rightarrow> on_parse (minmea_parse_zda sentence) (\<lambda>f. log_sentence sentence (zda_text f)) w
      | MINMEA_SENTENCE_GBS \<Rightarrow> on_parse (minmea_parse_gbs sentence) (\<lambda>f. log_sentence sentence (gbs_text f)) w
      | MINMEA_SENTENCE_GST \<Rightarrow> on_parse (minmea_parse_gst sentence) (\<lambda>f. log_sentence sentence (gst_text f)) w
      | _ \<Rightarrow> Some w)"

definition handle_gnss_nmea :: "clock \<Rightarrow> string \<Rightarrow> nmea_world \<Rightarrow> nmea_world option" where
  "handle_gnss_nmea ck sentence w =
     (if \<not> minmea_check sentence False then Some w
      else
        let t = minmea_sentence_id_of sentence False
        in map_option (\<lambda>w. w\<lparr>nm_file_type := MINMEA_UNKNOWN\<rparr>)
             (handle_parsed ck sentence t (w\<lparr>nm_file_type := t\<rparr>)))"

section \<open>What a sentence changes\<close>

text \<open>The logs leave the network, the clock and the control block alone.\<close>

definition logs_only :: "nmea_world \<Rightarrow> nmea_world \<Rightarrow> bool" where
  "logs_only w w' \<longleftrightarrow> nm_comm w' = nm_comm w \<and> nm_clock w' = nm_clock w
     \<and> nm_file_type w' = nm_file_type w \<and> fgnss (nm_files w') = fgnss (nm_files w)"

lemma logs_only_refl [simp, intro]: "logs_only w w"
  by (simp add: logs_only_def)

lemma logs_only_trans [trans]: "logs_only u v \<Longrightarrow> logs_only v w \<Longrightarrow> logs_only u w"
  by (simp add: logs_only_def)

lemma append_text_logs_only: "logs_only w (append_text cfg txt w)"
  by (auto simp: append_text_def logs_only_def run_fopen_def log_file_def split: option.splits list.splits)

lemma log_out_logs_only: "logs_only w (w\<lparr>nm_out := t\<rparr>)"
  by (simp add: logs_only_def)

lemma GNSS_NMEA_EX_LOG_logs_only: "logs_only w (GNSS_NMEA_EX_LOG txt w)"
  unfolding GNSS_NMEA_EX_LOG_def Let_def
  by (rule logs_only_trans [OF _ append_text_logs_only]) (auto intro: log_out_logs_only)

lemma GNSS_NMEA_LOG_logs_only: "logs_only w (GNSS_NMEA_LOG txt w)"
  unfolding GNSS_NMEA_LOG_def Let_def
  by (rule logs_only_trans [OF _ append_text_logs_only]) (auto intro: log_out_logs_only)

lemma ex_logs_logs_only: "logs_only w (ex_logs ts w)"
proof (induction ts arbitrary: w)
  case Nil
  then show ?case by (simp add: ex_logs_def)
next
  case (Cons t ts)
  from GNSS_NMEA_EX_LOG_logs_only Cons.IH [of "GNSS_NMEA_EX_LOG t w"] show ?case
    by (metis ex_logs_def fold_simps(2) logs_only_trans)
qed

lemma log_sentence_logs_only: "logs_only w (log_sentence sentence ts w)"
  unfolding log_sentence_def by (rule logs_only_trans [OF GNSS_NMEA_LOG_logs_only ex_logs_logs_only])

lemma on_parse_logs_only:
  "on_parse r (\<lambda>f. log_sentence sentence (texts f)) w = Some w' \<Longrightarrow> logs_only w w'"
  by (auto simp: on_parse_def log_sentence_logs_only split: parse.splits)

lemma set_clock_world:
  "set_clock ck f w = (t, w') \<Longrightarrow> nm_comm w' = nm_comm w \<and> nm_files w' = nm_files w
     \<and> (\<not> rmc_valid f \<longrightarrow> w' = w \<and> t = rmc_tm f)"
  by (auto simp: set_clock_def Let_def split: if_splits prod.splits)

lemma length_pos_info [simp]: "length (pos_info f t) = 24"
  by (auto simp: pos_info_def coord_bytes_def le64_def dbl_bytes_def Let_def split: option.splits)

text \<open>The three outcomes of a sentence: it is only logged, or it is an RMC, or undefined.\<close>

lemma handle_rmc_result:
  obtains t w1 where "logs_only w w1" "fst (set_clock ck f w1) = t"
    "nm_comm (handle_rmc ck sentence f w) = snd (net_send COMM_SERVICE_UDP SEND_CMD_POS (pos_info f t) (nm_comm w))"
    "fgnss (nm_files (handle_rmc ck sentence f w)) = fgnss (nm_files w)"
proof -
  let ?w1 = "log_sentence sentence (rmc_text f) w"
  obtain t w2 where s: "set_clock ck f ?w1 = (t, w2)" by force
  have l: "logs_only w ?w1" by (rule log_sentence_logs_only)
  show thesis
  proof (rule that [OF l])
    show "fst (set_clock ck f ?w1) = t" by (simp add: s)
    show "nm_comm (handle_rmc ck sentence f w) = snd (net_send COMM_SERVICE_UDP SEND_CMD_POS (pos_info f t) (nm_comm w))"
      "fgnss (nm_files (handle_rmc ck sentence f w)) = fgnss (nm_files w)"
      using set_clock_world [OF s] l by (simp_all add: handle_rmc_def s send_position_def logs_only_def)
  qed
qed

lemma handle_parsed_other:
  assumes "handle_parsed ck sentence t w = Some w'" "t \<noteq> MINMEA_SENTENCE_RMC"
  shows "logs_only w w'"
  using assms by (cases t) (auto simp: handle_parsed_def intro: on_parse_logs_only)

lemma handle_gnss_nmea_net:
  assumes "handle_gnss_nmea ck sentence w = Some w'"
  obtains "nm_comm w' = nm_comm w" "nm_clock w' = nm_clock w" "fgnss (nm_files w') = fgnss (nm_files w)"
  | f t where "minmea_check sentence False" "minmea_parse_rmc sentence = Parsed f"
    "nm_comm w' = snd (net_send COMM_SERVICE_UDP SEND_CMD_POS (pos_info f t) (nm_comm w))"
    "fgnss (nm_files w') = fgnss (nm_files w)"
proof -
  let ?t = "minmea_sentence_id_of sentence False" and ?w = "w\<lparr>nm_file_type := minmea_sentence_id_of sentence False\<rparr>"
  show thesis
  proof (cases "minmea_check sentence False")
    case False
    then show thesis using assms that(1) by (simp add: handle_gnss_nmea_def)
  next
    case c: True
    obtain w1 where w1: "handle_parsed ck sentence ?t ?w = Some w1" "w' = w1\<lparr>nm_file_type := MINMEA_UNKNOWN\<rparr>"
      using assms c by (auto simp: handle_gnss_nmea_def Let_def)
    show thesis
    proof (cases "?t = MINMEA_SENTENCE_RMC")
      case False
      then show thesis using handle_parsed_other [OF w1(1)] w1(2) that(1) by (simp add: logs_only_def)
    next
      case True
      then consider "w1 = ?w" | f where "minmea_parse_rmc sentence = Parsed f" "w1 = handle_rmc ck sentence f ?w"
        using w1(1) by (auto simp: handle_parsed_def on_parse_def split: parse.splits)
      then show thesis
      proof cases
        case 1
        then show thesis using w1(2) that(1) by simp
      next
        case (2 f)
        from handle_rmc_result [of ?w ck f sentence] that(2) [OF c 2(1)] show thesis
          using w1(2) 2(2) by (metis (no_types, lifting) nmea_world.select_convs(1,2) nmea_world.surjective nmea_world.update_convs(4))
      qed
    qed
  qed
qed

end
