(* ===== verification/Gateway.thy ===== *)
theory Gateway
  imports Ephemeris GnssRx NmeaLog
begin

text \<open>
  The gateway as a whole: bytes read from the GNSS receiver are scanned (\<open>GnssRx\<close>), every
  accepted packet is printed (\<open>Report\<close>), recorded (\<open>GnssFile\<close>) and sent to the network
  client (\<open>CommService\<close>), every NMEA sentence is handled (\<open>NmeaLog\<close>); a datagram of the client changes the switches and the receiver's
  configuration. The calls that the scan makes are its events, and \<open>run_event\<close> is the call.
  The threads share \<open>gnss_ctrl\<close>: both halves of the state hold the same \<open>gnss_world\<close>.
\<close>

record gateway =
  gw_files :: file_world
  gw_comm :: comm_world
  gw_out :: string      \<comment> \<open>what went to the standard output\<close>
  gw_clock :: "clock_event list"

definition gw_ctrl :: "gateway \<Rightarrow> gnss_ctrl_t" where
  "gw_ctrl s = gctrl (gworld (gw_comm s))"

definition gw_set_gnss :: "gnss_world \<Rightarrow> gateway \<Rightarrow> gateway" where
  "gw_set_gnss g s =
     s\<lparr>gw_files := (gw_files s)\<lparr>fgnss := g\<rparr>, gw_comm := (gw_comm s)\<lparr>gworld := g\<rparr>\<rparr>"

definition gw_print :: "string \<Rightarrow> gateway \<Rightarrow> gateway" where
  "gw_print t s = s\<lparr>gw_out := gw_out s @ t\<rparr>"

definition gw_level :: "gateway \<Rightarrow> gnss_PrintType_t" where
  "gw_level s = ephb_print (cfg_ephb (data_cfg (gw_ctrl s)))"

definition gw_append :: "(file_world \<Rightarrow> file_world) \<Rightarrow> gateway \<Rightarrow> gateway" where
  "gw_append f s = s\<lparr>gw_files := f (gw_files s)\<rparr>"

section \<open>The calls of the scan\<close>

text \<open>
  \<open>GNSS_EPHB_LOG_SUMMARY\<close>. The date is computed whether or not the line is printed, and
  \<open>None\<close> is the overflow of that computation; \<open>utc\<close> renders a date as the C library does.
\<close>

definition log_summary ::
    "(int \<Rightarrow> string) \<Rightarrow> gnss_PrintType_t \<Rightarrow> string \<Rightarrow> u16 \<Rightarrow> u32 \<Rightarrow> u8 \<Rightarrow> string option" where
  "log_summary utc level name week tow satid =
     (case gps_week_sec_to_utc week tow of
        None \<Rightarrow> None
      | Some t \<Rightarrow>
          Some (if level = GNSS_PRINT_SUMMARY
                then ''date:'' @ utc t @ '' '' @ name @ '': satid='' @ show_nat (unat satid) @ '' '' @ [LF]
                else []))"

fun run_event :: "(int \<Rightarrow> string) \<Rightarrow> raw_event \<Rightarrow> gateway \<Rightarrow> gateway option" where
  "run_event utc (Log_summary name week tow satid) s =
     map_option (\<lambda>t. gw_print t s) (log_summary utc (gw_level s) name week tow satid)"
| "run_event utc (Print_bd2ephb eph crc) s = Some (gw_print (print_bd2ephb (gw_level s) eph crc) s)"
| "run_event utc (Print_bd3ephb eph crc) s = Some (gw_print (print_bd3ephb (gw_level s) eph crc) s)"
| "run_event utc (Print_bd3cnav2ephb eph crc) s = Some (gw_print (print_bd3cnav2ephb (gw_level s) eph crc) s)"
| "run_event utc (Print_bd3cnav3ephb eph crc) s = Some (gw_print (print_bd3cnav3ephb (gw_level s) eph crc) s)"
| "run_event utc (Print_bdxwephb eph crc) s = Some (gw_print (print_bdxwephb (gw_level s) eph crc) s)"
| "run_event utc (Print_gpsephb eph crc) s = Some (gw_print (print_gpsephb (gw_level s) eph crc) s)"
| "run_event utc (Print_gloephb eph crc) s = Some (gw_print (print_gloephb (gw_level s) eph crc) s)"
| "run_event utc (Print_galephb eph crc) s = Some (gw_print (print_galephb (gw_level s) eph crc) s)"
| "run_event utc (Print_prangeb d crc) s = Some (gw_print (print_prangeb (gw_level s) d crc) s)"
| "run_event utc (Print_posdatab pos crc) s = Some (gw_print (print_posdatab (gw_level s) pos crc) s)"
| "run_event utc (Append_bd2ephb eph) s = Some (gw_append (bd2ephb_file_append eph) s)"
| "run_event utc (Append_bd3ephb eph) s = Some (gw_append (bd3ephb_file_append eph) s)"
| "run_event utc (Append_bd3cnav2ephb eph) s = Some (gw_append (bd3cnav2ephb_file_append eph) s)"
| "run_event utc (Append_bd3cnav3ephb eph) s = Some (gw_append (bd3cnav3ephb_file_append eph) s)"
| "run_event utc (Append_bdxwephb eph) s = Some (gw_append (bdxwephb_file_append eph) s)"
| "run_event utc (Append_gpsephb eph) s =
     map_option (\<lambda>v. s\<lparr>gw_files := v\<rparr>) (gpsephb_file_append eph (gw_files s))"
| "run_event utc (Net_send_eph t data) s =
     Some (s\<lparr>gw_comm := snd (net_send_eph COMM_SERVICE_UDP t data (gw_comm s))\<rparr>)"
| "run_event utc (Unknown_packet t) s =
     Some (gw_print (''Unknown packet type '' @ show_nat (unat t) @ '' '' @ [LF]) s)"
| "run_event utc (Unknown_packet2 t) s =
     Some (gw_print (''Unknown packet2 type '' @ show_nat (unat t) @ '' '' @ [LF]) s)"

fun run_events :: "(int \<Rightarrow> string) \<Rightarrow> raw_event list \<Rightarrow> gateway \<Rightarrow> gateway option" where
  "run_events utc [] s = Some s"
| "run_events utc (e # es) s = (case run_event utc e s of None \<Rightarrow> None | Some s' \<Rightarrow> run_events utc es s')"

section \<open>The steps\<close>

text \<open>
  One successful \<open>read\<close> of the receiver's device, with the NMEA sentences that it completes.
  \<open>None\<close>: the scan does not end, or a call of it has no defined result.
\<close>

definition gateway_read ::
    "(int \<Rightarrow> string) \<Rightarrow> bytes \<Rightarrow> gateway \<Rightarrow> (gateway \<times> string list) option" where
  "gateway_read utc buf s =
     (case gnss_thread_data (comm_cfg (gw_comm s)) buf (gw_ctrl s) of
        None \<Rightarrow> None
      | Some (g, evs, sentences) \<Rightarrow>
          map_option (\<lambda>s'. (gw_set_gnss ((gworld (gw_comm s'))\<lparr>gctrl := g\<rparr>) s', sentences))
            (run_events utc evs s))"

text \<open>\<open>handle_gnss_nmea\<close> on the state of the gateway; between two calls \<open>nmea_file_type\<close> is
  \<open>MINMEA_UNKNOWN\<close>.\<close>

definition gateway_sentence :: "clock \<Rightarrow> string \<Rightarrow> gateway \<Rightarrow> gateway option" where
  "gateway_sentence ck sentence s =
     map_option (\<lambda>w. \<lparr>gw_files = nm_files w, gw_comm = nm_comm w, gw_out = nm_out w, gw_clock = nm_clock w\<rparr>)
       (handle_gnss_nmea ck sentence
          \<lparr>nm_files = gw_files s, nm_comm = gw_comm s, nm_out = gw_out s, nm_file_type = MINMEA_UNKNOWN,
           nm_clock = gw_clock s\<rparr>)"

fun gateway_sentences :: "clock \<Rightarrow> string list \<Rightarrow> gateway \<Rightarrow> gateway option" where
  "gateway_sentences ck [] s = Some s"
| "gateway_sentences ck (x # xs) s =
     (case gateway_sentence ck x s of None \<Rightarrow> None | Some s' \<Rightarrow> gateway_sentences ck xs s')"

text \<open>One round of the receive loop: the binary data first, then the sentences in their order.\<close>

definition gateway_receive :: "(int \<Rightarrow> string) \<Rightarrow> clock \<Rightarrow> bytes \<Rightarrow> gateway \<Rightarrow> gateway option" where
  "gateway_receive utc ck buf s =
     (case gateway_read utc buf s of None \<Rightarrow> None | Some (s', ss) \<Rightarrow> gateway_sentences ck ss s')"

text \<open>A datagram of a network client.\<close>

definition gateway_datagram :: "bytes \<Rightarrow> bytes \<Rightarrow> sockaddr_in \<Rightarrow> gateway \<Rightarrow> gateway" where
  "gateway_datagram datagram stale peer s =
     (let w = udp_rx_datagram datagram stale peer (gw_comm s)
      in gw_set_gnss (gworld w) (s\<lparr>gw_comm := w\<rparr>))"

text \<open>The transmit thread takes a frame.\<close>

definition gateway_transmit :: "gateway \<Rightarrow> comm_udp_frame_t pop_result \<times> gateway" where
  "gateway_transmit s =
     (let (r, c) = comm_udp_queue_pop_frame (udp_ctx (gw_comm s))
      in (r, s\<lparr>gw_comm := (gw_comm s)\<lparr>udp_ctx := c\<rparr>\<rparr>))"

inductive gateway_step :: "(int \<Rightarrow> string) \<Rightarrow> gateway \<Rightarrow> gateway \<Rightarrow> bool" for utc where
  receiver: "gateway_receive utc ck buf s = Some s' \<Longrightarrow> gateway_step utc s s'"
| client: "gateway_step utc s (gateway_datagram d stale peer s)"
| transmit: "gateway_transmit s = (r, s') \<Longrightarrow> gateway_step utc s s'"

inductive gateway_reach :: "(int \<Rightarrow> string) \<Rightarrow> gateway \<Rightarrow> gateway \<Rightarrow> bool" for utc s0 where
  start: "gateway_reach utc s0 s0"
| step: "gateway_reach utc s0 s \<Longrightarrow> gateway_step utc s t \<Longrightarrow> gateway_reach utc s0 t"

section \<open>What the calls leave alone\<close>

lemma append_row_fgnss [simp]: "fgnss (append_row path row w) = fgnss w"
  by (simp add: append_row_def run_fopen_def log_file_def split: list.splits)

lemma file_append_fgnss [simp]:
  "fgnss (bd2ephb_file_append b2 w) = fgnss w" "fgnss (bd3ephb_file_append b3 w) = fgnss w"
  "fgnss (bdxwephb_file_append x w) = fgnss w" "fgnss (bd3cnav2ephb_file_append c2 w) = fgnss w"
  "fgnss (bd3cnav3ephb_file_append c3 w) = fgnss w"
  by (simp_all add: bd2ephb_file_append_def bd3ephb_file_append_def bdxwephb_file_append_def
      bd3cnav2ephb_file_append_def bd3cnav3ephb_file_append_def)

lemma gps_append_fgnss: "gpsephb_file_append eph w = Some v \<Longrightarrow> fgnss v = fgnss w"
  by (auto simp: gpsephb_file_append_def run_fopen_def log_file_def split: list.splits if_splits)

lemma gw_simps [simp]:
  "gw_comm (gw_print t s) = gw_comm s" "gw_files (gw_print t s) = gw_files s"
  "gw_comm (gw_append f s) = gw_comm s" "gw_files (gw_append f s) = f (gw_files s)"
  "gw_ctrl (gw_print t s) = gw_ctrl s" "gw_ctrl (gw_append f s) = gw_ctrl s"
  "gw_level (gw_print t s) = gw_level s" "gw_level (gw_append f s) = gw_level s"
  "gw_files (gw_set_gnss g s) = (gw_files s)\<lparr>fgnss := g\<rparr>" "gw_comm (gw_set_gnss g s) = (gw_comm s)\<lparr>gworld := g\<rparr>"
  "gw_ctrl (gw_set_gnss g s) = gctrl g"
  by (simp_all add: gw_print_def gw_append_def gw_ctrl_def gw_level_def gw_set_gnss_def)

text \<open>Sending changes the queue only, and only by a frame at its end.\<close>

definition framed :: "bytes \<Rightarrow> bool" where
  "framed d \<longleftrightarrow> (\<exists>cfg cmd data. d = net_frame cfg cmd data \<and> length data < 65536)"

definition queued_ok :: "comm_udp_context_t \<Rightarrow> bool" where
  "queued_ok c \<longleftrightarrow> udp_inv c \<and> (\<forall>(d, p) \<in> set (udp_elems c). framed d)"

lemma udp_send_ok:
  assumes "comm_udp_send True (Some d) c = (e, c')" "queued_ok c" "framed d"
  shows "queued_ok c'"
proof (cases e)
  case None
  then have s: "comm_udp_send True (Some d) c = (None, c')" using assms by simp
  have i: "udp_inv c" using assms(2) by (simp add: queued_ok_def)
  note l = comm_udp_send_None [OF s]
  have n: "udp_count c < COMM_UDP_QUEUE_CAPACITY" using l(3) i by simp
  show ?thesis using udp_push_law [OF i n l(4)] assms(2,3) by (simp add: queued_ok_def)
next
  case (Some x)
  then show ?thesis using assms comm_udp_send_Some by metis
qed

lemma net_send_keeps:
  assumes "queued_ok (udp_ctx w)" "length data < 65536"
  shows "queued_ok (udp_ctx (snd (net_send COMM_SERVICE_UDP cmd data w)))"
    "gworld (snd (net_send COMM_SERVICE_UDP cmd data w)) = gworld w"
    "comm_cfg (snd (net_send COMM_SERVICE_UDP cmd data w)) = comm_cfg w"
proof -
  have f: "framed (net_frame (comm_cfg w) cmd data)" using assms(2) by (auto simp: framed_def)
  obtain e c where s: "comm_udp_send True (Some (net_frame (comm_cfg w) cmd data)) (udp_ctx w) = (e, c)"
    by fastforce
  show "queued_ok (udp_ctx (snd (net_send COMM_SERVICE_UDP cmd data w)))"
    using udp_send_ok [OF s assms(1) f] s by (simp add: net_send_def comm_service_send_def)
  show "gworld (snd (net_send COMM_SERVICE_UDP cmd data w)) = gworld w"
    "comm_cfg (snd (net_send COMM_SERVICE_UDP cmd data w)) = comm_cfg w"
    using s by (simp_all add: net_send_def comm_service_send_def)
qed

lemma net_send_eph_eq:
  "net_send_eph k t data w = net_send k SEND_CMD_EPH_INFO (EPH_Type_code t # data) w"
  by (simp add: net_send_eph_def net_send_def net_frame_eph_as_frame)

section \<open>Invariant\<close>

definition gateway_inv :: "gateway \<Rightarrow> bool" where
  "gateway_inv s \<longleftrightarrow> fgnss (gw_files s) = gworld (gw_comm s) \<and> gnss_ctrl_inv (gw_ctrl s)
     \<and> queued_ok (udp_ctx (gw_comm s))"

text \<open>The structs that the scan sends are short.\<close>

lemmas struct_lengths = length_bd2_bytes length_bd3_bytes length_cnav2_bytes length_cnav3_bytes
  length_bdxw_bytes length_gps_bytes length_glo_bytes length_gal_bytes

lemma on_net_bound:
  "Net_send_eph t data \<in> set (on_net net t' bs trim) \<Longrightarrow> length data \<le> length bs"
  by (auto simp: on_net_def split: if_splits)

lemma packet1_send_bound:
  assumes "Net_send_eph t data \<in> set (handle_packet1 cfg net type n crc p)"
  shows "length data \<le> 224"
  using assms
  by (auto simp: handle_packet1_def Let_def struct_lengths on_file_def split: if_splits dest!: on_net_bound)

lemma packet2_sends_nothing: "Net_send_eph t data \<notin> set (handle_packet2 type n crc p)"
  by (simp add: handle_packet2_def)

lemma thread_events_bound:
  assumes "gnss_thread_data net buf g = Some (g', evs, ss)" "Net_send_eph t data \<in> set evs"
  shows "length data \<le> 224"
proof -
  have "length data \<le> 224" if r: "gnss_handle_raw_bytes net buf g = Some (g1, evs)" for g1
  proof -
    obtain c where "handle_gnss_raw RAW_FUEL (cfg_ephb (data_cfg (raw_append buf g))) net
        (data_raw (raw_append buf g)) (data_raw_len (raw_append buf g)) = Some (evs, c)"
      using r by (auto simp: gnss_handle_raw_bytes_def Let_def split: option.splits)
    then have "\<exists>cfg d l j. Net_send_eph t data \<in> set (packet1_events cfg net d j)
        \<or> Net_send_eph t data \<in> set (packet2_events d j)"
      using assms(2) raw_loop_sound by (fastforce simp: handle_gnss_raw_def split: if_splits)
    then show ?thesis
      by (auto simp: packet1_events_def packet2_events_def Let_def packet2_sends_nothing dest: packet1_send_bound)
  qed
  then show ?thesis using assms
    by (auto simp: gnss_thread_data_def Let_def split: gnss_ParseDataType_t.splits option.splits prod.splits)
qed

lemma run_event_inv:
  assumes "run_event utc e s = Some s'" "gateway_inv s" "\<And>t data. e = Net_send_eph t data \<Longrightarrow> length data \<le> 224"
  shows "gateway_inv s'"
    and "gworld (gw_comm s') = gworld (gw_comm s)" and "comm_cfg (gw_comm s') = comm_cfg (gw_comm s)"
    and "(\<forall>t data. e \<noteq> Net_send_eph t data) \<Longrightarrow> gw_comm s' = gw_comm s"
  using assms
  by (cases e; force simp: gateway_inv_def gw_ctrl_def net_send_eph_eq net_send_keeps dest: gps_append_fgnss)+

lemma run_events_inv:
  "run_events utc es s = Some s' \<Longrightarrow> gateway_inv s \<Longrightarrow> (\<And>t data. Net_send_eph t data \<in> set es \<Longrightarrow> length data \<le> 224)
     \<Longrightarrow> gateway_inv s' \<and> gworld (gw_comm s') = gworld (gw_comm s) \<and> comm_cfg (gw_comm s') = comm_cfg (gw_comm s)"
proof (induction es arbitrary: s)
  case Nil
  then show ?case by simp
next
  case (Cons e es)
  obtain s1 where e: "run_event utc e s = Some s1" and r: "run_events utc es s1 = Some s'"
    using Cons.prems(1) by (auto split: option.splits)
  have b: "length data \<le> 224" if "e = Net_send_eph t data" for t data using Cons.prems(3) [of t data] that by simp
  note i = run_event_inv [OF e Cons.prems(2) b]
  have "gateway_inv s' \<and> gworld (gw_comm s') = gworld (gw_comm s1) \<and> comm_cfg (gw_comm s') = comm_cfg (gw_comm s1)"
    by (rule Cons.IH [OF r i(1)]) (use Cons.prems(3) in auto)
  with i show ?case by simp
qed

text \<open>The commands of a client change switches and outputs, not the buffers.\<close>

lemma CfgdataType_inv [simp]: "gnss_ctrl_inv (CfgdataType_from_name t e g) = gnss_ctrl_inv g"
  by (simp add: CfgdataType_from_name_def gnss_ctrl_inv_def set_nmea_output_def set_eph_output_def)

lemma gnss_cfg_data_inv [simp]: "gnss_ctrl_inv (gctrl (gnss_cfg_data t e p w)) = gnss_ctrl_inv (gctrl w)"
proof -
  obtain r w' where d: "gnss_dev_write (if e \<noteq> 0
      then cmd_buff (''CSHG OPEN COM1 '' @ t @ '' ONTIME '' @ show_nat (unat p) @ '' '' @ CRLF)
      else cmd_buff (''CSHG CLOSE COM1 '' @ t @ '' '' @ CRLF)) w = (r, w')" by fastforce
  then have "gctrl w' = gctrl w" by (metis gctrl_dev_write snd_conv)
  with d show ?thesis by (simp add: gnss_cfg_data_def Let_def)
qed

lemma update_eph_sw_ctrl_inv [simp]:
  "gnss_ctrl_inv (gctrl (gworld (update_eph_sw w))) = gnss_ctrl_inv (gctrl (gworld w))"
  by (simp add: update_eph_sw_def Let_def sw_apply_def)

definition comm_ok :: "comm_world \<Rightarrow> bool" where
  "comm_ok w \<longleftrightarrow> gnss_ctrl_inv (gctrl (gworld w)) \<and> queued_ok (udp_ctx w)"

lemma net_send_comm_ok:
  "comm_ok w \<Longrightarrow> length data < 65536 \<Longrightarrow> comm_ok (snd (net_send COMM_SERVICE_UDP cmd data w))"
  by (simp add: comm_ok_def net_send_keeps)

lemma le16_short [simp]: "length (le16 x) < 65536"
  by (simp add: le16_def)

lemma comm_ok_config:
  "comm_ok (w\<lparr>comm_cfg := c\<rparr>) = comm_ok w" "comm_ok (update_eph_sw w) = comm_ok w"
  "comm_ok (w\<lparr>udp_ctx := (udp_ctx w)\<lparr>last_peer := p, last_peer_valid := v\<rparr>\<rparr>) = comm_ok w"
  by (simp_all add: comm_ok_def queued_ok_def udp_ctx_upd)

lemma rev_process_ok: "comm_ok w \<Longrightarrow> comm_ok (rev_process cmd data w)"
  unfolding rev_process_def Let_def
  by (simp add: comm_ok_config net_send_comm_ok)

lemma udp_rx_ok: "comm_ok w \<Longrightarrow> comm_ok (udp_rx_datagram d stale peer w)"
  unfolding udp_rx_datagram_def comm_service_receive_def Let_def
  by (auto split: option.splits intro!: rev_process_ok simp: comm_ok_config)

lemma gateway_inv_comm: "gateway_inv s \<longleftrightarrow> fgnss (gw_files s) = gworld (gw_comm s) \<and> comm_ok (gw_comm s)"
  by (simp add: gateway_inv_def comm_ok_def gw_ctrl_def)

lemma gateway_read_inv:
  assumes "gateway_read utc buf s = Some (s', ss)" "gateway_inv s"
  shows "gateway_inv s'"
proof -
  obtain g evs s1 where t: "gnss_thread_data (comm_cfg (gw_comm s)) buf (gw_ctrl s) = Some (g, evs, ss)"
    and r: "run_events utc evs s = Some s1" and s': "s' = gw_set_gnss ((gworld (gw_comm s1))\<lparr>gctrl := g\<rparr>) s1"
    using assms(1) by (auto simp: gateway_read_def split: option.splits)
  have "gnss_ctrl_inv g" using gnss_thread_data_inv [OF _ t] assms(2) by (simp add: gateway_inv_def)
  moreover have "gateway_inv s1"
    using run_events_inv [OF r assms(2)] thread_events_bound [OF t] by blast
  ultimately show ?thesis unfolding s' by (simp add: gateway_inv_def)
qed

lemma gateway_sentence_inv:
  assumes "gateway_sentence ck x s = Some s'" "gateway_inv s"
  shows "gateway_inv s'"
proof -
  let ?w = "\<lparr>nm_files = gw_files s, nm_comm = gw_comm s, nm_out = gw_out s, nm_file_type = MINMEA_UNKNOWN,
    nm_clock = gw_clock s\<rparr>"
  obtain w where h: "handle_gnss_nmea ck x ?w = Some w"
    and s': "s' = \<lparr>gw_files = nm_files w, gw_comm = nm_comm w, gw_out = nm_out w, gw_clock = nm_clock w\<rparr>"
    using assms(1) by (auto simp: gateway_sentence_def)
  from h show ?thesis
    by (cases rule: handle_gnss_nmea_net)
      (use assms(2) in \<open>simp_all add: s' gateway_inv_comm net_send_comm_ok net_send_keeps comm_ok_def\<close>)
qed

lemma gateway_sentences_inv:
  "gateway_sentences ck ss s = Some s' \<Longrightarrow> gateway_inv s \<Longrightarrow> gateway_inv s'"
  by (induction ss arbitrary: s) (auto split: option.splits dest: gateway_sentence_inv)

lemma gateway_receive_inv:
  "gateway_receive utc ck buf s = Some s' \<Longrightarrow> gateway_inv s \<Longrightarrow> gateway_inv s'"
  by (auto simp: gateway_receive_def split: option.splits dest: gateway_read_inv gateway_sentences_inv)

lemma gateway_datagram_inv: "gateway_inv s \<Longrightarrow> gateway_inv (gateway_datagram d stale peer s)"
  using udp_rx_ok [of "gw_comm s" d stale peer]
  by (simp add: gateway_inv_comm gateway_datagram_def Let_def)

lemma gateway_transmit_inv:
  assumes "gateway_inv s" "gateway_transmit s = (r, s')"
  shows "gateway_inv s' \<and> (\<forall>f. r = Popped f \<longrightarrow> (\<exists>d. uf_data f = Some d \<and> uf_len f = length d \<and> framed d))"
proof -
  let ?c = "udp_ctx (gw_comm s)"
  obtain c where p: "comm_udp_queue_pop_frame ?c = (r, c)" and s': "s' = s\<lparr>gw_comm := (gw_comm s)\<lparr>udp_ctx := c\<rparr>\<rparr>"
    using assms(2) by (auto simp: gateway_transmit_def Let_def split: prod.splits)
  have q: "queued_ok ?c" using assms(1) by (simp add: gateway_inv_def)
  have "queued_ok c \<and> (\<forall>f. r = Popped f \<longrightarrow> (\<exists>d. uf_data f = Some d \<and> uf_len f = length d \<and> framed d))"
  proof (cases "udp_count ?c = 0")
    case True
    then show ?thesis using p q by (auto simp: comm_udp_queue_pop_frame_def split: if_splits)
  next
    case False
    then show ?thesis using udp_pop_law [OF _ _ p] q by (auto simp: queued_ok_def)
  qed
  then show ?thesis using assms(1) by (simp add: s' gateway_inv_def gw_ctrl_def)
qed

inductive_cases gateway_stepE: "gateway_step utc s t"

lemma gateway_step_inv: "gateway_step utc s t \<Longrightarrow> gateway_inv s \<Longrightarrow> gateway_inv t"
  by (elim gateway_stepE) (auto dest: gateway_receive_inv gateway_datagram_inv gateway_transmit_inv)

lemma gateway_runs: "gateway_reach utc s0 t \<Longrightarrow> (gateway_step utc)\<^sup>*\<^sup>* s0 t"
  by (induction rule: gateway_reach.induct) (auto intro: run_step)

section \<open>From the receiver to the client\<close>

text \<open>A packet that arrives while nothing is pending is the only thing that is scanned.\<close>

lemma raw_append_empty:
  assumes "gnss_ctrl_inv g" "data_raw_len g = 0" "length buf \<le> DATA_RAW_SIZE"
  shows "data_raw (raw_append buf g) = buf @ drop (length buf) (data_raw g)" "data_raw_len (raw_append buf g) = length buf"
  using assms by (auto simp: raw_append_def Let_def DATA_RAW_SIZE_def)

lemma read_single_packet:
  assumes inv: "gnss_ctrl_inv g" and e: "data_raw_len g = 0" and m: "parseDataType g \<noteq> GNSS_DATA_NMEA"
    and pl: "0 < length payload" "length payload + RAW1_SIZE \<le> DATA_RAW_SIZE"
  shows "\<exists>g' ss rest. gnss_thread_data net (raw_packet1 type payload) g =
     Some (g', handle_packet1 (cfg_ephb (data_cfg g)) net type (length payload)
       (rtk_crc24q (raw_packet1 type payload @ rest) (length payload + 8)) (raw_packet1 type payload @ rest), ss)
     \<and> data_cfg g' = data_cfg g"
proof -
  let ?p = "raw_packet1 type payload" and ?g = "raw_append (raw_packet1 type payload) g"
  let ?rest = "drop (length ?p) (data_raw g)"
  have l: "length ?p = length payload + RAW1_SIZE" by (rule length_raw_packet1)
  have a: "data_raw ?g = ?p @ ?rest" "data_raw_len ?g = length payload + RAW1_SIZE"
    using raw_append_empty [OF inv e, of ?p] pl l by simp_all
  have c: "data_cfg ?g = data_cfg g" using raw_append_inv [OF inv] by simp
  have s: "handle_gnss_raw RAW_FUEL (cfg_ephb (data_cfg ?g)) net (data_raw ?g) (data_raw_len ?g) =
      Some (handle_packet1 (cfg_ephb (data_cfg g)) net type (length payload)
       (rtk_crc24q (?p @ ?rest) (length payload + 8)) (?p @ ?rest), length payload)"
    unfolding a c by (rule scan_single_packet) (use pl in \<open>auto simp: RAW_FUEL_def DATA_RAW_SIZE_def RAW1_SIZE_def\<close>)
  have k: "data_cfg (raw_consume n h) = data_cfg h" for n h by (simp add: raw_consume_def Let_def)
  show ?thesis using m s c k
    by (cases "parseDataType g")
      (auto simp: gnss_thread_data_def gnss_handle_raw_bytes_def Let_def gnss_handle_nmea_bytes_def split: prod.splits)
qed

text \<open>Reports and records are quiet: they have a result and do not touch the network side.\<close>

lemma append_row_script [simp]: "fopen_script w = [] \<Longrightarrow> fopen_script (append_row path row w) = []"
  by (simp add: append_row_def run_fopen_def log_file_def)

lemma file_append_script [simp]:
  "fopen_script w = [] \<Longrightarrow> fopen_script (bd2ephb_file_append b2 w) = []"
  "fopen_script w = [] \<Longrightarrow> fopen_script (bd3ephb_file_append b3 w) = []"
  "fopen_script w = [] \<Longrightarrow> fopen_script (bdxwephb_file_append x w) = []"
  "fopen_script w = [] \<Longrightarrow> fopen_script (bd3cnav2ephb_file_append c2 w) = []"
  "fopen_script w = [] \<Longrightarrow> fopen_script (bd3cnav3ephb_file_append c3 w) = []"
  "fopen_script w = [] \<Longrightarrow> \<exists>v. gpsephb_file_append g w = Some v \<and> fopen_script v = []"
  by (simp_all add: bd2ephb_file_append_def bd3ephb_file_append_def bdxwephb_file_append_def
      bd3cnav2ephb_file_append_def bd3cnav3ephb_file_append_def gpsephb_file_append_def run_fopen_def log_file_def)

lemma log_summary_Some:
  assumes "unat w < 3551"
  shows "\<exists>t. log_summary utc level name w tow sat = Some t"
proof -
  have "uint w = int (unat w)" by simp
  then have "uint w < 3551" using assms by linarith
  then have "\<not> uint w * 7 * 24 * 3600 > 2147483647" by simp
  then have "gps_week_sec_to_utc w tow = Some (315964800 + uint w * 7 * 24 * 3600 + uint tow)"
    unfolding gps_week_sec_to_utc_def Let_def by (rule if_not_P)
  then show ?thesis by (simp add: log_summary_def)
qed

lemma run_quiet_event:
  assumes "\<And>t data. e \<noteq> Net_send_eph t data" "\<And>name w tow sat. e = Log_summary name w tow sat \<Longrightarrow> unat w < 3551"
    and "fopen_script (gw_files s) = []"
  shows "\<exists>s'. run_event utc e s = Some s' \<and> gw_comm s' = gw_comm s \<and> fopen_script (gw_files s') = []"
proof (cases e)
  case (Log_summary name w tow sat)
  then show ?thesis using assms(3) log_summary_Some [OF assms(2) [OF Log_summary], of utc "gw_level s" name tow sat]
    by auto
next
  case (Append_gpsephb eph)
  then show ?thesis using file_append_script(6) [OF assms(3), of eph] by auto
qed (use assms(1,3) in auto)

lemma run_quiet_events:
  assumes "no_send es" "weeks_ok n es" "n < 3551" "fopen_script (gw_files s) = []"
  shows "\<exists>s'. run_events utc es s = Some s' \<and> gw_comm s' = gw_comm s \<and> fopen_script (gw_files s') = []"
  using assms
proof (induction es arbitrary: s)
  case Nil
  then show ?case by simp
next
  case (Cons e es)
  obtain s1 where s1: "run_event utc e s = Some s1" "gw_comm s1 = gw_comm s" "fopen_script (gw_files s1) = []"
    using run_quiet_event [of e s utc] Cons.prems by (auto simp: no_send_def weeks_ok_def)
  have "no_send es" "weeks_ok n es" using Cons.prems by (auto simp: no_send_def weeks_ok_def)
  from Cons.IH [OF this Cons.prems(3) s1(3)] s1 show ?case by auto
qed

lemma run_events_append:
  "run_events utc (a @ b) s = (case run_events utc a s of None \<Rightarrow> None | Some s' \<Rightarrow> run_events utc b s')"
  by (induction a arbitrary: s) (auto split: option.splits)

text \<open>The bytes of a message that the network client gets.\<close>

definition eph_sent :: "EPH_Type_t \<Rightarrow> bytes \<Rightarrow> bytes" where
  "eph_sent t p = take (length (eph_struct t p) - eph_trim t) (drop 8 (eph_struct t p))"

lemma ephemeris_forwarded:
  assumes inv: "gateway_inv s" and e: "data_raw_len (gw_ctrl s) = 0" "parseDataType (gw_ctrl s) \<noteq> GNSS_DATA_NMEA"
    and vs: "length vs = length (eph_layout t)" "take_bit 12 (hd vs) < 3551"
    and w: "fopen_script (gw_files s) = []" "eph_sw_on (comm_cfg (gw_comm s)) t"
      "last_peer_valid (udp_ctx (gw_comm s))" "udp_count (udp_ctx (gw_comm s)) < COMM_UDP_QUEUE_CAPACITY"
  obtains s' ss rest where
    "gateway_read utc (raw_packet1 (eph_packet_type t) (payload_of (eph_layout t) vs)) s = Some (s', ss)"
    "udp_elems (udp_ctx (gw_comm s')) = udp_elems (udp_ctx (gw_comm s)) @
       [(net_frame_eph (comm_cfg (gw_comm s)) t
           (eph_sent t (raw_packet1 (eph_packet_type t) (payload_of (eph_layout t) vs) @ rest)),
         last_peer (udp_ctx (gw_comm s)))]"
proof -
  let ?pl = "payload_of (eph_layout t) vs"
  let ?p = "raw_packet1 (eph_packet_type t) ?pl"
  have ci: "gnss_ctrl_inv (gw_ctrl s)" and q: "udp_inv (udp_ctx (gw_comm s))"
    using inv by (simp_all add: gateway_inv_def queued_ok_def)
  have sz: "0 < length ?pl" "length ?pl + RAW1_SIZE \<le> DATA_RAW_SIZE"
    using payload_of_sizes [OF vs(1)] by (simp_all add: RAW1_SIZE_def DATA_RAW_SIZE_def)
  obtain g' ss rest where r: "gnss_thread_data (comm_cfg (gw_comm s)) ?p (gw_ctrl s) =
      Some (g', handle_packet1 (cfg_ephb (data_cfg (gw_ctrl s))) (comm_cfg (gw_comm s)) (eph_packet_type t) (length ?pl)
        (rtk_crc24q (?p @ rest) (length ?pl + 8)) (?p @ rest), ss)"
    using read_single_packet [OF ci e sz, of "comm_cfg (gw_comm s)" "eph_packet_type t"] by blast
  let ?crc = "rtk_crc24q (?p @ rest) (length ?pl + 8)" and ?es = "\<lambda>crc. eph_report t crc (?p @ rest)
      @ eph_record t (cfg_ephb (data_cfg (gw_ctrl s))) (?p @ rest)"
  have h: "handle_packet1 (cfg_ephb (data_cfg (gw_ctrl s))) (comm_cfg (gw_comm s)) (eph_packet_type t) (length ?pl)
        ?crc (?p @ rest) = ?es ?crc @ [Net_send_eph t (eph_sent t (?p @ rest))]"
    using payload_of_length [OF vs(1)] w(2) by (simp add: handle_packet1_eph on_net_def eph_sent_def)
  have wk: "fld (?p @ rest) 64 12 < 3551" using packet_week [OF vs(1)] vs(2) by simp
  have "no_send (?es ?crc)" "weeks_ok (fld (?p @ rest) 64 12) (?es ?crc)"
    using eph_report_ok eph_record_ok by (fastforce simp: no_send_def weeks_ok_def)+
  from run_quiet_events [OF this wk w(1)] obtain s1 where s1: "run_events utc (?es ?crc) s = Some s1"
    "gw_comm s1 = gw_comm s" by blast
  obtain c where c: "net_send COMM_SERVICE_UDP SEND_CMD_EPH_INFO (EPH_Type_code t # eph_sent t (?p @ rest)) (gw_comm s)
      = (0, (gw_comm s)\<lparr>udp_ctx := c\<rparr>)"
    "udp_elems c = udp_elems (udp_ctx (gw_comm s)) @
       [(net_frame_eph (comm_cfg (gw_comm s)) t (eph_sent t (?p @ rest)), last_peer (udp_ctx (gw_comm s)))]"
    using net_send_udp [OF q w(4) w(3), of SEND_CMD_EPH_INFO "EPH_Type_code t # eph_sent t (?p @ rest)"]
    by (auto simp: net_frame_eph_as_frame)
  have ev: "run_events utc (?es ?crc @ [Net_send_eph t (eph_sent t (?p @ rest))]) s =
      Some (s1\<lparr>gw_comm := (gw_comm s)\<lparr>udp_ctx := c\<rparr>\<rparr>)"
    unfolding run_events_append [of utc "?es ?crc"] s1(1) option.case by (simp add: net_send_eph_eq s1(2) c(1))
  show thesis
  proof (rule that)
    show "gateway_read utc ?p s = Some (gw_set_gnss ((gworld (gw_comm s))\<lparr>gctrl := g'\<rparr>)
        (s1\<lparr>gw_comm := (gw_comm s)\<lparr>udp_ctx := c\<rparr>\<rparr>), ss)"
      unfolding gateway_read_def r h option.case prod.case ev by simp
  qed (use c in simp)
qed

section \<open>Start\<close>

text \<open>The initial values of the globals, after \<open>comm_service_init\<close>.\<close>

definition gateway_boot :: gateway where
  "gateway_boot =
     (let g = \<lparr>gctrl = gnss_ctrl_init, dev_out = [], dev_script = []\<rparr>
      in \<lparr>gw_files = \<lparr>fgnss = g, fopen_script = [], file_log = [], ephb_path_buf = [], nmea_path_buf = [], nmea_ex_path_buf = []\<rparr>,
          gw_comm = comm_service_init None
            \<lparr>comm_cfg = glob_comm_config_init, service_cfg = k_comm_service_default_config, udp_ctx = g_comm_udp_ctx,
             tcp_ctx = g_comm_tcp_ctx, mqtt_ctx = g_comm_mqtt_ctx, mqtt_out = [], gworld = g\<rparr>,
          gw_out = [], gw_clock = []\<rparr>)"

text \<open>A gateway with a given configuration, to which one client has sent a datagram.\<close>

definition gateway_connected :: "glob_comm_config_t \<Rightarrow> sockaddr_in \<Rightarrow> gateway" where
  "gateway_connected cfg peer =
     gateway_boot\<lparr>gw_comm := (gw_comm gateway_boot)\<lparr>comm_cfg := cfg,
       udp_ctx := (udp_ctx (gw_comm gateway_boot))\<lparr>last_peer := peer, last_peer_valid := True\<rparr>\<rparr>\<rparr>"

lemma gateway_boot_parts [simp]:
  "gworld (gw_comm gateway_boot) = \<lparr>gctrl = gnss_ctrl_init, dev_out = [], dev_script = []\<rparr>"
  "fgnss (gw_files gateway_boot) = \<lparr>gctrl = gnss_ctrl_init, dev_out = [], dev_script = []\<rparr>"
  "fopen_script (gw_files gateway_boot) = []"
  "udp_elems (udp_ctx (gw_comm gateway_boot)) = []" "udp_inv (udp_ctx (gw_comm gateway_boot))"
  "udp_count (udp_ctx (gw_comm gateway_boot)) = 0"
  by (simp_all add: gateway_boot_def Let_def comm_service_init_def comm_service_apply_config_def
      comm_service_normalize_config_def k_comm_service_default_config_def comm_udp_configure_def comm_udp_init_def
      udp_elems_def udp_inv_def g_comm_udp_ctx_def ring_empty COMM_UDP_QUEUE_CAPACITY_def)

lemma gateway_boot_inv: "gateway_inv gateway_boot"
  by (simp add: gateway_inv_def gw_ctrl_def queued_ok_def gnss_ctrl_init_inv)

interpretation gateway_threads: safe_system "\<lambda>s. s = gateway_boot" "gateway_step utc" "gateway_reach utc gateway_boot" gateway_inv for utc
  by (unfold_locales, rule reachable_runs) (auto intro: gateway_reach.intros gateway_runs gateway_boot_inv gateway_step_inv)

lemma gateway_connected_parts [simp]:
  "gw_ctrl (gateway_connected cfg peer) = gnss_ctrl_init"
  "comm_cfg (gw_comm (gateway_connected cfg peer)) = cfg"
  "last_peer_valid (udp_ctx (gw_comm (gateway_connected cfg peer)))"
  "last_peer (udp_ctx (gw_comm (gateway_connected cfg peer))) = peer"
  "udp_count (udp_ctx (gw_comm (gateway_connected cfg peer))) = 0"
  "udp_elems (udp_ctx (gw_comm (gateway_connected cfg peer))) = []"
  "fopen_script (gw_files (gateway_connected cfg peer)) = []"
  by (simp_all add: gateway_connected_def gw_ctrl_def udp_ctx_upd)

lemma gateway_connected_inv: "gateway_inv (gateway_connected cfg peer)"
  by (simp add: gateway_connected_def gateway_inv_def gw_ctrl_def queued_ok_def gnss_ctrl_init_inv udp_ctx_upd)

lemma eph_sent_short [simp]: "length (eph_sent t p) \<le> 224"
  by (cases t) (simp_all add: eph_sent_def struct_lengths)

end
