(* ===== verification/NmeaCheck.thy ===== *)
theory NmeaCheck
  imports Minmea
begin

text \<open>
  Which texts \<open>minmea_check\<close> accepts, and that it notices a damaged character of a sentence
  with a checksum.
\<close>

section \<open>The check\<close>

text \<open>The characters that count for the checksum, and the checksum of a text.\<close>

definition body_char :: "char \<Rightarrow> bool" where
  "body_char c \<longleftrightarrow> isprint c \<and> c \<noteq> CHR ''*''"

definition xor_codes :: "string \<Rightarrow> u8" where
  "xor_codes s = foldr (\<lambda>c k. of_nat (ccode c) XOR k) s 0"

definition newline :: "char \<Rightarrow> bool" where
  "newline c \<longleftrightarrow> c = CR \<or> c = LF"

lemma xor_codes_simps [simp]:
  "xor_codes [] = 0" "xor_codes (c # s) = of_nat (ccode c) XOR xor_codes s"
  "xor_codes (s @ t) = xor_codes s XOR xor_codes t"
  by (simp_all add: xor_codes_def, induction s) (simp_all add: xor.assoc)

lemma check_xor_body:
  "check_xor s k = (k XOR xor_codes (takeWhile body_char s), dropWhile body_char s)"
  by (induction s arbitrary: k) (auto simp: body_char_def xor.assoc)

lemma char_classes [simp]:
  "isprint CHR ''$''" "body_char CHR ''$''" "\<not> body_char CHR ''*''" "\<not> body_char CR" "\<not> body_char LF"
  "isprint CHR ''*''" "\<not> newline CHR ''*''" "body_char CHR '',''" "\<not> newline CHR ''$''"
  "hex2int CHR ''*'' = - 1" "hex2int CR = - 1" "hex2int LF = - 1"
  by (simp_all add: body_char_def isprint_def c_between_def ccode_def newline_def hex2int_def CR_def LF_def)

lemma newline_not_body: "newline c \<Longrightarrow> \<not> body_char c"
  by (auto simp: newline_def)

lemma takeWhile_body:
  assumes "list_all body_char body" "r = [] \<or> \<not> body_char (hd r)"
  shows "takeWhile body_char (body @ r) = body" "dropWhile body_char (body @ r) = r"
  using assms by (induction body) (cases r; auto)+

text \<open>A checksum is optional when the check is not strict.\<close>

definition checked_sentence :: "string \<Rightarrow> bool" where
  "checked_sentence s \<longleftrightarrow> (\<exists>body u l r. s = CHR ''$'' # body @ CHR ''*'' # u # l # r \<and> list_all body_char body
     \<and> hex2int u \<noteq> - 1 \<and> hex2int l \<noteq> - 1 \<and> int (unat (xor_codes body)) = 16 * hex2int u + hex2int l
     \<and> list_all newline r)"

definition bare_sentence :: "string \<Rightarrow> bool" where
  "bare_sentence s \<longleftrightarrow> (\<exists>body r. s = CHR ''$'' # body @ r \<and> list_all body_char body \<and> list_all newline r)"

lemma newlines_iff: "dropWhile (\<lambda>c. c = CR \<or> c = LF) r = [] \<longleftrightarrow> list_all newline r"
  by (auto simp: dropWhile_eq_Nil_conv list_all_iff newline_def)

lemma newlines_no_body: "list_all newline r \<Longrightarrow> r = [] \<or> \<not> body_char (hd r)"
  by (cases r) (auto simp: newline_def)

lemma minmea_check_dollar:
  "minmea_check (CHR ''$'' # s) strict \<longleftrightarrow>
     (case dropWhile body_char s of
        a # r \<Rightarrow>
          if a = CHR ''*'' then
            (case r of
               u # l # r \<Rightarrow> hex2int u \<noteq> - 1 \<and> hex2int l \<noteq> - 1
                 \<and> int (unat (xor_codes (takeWhile body_char s))) = 16 * hex2int u + hex2int l \<and> list_all newline r
             | _ \<Rightarrow> False)
          else \<not> strict \<and> list_all newline (a # r)
      | [] \<Rightarrow> \<not> strict)"
  unfolding minmea_check_def check_xor_body newlines_iff
  by (cases "dropWhile body_char s") (simp_all del: dropWhile_eq_Nil_conv split: list.split)

lemma body_split: "\<exists>body r. s = body @ r \<and> list_all body_char body \<and> (r = [] \<or> \<not> body_char (hd r))"
proof (intro exI conjI)
  show "s = takeWhile body_char s @ dropWhile body_char s" by simp
  show "list_all body_char (takeWhile body_char s)" by (auto simp: list_all_iff dest: set_takeWhileD)
  show "dropWhile body_char s = [] \<or> \<not> body_char (hd (dropWhile body_char s))" using hd_dropWhile by blast
qed

lemma minmea_check_strict: "minmea_check s True \<longleftrightarrow> checked_sentence s"
proof
  assume c: "minmea_check s True"
  then obtain t where s: "s = CHR ''$'' # t" by (cases s) (auto simp: minmea_check_def split: if_splits)
  obtain body r where t: "t = body @ r" and b: "list_all body_char body" "r = [] \<or> \<not> body_char (hd r)"
    using body_split by blast
  from c show "checked_sentence s"
    unfolding s minmea_check_dollar t takeWhile_body [OF b] checked_sentence_def
    using b(1) by (auto split: list.splits if_splits)
next
  assume "checked_sentence s"
  then obtain body u l r where s: "s = CHR ''$'' # body @ CHR ''*'' # u # l # r" and b: "list_all body_char body"
    and h: "hex2int u \<noteq> - 1" "hex2int l \<noteq> - 1" "int (unat (xor_codes body)) = 16 * hex2int u + hex2int l"
      "list_all newline r"
    unfolding checked_sentence_def by blast
  have "takeWhile body_char (body @ CHR ''*'' # u # l # r) = body"
    "dropWhile body_char (body @ CHR ''*'' # u # l # r) = CHR ''*'' # u # l # r"
    using takeWhile_body [OF b] by simp_all
  then show "minmea_check s True" using h unfolding s minmea_check_dollar by simp
qed

lemma minmea_check_lax: "minmea_check s False \<longleftrightarrow> checked_sentence s \<or> bare_sentence s"
proof
  assume c: "minmea_check s False"
  then obtain t where s: "s = CHR ''$'' # t" by (cases s) (auto simp: minmea_check_def split: if_splits)
  obtain body r where t: "t = body @ r" and b: "list_all body_char body" "r = [] \<or> \<not> body_char (hd r)"
    using body_split by blast
  show "checked_sentence s \<or> bare_sentence s"
  proof (cases "\<exists>r'. r = CHR ''*'' # r'")
    case True
    then have "minmea_check s True" using c unfolding s minmea_check_dollar t takeWhile_body [OF b] by auto
    then show ?thesis by (simp add: minmea_check_strict)
  next
    case False
    then have "list_all newline r"
      using c unfolding s minmea_check_dollar t takeWhile_body [OF b] by (auto split: list.splits if_splits)
    then show ?thesis using b(1) s t unfolding bare_sentence_def by blast
  qed
next
  assume "checked_sentence s \<or> bare_sentence s"
  then show "minmea_check s False"
  proof
    assume "checked_sentence s"
    then have c: "minmea_check s True" by (simp add: minmea_check_strict)
    then obtain t where "s = CHR ''$'' # t" by (cases s) (auto simp: minmea_check_def split: if_splits)
    with c show ?thesis by (auto simp: minmea_check_dollar split: list.splits if_splits)
  next
    assume "bare_sentence s"
    then obtain body r where s: "s = CHR ''$'' # body @ r" and b: "list_all body_char body" and r: "list_all newline r"
      unfolding bare_sentence_def by blast
    have t: "takeWhile body_char (body @ r) = body" "dropWhile body_char (body @ r) = r"
      using takeWhile_body [OF b newlines_no_body [OF r]] by simp_all
    show ?thesis using r unfolding s minmea_check_dollar t by (cases r) auto
  qed
qed

section \<open>Damage\<close>

text \<open>
  One wrong character between the dollar sign and the asterisk of a sentence with a checksum
  is noticed, whatever it is replaced by (a NUL would end the text).
\<close>

lemma code_word_inj: "(of_nat (ccode c) :: u8) = of_nat (ccode d) \<longleftrightarrow> c = d"
proof -
  have "unat (of_nat (ccode x) :: u8) = ccode x" for x by (simp add: ccode_def unsigned_of_nat take_bit_eq_mod)
  then show ?thesis by (metis ccode_def of_char_eq_iff)
qed

lemma xor_codes_change:
  assumes "c \<noteq> d"
  shows "xor_codes (a @ c # b) \<noteq> xor_codes (a @ d # b)"
  using assms by (simp add: xor.left_commute [of "xor_codes a"] xor_right_cancel code_word_inj)

lemma damage_body:
  assumes "list_all body_char (a @ d # b)" "c \<noteq> d" "int (unat (xor_codes (a @ d # b))) = 16 * hex2int u + hex2int l"
  shows "\<not> minmea_check (CHR ''$'' # a @ c # b @ CHR ''*'' # u # l # r) False"
proof (cases "body_char c")
  case True
  then have t: "takeWhile body_char ((a @ c # b) @ CHR ''*'' # u # l # r) = a @ c # b"
    "dropWhile body_char ((a @ c # b) @ CHR ''*'' # u # l # r) = CHR ''*'' # u # l # r"
    using assms(1) takeWhile_body [of "a @ c # b" "CHR ''*'' # u # l # r"] by simp_all
  have "xor_codes (a @ c # b) \<noteq> xor_codes (a @ d # b)" by (rule xor_codes_change [OF assms(2)])
  then have "int (unat (xor_codes (a @ c # b))) \<noteq> 16 * hex2int u + hex2int l"
    using assms(3) by (metis of_nat_eq_iff unsigned_word_eqI)
  then show ?thesis using t by (simp add: minmea_check_dollar)
next
  case False
  have t: "dropWhile body_char (a @ c # b @ CHR ''*'' # u # l # r) = c # b @ CHR ''*'' # u # l # r"
    using assms(1) takeWhile_body [of a "c # b @ CHR ''*'' # u # l # r"] False by simp
  consider "b = []" | x where "b = [x]" | x y b' where "b = x # y # b'" by (metis list.exhaust)
  then show ?thesis unfolding minmea_check_dollar t by cases simp_all
qed

lemma damage_rejected:
  assumes "minmea_check s False" "CHR ''*'' \<in> set s"
    and i: "i < length (takeWhile (\<lambda>c. c \<noteq> CHR ''*'') s)" and c: "c \<noteq> s ! i"
  shows "\<not> minmea_check (s[i := c]) False"
proof -
  have "\<not> bare_sentence s"
    using assms(2) by (fastforce simp: bare_sentence_def list_all_iff dest: bspec [of _ body_char "CHR ''*''"]
        bspec [of _ newline "CHR ''*''"])
  then obtain body u l r where s: "s = CHR ''$'' # body @ CHR ''*'' # u # l # r" and b: "list_all body_char body"
    and k: "int (unat (xor_codes body)) = 16 * hex2int u + hex2int l"
    using assms(1) unfolding minmea_check_lax by (auto simp: checked_sentence_def)
  have "takeWhile (\<lambda>c. c \<noteq> CHR ''*'') s = CHR ''$'' # body"
    using b unfolding s by (auto simp: list_all_iff body_char_def takeWhile_append)
  then have i: "i \<le> length body" using i by simp
  show ?thesis
  proof (cases i)
    case 0
    then show ?thesis using c by (simp add: s minmea_check_def)
  next
    case (Suc j)
    then have "j < length body" using i by simp
    then have e: "body = take j body @ body ! j # drop (Suc j) body" by (rule id_take_nth_drop)
    have n: "s ! i = body ! j" using Suc \<open>j < length body\<close> by (simp add: s nth_append)
    have u: "s[i := c] = CHR ''$'' # take j body @ c # drop (Suc j) body @ CHR ''*'' # u # l # r"
      using Suc \<open>j < length body\<close> by (simp add: s list_update_append upd_conv_take_nth_drop)
    have "list_all body_char (take j body @ body ! j # drop (Suc j) body)"
      "int (unat (xor_codes (take j body @ body ! j # drop (Suc j) body))) = 16 * hex2int u + hex2int l"
      using b k by (simp_all flip: e del: xor_codes_simps)
    with c n show ?thesis unfolding u by (intro damage_body) simp_all
  qed
qed

end
