(* ===== verification/NmeaScan.thy ===== *)
theory NmeaScan
  imports Minmea
begin

text \<open>
  What \<open>minmea_scan\<close> promises: it reads the comma-separated fields of a sentence one by one,
  the values it stores have the types of its format and stay in their ranges, decimal texts are
  read exactly, and what makes its behaviour undefined.
\<close>

section \<open>Fields\<close>

text \<open>The scanner in terms of a list of fields.\<close>

fun join_fields :: "string list \<Rightarrow> string" where
  "join_fields [] = []"
| "join_fields [f] = f"
| "join_fields (f # g # fs) = f @ CHR '','' # join_fields (g # fs)"

fun scan_fields :: "string \<Rightarrow> string list \<Rightarrow> bool \<Rightarrow> nmea_val list parse" where
  "scan_fields [] fs optional = Parsed []"
| "scan_fields (type # format) fs optional =
     (if type = CHR '';'' then scan_fields format fs True
      else case fs of
        [] \<Rightarrow> if optional
              then bind_parse (scan_field type None)
                     (\<lambda>v. bind_parse (scan_fields format [] optional) (\<lambda>vs. Parsed (v @ vs)))
              else Parse_error
      | f # fs \<Rightarrow> bind_parse (scan_field type (Some f))
                     (\<lambda>v. bind_parse (scan_fields format fs optional) (\<lambda>vs. Parsed (v @ vs))))"

text \<open>A field ends at a comma, at the asterisk or at the end of the text.\<close>

definition field_end :: "string \<Rightarrow> bool" where
  "field_end r \<longleftrightarrow> r = [] \<or> hd r = CHR '','' \<or> hd r = CHR ''*''"

lemma isfield_classes [simp]: "\<not> minmea_isfield CHR '',''" "\<not> minmea_isfield CHR ''*''" "isprint CHR '',''"
  by (simp_all add: minmea_isfield_def isprint_def c_between_def ccode_def)

lemma field_end_hd: "field_end (c # r) \<Longrightarrow> \<not> minmea_isfield c \<and> \<not> isdigit c \<and> \<not> isspace c \<and> c \<noteq> CHR ''-'' \<and> c \<noteq> CHR ''+''
  \<and> c \<noteq> CHR ''.''"
  by (auto simp: field_end_def isdigit_def isspace_def c_between_def ccode_def)

lemma scan_float_end:
  "list_all minmea_isfield f \<Longrightarrow> field_end r \<Longrightarrow> scan_float (f @ r) sign v scale = scan_float f sign v scale"
proof (induction f arbitrary: sign v scale)
  case Nil
  then show ?case by (cases r) (auto dest: field_end_hd)
next
  case (Cons c f)
  then have "scan_float (f @ r) sign v scale = scan_float f sign v scale" for sign v scale by simp
  then show ?case by (simp only: append_Cons scan_float.simps(2))
qed

lemma span_end:
  assumes "list_all P f" "field_end r" "\<And>c t. field_end (c # t) \<Longrightarrow> \<not> P c"
  shows "takeWhile P (f @ r) = f" "dropWhile P (f @ r) = r"
  using assms by (induction f) (cases r; auto)+

lemma char_field_end:
  "list_all minmea_isfield f \<Longrightarrow> field_end r \<Longrightarrow> char_field (Some (f @ r)) = char_field (Some f)"
  by (cases f; cases r) (auto simp: char_field_def dest: field_end_hd)

lemma string_field_end:
  assumes "list_all minmea_isfield f" "field_end r"
  shows "string_field (Some (f @ r)) = string_field (Some f)"
proof -
  have "takeWhile minmea_isfield (f @ r) = f" by (rule span_end [OF assms]) (simp add: field_end_hd)
  moreover have "takeWhile minmea_isfield f = f" using assms(1) by (simp add: takeWhile_eq_all_conv list_all_iff)
  ultimately show ?thesis by (simp only: string_field_def option.case)
qed

lemma prefix_end:
  assumes "field_end r" "\<And>c t. field_end (c # t) \<Longrightarrow> \<not> P c"
  shows "takeWhile P (f @ r) = takeWhile P f" "dropWhile P (f @ r) = dropWhile P f @ r"
  using assms by (induction f) (cases r; auto)+

lemma strtol10_end:
  assumes "field_end r" "strtol10 f = (v, e)"
  shows "strtol10 (f @ r) = (v, e @ r)"
proof -
  note h = prefix_end [OF assms(1), of isdigit] prefix_end [OF assms(1), of isspace]
  have d: "takeWhile isdigit (g @ r) = takeWhile isdigit g" "dropWhile isdigit (g @ r) = dropWhile isdigit g @ r"
    "dropWhile isspace (g @ r) = dropWhile isspace g @ r" for g
    using h field_end_hd by blast+
  show ?thesis
  proof (cases "dropWhile isspace f")
    case Nil
    then have "dropWhile isspace (f @ r) = r" using d(3) [of f] by simp
    then show ?thesis using Nil assms d [of "[]"]
      by (cases r) (auto simp: strtol10_def Let_def d simp del: dropWhile_eq_Nil_conv dest: field_end_hd)
  next
    case (Cons c t)
    then show ?thesis using assms d [of t] d [of "c # t"]
      by (auto simp: strtol10_def Let_def d split: if_splits)
  qed
qed

lemma int_field_end:
  assumes "field_end r"
  shows "int_field (Some (f @ r)) = int_field (Some f)"
proof -
  obtain v e where s: "strtol10 f = (v, e)" by force
  show ?thesis using assms strtol10_end [OF assms s] s
    by (cases e; cases r) (auto simp: int_field_def dest: field_end_hd)
qed

lemma six_digits_end:
  assumes "field_end r"
  shows "six_digits (f @ r) \<longleftrightarrow> six_digits f"
proof (cases "6 \<le> length f")
  case True
  then show ?thesis by (simp add: six_digits_def)
next
  case False
  then have "\<not> six_digits f" by (simp add: six_digits_def)
  moreover have "\<not> six_digits (f @ r)"
  proof
    assume s: "six_digits (f @ r)"
    then obtain c t where r: "r = c # t" using False by (cases r) (auto simp: six_digits_def)
    have "c \<in> set (take 6 (f @ r))" using False by (cases "6 - length f") (auto simp: r)
    then show False using s assms field_end_hd [of c t] by (auto simp: r six_digits_def list_all_iff)
  qed
  ultimately show ?thesis by simp
qed

lemma two_end: "six_digits f \<Longrightarrow> i \<le> 4 \<Longrightarrow> two (f @ r) i = two f i"
  by (simp add: two_def six_digits_def)

lemma micros_end: "field_end r \<Longrightarrow> micros (f @ r) v scale = micros f v scale"
  by (induction f v scale rule: micros.induct) (cases r; auto dest: field_end_hd)+

lemma date_field_end:
  "list_all minmea_isfield f \<Longrightarrow> field_end r \<Longrightarrow> date_field (Some (f @ r)) = date_field (Some f)"
  by (simp add: date_field_def char_field_end six_digits_end two_end)

lemma time_field_end:
  assumes "list_all minmea_isfield f" "field_end r"
  shows "time_field (Some (f @ r)) = time_field (Some f)"
proof (cases "six_digits f")
  case True
  then have d: "drop 6 (f @ r) = drop 6 f @ r" by (simp add: six_digits_def)
  have "(case drop 6 f @ r of c # t \<Rightarrow> if c = CHR ''.'' then uint (micros t 0 1000000) else 0 | [] \<Rightarrow> 0)
      = (case drop 6 f of c # t \<Rightarrow> if c = CHR ''.'' then uint (micros t 0 1000000) else 0 | [] \<Rightarrow> 0)"
    using assms(2) by (cases "drop 6 f"; cases r) (auto simp: micros_end dest: field_end_hd)
  then show ?thesis using assms True by (simp add: time_field_def char_field_end six_digits_end two_end d del: drop_append)
next
  case False
  then show ?thesis using assms by (simp add: time_field_def char_field_end six_digits_end)
qed

lemma type_field_end:
  assumes "list_all minmea_isfield f" "field_end r"
  shows "type_field (Some (f @ r)) = type_field (Some f)"
proof (cases f)
  case Nil
  then show ?thesis using assms(2) by (cases r) (auto simp: type_field_def field_end_def)
next
  case (Cons d s)
  show ?thesis
  proof (cases "5 \<le> length s")
    case True
    then show ?thesis by (simp add: Cons type_field_def)
  next
    case False
    have "\<not> (5 \<le> length (s @ r) \<and> list_all minmea_isfield (take 5 (s @ r)))"
    proof
      assume s: "5 \<le> length (s @ r) \<and> list_all minmea_isfield (take 5 (s @ r))"
      then obtain c t where r: "r = c # t" using False by (cases r) auto
      have "c \<in> set (take 5 (s @ r))" using False by (cases "5 - length s") (auto simp: r)
      then show False using s assms(2) field_end_hd [of c t] by (auto simp: r list_all_iff)
    qed
    then show ?thesis using False by (auto simp: Cons type_field_def)
  qed
qed

lemma scan_field_end:
  assumes "list_all minmea_isfield f" "field_end r"
  shows "scan_field type (Some (f @ r)) = scan_field type (Some f)"
  using assms by (simp add: scan_field_def char_field_end dir_field_def float_field_def scan_float_end int_field_end
      string_field_end type_field_end date_field_end time_field_end)

lemma next_field_end:
  assumes "list_all minmea_isfield f"
  shows "next_field (f @ CHR '','' # t) = (t, Some t)" "r = [] \<or> hd r = CHR ''*'' \<Longrightarrow> next_field (f @ r) = (r, None)"
  using assms by (induction f) (cases r; auto simp: next_field_def)+

lemma scan_loop_none:
  "r = [] \<or> hd r = CHR ''*'' \<Longrightarrow> scan_loop format r None optional = scan_fields format [] optional"
  by (induction format arbitrary: optional) (use next_field_end(2) [of "[]"] in auto)

lemma scan_loop_fields:
  assumes "list_all (list_all minmea_isfield) fs" "fs \<noteq> []" "r = [] \<or> hd r = CHR ''*''"
  shows "scan_loop format (join_fields fs @ r) (Some (join_fields fs @ r)) optional = scan_fields format fs optional"
  using assms
proof (induction format arbitrary: fs optional)
  case Nil
  then show ?case by simp
next
  case (Cons type format)
  obtain f gs where fs: "fs = f # gs" using Cons.prems(2) by (cases fs) auto
  have f: "list_all minmea_isfield f" using Cons.prems(1) by (simp add: fs)
  show ?case
  proof (cases gs)
    case Nil
    have e: "field_end r" using Cons.prems(3) by (auto simp: field_end_def)
    show ?thesis
      using Cons.IH [OF Cons.prems] next_field_end(2) [OF f Cons.prems(3)] scan_field_end [OF f e]
        scan_loop_none [OF Cons.prems(3)] by (simp add: fs Nil)
  next
    case (Cons g hs)
    have e: "field_end (CHR '','' # join_fields gs @ r)" by (simp add: field_end_def)
    have "scan_loop format (join_fields gs @ r) (Some (join_fields gs @ r)) optional = scan_fields format gs optional"
      for optional using Cons.IH [of gs optional] Cons.prems by (simp add: fs Cons)
    then show ?thesis
      using Cons.IH [OF Cons.prems] next_field_end(1) [OF f] scan_field_end [OF f e] by (simp add: fs Cons)
  qed
qed

theorem minmea_scan_fields:
  assumes "list_all (list_all minmea_isfield) fs" "fs \<noteq> []" "r = [] \<or> hd r = CHR ''*''"
  shows "minmea_scan (join_fields fs @ r) format = scan_fields format fs False"
  unfolding minmea_scan_def by (rule scan_loop_fields [OF assms])

section \<open>Decimal numbers\<close>

lemma digits_value_Cons: "digits_value (d # ds) = (ccode d - ccode CHR ''0'') * 10 ^ length ds + digits_value ds"
proof (induction ds rule: rev_induct)
  case Nil
  then show ?case by (simp add: digits_value_def)
next
  case (snoc e ds)
  then show ?case using digits_value_append [of "d # ds" e] digits_value_append [of ds e]
    by (simp add: algebra_simps)
qed

lemma digits_value_Nil [simp]: "digits_value [] = 0"
  by (simp add: digits_value_def)

lemma digits_value_split: "digits_value (xs @ ys) = digits_value xs * 10 ^ length ys + digits_value ys"
  by (induction xs) (simp_all add: digits_value_Cons power_add algebra_simps)

lemma digit_value_less: "isdigit d \<Longrightarrow> ccode d - ccode CHR ''0'' < 10"
  by (auto simp: isdigit_def c_between_def ccode_def)

lemma digits_value_less: "list_all isdigit ds \<Longrightarrow> digits_value ds < 10 ^ length ds"
proof (induction ds)
  case (Cons d ds)
  have "(ccode d - ccode CHR ''0'') * 10 ^ length ds \<le> 9 * 10 ^ length ds"
    using Cons.prems digit_value_less [of d] by (intro mult_right_mono) simp_all
  then have "(ccode d - ccode CHR ''0'') * 10 ^ length ds + digits_value ds < 9 * 10 ^ length ds + 10 ^ length ds"
    using Cons by (intro add_le_less_mono) simp_all
  then show ?case by (simp add: digits_value_Cons)
qed simp

lemma digit_field: "isdigit c \<Longrightarrow> minmea_isfield c \<and> c \<noteq> CHR ''+'' \<and> c \<noteq> CHR ''-'' \<and> c \<noteq> CHR ''.'' \<and> c \<noteq> CHR '' ''"
  by (auto simp: isdigit_def minmea_isfield_def isprint_def c_between_def ccode_def)

lemma digits_field: "list_all isdigit ds \<Longrightarrow> list_all minmea_isfield ds"
  by (auto simp: list_all_iff digit_field)

lemma digit_code: "isdigit d \<Longrightarrow> int (ccode d) - int (ccode CHR ''0'') = int (ccode d - ccode CHR ''0'')"
  by (simp add: isdigit_def c_between_def)

lemma scan_float_digit:
  assumes "isdigit d" "0 \<le> v" "10 * v + int (ccode d - ccode CHR ''0'') \<le> INT_MAX" "10 * scale \<le> INT_MAX"
  shows "scan_float (d # s) sign v scale = scan_float s sign (10 * v + int (ccode d - ccode CHR ''0'')) (10 * scale)"
proof -
  have "\<not> v > (INT_MAX - int (ccode d - ccode CHR ''0'')) div 10" using assms(3) by linarith
  then show ?thesis using assms digit_field [OF assms(1)]
    by (simp only: scan_float.simps(2) digit_code [OF assms(1)] Let_def simp_thms if_True if_False) auto
qed

lemma scan_float_digits:
  assumes "list_all isdigit ds" "0 \<le> v" "v * 10 ^ length ds + int (digits_value ds) \<le> INT_MAX"
    "0 \<le> scale" "scale * 10 ^ length ds \<le> INT_MAX"
  shows "scan_float (ds @ r) sign v scale =
    scan_float r sign (v * 10 ^ length ds + int (digits_value ds)) (scale * 10 ^ length ds)"
  using assms
proof (induction ds arbitrary: v scale)
  case Nil
  then show ?case by simp
next
  case (Cons d ds)
  let ?g = "int (ccode d - ccode CHR ''0'')" and ?t = "10 ^ length ds :: int"
  have e: "v * 10 ^ length (d # ds) + int (digits_value (d # ds)) = (10 * v + ?g) * ?t + int (digits_value ds)"
    by (simp add: digits_value_Cons distrib_right)
  have f: "scale * 10 ^ length (d # ds) = (10 * scale) * ?t" by simp
  have le: "a \<le> a * ?t" if "0 \<le> a" for a :: int
    using that mult_left_mono [of 1 ?t a] by simp
  have "10 * v + ?g \<le> INT_MAX" using Cons.prems(2,3) le [of "10 * v + ?g"] unfolding e by linarith
  moreover have "10 * scale \<le> INT_MAX" using Cons.prems(4,5) le [of "10 * scale"] unfolding f by linarith
  ultimately have "scan_float ((d # ds) @ r) sign v scale = scan_float (ds @ r) sign (10 * v + ?g) (10 * scale)"
    using Cons.prems(1,2) scan_float_digit by simp
  also have "\<dots> = scan_float r sign ((10 * v + ?g) * ?t + int (digits_value ds)) ((10 * scale) * ?t)"
    by (rule Cons.IH) (use Cons.prems e f in simp_all)
  finally show ?case unfolding e f .
qed

lemma scan_float_start: "isdigit d \<Longrightarrow> scan_float (d # s) sign (- 1) scale = scan_float (d # s) sign 0 scale"
  using digit_field [of d] by (simp only: scan_float.simps(2)) simp

lemma float_field_decimal:
  assumes "list_all isdigit ip" "ip \<noteq> []" "list_all isdigit fp"
    "int (digits_value (ip @ fp)) \<le> INT_MAX" "10 ^ length fp \<le> INT_MAX"
  shows "float_field (Some (ip @ CHR ''.'' # fp)) =
    Parsed \<lparr>mf_value = int (digits_value (ip @ fp)), mf_scale = 10 ^ length fp\<rparr>"
proof -
  let ?v = "int (digits_value ip)"
  have le: "?v * 10 ^ length fp + int (digits_value fp) = int (digits_value (ip @ fp))"
    by (simp add: digits_value_split)
  have "?v \<le> ?v * 10 ^ length fp" using mult_left_mono [of 1 "10 ^ length fp" ?v] by simp
  then have v: "?v \<le> INT_MAX" using assms(4) unfolding le [symmetric] by linarith
  have "scan_float (ip @ CHR ''.'' # fp) 0 (- 1) 0 = scan_float (ip @ CHR ''.'' # fp) 0 0 0"
    using assms(1,2) scan_float_start by (cases ip) simp_all
  also have "\<dots> = scan_float (CHR ''.'' # fp) 0 ?v 0"
    using scan_float_digits [OF assms(1), of 0 0] v by (simp add: INT_MAX_def)
  also have "\<dots> = scan_float (fp @ []) 0 ?v 1"
    by (simp add: minmea_isfield_def isprint_def c_between_def ccode_def isdigit_def)
  also have "\<dots> = Parsed (0, int (digits_value (ip @ fp)), 10 ^ length fp)"
    using scan_float_digits [OF assms(3), of ?v 1 "[]" 0] assms(4,5) by (simp add: digits_value_split)
  finally show ?thesis by (simp add: float_field_def Let_def)
qed

lemma micros_digits:
  "list_all isdigit ds \<Longrightarrow> k \<le> 6 \<Longrightarrow> n * 10 ^ k < 1000000
     \<Longrightarrow> uint (micros ds (of_nat n) (10 ^ k)) = int ((n * 10 ^ length (take k ds) + digits_value (take k ds)) * 10 ^ (k - length (take k ds)))"
proof (induction ds arbitrary: n k)
  case Nil
  have "uint ((of_nat n :: u32) * 10 ^ k) = uint (of_nat (n * 10 ^ k) :: u32)" by simp
  also have "\<dots> = int (n * 10 ^ k)" using Nil.prems(3) by (simp only: uint_nat unsigned_of_nat) (simp add: take_bit_eq_mod)
  finally show ?case by simp
next
  case (Cons d ds)
  show ?case
  proof (cases k)
    case 0
    have "uint (of_nat n :: u32) = int n" using Cons.prems(3) 0 by (simp add: unsigned_of_nat take_bit_eq_mod)
    then show ?thesis using Cons.prems(1) 0 by simp
  next
    case (Suc j)
    then have j: "j = 0 \<or> j = 1 \<or> j = 2 \<or> j = 3 \<or> j = 4 \<or> j = 5" using Cons.prems(2) by linarith
    then have sc: "(10 ^ k :: u32) > 1 \<and> (10 ^ k :: u32) div 10 = 10 ^ j" unfolding Suc by auto
    let ?g = "ccode d - ccode CHR ''0''"
    have g: "?g < 10" using Cons.prems(1) digit_value_less by simp
    have "(n + 1) * 10 ^ k \<le> 1000000" using Cons.prems(3) j unfolding Suc by auto
    then have "(n * 10 + 10) * 10 ^ j \<le> 1000000" by (simp add: Suc algebra_simps)
    moreover have "(n * 10 + ?g) * 10 ^ j < (n * 10 + 10) * 10 ^ j" using g by simp
    ultimately have l: "(n * 10 + ?g) * 10 ^ j < 1000000" by (rule less_le_trans [rotated])
    have "micros (d # ds) (of_nat n) (10 ^ k) = micros ds (of_nat (n * 10 + ?g)) (10 ^ j)"
      using Cons.prems(1) sc by simp
    then show ?thesis using Cons.IH [OF _ _ l] Cons.prems(1,2)
      by (simp add: Suc digits_value_Cons algebra_simps)
  qed
qed

section \<open>Types and ranges\<close>

fun val_type :: "nmea_val \<Rightarrow> char" where
  "val_type (Chr c) = CHR ''c''"
| "val_type (Dir d) = CHR ''d''"
| "val_type (Flt f) = CHR ''f''"
| "val_type (Num i) = CHR ''i''"
| "val_type (Str s) = CHR ''s''"
| "val_type (Typ a b) = CHR ''t''"
| "val_type (Dat d) = CHR ''D''"
| "val_type (Tim t) = CHR ''T''"

definition two_digit :: "int \<Rightarrow> bool" where
  "two_digit i \<longleftrightarrow> 0 \<le> i \<and> i < 100"

definition scale_values :: "int list" where
  "scale_values = [0, 1, 10, 100, 1000, 10000, 100000, 1000000, 10000000, 100000000, 1000000000]"

fun val_ok :: "nmea_val \<Rightarrow> bool" where
  "val_ok (Chr c) = (c = NUL \<or> minmea_isfield c)"
| "val_ok (Dir d) = (d \<in> {- 1, 0, 1})"
| "val_ok (Flt f) = (\<bar>mf_value f\<bar> \<le> INT_MAX \<and> mf_scale f \<in> set scale_values \<and> (mf_scale f = 0 \<longrightarrow> mf_value f = 0))"
| "val_ok (Num i) = (- INT_MAX - 1 \<le> i \<and> i \<le> INT_MAX)"
| "val_ok (Str s) = list_all minmea_isfield s"
| "val_ok (Typ a b) = (length a = 2 \<and> length b = 3 \<and> list_all minmea_isfield (a @ b))"
| "val_ok (Dat d) = (d = \<lparr>md_day = - 1, md_month = - 1, md_year = - 1\<rparr>
     \<or> two_digit (md_day d) \<and> two_digit (md_month d) \<and> two_digit (md_year d))"
| "val_ok (Tim t) = (t = \<lparr>mt_hours = - 1, mt_minutes = - 1, mt_seconds = - 1, mt_microseconds = - 1\<rparr>
     \<or> two_digit (mt_hours t) \<and> two_digit (mt_minutes t) \<and> two_digit (mt_seconds t)
       \<and> 0 \<le> mt_microseconds t \<and> mt_microseconds t < 1000000)"

text \<open>The state of the loop of format \<open>f\<close>.\<close>

definition float_state :: "int \<Rightarrow> int \<Rightarrow> int \<Rightarrow> bool" where
  "float_state sign v scale \<longleftrightarrow> sign \<in> {- 1, 0, 1} \<and> - 1 \<le> v \<and> v \<le> INT_MAX \<and> scale \<in> set scale_values"

lemma scale_step: "scale \<in> set scale_values \<Longrightarrow> 10 * scale \<le> INT_MAX \<Longrightarrow> 10 * scale \<in> set scale_values"
  by (auto simp: scale_values_def INT_MAX_def)

lemma scan_float_state:
  "scan_float s sign v scale = Parsed (sign', v', scale') \<Longrightarrow> float_state sign v scale \<Longrightarrow> float_state sign' v' scale'"
proof (induction s arbitrary: sign v scale)
  case Nil
  then show ?case by simp
next
  case (Cons c s)
  show ?case
  proof (cases "isdigit c")
    case d: True
    let ?g = "int (ccode c) - int (ccode CHR ''0'')" and ?v = "if v = - 1 then 0 else v"
    have g: "0 \<le> ?g" using d by (simp add: isdigit_def c_between_def)
    have r: "scan_float (c # s) sign v scale =
        (if ?v > (INT_MAX - ?g) div 10 then (if scale \<noteq> 0 then Parsed (sign, ?v, scale) else Parse_error)
         else if 10 * scale > INT_MAX then Undefined else scan_float s sign (10 * ?v + ?g) (10 * scale))"
      using digit_field [OF d] d by (simp add: Let_def)
    have v: "float_state sign ?v scale" using Cons.prems(2) by (auto simp: float_state_def INT_MAX_def)
    moreover have "float_state sign (10 * ?v + ?g) (10 * scale)"
      if "\<not> ?v > (INT_MAX - ?g) div 10" "\<not> 10 * scale > INT_MAX"
    proof -
      have "0 \<le> ?v" using Cons.prems(2) by (simp add: float_state_def)
      moreover have "10 * ?v + ?g \<le> INT_MAX" using that(1) by linarith
      ultimately show ?thesis using v g that(2) scale_step [of scale] by (auto simp: float_state_def)
    qed
    ultimately show ?thesis using Cons.prems(1) Cons.IH unfolding r by (auto split: if_splits)
  next
    case False
    then have "scan_float (c # s) sign v scale =
        (if \<not> minmea_isfield c then Parsed (sign, v, scale)
         else if c = CHR ''+'' \<and> sign = 0 \<and> v = - 1 then scan_float s 1 v scale
         else if c = CHR ''-'' \<and> sign = 0 \<and> v = - 1 then scan_float s (- 1) v scale
         else if c = CHR ''.'' \<and> scale = 0 then scan_float s sign v 1
         else if c = CHR '' '' then
           (if sign \<noteq> 0 \<or> v \<noteq> - 1 \<or> scale \<noteq> 0 then Parse_error else scan_float s sign v scale)
         else Parse_error)"
      by (simp only: scan_float.simps(2) if_False)
    moreover have "float_state 1 v scale" "float_state (- 1) v scale" "float_state sign v 1"
      using Cons.prems(2) by (auto simp: float_state_def scale_values_def)
    ultimately show ?thesis using Cons.prems Cons.IH by (auto split: if_splits)
  qed
qed

lemma float_field_ok:
  assumes "float_field field = Parsed f"
  shows "val_ok (Flt f)"
proof -
  obtain sign v scale where
    m: "(case field of None \<Rightarrow> Parsed (0, - 1, 0) | Some s \<Rightarrow> scan_float s 0 (- 1) 0) = Parsed (sign, v, scale)"
    and f: "(if (sign \<noteq> 0 \<or> scale \<noteq> 0) \<and> v = - 1 then Parse_error
          else let (v, scale) = (if v = - 1 then (0, 0) else if scale = 0 then (v, 1) else (v, scale))
               in Parsed \<lparr>mf_value = (if sign \<noteq> 0 then v * sign else v), mf_scale = scale\<rparr>) = Parsed f"
    using assms unfolding float_field_def parse_iff by (elim exE conjE) (simp split: prod.splits)
  have "float_state 0 (- 1) 0" by (simp add: float_state_def scale_values_def INT_MAX_def)
  then have s: "float_state sign v scale" using m scan_float_state by (cases field) auto
  have a: "\<bar>if sign \<noteq> 0 then v * sign else v\<bar> \<le> INT_MAX"
    using s by (auto simp: float_state_def INT_MAX_def)
  have o: "1 \<in> set scale_values" "0 \<in> set scale_values" by (simp_all add: scale_values_def)
  show ?thesis
  proof (cases "v = - 1")
    case True
    then show ?thesis using f o by (auto simp: INT_MAX_def split: if_splits)
  next
    case False
    then have e: "f = \<lparr>mf_value = (if sign \<noteq> 0 then v * sign else v), mf_scale = (if scale = 0 then 1 else scale)\<rparr>"
      using f by (auto split: if_splits)
    have "scale \<in> set scale_values" using s by (simp add: float_state_def)
    then show ?thesis using a o unfolding e by simp
  qed
qed

lemma strtol10_range: "- INT_MAX - 1 \<le> fst (strtol10 s) \<and> fst (strtol10 s) \<le> INT_MAX"
  unfolding strtol10_def Let_def by (auto simp: INT_MAX_def split: prod.split)

lemma int_field_ok: "int_field field = Parsed i \<Longrightarrow> val_ok (Num i)"
  using strtol10_range [of "the field"]
  by (cases field; cases "strtol10 (the field)") (auto simp: int_field_def INT_MAX_def split: list.splits if_splits)

lemma two_ok: "six_digits s \<Longrightarrow> i \<le> 4 \<Longrightarrow> two_digit (two s i)"
proof -
  assume s: "six_digits s" "i \<le> 4"
  have "set (take 2 (drop i s)) \<subseteq> set (drop i (take 6 s))"
    using s(2) set_take_subset_set_take [of 2 "6 - i" "drop i s"] by (simp add: drop_take)
  then have "list_all isdigit (take 2 (drop i s))"
    using s(1) set_drop_subset [of i "take 6 s"] by (auto simp: six_digits_def list_all_iff)
  from digits_value_less [OF this] have "digits_value (take 2 (drop i s)) < 10 ^ 2"
    using power_increasing [of "length (take 2 (drop i s))" 2 "10 :: nat"] by simp
  then show ?thesis by (simp add: two_def two_digit_def)
qed

lemma micros_takeWhile: "micros s v scale = micros (takeWhile isdigit s) v scale"
  by (induction s v scale rule: micros.induct) auto

lemma micros_ok: "uint (micros s 0 1000000) < 1000000"
proof -
  let ?d = "takeWhile isdigit s"
  have d: "list_all isdigit ?d" by (auto simp: list_all_iff dest: set_takeWhileD)
  have t: "list_all isdigit (take 6 ?d)" using d by (auto simp: list_all_iff dest: in_set_takeD)
  have "digits_value (take 6 ?d) * 10 ^ (6 - length (take 6 ?d)) < 10 ^ length (take 6 ?d) * 10 ^ (6 - length (take 6 ?d))"
    using digits_value_less [OF t] by simp
  also have "\<dots> = 10 ^ 6" by (simp flip: power_add)
  finally have "digits_value (take 6 ?d) * 10 ^ (6 - length (take 6 ?d)) < 1000000" by simp
  moreover have "uint (micros s 0 1000000) = int (digits_value (take 6 ?d) * 10 ^ (6 - length (take 6 ?d)))"
    using micros_digits [OF d, of 6 0] by (simp add: micros_takeWhile [of s])
  ultimately show ?thesis by (metis of_nat_less_iff of_nat_numeral)
qed

lemma date_field_ok: "date_field field = Parsed d \<Longrightarrow> val_ok (Dat d)"
  by (auto simp: date_field_def two_ok split: option.splits if_splits)

lemma time_field_ok: "time_field field = Parsed t \<Longrightarrow> val_ok (Tim t)"
  by (auto simp: time_field_def two_ok micros_ok split: option.splits if_splits list.splits)

lemma type_field_ok: "type_field field = Parsed v \<Longrightarrow> val_type v = CHR ''t'' \<and> val_ok v"
  using take_add [of 2 3 "tl (the field)"]
  by (auto simp: type_field_def list_all_iff split: option.splits list.splits if_splits)

lemma map_parse_iff [parse_iff]:
  "map_parse g m = Parsed vs \<longleftrightarrow> (\<exists>x. m = Parsed x \<and> vs = [g x])" "map_parse g m = Undefined \<longleftrightarrow> m = Undefined"
  by (auto simp: map_parse_def parse_iff)

lemma char_field_ok: "val_ok (Chr (char_field field))"
  by (auto simp: char_field_def split: option.split list.split)

lemma string_field_ok: "val_ok (Str (string_field field))"
  by (auto simp: string_field_def list_all_iff split: option.split dest: set_takeWhileD)

lemma dir_field_ok: "dir_field field = Parsed d \<Longrightarrow> val_ok (Dir d)"
  by (auto simp: dir_field_def Let_def split: if_splits)

lemma scan_field_typed:
  assumes "scan_field type field = Parsed vs"
  shows "map val_type vs = filter (\<lambda>c. c \<noteq> CHR ''_'') [type] \<and> list_all val_ok vs"
  using assms char_field_ok [of field] string_field_ok [of field] dir_field_ok float_field_ok int_field_ok
    date_field_ok time_field_ok type_field_ok
  unfolding scan_field_def by (auto simp: parse_iff simp del: val_ok.simps split: if_splits)

lemma scan_loop_typed:
  "scan_loop format s field optional = Parsed vs
     \<Longrightarrow> map val_type vs = filter (\<lambda>c. c \<noteq> CHR '';'' \<and> c \<noteq> CHR ''_'') format \<and> list_all val_ok vs"
proof (induction format arbitrary: s field optional vs)
  case Nil
  then show ?case by simp
next
  case (Cons type format)
  show ?case
  proof (cases "type = CHR '';''")
    case True
    then show ?thesis using Cons by simp
  next
    case False
    then obtain v ws where "scan_field type field = Parsed v" and vs: "vs = v @ ws"
      and "scan_loop format (fst (next_field s)) (snd (next_field s)) optional = Parsed ws"
      using Cons.prems by (auto simp: parse_iff case_prod_beta split: if_splits)
    from scan_field_typed [OF this(1)] Cons.IH [OF this(3)] show ?thesis using False by (auto simp: vs)
  qed
qed

theorem minmea_scan_typed:
  "minmea_scan s format = Parsed vs
     \<Longrightarrow> map val_type vs = filter (\<lambda>c. c \<noteq> CHR '';'' \<and> c \<noteq> CHR ''_'') format \<and> list_all val_ok vs"
  unfolding minmea_scan_def by (rule scan_loop_typed)

section \<open>Undefined behaviour\<close>

text \<open>Only a field with a decimal point and ten digits after it can overflow the scale.\<close>

lemma scan_float_undefined:
  "scan_float s sign v scale = Undefined \<Longrightarrow> 0 \<le> scale
     \<Longrightarrow> (scale = 0 \<and> 11 \<le> length s) \<or> (0 < scale \<and> INT_MAX < scale * 10 ^ length s)"
proof (induction s arbitrary: sign v scale)
  case Nil
  then show ?case by simp
next
  case (Cons c s)
  have "scale * 10 ^ length s \<le> scale * 10 ^ length (c # s)"
    by (rule mult_left_mono) (use Cons.prems(2) in simp_all)
  then have mono: "INT_MAX < scale * 10 ^ length s \<Longrightarrow> INT_MAX < scale * 10 ^ length (c # s)"
    by (rule less_le_trans [rotated])
  have now: "INT_MAX < scale * 10 ^ length (c # s)" if "INT_MAX < 10 * scale"
    using that mult_left_mono [of 1 "10 ^ length s" "10 * scale"] Cons.prems(2) by simp
  consider sg v' where "scan_float s sg v' scale = Undefined" | sg v' where "scan_float s sg v' (10 * scale) = Undefined"
    | sg v' where "scan_float s sg v' 1 = Undefined" "scale = 0" | "INT_MAX < 10 * scale"
    using Cons.prems(1) unfolding scan_float.simps(2) Let_def by (simp only: split: if_splits) (metis parse.distinct)+
  then show ?case
  proof cases
    case 1
    then show ?thesis using Cons.IH [OF 1 Cons.prems(2)] mono by auto
  next
    case 2
    then show ?thesis using Cons.IH [OF 2] Cons.prems(2) by auto
  next
    case 3
    have "INT_MAX < 10 ^ length s" using Cons.IH [OF 3(1)] by simp
    moreover have "(10 :: int) ^ length s \<le> 10 ^ 9" if "length s \<le> 9" using that by (intro power_increasing) simp_all
    ultimately show ?thesis using 3(2) by (cases "length s \<le> 9") (simp_all add: INT_MAX_def)
  next
    case 4
    then show ?thesis using now Cons.prems(2) by (cases "scale = 0") (simp_all add: INT_MAX_def)
  qed
qed

lemma scan_field_undefined:
  assumes "scan_field type field = Undefined"
  shows "\<exists>f. field = Some f \<and> 11 \<le> length f"
proof -
  have "float_field field = Undefined"
    using assms unfolding scan_field_def
    by (auto simp: parse_iff dir_field_def int_field_def type_field_def date_field_def time_field_def Let_def
        split: if_splits option.splits list.splits prod.splits)
  then obtain f where "field = Some f" "scan_float f 0 (- 1) 0 = Undefined"
    by (auto simp: float_field_def parse_iff Let_def split: option.splits if_splits)
  with scan_float_undefined show ?thesis by fastforce
qed

lemma scan_fields_undefined:
  "scan_fields format fs optional = Undefined \<Longrightarrow> \<exists>f \<in> set fs. 11 \<le> length f"
proof (induction format arbitrary: fs optional)
  case (Cons type format)
  then show ?case using scan_field_undefined
    by (auto simp: parse_iff split: if_splits list.splits) fastforce+
qed simp

lemma scan_fields_source:
  "scan_fields format fs optional = Parsed vs \<Longrightarrow> v \<in> set vs
     \<Longrightarrow> \<exists>type field ws. scan_field type field = Parsed ws \<and> v \<in> set ws \<and> (field = None \<or> (\<exists>f \<in> set fs. field = Some f))"
proof (induction format arbitrary: fs optional vs)
  case (Cons type format)
  then show ?case by (auto simp: parse_iff split: if_splits list.splits) fastforce+
qed simp

end
