(* ===== verification/NmeaPosition.thy ===== *)
theory NmeaPosition
  imports NmeaCheck NmeaScan
begin

text \<open>
  Whole sentences and their coordinates: how close \<open>minmea_tocoord\<close> is to the angle in the text,
  and what \<open>minmea_parse_rmc\<close> reads from a position report.
\<close>

section \<open>Coordinates\<close>

lemma powi_shift: "k \<le> e \<Longrightarrow> (2 :: rat) ^ nat (e - k) * 2 powi k = 2 powi e"
proof -
  assume "k \<le> e"
  then have "e = int (nat (e - k)) + k" by simp
  then show ?thesis by (metis power_int_add power_int_of_nat zero_neq_numeral)
qed

lemma dbl_add_rel_error: "\<bar>dval (dbl_add a b) - (dval a + dval b)\<bar> * 2 ^ 53 \<le> \<bar>dval a + dval b\<bar>"
proof -
  obtain m1 e1 m2 e2 where ab: "a = Dbl m1 e1" "b = Dbl m2 e2" by (metis dbl.exhaust)
  let ?e = "min e1 e2" and ?m = "m1 * 2 ^ nat (e1 - min e1 e2) + m2 * 2 ^ nat (e2 - min e1 e2)"
  have "(of_int ?m :: rat) * 2 powi ?e =
      of_int m1 * (2 ^ nat (e1 - ?e) * 2 powi ?e) + of_int m2 * (2 ^ nat (e2 - ?e) * 2 powi ?e)"
    by (simp only: of_int_add of_int_mult of_int_power of_int_numeral distrib_right mult.assoc)
  also have "\<dots> = dval a + dval b"
    by (subst (1 2) powi_shift) (simp_all add: ab dval_def)
  finally have "of_int ?m * 2 powi ?e = dval a + dval b" .
  moreover have "dbl_add a b = dbl_round ?m ?e" by (simp only: ab dbl_add.simps Let_def)
  ultimately show ?thesis using dbl_round_rel_error [of ?m ?e] by simp
qed

text \<open>The angle that a value in degrees and minutes stands for.\<close>

definition coord_value :: "minmea_float \<Rightarrow> rat" where
  "coord_value f =
     of_int (mf_value f sdiv (mf_scale f * 100)) + of_int (mf_value f smod (mf_scale f * 100)) / of_int (60 * mf_scale f)"

lemma smod_bound:
  assumes "0 < (b :: int)"
  shows "\<bar>a smod b\<bar> < b"
proof -
  have "\<bar>a smod b\<bar> \<le> \<bar>a\<bar> mod b" using assms by (simp add: signed_modulo_int_def abs_mult sgn_if)
  then show ?thesis using pos_mod_bound [OF assms, of "\<bar>a\<bar>"] by linarith
qed

lemma sdiv_bound:
  assumes "0 < (b :: int)"
  shows "\<bar>a sdiv b\<bar> \<le> \<bar>a\<bar>"
proof -
  have "\<bar>a sdiv b\<bar> \<le> \<bar>a\<bar> div b"
    using assms by (simp add: signed_divide_int_def abs_mult sgn_if pos_imp_zdiv_nonneg_iff)
  also have "\<dots> \<le> \<bar>a\<bar> div 1" by (rule zdiv_mono2) (use assms in simp_all)
  finally show ?thesis by simp
qed

lemma two_roundings:
  fixes r d x y n :: rat
  assumes "\<bar>r - (d + y)\<bar> * n \<le> \<bar>d + y\<bar>" "\<bar>y - x\<bar> * n \<le> \<bar>x\<bar>" "\<bar>x\<bar> < 2" "1 \<le> n"
  shows "\<bar>r - (d + x)\<bar> * n \<le> \<bar>d + x\<bar> + 4"
proof -
  have "\<bar>y - x\<bar> \<le> \<bar>y - x\<bar> * n" using mult_left_mono [OF assms(4), of "\<bar>y - x\<bar>"] by simp
  then have "\<bar>y - x\<bar> \<le> \<bar>x\<bar>" using assms(2) by (rule order_trans)
  then have y: "\<bar>d + y\<bar> \<le> \<bar>d + x\<bar> + 2" using assms(3) by linarith
  have "\<bar>r - (d + x)\<bar> \<le> \<bar>r - (d + y)\<bar> + \<bar>y - x\<bar>" by linarith
  then have "\<bar>r - (d + x)\<bar> * n \<le> (\<bar>r - (d + y)\<bar> + \<bar>y - x\<bar>) * n" by (rule mult_right_mono) (use assms(4) in simp)
  also have "\<dots> = \<bar>r - (d + y)\<bar> * n + \<bar>y - x\<bar> * n" by (rule distrib_right)
  finally show ?thesis using assms y by linarith
qed

lemma tocoord_error:
  assumes s: "0 < mf_scale f" "mf_scale f \<le> INT_MAX div 100" and v: "\<bar>mf_value f\<bar> \<le> INT_MAX"
  shows "\<exists>d. minmea_tocoord f = Some d \<and> \<bar>dval d - coord_value f\<bar> * 2 ^ 53 \<le> \<bar>coord_value f\<bar> + 4"
proof -
  let ?S = "mf_scale f"
  let ?D = "mf_value f sdiv (?S * 100)" and ?M = "mf_value f smod (?S * 100)"
  have S: "?S \<le> 21474836" using s(2) by (simp add: INT_MAX_def)
  have M: "\<bar>?M\<bar> < ?S * 100" using s(1) by (intro smod_bound) simp
  have D: "\<bar>?D\<bar> \<le> INT_MAX" using sdiv_bound [of "?S * 100" "mf_value f"] s(1) v by simp
  let ?q = "dbl_div (Dbl ?M 0) (Dbl (60 * ?S) 0)" and ?x = "(of_int ?M :: rat) / of_int (60 * ?S)"
  have t: "minmea_tocoord f = Some (dbl_add (Dbl ?D 0) ?q)"
    using s S M D by (simp add: minmea_tocoord_def Let_def dbl_of_int_exact INT_MAX_def)
  have x: "\<bar>?x\<bar> < 2"
  proof -
    have "\<bar>(of_int ?M :: rat)\<bar> < of_int (?S * 100)" using M by (metis of_int_abs of_int_less_iff)
    then show ?thesis using s(1) by (simp add: abs_divide divide_less_eq)
  qed
  have q: "\<bar>dval ?q - ?x\<bar> * 2 ^ 53 \<le> \<bar>?x\<bar>"
    using fl_quot_error [of "Dbl (60 * ?S) 0" 53 "Dbl ?M 0"] s(1) by (simp add: dbl_div_def dval_def)
  have a: "\<bar>dval (dbl_add (Dbl ?D 0) ?q) - (of_int ?D + dval ?q)\<bar> * 2 ^ 53 \<le> \<bar>of_int ?D + dval ?q\<bar>"
    using dbl_add_rel_error [of "Dbl ?D 0" ?q] by (simp add: dval_def)
  have c: "coord_value f = of_int ?D + ?x" by (simp add: coord_value_def)
  have "\<bar>dval (dbl_add (Dbl ?D 0) ?q) - coord_value f\<bar> * 2 ^ 53 \<le> \<bar>coord_value f\<bar> + 4"
    unfolding c by (rule two_roundings [OF a q x]) simp
  then show ?thesis using t by blast
qed

text \<open>A coordinate in the text of a sentence: degrees, two digits of minutes, and their fraction.\<close>

definition coord_text :: "string \<Rightarrow> string \<Rightarrow> string \<Rightarrow> string" where
  "coord_text dg mi fr = dg @ mi @ CHR ''.'' # fr"

definition coord_degrees :: "string \<Rightarrow> string \<Rightarrow> string \<Rightarrow> rat" where
  "coord_degrees dg mi fr =
     of_nat (digits_value dg) + of_nat (digits_value (mi @ fr)) / 10 ^ length fr / 60"

lemma coord_of_text:
  assumes "list_all isdigit (dg @ mi @ fr)" "length mi = 2" "sg = 1 \<or> sg = - 1"
  shows "coord_value (mf_times \<lparr>mf_value = int (digits_value (dg @ mi @ fr)), mf_scale = 10 ^ length fr\<rparr> sg) =
    of_int sg * coord_degrees dg mi fr"
proof -
  let ?M = "digits_value (mi @ fr)" and ?G = "digits_value dg" and ?S = "10 ^ length fr :: nat"
  have v: "digits_value (dg @ mi @ fr) = ?G * (?S * 100) + ?M"
    using digits_value_split [of dg "mi @ fr"] assms(2) by (simp add: power_add algebra_simps)
  have "?M < 10 ^ length (mi @ fr)" using assms(1) by (intro digits_value_less) simp
  then have M: "?M < ?S * 100" using assms(2) by (simp add: power_add)
  have dm: "digits_value (dg @ mi @ fr) div (?S * 100) = ?G" "digits_value (dg @ mi @ fr) mod (?S * 100) = ?M"
    unfolding v using M by simp_all
  then have d: "int (digits_value (dg @ mi @ fr)) div (10 ^ length fr * 100) = int ?G"
    "int (digits_value (dg @ mi @ fr)) mod (10 ^ length fr * 100) = int ?M"
    using zdiv_int [of "digits_value (dg @ mi @ fr)" "?S * 100"] zmod_int [of "digits_value (dg @ mi @ fr)" "?S * 100"]
    by simp_all
  have z: "?G = 0" "?M = 0" if "digits_value (dg @ mi @ fr) = 0"
    using that dm by simp_all
  show ?thesis using assms(3) d z
    by (auto simp: coord_value_def mf_times_def coord_degrees_def signed_divide_int_def signed_modulo_int_def
        abs_mult sgn_if)
qed

section \<open>Whole sentences\<close>

text \<open>A sentence with the checksum of its fields.\<close>

definition hex_upper :: "nat \<Rightarrow> char" where
  "hex_upper n = (if n < 10 then char_of (n + 48) else char_of (n + 55))"

definition nmea_sentence_of :: "string list \<Rightarrow> string" where
  "nmea_sentence_of fs =
     (let k = unat (xor_codes (join_fields fs))
      in CHR ''$'' # join_fields fs @ [CHR ''*'', hex_upper (k div 16), hex_upper (k mod 16)])"

lemma hex2int_upper: "n < 16 \<Longrightarrow> hex2int (hex_upper n) = int n"
  by (auto simp: hex2int_def hex_upper_def c_between_def ccode_def)

lemma isfield_body: "minmea_isfield c \<Longrightarrow> body_char c"
  by (simp add: minmea_isfield_def body_char_def)

lemma join_fields_body:
  "list_all (list_all minmea_isfield) fs \<Longrightarrow> list_all body_char (join_fields fs)"
  by (induction fs rule: join_fields.induct) (auto simp: list_all_iff isfield_body)

lemma nmea_sentence_of_check:
  assumes "list_all (list_all minmea_isfield) fs"
  shows "minmea_check (nmea_sentence_of fs) strict"
proof -
  let ?k = "unat (xor_codes (join_fields fs))"
  have "?k < 256" using unsigned_less [of "xor_codes (join_fields fs)"] by simp
  then have d: "?k div 16 < 16" "?k mod 16 < 16" by simp_all
  have "int n = 16 * int (n div 16) + int (n mod 16)" for n
    by (metis mult_div_mod_eq of_nat_add of_nat_mult of_nat_numeral)
  then have "int ?k = 16 * int (?k div 16) + int (?k mod 16)" .
  then have "checked_sentence (nmea_sentence_of fs)"
    unfolding checked_sentence_def nmea_sentence_of_def Let_def
    using join_fields_body [OF assms] hex2int_upper [OF d(1)] hex2int_upper [OF d(2)]
    by (intro exI [of _ "join_fields fs"] exI [of _ "hex_upper (?k div 16)"] exI [of _ "hex_upper (?k mod 16)"] exI [of _ "[]"])
      simp
  then have "minmea_check (nmea_sentence_of fs) True" "minmea_check (nmea_sentence_of fs) False"
    by (simp_all add: minmea_check_strict minmea_check_lax)
  then show ?thesis by (cases strict) simp_all
qed

lemma join_fields_Cons: "CHR ''$'' # join_fields (f # fs) = join_fields ((CHR ''$'' # f) # fs)"
  by (cases fs) simp_all

lemma scan_sentence:
  assumes "list_all (list_all minmea_isfield) (f # fs)"
  shows "minmea_scan (nmea_sentence_of (f # fs)) format = scan_fields format ((CHR ''$'' # f) # fs) False"
proof -
  have "list_all (list_all minmea_isfield) ((CHR ''$'' # f) # fs)"
    using assms by (simp add: minmea_isfield_def isprint_def c_between_def ccode_def)
  then show ?thesis
    unfolding nmea_sentence_of_def Let_def
    using minmea_scan_fields [of "(CHR ''$'' # f) # fs"
        "[CHR ''*'', hex_upper (unat (xor_codes (join_fields (f # fs))) div 16),
          hex_upper (unat (xor_codes (join_fields (f # fs))) mod 16)]" format]
    by (simp add: append_Cons [symmetric] join_fields_Cons del: append_Cons)
qed

lemma type_field_name:
  "length tk = 2 \<Longrightarrow> length name = 3 \<Longrightarrow> list_all minmea_isfield (tk @ name)
     \<Longrightarrow> type_field (Some (CHR ''$'' # tk @ name)) = Parsed (Typ tk name)"
  by (simp add: type_field_def)

lemma sentence_id_of:
  assumes "list_all (list_all minmea_isfield) ((tk @ name) # fs)" "length tk = 2" "length name = 3"
  shows "minmea_sentence_id_of (nmea_sentence_of ((tk @ name) # fs)) strict =
    (case find (\<lambda>(str, _). take 3 str = name) sentence_id_map of None \<Rightarrow> MINMEA_UNKNOWN | Some (_, t) \<Rightarrow> t)"
proof -
  have "type_field (Some (CHR ''$'' # tk @ name)) = Parsed (Typ tk name)"
    using assms by (intro type_field_name) simp_all
  then have "minmea_scan (nmea_sentence_of ((tk @ name) # fs)) ''t'' = Parsed [Typ tk name]"
    unfolding scan_sentence [OF assms(1)] by (simp add: scan_field_def map_parse_def)
  then show ?thesis by (simp add: minmea_sentence_id_of_def nmea_sentence_of_check [OF assms(1)])
qed

lemma letters_field [simp]:
  "minmea_isfield CHR ''A''" "minmea_isfield CHR ''V''" "minmea_isfield CHR ''N''" "minmea_isfield CHR ''S''"
  "minmea_isfield CHR ''E''" "minmea_isfield CHR ''W''" "minmea_isfield CHR ''R''" "minmea_isfield CHR ''M''"
  "minmea_isfield CHR ''C''" "minmea_isfield CHR ''.''" "minmea_isfield CHR ''$''"
  by (simp_all add: minmea_isfield_def isprint_def c_between_def ccode_def)

section \<open>A position report\<close>

text \<open>The texts of an RMC sentence. A coordinate is its degrees, minutes and fraction.\<close>

record rmc_report =
  rr_talker :: string
  rr_time :: string      \<comment> \<open>hhmmss\<close>
  rr_subsec :: string    \<comment> \<open>digits, or empty\<close>
  rr_valid :: bool
  rr_lat :: "string \<times> string \<times> string"
  rr_north :: bool
  rr_lon :: "string \<times> string \<times> string"
  rr_east :: bool
  rr_speed :: string
  rr_course :: string
  rr_date :: string      \<comment> \<open>ddmmyy\<close>
  rr_variation :: string

definition decimal_text :: "string \<Rightarrow> bool" where
  "decimal_text s \<longleftrightarrow> s = [] \<or>
     (case dropWhile isdigit s of
        c # fp \<Rightarrow> c = CHR ''.'' \<and> takeWhile isdigit s \<noteq> [] \<and> list_all isdigit fp
          \<and> int (digits_value (takeWhile isdigit s @ fp)) \<le> INT_MAX \<and> (10 :: int) ^ length fp \<le> INT_MAX
      | [] \<Rightarrow> False)"

definition coord_ok :: "string \<times> string \<times> string \<Rightarrow> bool" where
  "coord_ok c = (case c of (dg, mi, fr) \<Rightarrow> list_all isdigit (dg @ mi @ fr) \<and> length mi = 2
     \<and> int (digits_value (dg @ mi @ fr)) \<le> INT_MAX \<and> (10 :: int) ^ length fr \<le> INT_MAX div 100)"

definition rmc_report_ok :: "rmc_report \<Rightarrow> bool" where
  "rmc_report_ok r \<longleftrightarrow> length (rr_talker r) = 2 \<and> list_all minmea_isfield (rr_talker r)
     \<and> length (rr_time r) = 6 \<and> list_all isdigit (rr_time r) \<and> list_all isdigit (rr_subsec r)
     \<and> coord_ok (rr_lat r) \<and> coord_ok (rr_lon r) \<and> decimal_text (rr_speed r) \<and> decimal_text (rr_course r)
     \<and> length (rr_date r) = 6 \<and> list_all isdigit (rr_date r) \<and> decimal_text (rr_variation r)"

fun coord_field :: "string \<times> string \<times> string \<Rightarrow> string" where
  "coord_field (dg, mi, fr) = coord_text dg mi fr"

fun angle :: "string \<times> string \<times> string \<Rightarrow> bool \<Rightarrow> rat" where
  "angle (dg, mi, fr) positive = (if positive then 1 else - 1) * coord_degrees dg mi fr"

definition rmc_fields :: "rmc_report \<Rightarrow> string list" where
  "rmc_fields r =
     [rr_talker r @ ''RMC'',
      rr_time r @ (if rr_subsec r = [] then [] else CHR ''.'' # rr_subsec r),
      if rr_valid r then ''A'' else ''V'',
      coord_field (rr_lat r), if rr_north r then ''N'' else ''S'',
      coord_field (rr_lon r), if rr_east r then ''E'' else ''W'',
      rr_speed r, rr_course r, rr_date r, rr_variation r, []]"

definition subsec_micros :: "string \<Rightarrow> int" where
  "subsec_micros s = int (digits_value (take 6 s)) * 10 ^ (6 - length (take 6 s))"

lemma decimal_textE:
  assumes "decimal_text s"
  obtains (empty) "s = []"
  | (number) ip fp where "s = ip @ CHR ''.'' # fp" "list_all isdigit ip" "ip \<noteq> []" "list_all isdigit fp"
    "int (digits_value (ip @ fp)) \<le> INT_MAX" "10 ^ length fp \<le> INT_MAX"
proof (cases "s = []")
  case True
  then show ?thesis by (rule empty)
next
  case False
  then obtain c fp where d: "dropWhile isdigit s = c # fp" using assms by (auto simp: decimal_text_def split: list.splits)
  have s: "s = takeWhile isdigit s @ CHR ''.'' # fp" "takeWhile isdigit s \<noteq> []" "list_all isdigit fp"
    "int (digits_value (takeWhile isdigit s @ fp)) \<le> INT_MAX" "10 ^ length fp \<le> INT_MAX"
    using assms d False takeWhile_dropWhile_id [of isdigit s] by (simp_all add: decimal_text_def)
  have "list_all isdigit (takeWhile isdigit s)" by (auto simp: list_all_iff dest: set_takeWhileD)
  with s show ?thesis using number by metis
qed

lemma decimal_text_parses:
  assumes "decimal_text s"
  shows "\<exists>f. float_field (Some s) = Parsed f" "list_all minmea_isfield s"
  using assms
  by (cases rule: decimal_textE; use float_field_decimal in \<open>auto simp: float_field_def digits_field\<close>)+

lemma coord_field_parses:
  assumes "coord_ok c"
  shows "\<exists>f. float_field (Some (coord_field c)) = Parsed f \<and> 0 < mf_scale f \<and> mf_scale f \<le> INT_MAX div 100
     \<and> \<bar>mf_value f\<bar> \<le> INT_MAX \<and> (\<forall>sg. sg = 1 \<or> sg = - 1 \<longrightarrow> coord_value (mf_times f sg) = angle c (sg = 1))"
    "list_all minmea_isfield (coord_field c)"
proof -
  obtain dg mi fr where c: "c = (dg, mi, fr)" by (cases c)
  have a: "list_all isdigit (dg @ mi)" "dg @ mi \<noteq> []" "list_all isdigit fr"
    "int (digits_value ((dg @ mi) @ fr)) \<le> INT_MAX" "(10 :: int) ^ length fr \<le> INT_MAX"
    "length mi = 2" "(10 :: int) ^ length fr \<le> INT_MAX div 100" "list_all isdigit (dg @ mi @ fr)"
    using assms by (auto simp: coord_ok_def c INT_MAX_def)
  show "list_all minmea_isfield (coord_field c)"
    using a(1,3) by (simp add: c coord_text_def digits_field)
  let ?f = "\<lparr>mf_value = int (digits_value (dg @ mi @ fr)), mf_scale = 10 ^ length fr\<rparr>"
  have "float_field (Some (coord_field c)) = Parsed ?f"
    using float_field_decimal [OF a(1-5)] by (simp add: c coord_text_def)
  moreover have "coord_value (mf_times ?f sg) = angle c (sg = 1)" if "sg = 1 \<or> sg = - 1" for sg
    using coord_of_text [OF a(8,6) that] that by (auto simp: c)
  ultimately show "\<exists>f. float_field (Some (coord_field c)) = Parsed f \<and> 0 < mf_scale f \<and> mf_scale f \<le> INT_MAX div 100
     \<and> \<bar>mf_value f\<bar> \<le> INT_MAX \<and> (\<forall>sg. sg = 1 \<or> sg = - 1 \<longrightarrow> coord_value (mf_times f sg) = angle c (sg = 1))"
    using a(4,7) by (intro exI [of _ ?f]) simp
qed

lemma isdigit_NUL: "\<not> isdigit CHR 0x00"
  by (simp add: isdigit_def c_between_def ccode_def)

lemma six_digits_start:
  "length s = 6 \<Longrightarrow> list_all isdigit s \<Longrightarrow> six_digits (s @ t) \<and> char_field (Some (s @ t)) \<noteq> NUL"
  by (cases s) (auto simp: six_digits_def char_field_def NUL_def digit_field isdigit_NUL)

definition report_time :: "rmc_report \<Rightarrow> minmea_time" where
  "report_time r = \<lparr>mt_hours = two (rr_time r) 0, mt_minutes = two (rr_time r) 2, mt_seconds = two (rr_time r) 4,
     mt_microseconds = subsec_micros (rr_subsec r)\<rparr>"

definition report_date :: "rmc_report \<Rightarrow> minmea_date" where
  "report_date r = \<lparr>md_day = two (rr_date r) 0, md_month = two (rr_date r) 2, md_year = two (rr_date r) 4\<rparr>"

lemma report_time_field:
  assumes "rmc_report_ok r"
  shows "time_field (Some (rr_time r @ (if rr_subsec r = [] then [] else CHR ''.'' # rr_subsec r))) = Parsed (report_time r)"
proof -
  have t: "length (rr_time r) = 6" "list_all isdigit (rr_time r)" "list_all isdigit (rr_subsec r)"
    using assms by (simp_all add: rmc_report_ok_def)
  have "uint (micros (rr_subsec r) 0 1000000) = subsec_micros (rr_subsec r)"
    using micros_digits [OF t(3), of 6 0] by (simp add: subsec_micros_def)
  then show ?thesis using six_digits_start [OF t(1,2)] two_end [of "rr_time r"] t(1)
      six_digits_start [OF t(1,2), of "[]"]
    by (auto simp: time_field_def report_time_def subsec_micros_def)
qed

lemma report_date_field:
  "rmc_report_ok r \<Longrightarrow> date_field (Some (rr_date r)) = Parsed (report_date r)"
  using six_digits_start [of "rr_date r" "[]"] by (simp add: date_field_def report_date_def rmc_report_ok_def)

lemma rmc_fields_ok:
  assumes "rmc_report_ok r"
  shows "list_all (list_all minmea_isfield) (rmc_fields r)"
  using assms decimal_text_parses(2) coord_field_parses(2)
  by (simp add: rmc_fields_def rmc_report_ok_def digits_field)

lemma rmc_parses:
  assumes ok: "rmc_report_ok r"
  obtains f where "minmea_parse_rmc (nmea_sentence_of (rmc_fields r)) = Parsed f"
    "rmc_valid f = rr_valid r" "rmc_time f = report_time r" "rmc_date f = report_date r"
    "\<exists>d. minmea_tocoord (rmc_latitude f) = Some d
       \<and> \<bar>dval d - angle (rr_lat r) (rr_north r)\<bar> * 2 ^ 53 \<le> \<bar>angle (rr_lat r) (rr_north r)\<bar> + 4"
    "\<exists>d. minmea_tocoord (rmc_longitude f) = Some d
       \<and> \<bar>dval d - angle (rr_lon r) (rr_east r)\<bar> * 2 ^ 53 \<le> \<bar>angle (rr_lon r) (rr_east r)\<bar> + 4"
proof -
  have o: "coord_ok (rr_lat r)" "coord_ok (rr_lon r)" "decimal_text (rr_speed r)" "decimal_text (rr_course r)"
    "decimal_text (rr_variation r)" "length (rr_talker r) = 2" "list_all minmea_isfield (rr_talker r)"
    using ok by (simp_all add: rmc_report_ok_def)
  obtain la lo where la: "float_field (Some (coord_field (rr_lat r))) = Parsed la" "0 < mf_scale la"
      "mf_scale la \<le> INT_MAX div 100" "\<bar>mf_value la\<bar> \<le> INT_MAX"
      "\<And>sg. sg = 1 \<or> sg = - 1 \<Longrightarrow> coord_value (mf_times la sg) = angle (rr_lat r) (sg = 1)"
    and lo: "float_field (Some (coord_field (rr_lon r))) = Parsed lo" "0 < mf_scale lo"
      "mf_scale lo \<le> INT_MAX div 100" "\<bar>mf_value lo\<bar> \<le> INT_MAX"
      "\<And>sg. sg = 1 \<or> sg = - 1 \<Longrightarrow> coord_value (mf_times lo sg) = angle (rr_lon r) (sg = 1)"
    using coord_field_parses(1) [OF o(1)] coord_field_parses(1) [OF o(2)] by blast
  obtain sp co va where fl: "float_field (Some (rr_speed r)) = Parsed sp" "float_field (Some (rr_course r)) = Parsed co"
    "float_field (Some (rr_variation r)) = Parsed va"
    using decimal_text_parses(1) o(3-5) by metis
  have ty: "type_field (Some (CHR ''$'' # rr_talker r @ ''RMC'')) = Parsed (Typ (rr_talker r) ''RMC'')"
    using o(6,7) by (intro type_field_name) simp_all
  let ?ns = "if rr_north r then 1 else - 1 :: int" and ?ew = "if rr_east r then 1 else - 1 :: int"
  let ?f = "\<lparr>rmc_time = report_time r, rmc_valid = rr_valid r, rmc_latitude = mf_times la ?ns,
     rmc_longitude = mf_times lo ?ew, rmc_speed = sp, rmc_course = co, rmc_date = report_date r,
     rmc_variation = mf_times va 0\<rparr>"
  have dir: "dir_field (Some (if b then ''N'' else ''S'')) = Parsed (if b then 1 else - 1)"
    "dir_field (Some (if b then ''E'' else ''W'')) = Parsed (if b then 1 else - 1)" "dir_field (Some []) = Parsed 0" for b
    by (simp_all add: dir_field_def char_field_def NUL_def)
  have ch: "char_field (Some (if rr_valid r then ''A'' else ''V'')) = (if rr_valid r then CHR ''A'' else CHR ''V'')"
    by (simp add: char_field_def)
  have "scan_fields ''tTcfdfdffDfd'' ((CHR ''$'' # hd (rmc_fields r)) # tl (rmc_fields r)) False =
     Parsed [Typ (rr_talker r) ''RMC'', Tim (report_time r), Chr (if rr_valid r then CHR ''A'' else CHR ''V''),
       Flt la, Dir ?ns, Flt lo, Dir ?ew, Flt sp, Flt co, Dat (report_date r), Flt va, Dir 0]"
    unfolding rmc_fields_def list.sel
    by (simp add: scan_field_def map_parse_def ty report_time_field [OF ok] report_date_field [OF ok] ch la(1) lo(1) fl dir
        del: append.simps)
  then have "minmea_parse_rmc (nmea_sentence_of (rmc_fields r)) = Parsed ?f"
    using scan_sentence [of "hd (rmc_fields r)" "tl (rmc_fields r)"] rmc_fields_ok [OF ok]
    by (simp add: minmea_parse_rmc_def rmc_fields_def)
  moreover have "\<exists>d. minmea_tocoord (mf_times la ?ns) = Some d
       \<and> \<bar>dval d - angle (rr_lat r) (rr_north r)\<bar> * 2 ^ 53 \<le> \<bar>angle (rr_lat r) (rr_north r)\<bar> + 4"
    using tocoord_error [of "mf_times la ?ns"] la(2-4) la(5) [of ?ns] by (auto simp: mf_times_def)
  moreover have "\<exists>d. minmea_tocoord (mf_times lo ?ew) = Some d
       \<and> \<bar>dval d - angle (rr_lon r) (rr_east r)\<bar> * 2 ^ 53 \<le> \<bar>angle (rr_lon r) (rr_east r)\<bar> + 4"
    using tocoord_error [of "mf_times lo ?ew"] lo(2-4) lo(5) [of ?ew] by (auto simp: mf_times_def)
  ultimately show thesis by (intro that [of ?f]) simp_all
qed

end
