(* ===== verification/NmeaHandler.thy ===== *)
theory NmeaHandler
  imports NmeaLog NmeaPosition
begin

text \<open>
  What \<open>handle_gnss_nmea\<close> does with the sentences of \<open>NmeaPosition\<close>: it ignores damaged ones, its
  behaviour is defined when the fields are short, and a position report is sent with the
  angles of its text.
\<close>

section \<open>Damage\<close>

lemma handle_unchecked: "\<not> minmea_check s False \<Longrightarrow> handle_gnss_nmea ck s w = Some w"
  by (simp add: handle_gnss_nmea_def)

section \<open>Definedness\<close>

lemma scan_short_defined:
  assumes "list_all (list_all minmea_isfield) (f # fs)" "length f \<le> 9" "list_all (\<lambda>f. length f \<le> 10) fs"
  shows "minmea_scan (nmea_sentence_of (f # fs)) format \<noteq> Undefined"
  using scan_fields_undefined [of format "(CHR ''$'' # f) # fs" False] assms(2,3)
  unfolding scan_sentence [OF assms(1)] by (auto simp: list_all_iff) fastforce

lemmas parse_defs = minmea_parse_gbs_def minmea_parse_rmc_def minmea_parse_gga_def minmea_parse_gsa_def
  minmea_parse_gll_def minmea_parse_gst_def minmea_parse_vtg_def minmea_parse_gsv_def minmea_parse_zda_def

lemma parses_defined:
  "minmea_scan s ''tTfffifff'' \<noteq> Undefined \<Longrightarrow> minmea_parse_gbs s \<noteq> Undefined"
  "minmea_scan s ''tTcfdfdffDfd'' \<noteq> Undefined \<Longrightarrow> minmea_parse_rmc s \<noteq> Undefined"
  "minmea_scan s ''tTfdfdiiffcfcf_'' \<noteq> Undefined \<Longrightarrow> minmea_parse_gga s \<noteq> Undefined"
  "minmea_scan s ''tciiiiiiiiiiiiifff'' \<noteq> Undefined \<Longrightarrow> minmea_parse_gsa s \<noteq> Undefined"
  "minmea_scan s ''tfdfdTc;c'' \<noteq> Undefined \<Longrightarrow> minmea_parse_gll s \<noteq> Undefined"
  "minmea_scan s ''tTfffffff'' \<noteq> Undefined \<Longrightarrow> minmea_parse_gst s \<noteq> Undefined"
  "minmea_scan s ''t;fcfcfcfcc'' \<noteq> Undefined \<Longrightarrow> minmea_parse_vtg s \<noteq> Undefined"
  unfolding parse_defs parse_iff by (simp_all split: list.split nmea_val.split)

text \<open>The values have the types of the format.\<close>

lemma val_type_iff:
  "val_type v = CHR ''i'' \<longleftrightarrow> (\<exists>i. v = Num i)" "val_type v = CHR ''f'' \<longleftrightarrow> (\<exists>f. v = Flt f)"
  "val_type v = CHR ''t'' \<longleftrightarrow> (\<exists>a b. v = Typ a b)" "val_type v = CHR ''T'' \<longleftrightarrow> (\<exists>t. v = Tim t)"
  "val_type v = CHR ''s'' \<longleftrightarrow> (\<exists>x. v = Str x)"
  by (cases v; simp)+

lemmas scan_shape = map_eq_Cons_conv val_type_iff

lemma gsv_undefined:
  assumes "minmea_parse_gsv s = Undefined" "minmea_scan s ''tiii;iiifiiifiiifiiif;s'' = Parsed vs"
  shows "\<exists>x. Str x \<in> set vs \<and> 8 \<le> length x"
proof -
  have "map val_type vs = ''tiiiiiifiiifiiifiiifs''" using minmea_scan_typed [OF assms(2)] by simp
  then show ?thesis using assms
    by (auto simp: scan_shape minmea_parse_gsv_def split: if_splits)
qed

lemma zda_undefined:
  assumes "minmea_parse_zda s = Undefined" "minmea_scan s ''tTiiiii'' = Parsed vs"
  shows "Num (- INT_MAX - 1) \<in> set vs"
proof -
  have "map val_type vs = ''tTiiiii''" using minmea_scan_typed [OF assms(2)] by simp
  then show ?thesis using assms
    by (auto simp: scan_shape minmea_parse_zda_def split: if_splits)
qed

text \<open>The values of a sentence come from its fields.\<close>

lemma scan_source:
  assumes "list_all (list_all minmea_isfield) (f # fs)" "minmea_scan (nmea_sentence_of (f # fs)) format = Parsed vs" "v \<in> set vs"
  obtains type field ws where "scan_field type field = Parsed ws" "v \<in> set ws" "field = None \<or> (\<exists>g \<in> set ((CHR ''$'' # f) # fs). field = Some g)"
  using scan_fields_source [of format "(CHR ''$'' # f) # fs" False vs v] assms(2,3) that
  unfolding scan_sentence [OF assms(1)] by blast

lemma str_from_field: "scan_field type field = Parsed ws \<Longrightarrow> Str x \<in> set ws \<Longrightarrow> x = string_field field"
  unfolding scan_field_def
  by (auto simp: parse_iff type_field_def split: if_splits option.splits list.splits)

lemma num_from_field: "scan_field type field = Parsed ws \<Longrightarrow> Num x \<in> set ws \<Longrightarrow> int_field field = Parsed x"
  unfolding scan_field_def
  by (auto simp: parse_iff type_field_def split: if_splits option.splits list.splits)

lemma string_field_length: "length (string_field (Some f)) \<le> length f"
  by (simp add: string_field_def length_takeWhile_le)

lemma gsv_defined:
  assumes "list_all (list_all minmea_isfield) (f # fs)" "length f \<le> 6" "list_all (\<lambda>f. length f \<le> 7) fs"
  shows "minmea_parse_gsv (nmea_sentence_of (f # fs)) \<noteq> Undefined"
proof
  let ?s = "nmea_sentence_of (f # fs)"
  assume u: "minmea_parse_gsv ?s = Undefined"
  have "list_all (\<lambda>f. length f \<le> 10) fs" using assms(3) by (auto simp: list_all_iff)
  then have d: "minmea_scan ?s ''tiii;iiifiiifiiifiiif;s'' \<noteq> Undefined" using scan_short_defined [OF assms(1)] assms(2) by simp
  obtain vs x where vs: "minmea_scan ?s ''tiii;iiifiiifiiifiiif;s'' = Parsed vs" "Str x \<in> set vs" "8 \<le> length x"
    using u d gsv_undefined [OF u] unfolding minmea_parse_gsv_def parse_iff by blast
  obtain type field ws where "scan_field type field = Parsed ws" "Str x \<in> set ws"
    and fd: "field = None \<or> (\<exists>g \<in> set ((CHR ''$'' # f) # fs). field = Some g)"
    using scan_source [OF assms(1) vs(1,2)] by blast
  then have x: "x = string_field field" by (simp add: str_from_field)
  have "length (string_field field) \<le> 7"
  proof (cases field)
    case None
    then show ?thesis by (simp add: string_field_def)
  next
    case (Some g)
    then have "length g \<le> 7" using fd assms(2,3) by (auto simp: list_all_iff)
    then show ?thesis using string_field_length [of g] Some by simp
  qed
  then show False using vs(3) x by simp
qed

lemma int_field_short:
  assumes "int_field (Some f) = Parsed i" "length f \<le> 10"
  shows "i \<noteq> - INT_MAX - 1"
proof
  assume i: "i = - INT_MAX - 1"
  let ?t = "dropWhile isspace f"
  have st: "fst (strtol10 f) = - INT_MAX - 1" using assms(1) i by (auto simp: int_field_def split: list.splits if_splits prod.splits)
  then obtain cs where t: "?t = CHR ''-'' # cs" and v: "- int (digits_value (takeWhile isdigit cs)) \<le> - INT_MAX - 1"
    unfolding strtol10_def Let_def by (auto simp: INT_MAX_def split: list.splits if_splits)
  have "length ?t \<le> length f" by (rule length_dropWhile_le)
  then have "length (takeWhile isdigit cs) \<le> 9" using t assms(2) length_takeWhile_le [of isdigit cs] by simp
  moreover have "list_all isdigit (takeWhile isdigit cs)" by (auto simp: list_all_iff dest: set_takeWhileD)
  ultimately have "digits_value (takeWhile isdigit cs) < 10 ^ 9"
    using digits_value_less power_increasing [of "length (takeWhile isdigit cs)" 9 "10 :: nat"] by fastforce
  then show False using v by (simp add: INT_MAX_def)
qed

lemma zda_defined:
  assumes "list_all (list_all minmea_isfield) (f # fs)" "length f \<le> 6" "list_all (\<lambda>f. length f \<le> 10) fs"
  shows "minmea_parse_zda (nmea_sentence_of (f # fs)) \<noteq> Undefined"
proof
  let ?s = "nmea_sentence_of (f # fs)"
  assume u: "minmea_parse_zda ?s = Undefined"
  have d: "minmea_scan ?s ''tTiiiii'' \<noteq> Undefined" using scan_short_defined [OF assms(1) _ assms(3)] assms(2) by simp
  obtain vs where vs: "minmea_scan ?s ''tTiiiii'' = Parsed vs" "Num (- INT_MAX - 1) \<in> set vs"
    using u d zda_undefined [OF u] unfolding minmea_parse_zda_def parse_iff by blast
  obtain type field ws where "scan_field type field = Parsed ws" "Num (- INT_MAX - 1) \<in> set ws"
    and fd: "field = None \<or> (\<exists>g \<in> set ((CHR ''$'' # f) # fs). field = Some g)"
    using scan_source [OF assms(1) vs] by blast
  then have x: "int_field field = Parsed (- INT_MAX - 1)" by (simp add: num_from_field)
  show False
  proof (cases field)
    case None
    then show ?thesis using x by (simp add: int_field_def INT_MAX_def)
  next
    case (Some g)
    then have "length g \<le> 10" using fd assms(2,3) by (auto simp: list_all_iff)
    then show ?thesis using int_field_short [of g] x Some by blast
  qed
qed

lemma on_parse_defined: "r \<noteq> Undefined \<Longrightarrow> on_parse r f w \<noteq> None"
  by (cases r) (simp_all add: on_parse_def)

theorem handle_short_defined:
  assumes ok: "list_all (list_all minmea_isfield) ((tk @ name) # fs)" "length tk = 2" "length name = 3"
    and short: "list_all (\<lambda>f. length f \<le> (if name = ''GSV'' then 7 else 10)) fs"
  shows "handle_gnss_nmea ck (nmea_sentence_of ((tk @ name) # fs)) w \<noteq> None"
proof -
  let ?s = "nmea_sentence_of ((tk @ name) # fs)"
  have short10: "list_all (\<lambda>f. length f \<le> 10) fs" using short by (auto simp: list_all_iff split: if_splits)
  have d: "minmea_scan ?s format \<noteq> Undefined" for format
    using scan_short_defined [OF ok(1) _ short10] ok(2,3) by simp
  have l: "length (tk @ name) \<le> 6" using ok(2,3) by simp
  have gsv: "minmea_sentence_id_of ?s False = MINMEA_SENTENCE_GSV \<Longrightarrow> name = ''GSV''"
    unfolding sentence_id_of [OF ok] by (auto simp: sentence_id_map_def split: if_splits)
  have "handle_parsed ck ?s (minmea_sentence_id_of ?s False) v \<noteq> None" for v
  proof (cases "minmea_sentence_id_of ?s False")
    case MINMEA_SENTENCE_GSV
    then have "minmea_parse_gsv ?s \<noteq> Undefined" using gsv gsv_defined [OF ok(1) l] short by simp
    then show ?thesis unfolding MINMEA_SENTENCE_GSV by (simp add: handle_parsed_def on_parse_defined del: not_None_eq)
  qed (simp_all add: handle_parsed_def on_parse_defined parses_defined d zda_defined [OF ok(1) l short10] del: not_None_eq)
  then show ?thesis by (simp add: handle_gnss_nmea_def Let_def nmea_sentence_of_check [OF ok(1)])
qed

section \<open>A signal name that does not fit\<close>

lemma digits_int_field:
  assumes "list_all isdigit ds"
  shows "\<exists>i. int_field (Some ds) = Parsed i"
proof -
  have d: "dropWhile isspace ds = ds" using assms by (cases ds) (simp_all add: digit_not_special)
  have "dropWhile isdigit ds = []" using assms by (simp add: list_all_iff)
  then have "snd (strtol10 ds) = []"
    using assms d by (cases ds) (auto simp: strtol10_def Let_def digit_not_special simp del: dropWhile_eq_Nil_conv)
  then show ?thesis by (cases "strtol10 ds") (simp add: int_field_def)
qed

definition gsv_fields :: "string \<Rightarrow> string \<Rightarrow> string \<Rightarrow> string \<Rightarrow> string \<Rightarrow> string list" where
  "gsv_fields tk msgs nr sats signal = [tk @ ''GSV'', msgs, nr, sats] @ replicate 16 [] @ [signal]"

lemma gsv_parse_fields:
  assumes "length tk = 2" "list_all minmea_isfield tk" "list_all isdigit msgs" "list_all isdigit nr" "list_all isdigit sats"
    "list_all minmea_isfield signal"
  shows "minmea_parse_gsv (nmea_sentence_of (gsv_fields tk msgs nr sats signal)) = Undefined \<longleftrightarrow> 8 \<le> length signal"
    "list_all (list_all minmea_isfield) (gsv_fields tk msgs nr sats signal)"
proof -
  have ok: "list_all (list_all minmea_isfield) ((tk @ ''GSV'') # [msgs, nr, sats] @ replicate 16 [] @ [signal])"
    using assms by (simp add: digits_field numeral_eq_Suc minmea_isfield_def isprint_def c_between_def ccode_def)
  then show "list_all (list_all minmea_isfield) (gsv_fields tk msgs nr sats signal)" by (simp add: gsv_fields_def)
  have ty: "type_field (Some (CHR ''$'' # tk @ ''GSV'')) = Parsed (Typ tk ''GSV'')"
    using ok assms(1) by (intro type_field_name) simp_all
  obtain a b c where n: "int_field (Some msgs) = Parsed a" "int_field (Some nr) = Parsed b" "int_field (Some sats) = Parsed c"
    using digits_int_field assms(3-5) by metis
  have e: "int_field (Some []) = Parsed 0" "float_field (Some []) = Parsed \<lparr>mf_value = 0, mf_scale = 0\<rparr>"
    by (simp_all add: int_field_def strtol10_def float_field_def)
  have s: "string_field (Some signal) = signal" using assms(6) by (simp add: string_field_def takeWhile_eq_all_conv list_all_iff)
  show "minmea_parse_gsv (nmea_sentence_of (gsv_fields tk msgs nr sats signal)) = Undefined \<longleftrightarrow> 8 \<le> length signal"
    unfolding minmea_parse_gsv_def gsv_fields_def append_Cons append_Nil scan_sentence [OF ok [simplified append_Cons append_Nil]]
    by (simp add: scan_field_def map_parse_def ty n e s numeral_eq_Suc)
qed

lemma gsv_overrun:
  assumes "length tk = 2" "list_all minmea_isfield tk" "list_all isdigit msgs" "list_all isdigit nr" "list_all isdigit sats"
    "list_all minmea_isfield signal"
  shows "handle_gnss_nmea ck (nmea_sentence_of (gsv_fields tk msgs nr sats signal)) w = None \<longleftrightarrow> 8 \<le> length signal"
proof -
  let ?s = "nmea_sentence_of (gsv_fields tk msgs nr sats signal)"
  note p = gsv_parse_fields [OF assms]
  have "minmea_sentence_id_of ?s False = MINMEA_SENTENCE_GSV"
    using sentence_id_of [of tk "''GSV''" "[msgs, nr, sats] @ replicate 16 [] @ [signal]" False] p(2) assms(1)
    by (simp add: gsv_fields_def sentence_id_map_def)
  then show ?thesis
    using p(1) by (cases "minmea_parse_gsv ?s")
      (simp_all add: handle_gnss_nmea_def Let_def handle_parsed_def on_parse_def nmea_sentence_of_check [OF p(2)])
qed

section \<open>Position reports\<close>

definition report_tm :: "rmc_report \<Rightarrow> tm" where
  "report_tm r =
     \<lparr>tm_year = two (rr_date r) 4 + 100, tm_mon = two (rr_date r) 2 - 1, tm_mday = two (rr_date r) 0,
      tm_hour = two (rr_time r) 0, tm_min = two (rr_time r) 2, tm_sec = two (rr_time r) 4\<rparr>"

text \<open>What a report does to the clock: nothing unless it is valid and the clock is off.\<close>

definition clock_change :: "clock \<Rightarrow> rmc_report \<Rightarrow> clock_event list" where
  "clock_change ck r =
     (let m = fst (ck_mktime ck (report_tm r))
      in if rr_valid r \<and> \<bar>ck_now ck - m\<bar> > 10
         then [if ck_settime ck then Clock_set m (subsec_micros (rr_subsec r)) else Clock_command (date_command (report_tm r))]
         else [])"

definition near :: "dbl \<Rightarrow> rat \<Rightarrow> bool" where
  "near d x \<longleftrightarrow> \<bar>dval d - x\<bar> * 2 ^ 53 \<le> \<bar>x\<bar> + 4"

definition report_bytes :: "rmc_report \<Rightarrow> dbl \<Rightarrow> dbl \<Rightarrow> bytes" where
  "report_bytes r lon lat = dbl_bytes lon @ dbl_bytes lat
     @ le64 (of_int (timegm (report_tm r)) * 1000 + of_int (subsec_micros (rr_subsec r) div 1000))"

lemma handle_report:
  assumes ok: "rmc_report_ok r" and norm: "snd (ck_mktime ck (report_tm r)) = report_tm r"
  obtains w' lon lat where "handle_gnss_nmea ck (nmea_sentence_of (rmc_fields r)) w = Some w'"
    "near lon (angle (rr_lon r) (rr_east r))" "near lat (angle (rr_lat r) (rr_north r))"
    "nm_comm w' = snd (net_send COMM_SERVICE_UDP SEND_CMD_POS (report_bytes r lon lat) (nm_comm w))"
    "nm_clock w' = nm_clock w @ clock_change ck r" "fgnss (nm_files w') = fgnss (nm_files w)"
proof -
  let ?s = "nmea_sentence_of (rmc_fields r)"
  obtain f where f: "minmea_parse_rmc ?s = Parsed f" "rmc_valid f = rr_valid r" "rmc_time f = report_time r"
    "rmc_date f = report_date r"
    and la: "\<exists>d. minmea_tocoord (rmc_latitude f) = Some d \<and> near d (angle (rr_lat r) (rr_north r))"
    and lo: "\<exists>d. minmea_tocoord (rmc_longitude f) = Some d \<and> near d (angle (rr_lon r) (rr_east r))"
    using rmc_parses [OF ok] unfolding near_def by metis
  obtain lon lat where d: "minmea_tocoord (rmc_longitude f) = Some lon" "near lon (angle (rr_lon r) (rr_east r))"
    "minmea_tocoord (rmc_latitude f) = Some lat" "near lat (angle (rr_lat r) (rr_north r))"
    using la lo by blast
  have tm: "rmc_tm f = report_tm r" by (simp add: rmc_tm_def f report_tm_def report_time_def report_date_def)
  obtain m where m: "ck_mktime ck (report_tm r) = (m, report_tm r)" using norm by (metis prod.collapse)
  have us: "mt_microseconds (report_time r) = subsec_micros (rr_subsec r)" "0 \<le> subsec_micros (rr_subsec r)"
    by (simp_all add: report_time_def subsec_micros_def)
  have set: "set_clock ck f v = (report_tm r, v\<lparr>nm_clock := nm_clock v @ clock_change ck r\<rparr>)" for v
    by (simp add: set_clock_def Let_def tm m f us clock_change_def)
  have pos: "pos_info f (report_tm r) = report_bytes r lon lat"
    using us(2) by (simp add: pos_info_def d coord_bytes_def report_bytes_def f us(1) signed_divide_int_def sgn_if)
  let ?w = "w\<lparr>nm_file_type := MINMEA_SENTENCE_RMC\<rparr>"
  have l: "logs_only ?w (log_sentence ?s (rmc_text f) ?w)" by (rule log_sentence_logs_only)
  have fs: "rmc_fields r = (rr_talker r @ ''RMC'') # tl (rmc_fields r)" by (simp add: rmc_fields_def)
  have c: "minmea_check ?s False" by (rule nmea_sentence_of_check [OF rmc_fields_ok [OF ok]])
  have "minmea_sentence_id_of ?s False = MINMEA_SENTENCE_RMC"
    using sentence_id_of [of "rr_talker r" "''RMC''" "tl (rmc_fields r)" False] rmc_fields_ok [OF ok] ok
    by (simp add: fs [symmetric] rmc_report_ok_def sentence_id_map_def)
  then have h: "handle_gnss_nmea ck ?s w = Some ((handle_rmc ck ?s f ?w)\<lparr>nm_file_type := MINMEA_UNKNOWN\<rparr>)"
    by (simp add: handle_gnss_nmea_def Let_def c handle_parsed_def on_parse_def f)
  show thesis
  proof (rule that [OF h d(2,4)])
  qed (use l in \<open>simp_all add: handle_rmc_def set send_position_def pos logs_only_def\<close>)
qed

end
