(* ===== verification/Position.thy ===== *)
theory Position
  imports Gateway NmeaHandler
begin

text \<open>
  A position report on its way from the receiver to the network client: the text does not
  disturb the scan for binary packets, the sentence is cut out of the stream, handled, and a
  frame with its position waits for the client.
\<close>

section \<open>Text without packets\<close>

text \<open>Both headers contain the letter H (\<open>CSHG\<close> and \<open>$HEXDATA\<close>).\<close>

lemma header_bytes:
  "rd32 p 0 = Header1 \<Longrightarrow> p ! 2 = 0x48" "rd64 p 0 = Header2 \<Longrightarrow> p ! 1 = 0x48"
proof -
  have "ucast (drop_bit 16 (rd32 p 0)) = p ! 2"
    unfolding rd32_def add_0 by (rule bit_word_eqI) (auto simp: bit_simps dest: bit_imp_le_length)
  then show "rd32 p 0 = Header1 \<Longrightarrow> p ! 2 = 0x48" by (auto simp: Header1_def)
  have "ucast (drop_bit 8 (rd64 p 0)) = p ! 1"
    unfolding rd64_def rd32_def add_0 by (rule bit_word_eqI) (auto simp: bit_simps dest: bit_imp_le_length)
  then show "rd64 p 0 = Header2 \<Longrightarrow> p ! 1 = 0x48" by (auto simp: Header2_def)
qed

lemma no_packets:
  assumes "0x48 \<notin> set (take len data)" "len \<le> length data"
  shows "\<not> valid_packet1 data len i" "\<not> valid_packet2 data len i"
proof -
  have n: "drop i data ! k \<noteq> 0x48" if "i + k < len" for k
  proof -
    have "take len data ! (i + k) \<in> set (take len data)" using that assms(2) by (intro nth_mem) simp
    then show ?thesis using that assms by auto
  qed
  show "\<not> valid_packet1 data len i" using header_bytes(1) n [of 2] by (auto simp: valid_packet1_def RAW1_SIZE_def)
  show "\<not> valid_packet2 data len i" using header_bytes(2) n [of 1] by (auto simp: valid_packet2_def RAW2_SIZE_def)
qed

lemma scan_no_packets:
  assumes "0x48 \<notin> set (take len data)" "len \<le> length data" "len \<le> DATA_RAW_SIZE"
  shows "handle_gnss_raw RAW_FUEL cfg net data len = Some ([], 0)"
proof -
  obtain f where f: "RAW_FUEL = f + (len - 3 - 0)"
    using assms(3) le_add_diff_inverse2 [of "len - 3" RAW_FUEL] by (metis RAW_FUEL_def diff_le_self diff_zero le_SucI le_trans Suc_eq_plus1)
  have "raw_loop RAW_FUEL cfg net data len 0 0 = raw_loop f cfg net data len (len - 3) 0"
    unfolding f by (rule raw_loop_skip)
      (use no_packets [OF assms(1,2)] assms(3) in \<open>auto simp: DATA_RAW_SIZE_def SIZE_MOD_def\<close>)
  then show ?thesis by (simp add: handle_gnss_raw_def raw_loop.simps [of f])
qed

lemma read_text:
  assumes inv: "gnss_ctrl_inv g" and m: "parseDataType g = GNSS_DATA_AUTO"
    and h: "0x48 \<notin> set (raw_pending g)" "0x48 \<notin> set buf"
  shows "\<exists>g'. gnss_thread_data net buf g = Some (g', [], snd (gnss_handle_nmea_bytes buf True g))
     \<and> 0x48 \<notin> set (raw_pending g')"
proof -
  let ?g = "raw_append buf g"
  have i: "gnss_ctrl_inv ?g" by (rule raw_append_inv [OF inv])
  have p: "0x48 \<notin> set (raw_pending ?g)"
    using h unfolding raw_pending_append [OF inv] by (auto dest: in_set_takeD)
  have s: "handle_gnss_raw RAW_FUEL (cfg_ephb (data_cfg ?g)) net (data_raw ?g) (data_raw_len ?g) = Some ([], 0)"
    using i p by (intro scan_no_packets) (simp_all add: gnss_ctrl_inv_def raw_pending_def)
  have "raw_consume 0 ?g = ?g" by (simp add: raw_consume_def)
  then have r: "gnss_handle_raw_bytes net buf g = Some (?g, [])" by (simp add: gnss_handle_raw_bytes_def Let_def s)
  obtain g' ss where n: "gnss_handle_nmea_bytes buf True ?g = (g', ss)" by fastforce
  have "gnss_handle_nmea_bytes buf True g = (g\<lparr>data_nmea := data_nmea g'\<rparr>, ss)"
    using n raw_append_inv(3) [OF inv, of buf] by (auto simp: gnss_handle_nmea_bytes_def split: prod.splits)
  moreover have "raw_pending g' = raw_pending ?g"
    using n by (auto simp: gnss_handle_nmea_bytes_def raw_pending_def split: prod.splits)
  ultimately show ?thesis using m r n p by (auto simp: gnss_thread_data_def)
qed

section \<open>The text of a report\<close>

definition plain :: "char \<Rightarrow> bool" where
  "plain c \<longleftrightarrow> isprint c \<and> c \<noteq> CHR ''$'' \<and> c \<noteq> CHR ''H''"

lemma plain_chars [simp]:
  "plain CHR ''A''" "plain CHR ''V''" "plain CHR ''N''" "plain CHR ''S''" "plain CHR ''E''" "plain CHR ''W''"
  "plain CHR ''R''" "plain CHR ''M''" "plain CHR ''C''" "plain CHR ''.''" "plain CHR '',''" "plain CHR ''*''"
  by (simp_all add: plain_def isprint_def c_between_def ccode_def)

lemma digits_plain: "list_all isdigit ds \<Longrightarrow> list_all plain ds"
  by (auto simp: list_all_iff plain_def isprint_def isdigit_def c_between_def ccode_def)

lemma hex_upper_plain: "n < 16 \<Longrightarrow> plain (hex_upper n)"
  by (auto simp: plain_def hex_upper_def isprint_def c_between_def ccode_def
      dest!: arg_cong [where f = "of_char :: char \<Rightarrow> nat"])

lemma join_fields_plain: "list_all (list_all plain) fs \<Longrightarrow> list_all plain (join_fields fs)"
  by (induction fs rule: join_fields.induct) auto

lemma coord_plain: "coord_ok c \<Longrightarrow> list_all plain (coord_field c)"
  by (cases c) (auto simp: coord_ok_def coord_text_def digits_plain)

lemma decimal_plain: "decimal_text s \<Longrightarrow> list_all plain s"
  by (cases rule: decimal_textE) (auto simp: digits_plain)

lemma report_plain:
  assumes "rmc_report_ok r" "list_all plain (rr_talker r)"
  shows "list_all plain (tl (nmea_sentence_of (rmc_fields r)))"
proof -
  let ?k = "unat (xor_codes (join_fields (rmc_fields r)))"
  have "?k < 256" using unsigned_less [of "xor_codes (join_fields (rmc_fields r))"] by simp
  then have "plain (hex_upper (?k div 16))" "plain (hex_upper (?k mod 16))" by (simp_all add: hex_upper_plain)
  moreover have "list_all (list_all plain) (rmc_fields r)"
    using assms by (simp add: rmc_fields_def rmc_report_ok_def digits_plain coord_plain decimal_plain)
  ultimately show ?thesis by (simp add: nmea_sentence_of_def Let_def join_fields_plain)
qed

section \<open>From the receiver to the client\<close>

lemma plain_not_special: "plain c \<Longrightarrow> c \<noteq> CHR ''$'' \<and> c \<noteq> CR \<and> c \<noteq> LF \<and> c \<noteq> NUL \<and> c \<noteq> CHR ''H''"
  by (auto simp: plain_def isprint_def c_between_def ccode_def CR_def LF_def NUL_def)

lemma byte_of_string: "(0x48 :: u8) \<in> set (bytes_of_string s) \<Longrightarrow> CHR ''H'' \<in> set s"
proof -
  assume "(0x48 :: u8) \<in> set (bytes_of_string s)"
  then have "char_of (unat (0x48 :: u8)) \<in> set (string_of_bytes (bytes_of_string s))"
    unfolding string_of_bytes_def by force
  moreover have "char_of (unat (0x48 :: u8)) = CHR ''H''" by (simp add: char_of_eq_iff)
  ultimately show ?thesis by simp
qed

lemma gateway_sentence_report:
  assumes inv: "gateway_inv s" and ok: "rmc_report_ok r" "snd (ck_mktime ck (report_tm r)) = report_tm r"
    and room: "last_peer_valid (udp_ctx (gw_comm s))" "udp_count (udp_ctx (gw_comm s)) < COMM_UDP_QUEUE_CAPACITY"
  obtains s' lon lat where "gateway_sentence ck (nmea_sentence_of (rmc_fields r)) s = Some s'"
    "near lon (angle (rr_lon r) (rr_east r))" "near lat (angle (rr_lat r) (rr_north r))"
    "udp_elems (udp_ctx (gw_comm s')) = udp_elems (udp_ctx (gw_comm s)) @
       [(net_frame (comm_cfg (gw_comm s)) SEND_CMD_POS (report_bytes r lon lat), last_peer (udp_ctx (gw_comm s)))]"
    "gw_clock s' = gw_clock s @ clock_change ck r"
proof -
  let ?w = "\<lparr>nm_files = gw_files s, nm_comm = gw_comm s, nm_out = gw_out s, nm_file_type = MINMEA_UNKNOWN,
    nm_clock = gw_clock s\<rparr>"
  obtain w' lon lat where h: "handle_gnss_nmea ck (nmea_sentence_of (rmc_fields r)) ?w = Some w'"
    and n: "near lon (angle (rr_lon r) (rr_east r))" "near lat (angle (rr_lat r) (rr_north r))"
    and c: "nm_comm w' = snd (net_send COMM_SERVICE_UDP SEND_CMD_POS (report_bytes r lon lat) (gw_comm s))"
      "nm_clock w' = gw_clock s @ clock_change ck r"
    using handle_report [OF ok, of ?w] by (metis nmea_world.select_convs(2,5))
  have q: "udp_inv (udp_ctx (gw_comm s))" using inv by (simp add: gateway_inv_def queued_ok_def)
  obtain u where u: "net_send COMM_SERVICE_UDP SEND_CMD_POS (report_bytes r lon lat) (gw_comm s) = (0, (gw_comm s)\<lparr>udp_ctx := u\<rparr>)"
    "udp_elems u = udp_elems (udp_ctx (gw_comm s)) @
       [(net_frame (comm_cfg (gw_comm s)) SEND_CMD_POS (report_bytes r lon lat), last_peer (udp_ctx (gw_comm s)))]"
    using net_send_udp [OF q room(2,1)] by blast
  have "gateway_sentence ck (nmea_sentence_of (rmc_fields r)) s =
      Some \<lparr>gw_files = nm_files w', gw_comm = nm_comm w', gw_out = nm_out w', gw_clock = nm_clock w'\<rparr>"
    by (simp add: gateway_sentence_def h)
  from that [OF this n] show thesis using c u by simp
qed

lemma receive_report:
  assumes inv: "gateway_inv s" and m: "parseDataType (gw_ctrl s) = GNSS_DATA_AUTO" "0x48 \<notin> set (raw_pending (gw_ctrl s))"
    and ok: "rmc_report_ok r" "list_all plain (rr_talker r)" "length (nmea_sentence_of (rmc_fields r)) \<le> 95"
    and ck: "snd (ck_mktime ck (report_tm r)) = report_tm r"
    and room: "last_peer_valid (udp_ctx (gw_comm s))" "udp_count (udp_ctx (gw_comm s)) < COMM_UDP_QUEUE_CAPACITY"
  shows "\<exists>s' lon lat. gateway_receive utc ck (bytes_of_string (nmea_sentence_of (rmc_fields r) @ [CR, LF])) s = Some s'
     \<and> near lon (angle (rr_lon r) (rr_east r)) \<and> near lat (angle (rr_lat r) (rr_north r))
     \<and> udp_elems (udp_ctx (gw_comm s')) = udp_elems (udp_ctx (gw_comm s)) @
         [(net_frame (comm_cfg (gw_comm s)) SEND_CMD_POS (report_bytes r lon lat), last_peer (udp_ctx (gw_comm s)))]
     \<and> gw_clock s' = gw_clock s @ clock_change ck r"
proof -
  let ?t = "nmea_sentence_of (rmc_fields r)"
  let ?buf = "bytes_of_string (?t @ [CR, LF])"
  obtain x where t: "?t = CHR ''$'' # x" by (simp add: nmea_sentence_of_def Let_def)
  have "list_all plain x" using report_plain [OF ok(1,2)] by (simp add: t)
  then have sp: "CHR ''$'' \<notin> set x" "CR \<notin> set x" "LF \<notin> set x" "NUL \<notin> set x" "CHR ''H'' \<notin> set x"
    using plain_not_special by (auto simp: list_all_iff)
  have "CHR ''H'' \<notin> set (?t @ [CR, LF])" using sp(5) by (simp add: t CR_def LF_def)
  then have h: "0x48 \<notin> set ?buf" using byte_of_string by blast
  have n: "snd (gnss_handle_nmea_bytes ?buf True (gw_ctrl s)) = [?t]"
    using nmea_sentence [OF sp(1-4), of "data_nmea (gw_ctrl s)"] ok(3)
    by (simp add: gnss_handle_nmea_bytes_def nmea_size t)
  have ci: "gnss_ctrl_inv (gw_ctrl s)" using inv by (simp add: gateway_inv_def)
  obtain g' where g': "gnss_thread_data (comm_cfg (gw_comm s)) ?buf (gw_ctrl s) = Some (g', [], [?t])"
    using read_text [OF ci m h, of "comm_cfg (gw_comm s)"] n by auto
  let ?s1 = "gw_set_gnss ((gworld (gw_comm s))\<lparr>gctrl := g'\<rparr>) s"
  have rd: "gateway_read utc ?buf s = Some (?s1, [?t])" by (simp add: gateway_read_def g')
  have i1: "gateway_inv ?s1" by (rule gateway_read_inv [OF rd inv])
  have e: "udp_ctx (gw_comm ?s1) = udp_ctx (gw_comm s)" "comm_cfg (gw_comm ?s1) = comm_cfg (gw_comm s)"
    "gw_clock ?s1 = gw_clock s" by (simp_all add: gw_set_gnss_def)
  obtain s' lon lat where s': "gateway_sentence ck ?t ?s1 = Some s'"
    "near lon (angle (rr_lon r) (rr_east r))" "near lat (angle (rr_lat r) (rr_north r))"
    "udp_elems (udp_ctx (gw_comm s')) = udp_elems (udp_ctx (gw_comm s)) @
       [(net_frame (comm_cfg (gw_comm s)) SEND_CMD_POS (report_bytes r lon lat), last_peer (udp_ctx (gw_comm s)))]"
    "gw_clock s' = gw_clock s @ clock_change ck r"
    using gateway_sentence_report [OF i1 ok(1) ck] room unfolding e by blast
  then show ?thesis by (auto simp: gateway_receive_def rd)
qed

end
