(* ===== verification/AtPort.thy ===== *)
theory AtPort
  imports Prelude
begin

text \<open>
  The exchange with an AT-command modem, in the form that the narrow-band module
  (\<open>core/src/dbb_at_response.c\<close>) and the 4G module (\<open>core/src/eth_4g.c\<close>) share. The outside
  world is a script: the outcomes that the next \<open>select\<close>/\<open>read\<close> rounds will have, after
  which the line is silent, and the outcomes of the next \<open>write\<close> calls, after which they
  write everything. A loop round consumes a script element or 200 ms of its time, so the
  capture loop ends on every script; how many rounds it takes is bounded in
  \<open>capture_rounds\<close>. What was written and the time spent are recorded.
\<close>

section \<open>The line\<close>

datatype line_event =
    Line_data string      \<comment> \<open>ready, and these characters can be read\<close>
  | Line_quiet            \<comment> \<open>the 200 ms of \<open>select\<close> passed\<close>
  | Line_select_eintr
  | Line_select_error
  | Line_read_again       \<comment> \<open>\<open>EINTR\<close>, \<open>EAGAIN\<close> or \<open>EWOULDBLOCK\<close>\<close>
  | Line_read_error
  | Line_read_zero

datatype write_event = Wrote nat | Write_eintr | Write_error

datatype open_event = Opened nat | Open_failed | Set_opt_failed

record at_port =
  at_fd :: int
  open_script :: "open_event list"     \<comment> \<open>the next \<open>open\<close> calls; afterwards they fail\<close>
  rx_script :: "line_event list"
  tx_script :: "write_event list"
  tx_log :: string
  at_time :: nat

text \<open>
  A \<open>write_all\<close> loop. \<open>Wrote n\<close> stands for a call that accepted at most \<open>n + 1\<close> characters
  (a call that accepts none and reports no error is not modelled).
\<close>

fun write_all_loop :: "write_event list \<Rightarrow> string \<Rightarrow> bool \<times> write_event list \<times> string" where
  "write_all_loop script [] = (True, script, [])"
| "write_all_loop [] buf = (True, [], buf)"
| "write_all_loop (Write_eintr # es) buf = write_all_loop es buf"
| "write_all_loop (Write_error # es) buf = (False, es, [])"
| "write_all_loop (Wrote n # es) buf =
     (let (ok, es', out) = write_all_loop es (drop (n + 1) buf) in (ok, es', take (n + 1) buf @ out))"

definition port_write_all :: "string \<Rightarrow> at_port \<Rightarrow> int \<times> at_port" where
  "port_write_all buf p =
     (if buf \<noteq> [] \<and> at_fd p < 0 then (- 1, p)
      else let (ok, es, out) = write_all_loop (tx_script p) buf
      in (if ok then 0 else - 1, p\<lparr>tx_script := es, tx_log := tx_log p @ out\<rparr>))"

text \<open>\<open>tcflush\<close> drops what has arrived so far; the script is what arrives later.\<close>

definition port_open :: "at_port \<Rightarrow> int \<times> at_port" where
  "port_open p =
     (if 0 \<le> at_fd p then (0, p)
      else case open_script p of
        Opened fd # es \<Rightarrow> (0, p\<lparr>at_fd := int fd, open_script := es\<rparr>)
      | Open_failed # es \<Rightarrow> (- 1, p\<lparr>at_fd := - 1, open_script := es\<rparr>)
      | Set_opt_failed # es \<Rightarrow> (- 1, p\<lparr>at_fd := - 1, open_script := es\<rparr>)
      | [] \<Rightarrow> (- 1, p\<lparr>at_fd := - 1\<rparr>))"

definition port_close :: "at_port \<Rightarrow> at_port" where
  "port_close p = (if 0 \<le> at_fd p then p\<lparr>at_fd := - 1\<rparr> else p)"

definition port_sleep :: "nat \<Rightarrow> at_port \<Rightarrow> at_port" where
  "port_sleep s p = p\<lparr>at_time := at_time p + 1000 * s\<rparr>"

section \<open>The capture loop\<close>

text \<open>
  One loop for both modules. The result: whether it ended without an error, the rest of
  the script, the characters stored in \<open>response\<close>, and the time that passed in \<open>select\<close>.
  With \<open>cap = response_size\<close>, a round reads at most \<open>cap - 1 - used\<close> characters; what does
  not fit stays for the next \<open>read\<close>.
\<close>

function capture_loop ::
    "line_event list \<Rightarrow> nat \<Rightarrow> string \<Rightarrow> nat \<Rightarrow> nat \<Rightarrow> nat \<Rightarrow> bool \<times> line_event list \<times> string \<times> nat" where
  "capture_loop script cap response idle_ms total_ms timeout_ms =
     (if \<not> (total_ms < timeout_ms \<and> length response + 1 < cap) then (True, script, response, total_ms)
      else case script of
        [] \<Rightarrow>
          (if 0 < length response \<and> idle_ms + 200 \<ge> 400 then (True, [], response, total_ms + 200)
           else capture_loop [] cap response (if 0 < length response then idle_ms + 200 else idle_ms)
                  (total_ms + 200) timeout_ms)
      | Line_quiet # es \<Rightarrow>
          (if 0 < length response \<and> idle_ms + 200 \<ge> 400 then (True, es, response, total_ms + 200)
           else capture_loop es cap response (if 0 < length response then idle_ms + 200 else idle_ms)
                  (total_ms + 200) timeout_ms)
      | Line_select_eintr # es \<Rightarrow> capture_loop es cap response idle_ms total_ms timeout_ms
      | Line_select_error # es \<Rightarrow> (False, es, response, total_ms)
      | Line_read_again # es \<Rightarrow> capture_loop es cap response idle_ms total_ms timeout_ms
      | Line_read_error # es \<Rightarrow> (False, es, response, total_ms)
      | Line_read_zero # es \<Rightarrow> capture_loop es cap response idle_ms total_ms timeout_ms
      | Line_data d # es \<Rightarrow>
          (let room = cap - 1 - length response
           in if length d = 0 then capture_loop es cap response idle_ms total_ms timeout_ms
              else capture_loop (if room < length d then Line_data (drop room d) # es else es) cap
                     (response @ take room d) 0 total_ms timeout_ms))"
  by pat_completeness auto
termination
  by (relation "measures [\<lambda>(es, cap, r, i, t, m). (\<Sum>e\<leftarrow>es. case e of Line_data d \<Rightarrow> Suc (length d) | _ \<Rightarrow> 1),
        \<lambda>(es, cap, r, i, t, m). m - t]") auto

declare capture_loop.simps [simp del]

text \<open>
  \<open>dbb_capture_response\<close> and \<open>eth_4g_capture_at_response\<close> differ in the size of the command
  buffer and in the terminator that they append. The C string that \<open>response\<close> holds
  afterwards comes with the result code.
\<close>

definition capture_response ::
    "nat \<Rightarrow> string \<Rightarrow> string option \<Rightarrow> nat \<Rightarrow> nat \<Rightarrow> at_port \<Rightarrow> int \<times> string \<times> at_port" where
  "capture_response cmd_size terminator cmd response_size timeout_ms p =
     (if response_size = 0 then (- 1, [], p)
      else
        let (rc, p) =
          (case cmd of
             None \<Rightarrow> (0, p)
           | Some c \<Rightarrow>
               if length (c @ terminator) \<ge> cmd_size then (- 1, p)
               else port_write_all (c @ terminator) p)
        in if rc < 0 then (- 1, [], p)
           else let (ok, es, response, t) = capture_loop (rx_script p) response_size [] 0 0 timeout_ms
                in (if ok \<and> 0 < length response then 0 else - 1, response,
                    p\<lparr>rx_script := es, at_time := at_time p + t\<rparr>))"

text \<open>
  The test of \<open>dbb_at_expect\<close> and \<open>eth_4g_at_expect\<close> on the result of an exchange: the
  response contains \<open>OK\<close> and the expected text.
\<close>

definition check_response :: "string option \<Rightarrow> string \<Rightarrow> int" where
  "check_response expect response =
     (if \<not> c_contains (c_str response) ''OK'' then - 1
      else case expect of
        Some e \<Rightarrow> if \<not> c_contains (c_str response) e then - 1 else 0
      | None \<Rightarrow> 0)"

section \<open>Laws\<close>

text \<open>The response fits its buffer with the terminating NUL.\<close>

lemma capture_loop_bound:
  "capture_loop es cap r i t m = (ok, es', r', t') \<Longrightarrow> length r < cap \<Longrightarrow> length r' < cap"
proof (induction es cap r i t m rule: capture_loop.induct)
  case (1 es cap r i t m)
  note IH = "1.IH" and c = "1.prems"(1) and b = "1.prems"(2)
  show ?case
  proof (cases "t < m \<and> length r + 1 < cap")
    case False
    then show ?thesis using c b by (subst (asm) capture_loop.simps) auto
  next
    case True
    then have T: "\<not> \<not> (t < m \<and> length r + 1 < cap)" by simp
    show ?thesis
    proof (cases es)
      case Nil
      show ?thesis using c b True Nil IH(1) [OF T Nil]
        by (subst (asm) capture_loop.simps) (auto split: if_splits)
    next
      case (Cons e es1)
      show ?thesis
        using c b True Cons IH(2-) [OF T Cons]
        apply (subst (asm) capture_loop.simps)
        by (cases e) (auto simp: Let_def split: if_splits)
    qed
  qed
qed


lemma write_all_loop_prefix:
  "write_all_loop es buf = (ok, es', out) \<Longrightarrow> prefix out buf \<and> (ok \<longrightarrow> out = buf)"
proof (induction es buf arbitrary: ok es' out rule: write_all_loop.induct)
  case (5 n es c cs)
  obtain ok1 es1 out1 where r: "write_all_loop es (drop n cs) = (ok1, es1, out1)"
    by (cases "write_all_loop es (drop n cs)") auto
  then have IH: "prefix out1 (drop n cs) \<and> (ok1 \<longrightarrow> out1 = drop n cs)" using "5.IH" by simp
  have o: "out = c # take n cs @ out1" "ok = ok1" using "5.prems" r by simp_all
  from IH obtain zs where "drop n cs = out1 @ zs" by (auto simp: prefix_def)
  then have "c # cs = out @ zs" unfolding o by (metis append_Cons append_assoc append_take_drop_id)
  then show ?case using IH o by (auto simp: prefix_def)
qed auto

lemma port_write_all_log:
  assumes "port_write_all buf p = (rc, p')"
  shows "\<exists>out. tx_log p' = tx_log p @ out \<and> prefix out buf \<and> (rc = 0 \<longrightarrow> out = buf) \<and> at_fd p' = at_fd p \<and> (rc = 0 \<or> rc = - 1)"
proof (cases "buf \<noteq> [] \<and> at_fd p < 0")
  case True
  then show ?thesis using assms by (auto simp: port_write_all_def)
next
  case False
  obtain ok es out where r: "write_all_loop (tx_script p) buf = (ok, es, out)"
    by (cases "write_all_loop (tx_script p) buf") auto
  show ?thesis using assms False write_all_loop_prefix [OF r]
    by (auto simp: port_write_all_def r Let_def split: if_splits)
qed

text \<open>One exchange: what was transmitted, and how long the response is.\<close>

lemma capture_response_log:
  assumes "capture_response k t cmd n m p = (rc, resp, p')"
  shows "(\<exists>out. tx_log p' = tx_log p @ out \<and> prefix out (case cmd of None \<Rightarrow> [] | Some c \<Rightarrow> c @ t)
            \<and> (rc = 0 \<longrightarrow> out = (case cmd of None \<Rightarrow> [] | Some c \<Rightarrow> c @ t)))
         \<and> (rc = 0 \<or> rc = - 1) \<and> at_fd p' = at_fd p \<and> (n \<noteq> 0 \<longrightarrow> length resp < n) \<and> (rc = 0 \<longrightarrow> resp \<noteq> [])"
proof (cases "n = 0")
  case True
  then show ?thesis using assms by (auto simp: capture_response_def)
next
  case n: False
  define w where "w = (case cmd of None \<Rightarrow> (0, p)
     | Some c \<Rightarrow> if length (c @ t) \<ge> k then (- 1, p) else port_write_all (c @ t) p)"
  obtain rc1 p1 where w1: "w = (rc1, p1)" by force
  have log: "\<exists>out. tx_log p1 = tx_log p @ out \<and> prefix out (case cmd of None \<Rightarrow> [] | Some c \<Rightarrow> c @ t)
      \<and> (rc1 = 0 \<longrightarrow> out = (case cmd of None \<Rightarrow> [] | Some c \<Rightarrow> c @ t)) \<and> at_fd p1 = at_fd p \<and> (rc1 = 0 \<or> rc1 = - 1)"
    using w1 port_write_all_log [of _ p rc1 p1] unfolding w_def
    by (auto split: option.splits if_splits)
  obtain ok es r tm where c: "capture_loop (rx_script p1) n [] 0 0 m = (ok, es, r, tm)"
    by (cases "capture_loop (rx_script p1) n [] 0 0 m") auto
  have b: "length r < n" using capture_loop_bound [OF c] n by simp
  have e: "(rc, resp, p') = (if rc1 < 0 then (- 1, [], p1)
      else (if ok \<and> 0 < length r then 0 else - 1, r, p1\<lparr>rx_script := es, at_time := at_time p1 + tm\<rparr>))"
    using assms n c w1 unfolding capture_response_def w_def [symmetric] by (auto simp: Let_def split: if_splits)
  show ?thesis using e log b n by (auto split: if_splits)
qed

lemma check_response_0:
  "check_response e r = 0 \<Longrightarrow> sublist ''OK'' (c_str r) \<and> (\<forall>x. e = Some x \<longrightarrow> sublist x (c_str r))"
  by (auto simp: check_response_def c_contains_sublist [symmetric] split: if_splits option.splits)

text \<open>Texts that appear on the line one after the other, with anything between them.\<close>

inductive in_order :: "string list \<Rightarrow> string \<Rightarrow> bool" where
  Nil: "in_order [] s"
| Snoc: "in_order cs s \<Longrightarrow> prefix (s @ c) t \<Longrightarrow> in_order (cs @ [c]) t"

lemma in_order_grows: "in_order cs s \<Longrightarrow> prefix s t \<Longrightarrow> in_order cs t"
proof (induction rule: in_order.induct)
  case (Snoc cs s c u)
  then show ?case by (meson in_order.Snoc prefix_order.trans)
qed (rule in_order.Nil)

lemma in_order_append: "in_order cs s \<Longrightarrow> in_order (cs @ [c]) (s @ c)"
  by (rule in_order.Snoc) auto

lemma in_order_sublist: "in_order cs s \<Longrightarrow> c \<in> set cs \<Longrightarrow> sublist c s"
proof (induction rule: in_order.induct)
  case (Snoc cs s d t)
  have "sublist s t" using Snoc.hyps(2) by (metis append_prefixD prefix_imp_sublist)
  moreover have "sublist d t" using Snoc.hyps(2)
    by (auto simp: prefix_def sublist_def)
  ultimately show ?case using Snoc by (auto intro: sublist_order.order_trans)
qed simp

lemma in_order_concat: "in_order cs s \<Longrightarrow> in_order (cs @ ds) (s @ concat ds)"
proof (induction ds rule: rev_induct)
  case (snoc d ds)
  then show ?case using in_order_append [of "cs @ ds" "s @ concat ds" d] by simp
qed simp

lemma in_order_prefix: "in_order (cs @ ds) s \<Longrightarrow> in_order cs s"
proof (induction ds arbitrary: s rule: rev_induct)
  case (snoc d ds)
  then obtain t where "in_order (cs @ ds) t" "prefix (t @ d) s"
    by (auto elim: in_order.cases simp flip: append_assoc)
  then show ?case using snoc.IH in_order_grows append_prefixD by metis
qed simp

section \<open>The interface of the two modems\<close>

text \<open>
  What the state machines rely on: an exchange that succeeds has transmitted its command
  with the terminator, one that fails at most a part of it, and it tells the two cases by
  its result.
\<close>

locale at_channel =
  fixes exchange :: "string \<Rightarrow> string option \<Rightarrow> 'p \<Rightarrow> int \<times> 'p"
    and sent :: "'p \<Rightarrow> string"
    and term_chars :: string
  assumes exchange_sent: "exchange c e p = (rc, p') \<Longrightarrow>
      \<exists>out. sent p' = sent p @ out \<and> prefix out (c @ term_chars) \<and> (rc = 0 \<longrightarrow> out = c @ term_chars)"
    and exchange_result: "exchange c e p = (rc, p') \<Longrightarrow> rc = 0 \<or> rc = - 1"
begin

text \<open>A chain of exchanges joined by \<open>&&\<close>: it stops at the first failure.\<close>

fun chain :: "(string \<times> string option) list \<Rightarrow> 'p \<Rightarrow> int \<times> 'p" where
  "chain [] p = (0, p)"
| "chain ((c, e) # cs) p = (let (rc, p) = exchange c e p in if rc < 0 then (- 1, p) else chain cs p)"

definition wire :: "(string \<times> string option) list \<Rightarrow> string" where
  "wire cs = concat (map (\<lambda>ce. fst ce @ term_chars) cs)"

lemma chain_result: "chain cs p = (rc, p') \<Longrightarrow> rc = 0 \<or> rc = - 1"
  by (induction cs p rule: chain.induct) (auto split: prod.splits if_splits dest: exchange_result)

lemma chain_sent:
  "chain cs p = (rc, p') \<Longrightarrow>
     \<exists>out. sent p' = sent p @ out \<and> prefix out (wire cs) \<and> (rc = 0 \<longrightarrow> out = wire cs)"
proof (induction cs p rule: chain.induct)
  case (1 p)
  then show ?case by (simp add: wire_def)
next
  case (2 c e cs p)
  obtain rc1 p1 where x: "exchange c e p = (rc1, p1)" by force
  from exchange_sent [OF x] obtain o1 where
    o1: "sent p1 = sent p @ o1" "prefix o1 (c @ term_chars)" "rc1 = 0 \<longrightarrow> o1 = c @ term_chars" by blast
  show ?case
  proof (cases "rc1 < 0")
    case True
    then have r: "rc = - 1" "p' = p1" using "2.prems" x by simp_all
    have "prefix o1 (wire ((c, e) # cs))"
      using o1(2) unfolding wire_def by (simp add: prefix_def) (metis append_assoc)
    then show ?thesis using r o1(1) by auto
  next
    case False
    then have "rc1 = 0" using exchange_result [OF x] by auto
    moreover have "chain cs p1 = (rc, p')" using "2.prems" x False by simp
    ultimately obtain o2 where "sent p' = sent p1 @ o2" "prefix o2 (wire cs)" "rc = 0 \<longrightarrow> o2 = wire cs"
      using "2.IH" [OF x [symmetric] refl False] by blast
    then show ?thesis using o1 \<open>rc1 = 0\<close> by (auto simp: wire_def)
  qed
qed

end

end
