(* ===== verification/Sms.thy ===== *)
theory Sms
  imports Codec
begin

text \<open>
  The short-message PDUs of \<open>core/src/dbb_handle.c\<close>. Character-set conversion is the
  library's \<open>iconv\<close>: the parameter \<open>to_ucs2 s n\<close> is the UCS-2 text of \<open>s\<close> in an output
  buffer of \<open>n\<close> bytes and \<open>to_utf8 b n\<close> the UTF-8 text of \<open>b\<close> in \<open>n\<close> characters;
  \<open>None\<close> is an error, a too small buffer (\<open>E2BIG\<close>) included.
\<close>

definition DBB_MAX_SMS_UD_BYTES :: nat where "DBB_MAX_SMS_UD_BYTES = 140"
definition DBB_MAX_SMS_PDU_HEX :: nat where "DBB_MAX_SMS_PDU_HEX = 512"

section \<open>Character sets\<close>

definition utf8_to_ucs2be_iconv :: "(string \<Rightarrow> nat \<Rightarrow> bytes option) \<Rightarrow> string \<Rightarrow> nat \<Rightarrow> bytes option" where
  "utf8_to_ucs2be_iconv to_ucs2 utf8 out_size = to_ucs2 utf8 out_size"

definition ucs2be_to_utf8_iconv :: "(bytes \<Rightarrow> nat \<Rightarrow> string option) \<Rightarrow> bytes \<Rightarrow> nat \<Rightarrow> string option" where
  "ucs2be_to_utf8_iconv to_utf8 ucs2 out_size =
     (if out_size = 0 \<or> length ucs2 mod 2 \<noteq> 0 then None else to_utf8 ucs2 (out_size - 1))"

section \<open>Sending: SMS-SUBMIT\<close>

text \<open>The PDU in hexadecimal and the length for \<open>AT+CMGS\<close>.\<close>

definition dbb_build_sms_submit_pdu ::
    "(string \<Rightarrow> nat \<Rightarrow> bytes option) \<Rightarrow> string \<Rightarrow> string \<Rightarrow> nat \<Rightarrow> (string \<times> int) option" where
  "dbb_build_sms_submit_pdu to_ucs2 target txt pdu_hex_size =
     (case encode_bcd_number target 16 0 of
        None \<Rightarrow> None
      | Some (da_bcd, da_digits, toa) \<Rightarrow>
          (case utf8_to_ucs2be_iconv to_ucs2 txt DBB_MAX_SMS_UD_BYTES of
             None \<Rightarrow> None
           | Some ud \<Rightarrow>
               if length ud > DBB_MAX_SMS_UD_BYTES then None
               else
                 let pdu = [0x00, 0x01, 0x00, da_digits, toa] @ da_bcd
                           @ [0x00, 0x08, of_nat (length ud)] @ ud
                 in (case bytes_to_hex pdu pdu_hex_size of
                       None \<Rightarrow> None
                     | Some hex \<Rightarrow> Some (hex, int (length pdu) - 1))))"

section \<open>Receiving: SMS-DELIVER\<close>

definition hex2 :: "u8 \<Rightarrow> string" where
  "hex2 b = hex_pair b"

text \<open>The sender's number and the text.\<close>

definition dbb_decode_sms_deliver_pdu ::
    "(bytes \<Rightarrow> nat \<Rightarrow> string option) \<Rightarrow> string \<Rightarrow> nat \<Rightarrow> nat \<Rightarrow> (string \<times> string) option" where
  "dbb_decode_sms_deliver_pdu to_utf8 pdu_hex from_size text_size =
     (case hex_to_bytes pdu_hex 256 of
        None \<Rightarrow> None
      | Some pdu \<Rightarrow>
          let pdu_len = length pdu
          in if pdu_len < 8 then None
          else let sca_len = unat (pdu ! 0)
          in if 1 + sca_len > pdu_len then None
          else let idx = 1 + sca_len
          in if idx + 2 > pdu_len then None
          else let oa_digits = pdu ! (idx + 1); idx = idx + 2
          in if idx + 1 > pdu_len then None
          else let idx = idx + 1; oa_bytes = (unat oa_digits + 1) div 2
          in if idx + oa_bytes + 1 + 1 + 7 + 1 > pdu_len then None
          else case decode_bcd_number (take oa_bytes (drop idx pdu)) oa_digits from_size of
            None \<Rightarrow> None
          | Some from_number \<Rightarrow>
              let idx = idx + oa_bytes + 1; dcs = pdu ! idx; idx = idx + 1 + 7;
                  udl = unat (pdu ! idx); idx = idx + 1
              in if idx + udl > pdu_len then None
              else if dcs = 0x08 then
                (case ucs2be_to_utf8_iconv to_utf8 (take udl (drop idx pdu)) text_size of
                   None \<Rightarrow> None
                 | Some txt \<Rightarrow> Some (from_number, txt))
              else Some (from_number,
                c_snprintf text_size (''[unsupported DCS=0x'' @ hex2 dcs @ '']'')))"

section \<open>The submit PDU says what was asked\<close>

lemma encode_bcd_parts:
  assumes "encode_bcd_number number m toa0 = Some (bcd, k, toa)"
  shows "length bcd = (unat k + 1) div 2" "0 < unat k" "unat k \<le> 31" "length bcd \<le> m"
    "toa0 = 0 \<Longrightarrow> toa = 0x91 \<or> toa = 0x81"
proof -
  obtain ds toa1 where s: "bcd_scan number [] toa0 = Some (ds, toa1)"
    and r: "bcd = bcd_pack ds" "k = of_nat (length ds)" "length ds \<noteq> 0" "(length ds + 1) div 2 \<le> m"
    "toa = (if toa1 \<noteq> 0x91 then
              if length ds \<ge> 11 \<and> ds ! 0 = CHR ''8'' \<and> ds ! 1 = CHR ''6'' then 0x91 else 0x81 else toa1)"
    using assms by (auto simp: encode_bcd_number_def Let_def split: option.splits if_splits)
  have l: "length ds \<le> 31" using bcd_scan_digits [OF s] by (metis list.size(3) zero_le)
  have u: "unat k = length ds" unfolding r(2) using l by (simp add: unat_of_nat)
  show "length bcd = (unat k + 1) div 2" using u r(1) by (simp add: length_bcd_pack)
  show "0 < unat k" "unat k \<le> 31" using u r(3) l by simp_all
  show "length bcd \<le> m" using r(1,4) by (simp add: length_bcd_pack)
  show "toa = 0x91 \<or> toa = 0x81" using r(5) by auto
qed

lemma submit_pdu_parts:
  assumes b: "dbb_build_sms_submit_pdu to_ucs2 target txt n = Some (hex, len)"
  obtains bcd digits toa ud pdu where
    "encode_bcd_number target 16 0 = Some (bcd, digits, toa)"
    "to_ucs2 txt 140 = Some ud" "length ud \<le> 140"
    "pdu = [0, 1, 0, digits, toa] @ bcd @ [0, 8, of_nat (length ud)] @ ud"
    "hex = concat (map hex_pair pdu)" "len = int (length pdu) - 1"
  using b
  by (auto simp: dbb_build_sms_submit_pdu_def utf8_to_ucs2be_iconv_def DBB_MAX_SMS_UD_BYTES_def Let_def
      bytes_to_hex_def split: option.splits if_splits)

lemma hex_to_bytes_pairs:
  "bs \<noteq> [] \<Longrightarrow> length bs \<le> n \<Longrightarrow> hex_to_bytes (concat (map hex_pair bs)) n = Some bs"
  by (simp add: hex_to_bytes_def hex_pairs_hex length_hex_pairs hex_loop_pairs)

lemma submit_pdu_short:
  assumes "dbb_build_sms_submit_pdu to_ucs2 target txt n = Some (hex, len)"
  shows "length hex \<le> 328" "0 \<le> len" "len \<le> 163"
proof -
  from submit_pdu_parts [OF assms] obtain bcd digits toa ud pdu where
    e: "encode_bcd_number target 16 0 = Some (bcd, digits, toa)" and u: "length ud \<le> 140"
    and p: "pdu = [0, 1, 0, digits, toa] @ bcd @ [0, 8, of_nat (length ud)] @ ud"
    and h: "hex = concat (map hex_pair pdu)" "len = int (length pdu) - 1" by metis
  have "length bcd \<le> 16" by (rule encode_bcd_parts(4) [OF e])
  then have l: "8 \<le> length pdu" "length pdu \<le> 164" using u unfolding p by simp_all
  show "length hex \<le> 328" unfolding h(1) length_hex_pairs using l by simp
  show "0 \<le> len" "len \<le> 163" using h(2) l by linarith+
qed

section \<open>A deliver PDU is read as it is laid out\<close>

text \<open>The fields of an SMS-DELIVER PDU in the order of 3GPP TS 23.040.\<close>

definition deliver_pdu :: "bytes \<Rightarrow> u8 \<Rightarrow> u8 \<Rightarrow> u8 \<Rightarrow> bytes \<Rightarrow> u8 \<Rightarrow> u8 \<Rightarrow> bytes \<Rightarrow> bytes \<Rightarrow> bytes" where
  "deliver_pdu sca first oa_digits oa_type oa pid dcs scts ud =
     of_nat (length sca) # sca @ [first, oa_digits, oa_type] @ oa @ [pid, dcs] @ scts
       @ [of_nat (length ud)] @ ud"

lemma decode_deliver_pdu:
  assumes len: "length sca < 256" "length scts = 7" "length ud < 256"
      "length oa = (unat oa_digits + 1) div 2"
      "length (deliver_pdu sca first oa_digits oa_type oa pid dcs scts ud) \<le> 256"
    and oa: "decode_bcd_number oa oa_digits from_size = Some number"
  shows "dbb_decode_sms_deliver_pdu to_utf8
           (concat (map hex_pair (deliver_pdu sca first oa_digits oa_type oa pid dcs scts ud))) from_size text_size =
         (if dcs = 0x08 then map_option (\<lambda>t. (number, t)) (ucs2be_to_utf8_iconv to_utf8 ud text_size)
          else Some (number, c_snprintf text_size (''[unsupported DCS=0x'' @ hex2 dcs @ '']'')))"
proof -
  let ?p = "deliver_pdu sca first oa_digits oa_type oa pid dcs scts ud"
  have ne: "?p \<noteq> []" by (simp add: deliver_pdu_def)
  have L: "length ?p = 15 + length sca + length oa + length ud - 1"
    using len(2) by (simp add: deliver_pdu_def)
  have s: "unat (?p ! 0) = length sca" using len(1) by (simp add: deliver_pdu_def unat_of_nat)
  have d1: "drop (1 + length sca) ?p = [first, oa_digits, oa_type] @ oa @ [pid, dcs] @ scts @ [of_nat (length ud)] @ ud"
    by (simp add: deliver_pdu_def)
  have n1: "?p ! (1 + length sca + k) = ([first, oa_digits, oa_type] @ oa @ [pid, dcs] @ scts @ [of_nat (length ud)] @ ud) ! k"
    if "k < 13 + length oa + length ud" for k
  proof -
    have "1 + length sca \<le> length ?p" using L by simp
    then show ?thesis unfolding d1 [symmetric] by (simp add: nth_drop)
  qed
  have o: "?p ! (1 + length sca + 1) = oa_digits" using n1 [of 1] by simp
  have t: "take (length oa) (drop (1 + length sca + 2 + 1) ?p) = oa"
  proof -
    have "drop (1 + length sca + 2 + 1) ?p = drop 3 (drop (1 + length sca) ?p)" by (simp add: numeral_eq_Suc)
    then show ?thesis unfolding d1 by simp
  qed
  have c: "?p ! (1 + length sca + 2 + 1 + length oa + 1) = dcs"
    using n1 [of "3 + length oa + 1"] by (simp add: nth_append numeral_eq_Suc)
  have u: "?p ! (1 + length sca + 2 + 1 + length oa + 1 + 1 + 7) = of_nat (length ud)"
    using n1 [of "3 + length oa + 1 + 1 + 7"] len(2) by (simp add: nth_append numeral_eq_Suc)
  have v: "take (length ud) (drop (1 + length sca + 2 + 1 + length oa + 1 + 1 + 7 + 1) ?p) = ud"
  proof -
    have "drop (1 + length sca + 2 + 1 + length oa + 1 + 1 + 7 + 1) ?p
        = drop (length oa + 13) (drop (1 + length sca) ?p)" by (simp add: add.commute add.left_commute add.assoc)
    also have "drop (1 + length sca) ?p = ([first, oa_digits, oa_type] @ oa @ [pid, dcs] @ scts @ [of_nat (length ud)]) @ ud"
      using d1 by simp
    also have "drop (length oa + 13) \<dots> = ud"
      using len(2) by (simp only: append_eq_conv_conj drop_append) simp
    finally show ?thesis by simp
  qed
  have ul: "unat (of_nat (length ud) :: u8) = length ud" using len(3) by (simp add: unat_of_nat)
  have h: "hex_to_bytes (concat (map hex_pair ?p)) 256 = Some ?p"
    by (rule hex_to_bytes_pairs) (use ne len(5) in simp_all)
  show ?thesis
    unfolding dbb_decode_sms_deliver_pdu_def h option.case Let_def s o c u ul len(4) [symmetric] t v oa
    using L by (auto split: option.splits)
qed

end
