(* ===== verification/Gpio.thy ===== *)
theory Gpio
  imports Prelude
begin

text \<open>
  The pins and LEDs behind the \<open>sysfs\<close> files: \<open>core/src/src_io.c\<close>, \<open>core/src/src_led.c\<close>,
  the enable and disable sequences of the GNSS/DBB board (\<open>gnss_thread.c\<close>) and of the LoRa
  module (\<open>lora_thread.c\<close>). The kernel is a script: each system call that touches a
  \<open>sysfs\<close> file takes the next outcome, and succeeds when the script is used up. Every text
  that reached a file is recorded in the order of the writes.
\<close>

section \<open>System calls\<close>

datatype io_errno = EBUSY | EINVAL | EIO | EOTHER

datatype io_event =
    Io_ok
  | Io_short               \<comment> \<open>the call returns, but transfers nothing\<close>
  | Io_fail io_errno

record io_world =
  io_script :: "io_event list"
  io_inputs :: string           \<comment> \<open>the characters that the next reads of a \<open>value\<close> file give\<close>
  io_log :: "(string \<times> string) list"
  io_error :: io_errno          \<comment> \<open>\<open>errno\<close>\<close>

definition sys_call :: "io_world \<Rightarrow> io_event \<times> io_world" where
  "sys_call w =
     (case io_script w of
        [] \<Rightarrow> (Io_ok, w)
      | e # es \<Rightarrow>
          (e, (case e of Io_fail n \<Rightarrow> w\<lparr>io_script := es, io_error := n\<rparr> | _ \<Rightarrow> w\<lparr>io_script := es\<rparr>)))"

definition write_text_file :: "string \<Rightarrow> string \<Rightarrow> io_world \<Rightarrow> int \<times> io_world" where
  "write_text_file path txt w =
     (case sys_call w of
        (Io_fail _, w) \<Rightarrow> (- 1, w)
      | (_, w) \<Rightarrow>
          (case sys_call w of
             (Io_fail _, w) \<Rightarrow> (- 1, w)
           | (Io_short, w) \<Rightarrow> (0, w)
           | (Io_ok, w) \<Rightarrow> (0, w\<lparr>io_log := io_log w @ [(path, txt)]\<rparr>)))"

section \<open>Pins\<close>

datatype io_direction_t = IO_DIR_IN | IO_DIR_OUT

definition gpio_dir :: "int \<Rightarrow> string" where
  "gpio_dir n = ''/sys/class/gpio/gpio'' @ show_int n"

definition gpio_export_if_needed :: "int \<Rightarrow> io_world \<Rightarrow> int \<times> io_world" where
  "gpio_export_if_needed n w =
     (case sys_call w of
        (Io_fail _, w) \<Rightarrow>
          (let (rc, w) = write_text_file ''/sys/class/gpio/export'' (show_int n) w
           in if rc < 0 then if io_error w \<noteq> EBUSY then (- 1, w) else (0, w) else (0, w))
      | (_, w) \<Rightarrow> (0, w))"

definition io_set_direction :: "int \<Rightarrow> io_direction_t \<Rightarrow> io_world \<Rightarrow> int \<times> io_world" where
  "io_set_direction n direction w =
     (if n < 0 then (- 1, w\<lparr>io_error := EINVAL\<rparr>)
      else let (rc, w) = gpio_export_if_needed n w
      in if rc < 0 then (- 1, w)
         else if direction = IO_DIR_OUT then write_text_file (gpio_dir n @ ''/direction'') ''out'' w
         else write_text_file (gpio_dir n @ ''/direction'') ''in'' w)"

definition io_set_output_level :: "int \<Rightarrow> int \<Rightarrow> io_world \<Rightarrow> int \<times> io_world" where
  "io_set_output_level n level w =
     (if n < 0 \<or> (level \<noteq> 0 \<and> level \<noteq> 1) then (- 1, w\<lparr>io_error := EINVAL\<rparr>)
      else let (rc, w) = io_set_direction n IO_DIR_OUT w
      in if rc < 0 then (- 1, w)
         else write_text_file (gpio_dir n @ ''/value'') (if level \<noteq> 0 then ''1'' else ''0'') w)"

text \<open>The level comes back only with the result 0.\<close>

definition io_get_input_level :: "int \<Rightarrow> io_world \<Rightarrow> int \<times> int option \<times> io_world" where
  "io_get_input_level n w =
     (if n < 0 then (- 1, None, w\<lparr>io_error := EINVAL\<rparr>)
      else let (rc, w) = io_set_direction n IO_DIR_IN w
      in if rc < 0 then (- 1, None, w)
         else case sys_call w of
            (Io_fail _, w) \<Rightarrow> (- 1, None, w)
          | (_, w) \<Rightarrow>
              (case sys_call w of
                 (Io_fail _, w) \<Rightarrow> (- 1, None, w)
               | (Io_short, w) \<Rightarrow> (- 1, None, w\<lparr>io_error := EIO\<rparr>)
               | (Io_ok, w) \<Rightarrow>
                   (case io_inputs w of
                      [] \<Rightarrow> (- 1, None, w\<lparr>io_error := EIO\<rparr>)
                    | c # cs \<Rightarrow> (0, Some (if c = CHR ''1'' then 1 else 0), w\<lparr>io_inputs := cs\<rparr>))))"

section \<open>LEDs\<close>

definition set_led :: "string \<Rightarrow> int \<Rightarrow> io_world \<Rightarrow> int \<times> io_world" where
  "set_led name on w =
     (case sys_call w of
        (Io_fail _, w) \<Rightarrow> (- 1, w)
      | (_, w) \<Rightarrow>
          (case sys_call w of
             (Io_fail _, w) \<Rightarrow> (- 1, w)
           | (Io_short, w) \<Rightarrow> (- 1, w)
           | (Io_ok, w) \<Rightarrow>
               (0, w\<lparr>io_log := io_log w @
                  [(''/sys/class/leds/'' @ name @ ''/brightness'', if on \<noteq> 0 then ''1'' else ''0'')]\<rparr>)))"

section \<open>The pins of the board\<close>

definition DEV_GNSS_DBB_IO_POWER :: int where "DEV_GNSS_DBB_IO_POWER = 4"
definition DEV_GNSS_DBB_IO_NRESET :: int where "DEV_GNSS_DBB_IO_NRESET = 5"
definition DEV_LoRa_IO_RESET :: int where "DEV_LoRa_IO_RESET = 56"
definition DEV_LoRa_IO_AUX :: int where "DEV_LoRa_IO_AUX = 57"
definition DEV_4G_IO_POWER :: int where "DEV_4G_IO_POWER = 8"
definition DEV_4G_IO_RESET :: int where "DEV_4G_IO_RESET = 9"
definition DEV_USB_IO_SW1 :: int where "DEV_USB_IO_SW1 = 109"

definition DEV_DBB_LED :: string where "DEV_DBB_LED = ''user-led3''"
definition DEV_LoRa_LED :: string where "DEV_LoRa_LED = ''user-led4''"
definition DEV_4G_LED :: string where "DEV_4G_LED = ''user-led2''"

definition gnss_bdd_enable :: "io_world \<Rightarrow> int \<times> io_world" where
  "gnss_bdd_enable w =
     (let (rc, w) = io_set_output_level DEV_GNSS_DBB_IO_NRESET 1 w
      in if rc < 0 then (- 1, w)
         else let (rc, w) = io_set_output_level DEV_GNSS_DBB_IO_POWER 1 w
         in if rc < 0 then (- 1, w) else (0, w))"

definition gnss_bdd_disable :: "io_world \<Rightarrow> int \<times> io_world" where
  "gnss_bdd_disable w =
     (let (rc, w) = io_set_output_level DEV_GNSS_DBB_IO_POWER 0 w
      in if rc < 0 then (- 1, w) else (0, w))"

definition lora_enable :: "io_world \<Rightarrow> int \<times> io_world" where
  "lora_enable w =
     (let (rc, w) = io_set_output_level DEV_LoRa_IO_AUX 1 w
      in if rc < 0 then (- 1, w)
         else let (rc, w) = io_set_output_level DEV_LoRa_IO_RESET 1 w
         in if rc < 0 then (- 1, w)
            else let (rc, w) = io_set_output_level DEV_LoRa_IO_RESET 0 w
            in if rc < 0 then (- 1, w)
               else let (_, w) = io_set_direction DEV_LoRa_IO_AUX IO_DIR_IN w;
                        (_, w) = set_led DEV_LoRa_LED 1 w
               in (0, w))"

definition lora_disable :: "io_world \<Rightarrow> int \<times> io_world" where
  "lora_disable w =
     (let (rc, w) = io_set_output_level DEV_LoRa_IO_RESET 1 w
      in if rc < 0 then (- 1, w)
         else let (_, w) = set_led DEV_LoRa_LED 0 w in (0, w))"

section \<open>What the calls write\<close>

text \<open>
  The writes to the files of pins and LEDs, that is all but those to \<open>export\<close>, which happen
  only when the pin is not exported yet.
\<close>

definition EXPORT :: string where "EXPORT = ''/sys/class/gpio/export''"

definition pin_log :: "io_world \<Rightarrow> (string \<times> string) list" where
  "pin_log w = filter (\<lambda>e. fst e \<noteq> EXPORT) (io_log w)"

definition no_short :: "io_world \<Rightarrow> bool" where
  "no_short w \<longleftrightarrow> Io_short \<notin> set (io_script w)"

lemma sys_call_log: "sys_call w = (e, w') \<Longrightarrow> io_log w' = io_log w"
  by (auto simp: sys_call_def split: list.splits io_event.splits)

lemma sys_call_no_short: "sys_call w = (e, w') \<Longrightarrow> no_short w \<Longrightarrow> no_short w' \<and> e \<noteq> Io_short"
  by (auto simp: sys_call_def no_short_def split: list.splits io_event.splits)

text \<open>
  A call writes the list \<open>xs\<close>: when no write is cut short, the log grows by \<open>xs\<close> if the call
  returns no error, and by a prefix of it in any case.
\<close>

definition writes_list :: "(string \<times> string) list \<Rightarrow> (io_world \<Rightarrow> int \<times> io_world) \<Rightarrow> bool" where
  "writes_list xs f \<longleftrightarrow>
     (\<forall>w rc w'. f w = (rc, w') \<longrightarrow> no_short w \<longrightarrow>
        no_short w' \<and> (\<exists>ys. pin_log w' = pin_log w @ ys \<and> prefix ys xs \<and> (0 \<le> rc \<longrightarrow> ys = xs)))"

lemma writes_list_I:
  assumes "\<And>w rc w'. f w = (rc, w') \<Longrightarrow> no_short w \<Longrightarrow>
      no_short w' \<and> (\<exists>ys. pin_log w' = pin_log w @ ys \<and> prefix ys xs \<and> (0 \<le> rc \<longrightarrow> ys = xs))"
  shows "writes_list xs f"
  using assms unfolding writes_list_def by blast

lemma writes_list_D:
  assumes "writes_list xs f" "f w = (rc, w')" "no_short w"
  shows "no_short w' \<and> (\<exists>ys. pin_log w' = pin_log w @ ys \<and> prefix ys xs \<and> (0 \<le> rc \<longrightarrow> ys = xs))"
  using assms unfolding writes_list_def by blast

text \<open>Two calls, the second made when the first returned no error.\<close>

definition call_seq :: "(io_world \<Rightarrow> int \<times> io_world) \<Rightarrow> (io_world \<Rightarrow> int \<times> io_world) \<Rightarrow> io_world \<Rightarrow> int \<times> io_world" where
  "call_seq f g w = (let (rc, w) = f w in if rc < 0 then (- 1, w) else g w)"

lemma writes_list_seq:
  assumes f: "writes_list xs f" and g: "writes_list ys g"
  shows "writes_list (xs @ ys) (call_seq f g)"
proof (rule writes_list_I)
  fix w rc w'
  assume r: "call_seq f g w = (rc, w')" and n: "no_short w"
  obtain rc1 w1 where f1: "f w = (rc1, w1)" by force
  from writes_list_D [OF f f1 n] obtain zs
    where z: "no_short w1" "pin_log w1 = pin_log w @ zs" "prefix zs xs" "0 \<le> rc1 \<longrightarrow> zs = xs" by blast
  show "no_short w' \<and> (\<exists>us. pin_log w' = pin_log w @ us \<and> prefix us (xs @ ys) \<and> (0 \<le> rc \<longrightarrow> us = xs @ ys))"
  proof (cases "rc1 < 0")
    case True
    then show ?thesis using r f1 z by (auto simp: call_seq_def intro: prefix_prefix)
  next
    case False
    then have g1: "g w1 = (rc, w')" using r f1 by (simp add: call_seq_def)
    from writes_list_D [OF g g1 z(1)] obtain us
      where u: "no_short w'" "pin_log w' = pin_log w1 @ us" "prefix us ys" "0 \<le> rc \<longrightarrow> us = ys" by blast
    from False z(4) have "zs = xs" by simp
    then show ?thesis using u z(2) by auto
  qed
qed

lemma writes_write_text_file:
  "writes_list (filter (\<lambda>e. fst e \<noteq> EXPORT) [(path, txt)]) (write_text_file path txt)"
proof (rule writes_list_I)
  fix w rc w'
  assume r: "write_text_file path txt w = (rc, w')" and n: "no_short w"
  obtain e1 w1 where 1: "sys_call w = (e1, w1)" by force
  obtain e2 w2 where 2: "sys_call w1 = (e2, w2)" by force
  have l: "io_log w1 = io_log w" "io_log w2 = io_log w" using sys_call_log [OF 1] sys_call_log [OF 2] by simp_all
  have s: "no_short w1" "e1 \<noteq> Io_short" using sys_call_no_short [OF 1 n] by simp_all
  then have s2: "no_short w2" "e2 \<noteq> Io_short" using sys_call_no_short [OF 2] by simp_all
  show "no_short w' \<and> (\<exists>ys. pin_log w' = pin_log w @ ys \<and> prefix ys (filter (\<lambda>e. fst e \<noteq> EXPORT) [(path, txt)])
      \<and> (0 \<le> rc \<longrightarrow> ys = filter (\<lambda>e. fst e \<noteq> EXPORT) [(path, txt)]))"
    using r s s2 l
    by (auto simp: write_text_file_def 1 2 no_short_def pin_log_def split: io_event.splits)
qed

lemma writes_export: "writes_list [] (gpio_export_if_needed n)"
proof (rule writes_list_I)
  fix w rc w'
  assume r: "gpio_export_if_needed n w = (rc, w')" and n: "no_short w"
  obtain e1 w1 where 1: "sys_call w = (e1, w1)" by force
  obtain rc2 w2 where 2: "write_text_file EXPORT (show_int n) w1 = (rc2, w2)" by force
  have l: "pin_log w1 = pin_log w" using sys_call_log [OF 1] by (simp add: pin_log_def)
  have s: "no_short w1" "e1 \<noteq> Io_short" using sys_call_no_short [OF 1 n] by simp_all
  have w2: "no_short w2 \<and> pin_log w2 = pin_log w1"
    using writes_list_D [OF writes_write_text_file 2 s(1)] by auto
  show "no_short w' \<and> (\<exists>ys. pin_log w' = pin_log w @ ys \<and> prefix ys [] \<and> (0 \<le> rc \<longrightarrow> ys = []))"
    using r s w2 l 2 by (auto simp: gpio_export_if_needed_def 1 EXPORT_def split: io_event.splits if_splits)
qed

lemma file_not_EXPORT: "gpio_dir n @ ''/direction'' \<noteq> EXPORT" "gpio_dir n @ ''/value'' \<noteq> EXPORT"
  "''/sys/class/leds/'' @ name @ ''/brightness'' \<noteq> EXPORT"
  by (simp_all add: gpio_dir_def EXPORT_def)

lemma writes_direction:
  "writes_list (if n < 0 then [] else [(gpio_dir n @ ''/direction'', if d = IO_DIR_OUT then ''out'' else ''in'')])
     (io_set_direction n d)"
proof (cases "n < 0")
  case True
  then show ?thesis
    by (auto simp: writes_list_def io_set_direction_def no_short_def pin_log_def)
next
  case False
  then have e: "io_set_direction n d =
      call_seq (gpio_export_if_needed n) (write_text_file (gpio_dir n @ ''/direction'') (if d = IO_DIR_OUT then ''out'' else ''in''))"
    by (auto simp: io_set_direction_def call_seq_def fun_eq_iff split: prod.splits)
  show ?thesis unfolding e using False
    writes_list_seq [OF writes_export [of n] writes_write_text_file [of "gpio_dir n @ ''/direction''"]] file_not_EXPORT
    by simp
qed

text \<open>The two writes of an output level: the direction first.\<close>

definition level_writes :: "int \<Rightarrow> int \<Rightarrow> (string \<times> string) list" where
  "level_writes n level =
     [(gpio_dir n @ ''/direction'', ''out''), (gpio_dir n @ ''/value'', if level \<noteq> 0 then ''1'' else ''0'')]"

lemma writes_level:
  assumes "0 \<le> n" "level = 0 \<or> level = 1"
  shows "writes_list (level_writes n level) (io_set_output_level n level)"
proof -
  have e: "io_set_output_level n level =
      call_seq (io_set_direction n IO_DIR_OUT) (write_text_file (gpio_dir n @ ''/value'') (if level \<noteq> 0 then ''1'' else ''0''))"
    using assms by (auto simp: io_set_output_level_def call_seq_def fun_eq_iff split: prod.splits)
  show ?thesis unfolding e using assms
      writes_list_seq [OF writes_direction [of n IO_DIR_OUT] writes_write_text_file [of "gpio_dir n @ ''/value''"
          "if level \<noteq> 0 then ''1'' else ''0''"]] file_not_EXPORT
    by (simp add: level_writes_def split del: if_split)
qed

text \<open>A call whose error is only passed on.\<close>

definition call_last :: "(io_world \<Rightarrow> int \<times> io_world) \<Rightarrow> io_world \<Rightarrow> int \<times> io_world" where
  "call_last f w = (let (rc, w) = f w in if rc < 0 then (- 1, w) else (0, w))"

lemma writes_call_last:
  assumes "writes_list xs f" shows "writes_list xs (call_last f)"
proof (rule writes_list_I)
  fix w rc w'
  assume r: "call_last f w = (rc, w')" and n: "no_short w"
  obtain rc1 w1 where f1: "f w = (rc1, w1)" by force
  from writes_list_D [OF assms f1 n] r
  show "no_short w' \<and> (\<exists>ys. pin_log w' = pin_log w @ ys \<and> prefix ys xs \<and> (0 \<le> rc \<longrightarrow> ys = xs))"
    by (auto simp: call_last_def f1 split: if_splits)
qed

text \<open>The board leaves reset before it gets power.\<close>

lemma writes_bdd_enable:
  "writes_list (level_writes DEV_GNSS_DBB_IO_NRESET 1 @ level_writes DEV_GNSS_DBB_IO_POWER 1) gnss_bdd_enable"
proof -
  have e: "gnss_bdd_enable = call_seq (io_set_output_level DEV_GNSS_DBB_IO_NRESET 1)
      (call_last (io_set_output_level DEV_GNSS_DBB_IO_POWER 1))"
    by (auto simp: gnss_bdd_enable_def call_seq_def call_last_def fun_eq_iff split: prod.splits)
  show ?thesis unfolding e
    by (intro writes_list_seq writes_call_last writes_level)
      (simp_all add: DEV_GNSS_DBB_IO_NRESET_def DEV_GNSS_DBB_IO_POWER_def)
qed

text \<open>The LoRa reset pulse.\<close>

definition lora_pulse :: "io_world \<Rightarrow> int \<times> io_world" where
  "lora_pulse = call_seq (io_set_output_level DEV_LoRa_IO_AUX 1)
     (call_seq (io_set_output_level DEV_LoRa_IO_RESET 1) (call_last (io_set_output_level DEV_LoRa_IO_RESET 0)))"

lemma writes_lora_pulse:
  "writes_list (level_writes DEV_LoRa_IO_AUX 1 @ level_writes DEV_LoRa_IO_RESET 1 @ level_writes DEV_LoRa_IO_RESET 0)
     lora_pulse"
  unfolding lora_pulse_def
  by (intro writes_list_seq writes_call_last writes_level)
    (simp_all add: DEV_LoRa_IO_AUX_def DEV_LoRa_IO_RESET_def)

lemma lora_enable_pulse:
  "lora_enable w =
     (let (rc, w1) = lora_pulse w
      in if rc < 0 then (- 1, w1)
         else (0, snd (set_led DEV_LoRa_LED 1 (snd (io_set_direction DEV_LoRa_IO_AUX IO_DIR_IN w1)))))"
  by (auto simp: lora_enable_def lora_pulse_def call_seq_def call_last_def split: prod.splits)

lemma writes_led:
  "writes_list [(''/sys/class/leds/'' @ name @ ''/brightness'', if on \<noteq> 0 then ''1'' else ''0'')] (set_led name on)"
proof (rule writes_list_I)
  fix w rc w'
  assume r: "set_led name on w = (rc, w')" and n: "no_short w"
  obtain e1 w1 where 1: "sys_call w = (e1, w1)" by force
  obtain e2 w2 where 2: "sys_call w1 = (e2, w2)" by force
  have l: "io_log w1 = io_log w" "io_log w2 = io_log w" using sys_call_log [OF 1] sys_call_log [OF 2] by simp_all
  have s: "no_short w1" "e1 \<noteq> Io_short" using sys_call_no_short [OF 1 n] by simp_all
  then have "no_short w2" "e2 \<noteq> Io_short" using sys_call_no_short [OF 2] by simp_all
  then show "no_short w' \<and> (\<exists>ys. pin_log w' = pin_log w @ ys
      \<and> prefix ys [(''/sys/class/leds/'' @ name @ ''/brightness'', if on \<noteq> 0 then ''1'' else ''0'')]
      \<and> (0 \<le> rc \<longrightarrow> ys = [(''/sys/class/leds/'' @ name @ ''/brightness'', if on \<noteq> 0 then ''1'' else ''0'')]))"
    using r s l file_not_EXPORT(3) [of name]
    by (auto simp: set_led_def 1 2 no_short_def pin_log_def split: io_event.splits)
qed

text \<open>All of \<open>lora_enable\<close>: after the pulse the results are not looked at.\<close>

definition LORA_PULSE :: "(string \<times> string) list" where
  "LORA_PULSE = level_writes DEV_LoRa_IO_AUX 1 @ level_writes DEV_LoRa_IO_RESET 1 @ level_writes DEV_LoRa_IO_RESET 0"

lemma lora_enable_writes:
  assumes "lora_enable w = (rc, w')" "no_short w"
  shows "\<exists>ys zs. pin_log w' = pin_log w @ ys @ zs \<and> prefix ys LORA_PULSE \<and> (0 \<le> rc \<longrightarrow> ys = LORA_PULSE)
    \<and> (rc < 0 \<longrightarrow> zs = [])"
proof -
  obtain rc1 w1 where 1: "lora_pulse w = (rc1, w1)" by force
  obtain rc2 w2 where 2: "io_set_direction DEV_LoRa_IO_AUX IO_DIR_IN w1 = (rc2, w2)" by force
  obtain rc3 w3 where 3: "set_led DEV_LoRa_LED 1 w2 = (rc3, w3)" by force
  obtain ys where y: "no_short w1" "pin_log w1 = pin_log w @ ys" "prefix ys LORA_PULSE" "0 \<le> rc1 \<longrightarrow> ys = LORA_PULSE"
    using writes_list_D [OF writes_lora_pulse 1 assms(2)] unfolding LORA_PULSE_def by blast
  obtain us where u: "no_short w2" "pin_log w2 = pin_log w1 @ us" using writes_list_D [OF writes_direction 2 y(1)] by blast
  obtain vs where v: "pin_log w3 = pin_log w2 @ vs" using writes_list_D [OF writes_led 3 u(1)] by blast
  show ?thesis
  proof (cases "rc1 < 0")
    case True
    then show ?thesis using assms(1) y by (auto simp: lora_enable_pulse 1)
  next
    case False
    then have "rc = 0" "w' = w3" using assms(1) by (auto simp: lora_enable_pulse 1 2 3)
    then show ?thesis using False y u v by auto
  qed
qed

end
