(* ===== verification/DbbHandle.thy ===== *)
theory DbbHandle
  imports AtPort Sms GnssCtl Gpio
begin

text \<open>
  The narrow-band module: its control block (\<open>core/inc/dbb_func.h\<close>), the AT exchange
  (\<open>core/src/dbb_at_response.c\<close> and the device functions of \<open>dbb_thread.c\<close>) and the
  message handlers of \<open>core/src/dbb_handle.c\<close>. What a handler only reports through
  \<open>dbb_debug_info\<close> is an event.
\<close>

section \<open>State\<close>

datatype dbb_data_codec_t = DBB_DATA_CODEC_HEX | DBB_DATA_CODEC_BASE64

datatype dbb_PrintType_t = DBB_PRINT_OFF | DBB_PRINT_ON

datatype dbb_WorkMode_t = DBB_MODE_NORMAL | DBB_MODE_BROADCAST

datatype dbb_status_t =
    DEV_DBB_IDLE | DEV_DBB_INIT | DEV_DBB_POWER_ON | DEV_DBB_SIM_READY | DEV_DBB_CFUN_OK
  | DEV_DBB_CREG_OK | DEV_DBB_CNMI_OK | DEV_DBB_DSCI_OK | DEV_DBB_CGDCONT_OK | DEV_DBB_PSDATA_OK
  | DEV_DBB_WAIT_CREGXW | DEV_DBB_WAIT_CREV | DEV_DBB_WAIT_CIREG | DEV_DBB_ONLINE
  | DEV_DBB_ONLINE_BROADCAST | DEV_DBB_POWER_OFF

text \<open>The descriptor \<open>fd\<close> is part of the port below.\<close>

record dbb_ctrl_t =
  dbb_enabled :: u8
  dbb_status :: dbb_status_t
  uplink_interval_sec :: int
  last_uplink_ts :: int
  sms_target :: string
  sms_text :: string
  sms_send_once_done :: u8
  downlink_raw :: bytes
  downlink_raw_len :: nat
  downlink_text :: string
  dbb_print_info :: dbb_PrintType_t
  dbb_print_err :: dbb_PrintType_t
  dbb_mode :: dbb_WorkMode_t

definition DBB_MAX_UL_DATA_RAW :: nat where "DBB_MAX_UL_DATA_RAW = 1024"
definition DBB_MAX_UL_DATA_HEX :: nat where "DBB_MAX_UL_DATA_HEX = 1024"
definition DBB_MAX_B64_DATA :: nat where "DBB_MAX_B64_DATA = 1536"
definition DBB_MAX_RESPONSE :: nat where "DBB_MAX_RESPONSE = 2048"
definition DBB_AT_TIMEOUT_MS :: nat where "DBB_AT_TIMEOUT_MS = 2000"

definition dbb_ctrl_init :: dbb_ctrl_t where
  "dbb_ctrl_init =
     \<lparr>dbb_enabled = 0, dbb_status = DEV_DBB_IDLE, uplink_interval_sec = 30, last_uplink_ts = 0,
      sms_target = [], sms_text = [], sms_send_once_done = 0,
      downlink_raw = replicate DBB_MAX_UL_DATA_RAW 0, downlink_raw_len = 0, downlink_text = [],
      dbb_print_info = DBB_PRINT_OFF, dbb_print_err = DBB_PRINT_ON, dbb_mode = DBB_MODE_BROADCAST\<rparr>"

datatype dbb_event = Sms_recv string string | Network_event string

record dbb_world =
  dbb :: dbb_ctrl_t
  dport :: at_port
  dgnss :: gnss_world
  dio :: io_world
  devents :: "dbb_event list"

section \<open>Exchanges\<close>

definition dbb_open_device :: "at_port \<Rightarrow> int \<times> at_port" where
  "dbb_open_device p = port_open p"

definition dbb_close_device :: "at_port \<Rightarrow> at_port" where
  "dbb_close_device p = port_close p"

definition dbb_write_all :: "string \<Rightarrow> at_port \<Rightarrow> int \<times> at_port" where
  "dbb_write_all buf p = port_write_all buf p"

definition dbb_capture_response :: "string option \<Rightarrow> nat \<Rightarrow> nat \<Rightarrow> at_port \<Rightarrow> int \<times> string \<times> at_port" where
  "dbb_capture_response cmd response_size timeout_ms p =
     capture_response 256 [CR] cmd response_size timeout_ms p"

definition dbb_at_expect :: "string \<Rightarrow> string option \<Rightarrow> at_port \<Rightarrow> int \<times> at_port" where
  "dbb_at_expect cmd expect p =
     (let (rc, response, p) = dbb_capture_response (Some cmd) DBB_MAX_RESPONSE DBB_AT_TIMEOUT_MS p
      in if rc < 0 then (- 1, p) else (check_response expect response, p))"

definition dbb_wait_for_text :: "string \<Rightarrow> nat \<Rightarrow> nat \<Rightarrow> at_port \<Rightarrow> int \<times> string \<times> at_port" where
  "dbb_wait_for_text expect response_size timeout_ms p =
     (if expect = [] then (- 1, [], p)
      else
        let (rc, response, p) = dbb_capture_response None response_size timeout_ms p
        in if rc < 0 then (- 1, response, p)
           else if \<not> c_contains (c_str response) expect then (- 1, response, p)
           else (0, response, p))"

lemma dbb_at_expect_sent:
  assumes "dbb_at_expect c e p = (rc, p')"
  shows "\<exists>out. tx_log p' = tx_log p @ out \<and> prefix out (c @ [CR]) \<and> (rc = 0 \<longrightarrow> out = c @ [CR])"
    and "rc = 0 \<or> rc = - 1"
proof -
  obtain rc1 r p1 where x: "dbb_capture_response (Some c) DBB_MAX_RESPONSE DBB_AT_TIMEOUT_MS p = (rc1, r, p1)"
    by (metis prod_cases3)
  note L = capture_response_log [OF x [unfolded dbb_capture_response_def]]
  have cr: "check_response e r = 0 \<or> check_response e r = - 1"
    by (auto simp: check_response_def split: option.splits)
  show "\<exists>out. tx_log p' = tx_log p @ out \<and> prefix out (c @ [CR]) \<and> (rc = 0 \<longrightarrow> out = c @ [CR])"
    using assms L by (auto simp: dbb_at_expect_def x split: if_splits)
  show "rc = 0 \<or> rc = - 1"
    using assms cr by (auto simp: dbb_at_expect_def x split: if_splits)
qed

interpretation dbb: at_channel dbb_at_expect tx_log "[CR]"
  by unfold_locales (rule dbb_at_expect_sent; assumption)+

section \<open>Uplink data\<close>

definition dbb_data_prepare_uplink ::
    "bytes \<Rightarrow> dbb_data_codec_t \<Rightarrow> nat \<Rightarrow> (string \<times> nat \<times> string) option" where
  "dbb_data_prepare_uplink raw_input codec payload_out_size =
     (if length raw_input > 0 then
        (case codec of
           DBB_DATA_CODEC_BASE64 \<Rightarrow>
             map_option (\<lambda>s. (s, length raw_input, ''BASE64'')) (dbb_base64_encode raw_input payload_out_size)
         | DBB_DATA_CODEC_HEX \<Rightarrow>
             map_option (\<lambda>s. (s, length raw_input, ''HEX'')) (dbb_hex_encode raw_input payload_out_size))
      else None)"

definition quoted :: "string \<Rightarrow> string" where
  "quoted s = CHR 0x22 # s @ [CHR 0x22]"

definition uplink_command :: "nat \<Rightarrow> string \<Rightarrow> string \<Rightarrow> string" where
  "uplink_command bytes_len chset payload =
     ''AT+ULNETDATA='' @ show_nat bytes_len @ '','' @ quoted chset @ '','' @ quoted payload"

definition dbb_send_uplink :: "bytes \<Rightarrow> dbb_data_codec_t \<Rightarrow> at_port \<Rightarrow> int \<times> at_port" where
  "dbb_send_uplink raw_payload codec p =
     (case dbb_data_prepare_uplink raw_payload codec DBB_MAX_B64_DATA of
        None \<Rightarrow> (- 1, p)
      | Some (payload, bytes_len, chset) \<Rightarrow>
          let command = uplink_command bytes_len chset payload
          in if length command \<ge> DBB_MAX_UL_DATA_HEX + 64 then (- 1, p)
             else let (rc, p) = dbb_at_expect command None p
                  in if rc < 0 then (- 1, p) else (0, p))"

section \<open>Sending a short message\<close>

definition CTRL_Z :: string where "CTRL_Z = [CHR 0x1A]"

definition dbb_send_sms ::
    "(string \<Rightarrow> nat \<Rightarrow> bytes option) \<Rightarrow> string \<Rightarrow> string \<Rightarrow> at_port \<Rightarrow> int \<times> at_port" where
  "dbb_send_sms to_ucs2 target txt p =
     (case dbb_build_sms_submit_pdu to_ucs2 target txt DBB_MAX_SMS_PDU_HEX of
        None \<Rightarrow> (- 1, p)
      | Some (pdu_hex, cmgs_len) \<Rightarrow>
          let command = c_snprintf 64 (''AT+CMGS='' @ show_int cmgs_len);
              (rc, response, p) = dbb_capture_response (Some command) DBB_MAX_RESPONSE DBB_AT_TIMEOUT_MS p
          in if rc < 0 then (- 1, p)
             else if c_strchr (c_str response) (CHR ''>'') = None then (- 1, p)
             else
               let (rc, p) = dbb_write_all pdu_hex p
               in if rc < 0 then (- 1, p)
                  else
                    let (rc, p) = dbb_write_all CTRL_Z p
                    in if rc < 0 then (- 1, p)
                       else
                         let (rc, response, p) = dbb_capture_response None DBB_MAX_RESPONSE 10000 p
                         in if rc < 0 then (- 1, p)
                            else if \<not> c_contains (c_str response) ''OK''
                                 \<or> \<not> c_contains (c_str response) ''+CMGS:'' then (- 1, p)
                            else (0, p))"

section \<open>Reading unsolicited results\<close>

subsection \<open>The conversions of \<open>sscanf\<close> that the handlers use\<close>

definition scan_lit :: "string \<Rightarrow> string \<Rightarrow> string option" where
  "scan_lit lit s = (if prefix lit s then Some (drop (length lit) s) else None)"

text \<open>\<open>%d\<close>: blanks, a sign, at least one digit. The handlers use the value only in messages.\<close>

definition scan_int :: "string \<Rightarrow> (int \<times> string) option" where
  "scan_int s =
     (let s = dropWhile isspace s;
          (neg, s) = (case s of c # cs \<Rightarrow> if c = CHR ''-'' then (True, cs) else if c = CHR ''+'' then (False, cs) else (False, s)
                      | [] \<Rightarrow> (False, s));
          ds = takeWhile isdigit s
      in if ds = [] then None
         else Some (if neg then - int (digits_value ds) else int (digits_value ds), dropWhile isdigit s))"

text \<open>\<open>%n[^"]\<close>\<close>

definition scan_not_quote :: "nat \<Rightarrow> string \<Rightarrow> (string \<times> string) option" where
  "scan_not_quote n s =
     (let t = take n (takeWhile (\<lambda>c. c \<noteq> CHR 0x22) s)
      in if t = [] then None else Some (t, drop (length t) s))"

subsection \<open>Short messages\<close>

definition crlf_char :: "char \<Rightarrow> bool" where
  "crlf_char c \<longleftrightarrow> c = CR \<or> c = LF"

definition scan_cmt :: "string \<Rightarrow> (string \<times> int) option" where
  "scan_cmt line =
     Option.bind (scan_lit (''+CMT:'' @ [CHR 0x22]) line) (\<lambda>s.
     Option.bind (scan_not_quote 15 s) (\<lambda>(format, s).
     Option.bind (scan_lit (CHR 0x22 # '','') s) (\<lambda>s.
     Option.bind (scan_int s) (\<lambda>(pdu_len, _). Some (format, pdu_len)))))"

text \<open>The message that \<open>dbb_handle_sms_cmt\<close> reports, if it gets to that point.\<close>

definition dbb_handle_sms_cmt :: "(bytes \<Rightarrow> nat \<Rightarrow> string option) \<Rightarrow> string \<Rightarrow> (string \<times> string) option" where
  "dbb_handle_sms_cmt to_utf8 urc =
     (case c_strstr urc ''+CMT:'' of
        None \<Rightarrow> None
      | Some line \<Rightarrow>
          (case scan_cmt line of
             None \<Rightarrow> None
           | Some (format, pdu_len) \<Rightarrow>
               (case c_strchr line LF of
                  None \<Rightarrow> None
                | Some s \<Rightarrow>
                    let pdu_start = dropWhile crlf_char s;
                        pdu_hex = takeWhile (\<lambda>c. \<not> crlf_char c) pdu_start
                    in if length pdu_hex = 0 \<or> length pdu_hex \<ge> DBB_MAX_SMS_PDU_HEX then None
                       else if format \<noteq> ''HEX'' then None
                       else dbb_decode_sms_deliver_pdu to_utf8 pdu_hex 64 256)))"

subsection \<open>Downlink data\<close>

definition scan_dlnetdata :: "string \<Rightarrow> (int \<times> string \<times> string) option" where
  "scan_dlnetdata p =
     Option.bind (scan_lit ''+DLNETDATA='' p) (\<lambda>s.
     Option.bind (scan_int s) (\<lambda>(datalen, s).
     Option.bind (scan_lit ('','' @ [CHR 0x22]) s) (\<lambda>s.
     Option.bind (scan_not_quote 15 s) (\<lambda>(chset, s).
     Option.bind (scan_lit ([CHR 0x22] @ '','' @ [CHR 0x22]) s) (\<lambda>s.
     Option.bind (scan_not_quote 1023 s) (\<lambda>(datastr, _). Some (datalen, chset, datastr)))))))"

text \<open>
  One \<open>+DLNETDATA=\<close> record. The Base64 decoder stores into \<open>downlink_raw\<close> while it decodes:
  \<open>b64_output\<close> is what it has stored when it stops, with or without an error.
\<close>

definition dlnetdata_record :: "string \<Rightarrow> dbb_ctrl_t \<Rightarrow> dbb_ctrl_t" where
  "dlnetdata_record p d =
     (case scan_dlnetdata p of
        None \<Rightarrow> d
      | Some (datalen, chset, datastr) \<Rightarrow>
          let (stored, raw) =
            (if c_strcaseeq chset ''HEX'' then
               (case hex_to_bytes datastr DBB_MAX_UL_DATA_RAW of
                  None \<Rightarrow> ([], None)
                | Some bs \<Rightarrow> (bs, Some bs))
             else if c_strcaseeq chset ''BASE64'' then
               (b64_output datastr DBB_MAX_UL_DATA_RAW [], dbb_base64_decode datastr DBB_MAX_UL_DATA_RAW)
             else ([], None));
              d = d\<lparr>downlink_raw := overwrite stored (downlink_raw d)\<rparr>
          in (case raw of
                None \<Rightarrow> d
              | Some bs \<Rightarrow>
                  d\<lparr>downlink_raw_len := length bs,
                    downlink_text := (if length bs < DBB_MAX_UL_DATA_RAW + 1 then string_of_bytes bs else [])\<rparr>))"

function dbb_handle_dlnetdata :: "string \<Rightarrow> dbb_ctrl_t \<Rightarrow> dbb_ctrl_t" where
  "dbb_handle_dlnetdata p d =
     (case c_strstr p ''+DLNETDATA='' of
        None \<Rightarrow> d
      | Some p \<Rightarrow> dbb_handle_dlnetdata (drop 11 p) (dlnetdata_record p d))"
  by pat_completeness auto
termination
proof (relation "measure (\<lambda>(p, d). length p)", simp)
  fix p d p'
  assume "c_strstr p ''+DLNETDATA='' = Some p'"
  then have "prefix ''+DLNETDATA='' p'" "suffix p' p" using c_strstr_Some by blast+
  then have "11 \<le> length p'" "length p' \<le> length p"
    by (auto dest: prefix_length_le suffix_length_le)
  then show "((drop 11 p', dlnetdata_record p' d), p, d) \<in> measure (\<lambda>(p, d). length p)" by simp
qed

declare dbb_handle_dlnetdata.simps [simp del]

subsection \<open>Corrections for the receiver\<close>

definition ssr_payload :: "string \<Rightarrow> string option" where
  "ssr_payload urc =
     (case c_strstr urc ''^SSRINFOXW:'' of
        None \<Rightarrow> None
      | Some line \<Rightarrow>
          (case c_strchr line (CHR 0x22) of
             None \<Rightarrow> None
           | Some s \<Rightarrow>
               let payload_start = tl s
               in (case c_strchr payload_start (CHR 0x22) of
                     None \<Rightarrow> None
                   | Some _ \<Rightarrow>
                       let payload = takeWhile (\<lambda>c. c \<noteq> CHR 0x22) payload_start
                       in if length payload = 0 \<or> length payload \<ge> DBB_MAX_RESPONSE then None
                          else Some payload)))"

definition dbb_handle_ssrinfoxw :: "string \<Rightarrow> gnss_world \<Rightarrow> gnss_world" where
  "dbb_handle_ssrinfoxw urc g =
     (case ssr_payload urc of
        None \<Rightarrow> g
      | Some payload \<Rightarrow>
          (case hex_to_bytes payload DBB_MAX_RESPONSE of
             None \<Rightarrow> g
           | Some raw \<Rightarrow>
               if calcType (gctrl g) = GNSS_CALC_DPPP then snd (gnss_dev_write (string_of_bytes raw) g)
               else g))"

subsection \<open>All of them\<close>

definition dbb_handle_cgev :: "string \<Rightarrow> dbb_event list" where
  "dbb_handle_cgev urc = (case c_strstr urc ''+CGEV:'' of None \<Rightarrow> [] | Some p \<Rightarrow> [Network_event p])"

definition dbb_handle_urc_blob :: "(bytes \<Rightarrow> nat \<Rightarrow> string option) \<Rightarrow> string \<Rightarrow> dbb_world \<Rightarrow> dbb_world" where
  "dbb_handle_urc_blob to_utf8 urc w =
     (if urc = [] then w
      else w\<lparr>dbb := dbb_handle_dlnetdata urc (dbb w),
             dgnss := dbb_handle_ssrinfoxw urc (dgnss w),
             devents := devents w
               @ (case dbb_handle_sms_cmt to_utf8 urc of None \<Rightarrow> [] | Some (a, t) \<Rightarrow> [Sms_recv a t])
               @ dbb_handle_cgev urc\<rparr>)"

section \<open>Uplink commands\<close>

lemma uplink_command_length:
  "length (uplink_command n c s) = 19 + length (show_nat n) + length c + length s"
  by (simp add: uplink_command_def quoted_def)

lemma show_nat_length: "100 \<le> n \<Longrightarrow> 3 \<le> length (show_nat n)" "1 \<le> length (show_nat n)"
  "n < 10 ^ 3 \<Longrightarrow> length (show_nat n) \<le> 3"
proof -
  show *: "1 \<le> length (show_nat n)" for n by (subst show_nat.simps) simp
  have **: "10 \<le> n \<Longrightarrow> 2 \<le> length (show_nat n)" for n
    using * [of "n div 10"] by (subst show_nat.simps) simp
  show "100 \<le> n \<Longrightarrow> 3 \<le> length (show_nat n)"
    using ** [of "n div 10"] by (subst show_nat.simps) simp
  have u1: "n < 10 \<Longrightarrow> length (show_nat n) \<le> 1" for n by (subst show_nat.simps) simp
  have u2: "n < 100 \<Longrightarrow> length (show_nat n) \<le> 2" for n
    using u1 [of "n div 10"] by (subst show_nat.simps) simp
  show "n < 10 ^ 3 \<Longrightarrow> length (show_nat n) \<le> 3"
    using u2 [of "n div 10"] by (subst show_nat.simps) simp
qed

lemma prepare_uplink_length:
  assumes "dbb_data_prepare_uplink raw codec m = Some (payload, n, chset)"
  shows "n = length raw" "0 < length raw"
    "codec = DBB_DATA_CODEC_HEX \<Longrightarrow> length payload = 2 * length raw \<and> length chset = 3"
    "codec = DBB_DATA_CODEC_BASE64 \<Longrightarrow> length payload = (length raw + 2) div 3 * 4 \<and> length chset = 6"
  using assms
  by (auto simp: dbb_data_prepare_uplink_def dbb_hex_encode_def dbb_base64_encode_def length_hex_pairs
      length_b64 Let_def split: if_splits dbb_data_codec_t.splits)

text \<open>A command of 255 characters or more never reaches the line.\<close>

lemma at_expect_too_long: "255 \<le> length c \<Longrightarrow> dbb_at_expect c e p = (- 1, p)"
  by (simp add: dbb_at_expect_def dbb_capture_response_def capture_response_def DBB_MAX_RESPONSE_def)

lemma uplink_too_long:
  assumes "168 < length raw"
  shows "dbb_send_uplink raw codec p = (- 1, p)"
proof (cases "dbb_data_prepare_uplink raw codec DBB_MAX_B64_DATA")
  case None
  then show ?thesis by (simp add: dbb_send_uplink_def)
next
  case (Some r)
  then obtain payload n chset where r: "dbb_data_prepare_uplink raw codec DBB_MAX_B64_DATA = Some (payload, n, chset)"
    by (cases r) auto
  note L = prepare_uplink_length [OF r]
  have "56 < (length raw + 2) div 3" using assms by simp
  then have "233 \<le> length chset + length payload" using L(3,4) assms by (cases codec) auto
  moreover have "3 \<le> length (show_nat n)" using L(1) assms show_nat_length(1) [of n] by simp
  ultimately have "255 \<le> length (uplink_command n chset payload)"
    unfolding uplink_command_length by linarith
  then show ?thesis using r by (simp add: dbb_send_uplink_def at_expect_too_long Let_def)
qed

text \<open>A successful uplink has put its command on the line, and the payload in it decodes to the data.\<close>

lemma uplink_sent:
  assumes "dbb_send_uplink raw codec p = (0, p')"
  obtains payload chset where
    "tx_log p' = tx_log p @ uplink_command (length raw) chset payload @ [CR]"
    "codec = DBB_DATA_CODEC_HEX \<Longrightarrow> chset = ''HEX'' \<and> hex_to_bytes payload 1024 = Some raw"
    "codec = DBB_DATA_CODEC_BASE64 \<Longrightarrow> chset = ''BASE64'' \<and> dbb_base64_decode payload 1024 = Some raw"
proof -
  have short: "length raw \<le> 168"
  proof (rule ccontr)
    assume "\<not> length raw \<le> 168"
    then show False using uplink_too_long [of raw codec p] assms by simp
  qed
  obtain payload n chset where r: "dbb_data_prepare_uplink raw codec DBB_MAX_B64_DATA = Some (payload, n, chset)"
    using assms by (auto simp: dbb_send_uplink_def split: option.splits)
  have n: "n = length raw" "raw \<noteq> []" using prepare_uplink_length [OF r] by auto
  obtain rc p1 where x: "dbb_at_expect (uplink_command n chset payload) None p = (rc, p1)" by force
  have "rc = 0" "p1 = p'" using assms dbb_at_expect_sent(2) [OF x]
    by (auto simp: dbb_send_uplink_def r x Let_def split: if_splits)
  then have "tx_log p' = tx_log p @ uplink_command (length raw) chset payload @ [CR]"
    using dbb_at_expect_sent(1) [OF x] n by auto
  moreover have "chset = ''HEX'' \<and> hex_to_bytes payload 1024 = Some raw" if "codec = DBB_DATA_CODEC_HEX"
    using r that hex_roundtrip [of raw _ payload 1024] n short
    by (auto simp: dbb_data_prepare_uplink_def)
  moreover have "chset = ''BASE64'' \<and> dbb_base64_decode payload 1024 = Some raw" if "codec = DBB_DATA_CODEC_BASE64"
    using r that base64_roundtrip [of raw _ payload 1024] n short
    by (auto simp: dbb_data_prepare_uplink_def)
  ultimately show ?thesis by (rule that)
qed

section \<open>The downlink buffer\<close>

definition downlink_ok :: "dbb_ctrl_t \<Rightarrow> bool" where
  "downlink_ok d \<longleftrightarrow> length (downlink_raw d) = DBB_MAX_UL_DATA_RAW
     \<and> downlink_raw_len d \<le> DBB_MAX_UL_DATA_RAW \<and> length (downlink_text d) = downlink_raw_len d"

lemma downlink_ok_init: "downlink_ok dbb_ctrl_init"
  by (simp add: downlink_ok_def dbb_ctrl_init_def)

lemma hex_loop_length: "hex_loop s = Some bs \<Longrightarrow> length bs = length s div 2"
proof (induction s arbitrary: bs rule: hex_loop.induct)
  case (1 a b s)
  then show ?case by (auto simp: Let_def split: if_splits)
qed auto

lemma hex_to_bytes_length: "hex_to_bytes s n = Some bs \<Longrightarrow> length bs \<le> n"
  by (auto simp: hex_to_bytes_def dest: hex_loop_length split: if_splits)

text \<open>What a record leaves in the buffer.\<close>

definition record_decode :: "string \<Rightarrow> string \<Rightarrow> bytes option" where
  "record_decode chset datastr =
     (if c_strcaseeq chset ''HEX'' then hex_to_bytes datastr DBB_MAX_UL_DATA_RAW
      else if c_strcaseeq chset ''BASE64'' then dbb_base64_decode datastr DBB_MAX_UL_DATA_RAW
      else None)"

lemma record_decode_length: "record_decode c s = Some bs \<Longrightarrow> length bs \<le> DBB_MAX_UL_DATA_RAW"
  by (auto simp: record_decode_def dbb_base64_decode_def dest: hex_to_bytes_length b64_decode_bound split: if_splits)

lemma dlnetdata_record_good:
  assumes "scan_dlnetdata p = Some (datalen, chset, datastr)" "record_decode chset datastr = Some bs"
  shows "dlnetdata_record p d =
     d\<lparr>downlink_raw := overwrite bs (downlink_raw d), downlink_raw_len := length bs, downlink_text := string_of_bytes bs\<rparr>"
proof -
  have "length bs \<le> DBB_MAX_UL_DATA_RAW" using assms(2) by (rule record_decode_length)
  moreover have "b64_output datastr DBB_MAX_UL_DATA_RAW [] = bs"
    if "dbb_base64_decode datastr DBB_MAX_UL_DATA_RAW = Some bs"
    using that b64_output_decode by (simp add: dbb_base64_decode_def)
  ultimately show ?thesis using assms
    by (auto simp: dlnetdata_record_def record_decode_def split: if_splits option.splits)
qed

lemma dlnetdata_record_bad:
  assumes "scan_dlnetdata p = Some (datalen, chset, datastr)" "record_decode chset datastr = None"
  shows "\<exists>bs. length bs \<le> DBB_MAX_UL_DATA_RAW \<and>
     dlnetdata_record p d = d\<lparr>downlink_raw := overwrite bs (downlink_raw d)\<rparr>"
proof -
  have "length (b64_output datastr DBB_MAX_UL_DATA_RAW []) \<le> DBB_MAX_UL_DATA_RAW"
    by (rule b64_output_bound) simp
  moreover have "length ([] :: bytes) \<le> DBB_MAX_UL_DATA_RAW" by simp
  ultimately show ?thesis using assms unfolding dlnetdata_record_def record_decode_def
    by (auto split: if_splits intro: exI [of _ "[]"] exI [of _ "b64_output datastr DBB_MAX_UL_DATA_RAW []"])
qed

lemma dlnetdata_record_ok: "downlink_ok d \<Longrightarrow> downlink_ok (dlnetdata_record p d)"
proof (cases "scan_dlnetdata p")
  case None
  then show "downlink_ok d \<Longrightarrow> ?thesis" by (simp add: dlnetdata_record_def)
next
  case (Some r)
  then obtain n c s where r: "scan_dlnetdata p = Some (n, c, s)" by (cases r) auto
  assume ok: "downlink_ok d"
  show ?thesis
  proof (cases "record_decode c s")
    case None
    then obtain bs where "length bs \<le> DBB_MAX_UL_DATA_RAW"
      "dlnetdata_record p d = d\<lparr>downlink_raw := overwrite bs (downlink_raw d)\<rparr>"
      using dlnetdata_record_bad [OF r] by metis
    then show ?thesis using ok by (simp add: downlink_ok_def length_overwrite)
  next
    case (Some bs)
    then show ?thesis using ok dlnetdata_record_good [OF r Some] record_decode_length [OF Some]
      by (simp add: downlink_ok_def length_overwrite)
  qed
qed

lemma handle_dlnetdata_ok: "downlink_ok d \<Longrightarrow> downlink_ok (dbb_handle_dlnetdata p d)"
proof (induction p d rule: dbb_handle_dlnetdata.induct)
  case (1 p d)
  then show ?case
    by (subst dbb_handle_dlnetdata.simps) (auto intro: dlnetdata_record_ok split: option.splits)
qed

section \<open>A downlink record is delivered\<close>

lemma scan_lit_append [simp]: "scan_lit lit (lit @ s) = Some s"
  by (simp add: scan_lit_def)

lemma scan_int_show:
  assumes "s \<noteq> [] \<Longrightarrow> \<not> isdigit (hd s)"
  shows "scan_int (show_nat n @ s) = Some (int n, s)"
proof -
  obtain d ds where d: "show_nat n = d # ds" using show_nat_digits(2) by (cases "show_nat n") auto
  have dd: "isdigit d" "list_all isdigit ds" using show_nat_digits(1) [of n] d by simp_all
  have t: "takeWhile isdigit (show_nat n @ s) = show_nat n" "dropWhile isdigit (show_nat n @ s) = s"
    using show_nat_digits(1) [of n] assms
    by (cases s; simp add: list_all_iff)+
  show ?thesis using digit_not_special [OF dd(1)] t digits_value_show [of n]
    unfolding scan_int_def d by (simp add: Let_def)
qed

lemma scan_not_quote_append:
  assumes "CHR 0x22 \<notin> set t" "t \<noteq> []" "length t \<le> n"
  shows "scan_not_quote n (t @ CHR 0x22 # s) = Some (t, CHR 0x22 # s)"
proof -
  have "takeWhile (\<lambda>c. c \<noteq> CHR 0x22) (t @ CHR 0x22 # s) = t" using assms(1) by (induction t) auto
  then show ?thesis using assms(2,3) by (simp add: scan_not_quote_def Let_def)
qed

text \<open>The text of a record.\<close>

definition dlnetdata_text :: "nat \<Rightarrow> string \<Rightarrow> string \<Rightarrow> string" where
  "dlnetdata_text n chset datastr = ''+DLNETDATA='' @ show_nat n @ '','' @ quoted chset @ '','' @ quoted datastr"

lemma scan_dlnetdata_text:
  assumes "CHR 0x22 \<notin> set chset" "chset \<noteq> []" "length chset \<le> 15"
    and "CHR 0x22 \<notin> set datastr" "datastr \<noteq> []" "length datastr \<le> 1023"
  shows "scan_dlnetdata (dlnetdata_text n chset datastr @ rest) = Some (int n, chset, datastr)"
proof -
  define r1 where "r1 = CHR 0x22 # rest"
  define r2 where "r2 = CHR 0x22 # '','' @ [CHR 0x22] @ datastr @ r1"
  define r3 where "r3 = '','' @ [CHR 0x22] @ chset @ r2"
  have p: "dlnetdata_text n chset datastr @ rest = ''+DLNETDATA='' @ show_nat n @ r3"
    by (simp add: dlnetdata_text_def quoted_def r1_def r2_def r3_def)
  have i: "scan_int (show_nat n @ r3) = Some (int n, r3)"
    by (rule scan_int_show) (simp add: r3_def isdigit_def c_between_def ccode_def)
  have l: "scan_lit ('','' @ [CHR 0x22]) r3 = Some (chset @ r2)" unfolding r3_def
    using scan_lit_append [of "'','' @ [CHR 0x22]" "chset @ r2"] by simp
  have q: "scan_not_quote 15 (chset @ r2) = Some (chset, r2)"
    unfolding r2_def by (rule scan_not_quote_append) (use assms in auto)
  have m: "scan_lit ([CHR 0x22] @ '','' @ [CHR 0x22]) r2 = Some (datastr @ r1)" unfolding r2_def
    using scan_lit_append [of "[CHR 0x22] @ '','' @ [CHR 0x22]" "datastr @ r1"] by simp
  have d: "scan_not_quote 1023 (datastr @ r1) = Some (datastr, r1)"
    unfolding r1_def by (rule scan_not_quote_append) (use assms in auto)
  show ?thesis unfolding p scan_dlnetdata_def scan_lit_append Option.bind.bind_lunit i l q m d prod.case by simp
qed

lemma c_strstr_prefix: "c_strstr (n @ s) n = Some (n @ s)"
proof (cases "n @ s")
  case (Cons c cs)
  then have "prefix n (c # cs)" by (metis prefixI)
  then show ?thesis using Cons by simp
qed simp

lemma dlnetdata_delivered:
  assumes "CHR 0x22 \<notin> set chset" "chset \<noteq> []" "length chset \<le> 15"
    and "CHR 0x22 \<notin> set datastr" "datastr \<noteq> []" "length datastr \<le> 1023"
    and b: "record_decode chset datastr = Some bs"
    and once: "\<not> c_contains (drop 11 (dlnetdata_text n chset datastr @ rest)) ''+DLNETDATA=''"
  shows "dbb_handle_dlnetdata (dlnetdata_text n chset datastr @ rest) d =
     d\<lparr>downlink_raw := overwrite bs (downlink_raw d), downlink_raw_len := length bs, downlink_text := string_of_bytes bs\<rparr>"
proof -
  let ?u = "dlnetdata_text n chset datastr @ rest"
  have s: "c_strstr ?u ''+DLNETDATA='' = Some ?u"
    using c_strstr_prefix [of "''+DLNETDATA=''" "show_nat n @ '','' @ quoted chset @ '','' @ quoted datastr @ rest"]
    by (simp only: dlnetdata_text_def append_assoc)
  have o: "c_strstr (drop 11 ?u) ''+DLNETDATA='' = None" using once by simp
  have "dbb_handle_dlnetdata ?u d = dbb_handle_dlnetdata (drop 11 ?u) (dlnetdata_record ?u d)"
    by (subst dbb_handle_dlnetdata.simps) (simp only: s option.case)
  also have "\<dots> = dlnetdata_record ?u d"
    by (subst dbb_handle_dlnetdata.simps) (simp only: o option.case)
  also have "\<dots> = d\<lparr>downlink_raw := overwrite bs (downlink_raw d), downlink_raw_len := length bs, downlink_text := string_of_bytes bs\<rparr>"
    by (rule dlnetdata_record_good [OF scan_dlnetdata_text b]) (use assms in simp_all)
  finally show ?thesis .
qed

end
