(* ===== verification/DbbThread.thy ===== *)
theory DbbThread
  imports DbbHandle
begin

text \<open>
  The state machine of the narrow-band module, \<open>core/src/dbb_thread.c\<close>: the two set-up
  sequences, the service functions of the two work modes, one iteration of
  \<open>dbb_thread_func\<close> and the states its loop can reach. The result of \<open>time (NULL)\<close> is the
  argument \<open>now\<close> of an iteration.
\<close>

section \<open>Set-up sequences\<close>

definition DBB_ONCE_COMMANDS :: "string list" where
  "DBB_ONCE_COMMANDS =
     [''AT^PLMNSELMODE=1'',
      ''AT^AUTHKEY='' @ quoted ''00112233445566778899AABBCCDDEEFF'',
      ''AT^AUTHOPC='' @ quoted ''000102030405060708090A0B0C0D0E0F'',
      ''AT^DNN='' @ quoted ''CSCNNET'',
      ''AT^MISWITCH=1'', ''AT^RETXFORBIDDENSWITCH=0'', ''AT^WORKMODE=0,0'', ''AT^MESTYPE=1'',
      ''AT^TXPOWER=330'', ''AT^SELFTESTSWITCH=0'', ''AT^LFLOWXWSWITCH=0'', ''AT^REESTDEREGCLOSE=1'',
      ''AT^AUTODEREGREGCLOSE=1'', ''AT^MISWITCH=1'', ''AT^BMCARDSWITCH=1'']"

definition dbb_cfg_once :: "at_port \<Rightarrow> int \<times> at_port" where
  "dbb_cfg_once p = (0, foldl (\<lambda>p c. snd (dbb_at_expect c None p)) p DBB_ONCE_COMMANDS)"

definition dbb_cfg_broadcast_mode :: "at_port \<Rightarrow> int \<times> at_port" where
  "dbb_cfg_broadcast_mode p =
     (let (rc, p) = dbb_at_expect ''AT^MISWITCH=0'' (Some ''OK'') p
      in if rc < 0 then (- 1, p)
      else let (rc, p) = dbb_at_expect ''AT^BMCARDSWITCH=0'' (Some ''OK'') p
      in if rc < 0 then (- 1, p)
      else let (rc, p) = dbb_at_expect ''AT^DUMMYUSIM=1'' (Some ''OK'') p
      in if rc < 0 then (- 1, p)
      else let (_, p) = dbb_at_expect ''AT^BBICRSTSW=1'' None p;
               p = port_sleep 1 p;
               (rc, p) = dbb_at_expect ''AT^SSRINFOXW=1'' (Some ''OK'') p
      in if rc < 0 then (- 1, p)
      else let (rc, p) = dbb_at_expect ''AT+CFUN=1'' (Some ''OK'') p
      in if rc < 0 then (- 1, p) else (0, port_sleep 5 p))"

definition dbb_cfg_normal_mode :: "at_port \<Rightarrow> int \<times> at_port" where
  "dbb_cfg_normal_mode p =
     (let (rc, p) = dbb_at_expect ''AT^MISWITCH=1'' (Some ''OK'') p
      in if rc < 0 then (- 1, p)
      else let (rc, p) = dbb_at_expect ''AT^BMCARDSWITCH=1'' (Some ''OK'') p
      in if rc < 0 then (- 1, p)
      else let (_, p) = dbb_at_expect ''AT^BBICRSTSW=0'' None p
      in (0, port_sleep 1 p))"

section \<open>Services\<close>

definition on_port :: "(at_port \<Rightarrow> int \<times> at_port) \<Rightarrow> dbb_world \<Rightarrow> int \<times> dbb_world" where
  "on_port f w = (let (rc, p) = f (dport w) in (rc, w\<lparr>dport := p\<rparr>))"

definition set_status :: "dbb_status_t \<Rightarrow> dbb_world \<Rightarrow> dbb_world" where
  "set_status s w = w\<lparr>dbb := (dbb w)\<lparr>dbb_status := s\<rparr>\<rparr>"

definition dbb_sleep :: "nat \<Rightarrow> dbb_world \<Rightarrow> dbb_world" where
  "dbb_sleep s w = w\<lparr>dport := port_sleep s (dport w)\<rparr>"

definition dbb_led :: "int \<Rightarrow> dbb_world \<Rightarrow> dbb_world" where
  "dbb_led on w = w\<lparr>dio := snd (set_led DEV_DBB_LED on (dio w))\<rparr>"

text \<open>The \<open>iconv\<close> conversions, as in \<open>Sms\<close>.\<close>

record charset =
  to_ucs2 :: "string \<Rightarrow> nat \<Rightarrow> bytes option"
  to_utf8 :: "bytes \<Rightarrow> nat \<Rightarrow> string option"

text \<open>What both services do first: a second of listening.\<close>

definition dbb_online_broadcast_service :: "charset \<Rightarrow> dbb_world \<Rightarrow> dbb_world" where
  "dbb_online_broadcast_service cs w =
     (let (rc, response, p) = dbb_capture_response None DBB_MAX_RESPONSE 1000 (dport w);
          w = w\<lparr>dport := p\<rparr>
      in if rc = 0 then dbb_handle_urc_blob (to_utf8 cs) (c_str response) w else w)"

definition demo_uplink_raw :: bytes where
  "demo_uplink_raw = bytes_of_string ''DBB-UP-DEMO''"

definition online_uplink :: "int \<Rightarrow> dbb_world \<Rightarrow> dbb_world" where
  "online_uplink now w =
     (if last_uplink_ts (dbb w) = 0 \<or> now - last_uplink_ts (dbb w) \<ge> uplink_interval_sec (dbb w) then
        let (rc, w) = on_port (dbb_send_uplink demo_uplink_raw DBB_DATA_CODEC_BASE64) w
        in if rc = 0 then w\<lparr>dbb := (dbb w)\<lparr>last_uplink_ts := now\<rparr>\<rparr> else w
      else w)"

definition online_sms :: "charset \<Rightarrow> dbb_world \<Rightarrow> dbb_world" where
  "online_sms cs w =
     (if sms_send_once_done (dbb w) = 0 \<and> sms_target (dbb w) \<noteq> [] \<and> sms_text (dbb w) \<noteq> [] then
        let (rc, w) = on_port (dbb_send_sms (to_ucs2 cs) (sms_target (dbb w)) (sms_text (dbb w))) w
        in if rc = 0 then w\<lparr>dbb := (dbb w)\<lparr>sms_send_once_done := 1\<rparr>\<rparr> else w
      else w)"

definition dbb_online_service :: "charset \<Rightarrow> int \<Rightarrow> dbb_world \<Rightarrow> dbb_world" where
  "dbb_online_service cs now w =
     online_sms cs (online_uplink now (dbb_online_broadcast_service cs w))"

section \<open>One iteration\<close>

text \<open>The states of normal mode that send one command and go on when it succeeds.\<close>

definition expect_then :: "string \<Rightarrow> string \<Rightarrow> dbb_status_t \<Rightarrow> dbb_world \<Rightarrow> dbb_world" where
  "expect_then cmd expect next w =
     (let (rc, w) = on_port (dbb_at_expect cmd (Some expect)) w
      in if rc = 0 then set_status next w else w)"

definition DBB_WAIT_EVENT_TIMEOUT_MS :: nat where "DBB_WAIT_EVENT_TIMEOUT_MS = 30000"

definition wait_then :: "string \<Rightarrow> dbb_status_t \<Rightarrow> dbb_world \<Rightarrow> dbb_world" where
  "wait_then txt next w =
     (let (rc, _, p) = dbb_wait_for_text txt DBB_MAX_RESPONSE DBB_WAIT_EVENT_TIMEOUT_MS (dport w);
          w = w\<lparr>dport := p\<rparr>
      in if rc = 0 then set_status next w else w)"

definition broadcast_step :: "charset \<Rightarrow> dbb_world \<Rightarrow> dbb_world" where
  "broadcast_step cs w =
     (case dbb_status (dbb w) of
        DEV_DBB_IDLE \<Rightarrow> dbb_sleep 1 (dbb_led 0 w)
      | DEV_DBB_ONLINE_BROADCAST \<Rightarrow> dbb_online_broadcast_service cs w
      | DEV_DBB_POWER_OFF \<Rightarrow> set_status DEV_DBB_IDLE w
      | DEV_DBB_PSDATA_OK \<Rightarrow> set_status DEV_DBB_INIT w
      | _ \<Rightarrow>
          (let (rc, w) = on_port dbb_cfg_broadcast_mode w
           in if rc = 0 then dbb_led 1 (set_status DEV_DBB_ONLINE_BROADCAST w) else dbb_sleep 1 w))"

definition normal_step :: "charset \<Rightarrow> int \<Rightarrow> dbb_world \<Rightarrow> dbb_world" where
  "normal_step cs now w =
     (case dbb_status (dbb w) of
        DEV_DBB_IDLE \<Rightarrow> dbb_sleep 1 (dbb_led 0 w)
      | DEV_DBB_ONLINE_BROADCAST \<Rightarrow>
          (let (rc, w) = on_port dbb_cfg_normal_mode w
           in if rc = 0 then set_status DEV_DBB_INIT w else dbb_sleep 1 w)
      | DEV_DBB_INIT \<Rightarrow> dbb_led 0 (set_status DEV_DBB_POWER_ON w)
      | DEV_DBB_POWER_ON \<Rightarrow> expect_then ''AT+CIMI'' ''OK'' DEV_DBB_SIM_READY w
      | DEV_DBB_SIM_READY \<Rightarrow> expect_then ''AT+CFUN=5'' ''OK'' DEV_DBB_CFUN_OK w
      | DEV_DBB_CFUN_OK \<Rightarrow> expect_then ''AT+CREG=1'' ''OK'' DEV_DBB_CREG_OK w
      | DEV_DBB_CREG_OK \<Rightarrow> expect_then ''AT+CNMI=2,2,0,1,0'' ''OK'' DEV_DBB_CNMI_OK w
      | DEV_DBB_CNMI_OK \<Rightarrow> expect_then ''AT+DSCI=1'' ''OK'' DEV_DBB_DSCI_OK w
      | DEV_DBB_DSCI_OK \<Rightarrow> expect_then (''AT+CGDCONT=1,'' @ quoted ''IP'') ''OK'' DEV_DBB_CGDCONT_OK w
      | DEV_DBB_CGDCONT_OK \<Rightarrow> expect_then ''AT^PSDATA=2'' ''OK'' DEV_DBB_WAIT_CREGXW w
      | DEV_DBB_WAIT_CREGXW \<Rightarrow> expect_then ''AT+CREGXW?'' ''+CREGXW:1'' DEV_DBB_WAIT_CREV w
      | DEV_DBB_WAIT_CREV \<Rightarrow> wait_then ''+CREV: ME PDN ACT 1'' DEV_DBB_WAIT_CIREG w
      | DEV_DBB_WAIT_CIREG \<Rightarrow>
          (let (rc, w) = on_port (dbb_at_expect ''AT+CIREG?'' (Some ''+CIREG:1'')) w
           in if rc = 0 then dbb_led 1 (set_status DEV_DBB_ONLINE w) else w)
      | DEV_DBB_ONLINE \<Rightarrow> dbb_online_service cs now w
      | DEV_DBB_POWER_OFF \<Rightarrow> set_status DEV_DBB_IDLE w
      | DEV_DBB_PSDATA_OK \<Rightarrow> set_status DEV_DBB_INIT w)"

definition dbb_online_func :: "charset \<Rightarrow> int \<Rightarrow> dbb_world \<Rightarrow> dbb_world" where
  "dbb_online_func cs now w =
     (if dbb_mode (dbb w) = DBB_MODE_BROADCAST then broadcast_step cs w else normal_step cs now w)"

text \<open>The start of \<open>dbb_thread_func\<close>; the result of opening the device is not looked at.\<close>

definition dbb_thread_start :: "dbb_world \<Rightarrow> dbb_world" where
  "dbb_thread_start w =
     (let w = dbb_sleep 10 w;
          w = w\<lparr>dbb := (dbb w)\<lparr>dbb_enabled := 1, dbb_status := DEV_DBB_INIT\<rparr>\<rparr>
      in w\<lparr>dport := snd (dbb_open_device (dbb_close_device (dport w)))\<rparr>)"

text \<open>The print switches, the only part of the block that the console changes. The other threads
  change the receiver's state in between.\<close>

definition ctrl_set_print :: "bool \<Rightarrow> bool \<Rightarrow> dbb_ctrl_t \<Rightarrow> dbb_ctrl_t" where
  "ctrl_set_print is_info on d =
     (let v = (if on then DBB_PRINT_ON else DBB_PRINT_OFF)
      in if is_info then d\<lparr>dbb_print_info := v\<rparr> else d\<lparr>dbb_print_err := v\<rparr>)"

definition dbb_set_print :: "bool \<Rightarrow> bool \<Rightarrow> dbb_world \<Rightarrow> dbb_world" where
  "dbb_set_print is_info on w = w\<lparr>dbb := ctrl_set_print is_info on (dbb w)\<rparr>"

inductive dbb_reach :: "charset \<Rightarrow> dbb_world \<Rightarrow> dbb_world \<Rightarrow> bool" for cs w0 where
  start: "dbb_reach cs w0 (dbb_thread_start w0)"
| iteration: "dbb_reach cs w0 w \<Longrightarrow> dbb_reach cs w0 (dbb_online_func cs now w)"
| print: "dbb_reach cs w0 w \<Longrightarrow> dbb_reach cs w0 (dbb_set_print is_info on w)"
| receiver: "dbb_reach cs w0 w \<Longrightarrow> dbb_reach cs w0 (w\<lparr>dgnss := g\<rparr>)"

section \<open>What an operation leaves alone\<close>

lemma dlnetdata_record_keeps:
  "dbb_status (dlnetdata_record p d) = dbb_status d" "dbb_mode (dlnetdata_record p d) = dbb_mode d"
  "last_uplink_ts (dlnetdata_record p d) = last_uplink_ts d"
  "uplink_interval_sec (dlnetdata_record p d) = uplink_interval_sec d"
  "sms_send_once_done (dlnetdata_record p d) = sms_send_once_done d"
  "sms_target (dlnetdata_record p d) = sms_target d" "sms_text (dlnetdata_record p d) = sms_text d"
  by (auto simp: dlnetdata_record_def Let_def split: option.splits prod.splits)

lemma handle_dlnetdata_keeps [simp]:
  "dbb_status (dbb_handle_dlnetdata p d) = dbb_status d"
  "dbb_mode (dbb_handle_dlnetdata p d) = dbb_mode d"
  "last_uplink_ts (dbb_handle_dlnetdata p d) = last_uplink_ts d"
  "uplink_interval_sec (dbb_handle_dlnetdata p d) = uplink_interval_sec d"
  "sms_send_once_done (dbb_handle_dlnetdata p d) = sms_send_once_done d"
  "sms_target (dbb_handle_dlnetdata p d) = sms_target d"
  "sms_text (dbb_handle_dlnetdata p d) = sms_text d"
  by (induction p d rule: dbb_handle_dlnetdata.induct;
      subst dbb_handle_dlnetdata.simps; auto simp: dlnetdata_record_keeps split: option.splits)+

lemma urc_blob_keeps [simp]:
  "dport (dbb_handle_urc_blob u r w) = dport w" "dio (dbb_handle_urc_blob u r w) = dio w"
  "dbb_status (dbb (dbb_handle_urc_blob u r w)) = dbb_status (dbb w)"
  "dbb_mode (dbb (dbb_handle_urc_blob u r w)) = dbb_mode (dbb w)"
  "last_uplink_ts (dbb (dbb_handle_urc_blob u r w)) = last_uplink_ts (dbb w)"
  "uplink_interval_sec (dbb (dbb_handle_urc_blob u r w)) = uplink_interval_sec (dbb w)"
  "sms_send_once_done (dbb (dbb_handle_urc_blob u r w)) = sms_send_once_done (dbb w)"
  "sms_target (dbb (dbb_handle_urc_blob u r w)) = sms_target (dbb w)"
  "sms_text (dbb (dbb_handle_urc_blob u r w)) = sms_text (dbb w)"
  "downlink_ok (dbb w) \<Longrightarrow> downlink_ok (dbb (dbb_handle_urc_blob u r w))"
  by (simp_all add: dbb_handle_urc_blob_def handle_dlnetdata_ok)

lemma dbb_helpers_keep [simp]:
  "dbb (dbb_sleep s w) = dbb w" "dbb (dbb_led on w) = dbb w"
  "tx_log (dport (dbb_sleep s w)) = tx_log (dport w)" "dport (dbb_led on w) = dport w"
  "dport (set_status t w) = dport w" "dbb (set_status t w) = (dbb w)\<lparr>dbb_status := t\<rparr>"
  by (simp_all add: dbb_sleep_def port_sleep_def dbb_led_def set_status_def)

lemma downlink_ok_update [simp]:
  "downlink_ok (d\<lparr>dbb_status := t\<rparr>) = downlink_ok d" "downlink_ok (d\<lparr>last_uplink_ts := n\<rparr>) = downlink_ok d"
  "downlink_ok (d\<lparr>sms_send_once_done := b\<rparr>) = downlink_ok d" "downlink_ok (d\<lparr>dbb_enabled := b\<rparr>) = downlink_ok d"
  "downlink_ok (d\<lparr>dbb_print_info := v\<rparr>) = downlink_ok d" "downlink_ok (d\<lparr>dbb_print_err := v\<rparr>) = downlink_ok d"
  by (simp_all add: downlink_ok_def)

lemma on_port_keeps:
  "on_port f w = (rc, w') \<Longrightarrow> w' = w\<lparr>dport := snd (f (dport w))\<rparr> \<and> rc = fst (f (dport w))"
  by (auto simp: on_port_def split: prod.splits)

lemma broadcast_service_keeps [simp]:
  "dbb_status (dbb (dbb_online_broadcast_service cs w)) = dbb_status (dbb w)"
  "dbb_mode (dbb (dbb_online_broadcast_service cs w)) = dbb_mode (dbb w)"
  "last_uplink_ts (dbb (dbb_online_broadcast_service cs w)) = last_uplink_ts (dbb w)"
  "uplink_interval_sec (dbb (dbb_online_broadcast_service cs w)) = uplink_interval_sec (dbb w)"
  "sms_send_once_done (dbb (dbb_online_broadcast_service cs w)) = sms_send_once_done (dbb w)"
  "downlink_ok (dbb w) \<Longrightarrow> downlink_ok (dbb (dbb_online_broadcast_service cs w))"
  by (simp_all add: dbb_online_broadcast_service_def Let_def split: prod.splits)

lemma broadcast_service_sends_nothing [simp]:
  "tx_log (dport (dbb_online_broadcast_service cs w)) = tx_log (dport w)"
proof -
  obtain rc r p where x: "dbb_capture_response None DBB_MAX_RESPONSE 1000 (dport w) = (rc, r, p)"
    by (metis prod_cases3)
  have "tx_log p = tx_log (dport w)"
    using capture_response_log [OF x [unfolded dbb_capture_response_def]] by auto
  then show ?thesis by (simp add: dbb_online_broadcast_service_def x Let_def)
qed

lemma online_uplink_keeps:
  "dbb_status (dbb (online_uplink now w)) = dbb_status (dbb w)" "dbb_mode (dbb (online_uplink now w)) = dbb_mode (dbb w)"
  "downlink_ok (dbb w) \<Longrightarrow> downlink_ok (dbb (online_uplink now w))"
  "sms_send_once_done (dbb (online_uplink now w)) = sms_send_once_done (dbb w)"
  by (auto simp: online_uplink_def on_port_def split: prod.splits)

lemma online_sms_keeps:
  "dbb_status (dbb (online_sms cs w)) = dbb_status (dbb w)" "dbb_mode (dbb (online_sms cs w)) = dbb_mode (dbb w)"
  "downlink_ok (dbb w) \<Longrightarrow> downlink_ok (dbb (online_sms cs w))"
  "last_uplink_ts (dbb (online_sms cs w)) = last_uplink_ts (dbb w)"
  by (auto simp: online_sms_def on_port_def split: prod.splits)

lemma online_service_keeps:
  "dbb_status (dbb (dbb_online_service cs now w)) = dbb_status (dbb w)"
  "dbb_mode (dbb (dbb_online_service cs now w)) = dbb_mode (dbb w)"
  "downlink_ok (dbb w) \<Longrightarrow> downlink_ok (dbb (dbb_online_service cs now w))"
  by (simp_all add: dbb_online_service_def online_sms_keeps online_uplink_keeps)

section \<open>The two chains of commands\<close>

text \<open>The log of a port only grows.\<close>

definition log_grows :: "at_port \<Rightarrow> at_port \<Rightarrow> bool" where
  "log_grows p q \<longleftrightarrow> prefix (tx_log p) (tx_log q)"

lemma log_grows_refl: "log_grows p p"
  by (simp add: log_grows_def)

lemma log_grows_trans: "log_grows p q \<Longrightarrow> log_grows q r \<Longrightarrow> log_grows p r"
  unfolding log_grows_def by (rule prefix_order.trans)

lemma at_expect_grows: "dbb_at_expect c e p = (rc, q) \<Longrightarrow> log_grows p q"
  using dbb_at_expect_sent(1) [of c e p rc q] by (auto simp: log_grows_def)

lemma capture_grows: "dbb_capture_response c n m p = (rc, r, q) \<Longrightarrow> log_grows p q"
  using capture_response_log [of 256 "[CR]" c n m p rc r q] by (auto simp: log_grows_def dbb_capture_response_def)

lemma write_all_grows: "dbb_write_all b p = (rc, q) \<Longrightarrow> log_grows p q"
  using port_write_all_log [of b p rc q] by (auto simp: log_grows_def dbb_write_all_def)

text \<open>The first part of the broadcast set-up is a chain, and so is its last part.\<close>

definition BROADCAST_1 :: "(string \<times> string option) list" where
  "BROADCAST_1 = [(''AT^MISWITCH=0'', Some ''OK''), (''AT^BMCARDSWITCH=0'', Some ''OK''), (''AT^DUMMYUSIM=1'', Some ''OK'')]"

definition BROADCAST_2 :: "(string \<times> string option) list" where
  "BROADCAST_2 = [(''AT^SSRINFOXW=1'', Some ''OK''), (''AT+CFUN=1'', Some ''OK'')]"

lemma broadcast_chain:
  "dbb_cfg_broadcast_mode p =
     (let (rc, p) = dbb.chain BROADCAST_1 p
      in if rc < 0 then (- 1, p)
         else let p = port_sleep 1 (snd (dbb_at_expect ''AT^BBICRSTSW=1'' None p));
                  (rc, p) = dbb.chain BROADCAST_2 p
              in if rc < 0 then (- 1, p) else (0, port_sleep 5 p))"
  by (simp add: dbb_cfg_broadcast_mode_def BROADCAST_1_def BROADCAST_2_def Let_def split: prod.splits)

text \<open>The broadcast set-up, when it succeeds, has put its commands on the line in this order.\<close>

lemma broadcast_setup_sent:
  assumes "dbb_cfg_broadcast_mode p = (0, p')"
  shows "\<exists>o1. prefix o1 (''AT^BBICRSTSW=1'' @ [CR]) \<and>
    tx_log p' = tx_log p @ dbb.wire BROADCAST_1 @ o1 @ dbb.wire BROADCAST_2"
proof -
  obtain r1 p1 where 1: "dbb.chain BROADCAST_1 p = (r1, p1)" by force
  obtain r2 p2 where 2: "dbb_at_expect ''AT^BBICRSTSW=1'' None p1 = (r2, p2)" by force
  obtain r3 p3 where 3: "dbb.chain BROADCAST_2 (port_sleep (Suc 0) p2) = (r3, p3)" by force
  have r: "r1 = 0" "r3 = 0" "p' = port_sleep 5 p3"
    using assms dbb.chain_result [OF 1] dbb.chain_result [OF 3]
    by (auto simp: broadcast_chain 1 2 3 split: if_splits)
  have l1: "tx_log p1 = tx_log p @ dbb.wire BROADCAST_1" using dbb.chain_sent [OF 1] r by auto
  obtain o1 where o1: "tx_log p2 = tx_log p1 @ o1" "prefix o1 (''AT^BBICRSTSW=1'' @ [CR])"
    using dbb_at_expect_sent(1) [OF 2] by auto
  have l3: "tx_log p3 = tx_log p2 @ dbb.wire BROADCAST_2"
    using dbb.chain_sent [OF 3] r by (auto simp: port_sleep_def)
  show ?thesis using r l1 o1 l3 by (auto simp: port_sleep_def)
qed

lemma broadcast_setup_grows: "dbb_cfg_broadcast_mode p = (rc, q) \<Longrightarrow> log_grows p q"
proof -
  assume a: "dbb_cfg_broadcast_mode p = (rc, q)"
  obtain r1 p1 where 1: "dbb.chain BROADCAST_1 p = (r1, p1)" by force
  obtain r2 p2 where 2: "dbb_at_expect ''AT^BBICRSTSW=1'' None p1 = (r2, p2)" by force
  obtain r3 p3 where 3: "dbb.chain BROADCAST_2 (port_sleep (Suc 0) p2) = (r3, p3)" by force
  have g: "log_grows p p1" "log_grows p1 p2" "log_grows p2 p3"
    using dbb.chain_sent [OF 1] at_expect_grows [OF 2] dbb.chain_sent [OF 3]
    by (auto simp: log_grows_def port_sleep_def)
  then have "log_grows p p3" by (blast intro: log_grows_trans)
  moreover have "log_grows p1 (port_sleep 5 p3) \<longleftrightarrow> log_grows p1 p3" "log_grows p (port_sleep 5 p3) \<longleftrightarrow> log_grows p p3"
    by (simp_all add: log_grows_def port_sleep_def)
  moreover have "(rc, q) = (if r1 < 0 then (- 1, p1) else if r3 < 0 then (- 1, p3) else (0, port_sleep 5 p3))"
    using a by (simp add: broadcast_chain 1 2 3 Let_def split: if_splits)
  ultimately show ?thesis using g(1) by (auto split: if_splits)
qed

section \<open>Broadcast mode\<close>

definition broadcast_inv :: "dbb_world \<Rightarrow> bool" where
  "broadcast_inv w \<longleftrightarrow> dbb_mode (dbb w) = DBB_MODE_BROADCAST \<and> downlink_ok (dbb w)
     \<and> dbb_status (dbb w) \<in> {DEV_DBB_INIT, DEV_DBB_ONLINE_BROADCAST}"

definition broadcast_order :: "string \<Rightarrow> bool" where
  "broadcast_order s \<longleftrightarrow> (\<exists>a o1. prefix o1 (''AT^BBICRSTSW=1'' @ [CR]) \<and>
     prefix (a @ dbb.wire BROADCAST_1 @ o1 @ dbb.wire BROADCAST_2) s)"

lemma broadcast_order_grows: "broadcast_order s \<Longrightarrow> prefix s t \<Longrightarrow> broadcast_order t"
  unfolding broadcast_order_def by (blast intro: prefix_order.trans)

lemma broadcast_step_inv:
  assumes "broadcast_inv w"
    "dbb_status (dbb w) = DEV_DBB_ONLINE_BROADCAST \<longrightarrow> broadcast_order (tx_log (dport w))"
  shows "broadcast_inv (dbb_online_func cs now w) \<and>
    (dbb_status (dbb (dbb_online_func cs now w)) = DEV_DBB_ONLINE_BROADCAST
       \<longrightarrow> broadcast_order (tx_log (dport (dbb_online_func cs now w))))"
proof (cases "dbb_status (dbb w) = DEV_DBB_INIT")
  case True
  obtain rc w1 where x: "on_port dbb_cfg_broadcast_mode w = (rc, w1)" by force
  have w1: "dbb_cfg_broadcast_mode (dport w) = (rc, dport w1)" and keeps: "dbb w1 = dbb w"
    using on_port_keeps [OF x] by (simp_all add: prod_eq_iff)
  have o: "broadcast_order (tx_log (dport w1))" if "rc = 0"
  proof -
    from broadcast_setup_sent [OF w1 [unfolded that]] obtain o1
      where o1: "prefix o1 (''AT^BBICRSTSW=1'' @ [CR])"
        "tx_log (dport w1) = tx_log (dport w) @ dbb.wire BROADCAST_1 @ o1 @ dbb.wire BROADCAST_2" by (elim exE conjE)
    show ?thesis unfolding broadcast_order_def
      by (intro exI [of _ "tx_log (dport w)"] exI [of _ o1] conjI o1(1)) (simp only: o1(2) prefix_order.order_refl)
  qed
  show ?thesis using assms True keeps o
    by (simp add: dbb_online_func_def broadcast_step_def broadcast_inv_def x)
next
  case False
  then show ?thesis using assms
    by (auto simp: dbb_online_func_def broadcast_step_def broadcast_inv_def)
qed

lemma dbb_thread_start_keeps:
  "dbb_mode (dbb (dbb_thread_start w)) = dbb_mode (dbb w)"
  "dbb_status (dbb (dbb_thread_start w)) = DEV_DBB_INIT"
  "downlink_ok (dbb (dbb_thread_start w)) = downlink_ok (dbb w)"
  by (simp_all add: dbb_thread_start_def Let_def)

lemma broadcast_reach_inv:
  assumes "dbb_reach cs w0 w" "dbb_mode (dbb w0) = DBB_MODE_BROADCAST" "downlink_ok (dbb w0)"
  shows "broadcast_inv w \<and> (dbb_status (dbb w) = DEV_DBB_ONLINE_BROADCAST \<longrightarrow> broadcast_order (tx_log (dport w)))"
  using assms(1)
proof induction
  case start
  then show ?case using assms by (simp add: broadcast_inv_def dbb_thread_start_keeps)
next
  case (iteration w now)
  then show ?case using broadcast_step_inv by blast
next
  case (print w is_info on)
  then show ?case by (simp add: broadcast_inv_def dbb_set_print_def ctrl_set_print_def Let_def)
next
  case (receiver w g)
  then show ?case by (simp add: broadcast_inv_def)
qed

section \<open>Normal mode\<close>

text \<open>The commands that were acknowledged when a state of the set-up is reached.\<close>

fun setup_before :: "dbb_status_t \<Rightarrow> string list option" where
  "setup_before DEV_DBB_INIT = Some []"
| "setup_before DEV_DBB_POWER_ON = Some []"
| "setup_before DEV_DBB_SIM_READY = Some [''AT+CIMI'']"
| "setup_before DEV_DBB_CFUN_OK = Some [''AT+CIMI'', ''AT+CFUN=5'']"
| "setup_before DEV_DBB_CREG_OK = Some [''AT+CIMI'', ''AT+CFUN=5'', ''AT+CREG=1'']"
| "setup_before DEV_DBB_CNMI_OK = Some [''AT+CIMI'', ''AT+CFUN=5'', ''AT+CREG=1'', ''AT+CNMI=2,2,0,1,0'']"
| "setup_before DEV_DBB_DSCI_OK =
     Some [''AT+CIMI'', ''AT+CFUN=5'', ''AT+CREG=1'', ''AT+CNMI=2,2,0,1,0'', ''AT+DSCI=1'']"
| "setup_before DEV_DBB_CGDCONT_OK =
     Some [''AT+CIMI'', ''AT+CFUN=5'', ''AT+CREG=1'', ''AT+CNMI=2,2,0,1,0'', ''AT+DSCI=1'',
           ''AT+CGDCONT=1,'' @ quoted ''IP'']"
| "setup_before DEV_DBB_WAIT_CREGXW =
     Some [''AT+CIMI'', ''AT+CFUN=5'', ''AT+CREG=1'', ''AT+CNMI=2,2,0,1,0'', ''AT+DSCI=1'',
           ''AT+CGDCONT=1,'' @ quoted ''IP'', ''AT^PSDATA=2'']"
| "setup_before DEV_DBB_WAIT_CREV =
     Some [''AT+CIMI'', ''AT+CFUN=5'', ''AT+CREG=1'', ''AT+CNMI=2,2,0,1,0'', ''AT+DSCI=1'',
           ''AT+CGDCONT=1,'' @ quoted ''IP'', ''AT^PSDATA=2'', ''AT+CREGXW?'']"
| "setup_before DEV_DBB_WAIT_CIREG =
     Some [''AT+CIMI'', ''AT+CFUN=5'', ''AT+CREG=1'', ''AT+CNMI=2,2,0,1,0'', ''AT+DSCI=1'',
           ''AT+CGDCONT=1,'' @ quoted ''IP'', ''AT^PSDATA=2'', ''AT+CREGXW?'']"
| "setup_before DEV_DBB_ONLINE =
     Some [''AT+CIMI'', ''AT+CFUN=5'', ''AT+CREG=1'', ''AT+CNMI=2,2,0,1,0'', ''AT+DSCI=1'',
           ''AT+CGDCONT=1,'' @ quoted ''IP'', ''AT^PSDATA=2'', ''AT+CREGXW?'', ''AT+CIREG?'']"
| "setup_before _ = None"

definition setup_seen :: "dbb_world \<Rightarrow> bool" where
  "setup_seen w \<longleftrightarrow>
     (\<exists>cs. setup_before (dbb_status (dbb w)) = Some cs \<and> in_order (map (\<lambda>c. c @ [CR]) cs) (tx_log (dport w)))"

definition normal_inv :: "dbb_world \<Rightarrow> bool" where
  "normal_inv w \<longleftrightarrow> dbb_mode (dbb w) = DBB_MODE_NORMAL \<and> downlink_ok (dbb w) \<and> setup_seen w"

lemma expect_then_cases:
  "(expect_then c e next w = w\<lparr>dport := p\<rparr> \<and> log_grows (dport w) p) \<or>
   (\<exists>p. expect_then c e next w = set_status next (w\<lparr>dport := p\<rparr>) \<and> tx_log p = tx_log (dport w) @ c @ [CR])"
  if "p = snd (dbb_at_expect c (Some e) (dport w))" for p
proof -
  obtain rc q where x: "dbb_at_expect c (Some e) (dport w) = (rc, q)" by force
  then show ?thesis using that dbb_at_expect_sent(1) [OF x] at_expect_grows [OF x]
    by (auto simp: expect_then_def on_port_def)
qed

lemma setup_seen_unchanged:
  assumes "normal_inv w" "log_grows (dport w) p"
  shows "normal_inv (w\<lparr>dport := p\<rparr>)"
  using assms by (auto simp: normal_inv_def setup_seen_def log_grows_def intro: in_order_grows)

lemma setup_seen_advance:
  assumes "normal_inv w" "tx_log p = tx_log (dport w) @ c @ [CR]"
    "setup_before (dbb_status (dbb w)) = Some cs" "setup_before next = Some (cs @ [c])"
  shows "normal_inv (set_status next (w\<lparr>dport := p\<rparr>))"
  using assms in_order_append [of "map (\<lambda>c. c @ [CR]) cs" "tx_log (dport w)" "c @ [CR]"]
  by (auto simp: normal_inv_def setup_seen_def set_status_def)

lemma expect_then_normal_inv:
  assumes "normal_inv w" "setup_before (dbb_status (dbb w)) = Some cs" "setup_before next = Some (cs @ [c])"
  shows "normal_inv (expect_then c e next w)"
  using expect_then_cases [OF refl, of c e "next" w] setup_seen_unchanged [OF assms(1)]
    setup_seen_advance [OF assms(1) _ assms(2,3)]
  by auto

lemma wait_then_normal_inv:
  assumes "normal_inv w" "setup_before next = setup_before (dbb_status (dbb w))"
  shows "normal_inv (wait_then txt next w)"
proof -
  obtain rc r p where x: "dbb_wait_for_text txt DBB_MAX_RESPONSE DBB_WAIT_EVENT_TIMEOUT_MS (dport w) = (rc, r, p)"
    by (metis prod_cases3)
  obtain rc1 r1 p1 where y: "dbb_capture_response None DBB_MAX_RESPONSE DBB_WAIT_EVENT_TIMEOUT_MS (dport w) = (rc1, r1, p1)"
    by (metis prod_cases3)
  have g: "log_grows (dport w) p"
    using x capture_grows [OF y] by (auto simp: dbb_wait_for_text_def y log_grows_refl split: if_splits)
  have i: "normal_inv (w\<lparr>dport := p\<rparr>)" using assms(1) g by (rule setup_seen_unchanged)
  then show ?thesis using assms(2)
    by (auto simp: wait_then_def x Let_def normal_inv_def setup_seen_def set_status_def)
qed

lemma normal_inv_led [simp]: "normal_inv (dbb_led on w) = normal_inv w"
  by (simp add: normal_inv_def setup_seen_def)

text \<open>What the online service does to the line is more traffic after the set-up.\<close>

lemma send_uplink_grows: "dbb_send_uplink raw codec p = (rc, q) \<Longrightarrow> log_grows p q"
  by (auto simp: dbb_send_uplink_def Let_def log_grows_refl dest!: at_expect_grows
      split: option.splits prod.splits if_splits)

lemma send_sms_grows:
  assumes "dbb_send_sms u a t p = (rc, q)"
  shows "log_grows p q"
proof (cases "dbb_build_sms_submit_pdu u a t DBB_MAX_SMS_PDU_HEX")
  case None
  then show ?thesis using assms by (simp add: dbb_send_sms_def log_grows_refl)
next
  case (Some r)
  then obtain hex len where b: "dbb_build_sms_submit_pdu u a t DBB_MAX_SMS_PDU_HEX = Some (hex, len)" by (cases r) auto
  obtain r1 s1 p1 where 1: "dbb_capture_response (Some (c_snprintf 64 (''AT+CMGS='' @ show_int len)))
      DBB_MAX_RESPONSE DBB_AT_TIMEOUT_MS p = (r1, s1, p1)" by (metis prod_cases3)
  obtain r2 p2 where 2: "dbb_write_all hex p1 = (r2, p2)" by force
  obtain r3 p3 where 3: "dbb_write_all CTRL_Z p2 = (r3, p3)" by force
  obtain r4 s4 p4 where 4: "dbb_capture_response None DBB_MAX_RESPONSE 10000 p3 = (r4, s4, p4)" by (metis prod_cases3)
  have g: "log_grows p p1" "log_grows p p2" "log_grows p p3" "log_grows p p4"
    using capture_grows [OF 1] write_all_grows [OF 2] write_all_grows [OF 3] capture_grows [OF 4]
    by (blast intro: log_grows_trans)+
  have "q \<in> {p1, p2, p3, p4}"
    using assms unfolding dbb_send_sms_def b option.case prod.case Let_def 1 2 3 4 by (auto split: if_splits)
  then show ?thesis using g by auto
qed

lemma online_service_grows: "log_grows (dport w) (dport (dbb_online_service cs now w))"
proof -
  let ?a = "dbb_online_broadcast_service cs w"
  let ?b = "online_uplink now ?a"
  have "log_grows (dport w) (dport ?a)" by (simp add: log_grows_def)
  moreover have "log_grows (dport ?a) (dport ?b)"
    using send_uplink_grows by (auto simp: online_uplink_def on_port_def log_grows_refl split: prod.splits)
  moreover have "log_grows (dport ?b) (dport (online_sms cs ?b))"
    using send_sms_grows by (auto simp: online_sms_def on_port_def log_grows_refl split: prod.splits)
  ultimately show ?thesis unfolding dbb_online_service_def by (blast intro: log_grows_trans)
qed

lemma online_service_normal_inv:
  assumes "normal_inv w"
  shows "normal_inv (dbb_online_service cs now w)"
proof -
  have "tx_log (dport (dbb_online_service cs now w)) = tx_log (dport w) @ drop (length (tx_log (dport w))) (tx_log (dport (dbb_online_service cs now w)))"
    using online_service_grows [of w cs now] by (auto simp: log_grows_def prefix_def)
  then show ?thesis using assms online_service_grows [of w cs now]
    by (auto simp: normal_inv_def setup_seen_def online_service_keeps log_grows_def intro: in_order_grows)
qed

text \<open>The last command of the set-up is followed by the LED.\<close>

lemma wait_cireg_step:
  "(let (rc, w) = on_port (dbb_at_expect c (Some e)) w in if rc = 0 then dbb_led 1 (set_status next w) else w)
   = (let v = expect_then c e next w
      in if fst (dbb_at_expect c (Some e) (dport w)) = 0 then dbb_led 1 v else v)"
  by (simp add: expect_then_def on_port_def split: prod.splits)

lemma normal_step_inv:
  assumes "normal_inv w"
  shows "normal_inv (normal_step cs now w)"
proof (cases "dbb_status (dbb w)")
  case DEV_DBB_WAIT_CIREG
  have "normal_inv (expect_then ''AT+CIREG?'' ''+CIREG:1'' DEV_DBB_ONLINE w)"
    using assms by (rule expect_then_normal_inv) (simp_all add: DEV_DBB_WAIT_CIREG)
  then show ?thesis unfolding normal_step_def DEV_DBB_WAIT_CIREG dbb_status_t.case wait_cireg_step
    by (simp add: Let_def)
next
  case DEV_DBB_INIT
  then show ?thesis using assms
    by (simp add: normal_step_def) (simp add: normal_inv_def setup_seen_def)
next
  case DEV_DBB_WAIT_CREV
  then show ?thesis using assms by (simp add: normal_step_def wait_then_normal_inv)
next
  case DEV_DBB_ONLINE
  then show ?thesis using assms by (simp add: normal_step_def online_service_normal_inv)
qed (use assms in \<open>simp_all add: normal_step_def expect_then_normal_inv\<close>,
     use assms in \<open>simp_all add: normal_inv_def setup_seen_def\<close>)

lemma normal_reach_inv:
  assumes "dbb_reach cs w0 w" "dbb_mode (dbb w0) = DBB_MODE_NORMAL" "downlink_ok (dbb w0)"
  shows "normal_inv w"
  using assms(1)
proof induction
  case start
  then show ?case using assms
    by (simp add: normal_inv_def setup_seen_def dbb_thread_start_keeps in_order.Nil)
next
  case (iteration w now)
  then have "dbb_online_func cs now w = normal_step cs now w"
    by (simp add: dbb_online_func_def normal_inv_def)
  then show ?case using normal_step_inv [OF iteration.IH] by simp
next
  case (print w is_info on)
  then show ?case by (simp add: normal_inv_def setup_seen_def dbb_set_print_def ctrl_set_print_def Let_def)
next
  case (receiver w g)
  then show ?case by (simp add: normal_inv_def setup_seen_def)
qed

text \<open>Once online, the module stays in the state: nothing in the loop takes it back.\<close>

lemma normal_online_stays:
  assumes "dbb_mode (dbb w) = DBB_MODE_NORMAL" "dbb_status (dbb w) = DEV_DBB_ONLINE"
  shows "dbb_status (dbb (dbb_online_func cs now w)) = DEV_DBB_ONLINE"
  using assms by (simp add: dbb_online_func_def normal_step_def online_service_keeps)

text \<open>Uplinks of the service are at least the interval apart, by the clock of the service.\<close>

lemma online_uplink_interval:
  assumes "last_uplink_ts (dbb (dbb_online_service cs now w)) \<noteq> last_uplink_ts (dbb w)"
  shows "last_uplink_ts (dbb (dbb_online_service cs now w)) = now \<and>
    (last_uplink_ts (dbb w) = 0 \<or> now - last_uplink_ts (dbb w) \<ge> uplink_interval_sec (dbb w))"
  using assms
  by (auto simp: dbb_online_service_def online_sms_keeps online_uplink_def on_port_def split: prod.splits if_splits)

end
