(* ===== verification/Eth4g.thy ===== *)
theory Eth4g
  imports AtPort Gpio
begin

text \<open>
  The 4G module, \<open>core/src/eth_4g.c\<close>: AT exchanges on a port that is opened on demand,
  queries of the modem, the shell commands for the network interface, and one iteration of
  the state machine. The results of \<open>system\<close> and \<open>access\<close> are scripts; a command that the
  script does not cover fails. \<open>getenv\<close> is the parameter \<open>env\<close>.
\<close>

section \<open>State\<close>

datatype eth_4g_Status_t =
    DEV_4G_IDLE | DEV_4G_INIT | DEV_4G_POWER_ON | DEV_4G_AT_READY | DEV_4G_SIM_READY
  | DEV_4G_SIGNAL_OK | DEV_4G_CFUN_OK | DEV_4G_REGISTERED | DEV_4G_APN_OK | DEV_4G_ATTACHED
  | DEV_4G_IFACE_UP | DEV_4G_LINK_UP | DEV_4G_DHCP_OK | DEV_4G_IP_OK | DEV_4G_ONLINE
  | DEV_4G_POWER_OFF

datatype eth4g_PrintType_t = ETH_4G_PRINT_OFF | ETH_4G_PRINT_ON

record eth_4g_ctrl_t =
  eth_enabled :: u8
  eth_status :: eth_4g_Status_t
  eth_device :: string
  eth_apn :: string
  eth_net_if :: string
  eth_ping_host :: string
  eth_print_info :: eth4g_PrintType_t
  eth_print_err :: eth4g_PrintType_t

definition eth_4g_ctrl_init :: eth_4g_ctrl_t where
  "eth_4g_ctrl_init =
     \<lparr>eth_enabled = 0, eth_status = DEV_4G_IDLE, eth_device = ''/dev/ttyS4'', eth_apn = ''internet'',
      eth_net_if = ''usb0'', eth_ping_host = ''1.1.1.1'',
      eth_print_info = ETH_4G_PRINT_OFF, eth_print_err = ETH_4G_PRINT_ON\<rparr>"

record eth_world =
  eth :: eth_4g_ctrl_t
  eport :: at_port
  eio :: io_world
  sh_script :: "bool list"         \<comment> \<open>whether the next \<open>system\<close> calls return 0\<close>
  sh_log :: "string list"
  access_script :: "bool list"     \<comment> \<open>whether the next \<open>access\<close> calls find the file\<close>

definition ETH_4G_MAX_RESPONSE :: nat where "ETH_4G_MAX_RESPONSE = 2048"
definition ETH_4G_MONITOR_INTERVAL_SEC :: nat where "ETH_4G_MONITOR_INTERVAL_SEC = 10"

definition env_value :: "(string \<Rightarrow> string option) \<Rightarrow> string \<Rightarrow> nat \<Rightarrow> string \<Rightarrow> string" where
  "env_value env name n old =
     (case env name of Some v \<Rightarrow> if v \<noteq> [] then c_snprintf n v else old | None \<Rightarrow> old)"

definition eth_4g_load_env :: "(string \<Rightarrow> string option) \<Rightarrow> eth_4g_ctrl_t \<Rightarrow> eth_4g_ctrl_t" where
  "eth_4g_load_env env e =
     e\<lparr>eth_apn := env_value env ''APN'' 64 (eth_apn e),
       eth_net_if := env_value env ''NET_IF'' 32 (eth_net_if e),
       eth_ping_host := env_value env ''PING_HOST'' 64 (eth_ping_host e),
       eth_device := env_value env ''AT_PORT'' 64 (eth_device e)\<rparr>"

section \<open>Exchanges\<close>

definition eth_4g_close_device :: "at_port \<Rightarrow> at_port" where
  "eth_4g_close_device p = port_close p"

definition eth_4g_open_device :: "at_port \<Rightarrow> int \<times> at_port" where
  "eth_4g_open_device p = port_open p"

definition eth_4g_capture_at_response :: "string \<Rightarrow> nat \<Rightarrow> nat \<Rightarrow> at_port \<Rightarrow> int \<times> string \<times> at_port" where
  "eth_4g_capture_at_response cmd response_size timeout_ms p =
     (if response_size = 0 then (- 1, [], p)
      else
        let (rc, p) = eth_4g_open_device p
        in if rc < 0 then (- 1, [], p)
           else capture_response 128 [CR] (Some cmd) response_size timeout_ms p)"

definition eth_4g_at_expect :: "string \<Rightarrow> string option \<Rightarrow> at_port \<Rightarrow> int \<times> at_port" where
  "eth_4g_at_expect cmd expect p =
     (let (rc, response, p) = eth_4g_capture_at_response cmd ETH_4G_MAX_RESPONSE 2000 p
      in if rc < 0 then (- 1, p) else (check_response expect response, p))"

text \<open>The queries have the same shape: a command and a test of the response.\<close>

definition query :: "string \<Rightarrow> (string \<Rightarrow> bool) \<Rightarrow> at_port \<Rightarrow> int \<times> at_port" where
  "query cmd good p =
     (let (rc, response, p) = eth_4g_capture_at_response cmd ETH_4G_MAX_RESPONSE 2000 p
      in if rc < 0 then (- 1, p) else if good (c_str response) then (0, p) else (- 1, p))"

definition eth_4g_sim_ready :: "at_port \<Rightarrow> int \<times> at_port" where
  "eth_4g_sim_ready p = query ''AT+CPIN?'' (\<lambda>r. c_contains r ''+CPIN: READY'') p"

definition eth_4g_signal_quality :: "at_port \<Rightarrow> int \<times> at_port" where
  "eth_4g_signal_quality p = query ''AT+CSQ'' (\<lambda>r. c_contains r ''OK'') p"

definition eth_4g_registration_ok :: "at_port \<Rightarrow> int \<times> at_port" where
  "eth_4g_registration_ok p = query ''AT+CEREG?''
     (\<lambda>r. c_contains r ''+CEREG: 0,1'' \<or> c_contains r ''+CEREG: 0,5''
        \<or> c_contains r ''+CEREG: 1,1'' \<or> c_contains r ''+CEREG: 1,5'') p"

definition eth_4g_packet_attached :: "at_port \<Rightarrow> int \<times> at_port" where
  "eth_4g_packet_attached p = query ''AT+CGATT?'' (\<lambda>r. c_contains r ''+CGATT: 1'') p"

definition apn_command :: "string \<Rightarrow> string" where
  "apn_command apn = ''AT+CGDCONT=1,'' @ [CHR 0x22] @ ''IP'' @ [CHR 0x22] @ '','' @ [CHR 0x22] @ apn @ [CHR 0x22]"

definition eth_4g_set_apn :: "string \<Rightarrow> at_port \<Rightarrow> int \<times> at_port" where
  "eth_4g_set_apn apn p =
     (if length (apn_command apn) \<ge> 128 then (- 1, p)
      else eth_4g_at_expect (apn_command apn) (Some ''OK'') p)"

section \<open>Shell commands\<close>

definition run_system :: "string \<Rightarrow> eth_world \<Rightarrow> bool \<times> eth_world" where
  "run_system cmd w =
     (case sh_script w of
        [] \<Rightarrow> (False, w\<lparr>sh_log := sh_log w @ [cmd]\<rparr>)
      | r # rs \<Rightarrow> (r, w\<lparr>sh_script := rs, sh_log := sh_log w @ [cmd]\<rparr>))"

definition run_access :: "eth_world \<Rightarrow> bool \<times> eth_world" where
  "run_access w = (case access_script w of [] \<Rightarrow> (False, w) | r # rs \<Rightarrow> (r, w\<lparr>access_script := rs\<rparr>))"

definition eth_sleep :: "nat \<Rightarrow> eth_world \<Rightarrow> eth_world" where
  "eth_sleep s w = w\<lparr>eport := port_sleep s (eport w)\<rparr>"

text \<open>\<open>snprintf\<close> into \<open>n\<close> characters, then \<open>system\<close>; a command that does not fit is an error.\<close>

definition run_command :: "nat \<Rightarrow> string \<Rightarrow> eth_world \<Rightarrow> int \<times> eth_world" where
  "run_command n cmd w =
     (if length cmd \<ge> n then (- 1, w)
      else let (ok, w) = run_system cmd w in (if ok then 0 else - 1, w))"

definition iface_up_command :: "string \<Rightarrow> string" where
  "iface_up_command i =
     ''ip link set '' @ i @ '' up >/dev/null 2>&1 || ifconfig '' @ i @ '' up >/dev/null 2>&1''"

definition eth_4g_bring_iface_up :: "eth_world \<Rightarrow> int \<times> eth_world" where
  "eth_4g_bring_iface_up w = run_command 128 (iface_up_command (eth_net_if (eth w))) w"

fun wait_iface_loop :: "nat \<Rightarrow> eth_world \<Rightarrow> int \<times> eth_world" where
  "wait_iface_loop 0 w = (- 1, w)"
| "wait_iface_loop (Suc n) w =
     (let (found, w) = run_access w
      in if found then (0, w) else wait_iface_loop n (eth_sleep 1 w))"

definition eth_4g_wait_for_iface :: "nat \<Rightarrow> eth_world \<Rightarrow> int \<times> eth_world" where
  "eth_4g_wait_for_iface timeout_sec w =
     (if length (''/sys/class/net/'' @ eth_net_if (eth w)) \<ge> 96 then (- 1, w)
      else wait_iface_loop timeout_sec w)"

definition eth_4g_start_dhcp :: "eth_world \<Rightarrow> int \<times> eth_world" where
  "eth_4g_start_dhcp w =
     (let (udhcpc, w) = run_system ''command -v udhcpc >/dev/null 2>&1'' w
      in if udhcpc then
           run_command 256 (''udhcpc -i '' @ eth_net_if (eth w) @ '' -n -q -t 10 -T 3 >/dev/null 2>&1'') w
         else
           let (dhclient, w) = run_system ''command -v dhclient >/dev/null 2>&1'' w
           in if dhclient then
                run_command 256 (''dhclient '' @ eth_net_if (eth w) @ '' >/dev/null 2>&1'') w
              else (- 1, w))"

definition ip_command :: "string \<Rightarrow> string" where
  "ip_command i = ''command -v ip >/dev/null 2>&1 && ip addr show dev '' @ i @ '' | grep -q '' @ [CHR 0x27] @ ''inet '' @ [CHR 0x27]"

definition ifconfig_command :: "string \<Rightarrow> string" where
  "ifconfig_command i = ''command -v ifconfig >/dev/null 2>&1 && ifconfig '' @ i @ '' | grep -q '' @ [CHR 0x27] @ ''inet '' @ [CHR 0x27]"

fun wait_ip_loop :: "nat \<Rightarrow> eth_world \<Rightarrow> int \<times> eth_world" where
  "wait_ip_loop 0 w = (- 1, w)"
| "wait_ip_loop (Suc n) w =
     (if length (ip_command (eth_net_if (eth w))) \<ge> 256 then (- 1, w)
      else let (ok, w) = run_system (ip_command (eth_net_if (eth w))) w
      in if ok then (0, w)
         else if length (ifconfig_command (eth_net_if (eth w))) \<ge> 256 then (- 1, w)
         else let (ok, w) = run_system (ifconfig_command (eth_net_if (eth w))) w
         in if ok then (0, w) else wait_ip_loop n (eth_sleep 1 w))"

definition eth_4g_wait_for_ip :: "nat \<Rightarrow> eth_world \<Rightarrow> int \<times> eth_world" where
  "eth_4g_wait_for_ip timeout_sec w = wait_ip_loop timeout_sec w"

text \<open>Defined in the source, called from commented-out code only.\<close>

definition eth_4g_test_internet :: "eth_world \<Rightarrow> int \<times> eth_world" where
  "eth_4g_test_internet w =
     run_command 256 (''command -v ping >/dev/null 2>&1 && ping -c 3 -W 2 '' @ eth_ping_host (eth w) @ '' >/dev/null 2>&1'') w"

definition eth_4g_show_status :: "eth_world \<Rightarrow> eth_world" where
  "eth_4g_show_status w =
     (let (_, w) = run_command 256 (''command -v ip >/dev/null 2>&1 && ip addr show dev '' @ eth_net_if (eth w)) w;
          (_, w) = run_command 256 ''command -v ip >/dev/null 2>&1 && ip route show default'' w
      in w)"

section \<open>Power and recovery\<close>

definition eth_port :: "(at_port \<Rightarrow> int \<times> at_port) \<Rightarrow> eth_world \<Rightarrow> int \<times> eth_world" where
  "eth_port f w = (let (rc, p) = f (eport w) in (rc, w\<lparr>eport := p\<rparr>))"

definition eth_gpio :: "(io_world \<Rightarrow> int \<times> io_world) \<Rightarrow> eth_world \<Rightarrow> int \<times> eth_world" where
  "eth_gpio f w = (let (rc, g) = f (eio w) in (rc, w\<lparr>eio := g\<rparr>))"

definition eth_led :: "int \<Rightarrow> eth_world \<Rightarrow> eth_world" where
  "eth_led on w = snd (eth_gpio (set_led DEV_4G_LED on) w)"

definition eth_set_status :: "eth_4g_Status_t \<Rightarrow> eth_world \<Rightarrow> eth_world" where
  "eth_set_status s w = w\<lparr>eth := (eth w)\<lparr>eth_status := s\<rparr>\<rparr>"

text \<open>The checks of \<open>eth_4g_status_ok\<close>, joined by early returns.\<close>

definition eth_4g_status_ok :: "at_port \<Rightarrow> int \<times> at_port" where
  "eth_4g_status_ok p =
     (let (rc, p) = eth_4g_sim_ready p
      in if rc < 0 then (- 1, p)
      else let (rc, p) = eth_4g_registration_ok p
      in if rc < 0 then (- 1, p)
      else let (rc, p) = eth_4g_packet_attached p
      in if rc < 0 then (- 1, p) else (0, p))"

definition eth_4g_power_on :: "eth_world \<Rightarrow> int \<times> eth_world" where
  "eth_4g_power_on w =
     (let (rc, w) = eth_gpio (io_set_output_level DEV_4G_IO_RESET 0) w
      in if rc < 0 then (- 1, w)
      else let (rc, w) = eth_gpio (io_set_output_level DEV_4G_IO_POWER 1) w
      in if rc < 0 then (- 1, w)
      else let (rc, w) = eth_gpio (io_set_output_level DEV_USB_IO_SW1 1) w
      in if rc < 0 then (- 1, w) else (0, eth_sleep 2 w))"

definition eth_4g_power_off :: "eth_world \<Rightarrow> int \<times> eth_world" where
  "eth_4g_power_off w =
     (let w = w\<lparr>eport := eth_4g_close_device (eport w)\<rparr>;
          (_, w) = eth_gpio (io_set_output_level DEV_4G_IO_RESET 1) w;
          (_, w) = eth_gpio (io_set_output_level DEV_4G_IO_POWER 0) w;
          (_, w) = eth_gpio (io_set_output_level DEV_USB_IO_SW1 0) w
      in (0, w))"

definition eth_4g_soft_recover :: "eth_world \<Rightarrow> int \<times> eth_world" where
  "eth_4g_soft_recover w =
     (let (rc, w) = eth_port eth_4g_open_device w
      in if rc < 0 then (- 1, w)
      else let (rc, w) = eth_port (eth_4g_at_expect ''AT+CFUN=0'' (Some ''OK'')) w
      in if rc < 0 then (- 1, w) else (0, eth_set_status DEV_4G_AT_READY (eth_sleep 2 w)))"

definition eth_4g_hard_recover :: "eth_world \<Rightarrow> int \<times> eth_world" where
  "eth_4g_hard_recover w =
     (let (rc, w) = eth_4g_power_off w
      in if rc < 0 then (- 1, w) else (0, eth_set_status DEV_4G_INIT (eth_sleep 2 w)))"

section \<open>One iteration\<close>

text \<open>Go to a status when a step on the port, or on the shell, succeeds.\<close>

definition go_if :: "int \<times> eth_world \<Rightarrow> eth_4g_Status_t \<Rightarrow> eth_world" where
  "go_if r next = (let (rc, w) = r in if rc = 0 then eth_set_status next w else w)"

definition both :: "(at_port \<Rightarrow> int \<times> at_port) \<Rightarrow> (at_port \<Rightarrow> int \<times> at_port) \<Rightarrow> at_port \<Rightarrow> int \<times> at_port" where
  "both f g p = (let (rc, p) = f p in if rc < 0 then (- 1, p) else g p)"

definition eth_4g_enter :: "eth_world \<Rightarrow> eth_world" where
  "eth_4g_enter w =
     (if eth_enabled (eth w) = 0 \<and> eth_status (eth w) \<noteq> DEV_4G_IDLE then eth_set_status DEV_4G_POWER_OFF w
      else if eth_enabled (eth w) = 1 \<and> eth_status (eth w) = DEV_4G_IDLE then eth_set_status DEV_4G_INIT w
      else w)"

definition eth_4g_init_step :: "(string \<Rightarrow> string option) \<Rightarrow> eth_world \<Rightarrow> eth_world" where
  "eth_4g_init_step env w =
     (let w = w\<lparr>eth := eth_4g_load_env env (eth w)\<rparr>;
          (rc, w) = eth_4g_power_on w
      in if rc = 0 then
           let w = eth_set_status DEV_4G_POWER_ON (eth_led 0 w)
           in w\<lparr>eport := eth_4g_close_device (eport w)\<rparr>
         else w)"

definition eth_4g_online_step :: "eth_world \<Rightarrow> eth_world" where
  "eth_4g_online_step w =
     (let w = (if eth_enabled (eth w) \<noteq> 0 then eth_sleep ETH_4G_MONITOR_INTERVAL_SEC w else w);
          (rc, w) = eth_port eth_4g_status_ok w
      in if rc < 0 then snd (eth_4g_soft_recover w) else w)"

definition eth_4g_ip_step :: "bool \<Rightarrow> eth_world \<Rightarrow> eth_world" where
  "eth_4g_ip_step led w =
     (let (rc, w) = eth_4g_wait_for_ip 30 w
      in if rc = 0 then
           let w = eth_set_status DEV_4G_ONLINE (eth_4g_show_status w)
           in if led then eth_led 1 w else w
         else w)"

definition eth_4g_switch :: "(string \<Rightarrow> string option) \<Rightarrow> eth_world \<Rightarrow> eth_world" where
  "eth_4g_switch env w =
     (case eth_status (eth w) of
        DEV_4G_IDLE \<Rightarrow> eth_sleep 1 (eth_led 0 w)
      | DEV_4G_INIT \<Rightarrow> eth_4g_init_step env w
      | DEV_4G_POWER_ON \<Rightarrow>
          (let (_, w) = eth_port eth_4g_open_device w
           in go_if (eth_port (both (eth_4g_at_expect ''AT'' (Some ''OK'')) (eth_4g_at_expect ''ATE0'' (Some ''OK''))) w)
                DEV_4G_AT_READY)
      | DEV_4G_AT_READY \<Rightarrow> go_if (eth_port eth_4g_sim_ready w) DEV_4G_SIM_READY
      | DEV_4G_SIM_READY \<Rightarrow> go_if (eth_port eth_4g_signal_quality w) DEV_4G_SIGNAL_OK
      | DEV_4G_SIGNAL_OK \<Rightarrow>
          go_if (eth_port (both (eth_4g_at_expect ''AT+CFUN=1'' (Some ''OK''))
                                (eth_4g_at_expect ''AT+CFUN?'' (Some ''+CFUN: 1''))) w) DEV_4G_CFUN_OK
      | DEV_4G_CFUN_OK \<Rightarrow> go_if (eth_port eth_4g_registration_ok w) DEV_4G_REGISTERED
      | DEV_4G_REGISTERED \<Rightarrow> go_if (eth_port (eth_4g_set_apn (eth_apn (eth w))) w) DEV_4G_APN_OK
      | DEV_4G_APN_OK \<Rightarrow>
          go_if (eth_port (both (eth_4g_at_expect ''AT+CGATT=1'' (Some ''OK'')) eth_4g_packet_attached) w)
            DEV_4G_ATTACHED
      | DEV_4G_ATTACHED \<Rightarrow> go_if (eth_4g_bring_iface_up w) DEV_4G_IFACE_UP
      | DEV_4G_IFACE_UP \<Rightarrow> go_if (eth_4g_wait_for_iface 10 w) DEV_4G_LINK_UP
      | DEV_4G_LINK_UP \<Rightarrow> go_if (eth_4g_start_dhcp w) DEV_4G_DHCP_OK
      | DEV_4G_DHCP_OK \<Rightarrow> eth_4g_ip_step False w
      | DEV_4G_IP_OK \<Rightarrow> eth_4g_ip_step True w
      | DEV_4G_ONLINE \<Rightarrow> eth_4g_online_step w
      | DEV_4G_POWER_OFF \<Rightarrow> eth_set_status DEV_4G_IDLE (snd (eth_4g_power_off w)))"

definition eth_4g_online_func :: "(string \<Rightarrow> string option) \<Rightarrow> eth_world \<Rightarrow> eth_world" where
  "eth_4g_online_func env w = eth_4g_switch env (eth_4g_enter w)"

text \<open>
  The loop of \<open>eth_4g_thread_func\<close>. \<open>enabled\<close> is set when the thread starts; the rule
  \<open>switch\<close> lets another thread change it, as the states \<open>POWER_OFF\<close> and \<open>IDLE\<close> foresee.
\<close>

definition eth_4g_thread_start :: "eth_world \<Rightarrow> eth_world" where
  "eth_4g_thread_start w = w\<lparr>eth := (eth w)\<lparr>eth_enabled := 1\<rparr>\<rparr>"

inductive eth_reach :: "(string \<Rightarrow> string option) \<Rightarrow> eth_world \<Rightarrow> eth_world \<Rightarrow> bool" for env w0 where
  start: "eth_reach env w0 (eth_4g_thread_start w0)"
| iteration: "eth_reach env w0 w \<Longrightarrow> eth_reach env w0 (eth_4g_online_func env w)"
| switch: "eth_reach env w0 w \<Longrightarrow> eth_reach env w0 (w\<lparr>eth := (eth w)\<lparr>eth_enabled := b\<rparr>\<rparr>)"

section \<open>Exchanges transmit their command\<close>

lemma eth_capture_log:
  assumes "eth_4g_capture_at_response c n m p = (rc, r, p')"
  shows "(\<exists>out. tx_log p' = tx_log p @ out \<and> prefix out (c @ [CR]) \<and> (rc = 0 \<longrightarrow> out = c @ [CR]))
     \<and> (rc = 0 \<or> rc = - 1)"
proof -
  obtain rc1 p1 where o: "eth_4g_open_device p = (rc1, p1)" by force
  have l: "tx_log p1 = tx_log p"
    using o by (auto simp: eth_4g_open_device_def port_open_def split: if_splits list.splits open_event.splits)
  show ?thesis
  proof (cases "n = 0 \<or> rc1 < 0")
    case True
    then show ?thesis using assms l by (auto simp: eth_4g_capture_at_response_def o split: if_splits)
  next
    case False
    then have "capture_response 128 [CR] (Some c) n m p1 = (rc, r, p')"
      using assms by (simp add: eth_4g_capture_at_response_def o)
    from capture_response_log [OF this] show ?thesis using l by auto
  qed
qed

lemma eth_at_expect_sent:
  assumes "eth_4g_at_expect c e p = (rc, p')"
  shows "\<exists>out. tx_log p' = tx_log p @ out \<and> prefix out (c @ [CR]) \<and> (rc = 0 \<longrightarrow> out = c @ [CR])"
    and "rc = 0 \<or> rc = - 1"
proof -
  obtain rc1 r p1 where x: "eth_4g_capture_at_response c ETH_4G_MAX_RESPONSE 2000 p = (rc1, r, p1)"
    by (metis prod_cases3)
  have cr: "check_response e r = 0 \<or> check_response e r = - 1"
    by (auto simp: check_response_def split: option.splits)
  show "\<exists>out. tx_log p' = tx_log p @ out \<and> prefix out (c @ [CR]) \<and> (rc = 0 \<longrightarrow> out = c @ [CR])"
    using assms eth_capture_log [OF x] by (auto simp: eth_4g_at_expect_def x split: if_splits)
  show "rc = 0 \<or> rc = - 1"
    using assms cr by (auto simp: eth_4g_at_expect_def x split: if_splits)
qed

interpretation eth: at_channel eth_4g_at_expect tx_log "[CR]"
  by unfold_locales (rule eth_at_expect_sent; assumption)+

text \<open>
  A step that transmits the texts \<open>cs\<close>: all of them in this order if it succeeds, and
  otherwise the log still only grows.
\<close>

definition transmits :: "string list \<Rightarrow> (at_port \<Rightarrow> int \<times> at_port) \<Rightarrow> bool" where
  "transmits cs f \<longleftrightarrow>
     (\<forall>p rc p'. f p = (rc, p') \<longrightarrow> (rc = 0 \<or> rc = - 1) \<and> prefix (tx_log p) (tx_log p')
        \<and> (rc = 0 \<longrightarrow> tx_log p' = tx_log p @ concat (map (\<lambda>c. c @ [CR]) cs)))"

lemma transmits_D:
  "transmits cs f \<Longrightarrow> f p = (rc, p') \<Longrightarrow> (rc = 0 \<or> rc = - 1) \<and> prefix (tx_log p) (tx_log p')
     \<and> (rc = 0 \<longrightarrow> tx_log p' = tx_log p @ concat (map (\<lambda>c. c @ [CR]) cs))"
  unfolding transmits_def by blast

lemma transmits_expect: "transmits [c] (eth_4g_at_expect c e)"
  unfolding transmits_def using eth_at_expect_sent by fastforce

lemma transmits_query: "transmits [c] (query c good)"
  unfolding transmits_def
proof (intro allI impI)
  fix p rc p'
  assume q: "query c good p = (rc, p')"
  obtain rc1 r p1 where x: "eth_4g_capture_at_response c ETH_4G_MAX_RESPONSE 2000 p = (rc1, r, p1)"
    by (metis prod_cases3)
  show "(rc = 0 \<or> rc = - 1) \<and> prefix (tx_log p) (tx_log p')
        \<and> (rc = 0 \<longrightarrow> tx_log p' = tx_log p @ concat (map (\<lambda>c. c @ [CR]) [c]))"
    using q eth_capture_log [OF x] by (auto simp: query_def x split: if_splits)
qed

lemma transmits_both:
  assumes "transmits cs f" "transmits ds g"
  shows "transmits (cs @ ds) (both f g)"
  unfolding transmits_def
proof (intro allI impI)
  fix p rc p'
  assume b: "both f g p = (rc, p')"
  obtain rc1 p1 where 1: "f p = (rc1, p1)" by force
  obtain rc2 p2 where 2: "g p1 = (rc2, p2)" by force
  show "(rc = 0 \<or> rc = - 1) \<and> prefix (tx_log p) (tx_log p')
        \<and> (rc = 0 \<longrightarrow> tx_log p' = tx_log p @ concat (map (\<lambda>c. c @ [CR]) (cs @ ds)))"
    using b transmits_D [OF assms(1) 1] transmits_D [OF assms(2) 2]
    by (auto simp: both_def 1 2 split: if_splits dest: append_prefixD)
qed

lemma transmits_apn:
  "transmits [apn_command a] (eth_4g_set_apn a)"
  unfolding transmits_def eth_4g_set_apn_def
  using transmits_D [OF transmits_expect [of "apn_command a" "Some ''OK''"]] by auto

lemma transmits_sim: "transmits [''AT+CPIN?''] eth_4g_sim_ready"
  unfolding eth_4g_sim_ready_def [abs_def] by (rule transmits_query)

lemma transmits_signal: "transmits [''AT+CSQ''] eth_4g_signal_quality"
  unfolding eth_4g_signal_quality_def [abs_def] by (rule transmits_query)

lemma transmits_registration: "transmits [''AT+CEREG?''] eth_4g_registration_ok"
  unfolding eth_4g_registration_ok_def [abs_def] by (rule transmits_query)

lemma transmits_attached: "transmits [''AT+CGATT?''] eth_4g_packet_attached"
  unfolding eth_4g_packet_attached_def [abs_def] by (rule transmits_query)

lemma transmits_status_ok: "transmits [''AT+CPIN?'', ''AT+CEREG?'', ''AT+CGATT?''] eth_4g_status_ok"
proof -
  have e: "eth_4g_status_ok = both eth_4g_sim_ready (both eth_4g_registration_ok
      (\<lambda>p. let (rc, p) = eth_4g_packet_attached p in if rc < 0 then (- 1, p) else (0, p)))"
    by (auto simp: eth_4g_status_ok_def both_def fun_eq_iff split: prod.splits)
  have l: "transmits [''AT+CGATT?''] (\<lambda>p. let (rc, p) = eth_4g_packet_attached p in if rc < 0 then (- 1, p) else (0, p))"
    unfolding transmits_def
  proof (intro allI impI)
    fix p p' and rc :: int
    assume a: "(let (rc, p) = eth_4g_packet_attached p in if rc < 0 then (- 1, p) else (0, p)) = (rc, p')"
    obtain rc1 p1 where 1: "eth_4g_packet_attached p = (rc1, p1)" by force
    show "(rc = 0 \<or> rc = - 1) \<and> prefix (tx_log p) (tx_log p')
        \<and> (rc = 0 \<longrightarrow> tx_log p' = tx_log p @ concat (map (\<lambda>c. c @ [CR]) [''AT+CGATT?'']))"
      using a transmits_D [OF transmits_attached 1] by (auto simp: 1 split: if_splits)
  qed
  show ?thesis unfolding e
    using transmits_both [OF transmits_sim transmits_both [OF transmits_registration l]] by simp
qed

lemmas transmits_steps = transmits_expect transmits_apn transmits_sim transmits_signal
  transmits_registration transmits_attached

section \<open>The LED never lights\<close>

definition LED_4G_FILE :: string where
  "LED_4G_FILE = ''/sys/class/leds/user-led2/brightness''"

definition led_off :: "io_world \<Rightarrow> bool" where
  "led_off g \<longleftrightarrow> (\<forall>e \<in> set (io_log g). fst e = LED_4G_FILE \<longrightarrow> snd e = ''0'')"

lemma led_off_sys_call: "sys_call g = (e, g') \<Longrightarrow> led_off g' = led_off g"
  using sys_call_log [of g e g'] by (simp add: led_off_def)

lemma led_off_write: "write_text_file path txt g = (rc, g') \<Longrightarrow> path \<noteq> LED_4G_FILE \<Longrightarrow> led_off g \<Longrightarrow> led_off g'"
  by (auto simp: write_text_file_def led_off_sys_call led_off_def split: prod.splits io_event.splits
      dest!: sys_call_log)

lemma led_off_export: "gpio_export_if_needed n g = (rc, g') \<Longrightarrow> led_off g \<Longrightarrow> led_off g'"
  by (auto simp: gpio_export_if_needed_def LED_4G_FILE_def led_off_sys_call split: prod.splits io_event.splits if_splits
      dest!: led_off_write)

lemma gpio_not_led: "gpio_dir n @ x \<noteq> LED_4G_FILE"
  by (simp add: gpio_dir_def LED_4G_FILE_def)

lemma led_off_direction: "io_set_direction n d g = (rc, g') \<Longrightarrow> led_off g \<Longrightarrow> led_off g'"
  using gpio_not_led [of n "''/direction''"]
  by (auto simp: io_set_direction_def led_off_def [of "_\<lparr>io_error := _\<rparr>"] split: prod.splits if_splits
      dest: led_off_export led_off_write) (auto simp: led_off_def)

lemma led_off_level: "io_set_output_level n l g = (rc, g') \<Longrightarrow> led_off g \<Longrightarrow> led_off g'"
proof -
  assume a: "io_set_output_level n l g = (rc, g')" and o: "led_off g"
  obtain r1 g1 where 1: "io_set_direction n IO_DIR_OUT g = (r1, g1)" by force
  have "led_off g1" using led_off_direction [OF 1 o] .
  moreover have "led_off (g\<lparr>io_error := EINVAL\<rparr>)" using o by (simp add: led_off_def)
  ultimately show "led_off g'" using a gpio_not_led [of n "''/value''"] led_off_write
    unfolding io_set_output_level_def 1 Let_def prod.case by (metis prod.inject)
qed

lemma led_off_set_led: "led_off g \<Longrightarrow> led_off (snd (set_led DEV_4G_LED 0 g))"
  by (auto simp: set_led_def led_off_def DEV_4G_LED_def split: prod.splits io_event.splits dest!: sys_call_log)

lemma led_off_gpio [intro]: "led_off (eio w) \<Longrightarrow> led_off (eio (snd (eth_gpio (io_set_output_level n l) w)))"
  using led_off_level by (auto simp: eth_gpio_def split: prod.splits)

lemma led_off_led0 [intro]: "led_off (eio w) \<Longrightarrow> led_off (eio (eth_led 0 w))"
  using led_off_set_led [of "eio w"] by (auto simp: eth_led_def eth_gpio_def split: prod.splits)

section \<open>The states of the loop\<close>

text \<open>The commands that were acknowledged when a state is reached, for the APN in use.\<close>

definition eth_ready :: "string list" where
  "eth_ready = [''AT'', ''ATE0'']"

fun eth_setup :: "string \<Rightarrow> eth_4g_Status_t \<Rightarrow> string list option" where
  "eth_setup apn DEV_4G_AT_READY = Some eth_ready"
| "eth_setup apn DEV_4G_SIM_READY = Some (eth_ready @ [''AT+CPIN?''])"
| "eth_setup apn DEV_4G_SIGNAL_OK = Some (eth_ready @ [''AT+CPIN?'', ''AT+CSQ''])"
| "eth_setup apn DEV_4G_CFUN_OK = Some (eth_ready @ [''AT+CPIN?'', ''AT+CSQ'', ''AT+CFUN=1'', ''AT+CFUN?''])"
| "eth_setup apn DEV_4G_REGISTERED =
     Some (eth_ready @ [''AT+CPIN?'', ''AT+CSQ'', ''AT+CFUN=1'', ''AT+CFUN?'', ''AT+CEREG?''])"
| "eth_setup apn DEV_4G_APN_OK =
     Some (eth_ready @ [''AT+CPIN?'', ''AT+CSQ'', ''AT+CFUN=1'', ''AT+CFUN?'', ''AT+CEREG?'', apn_command apn])"
| "eth_setup apn DEV_4G_IP_OK = None"
| "eth_setup apn s =
     Some (if s = DEV_4G_IDLE \<or> s = DEV_4G_INIT \<or> s = DEV_4G_POWER_ON \<or> s = DEV_4G_POWER_OFF then []
           else eth_ready @ [''AT+CPIN?'', ''AT+CSQ'', ''AT+CFUN=1'', ''AT+CFUN?'', ''AT+CEREG?'', apn_command apn,
                ''AT+CGATT=1'', ''AT+CGATT?''])"

definition seen :: "string list \<Rightarrow> eth_world \<Rightarrow> bool" where
  "seen cs w \<longleftrightarrow> in_order (map (\<lambda>c. c @ [CR]) cs) (tx_log (eport w))"

definition eth_inv :: "eth_world \<Rightarrow> bool" where
  "eth_inv w \<longleftrightarrow> led_off (eio w)
     \<and> (\<exists>cs. eth_setup (eth_apn (eth w)) (eth_status (eth w)) = Some cs \<and> seen cs w)"

lemma eth_inv_I:
  "led_off (eio w) \<Longrightarrow> eth_setup (eth_apn (eth w)) (eth_status (eth w)) = Some cs \<Longrightarrow> seen cs w \<Longrightarrow> eth_inv w"
  unfolding eth_inv_def by blast

lemma seen_cong: "tx_log (eport v) = tx_log (eport w) \<Longrightarrow> seen cs v = seen cs w"
  by (simp add: seen_def)

lemma seen_grows: "seen cs w \<Longrightarrow> prefix (tx_log (eport w)) (tx_log (eport v)) \<Longrightarrow> seen cs v"
  unfolding seen_def by (rule in_order_grows)

lemma eth_inv_cong:
  "eth_inv w \<Longrightarrow> eth v = eth w \<Longrightarrow> led_off (eio v) \<Longrightarrow> prefix (tx_log (eport w)) (tx_log (eport v)) \<Longrightarrow> eth_inv v"
  by (auto simp: eth_inv_def intro: seen_grows)

text \<open>A step on the port keeps the invariant, whether it goes on or not.\<close>

lemma go_if_inv:
  assumes i: "eth_inv w" and f: "transmits ds f"
    and s: "eth_setup (eth_apn (eth w)) (eth_status (eth w)) = Some cs"
      "eth_setup (eth_apn (eth w)) next = Some (cs @ ds)"
  shows "eth_inv (go_if (eth_port f w) next)"
proof -
  obtain rc p where x: "f (eport w) = (rc, p)" by force
  let ?v = "w\<lparr>eport := p\<rparr>"
  have r: "go_if (eth_port f w) next = (if rc = 0 then eth_set_status next ?v else ?v)"
    by (simp add: go_if_def eth_port_def x)
  note t = transmits_D [OF f x]
  have v: "eth_inv ?v" by (rule eth_inv_cong [OF i]) (use i t in \<open>auto simp: eth_inv_def\<close>)
  have "eth_inv (eth_set_status next ?v)" if "rc = 0"
  proof (rule eth_inv_I)
    show "led_off (eio (eth_set_status next ?v))" using i by (simp add: eth_inv_def eth_set_status_def)
    show "eth_setup (eth_apn (eth (eth_set_status next ?v))) (eth_status (eth (eth_set_status next ?v))) = Some (cs @ ds)"
      using s(2) by (simp add: eth_set_status_def)
    have "in_order (map (\<lambda>c. c @ [CR]) cs) (tx_log (eport w))" using i s(1) by (simp add: eth_inv_def seen_def)
    then show "seen (cs @ ds) (eth_set_status next ?v)"
      using in_order_concat [of _ _ "map (\<lambda>c. c @ [CR]) ds"] t that by (simp add: seen_def eth_set_status_def)
  qed
  then show ?thesis using r v by simp
qed

text \<open>A step on the shell.\<close>

definition shell_only :: "(eth_world \<Rightarrow> int \<times> eth_world) \<Rightarrow> bool" where
  "shell_only f \<longleftrightarrow> (\<forall>w rc v. f w = (rc, v) \<longrightarrow>
     eth v = eth w \<and> eio v = eio w \<and> tx_log (eport v) = tx_log (eport w) \<and> at_fd (eport v) = at_fd (eport w))"

lemma shell_only_D:
  "shell_only f \<Longrightarrow> f w = (rc, v) \<Longrightarrow>
     eth v = eth w \<and> eio v = eio w \<and> tx_log (eport v) = tx_log (eport w) \<and> at_fd (eport v) = at_fd (eport w)"
  unfolding shell_only_def by blast

lemma run_system_only: "run_system c w = (b, v) \<Longrightarrow>
    eth v = eth w \<and> eio v = eio w \<and> eport v = eport w"
  by (auto simp: run_system_def split: list.splits)

lemma shell_only_command: "shell_only (run_command n c)"
  by (auto simp: shell_only_def run_command_def split: prod.splits if_splits dest!: run_system_only)

lemma eth_sleep_keeps [simp]:
  "eth (eth_sleep s w) = eth w" "eio (eth_sleep s w) = eio w" "tx_log (eport (eth_sleep s w)) = tx_log (eport w)"
  "at_fd (eport (eth_sleep s w)) = at_fd (eport w)"
  by (simp_all add: eth_sleep_def port_sleep_def)

lemma run_access_only: "run_access w = (b, v) \<Longrightarrow> eth v = eth w \<and> eio v = eio w \<and> eport v = eport w"
  by (auto simp: run_access_def split: list.splits)

lemma shell_only_iface_loop: "shell_only (wait_iface_loop n)"
  unfolding shell_only_def
proof (intro allI impI)
  fix w rc v
  assume "wait_iface_loop n w = (rc, v)"
  then show "eth v = eth w \<and> eio v = eio w \<and> tx_log (eport v) = tx_log (eport w) \<and> at_fd (eport v) = at_fd (eport w)"
    by (induction n w rule: wait_iface_loop.induct) (auto split: prod.splits if_splits dest!: run_access_only)
qed

lemma shell_only_ip_loop: "shell_only (wait_ip_loop n)"
  unfolding shell_only_def
proof (intro allI impI)
  fix w rc v
  assume "wait_ip_loop n w = (rc, v)"
  then show "eth v = eth w \<and> eio v = eio w \<and> tx_log (eport v) = tx_log (eport w) \<and> at_fd (eport v) = at_fd (eport w)"
  proof (induction n w rule: wait_ip_loop.induct)
    case (2 n w)
    obtain b1 w1 where 1: "run_system (ip_command (eth_net_if (eth w))) w = (b1, w1)" by force
    obtain b2 w2 where 2: "run_system (ifconfig_command (eth_net_if (eth w1))) w1 = (b2, w2)" by force
    note k = run_system_only [OF 1] run_system_only [OF 2]
    show ?case using "2.prems" "2.IH" 1 2 k
      by (auto split: if_splits)
  qed simp
qed

lemma shell_only_up: "shell_only eth_4g_bring_iface_up"
  using shell_only_command unfolding shell_only_def eth_4g_bring_iface_up_def by blast

lemma shell_only_iface: "shell_only (eth_4g_wait_for_iface n)"
  using shell_only_iface_loop unfolding shell_only_def eth_4g_wait_for_iface_def by (metis prod.inject)

lemma shell_only_ip: "shell_only (eth_4g_wait_for_ip n)"
  using shell_only_ip_loop unfolding shell_only_def eth_4g_wait_for_ip_def by blast

lemma shell_only_dhcp: "shell_only eth_4g_start_dhcp"
  unfolding shell_only_def eth_4g_start_dhcp_def
  by (auto split: prod.splits if_splits dest!: run_system_only shell_only_D [OF shell_only_command])

lemma show_status_keeps:
  "eth (eth_4g_show_status w) = eth w" "eio (eth_4g_show_status w) = eio w"
  "tx_log (eport (eth_4g_show_status w)) = tx_log (eport w)"
  by (auto simp: eth_4g_show_status_def split: prod.splits dest!: shell_only_D [OF shell_only_command])

lemma eth_set_status_inv:
  assumes "eth_inv w" "eth_setup (eth_apn (eth w)) s = eth_setup (eth_apn (eth w)) (eth_status (eth w))"
  shows "eth_inv (eth_set_status s w)"
  using assms by (auto simp: eth_inv_def eth_set_status_def seen_def)

lemma go_if_shell_inv:
  assumes i: "eth_inv w" and f: "shell_only f"
    and s: "eth_setup (eth_apn (eth w)) next = eth_setup (eth_apn (eth w)) (eth_status (eth w))"
  shows "eth_inv (go_if (f w) next)"
proof -
  obtain rc v where x: "f w = (rc, v)" by force
  note k = shell_only_D [OF f x]
  have v: "eth_inv v" by (rule eth_inv_cong [OF i]) (use i k in \<open>auto simp: eth_inv_def\<close>)
  then show ?thesis using eth_set_status_inv [OF v] k s by (simp add: go_if_def x)
qed

lemma eth_gpio_keeps: "eth (snd (eth_gpio f w)) = eth w" "eport (snd (eth_gpio f w)) = eport w"
  by (auto simp: eth_gpio_def split: prod.splits)

lemma eth_led_keeps [simp]: "eth (eth_led on w) = eth w" "eport (eth_led on w) = eport w"
  by (simp_all add: eth_led_def eth_gpio_keeps)

text \<open>What the power sequences keep.\<close>

definition quiet :: "eth_world \<Rightarrow> eth_world \<Rightarrow> bool" where
  "quiet w v \<longleftrightarrow> eth v = eth w \<and> tx_log (eport v) = tx_log (eport w) \<and> (led_off (eio w) \<longrightarrow> led_off (eio v))"

lemma quiet_trans: "quiet a b \<Longrightarrow> quiet b c \<Longrightarrow> quiet a c"
  by (simp add: quiet_def)

lemma quiet_gpio: "eth_gpio (io_set_output_level n l) w = (rc, v) \<Longrightarrow> quiet w v"
  using eth_gpio_keeps [of "io_set_output_level n l" w] led_off_gpio [of w n l] by (auto simp: quiet_def)

lemma quiet_sleep: "quiet w (eth_sleep s w)"
  by (simp add: quiet_def)

lemma quiet_close: "quiet w (w\<lparr>eport := eth_4g_close_device (eport w)\<rparr>)"
  by (simp add: quiet_def eth_4g_close_device_def port_close_def)

lemma quiet_led0: "quiet w (eth_led 0 w)"
  by (auto simp: quiet_def)

lemma quiet_power_on: "eth_4g_power_on w = (rc, v) \<Longrightarrow> quiet w v"
  unfolding eth_4g_power_on_def Let_def
  by (auto split: prod.splits if_splits dest!: quiet_gpio simp: quiet_def)

lemma quiet_power_off: "quiet w (snd (eth_4g_power_off w))"
  unfolding eth_4g_power_off_def Let_def
  by (auto split: prod.splits dest!: quiet_gpio intro: quiet_trans [OF quiet_close] quiet_trans)

lemma quiet_inv: "eth_inv w \<Longrightarrow> quiet w v \<Longrightarrow> eth_inv v"
  by (auto simp: eth_inv_def quiet_def seen_def)

text \<open>States in which no command need have been sent.\<close>

definition fresh :: "eth_4g_Status_t \<Rightarrow> bool" where
  "fresh s \<longleftrightarrow> s \<in> {DEV_4G_IDLE, DEV_4G_INIT, DEV_4G_POWER_ON, DEV_4G_POWER_OFF}"

lemma eth_setup_fresh: "fresh s \<Longrightarrow> eth_setup apn s = Some []"
  by (auto simp: fresh_def)

lemma fresh_inv: "fresh (eth_status (eth w)) \<Longrightarrow> led_off (eio w) \<Longrightarrow> eth_inv w"
  by (rule eth_inv_I) (auto simp: eth_setup_fresh seen_def in_order.Nil)

lemma eth_inv_led: "eth_inv w \<Longrightarrow> led_off (eio w)"
  by (simp add: eth_inv_def)

lemma enter_inv: "eth_inv w \<Longrightarrow> eth_inv (eth_4g_enter w)"
  unfolding eth_4g_enter_def
  by (auto intro!: fresh_inv simp: fresh_def eth_set_status_def eth_inv_led)

lemma init_step_inv:
  assumes "eth_inv w" "eth_status (eth w) = DEV_4G_INIT"
  shows "eth_inv (eth_4g_init_step env w)"
proof -
  let ?w = "w\<lparr>eth := eth_4g_load_env env (eth w)\<rparr>"
  have s: "eth_status (eth ?w) = DEV_4G_INIT" "led_off (eio ?w)"
    using assms by (simp_all add: eth_4g_load_env_def eth_inv_led)
  obtain rc v where x: "eth_4g_power_on ?w = (rc, v)" by force
  have q: "quiet ?w v" by (rule quiet_power_on [OF x])
  then have v: "eth_status (eth v) = DEV_4G_INIT" "led_off (eio v)" using s by (simp_all add: quiet_def)
  show ?thesis unfolding eth_4g_init_step_def Let_def x prod.case
    using v by (auto intro!: fresh_inv led_off_led0 simp: fresh_def eth_set_status_def)
qed

lemma eth_port_keeps: "eth_port f w = (rc, v) \<Longrightarrow> eth v = eth w \<and> eio v = eio w \<and> f (eport w) = (rc, eport v)"
  by (auto simp: eth_port_def split: prod.splits)

lemma open_log: "eth_4g_open_device p = (rc, q) \<Longrightarrow> tx_log q = tx_log p"
  by (auto simp: eth_4g_open_device_def port_open_def split: if_splits list.splits open_event.splits)

lemma soft_recover_inv:
  assumes i: "eth_inv w" and o: "eth_status (eth w) = DEV_4G_ONLINE"
  shows "eth_inv (snd (eth_4g_soft_recover w))"
proof -
  obtain r1 w1 where 1: "eth_port eth_4g_open_device w = (r1, w1)" by force
  obtain r2 w2 where 2: "eth_port (eth_4g_at_expect ''AT+CFUN=0'' (Some ''OK'')) w1 = (r2, w2)" by force
  note k1 = eth_port_keeps [OF 1] and k2 = eth_port_keeps [OF 2]
  have l1: "tx_log (eport w1) = tx_log (eport w)" using k1 open_log by blast
  have g2: "prefix (tx_log (eport w1)) (tx_log (eport w2))"
    using transmits_D [OF transmits_expect] k2 by blast
  have i1: "eth_inv w1" by (rule eth_inv_cong [OF i]) (use k1 l1 i in \<open>auto simp: eth_inv_led\<close>)
  have i2: "eth_inv w2" by (rule eth_inv_cong [OF i1]) (use k2 g2 i1 in \<open>auto simp: eth_inv_led\<close>)
  have st: "eth_status (eth w2) = DEV_4G_ONLINE" using k1 k2 o by simp
  have r: "eth_inv (eth_set_status DEV_4G_AT_READY (eth_sleep 2 w2))"
  proof (rule eth_inv_I)
    show "led_off (eio (eth_set_status DEV_4G_AT_READY (eth_sleep 2 w2)))"
      using eth_inv_led [OF i2] by (simp add: eth_set_status_def)
    show "eth_setup (eth_apn (eth (eth_set_status DEV_4G_AT_READY (eth_sleep 2 w2))))
        (eth_status (eth (eth_set_status DEV_4G_AT_READY (eth_sleep 2 w2)))) = Some eth_ready"
      by (simp add: eth_set_status_def)
    have "seen (eth_ready @ [''AT+CPIN?'', ''AT+CSQ'', ''AT+CFUN=1'', ''AT+CFUN?'', ''AT+CEREG?'', apn_command (eth_apn (eth w2)),
        ''AT+CGATT=1'', ''AT+CGATT?'']) w2"
      using i2 st by (simp add: eth_inv_def)
    then have "seen eth_ready w2" unfolding seen_def map_append by (rule in_order_prefix)
    then show "seen eth_ready (eth_set_status DEV_4G_AT_READY (eth_sleep 2 w2))"
      by (simp add: seen_def eth_set_status_def)
  qed
  show ?thesis using i1 i2 r by (auto simp: eth_4g_soft_recover_def 1 2 Let_def)
qed

lemma online_step_inv:
  assumes i: "eth_inv w" and o: "eth_status (eth w) = DEV_4G_ONLINE"
  shows "eth_inv (eth_4g_online_step w)"
proof -
  define w0 where "w0 = (if eth_enabled (eth w) \<noteq> 0 then eth_sleep ETH_4G_MONITOR_INTERVAL_SEC w else w)"
  have q: "quiet w w0" by (simp add: w0_def quiet_def)
  then have i0: "eth_inv w0" using i quiet_inv by blast
  obtain rc w1 where 1: "eth_port eth_4g_status_ok w0 = (rc, w1)" by force
  note k = eth_port_keeps [OF 1]
  have g: "prefix (tx_log (eport w0)) (tx_log (eport w1))"
    using transmits_D [OF transmits_status_ok] k by blast
  have i1: "eth_inv w1" by (rule eth_inv_cong [OF i0]) (use k g i0 in \<open>auto simp: eth_inv_led\<close>)
  have o1: "eth_status (eth w1) = DEV_4G_ONLINE" using k q o by (simp add: quiet_def)
  show ?thesis using i1 soft_recover_inv [OF i1 o1]
    by (simp add: eth_4g_online_step_def Let_def 1 flip: w0_def)
qed

lemma ip_step_inv:
  assumes i: "eth_inv w" and o: "eth_status (eth w) = DEV_4G_DHCP_OK"
  shows "eth_inv (eth_4g_ip_step False w)"
proof -
  obtain rc v where x: "eth_4g_wait_for_ip 30 w = (rc, v)" by force
  note k = shell_only_D [OF shell_only_ip x]
  have v: "eth_inv v" by (rule eth_inv_cong [OF i]) (use k i in \<open>auto simp: eth_inv_led\<close>)
  have s: "eth_inv (eth_4g_show_status v)"
    by (rule eth_inv_cong [OF v]) (use show_status_keeps v in \<open>auto simp: eth_inv_led\<close>)
  have "eth_inv (eth_set_status DEV_4G_ONLINE (eth_4g_show_status v))"
    by (rule eth_set_status_inv [OF s]) (simp add: show_status_keeps k o)
  then show ?thesis using v by (simp add: eth_4g_ip_step_def x Let_def)
qed

lemma power_on_step_inv:
  assumes i: "eth_inv w" and o: "eth_status (eth w) = DEV_4G_POWER_ON"
  shows "eth_inv (eth_4g_switch env w)"
proof -
  obtain rc w1 where 1: "eth_port eth_4g_open_device w = (rc, w1)" by force
  note k = eth_port_keeps [OF 1]
  have i1: "eth_inv w1"
    by (rule eth_inv_cong [OF i]) (use k open_log i in \<open>auto simp: eth_inv_led\<close>)
  have t: "transmits (eth_ready) (both (eth_4g_at_expect ''AT'' (Some ''OK'')) (eth_4g_at_expect ''ATE0'' (Some ''OK'')))"
    using transmits_both [OF transmits_expect transmits_expect] by (simp add: eth_ready_def)
  have "eth_inv (go_if (eth_port (both (eth_4g_at_expect ''AT'' (Some ''OK'')) (eth_4g_at_expect ''ATE0'' (Some ''OK''))) w1) DEV_4G_AT_READY)"
    by (rule go_if_inv [OF i1 t, of "[]"]) (use k o in simp_all)
  then show ?thesis by (simp add: eth_4g_switch_def o 1)
qed

lemma switch_inv:
  assumes i: "eth_inv w"
  shows "eth_inv (eth_4g_switch env w)"
proof (cases "eth_status (eth w)")
  case DEV_4G_IDLE
  then show ?thesis using i quiet_inv [OF i quiet_trans [OF quiet_led0 quiet_sleep]] by (simp add: eth_4g_switch_def)
next
  case DEV_4G_INIT
  then show ?thesis using init_step_inv [OF i] by (simp add: eth_4g_switch_def)
next
  case DEV_4G_POWER_ON
  then show ?thesis using power_on_step_inv [OF i] by simp
next
  case DEV_4G_AT_READY
  then show ?thesis unfolding eth_4g_switch_def DEV_4G_AT_READY eth_4g_Status_t.case
    by (intro go_if_inv [OF i transmits_sim]) (simp_all add: DEV_4G_AT_READY)
next
  case DEV_4G_SIM_READY
  then show ?thesis unfolding eth_4g_switch_def DEV_4G_SIM_READY eth_4g_Status_t.case
    by (intro go_if_inv [OF i transmits_signal]) (simp_all add: DEV_4G_SIM_READY)
next
  case DEV_4G_SIGNAL_OK
  then show ?thesis unfolding eth_4g_switch_def DEV_4G_SIGNAL_OK eth_4g_Status_t.case
    by (intro go_if_inv [OF i transmits_both [OF transmits_expect transmits_expect]]) (simp_all add: DEV_4G_SIGNAL_OK)
next
  case DEV_4G_CFUN_OK
  then show ?thesis unfolding eth_4g_switch_def DEV_4G_CFUN_OK eth_4g_Status_t.case
    by (intro go_if_inv [OF i transmits_registration]) (simp_all add: DEV_4G_CFUN_OK)
next
  case DEV_4G_REGISTERED
  then show ?thesis unfolding eth_4g_switch_def DEV_4G_REGISTERED eth_4g_Status_t.case
    by (intro go_if_inv [OF i transmits_apn]) (simp_all add: DEV_4G_REGISTERED)
next
  case DEV_4G_APN_OK
  then show ?thesis unfolding eth_4g_switch_def DEV_4G_APN_OK eth_4g_Status_t.case
    by (intro go_if_inv [OF i transmits_both [OF transmits_expect transmits_attached]]) (simp_all add: DEV_4G_APN_OK)
next
  case DEV_4G_ATTACHED
  then show ?thesis using go_if_shell_inv [OF i shell_only_up] by (simp add: eth_4g_switch_def)
next
  case DEV_4G_IFACE_UP
  then show ?thesis using go_if_shell_inv [OF i shell_only_iface] by (simp add: eth_4g_switch_def)
next
  case DEV_4G_LINK_UP
  then show ?thesis using go_if_shell_inv [OF i shell_only_dhcp] by (simp add: eth_4g_switch_def)
next
  case DEV_4G_DHCP_OK
  then show ?thesis using ip_step_inv [OF i] by (simp add: eth_4g_switch_def)
next
  case DEV_4G_IP_OK
  then show ?thesis using i by (simp add: eth_inv_def)
next
  case DEV_4G_ONLINE
  then show ?thesis using online_step_inv [OF i] by (simp add: eth_4g_switch_def)
next
  case DEV_4G_POWER_OFF
  have "led_off (eio (snd (eth_4g_power_off w)))"
    using quiet_power_off [of w] eth_inv_led [OF i] by (simp add: quiet_def)
  then show ?thesis using DEV_4G_POWER_OFF
    by (simp add: eth_4g_switch_def) (auto intro!: fresh_inv simp: fresh_def eth_set_status_def)
qed

text \<open>From the power-up state: the LED stays off, \<open>DEV_4G_IP_OK\<close> is never entered.\<close>

lemma eth_reach_inv:
  assumes "eth_reach env w0 w" "eth_status (eth w0) = DEV_4G_IDLE" "io_log (eio w0) = []"
  shows "eth_inv w"
  using assms(1)
proof induction
  case start
  then show ?case using assms
    by (auto intro!: fresh_inv simp: fresh_def eth_4g_thread_start_def led_off_def)
next
  case (iteration w)
  then show ?case unfolding eth_4g_online_func_def by (intro switch_inv enter_inv)
next
  case (switch w b)
  then show ?case by (auto simp: eth_inv_def seen_def)
qed

text \<open>The commands of the shell fit their buffers for every interface name of 31 characters.\<close>

lemma iface_commands_fit:
  assumes "length (eth_net_if (eth w)) \<le> 31"
  shows "length (iface_up_command (eth_net_if (eth w))) < 128"
    "length (ip_command (eth_net_if (eth w))) < 256" "length (ifconfig_command (eth_net_if (eth w))) < 256"
    "length (''/sys/class/net/'' @ eth_net_if (eth w)) < 96"
  using assms by (simp_all add: iface_up_command_def ip_command_def ifconfig_command_def)

end
