(* ===== verification/Console.thy ===== *)
theory Console
  imports GnssFile CommService DbbThread Eth4g
begin

text \<open>
  The commands of the console, \<open>core/console/tty.c\<close>. The command interpreter (a library)
  calls a function with the arguments that matched the command's syntax: \<open>argv\<close> is a list
  of strings, with \<open>None\<close> for an optional keyword that was not given. Every function returns
  \<open>CMD_SUCCESS\<close>; \<open>vty_lines\<close> is what it printed, without the line ends.
\<close>

section \<open>State\<close>

record con_world =
  cfile :: file_world
  ccfg :: glob_comm_config_t
  cdbb :: dbb_ctrl_t
  ceth :: eth_4g_ctrl_t
  vty_lines :: "string list"

definition vty_out :: "string \<Rightarrow> con_world \<Rightarrow> con_world" where
  "vty_out s w = w\<lparr>vty_lines := vty_lines w @ [s]\<rparr>"

definition cgnss :: "con_world \<Rightarrow> gnss_world" where
  "cgnss w = fgnss (cfile w)"

definition on_gnss :: "(gnss_world \<Rightarrow> gnss_world) \<Rightarrow> con_world \<Rightarrow> con_world" where
  "on_gnss f w = w\<lparr>cfile := (cfile w)\<lparr>fgnss := f (fgnss (cfile w))\<rparr>\<rparr>"

definition on_gctrl :: "(gnss_ctrl_t \<Rightarrow> gnss_ctrl_t) \<Rightarrow> con_world \<Rightarrow> con_world" where
  "on_gctrl f = on_gnss (\<lambda>g. g\<lparr>gctrl := f (gctrl g)\<rparr>)"

definition argn :: "string option list \<Rightarrow> nat \<Rightarrow> string" where
  "argn argv n = (if n < length argv then (case argv ! n of Some s \<Rightarrow> s | None \<Rightarrow> []) else [])"

definition c_atoi :: "string \<Rightarrow> int" where
  "c_atoi s = (case scan_int s of None \<Rightarrow> 0 | Some (n, _) \<Rightarrow> n)"

definition flag :: "bool \<Rightarrow> u8" where
  "flag b = (if b then 1 else 0)"

section \<open>Receiver commands\<close>

definition gnss_parse_data_type_cfg :: "string option list \<Rightarrow> con_world \<Rightarrow> con_world" where
  "gnss_parse_data_type_cfg argv w =
     (if argn argv 0 = ''auto'' then
        vty_out ''set gnss data type to auto'' (on_gctrl (\<lambda>g. g\<lparr>parseDataType := GNSS_DATA_AUTO\<rparr>) w)
      else if argn argv 0 = ''nmea'' then
        vty_out ''set gnss data type to nmea'' (on_gctrl (\<lambda>g. g\<lparr>parseDataType := GNSS_DATA_NMEA\<rparr>) w)
      else if argn argv 0 = ''ephb'' then
        vty_out ''set gnss data type to ephb'' (on_gctrl (\<lambda>g. g\<lparr>parseDataType := GNSS_DATA_EPHB\<rparr>) w)
      else w)"

definition gnss_datatype_onchange_cfg :: "string option list \<Rightarrow> con_world \<Rightarrow> con_world" where
  "gnss_datatype_onchange_cfg argv w =
     vty_out (''set gnss type '' @ argn argv 0 @ '' to onchange'') (on_gnss (gnss_cfg_data_onchange (argn argv 0)) w)"

definition gnss_datatype_cfg :: "string option list \<Rightarrow> con_world \<Rightarrow> con_world" where
  "gnss_datatype_cfg argv w =
     (let per_second = c_atoi (argn argv 1)
      in vty_out (''set gnss type '' @ argn argv 0 @ '' to on '' @ show_int per_second @ ''/s'')
           (on_gnss (gnss_cfg_data (argn argv 0) 1 (of_int per_second)) w))"

definition gnss_datatype_off_cfg :: "string option list \<Rightarrow> con_world \<Rightarrow> con_world" where
  "gnss_datatype_off_cfg argv w =
     (if argn argv 0 = ''all'' then
        vty_out ''set gnss all type to off'' (on_gnss gnss_cfg_disable_out w)
      else
        vty_out (''set gnss type '' @ argn argv 0 @ '' to off'') (on_gnss (gnss_cfg_data (argn argv 0) 0 0) w))"

definition on_off :: "bool \<Rightarrow> string" where
  "on_off b = (if b then ''on'' else ''off'')"

text \<open>The lines of \<open>show_gnss_data_out\<close>: name, blanks, value.\<close>

definition data_out_lines :: "gnss_ctrl_t \<Rightarrow> (string \<times> u8) list" where
  "data_out_lines g =
     (let n = cfg_nmea (data_cfg g); e = cfg_ephb (data_cfg g); T = [CHR 0x09]
      in [(T @ ''gbs: '' @ T @ T, nmea_output (nmea_gbs n)), (T @ ''gga: '' @ T @ T, nmea_output (nmea_gga n)),
          (T @ ''gll: '' @ T @ T, nmea_output (nmea_gll n)), (T @ ''gsa: '' @ T @ T, nmea_output (nmea_gsa n)),
          (T @ ''gst: '' @ T @ T, nmea_output (nmea_gst n)), (T @ ''gsv: '' @ T @ T, nmea_output (nmea_gsv n)),
          (T @ ''rmc: '' @ T @ T, nmea_output (nmea_rmc n)), (T @ ''vtg: '' @ T @ T, nmea_output (nmea_vtg n)),
          (T @ ''zda: '' @ T @ T, nmea_output (nmea_zda n)),
          (T @ ''bdxwephb: '' @ T, eph_output (eph_bdxw e)), (T @ ''gpsephb: '' @ T, eph_output (eph_gps e)),
          (T @ ''bd2ephb: '' @ T, eph_output (eph_bd2 e)), (T @ ''bd3ephb: '' @ T, eph_output (eph_bd3 e)),
          (T @ ''bd3cnav2ephb: '' @ T, eph_output (eph_bd3cnav2 e)),
          (T @ ''bd3cnav3ephb: '' @ T, eph_output (eph_bd3cnav3 e)),
          (T @ ''gloephb: '' @ T, eph_output (eph_glo e)), (T @ ''galephb: '' @ T, eph_output (eph_gal e))])"

definition show_gnss_data_out :: "string option list \<Rightarrow> con_world \<Rightarrow> con_world" where
  "show_gnss_data_out argv w =
     foldl (\<lambda>w (label, v). vty_out (label @ on_off (v \<noteq> 0)) w) (vty_out ''gnss data out status: '' w)
       (data_out_lines (gctrl (cgnss w)))"

text \<open>The systems that were given, each with a blank in front (\<open>strcat\<close> into \<open>sys[50]\<close>).\<close>

definition sys_text :: "string option list \<Rightarrow> string" where
  "sys_text args = concat (map (\<lambda>a. case a of None \<Rightarrow> [] | Some s \<Rightarrow> '' '' @ s) args)"

definition MODE_NOTE :: string where
  "MODE_NOTE = [CHR 0x1B] @ ''[1;33mNote: the module will restart after setting mode, please re-enable the desired data output''"

definition gnss_sys_cfg :: "string option list \<Rightarrow> con_world \<Rightarrow> con_world" where
  "gnss_sys_cfg argv w =
     (let enable = flag (argn argv 0 = ''on''); sys = sys_text (tl argv)
      in vty_out MODE_NOTE
           (vty_out (''set gnss sys '' @ sys @ '' to '' @ on_off (enable \<noteq> 0)) (on_gnss (gnss_cfg_sys sys enable) w)))"

definition show_gnss_sys_cfg :: "string option list \<Rightarrow> con_world \<Rightarrow> con_world" where
  "show_gnss_sys_cfg argv w =
     (let s = sysType (gctrl (cgnss w)); T = [CHR 0x09]
      in foldl (\<lambda>w l. vty_out l w) w
           [''gnss sys: '', T @ ''bds: '' @ T @ T @ on_off (bit s 0), T @ ''gps: '' @ T @ T @ on_off (bit s 1),
            T @ ''glo: '' @ T @ T @ on_off (bit s 3), T @ ''gal: '' @ T @ T @ on_off (bit s 2)])"

definition gnss_mode_cfg :: "string option list \<Rightarrow> con_world \<Rightarrow> con_world" where
  "gnss_mode_cfg argv w =
     (let freqCode = of_int (c_atoi (argn argv 2)) :: u8
      in vty_out MODE_NOTE
           (vty_out (''set gnss mode to '' @ argn argv 0 @ '' '' @ argn argv 1 @ '' freq code '' @ show_nat (unat freqCode))
              (on_gnss (gnss_cfg_calcType_ex (argn argv 0) (argn argv 1) freqCode) w)))"

definition gnss_calc_type_cfg :: "string option list \<Rightarrow> con_world \<Rightarrow> con_world" where
  "gnss_calc_type_cfg argv w =
     (let calc = argn argv 0;
          w = vty_out (''start to set gnss calculation type to '' @ calc) w;
          w = on_gnss (gnss_cfg_calcType calc) w
      in vty_out MODE_NOTE (vty_out (''set gnss calculation type to '' @ calc) w))"

definition gnss_freset :: "string option list \<Rightarrow> con_world \<Rightarrow> con_world" where
  "gnss_freset argv w = vty_out ''gnss module reset'' (on_gnss gnss_reset w)"

definition gnss_cfgSave :: "string option list \<Rightarrow> con_world \<Rightarrow> con_world" where
  "gnss_cfgSave argv w = vty_out ''gnss module config saved'' (on_gnss gnss_cfg_save w)"

section \<open>File commands\<close>

definition with_file :: "(file_world \<Rightarrow> string \<times> file_world) \<Rightarrow> con_world \<Rightarrow> string \<times> con_world" where
  "with_file f w = (let (path, v) = f (cfile w) in (path, w\<lparr>cfile := v\<rparr>))"

definition gnss_file_nmea_cfg :: "string \<Rightarrow> string option list \<Rightarrow> con_world \<Rightarrow> con_world" where
  "gnss_file_nmea_cfg tstr argv w =
     (let w = on_gctrl (\<lambda>g. g\<lparr>parseDataType := GNSS_DATA_AUTO\<rparr>) w;
          sw = flag (argn argv 2 = ''on'');
          (path, w) = (if argn argv 0 = ''nmea_ex'' then with_file (gnss_nmea_ex_file_header (argn argv 1) sw tstr) w
                       else with_file (gnss_nmea_file_header (argn argv 1) sw tstr) w)
      in if sw \<noteq> 0 then
           vty_out (''set gnss file '' @ argn argv 0 @ '' '' @ argn argv 1 @ '' to on, file path: '' @ path @ '' '') w
         else vty_out (''set gnss file '' @ argn argv 0 @ '' '' @ argn argv 1 @ '' to off'') w)"

definition gnss_file_ephb_cfg :: "string \<Rightarrow> string option list \<Rightarrow> con_world \<Rightarrow> con_world" where
  "gnss_file_ephb_cfg tstr argv w =
     (let w = on_gctrl (\<lambda>g. g\<lparr>parseDataType := GNSS_DATA_AUTO\<rparr>) w;
          sw = flag (argn argv 1 = ''on'');
          (path, w) = with_file (gnss_ephb_info_file_header (argn argv 0) sw tstr) w
      in if sw \<noteq> 0 then
           vty_out (''set gnss file ephb '' @ argn argv 0 @ '' to on, file path: '' @ path @ '' '') w
         else vty_out (''set gnss file ephb '' @ argn argv 0 @ '' to off'') w)"

section \<open>Print levels\<close>

definition print_level :: "string \<Rightarrow> gnss_PrintType_t" where
  "print_level s =
     (if s = ''summary'' then GNSS_PRINT_SUMMARY else if s = ''full'' then GNSS_PRINT_FULL else GNSS_PRINT_NONE)"

definition on_data_cfg :: "(gnss_data_cfg_t \<Rightarrow> gnss_data_cfg_t) \<Rightarrow> con_world \<Rightarrow> con_world" where
  "on_data_cfg f = on_gctrl (\<lambda>g. g\<lparr>data_cfg := f (data_cfg g)\<rparr>)"

definition gnss_print_cfg :: "string option list \<Rightarrow> con_world \<Rightarrow> con_world" where
  "gnss_print_cfg argv w =
     (let level = print_level (argn argv 1)
      in if argn argv 0 = ''nmea'' then
           vty_out (''set gnss print nmea to '' @ argn argv 1)
             (on_data_cfg (\<lambda>d. d\<lparr>cfg_nmea := (cfg_nmea d)\<lparr>nmea_print := level\<rparr>\<rparr>) w)
         else if argn argv 0 = ''ephb'' then
           vty_out (''set gnss print ephb to '' @ argn argv 1)
             (on_data_cfg (\<lambda>d. d\<lparr>cfg_ephb := (cfg_ephb d)\<lparr>ephb_print := level\<rparr>\<rparr>) w)
         else if argn argv 0 = ''nmea_ex'' then
           vty_out (''set gnss print nmea_ex to '' @ argn argv 1)
             (on_data_cfg (\<lambda>d. d\<lparr>cfg_nmea := (cfg_nmea d)\<lparr>nmea_print_ex := level\<rparr>\<rparr>) w)
         else w)"

definition dbb_print_cfg :: "string option list \<Rightarrow> con_world \<Rightarrow> con_world" where
  "dbb_print_cfg argv w =
     (let on = (argn argv 1 = ''on'')
      in if argn argv 0 = ''info'' then
           vty_out (''set dbb print info to '' @ argn argv 1) (w\<lparr>cdbb := ctrl_set_print True on (cdbb w)\<rparr>)
         else if argn argv 0 = ''err'' then
           vty_out (''set dbb print err to '' @ argn argv 1) (w\<lparr>cdbb := ctrl_set_print False on (cdbb w)\<rparr>)
         else w)"

definition eth_4g_print_cfg :: "string option list \<Rightarrow> con_world \<Rightarrow> con_world" where
  "eth_4g_print_cfg argv w =
     (let v = (if argn argv 1 = ''on'' then ETH_4G_PRINT_ON else ETH_4G_PRINT_OFF)
      in if argn argv 0 = ''info'' then
           vty_out (''set eth_4g print info to '' @ argn argv 1) (w\<lparr>ceth := (ceth w)\<lparr>eth_print_info := v\<rparr>\<rparr>)
         else if argn argv 0 = ''err'' then
           vty_out (''set eth_4g print err to '' @ argn argv 1) (w\<lparr>ceth := (ceth w)\<lparr>eth_print_err := v\<rparr>\<rparr>)
         else w)"

section \<open>Network uplink switches\<close>

definition set_sw :: "EPH_Type_t \<Rightarrow> bool \<Rightarrow> glob_comm_config_t \<Rightarrow> glob_comm_config_t" where
  "set_sw t on c =
     c\<lparr>eph_sw := (if on then eph_sw c OR push_bit (sw_bit t) 1 else eph_sw c AND NOT (push_bit (sw_bit t) 1))\<rparr>"

definition net_up_type :: "string \<Rightarrow> EPH_Type_t option" where
  "net_up_type s =
     (if s = ''bdxwephb'' then Some BDXWEPH
      else if s = ''gpsephb'' then Some GPSEPH
      else if s = ''bd2ephb'' then Some BD2EPH
      else if s = ''bd3ephb'' then Some BD3EPH
      else if s = ''bd3cnav2ephb'' then Some BD3CNAV2EPH
      else if s = ''bd3cnav3ephb'' then Some BD3CNAV3EPH
      else if s = ''gloephb'' then Some GLOEPH
      else if s = ''galephb'' then Some GALEPH
      else None)"

definition gnss_net_up_cfg :: "string option list \<Rightarrow> con_world \<Rightarrow> con_world" where
  "gnss_net_up_cfg argv w =
     (let sw = (argn argv 1 = ''on'');
          w = (case net_up_type (argn argv 0) of None \<Rightarrow> w | Some t \<Rightarrow> w\<lparr>ccfg := set_sw t sw (ccfg w)\<rparr>)
      in vty_out (''set gnss net up '' @ argn argv 0 @ '' to '' @ argn argv 1) w)"

section \<open>Laws\<close>

lemma on_gnss_simps [simp]:
  "cgnss (on_gnss f w) = f (cgnss w)" "cgnss (vty_out s w) = cgnss w" "ccfg (vty_out s w) = ccfg w"
  "ccfg (on_gnss f w) = ccfg w"
  by (simp_all add: cgnss_def on_gnss_def vty_out_def)

text \<open>
  A name with a leading blank is none of the names of \<open>CfgsysType_from_name\<close>: the command
  that switches satellite systems never changes the recorded selection.
\<close>

lemma CfgsysType_blank: "CfgsysType_from_name (CHR '' '' # s) e g = g"
  by (simp add: CfgsysType_from_name_def c_strcaseeq_def lower_code_def c_between_def ccode_def)

lemma sys_text_blank: "sys_text args = [] \<or> (\<exists>s. sys_text args = CHR '' '' # s)"
  by (induction args) (auto simp: sys_text_def split: option.splits)

lemma CfgsysType_empty: "CfgsysType_from_name [] e g = g"
  by (simp add: CfgsysType_from_name_def c_strcaseeq_def)

lemma gnss_sys_cfg_keeps: "gctrl (cgnss (gnss_sys_cfg argv w)) = gctrl (cgnss w)"
proof -
  have "CfgsysType_from_name (sys_text (tl argv)) e g = g" for e g
    using sys_text_blank [of "tl argv"] CfgsysType_blank CfgsysType_empty by metis
  then show ?thesis
    by (simp add: gnss_sys_cfg_def gnss_cfg_sys_def Let_def split: prod.splits) (metis gctrl_dev_write snd_conv)
qed

text \<open>Switching all output off on the device leaves the recorded output flags as they were.\<close>

lemma disable_all_keeps: "gctrl (cgnss (gnss_datatype_off_cfg [Some ''all''] w)) = gctrl (cgnss w)"
  by (simp add: gnss_datatype_off_cfg_def argn_def gnss_cfg_disable_out_def)

text \<open>The uplink switches.\<close>

lemma set_sw_bit: "eph_sw_on (set_sw t on c) u = (if u = t then on else eph_sw_on c u)"
proof -
  have b: "sw_bit u < 16" for u by (cases u) simp_all
  have i: "sw_bit u = sw_bit t \<longleftrightarrow> u = t" by (cases u; cases t) simp_all
  show ?thesis using b [of u] b [of t] i
    by (auto simp: eph_sw_on_def set_sw_def bit_simps)
qed

lemma net_up_sets:
  "net_up_type (argn argv 0) = Some t \<Longrightarrow>
     eph_sw_on (ccfg (gnss_net_up_cfg argv w)) u = (if u = t then argn argv 1 = ''on'' else eph_sw_on (ccfg w) u)"
  by (simp add: gnss_net_up_cfg_def set_sw_bit)

text \<open>No argument of the ephemeris file command is a name that enables a file.\<close>

definition ephb_file_args :: "string list" where
  "ephb_file_args = [''bdxw'', ''gps'', ''bd2'', ''bd3'', ''bd3cnav2'', ''bd3cnav3'', ''glo'', ''gal'']"

lemma ephb_file_no_branch: "s \<in> set ephb_file_args \<Longrightarrow> ephb_branch s = None"
  by (auto simp: ephb_file_args_def ephb_branch_def)

lemma eph_file_Cfgdata [simp]:
  "s \<in> set ephb_file_args \<Longrightarrow> CfgdataType_from_name s e g = g"
  by (auto simp: ephb_file_args_def CfgdataType_from_name_def c_strcaseeq_def lower_code_def c_between_def ccode_def)

lemma gnss_cfg_data_keeps:
  "s \<in> set ephb_file_args \<Longrightarrow> gctrl (gnss_cfg_data s e p g) = gctrl g"
  by (auto simp: gnss_cfg_data_def Let_def split: prod.splits) (metis gctrl_dev_write snd_conv)+

lemma file_ephb_keeps:
  assumes "s \<in> set ephb_file_args"
  shows "data_cfg (gctrl (cgnss (gnss_file_ephb_cfg tstr (Some s # argv) w))) = data_cfg (gctrl (cgnss w))"
    "file_log (cfile (gnss_file_ephb_cfg tstr (Some s # argv) w)) = file_log (cfile w)"
proof -
  let ?w = "on_gctrl (\<lambda>g. g\<lparr>parseDataType := GNSS_DATA_AUTO\<rparr>) w"
  obtain path v where r: "gnss_ephb_info_file_header s (flag (argn (Some s # argv) 1 = ''on'')) tstr (cfile ?w) = (path, v)"
    by force
  have a: "argn (Some s # argv) 0 = s" by (simp add: argn_def)
  have v: "gctrl (fgnss v) = gctrl (fgnss (cfile ?w))" "file_log v = file_log (cfile ?w)"
    using r gnss_cfg_data_keeps [OF assms] ephb_file_no_branch [OF assms]
    by (auto simp: gnss_ephb_info_file_header_def Let_def)
  have k: "data_cfg (gctrl (fgnss (cfile ?w))) = data_cfg (gctrl (fgnss (cfile w)))" "file_log (cfile ?w) = file_log (cfile w)"
    by (simp_all add: on_gctrl_def on_gnss_def)
  show "data_cfg (gctrl (cgnss (gnss_file_ephb_cfg tstr (Some s # argv) w))) = data_cfg (gctrl (cgnss w))"
    "file_log (cfile (gnss_file_ephb_cfg tstr (Some s # argv) w)) = file_log (cfile w)"
    unfolding gnss_file_ephb_cfg_def Let_def a with_file_def r prod.case cgnss_def using v k
    by (simp_all add: vty_out_def)
qed

end
