(* ===== verification/DbbLive.thy ===== *)
theory DbbLive
  imports DbbThread
begin

text \<open>
  Progress of the satellite modem in normal mode: with a modem that may stay silent for any
  number of rounds but answers every command in the end, the thread gets online.
\<close>

section \<open>Rounds of the capture loop\<close>

text \<open>An answer arrives at once and the line is quiet for 400 ms; a missed round is quiet throughout.\<close>

definition answer :: "string \<Rightarrow> line_event list" where
  "answer r = [Line_data r, Line_quiet, Line_quiet]"

definition misses :: "nat \<Rightarrow> nat \<Rightarrow> line_event list" where
  "misses q k = concat (replicate k (replicate q Line_quiet))"

lemma capture_answer:
  assumes "r \<noteq> []" "length r + 1 < cap" "400 < m"
  shows "capture_loop (answer r @ es) cap [] 0 0 m = (True, es, r, 400)"
proof -
  have "capture_loop (answer r @ es) cap [] 0 0 m = capture_loop (Line_quiet # Line_quiet # es) cap r 0 0 m"
  proof -
    have "\<not> cap - 1 < length r" using assms(2) by linarith
    then show ?thesis using assms by (subst capture_loop.simps) (simp add: answer_def Let_def)
  qed
  also have "\<dots> = capture_loop (Line_quiet # es) cap r 200 200 m"
    using assms by (subst capture_loop.simps) simp
  also have "\<dots> = (True, es, r, 400)"
    using assms by (subst capture_loop.simps) simp
  finally show ?thesis .
qed

lemma capture_quiet:
  assumes "1 < cap"
  shows "capture_loop (replicate n Line_quiet @ es) cap [] 0 t (t + 200 * n) = (True, es, [], t + 200 * n)"
proof (induction n arbitrary: t)
  case 0
  then show ?case by (simp add: capture_loop.simps)
next
  case (Suc n)
  have e: "t + 200 * Suc n = (t + 200) + 200 * n" by simp
  show ?case using assms Suc [of "t + 200"] unfolding e
    by (subst capture_loop.simps) (simp add: e [symmetric])
qed

text \<open>The port while everything that is written is accepted.\<close>

definition line :: "line_event list \<Rightarrow> at_port \<Rightarrow> bool" where
  "line es p \<longleftrightarrow> rx_script p = es \<and> tx_script p = [] \<and> 0 \<le> at_fd p"

lemma write_all_accepts: "write_all_loop [] buf = (True, [], buf)"
  by (cases buf) simp_all

definition good_reply :: "string list \<Rightarrow> string \<Rightarrow> bool" where
  "good_reply texts r \<longleftrightarrow> r \<noteq> [] \<and> length r + 1 < DBB_MAX_RESPONSE \<and> list_all (c_contains (c_str r)) texts"

lemma capture_response_line:
  assumes "line es p" "case cmd of None \<Rightarrow> True | Some c \<Rightarrow> length c < 255"
    and c: "capture_loop es DBB_MAX_RESPONSE [] 0 0 m = (True, es', r, t)"
  shows "\<exists>p'. dbb_capture_response cmd DBB_MAX_RESPONSE m p = (if 0 < length r then 0 else - 1, r, p') \<and> line es' p'"
  using assms unfolding dbb_capture_response_def capture_response_def
  by (auto simp: line_def DBB_MAX_RESPONSE_def port_write_all_def write_all_accepts split: option.splits)

lemma at_expect_answer:
  assumes "line (answer r @ es) p" "length cmd < 255" "good_reply [''OK'', e] r"
  shows "\<exists>p'. dbb_at_expect cmd (Some e) p = (0, p') \<and> line es p'"
proof -
  have "capture_loop (answer r @ es) DBB_MAX_RESPONSE [] 0 0 DBB_AT_TIMEOUT_MS = (True, es, r, 400)"
    using assms(3) by (intro capture_answer) (auto simp: good_reply_def DBB_AT_TIMEOUT_MS_def)
  from capture_response_line [OF assms(1) _ this, of "Some cmd"] assms(2,3)
  show ?thesis by (auto simp: dbb_at_expect_def good_reply_def check_response_def)
qed

lemma at_expect_miss:
  assumes "line (replicate 10 Line_quiet @ es) p" "length cmd < 255"
  shows "\<exists>p'. dbb_at_expect cmd e p = (- 1, p') \<and> line es p'"
proof -
  have "capture_loop (replicate 10 Line_quiet @ es) DBB_MAX_RESPONSE [] 0 0 DBB_AT_TIMEOUT_MS = (True, es, [], 2000)"
    using capture_quiet [of DBB_MAX_RESPONSE 10 es 0] by (simp add: DBB_MAX_RESPONSE_def DBB_AT_TIMEOUT_MS_def)
  from capture_response_line [OF assms(1) _ this, of "Some cmd"] assms(2)
  show ?thesis by (auto simp: dbb_at_expect_def)
qed

section \<open>The ladder\<close>

text \<open>A state of the set-up with the rest of the modem's behaviour.\<close>

definition at_state :: "dbb_status_t \<Rightarrow> line_event list \<Rightarrow> dbb_world \<Rightarrow> bool" where
  "at_state s es w \<longleftrightarrow> dbb_mode (dbb w) = DBB_MODE_NORMAL \<and> dbb_status (dbb w) = s \<and> line es (dport w)"

text \<open>
  One rung: a missed round of \<open>q\<close> quiet waits changes nothing, a good reply leads to the next
  state.
\<close>

definition rung :: "(dbb_world \<Rightarrow> dbb_world) \<Rightarrow> dbb_status_t \<Rightarrow> nat \<Rightarrow> string list \<Rightarrow> dbb_status_t \<Rightarrow> bool" where
  "rung f s q texts t \<longleftrightarrow>
     (\<forall>w es. at_state s (replicate q Line_quiet @ es) w \<longrightarrow> at_state s es (f w))
     \<and> (\<forall>w es r. good_reply texts r \<longrightarrow> at_state s (answer r @ es) w \<longrightarrow> at_state t es (f w))"

lemma rung_climb:
  assumes "rung f s q texts t" "good_reply texts r"
  shows "at_state s (misses q k @ answer r @ es) w \<Longrightarrow> at_state t es ((f ^^ Suc k) w)"
proof (induction k arbitrary: w)
  case 0
  then show ?case using assms by (simp add: misses_def rung_def)
next
  case (Suc k)
  have "at_state s (misses q k @ answer r @ es) (f w)"
    using Suc.prems assms(1) by (simp add: misses_def rung_def)
  from Suc.IH [OF this] show ?case by (simp only: funpow_Suc_right o_apply)
qed

lemma rung_expect:
  assumes "\<And>w. dbb_mode (dbb w) = DBB_MODE_NORMAL \<Longrightarrow> dbb_status (dbb w) = s \<Longrightarrow> f w = expect_then c e t w" "length c < 255"
  shows "rung f s 10 [''OK'', e] t"
proof -
  have "at_state s es (f w)" if a: "at_state s (replicate 10 Line_quiet @ es) w" for w es
  proof -
    have f: "f w = expect_then c e t w" using a assms(1) by (simp add: at_state_def)
    obtain p where "dbb_at_expect c (Some e) (dport w) = (- 1, p)" "line es p"
      using at_expect_miss [of es "dport w" c "Some e"] a assms(2) by (auto simp: at_state_def)
    then show ?thesis using a by (simp add: f expect_then_def on_port_def at_state_def)
  qed
  moreover have "at_state t es (f w)" if a: "at_state s (answer r @ es) w" "good_reply [''OK'', e] r" for w es r
  proof -
    have f: "f w = expect_then c e t w" using a assms(1) by (simp add: at_state_def)
    obtain p where "dbb_at_expect c (Some e) (dport w) = (0, p)" "line es p"
      using at_expect_answer [of r es "dport w" c e] a assms(2) by (auto simp: at_state_def)
    then show ?thesis using a by (simp add: f expect_then_def on_port_def at_state_def)
  qed
  ultimately show ?thesis unfolding rung_def by blast
qed

lemma rung_wait:
  assumes "\<And>w. dbb_mode (dbb w) = DBB_MODE_NORMAL \<Longrightarrow> dbb_status (dbb w) = s \<Longrightarrow> f w = wait_then e t w" "e \<noteq> []"
  shows "rung f s 150 [e] t"
proof -
  have "at_state s es (f w)" if a: "at_state s (replicate 150 Line_quiet @ es) w" for w es
  proof -
    have f: "f w = wait_then e t w" using a assms(1) by (simp add: at_state_def)
    have "capture_loop (replicate 150 Line_quiet @ es) DBB_MAX_RESPONSE [] 0 0 DBB_WAIT_EVENT_TIMEOUT_MS = (True, es, [], 30000)"
      using capture_quiet [of DBB_MAX_RESPONSE 150 es 0] by (simp add: DBB_MAX_RESPONSE_def DBB_WAIT_EVENT_TIMEOUT_MS_def)
    from capture_response_line [OF _ _ this, of "dport w" None] a
    obtain p where "dbb_wait_for_text e DBB_MAX_RESPONSE DBB_WAIT_EVENT_TIMEOUT_MS (dport w) = (- 1, [], p)" "line es p"
      using assms(2) by (auto simp: at_state_def dbb_wait_for_text_def)
    then show ?thesis using a by (simp add: f wait_then_def at_state_def)
  qed
  moreover have "at_state t es (f w)" if a: "at_state s (answer r @ es) w" "good_reply [e] r" for w es r
  proof -
    have f: "f w = wait_then e t w" using a assms(1) by (simp add: at_state_def)
    have "capture_loop (answer r @ es) DBB_MAX_RESPONSE [] 0 0 DBB_WAIT_EVENT_TIMEOUT_MS = (True, es, r, 400)"
      using a(2) by (intro capture_answer) (auto simp: good_reply_def DBB_WAIT_EVENT_TIMEOUT_MS_def)
    from capture_response_line [OF _ _ this, of "dport w" None] a
    obtain p where "dbb_wait_for_text e DBB_MAX_RESPONSE DBB_WAIT_EVENT_TIMEOUT_MS (dport w) = (0, r, p)" "line es p"
      using assms(2) by (auto simp: at_state_def dbb_wait_for_text_def good_reply_def)
    then show ?thesis using a by (simp add: f wait_then_def at_state_def)
  qed
  ultimately show ?thesis unfolding rung_def by blast
qed

lemma at_state_led [simp]: "at_state s es (dbb_led on w) = at_state s es w"
  by (simp add: at_state_def)

text \<open>The rungs of the ladder: how long a missed round is, and what the answer must contain.\<close>

definition NORMAL_LADDER :: "(nat \<times> string list) list" where
  "NORMAL_LADDER =
     [(10, [''OK'', ''OK'']), (10, [''OK'', ''OK'']), (10, [''OK'', ''OK'']), (10, [''OK'', ''OK'']), (10, [''OK'', ''OK'']),
      (10, [''OK'', ''OK'']), (10, [''OK'', ''OK'']), (10, [''OK'', ''+CREGXW:1'']), (150, [''+CREV: ME PDN ACT 1'']),
      (10, [''OK'', ''+CIREG:1''])]"

fun climbs :: "(dbb_world \<Rightarrow> dbb_world) \<Rightarrow> dbb_status_t \<Rightarrow> (nat \<times> string list) list \<Rightarrow> dbb_status_t \<Rightarrow> bool" where
  "climbs f s [] t \<longleftrightarrow> s = t"
| "climbs f s ((q, texts) # rs) t \<longleftrightarrow> (\<exists>u. rung f s q texts u \<and> climbs f u rs t)"

text \<open>What the line does: rung by rung, some missed rounds and then an answer.\<close>

fun modem_script :: "(nat \<times> string list) list \<Rightarrow> (nat \<times> string) list \<Rightarrow> line_event list" where
  "modem_script ((q, texts) # rs) ((k, r) # as) = misses q k @ answer r @ modem_script rs as"
| "modem_script _ _ = []"

lemma climbs_up:
  "climbs f s rs t \<Longrightarrow> list_all2 (\<lambda>(q, texts) (k, r). good_reply texts r) rs as
     \<Longrightarrow> at_state s (modem_script rs as) w \<Longrightarrow> at_state t [] ((f ^^ (sum_list (map fst as) + length as)) w)"
proof (induction rs as arbitrary: s w rule: modem_script.induct)
  case (1 q texts rs k r as)
  then obtain u where u: "rung f s q texts u" "climbs f u rs t" by auto
  have "at_state u (modem_script rs as) ((f ^^ Suc k) w)"
    by (rule rung_climb [OF u(1)]) (use "1.prems" in simp_all)
  from "1.IH" [OF u(2) _ this] "1.prems"(2)
  have "at_state t [] ((f ^^ (sum_list (map fst as) + length as)) ((f ^^ Suc k) w))" by simp
  moreover have "(f ^^ (sum_list (map fst as) + length as)) ((f ^^ Suc k) w) = (f ^^ (sum_list (map fst as) + length as + Suc k)) w"
    by (simp only: funpow_add o_apply)
  ultimately show ?case by (simp add: ac_simps)
qed auto

lemma rung_cireg:
  assumes "\<And>w. dbb_mode (dbb w) = DBB_MODE_NORMAL \<Longrightarrow> dbb_status (dbb w) = DEV_DBB_WAIT_CIREG \<Longrightarrow>
    f w = (if dbb_status (dbb (expect_then ''AT+CIREG?'' ''+CIREG:1'' DEV_DBB_ONLINE w)) = DEV_DBB_ONLINE
           then dbb_led 1 (expect_then ''AT+CIREG?'' ''+CIREG:1'' DEV_DBB_ONLINE w)
           else expect_then ''AT+CIREG?'' ''+CIREG:1'' DEV_DBB_ONLINE w)"
  shows "rung f DEV_DBB_WAIT_CIREG 10 [''OK'', ''+CIREG:1''] DEV_DBB_ONLINE"
proof -
  have "rung (expect_then ''AT+CIREG?'' ''+CIREG:1'' DEV_DBB_ONLINE) DEV_DBB_WAIT_CIREG 10 [''OK'', ''+CIREG:1''] DEV_DBB_ONLINE"
    by (rule rung_expect [where c = "''AT+CIREG?''"]) simp_all
  moreover have "at_state s es (f w) = at_state s es (expect_then ''AT+CIREG?'' ''+CIREG:1'' DEV_DBB_ONLINE w)"
    if "at_state DEV_DBB_WAIT_CIREG es' w" for s es es' w
    using assms [of w] that by (simp add: at_state_def)
  ultimately show ?thesis unfolding rung_def by blast
qed

lemma normal_rungs:
  "rung (dbb_online_func cs now) DEV_DBB_POWER_ON 10 [''OK'', ''OK''] DEV_DBB_SIM_READY"
  "rung (dbb_online_func cs now) DEV_DBB_SIM_READY 10 [''OK'', ''OK''] DEV_DBB_CFUN_OK"
  "rung (dbb_online_func cs now) DEV_DBB_CFUN_OK 10 [''OK'', ''OK''] DEV_DBB_CREG_OK"
  "rung (dbb_online_func cs now) DEV_DBB_CREG_OK 10 [''OK'', ''OK''] DEV_DBB_CNMI_OK"
  "rung (dbb_online_func cs now) DEV_DBB_CNMI_OK 10 [''OK'', ''OK''] DEV_DBB_DSCI_OK"
  "rung (dbb_online_func cs now) DEV_DBB_DSCI_OK 10 [''OK'', ''OK''] DEV_DBB_CGDCONT_OK"
  "rung (dbb_online_func cs now) DEV_DBB_CGDCONT_OK 10 [''OK'', ''OK''] DEV_DBB_WAIT_CREGXW"
  "rung (dbb_online_func cs now) DEV_DBB_WAIT_CREGXW 10 [''OK'', ''+CREGXW:1''] DEV_DBB_WAIT_CREV"
  "rung (dbb_online_func cs now) DEV_DBB_WAIT_CREV 150 [''+CREV: ME PDN ACT 1''] DEV_DBB_WAIT_CIREG"
  "rung (dbb_online_func cs now) DEV_DBB_WAIT_CIREG 10 [''OK'', ''+CIREG:1''] DEV_DBB_ONLINE"
  subgoal by (rule rung_expect [where c = "''AT+CIMI''"]; simp add: dbb_online_func_def normal_step_def quoted_def)
  subgoal by (rule rung_expect [where c = "''AT+CFUN=5''"]; simp add: dbb_online_func_def normal_step_def quoted_def)
  subgoal by (rule rung_expect [where c = "''AT+CREG=1''"]; simp add: dbb_online_func_def normal_step_def quoted_def)
  subgoal by (rule rung_expect [where c = "''AT+CNMI=2,2,0,1,0''"]; simp add: dbb_online_func_def normal_step_def quoted_def)
  subgoal by (rule rung_expect [where c = "''AT+DSCI=1''"]; simp add: dbb_online_func_def normal_step_def quoted_def)
  subgoal by (rule rung_expect [where c = "''AT+CGDCONT=1,'' @ quoted ''IP''"]; simp add: dbb_online_func_def normal_step_def quoted_def)
  subgoal by (rule rung_expect [where c = "''AT^PSDATA=2''"]; simp add: dbb_online_func_def normal_step_def quoted_def)
  subgoal by (rule rung_expect [where c = "''AT+CREGXW?''"]; simp add: dbb_online_func_def normal_step_def quoted_def)
  subgoal by (rule rung_wait; simp add: dbb_online_func_def normal_step_def)
  subgoal by (rule rung_cireg)
    (auto simp: dbb_online_func_def normal_step_def expect_then_def on_port_def split: prod.splits)
  done

lemma normal_ladder:
  "climbs (dbb_online_func cs now) DEV_DBB_POWER_ON NORMAL_LADDER DEV_DBB_ONLINE"
  unfolding NORMAL_LADDER_def climbs.simps by (rule exI conjI normal_rungs refl)+

end
