(* ===== verification/GnssThread.thy ===== *)
theory GnssThread
  imports Gateway Gpio
begin

text \<open>
  The receive thread from its start (\<open>gnss_thread_func\<close> of \<open>core/src/gnss_thread.c\<close>): the power-up of the
  board, the set-up commands to the receiver, and the endless loop over the results of \<open>read\<close>.
  The pins are those of \<open>Gpio\<close>, the rest of the state is the gateway.
\<close>

section \<open>Start\<close>

definition gw_on_gnss :: "(gnss_world \<Rightarrow> gnss_world) \<Rightarrow> gateway \<Rightarrow> gateway" where
  "gw_on_gnss f s = gw_set_gnss (f (gworld (gw_comm s))) s"

definition set_gnss_fd :: "int \<Rightarrow> gnss_world \<Rightarrow> gnss_world" where
  "set_gnss_fd fd w = w\<lparr>gctrl := (gctrl w)\<lparr>gnss_fd := fd\<rparr>\<rparr>"

definition set_parse_type :: "gnss_ParseDataType_t \<Rightarrow> gnss_world \<Rightarrow> gnss_world" where
  "set_parse_type t w = w\<lparr>gctrl := (gctrl w)\<lparr>parseDataType := t\<rparr>\<rparr>"

text \<open>The statements before the loop; \<open>fd\<close> is what \<open>open\<close> returns. \<open>False\<close>: the thread has ended.\<close>

definition gnss_thread_start :: "int \<Rightarrow> io_world \<Rightarrow> gateway \<Rightarrow> bool \<times> io_world \<times> gateway" where
  "gnss_thread_start fd io s =
     (let (_, io) = gnss_bdd_disable io;
          (rc, io) = gnss_bdd_enable io
      in if rc < 0 then (False, io, s)
         else let s = gw_on_gnss (set_gnss_fd fd) s
         in if fd < 0 then (False, io, s)
            else (True, io,
              gw_on_gnss (gnss_cfg_data ''RMC'' 1 1)
                (gw_on_gnss (gnss_cfg_calcType_ex ''ROVER'' ''FPPP'' 13)
                  (gw_on_gnss (set_parse_type GNSS_DATA_AUTO) s))))"

section \<open>The loop\<close>

text \<open>
  The results of \<open>read\<close> with the clock at that time. The loop drains the device until it has
  nothing more; when it had nothing at all it sleeps for a millisecond. A read error closes the
  descriptor and ends the thread. The result is the gateway, the number of sleeps, and the closed
  descriptor; the loop goes on when the list is used up.
\<close>

datatype read_event = Read_bytes bytes | Read_eintr | Read_again | Read_zero | Read_error

fun gnss_thread_loop ::
    "(int \<Rightarrow> string) \<Rightarrow> (clock \<times> read_event) list \<Rightarrow> bool \<Rightarrow> gateway \<Rightarrow> (gateway \<times> nat \<times> int option) option" where
  "gnss_thread_loop utc [] drained s = Some (s, 0, None)"
| "gnss_thread_loop utc ((ck, Read_bytes buf) # es) drained s =
     (case gateway_receive utc ck buf s of None \<Rightarrow> None | Some s \<Rightarrow> gnss_thread_loop utc es True s)"
| "gnss_thread_loop utc ((ck, Read_eintr) # es) drained s = gnss_thread_loop utc es drained s"
| "gnss_thread_loop utc ((ck, Read_error) # es) drained s = Some (s, 0, Some (gnss_fd (gw_ctrl s)))"
| "gnss_thread_loop utc ((ck, _) # es) drained s =
     map_option (\<lambda>(s, naps, shut). (s, if drained then naps else naps + 1, shut)) (gnss_thread_loop utc es False s)"

section \<open>What the thread keeps\<close>

text \<open>A round changes the buffers of the control block, and nothing else in it.\<close>

lemma nmea_bytes_fd: "gnss_handle_nmea_bytes buf req g = (g', ss) \<Longrightarrow> gnss_fd g' = gnss_fd g \<and> parseDataType g' = parseDataType g"
  by (auto simp: gnss_handle_nmea_bytes_def split: prod.splits)

lemma raw_bytes_fd:
  "gnss_handle_raw_bytes net buf g = Some (g', evs) \<Longrightarrow> gnss_fd g' = gnss_fd g \<and> parseDataType g' = parseDataType g"
  by (auto simp: gnss_handle_raw_bytes_def raw_append_def raw_consume_def Let_def split: option.splits if_splits)

lemma thread_data_fd:
  "gnss_thread_data net buf g = Some (g', evs, ss) \<Longrightarrow> gnss_fd g' = gnss_fd g \<and> parseDataType g' = parseDataType g"
  by (auto simp: gnss_thread_data_def split: gnss_ParseDataType_t.splits option.splits prod.splits
      dest!: nmea_bytes_fd raw_bytes_fd)

lemma gateway_read_fd:
  assumes "gateway_read utc buf s = Some (s', ss)"
  shows "gnss_fd (gw_ctrl s') = gnss_fd (gw_ctrl s)" "parseDataType (gw_ctrl s') = parseDataType (gw_ctrl s)"
  using assms by (auto simp: gateway_read_def split: option.splits dest: thread_data_fd)

lemma gateway_sentence_ctrl:
  assumes "gateway_sentence ck x s = Some s'" "gateway_inv s"
  shows "gw_ctrl s' = gw_ctrl s"
proof -
  let ?w = "\<lparr>nm_files = gw_files s, nm_comm = gw_comm s, nm_out = gw_out s, nm_file_type = MINMEA_UNKNOWN,
    nm_clock = gw_clock s\<rparr>"
  obtain w where h: "handle_gnss_nmea ck x ?w = Some w" and s': "gw_comm s' = nm_comm w"
    using assms(1) by (auto simp: gateway_sentence_def)
  from h show ?thesis
    by (cases rule: handle_gnss_nmea_net)
      (use assms(2) in \<open>simp_all add: s' gw_ctrl_def gateway_inv_def net_send_keeps length_pos_info\<close>)
qed

lemma gateway_sentences_ctrl:
  "gateway_sentences ck ss s = Some s' \<Longrightarrow> gateway_inv s \<Longrightarrow> gw_ctrl s' = gw_ctrl s"
  by (induction ss arbitrary: s)
    (auto split: option.splits, metis gateway_sentence_inv gateway_sentence_ctrl)

lemma gateway_receive_fd:
  assumes "gateway_receive utc ck buf s = Some s'" "gateway_inv s"
  shows "gnss_fd (gw_ctrl s') = gnss_fd (gw_ctrl s) \<and> parseDataType (gw_ctrl s') = parseDataType (gw_ctrl s)"
proof -
  obtain s1 ss where r: "gateway_read utc buf s = Some (s1, ss)" "gateway_sentences ck ss s1 = Some s'"
    using assms(1) by (auto simp: gateway_receive_def split: option.splits)
  show ?thesis
    using gateway_read_fd [OF r(1)] gateway_sentences_ctrl [OF r(2) gateway_read_inv [OF r(1) assms(2)]] by simp
qed

lemma gnss_thread_loop_inv:
  "gnss_thread_loop utc es drained s = Some (t, naps, shut) \<Longrightarrow> gateway_inv s \<Longrightarrow>
     gateway_inv t \<and> gnss_fd (gw_ctrl t) = gnss_fd (gw_ctrl s) \<and> parseDataType (gw_ctrl t) = parseDataType (gw_ctrl s)
     \<and> (shut = None \<or> shut = Some (gnss_fd (gw_ctrl s)))
     \<and> (shut = None \<longleftrightarrow> Read_error \<notin> snd ` set es)"
proof (induction utc es drained s arbitrary: naps shut rule: gnss_thread_loop.induct)
  case (2 utc ck buf es drained s)
  then obtain s1 where r: "gateway_receive utc ck buf s = Some s1"
    "gnss_thread_loop utc es True s1 = Some (t, naps, shut)"
    by (auto split: option.splits)
  show ?case
    using "2.IH" [OF r gateway_receive_inv [OF r(1) "2.prems"(2)]] gateway_receive_fd [OF r(1) "2.prems"(2)] by auto
qed (auto split: if_splits)

section \<open>The set-up\<close>

text \<open>The two lines that the receiver gets at the start.\<close>

definition MODE_COMMAND :: string where "MODE_COMMAND = ''CSHG MODE ROVER FPPP 13 '' @ CRLF"
definition RMC_COMMAND :: string where "RMC_COMMAND = ''CSHG OPEN COM1 RMC ONTIME 1 '' @ CRLF"

lemma gw_on_gnss_simps [simp]:
  "gworld (gw_comm (gw_on_gnss f s)) = f (gworld (gw_comm s))"
  "gw_ctrl (gw_on_gnss f s) = gctrl (f (gworld (gw_comm s)))"
  "udp_ctx (gw_comm (gw_on_gnss f s)) = udp_ctx (gw_comm s)"
  "fgnss (gw_files (gw_on_gnss f s)) = f (gworld (gw_comm s))"
  by (simp_all add: gw_on_gnss_def)

lemma gw_on_gnss_inv:
  "gateway_inv s \<Longrightarrow> gnss_ctrl_inv (gctrl (f (gworld (gw_comm s)))) \<Longrightarrow> gateway_inv (gw_on_gnss f s)"
  by (simp add: gateway_inv_def)

lemma calcType_ex_fppp:
  assumes "dev_ok w"
  shows "\<exists>rest. list_all id rest \<and> gnss_cfg_calcType_ex ''ROVER'' ''FPPP'' 13 w =
    w\<lparr>dev_script := rest, dev_out := dev_out w @ [MODE_COMMAND],
      gctrl := (gctrl w)\<lparr>calcType := GNSS_CALC_FPPP\<rparr>\<rparr>"
proof -
  have c: "cmd_buff (''CSHG MODE '' @ ''ROVER'' @ '' '' @ ''FPPP'' @ '' '' @ show_nat (unat (13 :: u8)) @ '' '' @ CRLF)
      = MODE_COMMAND"
    by code_simp
  obtain rest where "list_all id rest" "gnss_dev_write MODE_COMMAND w =
      (int (length MODE_COMMAND), w\<lparr>dev_script := rest, dev_out := dev_out w @ [MODE_COMMAND]\<rparr>)"
    using dev_write_ok [OF assms] by blast
  moreover have "\<not> c_strcaseeq ''FPPP'' ''ppp''" "c_strcaseeq ''FPPP'' ''fppp''" by code_simp+
  ultimately show ?thesis
    unfolding gnss_cfg_calcType_ex_def c by (auto simp: set_calcType_def Let_def)
qed

lemma calcType_ex_ctrl:
  "\<exists>t. gctrl (gnss_cfg_calcType_ex a b c w) = (gctrl w)\<lparr>calcType := t\<rparr>"
proof -
  obtain r w1 where d: "gnss_dev_write
      (cmd_buff (''CSHG MODE '' @ a @ '' '' @ b @ '' '' @ show_nat (unat c) @ '' '' @ CRLF)) w = (r, w1)" by fastforce
  have g: "gctrl w1 = gctrl w" using gctrl_dev_write d by (metis snd_conv)
  have "gnss_cfg_calcType_ex a b c w = w1 \<or> (\<exists>t. gnss_cfg_calcType_ex a b c w = set_calcType t w1)"
    unfolding gnss_cfg_calcType_ex_def d by auto
  then show ?thesis
  proof
    assume "gnss_cfg_calcType_ex a b c w = w1"
    then have "gctrl (gnss_cfg_calcType_ex a b c w) = (gctrl w)\<lparr>calcType := calcType (gctrl w)\<rparr>" by (simp add: g)
    then show ?thesis ..
  qed (auto simp: set_calcType_def g)
qed

lemma Cfgdata_parse_type [simp]: "parseDataType (CfgdataType_from_name t e g) = parseDataType g"
  by (simp add: CfgdataType_from_name_def set_eph_output_def set_nmea_output_def)

lemma cfg_data_fields [simp]:
  "gnss_fd (gctrl (gnss_cfg_data t e p w)) = gnss_fd (gctrl w)"
  "parseDataType (gctrl (gnss_cfg_data t e p w)) = parseDataType (gctrl w)"
  by (auto simp: gnss_cfg_data_def Let_def split: prod.splits dest!: arg_cong [where f = "\<lambda>x. gctrl (snd x)"])

lemma gnss_thread_start_inv:
  assumes "gnss_thread_start fd io s = (ok, io', s')" "gateway_inv s"
  shows "gateway_inv s'" "ok \<Longrightarrow> 0 \<le> fd \<and> gnss_fd (gw_ctrl s') = fd \<and> parseDataType (gw_ctrl s') = GNSS_DATA_AUTO"
proof -
  let ?s1 = "gw_on_gnss (set_gnss_fd fd) s"
  let ?s2 = "gw_on_gnss (set_parse_type GNSS_DATA_AUTO) ?s1"
  let ?s3 = "gw_on_gnss (gnss_cfg_calcType_ex ''ROVER'' ''FPPP'' 13) ?s2"
  have i0: "gnss_ctrl_inv (gctrl (gworld (gw_comm s)))" using assms(2) by (simp add: gateway_inv_def gw_ctrl_def)
  have i1: "gateway_inv ?s1"
    by (rule gw_on_gnss_inv [OF assms(2)]) (use i0 in \<open>simp add: set_gnss_fd_def gnss_ctrl_inv_def\<close>)
  have i2: "gateway_inv ?s2"
    by (rule gw_on_gnss_inv [OF i1]) (use i0 in \<open>simp add: set_gnss_fd_def set_parse_type_def gnss_ctrl_inv_def\<close>)
  obtain t where t: "gctrl (gnss_cfg_calcType_ex ''ROVER'' ''FPPP'' 13 (gworld (gw_comm ?s2)))
      = (gctrl (gworld (gw_comm ?s2)))\<lparr>calcType := t\<rparr>"
    using calcType_ex_ctrl by blast
  have i3: "gateway_inv ?s3"
    by (rule gw_on_gnss_inv [OF i2], unfold t) (use i0 in \<open>simp add: set_gnss_fd_def set_parse_type_def gnss_ctrl_inv_def\<close>)
  have i4: "gateway_inv (gw_on_gnss (gnss_cfg_data ''RMC'' 1 1) ?s3)"
    by (rule gw_on_gnss_inv [OF i3]) (use i3 in \<open>simp add: gateway_inv_def gw_ctrl_def\<close>)
  have c: "(s' = s \<and> \<not> ok) \<or> (s' = ?s1 \<and> \<not> ok) \<or> (s' = gw_on_gnss (gnss_cfg_data ''RMC'' 1 1) ?s3 \<and> ok \<and> 0 \<le> fd)"
    using assms(1) unfolding gnss_thread_start_def Let_def by (auto split: prod.splits if_splits)
  then show "gateway_inv s'" using assms(2) i1 i4 by auto
  have "gctrl (gworld (gw_comm ?s3)) = (gctrl (gworld (gw_comm ?s2)))\<lparr>calcType := t\<rparr>" using t by simp
  then show "ok \<Longrightarrow> 0 \<le> fd \<and> gnss_fd (gw_ctrl s') = fd \<and> parseDataType (gw_ctrl s') = GNSS_DATA_AUTO"
    using c by (auto simp: set_gnss_fd_def set_parse_type_def)
qed

lemma gnss_thread_start_commands:
  assumes "gnss_thread_start fd io s = (True, io', s')" "list_all id (dev_script (gworld (gw_comm s)))"
  shows "dev_out (gworld (gw_comm s')) = dev_out (gworld (gw_comm s)) @ [MODE_COMMAND, RMC_COMMAND]"
    "nmea_output (nmea_rmc (cfg_nmea (data_cfg (gw_ctrl s')))) = 1" "calcType (gw_ctrl s') = GNSS_CALC_FPPP"
proof -
  let ?w = "set_parse_type GNSS_DATA_AUTO (set_gnss_fd fd (gworld (gw_comm s)))"
  have fd: "0 \<le> fd" and g: "gworld (gw_comm s') = gnss_cfg_data ''RMC'' 1 1 (gnss_cfg_calcType_ex ''ROVER'' ''FPPP'' 13 ?w)"
    using assms(1) unfolding gnss_thread_start_def Let_def by (auto split: prod.splits if_splits)
  have "dev_ok ?w" using fd assms(2) by (simp add: dev_ok_def set_parse_type_def set_gnss_fd_def)
  from calcType_ex_fppp [OF this] obtain rest where c: "list_all id rest"
    "gnss_cfg_calcType_ex ''ROVER'' ''FPPP'' 13 ?w = ?w\<lparr>dev_script := rest,
      dev_out := dev_out ?w @ [MODE_COMMAND], gctrl := (gctrl ?w)\<lparr>calcType := GNSS_CALC_FPPP\<rparr>\<rparr>"
    by blast
  have ok: "dev_ok (gnss_cfg_calcType_ex ''ROVER'' ''FPPP'' 13 ?w)"
    using c(1) fd unfolding c(2) by (simp add: dev_ok_def set_parse_type_def set_gnss_fd_def)
  have m: "cfg_command ''RMC'' 1 1 = RMC_COMMAND" by code_simp
  have d: "dev_out (gworld (gw_comm s')) = dev_out (gnss_cfg_calcType_ex ''ROVER'' ''FPPP'' 13 ?w) @ [RMC_COMMAND]"
    and k: "gw_ctrl s' = CfgdataType_from_name ''RMC'' 1 (gctrl (gnss_cfg_calcType_ex ''ROVER'' ''FPPP'' 13 ?w))"
    using gnss_cfg_data_ok(2,3) [OF ok, of "''RMC''" 1 1] by (simp_all only: gw_ctrl_def g m)
  then show "dev_out (gworld (gw_comm s')) = dev_out (gworld (gw_comm s)) @ [MODE_COMMAND, RMC_COMMAND]"
    unfolding c(2) by (simp add: set_parse_type_def set_gnss_fd_def)
  have "\<not> c_strcaseeq ''RMC'' ''gbs''" "\<not> c_strcaseeq ''RMC'' ''gga''" "\<not> c_strcaseeq ''RMC'' ''gll''"
    "\<not> c_strcaseeq ''RMC'' ''gsa''" "\<not> c_strcaseeq ''RMC'' ''gst''" "\<not> c_strcaseeq ''RMC'' ''gsv''"
    "c_strcaseeq ''RMC'' ''rmc''" by code_simp+
  then have "CfgdataType_from_name ''RMC'' 1 x = set_nmea_output nmea_rmc_update 1 x" for x
    by (simp add: CfgdataType_from_name_def)
  with k show "nmea_output (nmea_rmc (cfg_nmea (data_cfg (gw_ctrl s')))) = 1" "calcType (gw_ctrl s') = GNSS_CALC_FPPP"
    unfolding c(2) by (simp_all add: set_nmea_output_def)
qed

end
