(* ===== verification/MinmeaTime.thy ===== *)
theory MinmeaTime
  imports NmeaLog NmeaCheck
begin

text \<open>
  The functions of \<open>core/third_party/minmea.c\<close> and \<open>minmea.h\<close> that the program does not call: the bare
  checksum, the names of the sentences, rescaling, and the conversion of a date and a time. They
  are set against what the program does instead.
\<close>

section \<open>Checksum and names\<close>

definition minmea_checksum :: "string \<Rightarrow> u8" where
  "minmea_checksum sentence =
     (let s = (case sentence of [] \<Rightarrow> [] | c # r \<Rightarrow> if c = CHR ''$'' then r else sentence)
      in fold (\<lambda>c checksum. checksum XOR of_nat (ccode c)) (takeWhile (\<lambda>c. c \<noteq> CHR ''*'') s) 0)"

text \<open>\<open>enum minmea_sentence_id\<close> as a number, and the table entry at that index.\<close>

definition sentence_id_code :: "minmea_sentence_id \<Rightarrow> int" where
  "sentence_id_code t =
     (case t of
        MINMEA_INVALID \<Rightarrow> - 1 | MINMEA_UNKNOWN \<Rightarrow> 0 | MINMEA_SENTENCE_GBS \<Rightarrow> 1 | MINMEA_SENTENCE_GGA \<Rightarrow> 2
      | MINMEA_SENTENCE_GLL \<Rightarrow> 3 | MINMEA_SENTENCE_GSA \<Rightarrow> 4 | MINMEA_SENTENCE_GST \<Rightarrow> 5 | MINMEA_SENTENCE_GSV \<Rightarrow> 6
      | MINMEA_SENTENCE_RMC \<Rightarrow> 7 | MINMEA_SENTENCE_VTG \<Rightarrow> 8 | MINMEA_SENTENCE_ZDA \<Rightarrow> 9 | MINMEA_SENTENCE_HDT \<Rightarrow> 10
      | MINMEA_SENTENCE_NTR \<Rightarrow> 11 | MINMEA_SENTENCE_ORI \<Rightarrow> 12 | MINMEA_SENTENCE_ROT \<Rightarrow> 13
      | MINMEA_SENTENCE_TRA \<Rightarrow> 14 | MINMEA_SENTENCE_DTM \<Rightarrow> 15)"

definition minmea_sentence :: "minmea_sentence_id \<Rightarrow> string" where
  "minmea_sentence t =
     (if sentence_id_code t < 0 \<or> sentence_id_code t \<ge> int (length sentence_id_map) then ''UNKNOWN''
      else fst (sentence_id_map ! nat (sentence_id_code t)))"

section \<open>Rescaling\<close>

definition int_ok :: "int \<Rightarrow> bool" where
  "int_ok x \<longleftrightarrow> - INT_MAX - 1 \<le> x \<and> x \<le> INT_MAX"

text \<open>\<open>None\<close>: a division by zero, or a result that is not an \<open>int\<close>.\<close>

definition minmea_rescale :: "minmea_float \<Rightarrow> int \<Rightarrow> int option" where
  "minmea_rescale f new_scale =
     (if mf_scale f = 0 then Some 0
      else if mf_scale f = new_scale then Some (mf_value f)
      else if mf_scale f > new_scale then
        (if new_scale = 0 then None
         else let half = sgn (mf_value f) * mf_scale f;
                  v = mf_value f + half sdiv new_scale sdiv 2;
                  q = mf_scale f sdiv new_scale
              in if int_ok half \<and> int_ok v \<and> q \<noteq> 0 \<and> int_ok (v sdiv q) then Some (v sdiv q) else None)
      else let v = mf_value f * (new_scale sdiv mf_scale f) in if int_ok v then Some v else None)"

section \<open>Date and time\<close>

definition minmea_getdatetime :: "minmea_date \<Rightarrow> minmea_time \<Rightarrow> tm option" where
  "minmea_getdatetime date t =
     (if md_year date = - 1 \<or> mt_hours t = - 1 then None
      else Some \<lparr>tm_year = (if md_year date < 80 then 2000 + md_year date - 1900
                            else if md_year date \<ge> 1900 then md_year date - 1900
                            else md_year date),
                 tm_mon = md_month date - 1, tm_mday = md_day date,
                 tm_hour = mt_hours t, tm_min = mt_minutes t, tm_sec = mt_seconds t\<rparr>)"

text \<open>Seconds and nanoseconds.\<close>

definition minmea_gettime :: "minmea_date \<Rightarrow> minmea_time \<Rightarrow> (int \<times> int) option" where
  "minmea_gettime date t =
     (case minmea_getdatetime date t of
        None \<Rightarrow> None
      | Some tm \<Rightarrow>
          let timestamp = timegm tm
          in if timestamp \<noteq> - 1 then Some (timestamp, mt_microseconds t * 1000) else None)"

section \<open>Against the program\<close>

lemma fold_xor_codes: "fold (\<lambda>c checksum. checksum XOR of_nat (ccode c)) s k = k XOR xor_codes s"
  by (induction s arbitrary: k) (simp_all add: xor.assoc)

text \<open>An accepted sentence with a checksum carries its \<open>minmea_checksum\<close> in the two digits after the asterisk.\<close>

lemma checksum_of_checked:
  assumes "minmea_check s True"
  shows "\<exists>u l r. dropWhile (\<lambda>c. c \<noteq> CHR ''*'') s = CHR ''*'' # u # l # r
    \<and> int (unat (minmea_checksum s)) = 16 * hex2int u + hex2int l"
proof -
  obtain body u l r where s: "s = CHR ''$'' # body @ CHR ''*'' # u # l # r" "list_all body_char body"
    "int (unat (xor_codes body)) = 16 * hex2int u + hex2int l"
    using assms unfolding minmea_check_strict checked_sentence_def by blast
  have n: "c \<noteq> CHR ''*''" if "c \<in> set body" for c
    using s(2) that by (auto simp: list_all_iff body_char_def)
  then have "takeWhile (\<lambda>c. c \<noteq> CHR ''*'') (body @ CHR ''*'' # u # l # r) = body"
    "dropWhile (\<lambda>c. c \<noteq> CHR ''*'') (body @ CHR ''*'' # u # l # r) = CHR ''*'' # u # l # r"
    by (simp_all add: takeWhile_append2 dropWhile_append2)
  then show ?thesis using s(3) by (simp add: s(1) minmea_checksum_def fold_xor_codes)
qed

text \<open>The name of a sentence that is in the table leads back to its number; an unknown one is called \<open>INVALID\<close>.\<close>

lemma sentence_names:
  "t \<noteq> MINMEA_INVALID \<Longrightarrow> t \<noteq> MINMEA_UNKNOWN \<Longrightarrow> map_of sentence_id_map (minmea_sentence t) = Some t"
  by (cases t; simp add: minmea_sentence_def sentence_id_code_def sentence_id_map_def)

text \<open>
  The handler of RMC sentences adds 2000 to every year. For the years from 80 on this is another
  century than the parser's own conversion gives.
\<close>

lemma rmc_date:
  assumes "0 \<le> md_year (rmc_date f)" "md_year (rmc_date f) < 100" "mt_hours (rmc_time f) \<noteq> - 1"
  shows "minmea_getdatetime (rmc_date f) (rmc_time f) =
    Some (if md_year (rmc_date f) < 80 then rmc_tm f else (rmc_tm f)\<lparr>tm_year := tm_year (rmc_tm f) - 100\<rparr>)"
  using assms by (simp add: minmea_getdatetime_def rmc_tm_def)

end
