(* ===== verification/Descriptors.thy ===== *)
theory Descriptors
  imports Transition
begin

text \<open>
  File descriptors as a log: what was opened, closed and written, and which descriptors are open after it.
  The threads of the network clients are checked against it.
\<close>

datatype fd_event = Fd_open int | Fd_close int | Fd_write int bytes

fun fd_step :: "fd_event \<Rightarrow> int list option \<Rightarrow> int list option" where
  "fd_step (Fd_open fd) (Some S) = (if fd \<in> set S then None else Some (fd # S))"
| "fd_step (Fd_close fd) (Some S) = (if fd \<in> set S then Some (remove1 fd S) else None)"
| "fd_step (Fd_write fd p) S = S"
| "fd_step e None = None"

text \<open>The descriptors that are open after a log; \<open>None\<close> if one was closed that was not open.\<close>

definition open_fds :: "fd_event list \<Rightarrow> int list option" where
  "open_fds es = fold fd_step es (Some [])"

lemma open_fds_append: "open_fds (es @ es') = fold fd_step es' (open_fds es)"
  by (simp add: open_fds_def)

text \<open>What was written, in order.\<close>

fun fd_writes :: "fd_event list \<Rightarrow> bytes list" where
  "fd_writes [] = []"
| "fd_writes (Fd_write fd out # es) = out # fd_writes es"
| "fd_writes (e # es) = fd_writes es"

lemma fd_writes_append [simp]: "fd_writes (es @ es') = fd_writes es @ fd_writes es'"
  by (induction es rule: fd_writes.induct) simp_all

lemma fd_writes_closed [simp]: "fd_writes (map Fd_close fds) = []"
  by (induction fds) simp_all

section \<open>Owners of descriptors\<close>

fun_cases fd_step_SomeE: "fd_step e S = Some T"

lemma fold_fd_step_None: "fold fd_step es None = None"
proof (induction es)
  case (Cons e es)
  have "fd_step e None = None" by (cases e) simp_all
  with Cons show ?case by simp
qed simp

text \<open>Opening and closing balance for every descriptor.\<close>

lemma fd_balance:
  "fold fd_step es (Some S) = Some T \<Longrightarrow>
     count_list es (Fd_open fd) + count_list S fd = count_list es (Fd_close fd) + count_list T fd"
proof (induction es arbitrary: S)
  case (Cons e es)
  obtain S1 where s: "fd_step e (Some S) = Some S1"
    using Cons.prems fold_fd_step_None by (cases "fd_step e (Some S)") auto
  have r: "count_list (remove1 x S) fd = (if x = fd \<and> x \<in> set S then count_list S fd - 1 else count_list S fd)" for x
    by (induction S) (auto simp: count_list_0_iff)
  have c: "x \<in> set S \<Longrightarrow> x = fd \<Longrightarrow> 0 < count_list S fd" for x using count_list_0_iff [of S fd] by auto
  show ?case using Cons.IH [of S1] Cons.prems s r c
    by (cases e) (auto split: if_splits)
qed simp

text \<open>
  A system that knows which descriptors are open: \<open>held\<close> are those it has in its variables. Then it closes
  only what is open, and everything it opened it has closed or still holds.
\<close>

locale fd_system = safe_system +
  fixes log :: "'a \<Rightarrow> fd_event list"
    and held :: "'a \<Rightarrow> int list"
  assumes inv_held: "inv s \<Longrightarrow> open_fds (log s) = Some (held s)"
begin

lemma reach_held: "reach s \<Longrightarrow> open_fds (log s) = Some (held s)"
  by (rule inv_held [OF reach_inv])

lemma closed_was_open:
  assumes "reach s" "log s = es @ Fd_close fd # es'"
  shows "\<exists>S. open_fds es = Some S \<and> fd \<in> set S"
proof -
  have "fold fd_step es' (fd_step (Fd_close fd) (open_fds es)) = Some (held s)"
    using reach_held [OF assms(1)] by (simp add: assms(2) open_fds_append)
  then obtain T where "fd_step (Fd_close fd) (open_fds es) = Some T"
    by (cases "fd_step (Fd_close fd) (open_fds es)") (simp_all add: fold_fd_step_None)
  then show ?thesis by (cases rule: fd_step_SomeE) (auto split: if_splits)
qed

lemma opened_was_fresh:
  assumes "reach s" "log s = es @ Fd_open fd # es'"
  shows "\<exists>S. open_fds es = Some S \<and> fd \<notin> set S"
proof -
  have "fold fd_step es' (fd_step (Fd_open fd) (open_fds es)) = Some (held s)"
    using reach_held [OF assms(1)] by (simp add: assms(2) open_fds_append)
  then obtain T where "fd_step (Fd_open fd) (open_fds es) = Some T"
    by (cases "fd_step (Fd_open fd) (open_fds es)") (simp_all add: fold_fd_step_None)
  then show ?thesis by (cases rule: fd_step_SomeE) (auto split: if_splits)
qed

text \<open>Every descriptor that was opened was closed or is still held.\<close>

lemma opened_closed_held:
  "reach s \<Longrightarrow> count_list (log s) (Fd_open fd) = count_list (log s) (Fd_close fd) + count_list (held s) fd"
  using fd_balance [of "log s" "[]" "held s" fd] reach_held [of s] by (simp add: open_fds_def)

end

end
