(* ===== verification/MqttThreads.thy ===== *)
theory MqttThreads
  imports Mqtt Descriptors
begin

text \<open>
  The threads of the MQTT client (\<open>core/src/comm_mqtt.c\<close>): the transmit thread, which opens the
  connection and sends a status message every five seconds, the receive thread, and the callers of
  \<open>comm_mqtt_send\<close>. They share the context, and a step is what one of them does between two
  moments at which another can come in: a section under the state mutex, one whole packet written,
  one \<open>recv\<close>. What happens to descriptors is a log.
\<close>

section \<open>System calls\<close>

text \<open>
  The loop over the addresses that \<open>getaddrinfo\<close> gave: for each one the descriptor that \<open>socket\<close>
  returns (negative on an error) and whether \<open>connect\<close> succeeds. \<open>None\<close> is a name that is not resolved.
\<close>

fun connect_loop :: "(int \<times> bool) list \<Rightarrow> fd_event list \<times> int" where
  "connect_loop [] = ([], - 1)"
| "connect_loop ((fd, ok) # items) =
     (if fd < 0 then connect_loop items
      else if ok then ([Fd_open fd], fd)
      else let (es, r) = connect_loop items in (Fd_open fd # Fd_close fd # es, r))"

definition comm_mqtt_connect_broker :: "(int \<times> bool) list option \<Rightarrow> fd_event list \<times> int" where
  "comm_mqtt_connect_broker result = (case result of None \<Rightarrow> ([], - 1) | Some items \<Rightarrow> connect_loop items)"

text \<open>\<open>comm_mqtt_write_all\<close> runs against the results of the next \<open>send\<close> calls.\<close>

fun comm_mqtt_write_all :: "send_result list \<Rightarrow> bytes \<Rightarrow> nat \<Rightarrow> int option \<times> bytes" where
  "comm_mqtt_write_all rs buf written =
     (if \<not> written < length buf then (Some 0, [])
      else case rs of
        [] \<Rightarrow> (None, [])
      | Interrupted # rs' \<Rightarrow> comm_mqtt_write_all rs' buf written
      | Failed # rs' \<Rightarrow> (Some (- 1), [])
      | Sent n # rs' \<Rightarrow>
          (let (r, out) = comm_mqtt_write_all rs' buf (written + n)
           in (r, take n (drop written buf) @ out)))"

declare comm_mqtt_write_all.simps [simp del]

lemma mqtt_write_all_tcp: "comm_mqtt_write_all rs buf w = comm_tcp_write_all rs buf w"
proof (induction rs buf w rule: comm_mqtt_write_all.induct)
  case (1 rs buf w)
  then show ?case
    by (subst comm_mqtt_write_all.simps, subst comm_tcp_write_all.simps)
      (auto split: list.splits send_result.splits)
qed

lemma mqtt_write_prefix: "comm_mqtt_write_all rs p 0 = (r, out) \<Longrightarrow> prefix out p"
  using tcp_write_all_prefix [of rs p 0 r out] by (simp add: mqtt_write_all_tcp)

text \<open>\<open>comm_mqtt_send_publish\<close>: a C string as the payload.\<close>

definition comm_mqtt_send_publish :: "string option \<Rightarrow> comm_mqtt_context_t \<Rightarrow> errno + (int \<times> bytes)" where
  "comm_mqtt_send_publish payload c =
     (case payload of None \<Rightarrow> Inl EINVAL | Some s \<Rightarrow> comm_mqtt_send (Some (bytes_of_string (c_str s))) c)"

section \<open>The threads\<close>

text \<open>Where the transmit thread stands; the numbers are its descriptor and its tick.\<close>

datatype mqtt_tx =
    Tx_connect              \<comment> \<open>before \<open>comm_mqtt_connect_broker\<close>\<close>
  | Tx_announce int         \<comment> \<open>before \<open>comm_mqtt_set_connection (fd, 1)\<close>\<close>
  | Tx_hello int            \<comment> \<open>before \<open>comm_mqtt_send_connect\<close>\<close>
  | Tx_connack int          \<comment> \<open>in the \<open>recv\<close> of the answer\<close>
  | Tx_status int u32       \<comment> \<open>before the look at the connection in \<open>comm_mqtt_send\<close>\<close>
  | Tx_publish int u32 int bytes   \<comment> \<open>before the write, to the descriptor that was found\<close>
  | Tx_wait int u32         \<comment> \<open>in the five seconds of sleep\<close>
  | Tx_ping int u32
  | Tx_drop                 \<comment> \<open>before \<open>comm_mqtt_set_connection (-1, 0)\<close>\<close>

datatype mqtt_rx_pc = Rx_look | Rx_recv int

record mqtt_system =
  mq_ctx :: comm_mqtt_context_t
  mq_tx :: mqtt_tx
  mq_rx :: mqtt_rx_pc
  mq_sends :: "(int \<times> bytes) list"   \<comment> \<open>callers before their write\<close>
  mq_log :: "fd_event list"

definition comm_mqtt_init :: "comm_mqtt_context_t \<Rightarrow> comm_mqtt_context_t" where
  "comm_mqtt_init c = c\<lparr>mqtt_running := True\<rparr>"

definition mqtt_set :: "int \<Rightarrow> bool \<Rightarrow> mqtt_system \<Rightarrow> mqtt_system" where
  "mqtt_set fd conn s =
     (let (c, closed) = comm_mqtt_set_connection fd conn (mq_ctx s)
      in s\<lparr>mq_ctx := c, mq_log := mq_log s @ map Fd_close closed\<rparr>)"

definition mqtt_wrote :: "int \<Rightarrow> bytes \<Rightarrow> mqtt_system \<Rightarrow> mqtt_system" where
  "mqtt_wrote fd out s = s\<lparr>mq_log := mq_log s @ [Fd_write fd out]\<rparr>"

text \<open>A descriptor that the system hands out is not open.\<close>

definition fresh_fds :: "(int \<times> bool) list option \<Rightarrow> fd_event list \<Rightarrow> bool" where
  "fresh_fds result es =
     (case (result, open_fds es) of
        (Some items, Some S) \<Rightarrow> list_all (\<lambda>(fd, _). fd \<notin> set S) items
      | _ \<Rightarrow> True)"

text \<open>\<open>comm_mqtt_tx_thread_func\<close>\<close>

inductive mqtt_tx_step :: "mqtt_system \<Rightarrow> mqtt_system \<Rightarrow> bool" where
  tx_connect: "mqtt_tx_step s (s\<lparr>mq_log := mq_log s @ es, mq_tx := if fd < 0 then Tx_connect else Tx_announce fd\<rparr>)"
    if "mq_tx s = Tx_connect" "fresh_fds result (mq_log s)" "comm_mqtt_connect_broker result = (es, fd)"
| tx_announce: "mqtt_tx_step s ((mqtt_set fd True s)\<lparr>mq_tx := Tx_hello fd\<rparr>)"
    if "mq_tx s = Tx_announce fd"
| tx_hello: "mqtt_tx_step s ((mqtt_wrote fd out s)\<lparr>mq_tx := if r < 0 then Tx_drop else Tx_connack fd\<rparr>)"
    if "mq_tx s = Tx_hello fd"
      "comm_mqtt_write_all rs (mqtt_connect_packet (mqtt_config (mq_ctx s))) 0 = (Some r, out)"
| tx_connack: "mqtt_tx_step s (s\<lparr>mq_tx := Tx_status fd 0\<rparr>)"
    if "mq_tx s = Tx_connack fd"
| tx_status: "mqtt_tx_step s (s\<lparr>mq_tx := (case comm_mqtt_send (Some (bytes_of_string (mqtt_status_payload tick))) (mq_ctx s) of
                                        Inl e \<Rightarrow> Tx_drop | Inr (g, p) \<Rightarrow> Tx_publish fd tick g p)\<rparr>)"
    if "mq_tx s = Tx_status fd tick"
| tx_publish: "mqtt_tx_step s ((mqtt_wrote g out s)\<lparr>mq_tx := if r < 0 then Tx_drop else Tx_wait fd (tick + 1)\<rparr>)"
    if "mq_tx s = Tx_publish fd tick g p" "comm_mqtt_write_all rs p 0 = (Some r, out)"
| tx_wait: "mqtt_tx_step s (s\<lparr>mq_tx := if tick mod 4 = 0 then Tx_ping fd tick else Tx_status fd tick\<rparr>)"
    if "mq_tx s = Tx_wait fd tick"
| tx_ping: "mqtt_tx_step s ((mqtt_wrote fd out s)\<lparr>mq_tx := if r < 0 then Tx_drop else Tx_status fd tick\<rparr>)"
    if "mq_tx s = Tx_ping fd tick" "comm_mqtt_write_all rs mqtt_pingreq_packet 0 = (Some r, out)"
| tx_drop: "mqtt_tx_step s ((mqtt_set (- 1) False s)\<lparr>mq_tx := Tx_connect\<rparr>)"
    if "mq_tx s = Tx_drop"

text \<open>\<open>comm_mqtt_rx_thread_func\<close>\<close>

inductive mqtt_rx_step :: "mqtt_system \<Rightarrow> mqtt_system \<Rightarrow> bool" where
  rx_look: "mqtt_rx_step s (s\<lparr>mq_rx := if \<not> conn \<or> fd < 0 then Rx_look else Rx_recv fd\<rparr>)"
    if "mq_rx s = Rx_look" "comm_mqtt_get_connection (mq_ctx s) = (fd, conn)"
| rx_packet: "mqtt_rx_step s (s\<lparr>mq_rx := Rx_look\<rparr>)"
    if "mq_rx s = Rx_recv fd" "result = Recv_interrupted \<or> (\<exists>d. result = Received d \<and> d \<noteq> [])"
| rx_failed: "mqtt_rx_step s ((mqtt_set (- 1) False s)\<lparr>mq_rx := Rx_look\<rparr>)"
    if "mq_rx s = Rx_recv fd" "result = Recv_failed \<or> result = Received []"

text \<open>A caller of \<open>comm_mqtt_send\<close>: the look at the connection under its mutex, then the write.\<close>

inductive mqtt_send_step :: "mqtt_system \<Rightarrow> mqtt_system \<Rightarrow> bool" where
  send_look: "mqtt_send_step s (s\<lparr>mq_sends := mq_sends s @ [(g, p)]\<rparr>)"
    if "comm_mqtt_send (Some d) (mq_ctx s) = Inr (g, p)"
| send_write: "mqtt_send_step s ((mqtt_wrote g out s)\<lparr>mq_sends := a @ b\<rparr>)"
    if "mq_sends s = a @ (g, p) # b" "comm_mqtt_write_all rs p 0 = (Some r, out)"

inductive mqtt_step :: "mqtt_system \<Rightarrow> mqtt_system \<Rightarrow> bool" where
  mq_tx_step: "mqtt_tx_step s t \<Longrightarrow> mqtt_step s t"
| mq_rx_step: "mqtt_rx_step s t \<Longrightarrow> mqtt_step s t"
| mq_send_step: "mqtt_send_step s t \<Longrightarrow> mqtt_step s t"

lemmas step_connect = mq_tx_step [OF tx_connect]
lemmas step_announce = mq_tx_step [OF tx_announce]
lemmas step_hello = mq_tx_step [OF tx_hello]
lemmas step_drop = mq_tx_step [OF tx_drop]
lemmas step_rx_look = mq_rx_step [OF rx_look]
lemmas step_rx_failed = mq_rx_step [OF rx_failed]
lemmas step_send_look = mq_send_step [OF send_look]
lemmas step_send_write = mq_send_step [OF send_write]

definition mqtt_start :: "comm_mqtt_config_t option \<Rightarrow> mqtt_system" where
  "mqtt_start cfg =
     \<lparr>mq_ctx = comm_mqtt_init (comm_mqtt_configure cfg g_comm_mqtt_ctx), mq_tx = Tx_connect, mq_rx = Rx_look,
      mq_sends = [], mq_log = []\<rparr>"

inductive mqtt_reachable :: "comm_mqtt_config_t option \<Rightarrow> mqtt_system \<Rightarrow> bool" for cfg where
  mq_init: "mqtt_reachable cfg (mqtt_start cfg)"
| mq_step: "mqtt_reachable cfg t" if "mqtt_reachable cfg s" "mqtt_step s t"

section \<open>Invariant\<close>

text \<open>The descriptor that the client holds: the announced one, or a new one before that.\<close>

definition held_fds :: "mqtt_system \<Rightarrow> int list" where
  "held_fds s =
     (if 0 \<le> mqtt_fd (mq_ctx s) then [mqtt_fd (mq_ctx s)]
      else case mq_tx s of Tx_announce fd \<Rightarrow> [fd] | _ \<Rightarrow> [])"

text \<open>A packet of the client, as the other side reads it.\<close>

definition client_packet :: "comm_mqtt_config_t \<Rightarrow> bytes \<Rightarrow> bool" where
  "client_packet cfg p \<longleftrightarrow> p = mqtt_connect_packet cfg \<or> p = mqtt_pingreq_packet
     \<or> (length p \<le> MQTT_PACKET_SIZE \<and> (\<exists>d. broker_publish p = Some (bytes_of_string (c_str (mqtt_topic cfg)), d)))"

fun event_ok :: "comm_mqtt_config_t \<Rightarrow> fd_event \<Rightarrow> bool" where
  "event_ok cfg (Fd_write fd out) = (\<exists>p. client_packet cfg p \<and> prefix out p)"
| "event_ok cfg e = True"

definition tx_ok :: "comm_mqtt_context_t \<Rightarrow> mqtt_tx \<Rightarrow> bool" where
  "tx_ok c t =
     (case t of
        Tx_connect \<Rightarrow> mqtt_fd c < 0
      | Tx_announce fd \<Rightarrow> mqtt_fd c < 0 \<and> 0 \<le> fd
      | Tx_publish fd tick g p \<Rightarrow> client_packet (mqtt_config c) p
      | _ \<Rightarrow> True)"

definition mqtt_sys_inv :: "comm_mqtt_config_t \<Rightarrow> mqtt_system \<Rightarrow> bool" where
  "mqtt_sys_inv cfg s \<longleftrightarrow> open_fds (mq_log s) = Some (held_fds s) \<and> tx_ok (mq_ctx s) (mq_tx s)
     \<and> (mqtt_connected (mq_ctx s) \<longleftrightarrow> 0 \<le> mqtt_fd (mq_ctx s)) \<and> mqtt_config (mq_ctx s) = cfg
     \<and> list_all (event_ok cfg) (mq_log s) \<and> list_all (\<lambda>(g, p). client_packet cfg p) (mq_sends s)"

lemma connect_loop_fds:
  "connect_loop items = (es, fd) \<Longrightarrow> list_all (\<lambda>(fd, _). fd \<notin> set S) items \<Longrightarrow>
     fold fd_step es (Some S) = Some (if fd < 0 then S else fd # S) \<and> list_all (event_ok cfg) es"
  by (induction items arbitrary: es rule: connect_loop.induct) (auto split: if_splits prod.splits)

lemma connect_broker_fds:
  assumes "comm_mqtt_connect_broker result = (es, fd)" "fresh_fds result es0" "open_fds es0 = Some S"
  shows "open_fds (es0 @ es) = Some (if fd < 0 then S else fd # S) \<and> list_all (event_ok cfg) es"
  using assms connect_loop_fds
  by (auto simp: comm_mqtt_connect_broker_def fresh_fds_def open_fds_append split: option.splits)

lemma sent_packet:
  assumes "comm_mqtt_send (Some d) c = Inr (g, p)"
  shows "client_packet (mqtt_config c) p"
proof -
  have "mqtt_publish_packet (mqtt_config c) (Some d) = Inr p"
    using assms by (auto simp: comm_mqtt_send_def Let_def split: if_splits sum.splits prod.splits)
  then show ?thesis using publish_fits publish_roundtrip unfolding client_packet_def by blast
qed

lemma wrote_event: "client_packet cfg p \<Longrightarrow> comm_mqtt_write_all rs p 0 = (r, out) \<Longrightarrow> event_ok cfg (Fd_write g out)"
  using mqtt_write_prefix by auto

text \<open>The three operations that the steps are made of keep the invariant.\<close>

lemma mqtt_drop_inv:
  assumes "mqtt_sys_inv cfg s"
  shows "mqtt_sys_inv cfg (mqtt_set (- 1) False s)" "mqtt_fd (mq_ctx (mqtt_set (- 1) False s)) = - 1"
    "mq_tx (mqtt_set (- 1) False s) = mq_tx s"
  using assms
  by (auto simp: mqtt_sys_inv_def mqtt_set_def comm_mqtt_set_connection_def held_fds_def open_fds_append tx_ok_def
      split: mqtt_tx.splits)

lemma mqtt_wrote_inv:
  "mqtt_sys_inv cfg s \<Longrightarrow> event_ok cfg (Fd_write fd out) \<Longrightarrow> mqtt_sys_inv cfg (mqtt_wrote fd out s)"
  by (auto simp: mqtt_sys_inv_def mqtt_wrote_def held_fds_def open_fds_append)

text \<open>The receive thread and the callers have no part in the descriptors.\<close>

lemma mqtt_rx_inv: "mqtt_sys_inv cfg s \<Longrightarrow> mqtt_sys_inv cfg (s\<lparr>mq_rx := t\<rparr>)"
  by (simp add: mqtt_sys_inv_def held_fds_def)

lemma mqtt_sends_inv:
  "mqtt_sys_inv cfg s \<Longrightarrow> list_all (\<lambda>(g, p). client_packet cfg p) l \<Longrightarrow> mqtt_sys_inv cfg (s\<lparr>mq_sends := l\<rparr>)"
  by (simp add: mqtt_sys_inv_def held_fds_def)

text \<open>A step of the transmit thread that neither opens nor announces.\<close>

lemma mqtt_tx_inv:
  assumes "mqtt_sys_inv cfg s" "\<And>fd. mq_tx s \<noteq> Tx_announce fd" "\<And>fd. t \<noteq> Tx_announce fd" "tx_ok (mq_ctx s) t"
  shows "mqtt_sys_inv cfg (s\<lparr>mq_tx := t\<rparr>)"
  using assms by (auto simp: mqtt_sys_inv_def held_fds_def split: mqtt_tx.splits)

lemma client_packets:
  "client_packet cfg (mqtt_connect_packet cfg)" "client_packet cfg mqtt_pingreq_packet"
  by (simp_all add: client_packet_def)

lemma mqtt_tx_step_inv:
  assumes "mqtt_tx_step s t" "mqtt_sys_inv cfg s"
  shows "mqtt_sys_inv cfg t"
  using assms
proof (cases rule: mqtt_tx_step.cases)
  case (tx_connect result es fd)
  have "open_fds (mq_log s) = Some []" "mqtt_fd (mq_ctx s) < 0"
    using assms(2) tx_connect by (auto simp: mqtt_sys_inv_def tx_ok_def held_fds_def)
  with connect_broker_fds [OF tx_connect(4,3) this(1), of cfg] assms(2) show ?thesis
    by (auto simp: mqtt_sys_inv_def tx_ok_def held_fds_def tx_connect)
next
  case (tx_announce fd)
  then show ?thesis using assms(2)
    by (auto simp: mqtt_sys_inv_def mqtt_set_def comm_mqtt_set_connection_def held_fds_def tx_ok_def)
next
  case (tx_hello fd rs r out)
  have "mqtt_config (mq_ctx s) = cfg" using assms(2) by (simp add: mqtt_sys_inv_def)
  then have w: "mqtt_sys_inv cfg (mqtt_wrote fd out s)"
    using assms(2) client_packets(1) tx_hello(3) by (auto intro!: mqtt_wrote_inv wrote_event simp del: event_ok.simps)
  show ?thesis unfolding tx_hello(1)
    by (rule mqtt_tx_inv [OF w]) (auto simp: mqtt_wrote_def tx_hello tx_ok_def)
next
  case (tx_connack fd)
  show ?thesis unfolding tx_connack(1)
    by (rule mqtt_tx_inv [OF assms(2)]) (auto simp: tx_connack tx_ok_def)
next
  case (tx_status fd tick)
  show ?thesis unfolding tx_status(1)
    by (rule mqtt_tx_inv [OF assms(2)])
      (auto simp: tx_status tx_ok_def sent_packet split: sum.splits prod.splits)
next
  case (tx_publish fd tick g p rs r out)
  have "client_packet cfg p" using assms(2) tx_publish by (auto simp: mqtt_sys_inv_def tx_ok_def)
  then have w: "mqtt_sys_inv cfg (mqtt_wrote g out s)"
    using assms(2) tx_publish(3) by (auto intro!: mqtt_wrote_inv wrote_event simp del: event_ok.simps)
  show ?thesis unfolding tx_publish(1)
    by (rule mqtt_tx_inv [OF w]) (auto simp: mqtt_wrote_def tx_publish tx_ok_def)
next
  case (tx_wait fd tick)
  show ?thesis unfolding tx_wait(1)
    by (rule mqtt_tx_inv [OF assms(2)]) (auto simp: tx_wait tx_ok_def)
next
  case (tx_ping fd tick rs r out)
  have w: "mqtt_sys_inv cfg (mqtt_wrote fd out s)"
    using assms(2) client_packets(2) tx_ping(3) by (auto intro!: mqtt_wrote_inv wrote_event simp del: event_ok.simps)
  show ?thesis unfolding tx_ping(1)
    by (rule mqtt_tx_inv [OF w]) (auto simp: mqtt_wrote_def tx_ping tx_ok_def)
next
  case tx_drop
  note d = mqtt_drop_inv [OF assms(2)]
  show ?thesis unfolding tx_drop(1)
    by (rule mqtt_tx_inv [OF d(1)]) (auto simp: d(2,3) tx_drop(2) tx_ok_def)
qed

lemma mqtt_rx_step_inv:
  assumes "mqtt_rx_step s t" "mqtt_sys_inv cfg s"
  shows "mqtt_sys_inv cfg t"
  using assms
proof (cases rule: mqtt_rx_step.cases)
  case (rx_look conn fd)
  then show ?thesis using mqtt_rx_inv [OF assms(2)] by simp
next
  case (rx_packet fd result)
  then show ?thesis using mqtt_rx_inv [OF assms(2)] by simp
next
  case (rx_failed fd result)
  then show ?thesis using mqtt_rx_inv [OF mqtt_drop_inv(1) [OF assms(2)]] by simp
qed

lemma mqtt_send_step_inv:
  assumes "mqtt_send_step s t" "mqtt_sys_inv cfg s"
  shows "mqtt_sys_inv cfg t"
  using assms
proof (cases rule: mqtt_send_step.cases)
  case (send_look d g p)
  have "client_packet cfg p" using sent_packet [OF send_look(2)] assms(2) by (simp add: mqtt_sys_inv_def)
  then show ?thesis unfolding send_look(1)
    using assms(2) by (intro mqtt_sends_inv) (auto simp: mqtt_sys_inv_def)
next
  case (send_write a g p b rs r out)
  have p: "list_all (\<lambda>(g, p). client_packet cfg p) (a @ (g, p) # b)"
    using assms(2) send_write(2) by (simp add: mqtt_sys_inv_def)
  then have "mqtt_sys_inv cfg (mqtt_wrote g out s)"
    using assms(2) send_write(3) by (auto intro!: mqtt_wrote_inv wrote_event simp del: event_ok.simps)
  then show ?thesis unfolding send_write(1) by (rule mqtt_sends_inv) (use p in auto)
qed


lemma mqtt_start_inv: "mqtt_sys_inv (mqtt_config (comm_mqtt_configure cfg g_comm_mqtt_ctx)) (mqtt_start cfg)"
  by (auto simp: mqtt_sys_inv_def mqtt_start_def comm_mqtt_init_def comm_mqtt_configure_def g_comm_mqtt_ctx_def
      open_fds_def held_fds_def tx_ok_def split: option.splits)

inductive_cases mqtt_stepE: "mqtt_step s t"

lemma mqtt_step_inv: "mqtt_step s t \<Longrightarrow> mqtt_sys_inv c s \<Longrightarrow> mqtt_sys_inv c t"
  by (elim mqtt_stepE) (rule mqtt_tx_step_inv mqtt_rx_step_inv mqtt_send_step_inv; assumption)+

lemma mqtt_runs: "mqtt_reachable cfg t \<Longrightarrow> mqtt_step\<^sup>*\<^sup>* (mqtt_start cfg) t"
  by (induction rule: mqtt_reachable.induct) (auto intro: run_step)

interpretation mqtt_threads: fd_system "\<lambda>s. s = mqtt_start cfg" mqtt_step "mqtt_reachable cfg"
    "mqtt_sys_inv (mqtt_config (comm_mqtt_configure cfg g_comm_mqtt_ctx))" mq_log held_fds for cfg
  by (unfold_locales, rule reachable_runs)
    (auto intro: mqtt_reachable.intros mqtt_runs mqtt_start_inv mqtt_step_inv, simp add: mqtt_sys_inv_def)

lemmas mqtt_reachable_inv = mqtt_threads.reach_inv

section \<open>What the threads do to each other\<close>

lemma write_all_once: "p \<noteq> [] \<Longrightarrow> comm_mqtt_write_all [Sent (length p)] p 0 = (Some 0, p)"
  by (simp add: mqtt_write_all_tcp)

lemma write_all_failed: "p \<noteq> [] \<Longrightarrow> comm_mqtt_write_all [Failed] p 0 = (Some (- 1), [])"
  by (simp add: mqtt_write_all_tcp)

text \<open>The transmit thread has announced descriptor 5 and not yet sent its first packet.\<close>

definition mqtt_announced :: mqtt_system where
  "mqtt_announced = (mqtt_start None)\<lparr>mq_ctx := (mq_ctx (mqtt_start None))\<lparr>mqtt_fd := 5, mqtt_connected := True\<rparr>,
     mq_log := [Fd_open 5], mq_tx := Tx_hello 5\<rparr>"

lemma announced_reachable: "mqtt_reachable None mqtt_announced"
proof -
  let ?s = "(mqtt_start None)\<lparr>mq_log := [Fd_open 5], mq_tx := Tx_announce 5\<rparr>"
  have "mqtt_step (mqtt_start None) ?s"
    using step_connect [of "mqtt_start None" "Some [(5, True)]" "[Fd_open 5]" 5]
    by (simp add: mqtt_start_def fresh_fds_def open_fds_def comm_mqtt_connect_broker_def)
  moreover have "mqtt_step ?s mqtt_announced"
    using step_announce [of ?s 5]
    by (simp add: mqtt_set_def comm_mqtt_set_connection_def mqtt_announced_def mqtt_start_def)
  ultimately show ?thesis by (blast intro: mq_init mq_step)
qed

lemma announced_parts [simp]:
  "mqtt_config (mq_ctx mqtt_announced) = mqtt_config g_comm_mqtt_ctx" "mq_sends mqtt_announced = []" "mq_rx mqtt_announced = Rx_look"
  "mq_log mqtt_announced = [Fd_open 5]" "mq_tx mqtt_announced = Tx_hello 5" "mqtt_fd (mq_ctx mqtt_announced) = 5"
  "mqtt_connected (mq_ctx mqtt_announced)"
  by (simp_all add: mqtt_announced_def mqtt_start_def comm_mqtt_init_def comm_mqtt_configure_def)

lemmas mqtt_action_defs = mqtt_wrote_def mqtt_set_def comm_mqtt_set_connection_def

lemma connect_nonempty: "mqtt_connect_packet cfg \<noteq> []"
  by (simp add: mqtt_connect_packet_def Let_def)

text \<open>A caller has looked at the connection.\<close>

lemma announced_send:
  obtains p where "mqtt_reachable None (mqtt_announced\<lparr>mq_sends := [(5, p)]\<rparr>)" "p \<noteq> []" "\<exists>d. broker_publish p = Some d"
proof -
  let ?cfg = "mqtt_config g_comm_mqtt_ctx"
  obtain p where pub: "mqtt_publish_packet ?cfg (Some [1]) = Inr p" "p \<noteq> []"
    by (simp add: mqtt_publish_packet_def g_comm_mqtt_ctx_def Let_def MQTT_PACKET_SIZE_def c_str_def NUL_def)
  then have send: "comm_mqtt_send (Some [1]) (mq_ctx mqtt_announced) = Inr (5, p)"
    by (simp add: comm_mqtt_send_def comm_mqtt_get_connection_def)
  have "mqtt_reachable None (mqtt_announced\<lparr>mq_sends := [(5, p)]\<rparr>)"
    using mq_step [OF announced_reachable step_send_look [OF send]] by simp
  moreover have "\<exists>d. broker_publish p = Some d" using publish_roundtrip [OF pub(1)] by blast
  ultimately show thesis using that pub(2) by blast
qed

lemma rx_looks:
  assumes "mqtt_reachable None s" "mq_rx s = Rx_look" "mqtt_fd (mq_ctx s) = 5" "mqtt_connected (mq_ctx s)"
  shows "mqtt_reachable None (s\<lparr>mq_rx := Rx_recv 5\<rparr>)"
  using mq_step [OF assms(1) step_rx_look [OF assms(2), of 5 True]] assms by (simp add: comm_mqtt_get_connection_def)

text \<open>
  Three logs that the threads can leave. A caller's packet goes out before the connect packet. A
  caller writes to a descriptor that the receive thread has closed (and that another part of the
  program may have by then). The receive thread gives up the connection it was reading from
  and closes the one that the transmit thread has opened since.
\<close>

lemma publish_before_connect:
  "\<exists>s p. mqtt_reachable None s \<and> (\<exists>d. broker_publish p = Some d)
     \<and> mq_log s = [Fd_open 5, Fd_write 5 p, Fd_write 5 (mqtt_connect_packet (mqtt_config g_comm_mqtt_ctx))]"
proof -
  obtain p where p: "mqtt_reachable None (mqtt_announced\<lparr>mq_sends := [(5, p)]\<rparr>)" (is "mqtt_reachable None ?s")
    "p \<noteq> []" "\<exists>d. broker_publish p = Some d" by (rule announced_send)
  let ?t = "(mqtt_wrote 5 p ?s)\<lparr>mq_sends := []\<rparr>" and ?c = "mqtt_connect_packet (mqtt_config g_comm_mqtt_ctx)"
  have "mqtt_step ?s ?t" using step_send_write [of ?s "[]" 5 p "[]", OF _ write_all_once [OF p(2)]] by simp
  with p(1) have t: "mqtt_reachable None ?t" by (rule mq_step)
  have "mqtt_step ?t ((mqtt_wrote 5 ?c ?t)\<lparr>mq_tx := Tx_connack 5\<rparr>)"
    using step_hello [of ?t 5 "[Sent (length ?c)]" 0 ?c] write_all_once [OF connect_nonempty]
    by (simp add: mqtt_action_defs)
  with t have "mqtt_reachable None ((mqtt_wrote 5 ?c ?t)\<lparr>mq_tx := Tx_connack 5\<rparr>)" by (rule mq_step)
  then show ?thesis using p(3)
    by (intro exI [of _ "(mqtt_wrote 5 ?c ?t)\<lparr>mq_tx := Tx_connack 5\<rparr>"] exI [of _ p]) (simp add: mqtt_action_defs)
qed

lemma write_after_close: "\<exists>s p. mqtt_reachable None s \<and> mq_log s = [Fd_open 5, Fd_close 5, Fd_write 5 p]"
proof -
  obtain p where p: "mqtt_reachable None (mqtt_announced\<lparr>mq_sends := [(5, p)]\<rparr>)" (is "mqtt_reachable None ?s")
    "p \<noteq> []" by (rule announced_send)
  let ?t = "?s\<lparr>mq_rx := Rx_recv 5\<rparr>"
  have t: "mqtt_reachable None ?t" by (rule rx_looks [OF p(1)]) simp_all
  let ?u = "(mqtt_set (- 1) False ?t)\<lparr>mq_rx := Rx_look\<rparr>"
  have "mqtt_step ?t ?u" using step_rx_failed [of ?t 5 Recv_failed] by simp
  with t have u: "mqtt_reachable None ?u" by (rule mq_step)
  have "mqtt_step ?u ((mqtt_wrote 5 p ?u)\<lparr>mq_sends := []\<rparr>)"
    using step_send_write [of ?u "[]" 5 p "[]", OF _ write_all_once [OF p(2)]] by (simp add: mqtt_action_defs)
  with u have "mqtt_reachable None ((mqtt_wrote 5 p ?u)\<lparr>mq_sends := []\<rparr>)" by (rule mq_step)
  then show ?thesis
    by (intro exI [of _ "(mqtt_wrote 5 p ?u)\<lparr>mq_sends := []\<rparr>"] exI [of _ p]) (simp add: mqtt_action_defs)
qed

lemma new_connection_closed:
  "\<exists>s. mqtt_reachable None s \<and> mq_log s = [Fd_open 5, Fd_write 5 [], Fd_close 5, Fd_open 6, Fd_close 6]"
proof -
  let ?s = "mqtt_announced\<lparr>mq_rx := Rx_recv 5\<rparr>"
  have s: "mqtt_reachable None ?s" by (rule rx_looks [OF announced_reachable]) simp_all
  let ?t = "(mqtt_wrote 5 [] ?s)\<lparr>mq_tx := Tx_drop\<rparr>"
  have "mqtt_step ?s ?t"
    using step_hello [of ?s 5 "[Failed]" "- 1" "[]"] write_all_failed [OF connect_nonempty] by simp
  with s have t: "mqtt_reachable None ?t" by (rule mq_step)
  let ?u = "(mqtt_set (- 1) False ?t)\<lparr>mq_tx := Tx_connect\<rparr>"
  have "mqtt_step ?t ?u" using step_drop [of ?t] by simp
  with t have u: "mqtt_reachable None ?u" by (rule mq_step)
  have log: "mq_log ?u = [Fd_open 5, Fd_write 5 [], Fd_close 5]" by (simp add: mqtt_action_defs)
  let ?v = "?u\<lparr>mq_log := mq_log ?u @ [Fd_open 6], mq_tx := Tx_announce 6\<rparr>"
  have "fresh_fds (Some [(6, True)]) (mq_log ?u)" unfolding log by (simp add: fresh_fds_def open_fds_def)
  then have "mqtt_step ?u ?v"
    using step_connect [of ?u "Some [(6, True)]" "[Fd_open 6]" 6] by (simp add: comm_mqtt_connect_broker_def)
  with u have v: "mqtt_reachable None ?v" by (rule mq_step)
  let ?w = "(mqtt_set 6 True ?v)\<lparr>mq_tx := Tx_hello 6\<rparr>"
  have "mqtt_step ?v ?w" using step_announce [of ?v 6] by simp
  with v have w: "mqtt_reachable None ?w" by (rule mq_step)
  have "mq_rx ?w = Rx_recv 5" by (simp add: mqtt_action_defs)
  then have "mqtt_step ?w ((mqtt_set (- 1) False ?w)\<lparr>mq_rx := Rx_look\<rparr>)" using step_rx_failed [of ?w 5 Recv_failed] by simp
  with w have "mqtt_reachable None ((mqtt_set (- 1) False ?w)\<lparr>mq_rx := Rx_look\<rparr>)" by (rule mq_step)
  then show ?thesis
    by (intro exI [of _ "(mqtt_set (- 1) False ?w)\<lparr>mq_rx := Rx_look\<rparr>"]) (simp add: mqtt_action_defs)
qed

end
