(* ===== verification/TcpThreads.thy ===== *)
theory TcpThreads
  imports CommTcp Descriptors
begin

text \<open>
  The three threads of the TCP service (\<open>core/src/comm_tcp.c\<close>) and the callers of \<open>comm_tcp_send\<close>. A
  step is what one of them does between two moments at which another can come in: a section under
  a mutex, one whole frame written, one \<open>recv\<close> or \<open>accept\<close>. The descriptors of the clients are a log.
\<close>

section \<open>The threads\<close>

datatype tcp_tx =
    Tt_pop                            \<comment> \<open>before \<open>comm_tcp_queue_pop\<close>\<close>
  | Tt_look comm_tcp_frame_t          \<comment> \<open>before \<open>comm_tcp_get_client_fd\<close>\<close>
  | Tt_write int comm_tcp_frame_t     \<comment> \<open>before \<open>comm_tcp_write_all\<close>\<close>
  | Tt_drop                           \<comment> \<open>before \<open>comm_tcp_close_client\<close>\<close>

datatype tcp_rx_pc = Tr_look | Tr_recv int

datatype tcp_accept_pc = Ta_accept | Ta_publish int

text \<open>\<open>tc_accepted\<close> and \<open>tc_popped\<close> record the data that was queued and taken out.\<close>

record tcp_system =
  tc_ctx :: comm_tcp_context_t
  tc_tx :: tcp_tx
  tc_rx :: tcp_rx_pc
  tc_accept :: tcp_accept_pc
  tc_accepted :: "bytes list"
  tc_popped :: "bytes list"
  tc_log :: "fd_event list"

definition tcp_closed :: "comm_tcp_context_t \<times> int list \<Rightarrow> tcp_system \<Rightarrow> tcp_system" where
  "tcp_closed r s = s\<lparr>tc_ctx := fst r, tc_log := tc_log s @ map Fd_close (snd r)\<rparr>"

text \<open>\<open>comm_tcp_tx_thread_func\<close>\<close>

inductive tcp_tx_step :: "tcp_system \<Rightarrow> tcp_system \<Rightarrow> bool" where
  tt_pop: "tcp_tx_step s (s\<lparr>tc_ctx := c, tc_tx := Tt_look f, tc_popped := tc_popped s @ [the (tf_data f)]\<rparr>)"
    if "tc_tx s = Tt_pop" "comm_tcp_queue_pop (tc_ctx s) = (Popped f, c)"
| tt_look: "tcp_tx_step s (s\<lparr>tc_tx := (let fd = comm_tcp_get_client_fd (tc_ctx s) in if 0 \<le> fd then Tt_write fd f else Tt_pop)\<rparr>)"
    if "tc_tx s = Tt_look f"
| tt_write: "tcp_tx_step s (s\<lparr>tc_log := tc_log s @ [Fd_write fd out], tc_tx := (if r < 0 then Tt_drop else Tt_pop)\<rparr>)"
    if "tc_tx s = Tt_write fd f" "comm_tcp_write_all rs (take (tf_len f) (the (tf_data f))) 0 = (Some r, out)"
| tt_drop: "tcp_tx_step s ((tcp_closed (comm_tcp_close_client (tc_ctx s)) s)\<lparr>tc_tx := Tt_pop\<rparr>)"
    if "tc_tx s = Tt_drop"

text \<open>\<open>comm_tcp_rx_thread_func\<close>\<close>

inductive tcp_rx_step :: "tcp_system \<Rightarrow> tcp_system \<Rightarrow> bool" where
  tr_look: "tcp_rx_step s (s\<lparr>tc_rx := (let fd = comm_tcp_get_client_fd (tc_ctx s) in if fd < 0 then Tr_look else Tr_recv fd)\<rparr>)"
    if "tc_rx s = Tr_look"
| tr_data: "tcp_rx_step s (s\<lparr>tc_rx := Tr_look\<rparr>)"
    if "tc_rx s = Tr_recv fd" "result = Recv_interrupted \<or> (\<exists>d. result = Received d \<and> d \<noteq> [])"
| tr_failed: "tcp_rx_step s ((tcp_closed (comm_tcp_close_client (tc_ctx s)) s)\<lparr>tc_rx := Tr_look\<rparr>)"
    if "tc_rx s = Tr_recv fd" "result = Recv_failed \<or> result = Received []"

text \<open>\<open>comm_tcp_accept_thread_func\<close>: a descriptor that \<open>accept\<close> hands out is not open.\<close>

inductive tcp_accept_step :: "tcp_system \<Rightarrow> tcp_system \<Rightarrow> bool" where
  ta_accept: "tcp_accept_step s (if fd < 0 then s else s\<lparr>tc_log := tc_log s @ [Fd_open fd], tc_accept := Ta_publish fd\<rparr>)"
    if "tc_accept s = Ta_accept" "\<And>S. open_fds (tc_log s) = Some S \<Longrightarrow> fd \<notin> set S"
| ta_publish: "tcp_accept_step s ((tcp_closed (comm_tcp_accept_client fd (tc_ctx s)) s)\<lparr>tc_accept := Ta_accept\<rparr>)"
    if "tc_accept s = Ta_publish fd"

text \<open>\<open>comm_tcp_send\<close>; what is refused changes nothing.\<close>

inductive tcp_send_step :: "tcp_system \<Rightarrow> tcp_system \<Rightarrow> bool" where
  ts_send: "tcp_send_step s (s\<lparr>tc_ctx := c, tc_accepted := tc_accepted s @ (if e = None then [d] else [])\<rparr>)"
    if "comm_tcp_send malloc_ok (Some d) (tc_ctx s) = (e, c)"

inductive tcp_step :: "tcp_system \<Rightarrow> tcp_system \<Rightarrow> bool" where
  tc_tx_step: "tcp_tx_step s t \<Longrightarrow> tcp_step s t"
| tc_rx_step: "tcp_rx_step s t \<Longrightarrow> tcp_step s t"
| tc_accept_step: "tcp_accept_step s t \<Longrightarrow> tcp_step s t"
| tc_send_step: "tcp_send_step s t \<Longrightarrow> tcp_step s t"

definition tcp_start :: "u16 option \<Rightarrow> tcp_system" where
  "tcp_start port =
     \<lparr>tc_ctx = comm_tcp_init (comm_tcp_configure port g_comm_tcp_ctx), tc_tx = Tt_pop, tc_rx = Tr_look, tc_accept = Ta_accept,
      tc_accepted = [], tc_popped = [], tc_log = []\<rparr>"

inductive tcp_reachable :: "u16 option \<Rightarrow> tcp_system \<Rightarrow> bool" for port where
  tc_init: "tcp_reachable port (tcp_start port)"
| tc_step: "tcp_reachable port t" if "tcp_reachable port s" "tcp_step s t"

section \<open>Invariant\<close>

text \<open>The descriptors that the service holds: one that was accepted and not yet announced, and the client's.\<close>

definition client_fds :: "comm_tcp_context_t \<Rightarrow> int list" where
  "client_fds c = (if 0 \<le> tcp_client_fd c then [tcp_client_fd c] else [])"

definition tcp_held :: "tcp_system \<Rightarrow> int list" where
  "tcp_held s = (case tc_accept s of Ta_accept \<Rightarrow> [] | Ta_publish fd \<Rightarrow> [fd]) @ client_fds (tc_ctx s)"

text \<open>The frame that the transmit thread has in its hands.\<close>

definition frame_in_hand :: "tcp_tx \<Rightarrow> comm_tcp_frame_t option" where
  "frame_in_hand t = (case t of Tt_look f \<Rightarrow> Some f | Tt_write fd f \<Rightarrow> Some f | _ \<Rightarrow> None)"

text \<open>Every write is the beginning of a frame of its own, in the order of the frames.\<close>

definition delivered :: "bytes list \<Rightarrow> bytes list \<Rightarrow> bool" where
  "delivered outs frames \<longleftrightarrow> (\<exists>sub. subseq sub frames \<and> list_all2 prefix outs sub)"

lemma delivered_Nil [simp]: "delivered [] []"
  by (simp add: delivered_def)

lemma delivered_skip: "delivered outs frames \<Longrightarrow> delivered outs (frames @ [f])"
  unfolding delivered_def using list_emb_prefix by blast

lemma delivered_write:
  assumes "delivered outs frames" "prefix out f"
  shows "delivered (outs @ [out]) (frames @ [f])"
proof -
  obtain sub where "subseq sub frames" "list_all2 prefix outs sub" using assms(1) by (auto simp: delivered_def)
  then have "subseq (sub @ [f]) (frames @ [f])" "list_all2 prefix (outs @ [out]) (sub @ [f])"
    using assms(2) by (auto intro: list_emb_append_mono list_all2_appendI)
  then show ?thesis unfolding delivered_def by blast
qed

fun hand_ok :: "comm_tcp_frame_t option \<Rightarrow> bytes list \<Rightarrow> bytes list \<Rightarrow> bool" where
  "hand_ok None ps outs \<longleftrightarrow> delivered outs ps"
| "hand_ok (Some f) ps outs \<longleftrightarrow>
     (\<exists>fs. ps = fs @ [the (tf_data f)] \<and> tf_len f = length (the (tf_data f)) \<and> delivered outs fs)"

definition tcp_sys_inv :: "tcp_system \<Rightarrow> bool" where
  "tcp_sys_inv s \<longleftrightarrow>
     tcp_inv (tc_ctx s) \<and> tc_accepted s = tc_popped s @ tcp_elems (tc_ctx s)
     \<and> open_fds (tc_log s) = Some (tcp_held s) \<and> distinct (tcp_held s) \<and> list_all (\<lambda>fd. 0 \<le> fd) (tcp_held s)
     \<and> hand_ok (frame_in_hand (tc_tx s)) (tc_popped s) (fd_writes (tc_log s))"

text \<open>The three ways in which a step changes the descriptors.\<close>

lemma close_client_inv:
  assumes "tcp_sys_inv s"
  shows "tcp_sys_inv (tcp_closed (comm_tcp_close_client (tc_ctx s)) s)"
    "frame_in_hand (tc_tx (tcp_closed (comm_tcp_close_client (tc_ctx s)) s)) = frame_in_hand (tc_tx s)"
  using assms
  by (auto simp: tcp_sys_inv_def tcp_closed_def comm_tcp_close_client_def tcp_held_def client_fds_def open_fds_append
      tcp_inv_def tcp_elems_def remove1_append split: tcp_accept_pc.splits option.splits)

lemma tcp_rx_inv: "tcp_sys_inv s \<Longrightarrow> tcp_sys_inv (s\<lparr>tc_rx := t\<rparr>)"
  by (simp add: tcp_sys_inv_def tcp_held_def)

lemma tcp_tx_inv:
  "tcp_sys_inv s \<Longrightarrow> frame_in_hand t = frame_in_hand (tc_tx s) \<Longrightarrow> tcp_sys_inv (s\<lparr>tc_tx := t\<rparr>)"
  by (simp add: tcp_sys_inv_def tcp_held_def)

text \<open>The queue operations keep the descriptors.\<close>

lemma push_fd: "comm_tcp_queue_push ok d c = (e, c') \<Longrightarrow> tcp_client_fd c' = tcp_client_fd c"
  by (auto simp: comm_tcp_queue_push_def split: if_splits)

lemma pop_fd: "comm_tcp_queue_pop c = (r, c') \<Longrightarrow> tcp_client_fd c' = tcp_client_fd c"
  by (auto simp: comm_tcp_queue_pop_def Let_def split: if_splits)

lemma push_elems:
  assumes "tcp_inv c" "comm_tcp_queue_push ok d c = (e, c')"
  shows "tcp_inv c'" "tcp_elems c' = tcp_elems c @ (if e = None then [d] else [])"
proof -
  have le: "tcp_count c \<le> COMM_TCP_QUEUE_CAPACITY" using assms(1) by (simp add: tcp_inv_def ring_ok_def)
  have "tcp_inv c' \<and> tcp_elems c' = tcp_elems c @ (if e = None then [d] else [])"
  proof (cases "ok \<and> tcp_count c \<noteq> COMM_TCP_QUEUE_CAPACITY")
    case True
    then have "snd (tcp_push d c) = c'" "e = None"
      using assms(2) by (auto simp: tcp_push_def comm_tcp_queue_push_def)
    then show ?thesis using tcp_push_law [OF assms(1), of d] True le by auto
  next
    case False
    then show ?thesis using assms by (auto simp: comm_tcp_queue_push_def split: if_splits)
  qed
  then show "tcp_inv c'" "tcp_elems c' = tcp_elems c @ (if e = None then [d] else [])" by auto
qed

lemma pop_elems:
  assumes "tcp_inv c" "comm_tcp_queue_pop c = (Popped f, c')"
  shows "tcp_inv c'" "tcp_elems c = the (tf_data f) # tcp_elems c'" "tf_len f = length (the (tf_data f))"
proof -
  have n: "0 < tcp_count c" using assms(2) by (auto simp: comm_tcp_queue_pop_def split: if_splits)
  have ok: "ring_ok COMM_TCP_QUEUE_CAPACITY (tcp_queue c) (tcp_head c) (tcp_tail c) (tcp_count c)"
    using assms(1) by (simp add: tcp_inv_def)
  obtain a as where e: "tcp_elems c = a # as" using n by (metis length_0_conv length_tcp_elems less_irrefl neq_Nil_conv)
  have p: "tcp_pop c = Some (the (tf_data f), c')" using assms(2) by (simp add: tcp_pop_def)
  show "tcp_inv c'" "tcp_elems c = the (tf_data f) # tcp_elems c'" using tcp_pop_law [OF assms(1) e] p e by auto
  have "f = tcp_queue c ! tcp_head c" using assms(2) by (auto simp: comm_tcp_queue_pop_def Let_def split: if_splits)
  moreover have "tcp_queue c ! tcp_head c \<in> set (ring_elems (tcp_queue c) (tcp_head c) (tcp_count c))"
    using ring_pop(1) [OF ok n] by (metis list.set_intros(1))
  ultimately show "tf_len f = length (the (tf_data f))" using assms(1) by (auto simp: tcp_inv_def)
qed

lemma tcp_tx_step_inv:
  assumes "tcp_tx_step s t" "tcp_sys_inv s"
  shows "tcp_sys_inv t"
  using assms
proof (cases rule: tcp_tx_step.cases)
  case (tt_pop f c)
  note e = pop_elems [OF _ tt_pop(3)] pop_fd [OF tt_pop(3)]
  show ?thesis using assms(2) e unfolding tt_pop(1)
    by (auto simp: tcp_sys_inv_def tt_pop(2) frame_in_hand_def tcp_held_def client_fds_def)
next
  case (tt_look f)
  show ?thesis using assms(2) unfolding tt_look(1)
    by (auto simp: tcp_sys_inv_def tt_look(2) frame_in_hand_def tcp_held_def Let_def dest: delivered_skip)
next
  case (tt_write fd f rs r out)
  obtain fs where fs: "tc_popped s = fs @ [the (tf_data f)]" "tf_len f = length (the (tf_data f))"
    "delivered (fd_writes (tc_log s)) fs"
    using assms(2) by (auto simp: tcp_sys_inv_def tt_write(2) frame_in_hand_def)
  then have "prefix out (the (tf_data f))" using tcp_write_all_prefix [OF tt_write(3)] by simp
  then have "delivered (fd_writes (tc_log s) @ [out]) (tc_popped s)" using delivered_write [OF fs(3)] fs(1) by simp
  then show ?thesis using assms(2) unfolding tt_write(1)
    by (auto simp: tcp_sys_inv_def frame_in_hand_def tcp_held_def open_fds_append)
next
  case tt_drop
  note d = close_client_inv [OF assms(2)]
  show ?thesis unfolding tt_drop(1) by (rule tcp_tx_inv [OF d(1)]) (simp add: d(2), simp add: tt_drop(2) frame_in_hand_def)
qed

lemma tcp_rx_step_inv:
  assumes "tcp_rx_step s t" "tcp_sys_inv s"
  shows "tcp_sys_inv t"
  using assms by (cases rule: tcp_rx_step.cases) (auto intro: tcp_rx_inv close_client_inv(1))

lemma tcp_accept_step_inv:
  assumes "tcp_accept_step s t" "tcp_sys_inv s"
  shows "tcp_sys_inv t"
  using assms
proof (cases rule: tcp_accept_step.cases)
  case (ta_accept fd)
  then show ?thesis using assms(2)
    by (auto simp: tcp_sys_inv_def tcp_held_def open_fds_append)
next
  case (ta_publish fd)
  then show ?thesis using assms(2)
    by (auto simp: tcp_sys_inv_def tcp_closed_def comm_tcp_accept_client_def tcp_held_def client_fds_def open_fds_append
      tcp_inv_def tcp_elems_def split: option.splits)
qed

lemma tcp_send_step_inv:
  assumes "tcp_send_step s t" "tcp_sys_inv s"
  shows "tcp_sys_inv t"
  using assms
proof (cases rule: tcp_send_step.cases)
  case (ts_send ok d e c)
  have "tcp_inv c \<and> tcp_elems c = tcp_elems (tc_ctx s) @ (if e = None then [d] else []) \<and> tcp_client_fd c = tcp_client_fd (tc_ctx s)"
  proof (cases "d = []")
    case True
    then show ?thesis using ts_send(2) assms(2) by (auto simp: comm_tcp_send_def tcp_sys_inv_def)
  next
    case False
    then have p: "comm_tcp_queue_push ok d (tc_ctx s) = (e, c)" using ts_send(2) by (simp add: comm_tcp_send_def)
    show ?thesis using push_elems [OF _ p] push_fd [OF p] assms(2) by (simp add: tcp_sys_inv_def)
  qed
  then show ?thesis using assms(2) unfolding ts_send(1)
    by (auto simp: tcp_sys_inv_def tcp_held_def client_fds_def)
qed

lemma tcp_start_inv: "tcp_sys_inv (tcp_start port)"
proof -
  have "tcp_inv c" "tcp_elems c = []" "tcp_client_fd c = - 1" if "c = tc_ctx (tcp_start port)" for c
    using tcp_init_inv that
    by (auto simp: tcp_start_def comm_tcp_init_def comm_tcp_configure_def tcp_inv_def tcp_elems_def g_comm_tcp_ctx_def
        split: option.splits)
  then show ?thesis
    by (simp add: tcp_sys_inv_def tcp_held_def client_fds_def open_fds_def frame_in_hand_def)
      (simp add: tcp_start_def frame_in_hand_def)
qed

inductive_cases tcp_stepE: "tcp_step s t"

lemma tcp_step_inv: "tcp_step s t \<Longrightarrow> tcp_sys_inv s \<Longrightarrow> tcp_sys_inv t"
  by (elim tcp_stepE) (rule tcp_tx_step_inv tcp_rx_step_inv tcp_accept_step_inv tcp_send_step_inv; assumption)+

lemma tcp_runs: "tcp_reachable port t \<Longrightarrow> tcp_step\<^sup>*\<^sup>* (tcp_start port) t"
  by (induction rule: tcp_reachable.induct) (auto intro: run_step)

interpretation tcp_threads: fd_system "\<lambda>s. s = tcp_start port" tcp_step "tcp_reachable port" tcp_sys_inv tc_log tcp_held for port
  by (unfold_locales, rule reachable_runs)
    (auto intro: tcp_reachable.intros tcp_runs tcp_start_inv tcp_step_inv, simp add: tcp_sys_inv_def)

lemmas tcp_reachable_inv = tcp_threads.reach_inv

section \<open>What the threads do to each other\<close>

lemmas tcp_action_defs = tcp_closed_def comm_tcp_accept_client_def comm_tcp_close_client_def comm_tcp_get_client_fd_def

text \<open>A client with descriptor 5, and the next one, 6, just accepted.\<close>

definition one_client :: tcp_system where
  "one_client = (tcp_start None)\<lparr>tc_ctx := (tc_ctx (tcp_start None))\<lparr>tcp_client_fd := 5\<rparr>, tc_log := [Fd_open 5]\<rparr>"

lemma one_client_reachable: "tcp_reachable None one_client"
proof -
  let ?s = "(tcp_start None)\<lparr>tc_log := [Fd_open 5], tc_accept := Ta_publish 5\<rparr>"
  have "tcp_step (tcp_start None) ?s"
    using tc_accept_step [OF ta_accept [of "tcp_start None" 5]] by (simp add: tcp_start_def open_fds_def)
  moreover have "tcp_step ?s one_client"
    using tc_accept_step [OF ta_publish [of ?s 5]]
    by (simp add: one_client_def tcp_start_def tcp_action_defs comm_tcp_init_def comm_tcp_configure_def g_comm_tcp_ctx_def)
  ultimately show ?thesis by (blast intro: tc_init tc_step)
qed

lemma one_client_parts [simp]:
  "tc_tx one_client = Tt_pop" "tc_rx one_client = Tr_look" "tc_accept one_client = Ta_accept" "tc_log one_client = [Fd_open 5]"
  "tcp_client_fd (tc_ctx one_client) = 5"
  by (simp_all add: one_client_def tcp_start_def)

text \<open>A second client comes: it is accepted and takes the place of the first one.\<close>

lemma second_client:
  assumes "tcp_reachable None s" "tc_accept s = Ta_accept" "tc_log s = [Fd_open 5]" "tcp_client_fd (tc_ctx s) = 5"
  shows "tcp_reachable None (s\<lparr>tc_ctx := (tc_ctx s)\<lparr>tcp_client_fd := 6\<rparr>, tc_log := [Fd_open 5, Fd_open 6, Fd_close 5]\<rparr>)"
proof -
  let ?a = "s\<lparr>tc_log := [Fd_open 5, Fd_open 6], tc_accept := Ta_publish 6\<rparr>"
  have "tcp_step s ?a"
    using tc_accept_step [OF ta_accept [of s 6]] assms by (simp add: open_fds_def)
  with assms(1) have a: "tcp_reachable None ?a" by (rule tc_step)
  have "(tcp_closed (comm_tcp_accept_client 6 (tc_ctx ?a)) ?a)\<lparr>tc_accept := Ta_accept\<rparr> =
      s\<lparr>tc_ctx := (tc_ctx s)\<lparr>tcp_client_fd := 6\<rparr>, tc_log := [Fd_open 5, Fd_open 6, Fd_close 5]\<rparr>"
    using assms by (cases s) (simp add: tcp_action_defs)
  then show ?thesis using tc_step [OF a tc_accept_step [OF ta_publish [of ?a 6]]] by simp
qed

text \<open>The receive thread was reading from the first client and now closes the second one.\<close>

lemma second_client_closed:
  "\<exists>s. tcp_reachable None s \<and> tc_log s = [Fd_open 5, Fd_open 6, Fd_close 5, Fd_close 6]"
proof -
  let ?s = "one_client\<lparr>tc_rx := Tr_recv 5\<rparr>"
  have "tcp_step one_client ?s"
    using tc_rx_step [OF tr_look [of one_client]] by (simp add: comm_tcp_get_client_fd_def)
  with one_client_reachable have "tcp_reachable None ?s" by (rule tc_step)
  then have "tcp_reachable None (?s\<lparr>tc_ctx := (tc_ctx ?s)\<lparr>tcp_client_fd := 6\<rparr>, tc_log := [Fd_open 5, Fd_open 6, Fd_close 5]\<rparr>)"
    (is "tcp_reachable None ?t") by (rule second_client) simp_all
  moreover have "tcp_step ?t ((tcp_closed (comm_tcp_close_client (tc_ctx ?t)) ?t)\<lparr>tc_rx := Tr_look\<rparr>)" (is "tcp_step ?t ?u")
    using tc_rx_step [OF tr_failed [of ?t 5 Recv_failed]] by simp
  ultimately have "tcp_reachable None ?u" by (rule tc_step)
  then show ?thesis by (intro exI [of _ ?u]) (simp add: tcp_action_defs)
qed

text \<open>The transmit thread has looked up the first client and writes to its closed descriptor.\<close>

lemma frame_to_closed_client:
  "\<exists>s. tcp_reachable None s \<and> tc_accepted s = [[7]] \<and> tc_log s = [Fd_open 5, Fd_open 6, Fd_close 5, Fd_write 5 [7]]"
proof -
  let ?c = "tc_ctx one_client"
  have i: "tcp_inv ?c" "tcp_elems ?c = []" "tcp_count ?c = 0"
    using tcp_reachable_inv [OF one_client_reachable] by (simp_all add: tcp_sys_inv_def one_client_def tcp_start_def
      comm_tcp_init_def comm_tcp_configure_def g_comm_tcp_ctx_def flip: length_tcp_elems)
  obtain c where s: "comm_tcp_send True (Some [7]) ?c = (None, c)"
    using i(3) by (simp add: comm_tcp_send_def comm_tcp_queue_push_def COMM_TCP_QUEUE_CAPACITY_def)
  then have p: "comm_tcp_queue_push True [7] ?c = (None, c)" by (simp add: comm_tcp_send_def)
  let ?s = "one_client\<lparr>tc_ctx := c, tc_accepted := [[7]]\<rparr>"
  have "tcp_step one_client ?s"
    using tc_send_step [OF ts_send [OF s]] by (simp add: one_client_def tcp_start_def)
  with one_client_reachable have r: "tcp_reachable None ?s" by (rule tc_step)
  note e = push_elems [OF i(1) p] push_fd [OF p]
  have n: "tcp_count c = 1" using e(2) i(2) by (simp flip: length_tcp_elems)
  obtain f c2 where q: "comm_tcp_queue_pop c = (Popped f, c2)" using n by (auto simp: comm_tcp_queue_pop_def Let_def)
  note g = pop_elems [OF e(1) q] pop_fd [OF q]
  have f: "take (tf_len f) (the (tf_data f)) = [7]" using g(2,3) e(2) i(2) by simp
  let ?t = "?s\<lparr>tc_ctx := c2, tc_tx := Tt_look f, tc_popped := tc_popped ?s @ [the (tf_data f)]\<rparr>"
  have "tcp_step ?s ?t" using tc_tx_step [OF tt_pop [of ?s f c2]] q by simp
  with r have t: "tcp_reachable None ?t" by (rule tc_step)
  let ?u = "?t\<lparr>tc_tx := Tt_write 5 f\<rparr>"
  have "tcp_step ?t ?u" using tc_tx_step [OF tt_look [of ?t f]] g(4) e(3) by (simp add: comm_tcp_get_client_fd_def)
  with t have "tcp_reachable None ?u" by (rule tc_step)
  then have "tcp_reachable None (?u\<lparr>tc_ctx := (tc_ctx ?u)\<lparr>tcp_client_fd := 6\<rparr>, tc_log := [Fd_open 5, Fd_open 6, Fd_close 5]\<rparr>)"
    (is "tcp_reachable None ?v") by (rule second_client) (use g(4) e(3) in simp_all)
  moreover have "tcp_step ?v (?v\<lparr>tc_log := tc_log ?v @ [Fd_write 5 [7]], tc_tx := Tt_pop\<rparr>)" (is "tcp_step ?v ?w")
    using tc_tx_step [OF tt_write [of ?v 5 f "[Sent 1]" 0 "[7]"]] f by simp
  ultimately have "tcp_reachable None ?w" by (rule tc_step)
  then show ?thesis by (intro exI [of _ ?w]) simp
qed

end
