(* ===== verification/Servers.thy ===== *)
theory Servers
  imports CommTcp
begin

text \<open>
  How the services get their sockets: \<open>comm_udp_create_server\<close> (\<open>core/src/comm_udp.c\<close>) and
  \<open>comm_tcp_create_server\<close> (\<open>core/src/comm_tcp.c\<close>), and the first statements of the threads
  that call them. The operating system is a script of results; what was called, and which
  descriptors are open, is recorded.
\<close>

section \<open>The operating system\<close>

datatype sock_call =
    Call_socket_dgram | Call_socket_stream
  | Call_reuseaddr int
  | Call_bind int sockaddr_in
  | Call_listen int nat
  | Call_close int

record sock_os =
  os_results :: "int list"      \<comment> \<open>of the next calls; a negative number is an error, as is the end\<close>
  os_open :: "int list"
  os_calls :: "sock_call list"

definition os_call :: "sock_call \<Rightarrow> sock_os \<Rightarrow> int \<times> sock_os" where
  "os_call c os =
     (case os_results os of
        [] \<Rightarrow> (- 1, os\<lparr>os_calls := os_calls os @ [c]\<rparr>)
      | r # rs \<Rightarrow> (r, os\<lparr>os_results := rs, os_calls := os_calls os @ [c]\<rparr>))"

definition os_socket :: "sock_call \<Rightarrow> sock_os \<Rightarrow> int \<times> sock_os" where
  "os_socket c os =
     (let (fd, os) = os_call c os in (fd, if fd < 0 then os else os\<lparr>os_open := fd # os_open os\<rparr>))"

definition os_close :: "int \<Rightarrow> sock_os \<Rightarrow> sock_os" where
  "os_close fd os = os\<lparr>os_open := remove1 fd (os_open os), os_calls := os_calls os @ [Call_close fd]\<rparr>"

text \<open>\<open>htons\<close> on a little-endian machine.\<close>

definition htons :: "u16 \<Rightarrow> u16" where
  "htons x = push_bit 8 x OR drop_bit 8 x"

definition any_address :: "u16 \<Rightarrow> sockaddr_in" where
  "any_address port = \<lparr>sin_addr = 0, sin_port = htons port\<rparr>"

section \<open>The servers\<close>

definition comm_udp_create_server :: "comm_udp_context_t \<Rightarrow> sock_os \<Rightarrow> int \<times> sock_os" where
  "comm_udp_create_server c os =
     (let (fd, os) = os_socket Call_socket_dgram os
      in if fd < 0 then (- 1, os)
         else let (_, os) = os_call (Call_reuseaddr fd) os;
                  (r, os) = os_call (Call_bind fd (any_address (udp_port c))) os
              in if r < 0 then (- 1, os_close fd os) else (fd, os))"

definition comm_tcp_create_server :: "comm_tcp_context_t \<Rightarrow> sock_os \<Rightarrow> int \<times> sock_os" where
  "comm_tcp_create_server c os =
     (let (fd, os) = os_socket Call_socket_stream os
      in if fd < 0 then (- 1, os)
         else let (_, os) = os_call (Call_reuseaddr fd) os;
                  (r, os) = os_call (Call_bind fd (any_address (tcp_port c))) os
              in if r < 0 then (- 1, os_close fd os)
                 else let (r, os) = os_call (Call_listen fd 4) os
                      in if r < 0 then (- 1, os_close fd os) else (fd, os))"

text \<open>The threads' first statements; \<open>False\<close>: the thread has ended.\<close>

definition comm_udp_rx_start :: "comm_udp_context_t \<Rightarrow> sock_os \<Rightarrow> bool \<times> comm_udp_context_t \<times> sock_os" where
  "comm_udp_rx_start c os =
     (let (fd, os) = comm_udp_create_server c os
      in if fd < 0 then (False, c, os) else (True, c\<lparr>udp_fd := fd\<rparr>, os))"

definition comm_tcp_accept_start :: "comm_tcp_context_t \<Rightarrow> sock_os \<Rightarrow> bool \<times> comm_tcp_context_t \<times> sock_os" where
  "comm_tcp_accept_start c os =
     (let (fd, os) = comm_tcp_create_server c os
      in if fd < 0 then (False, c, os) else (True, c\<lparr>tcp_listen_fd := fd\<rparr>, os))"

section \<open>No descriptor is lost\<close>

lemma os_call_open: "os_call c os = (r, os') \<Longrightarrow> os_open os' = os_open os"
  by (auto simp: os_call_def split: list.splits)

lemma os_socket_open:
  "os_socket c os = (fd, os') \<Longrightarrow> os_open os' = (if fd < 0 then os_open os else fd # os_open os)"
  by (auto simp: os_socket_def dest: os_call_open split: prod.splits)

lemma os_close_open [simp]: "os_open (os_close fd os) = remove1 fd (os_open os)"
  by (simp add: os_close_def)

text \<open>On an error everything is closed again; on success exactly the new socket is open.\<close>

lemma comm_udp_create_server_open:
  "comm_udp_create_server c os = (fd, os') \<Longrightarrow>
     - 1 \<le> fd \<and> os_open os' = (if fd < 0 then os_open os else fd # os_open os)"
  unfolding comm_udp_create_server_def Let_def
  by (auto split: prod.splits if_splits dest!: os_socket_open os_call_open)

lemma comm_tcp_create_server_open:
  "comm_tcp_create_server c os = (fd, os') \<Longrightarrow>
     - 1 \<le> fd \<and> os_open os' = (if fd < 0 then os_open os else fd # os_open os)"
  unfolding comm_tcp_create_server_def Let_def
  by (auto split: prod.splits if_splits dest!: os_socket_open os_call_open)

text \<open>The calls of a server that comes up.\<close>

definition tcp_server_calls :: "u16 \<Rightarrow> int \<Rightarrow> sock_call list" where
  "tcp_server_calls port fd =
     [Call_socket_stream, Call_reuseaddr fd, Call_bind fd (any_address port), Call_listen fd 4]"

definition udp_server_calls :: "u16 \<Rightarrow> int \<Rightarrow> sock_call list" where
  "udp_server_calls port fd = [Call_socket_dgram, Call_reuseaddr fd, Call_bind fd (any_address port)]"

lemma os_call_calls: "os_call c os = (r, os') \<Longrightarrow> os_calls os' = os_calls os @ [c]"
  by (auto simp: os_call_def split: list.splits)

lemma os_socket_calls: "os_socket c os = (r, os') \<Longrightarrow> os_calls os' = os_calls os @ [c]"
  by (auto simp: os_socket_def dest: os_call_calls split: prod.splits if_splits)

lemma comm_tcp_create_server_calls:
  "comm_tcp_create_server c os = (fd, os') \<Longrightarrow> 0 \<le> fd \<Longrightarrow> os_calls os' = os_calls os @ tcp_server_calls (tcp_port c) fd"
  unfolding comm_tcp_create_server_def Let_def
  by (auto split: prod.splits if_splits dest!: os_socket_calls os_call_calls simp: tcp_server_calls_def)

lemma comm_udp_create_server_calls:
  "comm_udp_create_server c os = (fd, os') \<Longrightarrow> 0 \<le> fd \<Longrightarrow> os_calls os' = os_calls os @ udp_server_calls (udp_port c) fd"
  unfolding comm_udp_create_server_def Let_def
  by (auto split: prod.splits if_splits dest!: os_socket_calls os_call_calls simp: udp_server_calls_def)

section \<open>Printing what was received\<close>

text \<open>The two functions have the same body but for the tag; only the one of the TCP service is called.\<close>

definition parsed_text :: "string \<Rightarrow> bytes \<Rightarrow> string" where
  "parsed_text tag data =
     (let copy_len = (if length data \<ge> 1024 then 1023 else length data)
      in tag @ ''[RX] parsed: '' @ c_str (string_of_bytes (take copy_len data)) @ [LF])"

definition comm_udp_parse_frame :: "bytes \<Rightarrow> string" where
  "comm_udp_parse_frame = parsed_text ''[UDP]''"

definition comm_tcp_parse_frame :: "bytes \<Rightarrow> string" where
  "comm_tcp_parse_frame = parsed_text ''[TCP]''"

text \<open>With its terminator, the copy fits the array of 1024 characters.\<close>

lemma parsed_text_bounded: "length (parsed_text tag data) \<le> length tag + 14 + 1023"
proof -
  have "length (c_str s) \<le> length s" for s by (simp add: c_str_def length_takeWhile_le)
  then have "length (c_str (string_of_bytes (take n data))) \<le> n" for n
    by (metis length_string_of_bytes length_take min.cobounded2 order_trans)
  from this [of "if length data \<ge> 1024 then 1023 else length data"] show ?thesis
    by (simp add: parsed_text_def split: if_splits)
qed

end
