(* ===== verification/Serial.thy ===== *)
theory Serial
  imports Prelude
begin

text \<open>
  The parameters of a serial line: \<open>set_opt\<close> of \<open>core/src/src_tty.c\<close>. The flags are those of
  \<open>termios.h\<close> on Linux. The three system calls are arguments: whether \<open>tcgetattr\<close> succeeds,
  and whether \<open>tcsetattr\<close> does (the result of \<open>tcflush\<close> is ignored).
\<close>

section \<open>Flags\<close>

definition CSIZE :: u32 where "CSIZE = 0x30"
definition CS7 :: u32 where "CS7 = 0x20"
definition CS8 :: u32 where "CS8 = 0x30"
definition CSTOPB :: u32 where "CSTOPB = 0x40"
definition CREAD :: u32 where "CREAD = 0x80"
definition PARENB :: u32 where "PARENB = 0x100"
definition PARODD :: u32 where "PARODD = 0x200"
definition CLOCAL :: u32 where "CLOCAL = 0x800"
definition INPCK :: u32 where "INPCK = 0x10"
definition ISTRIP :: u32 where "ISTRIP = 0x20"

datatype baud = B2400 | B4800 | B9600 | B115200 | B460800

record termios =
  c_iflag :: u32
  c_oflag :: u32
  c_cflag :: u32
  c_lflag :: u32
  c_ispeed :: baud
  c_ospeed :: baud
  c_vtime :: u8
  c_vmin :: u8

section \<open>The settings\<close>

text \<open>The three \<open>switch\<close> statements.\<close>

definition set_bits :: "int \<Rightarrow> termios \<Rightarrow> termios" where
  "set_bits nBits t =
     (if nBits = 7 then t\<lparr>c_cflag := c_cflag t OR CS7\<rparr>
      else if nBits = 8 then t\<lparr>c_cflag := c_cflag t OR CS8\<rparr>
      else t)"

definition set_parity :: "char \<Rightarrow> termios \<Rightarrow> termios" where
  "set_parity nEvent t =
     (if nEvent = CHR ''O'' then
        t\<lparr>c_cflag := c_cflag t OR PARENB OR PARODD, c_iflag := c_iflag t OR (INPCK OR ISTRIP)\<rparr>
      else if nEvent = CHR ''E'' then
        t\<lparr>c_iflag := c_iflag t OR (INPCK OR ISTRIP), c_cflag := (c_cflag t OR PARENB) AND NOT PARODD\<rparr>
      else if nEvent = CHR ''N'' then t\<lparr>c_cflag := c_cflag t AND NOT PARENB\<rparr>
      else t)"

definition set_speed :: "int \<Rightarrow> termios \<Rightarrow> termios" where
  "set_speed nSpeed t =
     (let b = (if nSpeed = 2400 then B2400 else if nSpeed = 4800 then B4800 else if nSpeed = 9600 then B9600
               else if nSpeed = 115200 then B115200 else if nSpeed = 460800 then B460800 else B9600)
      in t\<lparr>c_ispeed := b, c_ospeed := b\<rparr>)"

definition set_stop :: "int \<Rightarrow> termios \<Rightarrow> termios" where
  "set_stop nStop t =
     (if nStop = 1 then t\<lparr>c_cflag := c_cflag t AND NOT CSTOPB\<rparr>
      else if nStop = 2 then t\<lparr>c_cflag := c_cflag t OR CSTOPB\<rparr>
      else t)"

text \<open>
  \<open>bzero\<close> clears the structure, so everything that is not set here is off: no echo, no line
  editing, no translation. The speed fields are zero (\<open>B0\<close>) until they are set; the model starts
  them at any value, which \<open>set_speed\<close> always replaces. The second result is what \<open>tcsetattr\<close> got.
\<close>

definition new_termios :: "int \<Rightarrow> int \<Rightarrow> char \<Rightarrow> int \<Rightarrow> termios" where
  "new_termios nSpeed nBits nEvent nStop =
     (let t = \<lparr>c_iflag = 0, c_oflag = 0, c_cflag = 0, c_lflag = 0, c_ispeed = B9600, c_ospeed = B9600,
               c_vtime = 0, c_vmin = 0\<rparr>;
          t = t\<lparr>c_cflag := c_cflag t OR (CLOCAL OR CREAD)\<rparr>;
          t = t\<lparr>c_cflag := c_cflag t AND NOT CSIZE\<rparr>;
          t = set_stop nStop (set_speed nSpeed (set_parity nEvent (set_bits nBits t)))
      in t\<lparr>c_vtime := 100, c_vmin := 0\<rparr>)"

definition set_opt :: "bool \<Rightarrow> bool \<Rightarrow> int \<Rightarrow> int \<Rightarrow> char \<Rightarrow> int \<Rightarrow> int \<times> termios option" where
  "set_opt get_ok set_ok nSpeed nBits nEvent nStop =
     (if \<not> get_ok then (- 1, None)
      else (if set_ok then 0 else - 1, Some (new_termios nSpeed nBits nEvent nStop)))"

section \<open>What the line does\<close>

text \<open>Eight or seven data bits, the parity, the stop bits and the speed that were asked for,
  and nothing of the line discipline.\<close>

lemma flag_bits:
  "new_termios v nBits nEvent nStop = t \<Longrightarrow>
     c_cflag t = CLOCAL OR CREAD
       OR (if nBits = 7 then CS7 else if nBits = 8 then CS8 else 0)
       OR (if nEvent = CHR ''O'' then PARENB OR PARODD else if nEvent = CHR ''E'' then PARENB else 0)
       OR (if nStop = 2 then CSTOPB else 0)
     \<and> c_lflag t = 0 \<and> c_oflag t = 0"
  by (cases "nBits = 7"; cases "nBits = 8"; cases "nEvent = CHR ''O''"; cases "nEvent = CHR ''E''";
      cases "nEvent = CHR ''N''"; cases "nStop = 1"; cases "nStop = 2";
      force simp: new_termios_def set_stop_def set_speed_def set_parity_def set_bits_def Let_def
        CLOCAL_def CREAD_def CS7_def CS8_def CSIZE_def CSTOPB_def PARENB_def PARODD_def)

text \<open>The four devices of the program ask for eight bits, no parity and one stop bit.\<close>

lemma line_8N1:
  "snd (set_opt True True v 8 CHR ''N'' 1) = Some t \<Longrightarrow>
     c_cflag t AND CSIZE = CS8 \<and> c_cflag t AND PARENB = 0 \<and> c_cflag t AND CSTOPB = 0
     \<and> c_iflag t = 0 \<and> c_lflag t = 0 \<and> c_oflag t = 0 \<and> c_ispeed t = c_ospeed t"
  by (auto simp: set_opt_def new_termios_def set_stop_def set_speed_def set_parity_def set_bits_def Let_def
      CLOCAL_def CREAD_def CS7_def CS8_def CSIZE_def CSTOPB_def PARENB_def PARODD_def)

end
