(* ===== verification/Lora.thy ===== *)
theory Lora
  imports Gpio
begin

text \<open>
  The LoRa module (\<open>core/src/lora_thread.c\<close>): its line, and the thread that prints what it
  receives. The pins are those of \<open>Gpio\<close>; the results of \<open>open\<close>, \<open>write\<close> and \<open>read\<close> are arguments.
\<close>

record lora_world =
  lora_io :: io_world
  lora_fd :: int
  lora_sent :: "string list"
  lora_out :: string

text \<open>One call of \<open>write\<close>: how many bytes it took, or \<open>None\<close> on an error. A part counts as success.\<close>

definition lora_send :: "nat option \<Rightarrow> string \<Rightarrow> lora_world \<Rightarrow> int \<times> lora_world" where
  "lora_send n data w =
     (if lora_fd w < 0 then (- 1, w)
      else case n of
        None \<Rightarrow> (- 1, w)
      | Some k \<Rightarrow> (0, w\<lparr>lora_sent := lora_sent w @ [take k data]\<rparr>))"

text \<open>The statements before the loop; \<open>False\<close>: the thread has ended.\<close>

definition lora_thread_start :: "int \<Rightarrow> lora_world \<Rightarrow> bool \<times> lora_world" where
  "lora_thread_start fd w =
     (let (rc, io) = lora_enable (lora_io w);
          w = w\<lparr>lora_io := io\<rparr>
      in if rc < 0 then (False, w)
         else let w = w\<lparr>lora_fd := fd\<rparr>
              in if fd < 0 then (False, w) else (True, w))"

text \<open>One round of the loop; \<open>buf\<close> is what \<open>read\<close> gives, nothing on an error.\<close>

definition lora_thread_round :: "bytes \<Rightarrow> lora_world \<Rightarrow> lora_world" where
  "lora_thread_round buf w =
     (let buf = take 255 buf
      in if 0 < length buf
         then w\<lparr>lora_out := lora_out w @ ''LoRa received: '' @ c_str (string_of_bytes buf) @ [LF]\<rparr>
         else w)"

text \<open>Without an open device nothing is sent; the thread opens it only on a powered module.\<close>

lemma lora_send_closed: "lora_fd w < 0 \<Longrightarrow> lora_send n data w = (- 1, w)"
  by (simp add: lora_send_def)

lemma lora_thread_start_open:
  "lora_thread_start fd w = (ok, w') \<Longrightarrow> ok \<longleftrightarrow> fst (lora_enable (lora_io w)) \<ge> 0 \<and> 0 \<le> fd \<and> lora_fd w' = fd"
  by (auto simp: lora_thread_start_def Let_def split: prod.splits if_splits)

end
