(* ===== verification/GnssTestFile.thy ===== *)
theory GnssTestFile
  imports GnssFile
begin

text \<open>
  The functions of \<open>core/src/gnss_ephb_info.c\<close> that start a recording under a fixed name in
  \<open>/root\<close>. Nothing calls them any more; \<open>gnss_ephb_info_file_header\<close> took their place. Four of
  the header lines are those of \<open>GnssFile\<close>, two are not.
\<close>

definition TEST_BD2EPHB_FILE_PATH :: string where "TEST_BD2EPHB_FILE_PATH = ''/root/bd2_ephe.csv''"
definition TEST_BD3EPHB_FILE_PATH :: string where "TEST_BD3EPHB_FILE_PATH = ''/root/bd3_ephe.csv''"
definition TEST_BDXWEPHB_FILE_PATH :: string where "TEST_BDXWEPHB_FILE_PATH = ''/root/bdxw_ephe.csv''"
definition TEST_BD3CNAV2EPHB_FILE_PATH :: string where "TEST_BD3CNAV2EPHB_FILE_PATH = ''/root/bd3cnav2_ephe.csv''"
definition TEST_BD3CNAV3EPHB_FILE_PATH :: string where "TEST_BD3CNAV3EPHB_FILE_PATH = ''/root/bd3cnav3_ephe.csv''"

definition bd3_test_header :: string where
  "bd3_test_header =
     ''gps_week_count,gps_tow_s,bd3_satid,bd3_sattype,bd3_week,bd3_toe,bd3_toc,bd3_af0,bd3_af1,bd3_af2,bd3_iode,bd3_iodc,bd3_idot,bd3_crs,bd3_crc,bd3_cus,bd3_cuc,bd3_cis,bd3_cic,bd3_delta_n0,bd3_delta_n0_dot,bd3_m0,bd3_ecc,bd3_deltaA,bd3_adot,bd3_omega0,bd3_i0,bd3_omega,bd3_omegadot,bd3_tgdb1cp,bd3_tgdb2ap,bd3_iscb1cd'' @
     [LF]"

definition cnav3_test_header :: string where
  "cnav3_test_header =
     ''gps_week_count,gps_tow_s,bds_satid,bds_sattype,bds_week,bds_toe,bds_toc,bds_af0,bds_af1,bds_af2,bds_iode,bds_iodc,bds_idot,bds_crs,bds_crc,bds_cus,bds_cuc,bds_cis,bds_cic,bds_delta_n0,bds_delta_n0_dot,bds_m0,bds_ecc,bds_deltaA,bds_adot,bds_omega0,bds_i0,bds_omega,bds_omegadot,bds_tgdb2bI'' @
     [LF]"

definition start_file :: "string \<Rightarrow> string \<Rightarrow> file_world \<Rightarrow> file_world" where
  "start_file path header w =
     (let (ok, w) = run_fopen w in if ok then log_file [File_created path, File_text path header] w else w)"

definition bd2ephb_file_header :: "file_world \<Rightarrow> file_world" where
  "bd2ephb_file_header w = start_file TEST_BD2EPHB_FILE_PATH bd2ephb_header w"

definition bd3ephb_file_header :: "file_world \<Rightarrow> file_world" where
  "bd3ephb_file_header w = start_file TEST_BD3EPHB_FILE_PATH bd3_test_header w"

definition bdxwephb_file_header :: "file_world \<Rightarrow> file_world" where
  "bdxwephb_file_header w = start_file TEST_BDXWEPHB_FILE_PATH bdxwephb_header w"

definition bd3cnav2ephb_file_header :: "file_world \<Rightarrow> file_world" where
  "bd3cnav2ephb_file_header w = start_file TEST_BD3CNAV2EPHB_FILE_PATH bd3cnav2ephb_header w"

definition bd3cnav3ephb_file_header :: "file_world \<Rightarrow> file_world" where
  "bd3cnav3ephb_file_header w = start_file TEST_BD3CNAV3EPHB_FILE_PATH cnav3_test_header w"

text \<open>This one writes to the configured path, and closes the stream also when it is not open.\<close>

definition gpsephb_file_header :: "file_world \<Rightarrow> file_world option" where
  "gpsephb_file_header w =
     (let path = file_path (eph_file (eph_gps (eph_cfg_of w)));
          (ok, w) = run_fopen w
      in if ok then Some (log_file [File_created path, File_text path gpsephb_header] w) else None)"

text \<open>The same with a header line in Chinese, in the UTF-8 bytes of the source.\<close>

definition gps_chinese_header :: string where
  "gps_chinese_header =
     [CHR 0xE5, CHR 0x91, CHR 0xA8, CHR 0xE8, CHR 0xAE, CHR 0xA1, CHR 0xE6, CHR 0x95, CHR 0xB0] @ '','' @
     [CHR 0xE5, CHR 0x91, CHR 0xA8, CHR 0xE5, CHR 0x86, CHR 0x85, CHR 0xE7, CHR 0xA7, CHR 0x92] @ '','' @
     [CHR 0xE5, CHR 0x8D, CHR 0xAB, CHR 0xE6, CHR 0x98, CHR 0x9F, CHR 0xE5, CHR 0x8F, CHR 0xB7] @ '','' @
     [CHR 0xE7, CHR 0x94, CHR 0xA8, CHR 0xE6, CHR 0x88, CHR 0xB7, CHR 0xE7, CHR 0xAD, CHR 0x89, CHR 0xE6, CHR 0x95, CHR 0x88, CHR 0xE8, CHR 0xB7, CHR 0x9D, CHR 0xE7, CHR 0xA6, CHR 0xBB, CHR 0xE7, CHR 0xB2, CHR 0xBE, CHR 0xE5, CHR 0xBA, CHR 0xA6] @
     ''(m),'' @
     [CHR 0xE6, CHR 0x98, CHR 0x9F, CHR 0xE8, CHR 0x87, CHR 0xAA, CHR 0xE4, CHR 0xB8, CHR 0xBB, CHR 0xE5, CHR 0x81, CHR 0xA5, CHR 0xE5, CHR 0xBA, CHR 0xB7, CHR 0xE6, CHR 0xA0, CHR 0x87, CHR 0xE8, CHR 0xAF, CHR 0x86] @
     '','' @
     [CHR 0xE6, CHR 0x97, CHR 0xB6, CHR 0xE9, CHR 0x97, CHR 0xB4, CHR 0xE5, CHR 0x91, CHR 0xA8, CHR 0xE8, CHR 0xAE, CHR 0xA1, CHR 0xE6, CHR 0x95, CHR 0xB0] @
     '','' @
     [CHR 0xE5, CHR 0x8D, CHR 0xAB, CHR 0xE6, CHR 0x98, CHR 0x9F, CHR 0xE6, CHR 0x98, CHR 0x9F, CHR 0xE5, CHR 0x8E, CHR 0x86, CHR 0xE5, CHR 0x8F, CHR 0x82, CHR 0xE8, CHR 0x80, CHR 0x83, CHR 0xE6, CHR 0x97, CHR 0xB6, CHR 0xE9, CHR 0x97, CHR 0xB4] @
     ''(s),'' @
     [CHR 0xE5, CHR 0x8D, CHR 0xAB, CHR 0xE6, CHR 0x98, CHR 0x9F, CHR 0xE9, CHR 0x92, CHR 0x9F, CHR 0xE5, CHR 0x8F, CHR 0x82, CHR 0xE8, CHR 0x80, CHR 0x83, CHR 0xE6, CHR 0x97, CHR 0xB6, CHR 0xE5, CHR 0x88, CHR 0xBB] @
     ''(s),'' @
     [CHR 0xE5, CHR 0x8D, CHR 0xAB, CHR 0xE6, CHR 0x98, CHR 0x9F, CHR 0xE9, CHR 0x92, CHR 0x9F, CHR 0xE9, CHR 0x92, CHR 0x9F, CHR 0xE5, CHR 0xB7, CHR 0xAE, CHR 0xE6, CHR 0x94, CHR 0xB9, CHR 0xE6, CHR 0xAD, CHR 0xA3, CHR 0xE5, CHR 0x8F, CHR 0x82, CHR 0xE6, CHR 0x95, CHR 0xB0] @
     ''(s),'' @
     [CHR 0xE5, CHR 0x8D, CHR 0xAB, CHR 0xE6, CHR 0x98, CHR 0x9F, CHR 0xE9, CHR 0x92, CHR 0x9F, CHR 0xE9, CHR 0x92, CHR 0x9F, CHR 0xE9, CHR 0x80, CHR 0x9F, CHR 0xE6, CHR 0x94, CHR 0xB9, CHR 0xE6, CHR 0xAD, CHR 0xA3, CHR 0xE5, CHR 0x8F, CHR 0x82, CHR 0xE6, CHR 0x95, CHR 0xB0] @
     ''(s/s),'' @
     [CHR 0xE5, CHR 0x8D, CHR 0xAB, CHR 0xE6, CHR 0x98, CHR 0x9F, CHR 0xE9, CHR 0x92, CHR 0x9F, CHR 0xE9, CHR 0x92, CHR 0x9F, CHR 0xE6, CHR 0xBC, CHR 0x82, CHR 0xE6, CHR 0x94, CHR 0xB9, CHR 0xE6, CHR 0xAD, CHR 0xA3, CHR 0xE5, CHR 0x8F, CHR 0x82, CHR 0xE6, CHR 0x95, CHR 0xB0] @
     ''(s/s^2),'' @
     [CHR 0xE5, CHR 0x8D, CHR 0xAB, CHR 0xE6, CHR 0x98, CHR 0x9F, CHR 0xE6, CHR 0x98, CHR 0x9F, CHR 0xE5, CHR 0x8E, CHR 0x86, CHR 0xE6, CHR 0x95, CHR 0xB0, CHR 0xE6, CHR 0x8D, CHR 0xAE, CHR 0xE6, CHR 0x9C, CHR 0x9F, CHR 0xE5, CHR 0x8F, CHR 0xB7] @
     '','' @
     [CHR 0xE5, CHR 0x8D, CHR 0xAB, CHR 0xE6, CHR 0x98, CHR 0x9F, CHR 0xE9, CHR 0x92, CHR 0x9F, CHR 0xE5, CHR 0x8F, CHR 0x82, CHR 0xE6, CHR 0x95, CHR 0xB0, CHR 0xE6, CHR 0x9C, CHR 0x9F, CHR 0xE5, CHR 0x8D, CHR 0xB7, CHR 0xE5, CHR 0x8F, CHR 0xB7] @
     '','' @
     [CHR 0xE5, CHR 0x8D, CHR 0xAB, CHR 0xE6, CHR 0x98, CHR 0x9F, CHR 0xE8, CHR 0xBD, CHR 0xA8, CHR 0xE9, CHR 0x81, CHR 0x93, CHR 0xE5, CHR 0x80, CHR 0xBE, CHR 0xE8, CHR 0xA7, CHR 0x92, CHR 0xE5, CHR 0x8F, CHR 0x98, CHR 0xE5, CHR 0x8C, CHR 0x96, CHR 0xE7, CHR 0x8E, CHR 0x87] @
     ''('' @ [CHR 0xCF, CHR 0x80] @ ''/s),'' @
     [CHR 0xE5, CHR 0x8D, CHR 0xAB, CHR 0xE6, CHR 0x98, CHR 0x9F, CHR 0xE8, CHR 0xBD, CHR 0xA8, CHR 0xE9, CHR 0x81, CHR 0x93, CHR 0xE5, CHR 0x8D, CHR 0x8A, CHR 0xE5, CHR 0xBE, CHR 0x84, CHR 0xE6, CHR 0xAD, CHR 0xA3, CHR 0xE5, CHR 0xBC, CHR 0xA6, CHR 0xE8, CHR 0xB0, CHR 0x83, CHR 0xE5, CHR 0x92, CHR 0x8C, CHR 0xE6, CHR 0x94, CHR 0xB9, CHR 0xE6, CHR 0xAD, CHR 0xA3, CHR 0xE9, CHR 0xA1, CHR 0xB9, CHR 0xE7, CHR 0x9A, CHR 0x84, CHR 0xE6, CHR 0x8C, CHR 0xAF, CHR 0xE5, CHR 0xB9, CHR 0x85] @
     ''(m),'' @
     [CHR 0xE5, CHR 0x8D, CHR 0xAB, CHR 0xE6, CHR 0x98, CHR 0x9F, CHR 0xE8, CHR 0xBD, CHR 0xA8, CHR 0xE9, CHR 0x81, CHR 0x93, CHR 0xE5, CHR 0x8D, CHR 0x8A, CHR 0xE5, CHR 0xBE, CHR 0x84, CHR 0xE4, CHR 0xBD, CHR 0x99, CHR 0xE5, CHR 0xBC, CHR 0xA6, CHR 0xE8, CHR 0xB0, CHR 0x83, CHR 0xE5, CHR 0x92, CHR 0x8C, CHR 0xE6, CHR 0x94, CHR 0xB9, CHR 0xE6, CHR 0xAD, CHR 0xA3, CHR 0xE9, CHR 0xA1, CHR 0xB9, CHR 0xE7, CHR 0x9A, CHR 0x84, CHR 0xE6, CHR 0x8C, CHR 0xAF, CHR 0xE5, CHR 0xB9, CHR 0x85] @
     ''(m),'' @
     [CHR 0xE5, CHR 0x8D, CHR 0xAB, CHR 0xE6, CHR 0x98, CHR 0x9F, CHR 0xE7, CHR 0xBA, CHR 0xAC, CHR 0xE5, CHR 0xBA, CHR 0xA6, CHR 0xE5, CHR 0xB9, CHR 0x85, CHR 0xE8, CHR 0xA7, CHR 0x92, CHR 0xE6, CHR 0xAD, CHR 0xA3, CHR 0xE5, CHR 0xBC, CHR 0xA6, CHR 0xE8, CHR 0xB0, CHR 0x83, CHR 0xE5, CHR 0x92, CHR 0x8C, CHR 0xE6, CHR 0x94, CHR 0xB9, CHR 0xE6, CHR 0xAD, CHR 0xA3, CHR 0xE9, CHR 0xA1, CHR 0xB9, CHR 0xE7, CHR 0x9A, CHR 0x84, CHR 0xE6, CHR 0x8C, CHR 0xAF, CHR 0xE5, CHR 0xB9, CHR 0x85] @
     ''(rad),'' @
     [CHR 0xE5, CHR 0x8D, CHR 0xAB, CHR 0xE6, CHR 0x98, CHR 0x9F, CHR 0xE7, CHR 0xBA, CHR 0xAC, CHR 0xE5, CHR 0xBA, CHR 0xA6, CHR 0xE5, CHR 0xB9, CHR 0x85, CHR 0xE8, CHR 0xA7, CHR 0x92, CHR 0xE4, CHR 0xBD, CHR 0x99, CHR 0xE5, CHR 0xBC, CHR 0xA6, CHR 0xE8, CHR 0xB0, CHR 0x83, CHR 0xE5, CHR 0x92, CHR 0x8C, CHR 0xE6, CHR 0x94, CHR 0xB9, CHR 0xE6, CHR 0xAD, CHR 0xA3, CHR 0xE9, CHR 0xA1, CHR 0xB9, CHR 0xE7, CHR 0x9A, CHR 0x84, CHR 0xE6, CHR 0x8C, CHR 0xAF, CHR 0xE5, CHR 0xB9, CHR 0x85] @
     ''(rad),'' @
     [CHR 0xE5, CHR 0x8D, CHR 0xAB, CHR 0xE6, CHR 0x98, CHR 0x9F, CHR 0xE8, CHR 0xBD, CHR 0xA8, CHR 0xE9, CHR 0x81, CHR 0x93, CHR 0xE5, CHR 0x80, CHR 0xBE, CHR 0xE8, CHR 0xA7, CHR 0x92, CHR 0xE6, CHR 0xAD, CHR 0xA3, CHR 0xE5, CHR 0xBC, CHR 0xA6, CHR 0xE8, CHR 0xB0, CHR 0x83, CHR 0xE5, CHR 0x92, CHR 0x8C, CHR 0xE6, CHR 0x94, CHR 0xB9, CHR 0xE6, CHR 0xAD, CHR 0xA3, CHR 0xE9, CHR 0xA1, CHR 0xB9, CHR 0xE7, CHR 0x9A, CHR 0x84, CHR 0xE6, CHR 0x8C, CHR 0xAF, CHR 0xE5, CHR 0xB9, CHR 0x85] @
     ''(rad),'' @
     [CHR 0xE5, CHR 0x8D, CHR 0xAB, CHR 0xE6, CHR 0x98, CHR 0x9F, CHR 0xE8, CHR 0xBD, CHR 0xA8, CHR 0xE9, CHR 0x81, CHR 0x93, CHR 0xE5, CHR 0x80, CHR 0xBE, CHR 0xE8, CHR 0xA7, CHR 0x92, CHR 0xE4, CHR 0xBD, CHR 0x99, CHR 0xE5, CHR 0xBC, CHR 0xA6, CHR 0xE8, CHR 0xB0, CHR 0x83, CHR 0xE5, CHR 0x92, CHR 0x8C, CHR 0xE6, CHR 0x94, CHR 0xB9, CHR 0xE6, CHR 0xAD, CHR 0xA3, CHR 0xE9, CHR 0xA1, CHR 0xB9, CHR 0xE7, CHR 0x9A, CHR 0x84, CHR 0xE6, CHR 0x8C, CHR 0xAF, CHR 0xE5, CHR 0xB9, CHR 0x85] @
     ''(rad),'' @
     [CHR 0xE5, CHR 0x8D, CHR 0xAB, CHR 0xE6, CHR 0x98, CHR 0x9F, CHR 0xE5, CHR 0xB9, CHR 0xB3, CHR 0xE5, CHR 0x9D, CHR 0x87, CHR 0xE8, CHR 0xBF, CHR 0x90, CHR 0xE5, CHR 0x8A, CHR 0xA8, CHR 0xE9, CHR 0x80, CHR 0x9F, CHR 0xE7, CHR 0x8E, CHR 0x87, CHR 0xE4, CHR 0xB8, CHR 0x8E, CHR 0xE8, CHR 0xAE, CHR 0xA1, CHR 0xE7, CHR 0xAE, CHR 0x97, CHR 0xE5, CHR 0x80, CHR 0xBC, CHR 0xE4, CHR 0xB9, CHR 0x8B, CHR 0xE5, CHR 0xB7, CHR 0xAE] @
     ''('' @ [CHR 0xCF, CHR 0x80] @ ''/s),'' @
     [CHR 0xE5, CHR 0x8D, CHR 0xAB, CHR 0xE6, CHR 0x98, CHR 0x9F, CHR 0xE5, CHR 0x8F, CHR 0x82, CHR 0xE8, CHR 0x80, CHR 0x83, CHR 0xE6, CHR 0x97, CHR 0xB6, CHR 0xE9, CHR 0x97, CHR 0xB4, CHR 0xE7, CHR 0x9A, CHR 0x84, CHR 0xE5, CHR 0xB9, CHR 0xB3, CHR 0xE8, CHR 0xBF, CHR 0x91, CHR 0xE7, CHR 0x82, CHR 0xB9, CHR 0xE8, CHR 0xA7, CHR 0x92] @
     ''('' @ [CHR 0xCF, CHR 0x80] @ ''),'' @
     [CHR 0xE5, CHR 0x8D, CHR 0xAB, CHR 0xE6, CHR 0x98, CHR 0x9F, CHR 0xE8, CHR 0xBD, CHR 0xA8, CHR 0xE9, CHR 0x81, CHR 0x93, CHR 0xE5, CHR 0x81, CHR 0x8F, CHR 0xE5, CHR 0xBF, CHR 0x83, CHR 0xE7, CHR 0x8E, CHR 0x87] @
     '','' @
     [CHR 0xE5, CHR 0x8D, CHR 0xAB, CHR 0xE6, CHR 0x98, CHR 0x9F, CHR 0xE8, CHR 0xBD, CHR 0xA8, CHR 0xE9, CHR 0x81, CHR 0x93, CHR 0xE9, CHR 0x95, CHR 0xBF, CHR 0xE5, CHR 0x8D, CHR 0x8A, CHR 0xE8, CHR 0xBD, CHR 0xB4, CHR 0xE7, CHR 0x9A, CHR 0x84, CHR 0xE5, CHR 0xB9, CHR 0xB3, CHR 0xE6, CHR 0x96, CHR 0xB9, CHR 0xE6, CHR 0xA0, CHR 0xB9] @
     ''(m^1/2),'' @
     [CHR 0xE5, CHR 0x8D, CHR 0xAB, CHR 0xE6, CHR 0x98, CHR 0x9F, CHR 0xE6, CHR 0x8C, CHR 0x89, CHR 0xE5, CHR 0x8F, CHR 0x82, CHR 0xE8, CHR 0x80, CHR 0x83, CHR 0xE6, CHR 0x97, CHR 0xB6, CHR 0xE9, CHR 0x97, CHR 0xB4, CHR 0xE8, CHR 0xAE, CHR 0xA1, CHR 0xE7, CHR 0xAE, CHR 0x97, CHR 0xE7, CHR 0x9A, CHR 0x84, CHR 0xE5, CHR 0x8D, CHR 0x87, CHR 0xE4, CHR 0xBA, CHR 0xA4, CHR 0xE7, CHR 0x82, CHR 0xB9, CHR 0xE8, CHR 0xB5, CHR 0xA4, CHR 0xE7, CHR 0xBB, CHR 0x8F] @
     ''('' @ [CHR 0xCF, CHR 0x80] @ ''),'' @
     [CHR 0xE5, CHR 0x8D, CHR 0xAB, CHR 0xE6, CHR 0x98, CHR 0x9F, CHR 0xE5, CHR 0x8F, CHR 0x82, CHR 0xE8, CHR 0x80, CHR 0x83, CHR 0xE6, CHR 0x97, CHR 0xB6, CHR 0xE9, CHR 0x97, CHR 0xB4, CHR 0xE7, CHR 0x9A, CHR 0x84, CHR 0xE8, CHR 0xBD, CHR 0xA8, CHR 0xE9, CHR 0x81, CHR 0x93, CHR 0xE5, CHR 0x80, CHR 0xBE, CHR 0xE8, CHR 0xA7, CHR 0x92] @
     ''('' @ [CHR 0xCF, CHR 0x80] @ ''),'' @
     [CHR 0xE5, CHR 0x8D, CHR 0xAB, CHR 0xE6, CHR 0x98, CHR 0x9F, CHR 0xE8, CHR 0xBF, CHR 0x91, CHR 0xE5, CHR 0x9C, CHR 0xB0, CHR 0xE7, CHR 0x82, CHR 0xB9, CHR 0xE5, CHR 0xB9, CHR 0x85, CHR 0xE8, CHR 0xA7, CHR 0x92] @
     ''('' @ [CHR 0xCF, CHR 0x80] @ ''),'' @
     [CHR 0xE5, CHR 0x8D, CHR 0xAB, CHR 0xE6, CHR 0x98, CHR 0x9F, CHR 0xE5, CHR 0x8D, CHR 0x87, CHR 0xE4, CHR 0xBA, CHR 0xA4, CHR 0xE7, CHR 0x82, CHR 0xB9, CHR 0xE8, CHR 0xB5, CHR 0xA4, CHR 0xE7, CHR 0xBB, CHR 0x8F, CHR 0xE5, CHR 0x8F, CHR 0x98, CHR 0xE5, CHR 0x8C, CHR 0x96, CHR 0xE7, CHR 0x8E, CHR 0x87] @
     ''('' @ [CHR 0xCF, CHR 0x80] @ ''/s),'' @ [CHR 0xE5, CHR 0x8D, CHR 0xAB, CHR 0xE6, CHR 0x98, CHR 0x9F] @ ''L1'' @ [CHR 0xE5, CHR 0x92, CHR 0x8C] @
     ''L2'' @
     [CHR 0xE4, CHR 0xBF, CHR 0xA1, CHR 0xE5, CHR 0x8F, CHR 0xB7, CHR 0xE9, CHR 0xA2, CHR 0x91, CHR 0xE7, CHR 0x8E, CHR 0x87, CHR 0xE7, CHR 0x9A, CHR 0x84, CHR 0xE7, CHR 0xBE, CHR 0xA4, CHR 0xE5, CHR 0xBB, CHR 0xB6, CHR 0xE8, CHR 0xBF, CHR 0x9F, CHR 0xE5, CHR 0xB7, CHR 0xAE] @
     ''(s),L2'' @
     [CHR 0xE6, CHR 0xB5, CHR 0x8B, CHR 0xE8, CHR 0xB7, CHR 0x9D, CHR 0xE7, CHR 0xA0, CHR 0x81, CHR 0xE6, CHR 0xA0, CHR 0x87, CHR 0xE5, CHR 0xBF, CHR 0x97] @
     '',L2P'' @
     [CHR 0xE7, CHR 0xA0, CHR 0x81, CHR 0xE5, CHR 0xAF, CHR 0xBC, CHR 0xE8, CHR 0x88, CHR 0xAA, CHR 0xE7, CHR 0x94, CHR 0xB5, CHR 0xE6, CHR 0x96, CHR 0x87, CHR 0xE5, CHR 0x8F, CHR 0xAF, CHR 0xE7, CHR 0x94, CHR 0xA8, CHR 0xE7, CHR 0x8A, CHR 0xB6, CHR 0xE6, CHR 0x80, CHR 0x81] @
     '','' @
     [CHR 0xE6, CHR 0x9B, CHR 0xB2, CHR 0xE7, CHR 0xBA, CHR 0xBF, CHR 0xE6, CHR 0x8B, CHR 0x9F, CHR 0xE5, CHR 0x90, CHR 0x88, CHR 0xE6, CHR 0xA0, CHR 0x87, CHR 0xE5, CHR 0xBF, CHR 0x97] @
     [LF]"

definition gpsephb_file_header2 :: "file_world \<Rightarrow> file_world option" where
  "gpsephb_file_header2 w =
     (let path = file_path (eph_file (eph_gps (eph_cfg_of w)));
          (ok, w) = run_fopen w
      in if ok then Some (log_file [File_created path, File_text path gps_chinese_header] w) else None)"

text \<open>Here the header line of the BDS-3 file has as many columns as its rows have.\<close>

lemma test_header_columns:
  "columns bd3_test_header = 32" "columns cnav3_test_header = 30"
  by (simp_all add: columns_def bd3_test_header_def cnav3_test_header_def LF_def)

lemma test_header_rows:
  "columns (csv_row (bd3ephb_cells b3)) = columns bd3_test_header"
  "columns (csv_row (bd3cnav3ephb_cells c3)) = columns cnav3_test_header"
  by (simp_all only: row_columns test_header_columns)

end
