(* ===== verification/DebugText.thy ===== *)
theory DebugText
  imports Console
begin

text \<open>
  The debug messages of the two modems (\<open>dbb_thread.c\<close>, \<open>dbb_at_response.c\<close>, \<open>eth_4g.c\<close>): what a message,
  already formatted, puts on the standard output or error, and the console commands that switch it.
\<close>

definition ESC_CHAR :: char where "ESC_CHAR = CHR 0x1B"

definition dbb_debug_err :: "dbb_ctrl_t \<Rightarrow> string \<Rightarrow> string" where
  "dbb_debug_err c text =
     (if dbb_print_err c = DBB_PRINT_OFF then []
      else ESC_CHAR # ''[1;31m[DBB][ERROR] '' @ text @ [LF, ESC_CHAR] @ ''[0m'')"

definition dbb_debug_info :: "dbb_ctrl_t \<Rightarrow> string \<Rightarrow> string" where
  "dbb_debug_info c text = (if dbb_print_info c = DBB_PRINT_OFF then [] else ''[DBB][INFO] '' @ text @ [LF])"

definition dbb_dump_response :: "dbb_ctrl_t \<Rightarrow> string option \<Rightarrow> string" where
  "dbb_dump_response c response =
     (case response of None \<Rightarrow> [] | Some r \<Rightarrow>
        if r = [] then [] else dbb_debug_info c (ESC_CHAR # ''[34m'' @ r @ ESC_CHAR # ''[0m''))"

definition debug_err_4g :: "eth_4g_ctrl_t \<Rightarrow> string \<Rightarrow> string" where
  "debug_err_4g c text =
     (if eth_print_err c = ETH_4G_PRINT_OFF then []
      else ESC_CHAR # ''[1;31m[4G][ERROR] '' @ text @ [LF, ESC_CHAR] @ ''[0m'')"

definition debug_info_4g :: "eth_4g_ctrl_t \<Rightarrow> string \<Rightarrow> string" where
  "debug_info_4g c text = (if eth_print_info c = ETH_4G_PRINT_OFF then [] else ''[4G][INFO] '' @ text @ [LF])"

definition eth_4g_dump_response :: "eth_4g_ctrl_t \<Rightarrow> string option \<Rightarrow> string" where
  "eth_4g_dump_response c response =
     (case response of None \<Rightarrow> [] | Some r \<Rightarrow>
        if r = [] then [] else debug_info_4g c (ESC_CHAR # ''[34m'' @ r @ ESC_CHAR # ''[0m''))"

text \<open>The console decides about each kind of message, and only about that.\<close>

lemma dbb_print_switches:
  "dbb_debug_info (cdbb (dbb_print_cfg [Some ''info'', Some v] w)) text = [] \<longleftrightarrow> v \<noteq> ''on''"
  "dbb_debug_err (cdbb (dbb_print_cfg [Some ''err'', Some v] w)) text = [] \<longleftrightarrow> v \<noteq> ''on''"
  "dbb_debug_err (cdbb (dbb_print_cfg [Some ''info'', Some v] w)) = dbb_debug_err (cdbb w)"
  "dbb_debug_info (cdbb (dbb_print_cfg [Some ''err'', Some v] w)) = dbb_debug_info (cdbb w)"
  by (auto simp: fun_eq_iff dbb_print_cfg_def argn_def dbb_debug_info_def dbb_debug_err_def ctrl_set_print_def vty_out_def Let_def)

lemma eth_print_switches:
  "debug_info_4g (ceth (eth_4g_print_cfg [Some ''info'', Some v] w)) text = [] \<longleftrightarrow> v \<noteq> ''on''"
  "debug_err_4g (ceth (eth_4g_print_cfg [Some ''err'', Some v] w)) text = [] \<longleftrightarrow> v \<noteq> ''on''"
  "debug_err_4g (ceth (eth_4g_print_cfg [Some ''info'', Some v] w)) = debug_err_4g (ceth w)"
  "debug_info_4g (ceth (eth_4g_print_cfg [Some ''err'', Some v] w)) = debug_info_4g (ceth w)"
  by (auto simp: fun_eq_iff eth_4g_print_cfg_def argn_def debug_info_4g_def debug_err_4g_def vty_out_def Let_def)

end
