(* ===== verification/Getopt.thy ===== *)
theory Getopt
  imports Prelude
begin

text \<open>
  \<open>getopt_long\<close> of the GNU C library, as far as the program uses it: the short options are given by
  a string in which a colon marks an argument, the long options by a table, arguments that are
  not options are passed over, and the variable \<open>POSIXLY_CORRECT\<close> is not set. The calls of the loop
  become one list: the returned characters (a question mark for an error) with \<open>optarg\<close>.
\<close>

datatype has_arg = No_argument | Required_argument

type_synonym short_options = "(char \<times> has_arg) list"
type_synonym long_options = "(string \<times> has_arg \<times> char) list"
type_synonym opt_result = "char \<times> string option"

fun short_options :: "string \<Rightarrow> short_options" where
  "short_options [] = []"
| "short_options [c] = [(c, No_argument)]"
| "short_options (c # d # s) =
     (if d = CHR '':'' then (c, Required_argument) # short_options s else (c, No_argument) # short_options (d # s))"

text \<open>A long option is found by its name or by the beginning of only one name.\<close>

definition long_match :: "long_options \<Rightarrow> string \<Rightarrow> (has_arg \<times> char) option" where
  "long_match lo name =
     (case map_of lo name of
        Some p \<Rightarrow> Some p
      | None \<Rightarrow> (case filter (\<lambda>(n, _). prefix name n) lo of [(_, p)] \<Rightarrow> Some p | _ \<Rightarrow> None))"

text \<open>\<open>--name\<close> or \<open>--name=value\<close>: the name, and the value if there is one.\<close>

definition split_long :: "string \<Rightarrow> string \<times> string option" where
  "split_long s =
     (takeWhile (\<lambda>c. c \<noteq> CHR ''='') s,
      case dropWhile (\<lambda>c. c \<noteq> CHR ''='') s of [] \<Rightarrow> None | _ # v \<Rightarrow> Some v)"

definition opt_error :: opt_result where
  "opt_error = (CHR ''?'', None)"

text \<open>
  The first list is what is left of an argument with several short options in it (\<open>nextchar\<close>).
\<close>

function getopt_long :: "short_options \<Rightarrow> long_options \<Rightarrow> string \<Rightarrow> string list \<Rightarrow> opt_result list" where
  "getopt_long so lo (c # cs) args =
     (case map_of so c of
        None \<Rightarrow> opt_error # getopt_long so lo cs args
      | Some No_argument \<Rightarrow> (c, None) # getopt_long so lo cs args
      | Some Required_argument \<Rightarrow>
          if cs \<noteq> [] then (c, Some cs) # getopt_long so lo [] args
          else (case args of [] \<Rightarrow> [opt_error] | v # args' \<Rightarrow> (c, Some v) # getopt_long so lo [] args'))"
| "getopt_long so lo [] [] = []"
| "getopt_long so lo [] (a # args) =
     (if a = ''--'' then []
      else if prefix ''--'' a then
        (let (name, val) = split_long (drop 2 a)
         in case long_match lo name of
              None \<Rightarrow> opt_error # getopt_long so lo [] args
            | Some (No_argument, c) \<Rightarrow> (if val = None then (c, None) else opt_error) # getopt_long so lo [] args
            | Some (Required_argument, c) \<Rightarrow>
                (case val of
                   Some v \<Rightarrow> (c, Some v) # getopt_long so lo [] args
                 | None \<Rightarrow> (case args of [] \<Rightarrow> [opt_error] | v # args' \<Rightarrow> (c, Some v) # getopt_long so lo [] args')))
      else if prefix ''-'' a \<and> 1 < length a then getopt_long so lo (tl a) args
      else getopt_long so lo [] args)"
  by pat_completeness auto
termination
  by (relation "measure (\<lambda>(_, _, cs, args). length cs + sum_list (map (\<lambda>a. Suc (length a)) args))") auto

section \<open>Written options\<close>

text \<open>The four ways to write an option and its argument, and a positional argument.\<close>

datatype written =
    Short_apart char "string option"        \<comment> \<open>\<open>-c\<close> or \<open>-c value\<close>\<close>
  | Short_joined char string                \<comment> \<open>\<open>-cvalue\<close>\<close>
  | Long_apart string char "string option"  \<comment> \<open>\<open>--name\<close> or \<open>--name value\<close>\<close>
  | Long_joined string char string          \<comment> \<open>\<open>--name=value\<close>\<close>
  | Positional string

fun written_args :: "written \<Rightarrow> string list" where
  "written_args (Short_apart c v) = [CHR ''-'', c] # (case v of None \<Rightarrow> [] | Some v \<Rightarrow> [v])"
| "written_args (Short_joined c v) = [CHR ''-'' # c # v]"
| "written_args (Long_apart n c v) = (''--'' @ n) # (case v of None \<Rightarrow> [] | Some v \<Rightarrow> [v])"
| "written_args (Long_joined n c v) = [''--'' @ n @ ''='' @ v]"
| "written_args (Positional s) = [s]"

fun written_result :: "written \<Rightarrow> opt_result list" where
  "written_result (Short_apart c v) = [(c, v)]"
| "written_result (Short_joined c v) = [(c, Some v)]"
| "written_result (Long_apart n c v) = [(c, v)]"
| "written_result (Long_joined n c v) = [(c, Some v)]"
| "written_result (Positional s) = []"

definition arity :: "string option \<Rightarrow> has_arg" where
  "arity v = (if v = None then No_argument else Required_argument)"

fun written_ok :: "short_options \<Rightarrow> long_options \<Rightarrow> written \<Rightarrow> bool" where
  "written_ok so lo (Short_apart c v) \<longleftrightarrow> c \<noteq> CHR ''-'' \<and> map_of so c = Some (arity v)"
| "written_ok so lo (Short_joined c v) \<longleftrightarrow> c \<noteq> CHR ''-'' \<and> v \<noteq> [] \<and> map_of so c = Some Required_argument"
| "written_ok so lo (Long_apart n c v) \<longleftrightarrow> n \<noteq> [] \<and> CHR ''='' \<notin> set n \<and> map_of lo n = Some (arity v, c)"
| "written_ok so lo (Long_joined n c v) \<longleftrightarrow> n \<noteq> [] \<and> CHR ''='' \<notin> set n \<and> map_of lo n = Some (Required_argument, c)"
| "written_ok so lo (Positional s) \<longleftrightarrow> \<not> prefix ''-'' s \<or> s = ''-''"

lemma split_long_simps:
  assumes "CHR ''='' \<notin> set n"
  shows "split_long n = (n, None)" "split_long (n @ CHR ''='' # v) = (n, Some v)"
proof -
  have n: "c \<noteq> CHR ''=''" if "c \<in> set n" for c using assms that by auto
  have t: "takeWhile (\<lambda>c. c \<noteq> CHR ''='') n = n" "dropWhile (\<lambda>c. c \<noteq> CHR ''='') n = []"
    using n by (simp_all add: takeWhile_eq_all_conv)
  show "split_long n = (n, None)" unfolding split_long_def t by simp
  show "split_long (n @ CHR ''='' # v) = (n, Some v)"
    using n by (simp add: split_long_def takeWhile_append2 dropWhile_append2 t)
qed

lemma long_match_name: "map_of lo n = Some p \<Longrightarrow> long_match lo n = Some p"
  by (simp add: long_match_def)

lemma getopt_written:
  assumes "written_ok so lo w"
  shows "getopt_long so lo [] (written_args w @ args) = written_result w @ getopt_long so lo [] args"
proof (cases w)
  case (Short_apart c v)
  then show ?thesis using assms by (cases v) (auto simp: arity_def)
next
  case (Short_joined c v)
  then show ?thesis using assms by auto
next
  case (Long_apart n c v)
  then show ?thesis using assms split_long_simps(1) [of n] long_match_name [of lo n]
    by (cases v) (simp_all add: arity_def)
next
  case (Long_joined n c v)
  then show ?thesis using assms split_long_simps(2) [of n v] long_match_name [of lo n] by simp
next
  case (Positional s)
  then show ?thesis using assms by (cases s) (auto simp: prefix_def)
qed

lemma getopt_all_written:
  "list_all (written_ok so lo) ws \<Longrightarrow>
     getopt_long so lo [] (concat (map written_args ws)) = concat (map written_result ws)"
  by (induction ws) (simp_all add: getopt_written del: getopt_long.simps(3))

end
