(* ===== verification/Tty.thy ===== *)
theory Tty
  imports Console
begin

text \<open>
  How the console's commands are registered, \<open>core/console/tty.c\<close>: the nodes and commands that
  \<open>tty_init\<close> hands to the command interpreter, the configuration node of the program and what it
  writes into a configuration. \<open>cmd_element\<close> has one constructor per \<open>DEFUN\<close>; the interpreter
  matches an input with the command's syntax text and calls its function with the arguments.
\<close>

section \<open>Nodes and commands\<close>

text \<open>\<open>enum node_type\<close> of \<open>command.h\<close>.\<close>

datatype node_type =
    AUTH_NODE | RESTRICTED_NODE | VIEW_NODE | AUTH_ENABLE_NODE | ENABLE_NODE
  | CONFIG_NODE | VRF_NODE | SERVICE_NODE | DEBUG_NODE | AAA_NODE
  | KEYCHAIN_NODE | KEYCHAIN_KEY_NODE | INTERFACE_NODE | ZEBRA_NODE | TABLE_NODE
  | RIP_NODE | RIPNG_NODE | BABEL_NODE | BGP_NODE | BGP_VPNV4_NODE
  | BGP_VPNV6_NODE | BGP_IPV4_NODE | BGP_IPV4M_NODE | BGP_IPV6_NODE | BGP_IPV6M_NODE
  | BGP_ENCAP_NODE | BGP_ENCAPV6_NODE | OSPF_NODE | OSPF6_NODE | ISIS_NODE
  | PIM_NODE | MASC_NODE | IRDP_NODE | IP_NODE | ACCESS_NODE
  | PREFIX_NODE | ACCESS_IPV6_NODE | PREFIX_IPV6_NODE | AS_LIST_NODE | COMMUNITY_LIST_NODE
  | RMAP_NODE | SMUX_NODE | DUMP_NODE | FORWARDING_NODE | PROTOCOL_NODE
  | VTY_NODE | LINK_PARAMS_NODE | ZEBRA_IF_DEFAULTS_NODE

definition RADIO_NODE :: node_type where "RADIO_NODE = RIP_NODE"

definition GNSS_TYPE :: string where
  "GNSS_TYPE =
     ''bdxwephb|gpsephb|bd2ephb|bd3ephb|bd3cnav2ephb|bd3cnav3ephb|gloephb|galephb|prangeb|posdatab''
     @ ''|rmc|gga|gll|gsa|gst|gsv|vtg|zda''"

datatype cmd_element =
    Gnss_parse_data_type_cfg_cmd | Gnss_datatype_onchange_cfg_cmd | Gnss_datatype_cfg_cmd
  | Gnss_datatype_off_cfg_cmd | Show_gnss_data_out_cmd | Gnss_sys_cfg_cmd
  | Show_gnss_sys_cfg_cmd | Gnss_mode_cfg_cmd | Gnss_calc_type_cfg_cmd
  | Gnss_file_nmea_cfg_cmd | Gnss_file_cfg_ephb_cmd | Gnss_print_cfg_cmd
  | Dbb_print_cfg_cmd | Eth_4g_print_cfg_cmd | Gnss_freset_cmd
  | Gnss_cfgSave_cmd | Test_opt_cmd | Gnss_net_up_cfg_cmd
  | Config_radio_cmd

text \<open>The commands as a finite type, so that statements on all of them are computed.\<close>

instantiation cmd_element :: enum
begin

definition enum_cmd_element :: "cmd_element list" where
  "enum_cmd_element =
     [Gnss_parse_data_type_cfg_cmd, Gnss_datatype_onchange_cfg_cmd, Gnss_datatype_cfg_cmd,
      Gnss_datatype_off_cfg_cmd, Show_gnss_data_out_cmd, Gnss_sys_cfg_cmd,
      Show_gnss_sys_cfg_cmd, Gnss_mode_cfg_cmd, Gnss_calc_type_cfg_cmd,
      Gnss_file_nmea_cfg_cmd, Gnss_file_cfg_ephb_cmd, Gnss_print_cfg_cmd,
      Dbb_print_cfg_cmd, Eth_4g_print_cfg_cmd, Gnss_freset_cmd,
      Gnss_cfgSave_cmd, Test_opt_cmd, Gnss_net_up_cfg_cmd,
      Config_radio_cmd]"

definition enum_all_cmd_element :: "(cmd_element \<Rightarrow> bool) \<Rightarrow> bool" where
  "enum_all_cmd_element P \<longleftrightarrow> list_all P Enum.enum"

definition enum_ex_cmd_element :: "(cmd_element \<Rightarrow> bool) \<Rightarrow> bool" where
  "enum_ex_cmd_element P \<longleftrightarrow> list_ex P Enum.enum"

instance
proof
  show u: "UNIV = set (Enum.enum :: cmd_element list)"
  proof (rule UNIV_eq_I)
    show "x \<in> set Enum.enum" for x :: cmd_element by (cases x) (simp_all add: enum_cmd_element_def)
  qed
  show "distinct (Enum.enum :: cmd_element list)" by (simp add: enum_cmd_element_def)
  show "Enum.enum_all P \<longleftrightarrow> Ball UNIV P" for P :: "cmd_element \<Rightarrow> bool"
    unfolding enum_all_cmd_element_def u list_all_iff ..
  show "Enum.enum_ex P \<longleftrightarrow> Bex UNIV P" for P :: "cmd_element \<Rightarrow> bool"
    unfolding enum_ex_cmd_element_def u list_ex_iff ..
qed

end

text \<open>The syntax texts.\<close>

fun cmd_string :: "cmd_element \<Rightarrow> string" where
  "cmd_string Gnss_parse_data_type_cfg_cmd = ''gnss data type (auto|nmea|ephb)''"
| "cmd_string Gnss_datatype_onchange_cfg_cmd = ''gnss data ('' @ GNSS_TYPE @ '') onchange''"
| "cmd_string Gnss_datatype_cfg_cmd = ''gnss data ('' @ GNSS_TYPE @ '') on <1-10>''"
| "cmd_string Gnss_datatype_off_cfg_cmd = ''gnss data ('' @ GNSS_TYPE @ ''|all) off''"
| "cmd_string Show_gnss_data_out_cmd = ''show gnss data out''"
| "cmd_string Gnss_sys_cfg_cmd = ''gnss sys (on|off) {all|bds|gsp|glo|gal}''"
| "cmd_string Show_gnss_sys_cfg_cmd = ''show gnss sys''"
| "cmd_string Gnss_mode_cfg_cmd = ''gnss mode (base|rover) (rtd|rtk|ppp|dppp|fppp) (1|2|10|13)''"
| "cmd_string Gnss_calc_type_cfg_cmd = ''gnss calc (rtd|rtk|ppp|dppp|fppp|bds_ppp|bds_rtk|bds_rtd)''"
| "cmd_string Gnss_file_nmea_cfg_cmd = ''gnss file (nmea|nmea_ex) (gbs|gga|gll|gsa|gst|gsv|rmc|vtg|zda) (on|off)''"
| "cmd_string Gnss_file_cfg_ephb_cmd = ''gnss file ephb (bdxw|gps|bd2|bd3|bd3cnav2|bd3cnav3|glo|gal) (on|off)''"
| "cmd_string Gnss_print_cfg_cmd = ''gnss print (nmea|nmea_ex|ephb) (summary|full|none)''"
| "cmd_string Dbb_print_cfg_cmd = ''dbb print (info|err) (on|off)''"
| "cmd_string Eth_4g_print_cfg_cmd = ''eth_4g print (info|err) (on|off)''"
| "cmd_string Gnss_freset_cmd = ''gnss reset''"
| "cmd_string Gnss_cfgSave_cmd = ''gnss save cfg''"
| "cmd_string Test_opt_cmd = ''test {opt1 <1-9>|opt2 (on|off)| opt3 | opt4 [IFNAME]}''"
| "cmd_string Gnss_net_up_cfg_cmd = ''gnss net up (bdxwephb|gpsephb|bd2ephb|bd3ephb|bd3cnav2ephb|bd3cnav3ephb|gloephb|galephb) (on|off)''"
| "cmd_string Config_radio_cmd = ''configure radio''"

record cmd_node =
  cn_node :: node_type
  cn_prompt :: string
  cn_vtysh :: int

definition vty_node :: cmd_node where
  "vty_node = \<lparr>cn_node = RIP_NODE, cn_prompt = ''%s(config-radio)# '', cn_vtysh = 1\<rparr>"

text \<open>The nodes and the commands that are installed, and whether \<open>vty_cfg\<close> is allocated (with its \<open>sock\<close>).\<close>

record tty_ctx =
  tty_nodes :: "cmd_node list"
  tty_table :: "(node_type \<times> cmd_element) list"
  vty_cfg :: "int option"

definition tty_start :: tty_ctx where
  "tty_start = \<lparr>tty_nodes = [], tty_table = [], vty_cfg = None\<rparr>"

definition install_element :: "node_type \<times> cmd_element \<Rightarrow> tty_ctx \<Rightarrow> tty_ctx" where
  "install_element e t = t\<lparr>tty_table := tty_table t @ [e]\<rparr>"

definition tty_init :: "tty_ctx \<Rightarrow> tty_ctx" where
  "tty_init t = fold install_element
     [(CONFIG_NODE, Config_radio_cmd), (ENABLE_NODE, Gnss_datatype_off_cfg_cmd),
      (RADIO_NODE, Gnss_datatype_off_cfg_cmd), (ENABLE_NODE, Gnss_datatype_cfg_cmd),
      (RADIO_NODE, Gnss_datatype_cfg_cmd), (ENABLE_NODE, Gnss_datatype_onchange_cfg_cmd),
      (RADIO_NODE, Gnss_datatype_onchange_cfg_cmd), (ENABLE_NODE, Show_gnss_data_out_cmd),
      (ENABLE_NODE, Gnss_parse_data_type_cfg_cmd), (RADIO_NODE, Gnss_parse_data_type_cfg_cmd),
      (ENABLE_NODE, Gnss_mode_cfg_cmd), (RADIO_NODE, Gnss_mode_cfg_cmd),
      (ENABLE_NODE, Gnss_calc_type_cfg_cmd), (RADIO_NODE, Gnss_calc_type_cfg_cmd),
      (ENABLE_NODE, Gnss_file_nmea_cfg_cmd), (RADIO_NODE, Gnss_file_nmea_cfg_cmd),
      (ENABLE_NODE, Gnss_file_cfg_ephb_cmd), (RADIO_NODE, Gnss_file_cfg_ephb_cmd),
      (ENABLE_NODE, Gnss_print_cfg_cmd), (RADIO_NODE, Gnss_print_cfg_cmd),
      (ENABLE_NODE, Gnss_net_up_cfg_cmd), (RADIO_NODE, Gnss_net_up_cfg_cmd),
      (ENABLE_NODE, Gnss_sys_cfg_cmd), (RADIO_NODE, Gnss_sys_cfg_cmd),
      (ENABLE_NODE, Show_gnss_sys_cfg_cmd), (ENABLE_NODE, Gnss_freset_cmd),
      (ENABLE_NODE, Gnss_cfgSave_cmd), (ENABLE_NODE, Dbb_print_cfg_cmd),
      (RADIO_NODE, Dbb_print_cfg_cmd), (ENABLE_NODE, Eth_4g_print_cfg_cmd),
      (RADIO_NODE, Eth_4g_print_cfg_cmd), (ENABLE_NODE, Test_opt_cmd)]
     (t\<lparr>tty_nodes := tty_nodes t @ [vty_node]\<rparr>)"

section \<open>The configuration node\<close>

text \<open>A session of the console: its node and its index, the program's configuration block.\<close>

record vty_session =
  vs_node :: node_type
  vs_index :: "int option"

definition config_radio :: "vty_session \<times> tty_ctx \<Rightarrow> vty_session \<times> tty_ctx" where
  "config_radio s =
     (let (v, t) = s;
          t = (if vty_cfg t = None then t\<lparr>vty_cfg := Some 0\<rparr> else t)
      in (v\<lparr>vs_node := RADIO_NODE, vs_index := vty_cfg t\<rparr>, t))"

definition config_write_vty :: "tty_ctx \<Rightarrow> int \<times> string list" where
  "config_write_vty t = (if vty_cfg t \<noteq> None then (1, [''configure radio'']) else (0, []))"

section \<open>Running a command\<close>

definition test_opt :: "string option list \<Rightarrow> con_world \<Rightarrow> con_world" where
  "test_opt argv w = w"

fun cmd_func :: "string \<Rightarrow> cmd_element \<Rightarrow> string option list \<Rightarrow> con_world \<Rightarrow> con_world" where
  "cmd_func tstr Gnss_parse_data_type_cfg_cmd argv w = gnss_parse_data_type_cfg argv w"
| "cmd_func tstr Gnss_datatype_onchange_cfg_cmd argv w = gnss_datatype_onchange_cfg argv w"
| "cmd_func tstr Gnss_datatype_cfg_cmd argv w = gnss_datatype_cfg argv w"
| "cmd_func tstr Gnss_datatype_off_cfg_cmd argv w = gnss_datatype_off_cfg argv w"
| "cmd_func tstr Show_gnss_data_out_cmd argv w = show_gnss_data_out argv w"
| "cmd_func tstr Gnss_sys_cfg_cmd argv w = gnss_sys_cfg argv w"
| "cmd_func tstr Show_gnss_sys_cfg_cmd argv w = show_gnss_sys_cfg argv w"
| "cmd_func tstr Gnss_mode_cfg_cmd argv w = gnss_mode_cfg argv w"
| "cmd_func tstr Gnss_calc_type_cfg_cmd argv w = gnss_calc_type_cfg argv w"
| "cmd_func tstr Gnss_file_nmea_cfg_cmd argv w = gnss_file_nmea_cfg tstr argv w"
| "cmd_func tstr Gnss_file_cfg_ephb_cmd argv w = gnss_file_ephb_cfg tstr argv w"
| "cmd_func tstr Gnss_print_cfg_cmd argv w = gnss_print_cfg argv w"
| "cmd_func tstr Dbb_print_cfg_cmd argv w = dbb_print_cfg argv w"
| "cmd_func tstr Eth_4g_print_cfg_cmd argv w = eth_4g_print_cfg argv w"
| "cmd_func tstr Gnss_freset_cmd argv w = gnss_freset argv w"
| "cmd_func tstr Gnss_cfgSave_cmd argv w = gnss_cfgSave argv w"
| "cmd_func tstr Test_opt_cmd argv w = test_opt argv w"
| "cmd_func tstr Gnss_net_up_cfg_cmd argv w = gnss_net_up_cfg argv w"
| "cmd_func tstr Config_radio_cmd argv w = w"

text \<open>
  A command in a session: it must be installed in the session's node. \<open>configure radio\<close> acts on the
  session and the table, every other command on the settings.
\<close>

definition run_command ::
    "string \<Rightarrow> cmd_element \<Rightarrow> string option list \<Rightarrow> vty_session \<times> tty_ctx \<times> con_world
     \<Rightarrow> (vty_session \<times> tty_ctx \<times> con_world) option" where
  "run_command tstr e argv s =
     (let (v, t, w) = s
      in if (vs_node v, e) \<notin> set (tty_table t) then None
         else if e = Config_radio_cmd then (let (v, t) = config_radio (v, t) in Some (v, t, w))
         else Some (v, t, cmd_func tstr e argv w))"

section \<open>Syntax and functions\<close>

text \<open>The alternatives of the first group of a syntax text.\<close>

fun split_bar :: "string \<Rightarrow> string list" where
  "split_bar [] = [[]]"
| "split_bar (c # s) =
     (if c = CHR ''|'' then [] # split_bar s else case split_bar s of [] \<Rightarrow> [[c]] | x # xs \<Rightarrow> (c # x) # xs)"

definition alternatives :: "cmd_element \<Rightarrow> string list" where
  "alternatives e =
     split_bar (takeWhile (\<lambda>c. c \<noteq> CHR '')'') (tl (dropWhile (\<lambda>c. c \<noteq> CHR ''('') (cmd_string e))))"

text \<open>
  The syntax of the uplink command offers the names that its function knows; the syntax of the ephemeris
  file command offers only names that its function does not know.
\<close>

lemma net_up_syntax: "list_all (\<lambda>s. net_up_type s \<noteq> None) (alternatives Gnss_net_up_cfg_cmd)"
  by code_simp

lemma ephb_file_syntax: "alternatives Gnss_file_cfg_ephb_cmd = ephb_file_args"
  by code_simp

lemma ephb_file_syntax_unknown: "s \<in> set (alternatives Gnss_file_cfg_ephb_cmd) \<Longrightarrow> ephb_branch s = None"
  by (simp add: ephb_file_syntax ephb_file_no_branch)

section \<open>The table\<close>

lemma fold_install: "fold install_element es t = t\<lparr>tty_table := tty_table t @ es\<rparr>"
  by (induction es arbitrary: t) (simp_all add: install_element_def)

lemma tty_table_facts:
  "distinct (tty_table (tty_init tty_start))"
  "\<forall>e. (ENABLE_NODE, e) \<in> set (tty_table (tty_init tty_start)) \<longleftrightarrow> e \<noteq> Config_radio_cmd"
  "\<forall>e. (CONFIG_NODE, e) \<in> set (tty_table (tty_init tty_start)) \<longleftrightarrow> e = Config_radio_cmd"
  "\<forall>e. (RADIO_NODE, e) \<in> set (tty_table (tty_init tty_start)) \<longleftrightarrow>
     e \<notin> {Config_radio_cmd, Show_gnss_data_out_cmd, Show_gnss_sys_cfg_cmd, Gnss_freset_cmd, Gnss_cfgSave_cmd, Test_opt_cmd}"
  by code_simp+

text \<open>
  What a configuration file gets to see of the program's settings: nothing. The settings that the commands
  change are not written, whatever was run.
\<close>

lemma run_command_table:
  "run_command tstr e argv (v, t, w) = Some (v', t', w') \<Longrightarrow>
     tty_table t' = tty_table t \<and> (if e = Config_radio_cmd then w' = w \<and> vty_cfg t' \<noteq> None \<and> vs_node v' = RADIO_NODE
       else t' = t \<and> v' = v)"
  by (auto simp: run_command_def config_radio_def Let_def split: if_splits)

lemma written_config:
  assumes "run_command tstr e argv (v, t, w) = Some (v', t', w')"
  shows "config_write_vty t' = (if e = Config_radio_cmd then (1, [''configure radio'']) else config_write_vty t)"
  using run_command_table [OF assms] by (auto simp: config_write_vty_def split: if_splits)

end
