(* ===== verification/Cli.thy ===== *)
theory Cli
  imports Getopt Tty
begin

text \<open>
  The start of the console, \<open>core/console/cli.c\<close>: the command line, the configuration file, the
  initialisation of the command interpreter and the signal handlers. The interpreter is a library;
  its calls are events of a log, with their arguments. What the system answers is a record.
\<close>

section \<open>Constants\<close>

definition default_config_template :: string where
  "default_config_template = concat (map (\<lambda>l. l @ [LF])
     [''!'', ''! Zebra configuration saved from vty'', ''!   2025/11/25 14:15:32'', ''!'', ''hostname Zebra'',
      ''password root'', ''enable password root'', ''log stdout'', ''log syslog'', ''log record-priority'',
      ''log timestamp precision 3'', ''!'', ''configure radio'', '' '', ''!'', ''line vty'', '' exec-timeout 0 0'', ''!''])"

definition CLI_DEFAULT_CONFIG :: string where "CLI_DEFAULT_CONFIG = ''/root/config.conf''"
definition CLI_DEFAULT_PID :: string where "CLI_DEFAULT_PID = ''/var/run/zebra_vty.pid''"
definition CLI_VTYSH_PATH :: string where "CLI_VTYSH_PATH = ''/var/run/quagga/cli_vty''"
definition VTY_PORT :: int where "VTY_PORT = 2612"

definition longopts :: long_options where
  "longopts =
     [(''daemon'', No_argument, CHR ''d''), (''config_file'', Required_argument, CHR ''f''),
      (''pid_file'', Required_argument, CHR ''i''), (''socket'', Required_argument, CHR ''z''),
      (''help'', No_argument, CHR ''h''), (''dryrun'', No_argument, CHR ''C''),
      (''vty_addr'', Required_argument, CHR ''A''), (''vty_port'', Required_argument, CHR ''P''),
      (''retain'', No_argument, CHR ''r''), (''user'', Required_argument, CHR ''u''),
      (''group'', Required_argument, CHR ''g''), (''version'', No_argument, CHR ''v'')]"

definition OPTSTRING :: string where "OPTSTRING = ''df:i:z:hA:P:u:g:rvC''"

section \<open>State\<close>

datatype zlog_level = Log_err | Log_warn | Log_notice | Log_info

datatype cli_signal = SIGHUP | SIGUSR1 | SIGINT | SIGTERM | SIGSEGV | SIGABRT

datatype cli_handler = H_sighup | H_sigusr1 | H_sigint | H_segv

text \<open>Output, the files that are written, and the calls of libraries that act on something outside.\<close>

datatype cli_event =
    Stdout string
  | Stderr string
  | Zlog zlog_level string
  | Umask nat
  | Openzlog string
  | Print_version string
  | Fopen_write string
  | Thread_master_create
  | Zprivs_init "string option" "string option"
  | Signal_init "(cli_signal \<times> cli_handler) list"
  | Cmd_init int
  | Vty_init
  | Memory_init
  | Tty_init
  | Vty_read_config "string option" string
  | Daemon
  | Pid_output "string option"
  | Catch_signal cli_signal cli_handler
  | Vty_serv_sock string int string
  | Zlog_rotate
  | Thread_main

datatype cli_file = Regular string | Not_regular

record cli_ctx =
  default_config_name :: string
  config_default :: string
  config_file :: "string option"
  retain_mode :: bool
  vty_addr :: "string option"
  vty_port :: int
  vty_path :: "string option"
  pid_file :: "string option"
  privs_user :: "string option"
  privs_group :: "string option"
  generated_config_file :: string
  generated_config_file_ready :: bool
  thread_master :: bool
  cli_files :: "string \<Rightarrow> cli_file option"
  cli_tty :: tty_ctx
  cli_log :: "cli_event list"

text \<open>What the system answers: the directory, whether a file can be written, and three calls.\<close>

record cli_env =
  env_cwd :: "string option"
  env_writable :: "string \<Rightarrow> bool"
  env_master :: bool
  env_daemon :: bool
  env_strerror :: string

definition cli_start :: "(string \<Rightarrow> cli_file option) \<Rightarrow> cli_ctx" where
  "cli_start files =
     \<lparr>default_config_name = CLI_DEFAULT_CONFIG, config_default = CLI_DEFAULT_CONFIG, config_file = None,
      retain_mode = False, vty_addr = None, vty_port = VTY_PORT, vty_path = Some CLI_VTYSH_PATH,
      pid_file = Some CLI_DEFAULT_PID, privs_user = None, privs_group = None,
      generated_config_file = [], generated_config_file_ready = False, thread_master = False,
      cli_files = files, cli_tty = tty_start, cli_log = []\<rparr>"

definition cli_do :: "cli_event \<Rightarrow> cli_ctx \<Rightarrow> cli_ctx" where
  "cli_do e c = c\<lparr>cli_log := cli_log c @ [e]\<rparr>"

section \<open>Helper functions\<close>

definition USAGE_TEXT :: string where
  "USAGE_TEXT =
     ''Usage :  [OPTION...]'' @ [LF, CHR 0x09] @ ''Daemon which manages user_cli.'' @ [LF, LF]
     @ concat (map (\<lambda>l. [CHR 0x09, CHR 0x09] @ l @ [LF])
       [''-d, --daemon       Runs in daemon mode'',
        ''-f, --config_file  Set configuration file name'',
        ''-i, --pid_file     Set process identifier file name'',
        ''-z, --socket       Set unix socket path used by vtysh'',
        ''-C, --dryrun       Check configuration for validity and exit'',
        ''-r, --retain       When program terminates, retain added route by ripd.'',
        ''-A, --vty_addr     Set vty'' @ [CHR 0x27] @ ''s bind address'',
        ''-P, --vty_port     Set vty'' @ [CHR 0x27] @ ''s port number'',
        ''-u, --user         User to run as'',
        ''-g, --group        Group to run as'',
        ''-v, --version      Print program version'',
        ''-h, --help         Display this help and exit''])"

text \<open>\<open>usage\<close> prints and ends the process with its status.\<close>

definition usage :: "string \<Rightarrow> int \<Rightarrow> cli_ctx \<Rightarrow> cli_ctx" where
  "usage progname status c =
     (if status \<noteq> 0 then
        cli_do (Stderr (''Try '' @ [CHR 0x60] @ progname @ '' --help'' @ [CHR 0x27] @ '' for more information.'' @ [LF])) c
      else cli_do (Stdout USAGE_TEXT) c)"

definition cli_pre_init :: "string option \<Rightarrow> string option \<Rightarrow> int \<Rightarrow> cli_ctx \<Rightarrow> cli_ctx" where
  "cli_pre_init default_cfg default_pid default_vty_port c =
     (let c = (case default_cfg of None \<Rightarrow> c | Some s \<Rightarrow> if s = [] then c else c\<lparr>default_config_name := s\<rparr>)
      in c\<lparr>pid_file := default_pid, vty_port := default_vty_port\<rparr>)"

definition resolved_vty_addr :: "cli_ctx \<Rightarrow> string" where
  "resolved_vty_addr c = (case vty_addr c of None \<Rightarrow> ''0.0.0.0'' | Some a \<Rightarrow> if a = [] then ''0.0.0.0'' else a)"

definition resolved_vty_socket :: "cli_ctx \<Rightarrow> string" where
  "resolved_vty_socket c =
     (case vty_path c of None \<Rightarrow> CLI_VTYSH_PATH | Some p \<Rightarrow> if p = [] then CLI_VTYSH_PATH else p)"

definition cli_reload_config :: "cli_ctx \<Rightarrow> cli_ctx" where
  "cli_reload_config c = cli_do (Vty_read_config (config_file c) (config_default c)) c"

definition file_exists_and_regular :: "string \<Rightarrow> cli_ctx \<Rightarrow> bool" where
  "file_exists_and_regular path c \<longleftrightarrow> path \<noteq> [] \<and> (case cli_files c path of Some (Regular _) \<Rightarrow> True | _ \<Rightarrow> False)"

text \<open>\<open>strrchr (s, c)\<close>, one character further: what follows the last \<open>c\<close>.\<close>

definition after_last :: "char \<Rightarrow> string \<Rightarrow> string option" where
  "after_last c s = (if c \<in> set s then Some (rev (takeWhile (\<lambda>x. x \<noteq> c) (rev s))) else None)"

definition config_base_name :: "string \<Rightarrow> string" where
  "config_base_name s = (case after_last CHR ''/'' s of None \<Rightarrow> s | Some b \<Rightarrow> if b = [] then s else b)"

definition GENERATED_SIZE :: nat where "GENERATED_SIZE = 128"

text \<open>The first step of \<open>ensure_default_config_file\<close>: the path, resolved once. \<open>False\<close>: it returns \<open>-1\<close>.\<close>

definition resolve_generated :: "cli_env \<Rightarrow> cli_ctx \<Rightarrow> bool \<times> cli_ctx" where
  "resolve_generated env c =
     (if generated_config_file_ready c then (True, c)
      else case env_cwd env of
        None \<Rightarrow> (False, cli_do (Zlog Log_err (''failed to resolve current working directory: '' @ env_strerror env)) c)
      | Some cwd \<Rightarrow>
          (let path = cwd @ ''/'' @ config_base_name (default_config_name c);
               c = c\<lparr>generated_config_file := c_snprintf GENERATED_SIZE path\<rparr>
           in if length path \<ge> GENERATED_SIZE then (False, cli_do (Zlog Log_err ''default config path is too long'') c)
              else (True, c\<lparr>generated_config_file_ready := True\<rparr>)))"

text \<open>A file that is not regular takes the text and stays what it is.\<close>

definition write_config :: "string \<Rightarrow> cli_ctx \<Rightarrow> cli_ctx" where
  "write_config path c =
     (cli_do (Fopen_write path) c)\<lparr>cli_files :=
        (if cli_files c path = None then (cli_files c)(path \<mapsto> Regular default_config_template) else cli_files c)\<rparr>"

definition ensure_default_config_file :: "cli_env \<Rightarrow> cli_ctx \<Rightarrow> int \<times> cli_ctx" where
  "ensure_default_config_file env c =
     (let (ok, c) = resolve_generated env c; path = generated_config_file c
      in if \<not> ok then (- 1, c)
         else if \<not> file_exists_and_regular path c \<and> \<not> env_writable env path then
           (- 1, cli_do (Zlog Log_err
              (''failed to create default config '' @ [CHR 0x27] @ path @ [CHR 0x27] @ '': '' @ env_strerror env)) c)
         else (0, (if file_exists_and_regular path c then c else write_config path c)\<lparr>config_default := path\<rparr>))"

definition start_vty_server :: "cli_ctx \<Rightarrow> cli_ctx" where
  "start_vty_server c =
     (let bind_addr = resolved_vty_addr c; socket_path = resolved_vty_socket c; q = [CHR 0x27]
      in cli_do (Vty_serv_sock bind_addr (vty_port c) socket_path)
           (cli_do (Zlog Log_info (''vty socket: bind='' @ q @ bind_addr @ q @ '' port='' @ show_int (vty_port c)
              @ '' unix='' @ q @ socket_path @ q)) c))"

section \<open>Signals\<close>

definition sighup :: "cli_ctx \<Rightarrow> cli_ctx" where
  "sighup c = start_vty_server (cli_reload_config
     (cli_do (Zlog Log_info ''vty restarting!'') (cli_do (Zlog Log_info ''SIGHUP received'') c)))"

definition sigint :: "cli_ctx \<Rightarrow> int \<times> cli_ctx" where
  "sigint c = (0, cli_do (Zlog Log_notice ''Terminating on signal'') c)"

definition sigusr1 :: "cli_ctx \<Rightarrow> cli_ctx" where
  "sigusr1 c = cli_do Zlog_rotate c"

text \<open>The frames that \<open>backtrace\<close> finds, with their symbols unless there is no memory for them.\<close>

definition out_stack :: "nat \<Rightarrow> string list option \<Rightarrow> string" where
  "out_stack depth symbols =
     (if depth = 0 then ''backtrace.'' @ [LF]
      else case symbols of
        None \<Rightarrow> ''backtrace symbols'' @ [LF]
      | Some strings \<Rightarrow> concat (map (\<lambda>s. s @ ''->'') (take (min depth 32) strings)))"

definition signal_segv_func :: "int \<Rightarrow> nat \<Rightarrow> string list option \<Rightarrow> cli_ctx \<Rightarrow> int \<times> cli_ctx" where
  "signal_segv_func sig_num depth symbols c =
     (- 1, cli_do (Stdout (out_stack depth symbols))
        (cli_do (Stdout (''Terminating on signal '' @ show_int sig_num @ ''.'' @ [LF])) c))"

definition ripd_signals :: "(cli_signal \<times> cli_handler) list" where
  "ripd_signals = [(SIGHUP, H_sighup), (SIGUSR1, H_sigusr1), (SIGINT, H_sigint), (SIGTERM, H_sigint)]"

section \<open>The command line\<close>

record cli_locals =
  daemon_mode :: bool
  dryrun :: bool
  requested_config :: "string option"

text \<open>The argument of \<open>-P\<close>: only the text 0 stands for no port.\<close>

definition port_option :: "string \<Rightarrow> int" where
  "port_option optarg =
     (if optarg = ''0'' then 0
      else let p = c_atoi optarg in if p \<le> 0 \<or> p > 0xffff then VTY_PORT else p)"

text \<open>One round of the \<open>switch\<close>; the first component is the status when the process ends here.\<close>

definition cli_option :: "string \<Rightarrow> opt_result \<Rightarrow> cli_locals \<times> cli_ctx \<Rightarrow> int option \<times> cli_locals \<times> cli_ctx" where
  "cli_option progname r s =
     (let (opt, optarg) = r; (l, c) = s
      in if opt = CHR ''d'' then (None, l\<lparr>daemon_mode := True\<rparr>, c)
         else if opt = CHR ''f'' then (None, l\<lparr>requested_config := optarg\<rparr>, c)
         else if opt = CHR ''i'' then (None, l, c\<lparr>pid_file := optarg\<rparr>)
         else if opt = CHR ''z'' then (None, l, c\<lparr>vty_path := optarg\<rparr>)
         else if opt = CHR ''A'' then (None, l, c\<lparr>vty_addr := optarg\<rparr>)
         else if opt = CHR ''r'' then (None, l, c\<lparr>retain_mode := True\<rparr>)
         else if opt = CHR ''C'' then (None, l\<lparr>dryrun := True\<rparr>, c)
         else if opt = CHR ''u'' then (None, l, c\<lparr>privs_user := optarg\<rparr>)
         else if opt = CHR ''P'' then (None, l, c\<lparr>vty_port := port_option (the optarg)\<rparr>)
         else if opt = CHR ''g'' then (None, l, c\<lparr>privs_group := optarg\<rparr>)
         else if opt = CHR ''v'' then (Some 0, l, cli_do (Print_version progname) c)
         else if opt = CHR ''h'' then (Some 0, l, usage progname 0 c)
         else (Some 1, l, usage progname 1 c))"

fun cli_options :: "string \<Rightarrow> opt_result list \<Rightarrow> cli_locals \<times> cli_ctx \<Rightarrow> int option \<times> cli_locals \<times> cli_ctx" where
  "cli_options progname [] s = (None, s)"
| "cli_options progname (r # rs) s =
     (case cli_option progname r s of
        (Some status, s') \<Rightarrow> (Some status, s')
      | (None, s') \<Rightarrow> cli_options progname rs s')"

definition choose_config :: "string option \<Rightarrow> cli_ctx \<Rightarrow> cli_ctx" where
  "choose_config requested c =
     (case requested of
        None \<Rightarrow> c\<lparr>config_file := Some (config_default c)\<rparr>
      | Some f \<Rightarrow>
          if file_exists_and_regular f c then c\<lparr>config_file := Some f\<rparr>
          else cli_do (Zlog Log_warn (''config file '' @ [CHR 0x27] @ f @ [CHR 0x27] @ '' is missing or invalid, using default ''
                 @ [CHR 0x27] @ config_default c @ [CHR 0x27])) (c\<lparr>config_file := Some (config_default c)\<rparr>))"

text \<open>From the program name to the chosen configuration: the part of \<open>cli_init\<close> that reads the command line.\<close>

definition cli_command_line :: "cli_env \<Rightarrow> string list \<Rightarrow> string \<Rightarrow> cli_ctx \<Rightarrow> int option \<times> cli_locals \<times> cli_ctx" where
  "cli_command_line env args progname c =
     (let (status, l, c) = cli_options progname (getopt_long (short_options OPTSTRING) longopts [] args)
            (\<lparr>daemon_mode = False, dryrun = False, requested_config = None\<rparr>, c)
      in case status of
           Some n \<Rightarrow> (Some n, l, c)
         | None \<Rightarrow> (None, l, choose_config (requested_config l) (snd (ensure_default_config_file env c))))"

text \<open>The initialisation of the library, \<open>tty_init\<close> with the program's own commands, and the configuration.\<close>

definition cli_library_init :: "cli_ctx \<Rightarrow> cli_ctx" where
  "cli_library_init c =
     (let c = fold cli_do
            [Zprivs_init (privs_user c) (privs_group c), Signal_init ripd_signals, Cmd_init 1, Vty_init, Memory_init, Tty_init] c
      in cli_reload_config (c\<lparr>cli_tty := tty_init (cli_tty c)\<rparr>))"

text \<open>The end of \<open>cli_init\<close>: the process goes to the background and opens the console's sockets.\<close>

datatype cli_result = Cli_return int | Cli_exit int | Cli_undefined

definition cli_serve :: "cli_env \<Rightarrow> cli_locals \<Rightarrow> cli_ctx \<Rightarrow> cli_result \<times> cli_ctx" where
  "cli_serve env l c =
     (if dryrun l then (Cli_return 0, c)
      else let c = (if daemon_mode l then cli_do Daemon c else c)
           in if daemon_mode l \<and> \<not> env_daemon env then
                (Cli_exit 1, cli_do (Zlog Log_err (''CLId daemon failed: '' @ env_strerror env)) c)
              else let c = fold cli_do [Pid_output (pid_file c), Catch_signal SIGSEGV H_segv, Catch_signal SIGABRT H_segv] c;
                       c = start_vty_server c
                   in (Cli_return 0, cli_do (Zlog Log_notice (''CLId starting: vty@'' @ show_int (vty_port c))) c))"

text \<open>Without a program name, \<open>strrchr\<close> gets a null pointer. The mask is 027, decimal 23.\<close>

definition cli_init :: "cli_env \<Rightarrow> string list \<Rightarrow> cli_ctx \<Rightarrow> cli_result \<times> cli_ctx" where
  "cli_init env argv c =
     (case argv of
        [] \<Rightarrow> (Cli_undefined, cli_do (Umask 23) c)
      | name # args \<Rightarrow>
          (let progname = (case after_last CHR ''/'' name of Some p \<Rightarrow> p | None \<Rightarrow> name);
               c = fold cli_do [Umask 23, Openzlog progname] c;
               (status, l, c) = cli_command_line env args progname c
           in case status of
                Some n \<Rightarrow> (Cli_exit n, c)
              | None \<Rightarrow>
                  (let c = cli_do Thread_master_create c
                   in if \<not> env_master env then (Cli_exit 1, cli_do (Zlog Log_err ''Failed to create thread master'') c)
                      else cli_serve env l (cli_library_init (c\<lparr>thread_master := True\<rparr>)))))"

text \<open>\<open>thread_main\<close> does not return: there is no result after it.\<close>

definition cli_run :: "cli_ctx \<Rightarrow> int option \<times> cli_ctx" where
  "cli_run c =
     (if \<not> thread_master c then (Some (- 1), cli_do (Zlog Log_err ''thread master is not initialized'') c)
      else (None, cli_do Thread_main c))"

section \<open>What the command line amounts to\<close>

lemma cli_option_simps [simp]:
  "cli_option progname (CHR ''d'', v) (l, c) = (None, l\<lparr>daemon_mode := True\<rparr>, c)"
  "cli_option progname (CHR ''f'', v) (l, c) = (None, l\<lparr>requested_config := v\<rparr>, c)"
  "cli_option progname (CHR ''i'', v) (l, c) = (None, l, c\<lparr>pid_file := v\<rparr>)"
  "cli_option progname (CHR ''z'', v) (l, c) = (None, l, c\<lparr>vty_path := v\<rparr>)"
  "cli_option progname (CHR ''A'', v) (l, c) = (None, l, c\<lparr>vty_addr := v\<rparr>)"
  "cli_option progname (CHR ''r'', v) (l, c) = (None, l, c\<lparr>retain_mode := True\<rparr>)"
  "cli_option progname (CHR ''C'', v) (l, c) = (None, l\<lparr>dryrun := True\<rparr>, c)"
  "cli_option progname (CHR ''u'', v) (l, c) = (None, l, c\<lparr>privs_user := v\<rparr>)"
  "cli_option progname (CHR ''P'', v) (l, c) = (None, l, c\<lparr>vty_port := port_option (the v)\<rparr>)"
  "cli_option progname (CHR ''g'', v) (l, c) = (None, l, c\<lparr>privs_group := v\<rparr>)"
  by (simp_all add: cli_option_def)

text \<open>The argument of the last option with a letter.\<close>

definition last_arg :: "char \<Rightarrow> opt_result list \<Rightarrow> string option \<Rightarrow> string option" where
  "last_arg o1 rs d = foldl (\<lambda>a (c, v). if c = o1 then v else a) d rs"

definition given :: "char \<Rightarrow> opt_result list \<Rightarrow> bool" where
  "given o1 rs \<longleftrightarrow> o1 \<in> set (map fst rs)"

definition known_options :: "opt_result list \<Rightarrow> bool" where
  "known_options rs \<longleftrightarrow> list_all (\<lambda>(c, v). c \<in> set ''dfizArCuPg'' \<and> (c \<in> set ''fizAuPg'' \<longrightarrow> v \<noteq> None)) rs"

lemma last_arg_Cons [simp]: "last_arg o1 ((c, v) # rs) d = last_arg o1 rs (if c = o1 then v else d)"
  by (simp add: last_arg_def)

lemma last_arg_Nil [simp]: "last_arg o1 [] d = d"
  by (simp add: last_arg_def)

lemma given_simps [simp]: "\<not> given o1 []" "given o1 ((c, v) # rs) \<longleftrightarrow> c = o1 \<or> given o1 rs"
  by (auto simp: given_def)

lemma last_arg_default:
  "known_options rs \<Longrightarrow> o1 \<in> set ''fizAuPg'' \<Longrightarrow> last_arg o1 rs (Some v) = Some (the (last_arg o1 rs (Some v)))
     \<and> last_arg o1 rs None = (if given o1 rs then last_arg o1 rs (Some v) else None)"
proof (induction rs arbitrary: v)
  case (Cons r rs)
  obtain opt w where r: "r = (opt, w)" by force
  have k: "opt \<in> set ''fizAuPg'' \<longrightarrow> w \<noteq> None" "known_options rs"
    using Cons.prems(1) unfolding r known_options_def list.pred_inject(2) by blast+
  then show ?case using Cons.IH [OF k(2) Cons.prems(2)] Cons.prems(2) unfolding r by (cases w) auto
qed simp

lemma last_arg_ungiven: "\<not> given o1 rs \<Longrightarrow> last_arg o1 rs d = d"
  by (induction rs arbitrary: d) (auto simp: given_def last_arg_def)

text \<open>Without \<open>-h\<close>, \<open>-v\<close> and errors, the options set the state and nothing is logged.\<close>

lemma cli_options_known:
  assumes "known_options rs" "cli_options progname rs (l, c) = (status, l', c')"
  shows "status = None
    \<and> l' = \<lparr>daemon_mode = daemon_mode l \<or> given CHR ''d'' rs, dryrun = dryrun l \<or> given CHR ''C'' rs,
          requested_config = last_arg CHR ''f'' rs (requested_config l)\<rparr>
    \<and> c' = c\<lparr>pid_file := last_arg CHR ''i'' rs (pid_file c), vty_path := last_arg CHR ''z'' rs (vty_path c),
          vty_addr := last_arg CHR ''A'' rs (vty_addr c), retain_mode := retain_mode c \<or> given CHR ''r'' rs,
          privs_user := last_arg CHR ''u'' rs (privs_user c), privs_group := last_arg CHR ''g'' rs (privs_group c),
          vty_port := (case last_arg CHR ''P'' rs None of None \<Rightarrow> vty_port c | Some p \<Rightarrow> port_option p)\<rparr>"
  using assms
proof (induction rs arbitrary: l c)
  case Nil
  then show ?case by simp
next
  case (Cons r rs)
  obtain opt v where r: "r = (opt, v)" by force
  have o: "opt \<in> set ''dfizArCuPg''" "opt \<in> set ''fizAuPg'' \<Longrightarrow> v \<noteq> None" and k: "known_options rs"
    using Cons.prems(1) unfolding r known_options_def list.pred_inject(2) by blast+
  from o(1) have e: "opt = CHR ''d'' \<or> opt = CHR ''f'' \<or> opt = CHR ''i'' \<or> opt = CHR ''z'' \<or> opt = CHR ''A''
    \<or> opt = CHR ''r'' \<or> opt = CHR ''C'' \<or> opt = CHR ''u'' \<or> opt = CHR ''P'' \<or> opt = CHR ''g''" by auto
  then have "fst (cli_option progname r (l, c)) = None" unfolding r by (elim disjE) simp_all
  then obtain l1 c1 where s: "cli_option progname r (l, c) = (None, l1, c1)" by (metis prod.collapse)
  then have n: "cli_options progname rs (l1, c1) = (status, l', c')" using Cons.prems(2) by simp
  note ih = Cons.IH [OF k n]
  from e show ?case
  proof (elim disjE)
    assume P: "opt = CHR ''P''"
    then obtain q where q: "v = Some q" using o(2) by auto
    obtain q' where q': "last_arg CHR ''P'' rs (Some q) = Some q'"
      using last_arg_default [OF k, of "CHR ''P''" q] by auto
    have "last_arg CHR ''P'' rs None = (if given CHR ''P'' rs then Some q' else None)" "\<not> given CHR ''P'' rs \<Longrightarrow> q' = q"
      using last_arg_default [OF k, of "CHR ''P''" q] last_arg_ungiven [of "CHR ''P''" rs "Some q"] q' by auto
    then show ?thesis using ih s unfolding r P q by (auto simp: q')
  qed (use ih s in \<open>auto simp: r cong: option.case_cong\<close>)
qed

text \<open>Where the default configuration is: in the working directory, if the path fits and the file is there or can be written.\<close>

definition config_path :: "string \<Rightarrow> string" where
  "config_path cwd = cwd @ ''/'' @ config_base_name CLI_DEFAULT_CONFIG"

definition regular_in :: "(string \<Rightarrow> cli_file option) \<Rightarrow> string \<Rightarrow> bool" where
  "regular_in files p \<longleftrightarrow> p \<noteq> [] \<and> (case files p of Some (Regular _) \<Rightarrow> True | _ \<Rightarrow> False)"

definition default_config :: "cli_env \<Rightarrow> (string \<Rightarrow> cli_file option) \<Rightarrow> string" where
  "default_config env files =
     (case env_cwd env of
        None \<Rightarrow> CLI_DEFAULT_CONFIG
      | Some cwd \<Rightarrow>
          if length (config_path cwd) < GENERATED_SIZE
             \<and> (regular_in files (config_path cwd) \<or> env_writable env (config_path cwd))
          then config_path cwd else CLI_DEFAULT_CONFIG)"

definition chosen_config :: "cli_env \<Rightarrow> (string \<Rightarrow> cli_file option) \<Rightarrow> string option \<Rightarrow> string" where
  "chosen_config env files requested =
     (case requested of Some f \<Rightarrow> if regular_in files f then f else default_config env files
      | None \<Rightarrow> default_config env files)"

lemma cli_do_simps [simp]:
  "cli_log (cli_do e c) = cli_log c @ [e]" "config_default (cli_do e c) = config_default c"
  "config_file (cli_do e c) = config_file c" "cli_files (cli_do e c) = cli_files c" "cli_tty (cli_do e c) = cli_tty c"
  "vty_port (cli_do e c) = vty_port c" "vty_addr (cli_do e c) = vty_addr c" "vty_path (cli_do e c) = vty_path c"
  "pid_file (cli_do e c) = pid_file c" "thread_master (cli_do e c) = thread_master c"
  by (simp_all add: cli_do_def)

lemma fold_cli_do: "fold cli_do es c = c\<lparr>cli_log := cli_log c @ es\<rparr>"
  by (induction es arbitrary: c) (simp_all add: cli_do_def)

lemma file_exists_regular_in: "file_exists_and_regular p c = regular_in (cli_files c) p"
  by (simp add: file_exists_and_regular_def regular_in_def)

text \<open>The sockets that were opened and the configurations that were read.\<close>

fun sockets :: "cli_event list \<Rightarrow> (string \<times> int \<times> string) list" where
  "sockets [] = []"
| "sockets (Vty_serv_sock a p s # es) = (a, p, s) # sockets es"
| "sockets (e # es) = sockets es"

fun configs_read :: "cli_event list \<Rightarrow> (string option \<times> string) list" where
  "configs_read [] = []"
| "configs_read (Vty_read_config f d # es) = (f, d) # configs_read es"
| "configs_read (e # es) = configs_read es"

text \<open>Messages and writing the default file: they open no socket and read no configuration.\<close>

fun console_quiet :: "cli_event \<Rightarrow> bool" where
  "console_quiet (Vty_serv_sock a p s) = False"
| "console_quiet (Vty_read_config f d) = False"
| "console_quiet e = True"

lemma sockets_append [simp]: "sockets (es @ es') = sockets es @ sockets es'"
  by (induction es rule: sockets.induct) simp_all

lemma configs_read_append [simp]: "configs_read (es @ es') = configs_read es @ configs_read es'"
  by (induction es rule: configs_read.induct) simp_all

lemma quiet_sockets: "list_all console_quiet es \<Longrightarrow> sockets es = [] \<and> configs_read es = []"
proof (induction es)
  case (Cons e es)
  then show ?case by (cases e) simp_all
qed simp

lemma regular_in_upd [simp]:
  "regular_in (files(p \<mapsto> Regular t)) f \<longleftrightarrow> (if f = p then f \<noteq> [] else regular_in files f)"
  by (simp add: regular_in_def)

text \<open>What preparing the default configuration leaves alone.\<close>

definition same_settings :: "cli_ctx \<Rightarrow> cli_ctx \<Rightarrow> bool" where
  "same_settings c c' \<longleftrightarrow>
     vty_addr c' = vty_addr c \<and> vty_port c' = vty_port c \<and> vty_path c' = vty_path c \<and> pid_file c' = pid_file c
     \<and> privs_user c' = privs_user c \<and> privs_group c' = privs_group c \<and> retain_mode c' = retain_mode c
     \<and> thread_master c' = thread_master c \<and> cli_tty c' = cli_tty c
     \<and> (\<exists>es. cli_log c' = cli_log c @ es \<and> list_all console_quiet es)"

definition fresh_defaults :: "cli_ctx \<Rightarrow> bool" where
  "fresh_defaults c \<longleftrightarrow> default_config_name c = CLI_DEFAULT_CONFIG \<and> config_default c = CLI_DEFAULT_CONFIG
     \<and> \<not> generated_config_file_ready c"

lemma ensure_default:
  assumes "fresh_defaults c"
  shows "same_settings c (snd (ensure_default_config_file env c))"
    "config_default (snd (ensure_default_config_file env c)) = default_config env (cli_files c)"
    "\<And>f. regular_in (cli_files (snd (ensure_default_config_file env c))) f \<Longrightarrow>
       regular_in (cli_files c) f \<or> f = default_config env (cli_files c)"
    "\<And>f. regular_in (cli_files c) f \<Longrightarrow> regular_in (cli_files (snd (ensure_default_config_file env c))) f"
  using assms
  by (auto simp: ensure_default_config_file_def resolve_generated_def fresh_defaults_def same_settings_def Let_def
      default_config_def config_path_def file_exists_regular_in write_config_def cli_do_def c_snprintf_def
      split: option.splits prod.splits if_splits)

lemma choose_config_chosen:
  assumes "fresh_defaults c"
  shows "config_default (choose_config requested (snd (ensure_default_config_file env c))) = default_config env (cli_files c)"
    "config_file (choose_config requested (snd (ensure_default_config_file env c))) =
      Some (chosen_config env (cli_files c) requested)"
    "same_settings c (choose_config requested (snd (ensure_default_config_file env c)))"
proof -
  note e = ensure_default [OF assms, where env = env]
  let ?c = "snd (ensure_default_config_file env c)"
  show "config_default (choose_config requested ?c) = default_config env (cli_files c)"
    using e(2) by (auto simp: choose_config_def split: option.splits)
  show "config_file (choose_config requested ?c) = Some (chosen_config env (cli_files c) requested)"
    using e(2-4) by (auto simp: choose_config_def chosen_config_def file_exists_regular_in split: option.splits)
  have "same_settings ?c (choose_config requested ?c)"
    by (auto simp: choose_config_def same_settings_def cli_do_def split: option.splits)
  then show "same_settings c (choose_config requested ?c)" using e(1) unfolding same_settings_def by force
qed

text \<open>
  The command line as a whole, from the start of the process: which configuration is read, after the commands were
  registered, and which socket is opened after that.
\<close>

lemma cli_init_known:
  assumes rs: "rs = getopt_long (short_options OPTSTRING) longopts [] args"
    and k: "known_options rs" and env: "env_master env" "given CHR ''d'' rs \<Longrightarrow> env_daemon env"
    and init: "cli_init env (name # args) ((cli_start files)\<lparr>cli_log := out\<rparr>) = (r, c)" "list_all console_quiet out"
  shows "r = Cli_return 0" "thread_master c" "cli_tty c = tty_init tty_start" "config_default c = default_config env files"
    "config_file c = Some (chosen_config env files (last_arg CHR ''f'' rs None))"
    "configs_read (cli_log c) = [(config_file c, config_default c)]"
    "sockets (cli_log c) = (if given CHR ''C'' rs then []
       else [(resolved_vty_addr c, vty_port c, resolved_vty_socket c)])"
    "vty_addr c = last_arg CHR ''A'' rs None" "vty_path c = last_arg CHR ''z'' rs (Some CLI_VTYSH_PATH)"
    "vty_port c = (case last_arg CHR ''P'' rs None of None \<Rightarrow> VTY_PORT | Some p \<Rightarrow> port_option p)"
proof -
  let ?prog = "case after_last CHR ''/'' name of Some p \<Rightarrow> p | None \<Rightarrow> name"
  let ?c0 = "cli_do (Openzlog ?prog) (cli_do (Umask 23) ((cli_start files)\<lparr>cli_log := out\<rparr>))"
  let ?l0 = "\<lparr>daemon_mode = False, dryrun = False, requested_config = None\<rparr>"
  obtain st l1 c1 where o: "cli_options ?prog rs (?l0, ?c0) = (st, l1, c1)" by (cases rule: prod_cases3)
  note o1 = cli_options_known [OF k o]
  have c1: "st = None" "l1 = \<lparr>daemon_mode = given CHR ''d'' rs, dryrun = given CHR ''C'' rs, requested_config = last_arg CHR ''f'' rs None\<rparr>"
    "fresh_defaults c1" "cli_files c1 = files" "cli_tty c1 = tty_start" "cli_log c1 = out @ [Umask 23, Openzlog ?prog]"
    "vty_addr c1 = last_arg CHR ''A'' rs None" "vty_path c1 = last_arg CHR ''z'' rs (Some CLI_VTYSH_PATH)"
    "vty_port c1 = (case last_arg CHR ''P'' rs None of None \<Rightarrow> VTY_PORT | Some p \<Rightarrow> port_option p)"
    using o1 by (auto simp: fresh_defaults_def cli_do_def cli_start_def cong: option.case_cong)
  let ?c2 = "choose_config (last_arg CHR ''f'' rs None) (snd (ensure_default_config_file env c1))"
  note c2 = choose_config_chosen [OF c1(3), of "last_arg CHR ''f'' rs None" env, unfolded c1(4)]
  obtain es where es: "cli_log ?c2 = cli_log c1 @ es" "list_all console_quiet es" using c2(3) by (auto simp: same_settings_def)
  have "cli_command_line env args ?prog ?c0 = (None, l1, ?c2)"
    unfolding cli_command_line_def rs [symmetric] o by (simp add: c1(1,2))
  then have "(r, c) = cli_serve env l1 (cli_library_init ((cli_do Thread_master_create ?c2)\<lparr>thread_master := True\<rparr>))"
    using init(1) env(1) by (simp add: cli_init_def)
  note final = this [unfolded cli_serve_def cli_library_init_def cli_reload_config_def Let_def start_vty_server_def]
  show "r = Cli_return 0" "thread_master c" "cli_tty c = tty_init tty_start" "config_default c = default_config env files"
    "config_file c = Some (chosen_config env files (last_arg CHR ''f'' rs None))"
    "configs_read (cli_log c) = [(config_file c, config_default c)]"
    "sockets (cli_log c) = (if given CHR ''C'' rs then []
       else [(resolved_vty_addr c, vty_port c, resolved_vty_socket c)])"
    "vty_addr c = last_arg CHR ''A'' rs None" "vty_path c = last_arg CHR ''z'' rs (Some CLI_VTYSH_PATH)"
    "vty_port c = (case last_arg CHR ''P'' rs None of None \<Rightarrow> VTY_PORT | Some p \<Rightarrow> port_option p)"
    using final env(2) c2 es quiet_sockets [OF es(2)] quiet_sockets [OF init(2)] c1
    by (auto simp: same_settings_def resolved_vty_addr_def resolved_vty_socket_def split: if_splits)
qed

text \<open>When the process ends in \<open>cli_init\<close>, no socket of the console was opened.\<close>

definition logs_quiet :: "cli_ctx \<Rightarrow> cli_ctx \<Rightarrow> bool" where
  "logs_quiet c c' \<longleftrightarrow> (\<exists>es. cli_log c' = cli_log c @ es \<and> list_all console_quiet es)"

lemma cli_option_quiet: "cli_option progname r (l, c) = (st, l', c') \<Longrightarrow> logs_quiet c c'"
  by (auto simp: cli_option_def logs_quiet_def usage_def Let_def split: prod.splits if_splits)

lemma logs_quiet_trans: "logs_quiet a b \<Longrightarrow> logs_quiet b c \<Longrightarrow> logs_quiet a c"
  by (auto simp: logs_quiet_def)

lemma cli_options_quiet: "cli_options progname rs (l, c) = (st, l', c') \<Longrightarrow> logs_quiet c c'"
proof (induction rs arbitrary: l c)
  case Nil
  then show ?case by (simp add: logs_quiet_def)
next
  case (Cons r rs)
  obtain st1 l1 c1 where s: "cli_option progname r (l, c) = (st1, l1, c1)" by (cases rule: prod_cases3)
  show ?case using Cons.IH [of l1 c1] Cons.prems cli_option_quiet [OF s] s logs_quiet_trans
    by (cases st1) auto
qed

lemma cli_command_line_quiet:
  assumes "cli_command_line env args progname c = (st, l, c')"
  shows "logs_quiet c c'"
proof -
  let ?rs = "getopt_long (short_options OPTSTRING) longopts [] args"
    and ?l = "\<lparr>daemon_mode = False, dryrun = False, requested_config = None\<rparr>"
  obtain st1 l1 c1 where o: "cli_options progname ?rs (?l, c) = (st1, l1, c1)" by (cases rule: prod_cases3)
  have "logs_quiet c1 (choose_config (requested_config l1) (snd (ensure_default_config_file env c1)))"
    by (auto simp: logs_quiet_def choose_config_def ensure_default_config_file_def resolve_generated_def write_config_def
        Let_def split: option.splits prod.splits)
  with cli_options_quiet [OF o] assms show ?thesis
    unfolding cli_command_line_def o by (cases st1) (auto intro: logs_quiet_trans)
qed

lemma cli_exit_no_sockets:
  assumes "cli_init env argv ((cli_start files)\<lparr>cli_log := out\<rparr>) = (r, c)" "list_all console_quiet out" "\<And>n. r \<noteq> Cli_return n"
  shows "sockets (cli_log c) = []"
proof (cases argv)
  case Nil
  then show ?thesis using assms(1) quiet_sockets [OF assms(2)] by (auto simp: cli_init_def)
next
  case (Cons name args)
  let ?prog = "case after_last CHR ''/'' name of Some p \<Rightarrow> p | None \<Rightarrow> name"
  let ?c0 = "cli_do (Openzlog ?prog) (cli_do (Umask 23) ((cli_start files)\<lparr>cli_log := out\<rparr>))"
  obtain st l c1 where o: "cli_command_line env args ?prog ?c0 = (st, l, c1)" by (cases rule: prod_cases3)
  obtain es where "cli_log c1 = cli_log ?c0 @ es" "list_all console_quiet es"
    using cli_command_line_quiet [OF o] by (auto simp: logs_quiet_def)
  then have "sockets (cli_log c1) = []" using quiet_sockets assms(2) by simp
  then show ?thesis using assms(1,3) o unfolding Cons cli_init_def
    by (auto simp: Let_def cli_serve_def cli_library_init_def cli_reload_config_def split: option.splits if_splits)
qed

text \<open>A return leaves the library initialised, so \<open>cli_run\<close> does not fail.\<close>

lemma cli_return_master: "cli_init env argv c0 = (Cli_return n, c) \<Longrightarrow> thread_master c"
  by (auto simp: cli_init_def Let_def cli_serve_def cli_library_init_def cli_reload_config_def start_vty_server_def fold_cli_do
      split: list.splits prod.splits option.splits if_splits)

end
