(* ===== verification/Boot.thy ===== *)
theory Boot
  imports Cli Gateway
begin

text \<open>
  The start of the process: \<open>main\<close> (\<open>core/main.c\<close>), \<open>thread_init\<close> (\<open>core/src/src_thread.c\<close>) and
  the threads that \<open>comm_service_init\<close> and \<open>comm_udp_init\<close> create, with the results of
  \<open>pthread_create\<close>.
\<close>

section \<open>Threads\<close>

datatype thread_id = Gnss_thread | Dbb_thread | Udp_rx_thread | Udp_tx_thread

text \<open>
  The results of the next calls of \<open>pthread_create\<close> (zero when the list is used up) and the threads that
  run.
\<close>

record boot =
  bt_cli :: cli_ctx
  bt_comm :: comm_world
  bt_results :: "int list"
  bt_threads :: "thread_id list"

definition pthread_create :: "thread_id \<Rightarrow> boot \<Rightarrow> int \<times> boot" where
  "pthread_create t b =
     (case bt_results b of
        [] \<Rightarrow> (0, b\<lparr>bt_threads := bt_threads b @ [t]\<rparr>)
      | r # rs \<Rightarrow> (r, b\<lparr>bt_results := rs, bt_threads := (if r = 0 then bt_threads b @ [t] else bt_threads b)\<rparr>))"

definition on_cli :: "(cli_ctx \<Rightarrow> cli_ctx) \<Rightarrow> boot \<Rightarrow> boot" where
  "on_cli f b = b\<lparr>bt_cli := f (bt_cli b)\<rparr>"

definition udp_init_threads :: "(int \<Rightarrow> string) \<Rightarrow> boot \<Rightarrow> int \<times> boot" where
  "udp_init_threads strerror b =
     (let w = bt_comm b;
          b = b\<lparr>bt_comm := w\<lparr>udp_ctx := comm_udp_init (udp_ctx w)\<rparr>\<rparr>;
          (ret, b) = pthread_create Udp_rx_thread b
      in if ret \<noteq> 0 then (- 1, on_cli (cli_do (Stderr (''pthread_create udp rx failed: '' @ strerror ret @ [LF]))) b)
         else let (ret, b) = pthread_create Udp_tx_thread b
              in if ret \<noteq> 0 then (- 1, on_cli (cli_do (Stderr (''pthread_create udp tx failed: '' @ strerror ret @ [LF]))) b)
                 else (0, b))"

definition service_init_threads :: "(int \<Rightarrow> string) \<Rightarrow> comm_service_config_t option \<Rightarrow> boot \<Rightarrow> int \<times> boot" where
  "service_init_threads strerror config b =
     (let b = b\<lparr>bt_comm := comm_service_apply_config config (bt_comm b)\<rparr>;
          (rc, b) = udp_init_threads strerror b
      in if rc < 0 then (- 1, b) else (0, b))"

text \<open>\<open>thread_init\<close> looks at no result.\<close>

definition thread_init :: "(int \<Rightarrow> string) \<Rightarrow> boot \<Rightarrow> int \<times> boot" where
  "thread_init strerror b =
     (let (_, b) = pthread_create Gnss_thread b;
          (_, b) = pthread_create Dbb_thread b;
          (_, b) = service_init_threads strerror None b
      in (0, b))"

section \<open>The program\<close>

datatype main_result =
    Main_exit int        \<comment> \<open>\<open>exit\<close> was called\<close>
  | Main_console         \<comment> \<open>in the loop of the command interpreter, for ever\<close>
  | Main_sleeping        \<comment> \<open>in the loop at the end of \<open>main\<close>\<close>
  | Main_undefined

fun arg_lines :: "nat \<Rightarrow> string list \<Rightarrow> cli_event list" where
  "arg_lines i [] = []"
| "arg_lines i (a # as) = Stdout (''arg['' @ show_nat i @ '']: '' @ a @ [LF]) # arg_lines (Suc i) as"

definition main_lines :: "string list \<Rightarrow> int \<Rightarrow> cli_event list" where
  "main_lines argv pid =
     arg_lines 0 argv @ [Stdout (''ok3506 demo started'' @ [LF]), Stdout (''pid: '' @ show_int pid @ [LF])]"

text \<open>The globals of the communication side before \<open>main\<close>.\<close>

definition g_comm_service_config :: comm_service_config_t where
  "g_comm_service_config = \<lparr>cfg_udp_port = 8888, cfg_tcp_port = 9001, cfg_mqtt = mqtt_config g_comm_mqtt_ctx\<rparr>"

definition static_comm :: comm_world where
  "static_comm =
     \<lparr>comm_cfg = glob_comm_config_init, service_cfg = g_comm_service_config, udp_ctx = g_comm_udp_ctx,
      tcp_ctx = g_comm_tcp_ctx, mqtt_ctx = g_comm_mqtt_ctx, mqtt_out = [],
      gworld = \<lparr>gctrl = gnss_ctrl_init, dev_out = [], dev_script = []\<rparr>\<rparr>"

definition boot_start :: "(string \<Rightarrow> cli_file option) \<Rightarrow> int list \<Rightarrow> boot" where
  "boot_start files results = \<lparr>bt_cli = cli_start files, bt_comm = static_comm, bt_results = results, bt_threads = []\<rparr>"

text \<open>
  What the commands in the configuration file make of the settings (the interpreter runs them): the
  switches of the network and the state of the receiver.
\<close>

type_synonym settings = "glob_comm_config_t \<times> gnss_world \<Rightarrow> glob_comm_config_t \<times> gnss_world"

definition read_settings :: "settings \<Rightarrow> comm_world \<Rightarrow> comm_world" where
  "read_settings f w = (let (cfg, g) = f (comm_cfg w, gworld w) in w\<lparr>comm_cfg := cfg, gworld := g\<rparr>)"

text \<open>The result of \<open>thread_init\<close> and of \<open>cli_init\<close>, if it returns, is not looked at.\<close>

definition main_prog ::
    "cli_env \<Rightarrow> (int \<Rightarrow> string) \<Rightarrow> settings \<Rightarrow> string list \<Rightarrow> int \<Rightarrow> boot \<Rightarrow> main_result \<times> boot" where
  "main_prog env strerror settings argv pid b =
     (let (r, c) = cli_init env argv (fold cli_do (main_lines argv pid) (bt_cli b));
          b = b\<lparr>bt_cli := c\<rparr>
      in case r of
           Cli_exit n \<Rightarrow> (Main_exit n, b)
         | Cli_undefined \<Rightarrow> (Main_undefined, b)
         | Cli_return _ \<Rightarrow>
             (let (_, b) = thread_init strerror (b\<lparr>bt_comm := read_settings settings (bt_comm b)\<rparr>);
                  (e, c) = cli_run (bt_cli b);
                  b = b\<lparr>bt_cli := c\<rparr>
              in (if e = None then Main_console else Main_sleeping, b)))"

lemma main_lines_quiet: "list_all console_quiet (main_lines argv pid)"
proof -
  have "list_all console_quiet (arg_lines i as)" for i as by (induction i as rule: arg_lines.induct) simp_all
  then show ?thesis by (simp add: main_lines_def)
qed

text \<open>When every \<open>pthread_create\<close> succeeds, the threads run and the service is that of \<open>comm_service_init\<close>.\<close>

lemma pthread_create_ok:
  assumes "list_all (\<lambda>r. r = 0) (bt_results b)"
  shows "pthread_create t b = (0, b\<lparr>bt_results := tl (bt_results b), bt_threads := bt_threads b @ [t]\<rparr>)"
  using assms by (cases b; cases "bt_results b"; simp add: pthread_create_def)+

lemma list_all_tl: "list_all P xs \<Longrightarrow> list_all P (tl xs)"
  by (cases xs) simp_all

lemma thread_init_ok:
  assumes "list_all (\<lambda>r. r = 0) (bt_results b)" "thread_init strerror b = (r, b')"
  shows "bt_threads b' = bt_threads b @ [Gnss_thread, Dbb_thread, Udp_rx_thread, Udp_tx_thread]"
    "bt_comm b' = comm_service_init None (bt_comm b)" "bt_cli b' = bt_cli b"
  using assms
  by (auto simp: thread_init_def service_init_threads_def udp_init_threads_def pthread_create_ok list_all_tl comm_service_init_def Let_def)

text \<open>Whatever fails, no other threads are created, each at most once and in this order.\<close>

lemma thread_init_order:
  assumes "thread_init strerror b = (r, b')" "bt_threads b = []"
  shows "subseq (bt_threads b') [Gnss_thread, Dbb_thread, Udp_rx_thread, Udp_tx_thread]"
    "Udp_tx_thread \<in> set (bt_threads b') \<longrightarrow> Udp_rx_thread \<in> set (bt_threads b')"
  using assms
  by (auto simp: thread_init_def service_init_threads_def udp_init_threads_def pthread_create_def on_cli_def Let_def
      split: list.splits if_splits)

lemma thread_init_master: "thread_init strerror b = (r, b') \<Longrightarrow> thread_master (bt_cli b') = thread_master (bt_cli b)"
  by (auto simp: thread_init_def service_init_threads_def udp_init_threads_def pthread_create_def on_cli_def Let_def
      split: list.splits if_splits)

text \<open>A process that ends in \<open>cli_init\<close> has started nothing.\<close>

lemma main_exit:
  assumes "main_prog env strerror settings argv pid b = (r, b')" "r \<noteq> Main_console"
    "bt_cli b = cli_start files" "bt_threads b = []"
  shows "bt_threads b' = [] \<and> bt_comm b' = bt_comm b \<and> sockets (cli_log (bt_cli b')) = []"
proof -
  let ?c = "fold cli_do (main_lines argv pid) (bt_cli b)"
  obtain ri c where i: "cli_init env argv ?c = (ri, c)" by force
  have c0: "?c = (cli_start files)\<lparr>cli_log := main_lines argv pid\<rparr>"
    by (simp add: fold_cli_do assms(3)) (simp add: cli_start_def)
  have n: "ri \<noteq> Cli_return n" for n
  proof
    assume n: "ri = Cli_return n"
    have "thread_master c" using cli_return_master [of env argv ?c n c] i n by simp
    then show False using assms(1,2) i n thread_init_master
      by (auto simp: main_prog_def cli_run_def split: prod.splits if_splits)
  qed
  then show ?thesis
    using assms(1,4) i cli_exit_no_sockets [OF i [unfolded c0] main_lines_quiet n]
    by (cases ri) (auto simp: main_prog_def)
qed

text \<open>The service that \<open>main\<close> starts is the start state of the gateway, with the settings that were read.\<close>

lemma boot_comm:
  "comm_service_init None (read_settings f static_comm) =
     read_settings f (gw_comm gateway_boot)"
  by (simp add: read_settings_def static_comm_def gateway_boot_def g_comm_service_config_def k_comm_service_default_config_def
      comm_service_init_def comm_service_apply_config_def Let_def split: prod.splits)

lemma read_settings_services [simp]:
  "tcp_ctx (read_settings f w) = tcp_ctx w" "mqtt_ctx (read_settings f w) = mqtt_ctx w" "udp_ctx (read_settings f w) = udp_ctx w"
  by (simp_all add: read_settings_def split: prod.splits)

lemma gateway_boot_services:
  "\<not> tcp_running (tcp_ctx (gw_comm gateway_boot))" "\<not> mqtt_running (mqtt_ctx (gw_comm gateway_boot))"
  by (simp_all add: gateway_boot_def Let_def comm_service_init_def comm_service_apply_config_def comm_service_normalize_config_def
      k_comm_service_default_config_def comm_tcp_configure_def comm_mqtt_configure_def g_comm_tcp_ctx_def g_comm_mqtt_ctx_def)

lemma main_runs:
  assumes rs: "rs = getopt_long (short_options OPTSTRING) longopts [] args"
    and k: "known_options rs" and env: "env_master env" "given CHR ''d'' rs \<Longrightarrow> env_daemon env"
    and ok: "list_all (\<lambda>r. r = 0) results"
    and r: "main_prog env strerror settings (name # args) pid (boot_start files results) = (r, b')"
  shows "r = Main_console" "bt_threads b' = [Gnss_thread, Dbb_thread, Udp_rx_thread, Udp_tx_thread]"
    "bt_comm b' = read_settings settings (gw_comm gateway_boot)"
    "cli_tty (bt_cli b') = tty_init tty_start"
    "configs_read (cli_log (bt_cli b')) =
       [(Some (chosen_config env files (last_arg CHR ''f'' rs None)), default_config env files)]"
    "sockets (cli_log (bt_cli b')) = (if given CHR ''C'' rs then []
       else [(resolved_vty_addr (bt_cli b'), vty_port (bt_cli b'), resolved_vty_socket (bt_cli b'))])"
    "vty_addr (bt_cli b') = last_arg CHR ''A'' rs None" "vty_path (bt_cli b') = last_arg CHR ''z'' rs (Some CLI_VTYSH_PATH)"
    "vty_port (bt_cli b') = (case last_arg CHR ''P'' rs None of None \<Rightarrow> VTY_PORT | Some p \<Rightarrow> port_option p)"
proof -
  let ?out = "main_lines (name # args) pid"
  have c0: "fold cli_do ?out (bt_cli (boot_start files results)) = (cli_start files)\<lparr>cli_log := ?out\<rparr>"
    by (simp add: fold_cli_do boot_start_def) (simp add: cli_start_def)
  obtain ri c where i: "cli_init env (name # args) ((cli_start files)\<lparr>cli_log := ?out\<rparr>) = (ri, c)" by force
  note ci = cli_init_known [OF rs k env i main_lines_quiet]
  let ?b = "(boot_start files results)\<lparr>bt_cli := c, bt_comm := read_settings settings static_comm\<rparr>"
  obtain rt b1 where t: "thread_init strerror ?b = (rt, b1)" by force
  have "list_all (\<lambda>r. r = 0) (bt_results ?b)" using ok by (simp add: boot_start_def)
  note th = thread_init_ok [OF this t]
  have b: "(r, b') = (Main_console, b1\<lparr>bt_cli := cli_do Thread_main c\<rparr>)"
    using r t ci(1,2) th(3) unfolding main_prog_def c0 i by (simp add: cli_run_def boot_start_def Let_def)
  show "r = Main_console" "bt_threads b' = [Gnss_thread, Dbb_thread, Udp_rx_thread, Udp_tx_thread]"
    "bt_comm b' = read_settings settings (gw_comm gateway_boot)"
    "cli_tty (bt_cli b') = tty_init tty_start"
    "configs_read (cli_log (bt_cli b')) =
       [(Some (chosen_config env files (last_arg CHR ''f'' rs None)), default_config env files)]"
    "sockets (cli_log (bt_cli b')) = (if given CHR ''C'' rs then []
       else [(resolved_vty_addr (bt_cli b'), vty_port (bt_cli b'), resolved_vty_socket (bt_cli b'))])"
    "vty_addr (bt_cli b') = last_arg CHR ''A'' rs None" "vty_path (bt_cli b') = last_arg CHR ''z'' rs (Some CLI_VTYSH_PATH)"
    "vty_port (bt_cli b') = (case last_arg CHR ''P'' rs None of None \<Rightarrow> VTY_PORT | Some p \<Rightarrow> port_option p)"
    using b th(1,2) ci by (simp_all add: boot_comm boot_start_def resolved_vty_addr_def resolved_vty_socket_def)
qed

end
