(* ===== verification/Spec2Isabelle.thy ===== *)
theory Spec2Isabelle
  imports Position Console DbbLive GnssThread MinmeaTime MqttThreads TcpThreads Servers Serial Lora GnssTestFile DebugText Boot
begin

text \<open>
  Verification of the firmware of a GNSS gateway (the C sources under \<open>src/core\<close>).

  What the program does. A GNSS receiver on a serial port delivers a mixture of NMEA sentences
  and binary messages. The receive thread (\<open>gnss_thread.c\<close>) cuts the text into sentences and
  collects the binary bytes, \<open>handle_gnss_raw\<close> (\<open>gnss_ephb.c\<close>) finds the packets with a valid
  CRC-24Q, the decoders (\<open>gnss_ephb_decode.c\<close>) read the bit fields of ten messages, and each
  message is reported on the console, appended to a CSV file (\<open>gnss_ephb_info.c\<close>) and, when its
  switch is on, sent in a network frame (\<open>comm_service.c\<close>) over UDP, TCP or MQTT
  (\<open>comm_udp.c\<close>, \<open>comm_tcp.c\<close>, \<open>comm_mqtt.c\<close>). The sentences are checked and parsed
  (\<open>minmea.c\<close>), logged, and a position report goes to the client in a frame of its own and may set
  the system clock (\<open>gnss_nmea.c\<close>). Clients set the switches by frames of the same
  format. Beside this run the threads of a satellite modem (\<open>dbb_thread.c\<close>, \<open>dbb_handle.c\<close>,
  \<open>dbb_at_response.c\<close>) and of a 4G modem (\<open>eth_4g.c\<close>), both state machines over AT commands, and
  the pins and LEDs under \<open>/sys\<close> (\<open>src_io.c\<close>, \<open>src_led.c\<close>, \<open>lora_thread.c\<close>). The console commands
  (\<open>tty.c\<close>) change the settings of all of them. \<open>main\<close> reads the command line and the
  configuration (\<open>cli.c\<close>), starts the threads (\<open>src_thread.c\<close>) and stays in the console's loop.

  The theories, each with the part of the code it models.

  \<^item> \<open>Prelude\<close>: C strings and byte order, \<open>size_t\<close> wrap-around. \<open>Dbl\<close>: a double as
    \<open>mantissa * 2 ^ exponent\<close> with round-half-even to 53 bits and its image in memory (finite
    values; overflow and subnormals do not occur with the scales of the code).
  \<^item> \<open>Transition\<close>, \<open>Descriptors\<close>: the contract of a step relation with its invariant, and of the
    threads that own file descriptors, as locales; the models of the UDP, TCP and MQTT services and of
    the gateway are their interpretations.
  \<^item> \<open>BitReader\<close>, \<open>Layout\<close>: the bit readers and the scale functions of \<open>gnss_ephb_decode.c\<close>,
    and the protocol tables (width, unit and sign of each field) with their interpretation.
    \<open>DecodeBd2\<close> to \<open>DecodePrange\<close>: one decoder each, its struct, its packed image, its table, and
    the lemma that the decoder reads exactly what the table says.
  \<^item> \<open>Crc24\<close>: the table-driven CRC, compared with polynomial division bit by bit.
  \<^item> \<open>RawScan\<close>, \<open>RawPacket\<close>, \<open>Ephemeris\<close>: the scan of the raw buffer as a loop with fuel, what it
    accepts, when it ends, and what it reports for a packet with given fields.
  \<^item> \<open>GnssTypes\<close>, \<open>GnssCtl\<close>, \<open>GnssRx\<close>: the control block, the commands to the receiver, the raw
    and the text buffer and one call of the receive path. \<open>GnssThread\<close>: the receive thread from
    power-up, with the loop over the results of \<open>read\<close>. \<open>Serial\<close>: the line parameters of \<open>src_tty.c\<close>.
  \<^item> \<open>NetFrame\<close>, \<open>RingQueue\<close>, \<open>CommUdp\<close>, \<open>CommTcp\<close>, \<open>TcpThreads\<close>, \<open>Servers\<close>,
    \<open>Mqtt\<close>, \<open>MqttThreads\<close>, \<open>CommService\<close>: the frame format, the
    circular queues (a locale with the laws of a bounded queue, interpreted on the arrays of both
    services), the transports with their sockets and their threads as step relations, and the
    command service.
  \<^item> \<open>Fmt\<close>, \<open>Report\<close>, \<open>GnssFile\<close>, \<open>GnssTestFile\<close>: number formats, the printed reports, header lines,
    rows and the file functions.
  \<^item> \<open>Flt\<close>, \<open>Minmea\<close>, \<open>NmeaLog\<close>: the parser of NMEA sentences with its fixed-point fractions and
    their conversion to \<open>float\<close> and \<open>double\<close>, and the handler \<open>handle_gnss_nmea\<close> with its logs, the
    clock and the position frame. \<open>NmeaCheck\<close>: which sentences are accepted. \<open>NmeaScan\<close>: the
    scanner on the text against a scanner on the list of fields, the types and ranges of what it
    stores, and where it is undefined. \<open>MinmeaTime\<close>: the functions of the parser that the program
    does not call (calendar, names, rescaling). \<open>NmeaPosition\<close>, \<open>NmeaHandler\<close>: sentences written from a
    report, what they parse to, the rounding error of a coordinate, and what the handler does.
  \<^item> \<open>Gateway\<close>: the receive path, messages, sentences, files and network over one state, with the
    states that reads, datagrams and transmissions reach in any order. \<open>Position\<close>: a position
    report on its way through all of it.
  \<^item> \<open>Codec\<close>, \<open>Sms\<close>, \<open>AtPort\<close>, \<open>DbbHandle\<close>, \<open>DbbThread\<close>: the satellite modem. A serial line is a
    script of what the next calls of \<open>select\<close>, \<open>read\<close>, \<open>write\<close> and \<open>open\<close> do and a log of what was
    written; the chains of AT commands of both modems are one locale. \<open>DbbLive\<close>: the state machine makes
    progress on a line whose modem answers. \<open>Gpio\<close>, \<open>Lora\<close>, \<open>Eth4g\<close>: the
    pins, the LoRa module and the 4G modem. \<open>Console\<close>, \<open>DebugText\<close>: every console
    command, and the debug messages that some of them switch.
  \<^item> \<open>Tty\<close>: which commands are registered where, with their syntax, and what is written of the
    configuration. \<open>Getopt\<close>, \<open>Cli\<close>: the command line as \<open>getopt_long\<close> reads it, and the start of
    the console with the events of the library calls; what the options amount to. \<open>Boot\<close>: \<open>main\<close> from its
    arguments to the running threads, which find the start state \<open>gateway_boot\<close> of \<open>Gateway\<close>.

  How the state corresponds to the code. Each global struct is a record with the source's field
  names (prefixed where two structs share one), machine integers keep their width, a double is a
  \<open>dbl\<close>, a static buffer is a list with its length. An effect outside the process is a log
  (\<open>dev_out\<close>, \<open>tx_log\<close>, \<open>file_log\<close>, \<open>io_log\<close>, \<open>sh_log\<close>), what a system call may answer is a script, and
  all theorems hold for every script. What the scan of a buffer makes the program do is a list of
  events (\<open>raw_event\<close>), which \<open>Gateway\<close> carries out. Undefined behaviour of C that the code can
  reach (the overflow of the date computation, \<open>fclose (NULL)\<close>, a write past an array of the NMEA
  parser) is the value \<open>None\<close> or \<open>Undefined\<close>. The target is a 32-bit ARM board: \<open>int\<close>, \<open>long\<close> and
  \<open>size_t\<close> have 32 bits, and \<open>time_t\<close> is taken to be wide enough for the dates of the sentences.

  What the properties show, in their order here: from the receiver to the network client, the
  values of a message or position and the frame that carries them; the commands of the clients; the checksum and
  the scan; the receive path; the NMEA sentences; frames and transports; the satellite modem; the 4G modem; and the
  start of the program, observations, positions, files and console commands. Several properties state
  what the code does where this is not what it means to do; the findings of the manifest list them.

  Bounds. \<open>RAW_FUEL\<close> (8193 iterations) covers every scan of the 8192-byte buffer: by \<open>scan_terminates\<close>
  it is enough whenever the scan does not come to a valid packet with an empty payload, and no fuel
  is enough when it does. All other loops are recursions with a termination proof.

  Parameters of the model. The character conversions of \<open>iconv\<close> (\<open>charset\<close>), the calendar functions
  behind the date of a summary line (\<open>utc\<close>), the clock (\<open>now\<close>, and the record \<open>clock\<close> with the seconds
  of the system, \<open>mktime\<close> and the result of \<open>settimeofday\<close>), the environment (\<open>env\<close>, and \<open>cli_env\<close> for the start) and the
  time stamp in a file name are arguments; nothing is assumed of them, but for the hypothesis of
  \<open>position_reaches_client\<close> that \<open>mktime\<close> leaves the fields of the date as they are. \<open>timegm\<close> is
  the proleptic Gregorian calendar.

  Not modelled. The command interpreter and event loop of the console, a library of which only the
  headers are in the repository: \<open>Cli\<close> records its calls, and what the commands of a configuration
  file do to the settings before the threads start is a parameter of \<open>main_prog\<close>. Which debug messages
  the modem threads print (\<open>DebugText\<close> has the functions that print them). Of the
  blocking calls of the transports only their results are modelled, not how long they wait. Data
  races on the control blocks are modelled only as interleavings of whole handlers, and in
  \<open>MqttThreads\<close> and \<open>TcpThreads\<close> of the steps between two system calls.
\<close>

section \<open>From the receiver to the network client\<close>

text \<open>C1: For each of the eight ephemeris messages, a packet that carries the raw fields \<open>vs\<close> and arrives in an otherwise empty buffer is scanned to the end, and the scan reports this message with exactly the values that the protocol table assigns to those fields (scale factors, signs, units); it counts the payload length as consumed.\<close>

theorem ephemeris_packet_reported:
  assumes "length vs = length (eph_layout t)"
  shows "\<exists>evs e. handle_gnss_raw RAW_FUEL cfg net
        (raw_packet1 (eph_packet_type t) (payload_of (eph_layout t) vs) @ rest)
        (length (payload_of (eph_layout t) vs) + RAW1_SIZE) = Some (evs, length (payload_of (eph_layout t) vs))
     \<and> e \<in> set evs \<and> event_values e = Some (t, interpret_fields (eph_layout t) (masked (eph_layout t) vs))"
proof -
  let ?pl = "payload_of (eph_layout t) vs"
  let ?p = "raw_packet1 (eph_packet_type t) ?pl @ rest" and ?n = "length ?pl"
  have "0 < ?n" "?n < 65536" "9 \<le> RAW_FUEL"
    using payload_of_sizes [OF assms] by (simp_all add: RAW_FUEL_def DATA_RAW_SIZE_def)
  note s = scan_single_packet [OF this, of cfg net "eph_packet_type t" rest]
  have h: "handle_packet1 cfg net (eph_packet_type t) ?n c ?p =
      eph_report t c ?p @ eph_record t cfg ?p @ on_net net t (eph_struct t ?p) (eph_trim t)" for c
    by (rule handle_packet1_eph) (simp add: payload_of_length [OF assms])
  obtain e where "e \<in> set (eph_report t (rtk_crc24q ?p (?n + 8)) ?p)" "event_values e = Some (t, packet_values t ?p)"
    using eph_report_ok(3) by blast
  then show ?thesis using s unfolding h packet_values_pack [OF assms] by auto
qed

theorem ephemeris_packet_reported_witness:
  "\<exists>evs e. handle_gnss_raw RAW_FUEL (cfg_ephb (data_cfg gnss_ctrl_init)) glob_comm_config_init (raw_packet1 1 (payload_of (eph_layout BD2EPH) [0..<31]) @ [7])
       (67 + 11) = Some (evs, 67) \<and> e \<in> set evs
     \<and> event_values e = Some (BD2EPH, interpret_fields (eph_layout BD2EPH) (masked (eph_layout BD2EPH) [0..<31]))"
proof -
  have l: "length [0..<31] = length (eph_layout BD2EPH)" by (simp add: bd2_layout_def)
  have n: "length (payload_of (eph_layout BD2EPH) [0..<31]) = 67"
    using payload_of_length [OF l] eph_layout_bits [of BD2EPH] by simp
  show ?thesis using ephemeris_packet_reported [OF l, of "cfg_ephb (data_cfg gnss_ctrl_init)" glob_comm_config_init "[7]"]
    unfolding n by (simp only: eph_packet_type.simps RAW_BD2EPHB_def RAW1_SIZE_def)
qed



text \<open>C3: From the serial port to the socket, for positions: the text of an RMC sentence arrives while no binary packet can be pending (the raw buffer holds no letter H, which both headers contain). Then a position frame is queued for the client; the client's acceptance test reads from it the command code and a longitude and a latitude that differ from the degrees and minutes in the text by at most \<open>(\<bar>x\<bar> + 4) * 2 ^ -53\<close> degrees, and the time of the sentence in milliseconds. The system clock is touched only by a valid report, and only when it is off by more than ten seconds. (\<open>mktime\<close> is assumed to leave a normalised date as it is.)\<close>

theorem position_reaches_client:
  assumes "gateway_inv s" "parseDataType (gw_ctrl s) = GNSS_DATA_AUTO" "0x48 \<notin> set (raw_pending (gw_ctrl s))"
    and "rmc_report_ok r" "list_all plain (rr_talker r)" "length (nmea_sentence_of (rmc_fields r)) \<le> 95"
    and "snd (ck_mktime ck (report_tm r)) = report_tm r"
    and "last_peer_valid (udp_ctx (gw_comm s))" "udp_count (udp_ctx (gw_comm s)) < COMM_UDP_QUEUE_CAPACITY"
  shows "\<exists>s' lon lat. gateway_receive utc ck (bytes_of_string (nmea_sentence_of (rmc_fields r) @ [CR, LF])) s = Some s'
     \<and> near lon (angle (rr_lon r) (rr_east r)) \<and> near lat (angle (rr_lat r) (rr_north r))
     \<and> udp_elems (udp_ctx (gw_comm s')) = udp_elems (udp_ctx (gw_comm s)) @
         [(net_frame (comm_cfg (gw_comm s)) SEND_CMD_POS (report_bytes r lon lat), last_peer (udp_ctx (gw_comm s)))]
     \<and> rx_frame (net_frame (comm_cfg (gw_comm s)) SEND_CMD_POS (report_bytes r lon lat) @ rest) 34 =
         Some (SEND_CMD_POS, report_bytes r lon lat)
     \<and> gw_clock s' = gw_clock s @ clock_change ck r"
proof -
  have "length (report_bytes r lon lat) = 24" for lon lat by (simp add: report_bytes_def le64_def)
  then have "rx_frame (net_frame (comm_cfg (gw_comm s)) SEND_CMD_POS (report_bytes r lon lat) @ rest) 34 =
      Some (SEND_CMD_POS, report_bytes r lon lat)" for lon lat
    by (intro rx_net_frame) (simp_all add: NET_FRAME_SIZE_def)
  with receive_report [OF assms, of utc] show ?thesis by blast
qed

theorem position_reaches_client_witness:
  "\<exists>s' lon lat. gateway_receive (\<lambda>_. []) \<lparr>ck_now = 0, ck_mktime = \<lambda>t. (timegm t, t), ck_settime = True\<rparr>
       (bytes_of_string (nmea_sentence_of (rmc_fields \<lparr>rr_talker = ''GN'', rr_time = ''123519'', rr_subsec = ''50'', rr_valid = True,
          rr_lat = (''48'', ''07'', ''038''), rr_north = True, rr_lon = (''011'', ''31'', ''000''), rr_east = False,
          rr_speed = ''022.4'', rr_course = [], rr_date = ''230325'', rr_variation = []\<rparr>) @ [CR, LF]))
       (gateway_connected glob_comm_config_init no_peer) = Some s'
     \<and> near lon (- (11 + 31 / 60)) \<and> near lat (48 + 7038 / 60000)
     \<and> udp_count (udp_ctx (gw_comm (gateway_connected glob_comm_config_init no_peer))) = 0
     \<and> (\<exists>d. udp_elems (udp_ctx (gw_comm s')) = [(net_frame glob_comm_config_init SEND_CMD_POS d, no_peer)])
     \<and> gw_clock s' = [Clock_set 1742733319 500000]"
proof -
  let ?r = "\<lparr>rr_talker = ''GN'', rr_time = ''123519'', rr_subsec = ''50'', rr_valid = True,
          rr_lat = (''48'', ''07'', ''038''), rr_north = True, rr_lon = (''011'', ''31'', ''000''), rr_east = False,
          rr_speed = ''022.4'', rr_course = [], rr_date = ''230325'', rr_variation = []\<rparr>"
  let ?ck = "\<lparr>ck_now = 0, ck_mktime = \<lambda>t. (timegm t, t), ck_settime = True\<rparr>"
  let ?s = "gateway_connected glob_comm_config_init no_peer"
  have d: "digits_value ''48'' = 48" "digits_value ''07038'' = 7038" "digits_value ''011'' = 11" "digits_value ''31000'' = 31000"
    "digits_value ''4807038'' = 4807038" "digits_value ''01131000'' = 1131000" "digits_value ''0224'' = 224"
    by (simp_all add: digits_value_def ccode_def)
  have a: "angle (''48'', ''07'', ''038'') True = 48 + 7038 / 60000" "angle (''011'', ''31'', ''000'') False = - (11 + 31 / 60)"
    by (simp_all add: coord_degrees_def d)
  have "list_all isdigit ''0123456789''" "list_all minmea_isfield ''GN''" "\<not> isdigit CHR ''.''" by code_simp+
  then have ok: "rmc_report_ok ?r" by (simp add: rmc_report_ok_def coord_ok_def decimal_text_def INT_MAX_def d)
  have plain: "list_all plain (rr_talker ?r)" by code_simp
  have len: "length (nmea_sentence_of (rmc_fields ?r)) \<le> 95" by code_simp
  have ck: "snd (ck_mktime ?ck (report_tm ?r)) = report_tm ?r" by simp
  have c: "clock_change ?ck ?r = [Clock_set 1742733319 500000]" by code_simp
  have i: "gateway_inv ?s" "parseDataType (gw_ctrl ?s) = GNSS_DATA_AUTO" "0x48 \<notin> set (raw_pending (gw_ctrl ?s))"
    "last_peer_valid (udp_ctx (gw_comm ?s))" "udp_count (udp_ctx (gw_comm ?s)) < COMM_UDP_QUEUE_CAPACITY"
    by (simp_all add: gateway_connected_inv gnss_ctrl_init_def raw_pending_def COMM_UDP_QUEUE_CAPACITY_def)
  have k: "gw_clock ?s = []" by (simp add: gateway_connected_def gateway_boot_def Let_def)
  have e: "udp_elems (udp_ctx (gw_comm ?s)) = []" "comm_cfg (gw_comm ?s) = glob_comm_config_init"
    "last_peer (udp_ctx (gw_comm ?s)) = no_peer" "udp_count (udp_ctx (gw_comm ?s)) = 0" by simp_all
  from position_reaches_client [OF i(1-3) ok plain len ck i(4,5), of "\<lambda>_. []" "[]"]
  show ?thesis by (simp only: a c k e rmc_report.select_convs append_Nil) blast
qed



section \<open>Commands of the network client\<close>

text \<open>C5: The command that sets the ephemeris switches, as a client's datagram: the switches take the value that was sent, the recorded output of every message type but CNAV2 follows its switch when the receiver's port works, and a frame with the new switches is queued for this client. What is recorded about the CNAV2 messages never changes: eight commands go to the receiver, and the one for them carries the misspelt name BD3CANV2EPHB, which the configuration does not know.\<close>

theorem set_eph_sw_command:
  assumes "dev_ok (gworld w)" "udp_inv (udp_ctx w)" "udp_count (udp_ctx w) < COMM_UDP_QUEUE_CAPACITY"
    and w': "w' = udp_rx_datagram (net_frame cfg REV_CMD_SET_EPH_SW [lo, hi]) stale peer w"
  shows "eph_sw (comm_cfg w') = rd16 [lo, hi] 0
     \<and> (\<forall>t. t \<noteq> BD3CNAV2EPH \<longrightarrow> eph_output (eph_info t (gctrl (gworld w'))) = (if bit (rd16 [lo, hi] 0) (sw_bit t) then 1 else 0))
     \<and> udp_elems (udp_ctx w') = udp_elems (udp_ctx w) @ [(net_frame (comm_cfg w') SEND_CMD_EPH_SW [lo, hi], peer)]
     \<and> eph_info BD3CNAV2EPH (gctrl (gworld w')) = eph_info BD3CNAV2EPH (gctrl (gworld w))
     \<and> length (dev_out (gworld w')) = length (dev_out (gworld w)) + 8
     \<and> dev_out (gworld w') ! (length (dev_out (gworld w)) + 6) =
         cfg_command ''BD3CANV2EPHB'' (sw_enable (comm_cfg w') BD3CNAV2EPH) (output_freq (comm_cfg w'))"
proof -
  let ?w1 = "w\<lparr>udp_ctx := (udp_ctx w)\<lparr>last_peer := peer, last_peer_valid := True\<rparr>\<rparr>"
  let ?w2 = "?w1\<lparr>comm_cfg := (comm_cfg w)\<lparr>eph_sw := rd16 [lo, hi] 0\<rparr>\<rparr>"
  have s: "le16 (rd16 [lo, hi] 0) = [lo, hi]" by (rule le16_rd16) simp
  have r: "w' = snd (net_send COMM_SERVICE_UDP SEND_CMD_EPH_SW [lo, hi] (update_eph_sw ?w2))"
    unfolding w' by (subst udp_rx_frame [OF refl]) (simp_all add: rev_process_def s)
  obtain c where c: "net_send COMM_SERVICE_UDP SEND_CMD_EPH_SW [lo, hi] (update_eph_sw ?w2) = (0, (update_eph_sw ?w2)\<lparr>udp_ctx := c\<rparr>)"
    "udp_elems c = udp_elems (udp_ctx w) @ [(net_frame (comm_cfg ?w2) SEND_CMD_EPH_SW [lo, hi], peer)]"
    using net_send_udp [of "update_eph_sw ?w2" SEND_CMD_EPH_SW "[lo, hi]"] assms(2,3) by (auto simp: udp_ctx_upd)
  have "eph_output (eph_info t (gctrl (gworld (update_eph_sw ?w2)))) = sw_enable (comm_cfg ?w2) t" if "t \<noteq> BD3CNAV2EPH" for t
    by (rule eph_output_update_eph_sw) (use assms(1) that in simp_all)
  moreover have d: "dev_ok (gworld ?w2)" using assms(1) by simp
  ultimately show ?thesis unfolding r c(1) using c(2) eph_output_cnav2 [OF d] update_eph_sw_ok(2) [OF d]
    by (simp add: sw_enable_def eph_sw_on_def nth_append)
qed

theorem set_eph_sw_command_witness:
  "let w = (gw_comm gateway_boot)\<lparr>gworld := \<lparr>gctrl = gnss_ctrl_init\<lparr>gnss_fd := 5\<rparr>, dev_out = [], dev_script = []\<rparr>\<rparr>;
       w' = udp_rx_datagram (net_frame glob_comm_config_init REV_CMD_SET_EPH_SW [2, 0]) [] no_peer w
   in eph_sw (comm_cfg w') = 2 \<and> eph_output (eph_info BD2EPH (gctrl (gworld w'))) = 1
      \<and> eph_output (eph_info GPSEPH (gctrl (gworld w'))) = 0
      \<and> udp_elems (udp_ctx w') = [(net_frame (comm_cfg w') SEND_CMD_EPH_SW [2, 0], no_peer)]"
proof -
  let ?w = "(gw_comm gateway_boot)\<lparr>gworld := \<lparr>gctrl = gnss_ctrl_init\<lparr>gnss_fd := 5\<rparr>, dev_out = [], dev_script = []\<rparr>\<rparr>"
  have r: "rd16 [2, 0] 0 = 2" by (simp add: rd16_def)
  have d: "dev_ok (gworld ?w)" "udp_inv (udp_ctx ?w)" "udp_count (udp_ctx ?w) < COMM_UDP_QUEUE_CAPACITY"
    "udp_elems (udp_ctx ?w) = []"
    by (simp_all add: dev_ok_def COMM_UDP_QUEUE_CAPACITY_def)
  note s = set_eph_sw_command [OF d(1-3) refl, of glob_comm_config_init 2 0 "[]" no_peer, unfolded r d(4)]
  have "bit (2 :: u16) (sw_bit BD2EPH)" "\<not> bit (2 :: u16) (sw_bit GPSEPH)" by simp_all
  with s show ?thesis unfolding Let_def by (metis append_Nil EPH_Type_t.distinct)
qed

section \<open>Checksums and the binary scan\<close>

text \<open>C6: The table-driven checksum of the binary packets computes, for every message, the remainder of the bit-by-bit division by the CRC-24Q polynomial: the 256 table entries and the byte step of \<open>rtk_crc24q\<close> are right.\<close>

theorem crc24q_is_polynomial_division:
  "rtk_crc24q buff len = crc24_ref (take len buff)"
  by (rule rtk_crc24q_ref)

text \<open>C7: A packet that the scan would accept is rejected once its payload is damaged within three neighbouring bytes, whatever the damage: no such error slips through the checksum test.\<close>

theorem damaged_payload_rejected:
  assumes "valid_packet1 data len i" "n = unat (rd16 (drop i data) 6)"
    and "i + 8 \<le> k" "k + 3 \<le> i + 8 + n" "len \<le> length data" "[x, y, z] \<noteq> take 3 (drop k data)"
  shows "raw_body cfg net (take k data @ [x, y, z] @ drop (k + 3) data) len i cnt = ([], i, cnt)"
proof -
  let ?e = "take k data @ [x, y, z] @ drop (k + 3) data"
  have "rd32 (drop i ?e) 0 = rd32 (drop i data) 0"
    using assms(1-5) by (intro damage_keeps_header) (simp_all add: valid_packet1_def RAW1_SIZE_def)
  then have "\<not> valid_packet2 ?e len i"
    using headers_differ assms(1) by (metis valid_packet1_def valid_packet2_def)
  with damaged_packet_rejected [OF assms] show ?thesis by (simp only: raw_body_cases if_False)
qed

theorem damaged_payload_rejected_witness:
  "raw_body (cfg_ephb (data_cfg gnss_ctrl_init)) glob_comm_config_init (take 8 (raw_packet1 205 [1, 2, 3, 4] @ [0]) @ [9, 2, 3] @ drop 11 (raw_packet1 205 [1, 2, 3, 4] @ [0])) 15 0 0
     = ([], 0, 0)"
proof -
  let ?d = "raw_packet1 205 [1, 2, 3, 4] @ [0]"
  have v: "valid_packet1 ?d 15 0" by (rule valid_raw_packet1) (simp_all add: RAW1_SIZE_def)
  have n: "4 = unat (rd16 (drop 0 ?d) 6)"
    using raw_packet1_parts(3) [of "[1, 2, 3, 4]" 205 "[0]"] by (simp only: drop_0) simp
  have t: "take 3 (drop 8 ?d) = [1, 2, 3]" by (simp add: raw_packet1_def Let_def le32_def le16_def)
  have "[9, 2, 3] \<noteq> take 3 (drop 8 ?d)" unfolding t by simp
  from damaged_payload_rejected [OF v n _ _ _ this] show ?thesis by (simp add: length_raw_packet1 RAW1_SIZE_def)
qed



text \<open>C9: The scan of at most 8192 bytes ends, within the fuel of the model, exactly if it does not come to a valid packet with an empty payload; on its way to such a packet no number of iterations is enough, because the index goes back to where it was. A valid packet with an empty payload at the front of the data is such a case.\<close>

theorem scan_terminates:
  assumes "len \<le> DATA_RAW_SIZE" "RAW1_SIZE \<le> len"
  shows "(if \<exists>j. scan_reaches data len 0 j \<and> zero_packet data len j
      then \<forall>fuel. handle_gnss_raw fuel cfg net data len = None
      else \<exists>evs cnt. handle_gnss_raw RAW_FUEL cfg net data len = Some (evs, cnt) \<and> cnt \<le> len)
    \<and> (rest \<noteq> [] \<longrightarrow> zero_packet (raw_packet1 type [] @ rest) (RAW1_SIZE + length rest) 0)"
proof
  have f: "RAW_FUEL = Suc DATA_RAW_SIZE" by (simp add: RAW_FUEL_def)
  have "\<exists>evs cnt. handle_gnss_raw RAW_FUEL cfg net data len = Some (evs, cnt) \<and> cnt \<le> len"
    if "\<not> (\<exists>j. scan_reaches data len 0 j \<and> zero_packet data len j)"
    using scan_ends_iff(1) [OF assms, of cfg net data] that handle_raw_count unfolding f by fastforce
  then show "if \<exists>j. scan_reaches data len 0 j \<and> zero_packet data len j
      then \<forall>fuel. handle_gnss_raw fuel cfg net data len = None
      else \<exists>evs cnt. handle_gnss_raw RAW_FUEL cfg net data len = Some (evs, cnt) \<and> cnt \<le> len"
    using scan_ends_iff(2) [OF assms] by auto
next
  have "rd16 (drop 0 (raw_packet1 type [] @ rest)) 6 = 0"
    using raw_packet1_parts(3) [of "[]" type rest] by (simp add: unat_eq_0)
  then show "rest \<noteq> [] \<longrightarrow> zero_packet (raw_packet1 type [] @ rest) (RAW1_SIZE + length rest) 0"
    by (auto simp: zero_packet_def intro!: valid_raw_packet1)
qed

theorem scan_terminates_witness:
  "handle_gnss_raw RAW_FUEL (cfg_ephb (data_cfg gnss_ctrl_init)) glob_comm_config_init (raw_packet1 1 [] @ [0]) 12 = None
   \<and> (\<exists>evs cnt. handle_gnss_raw RAW_FUEL (cfg_ephb (data_cfg gnss_ctrl_init)) glob_comm_config_init (replicate 20 0) 20 = Some (evs, cnt) \<and> cnt \<le> 20)"
proof
  have l: "(12 :: nat) \<le> DATA_RAW_SIZE" "RAW1_SIZE \<le> 12" "(20 :: nat) \<le> DATA_RAW_SIZE" "RAW1_SIZE \<le> 20"
    by (simp_all add: DATA_RAW_SIZE_def RAW1_SIZE_def)
  have z: "zero_packet (raw_packet1 1 [] @ [0]) 12 0"
    using scan_terminates [OF l(1,2), where rest = "[0]" and type = 1] by (simp add: RAW1_SIZE_def)
  then have "\<exists>j. scan_reaches (raw_packet1 1 [] @ [0]) 12 0 j \<and> zero_packet (raw_packet1 1 [] @ [0]) 12 j"
    using scan_reaches.here by blast
  then show "handle_gnss_raw RAW_FUEL (cfg_ephb (data_cfg gnss_ctrl_init)) glob_comm_config_init (raw_packet1 1 [] @ [0]) 12 = None"
    using scan_terminates [OF l(1,2), of "raw_packet1 1 [] @ [0]" "cfg_ephb (data_cfg gnss_ctrl_init)" glob_comm_config_init "[0]" 1]
    by simp
  have "\<not> zero_packet (replicate 20 0) 20 j" for j
  proof
    assume "zero_packet (replicate 20 0) 20 j"
    then have j: "j < 9" "rd32 (drop j (replicate 20 0)) 0 = Header1"
      by (simp_all add: zero_packet_def valid_packet1_def RAW1_SIZE_def)
    have "rd32 (drop j (replicate 20 0)) 0 = 0" using j(1) by (simp add: rd32_def)
    with j(2) show False by (simp add: Header1_def)
  qed
  then show "\<exists>evs cnt. handle_gnss_raw RAW_FUEL (cfg_ephb (data_cfg gnss_ctrl_init)) glob_comm_config_init (replicate 20 0) 20 = Some (evs, cnt) \<and> cnt \<le> 20"
    using scan_terminates [OF l(3,4), of "replicate 20 0" "cfg_ephb (data_cfg gnss_ctrl_init)" glob_comm_config_init "[0]" 1]
    by simp
qed

section \<open>The receive path of the GNSS thread\<close>



text \<open>C11: The raw buffer as a stream: as long as the new bytes fit, the scan sees the pending bytes followed by the new ones, and what stays pending afterwards is exactly that stream without the bytes that the scan counted as consumed.\<close>

theorem raw_bytes_are_a_stream:
  assumes inv: "gnss_ctrl_inv g" and fit: "length (raw_pending g) + length buf \<le> DATA_RAW_SIZE" "data_raw_len g < DATA_RAW_SIZE"
    and r: "gnss_handle_raw_bytes net buf g = Some (g', evs)"
  shows "\<exists>data n. take n data = raw_pending g @ buf \<and> n = length (raw_pending g @ buf)
     \<and> (\<exists>c. handle_gnss_raw RAW_FUEL (cfg_ephb (data_cfg g)) net data n = Some (evs, c)
          \<and> raw_pending g' = drop c (raw_pending g @ buf))"
proof -
  let ?h = "raw_append buf g"
  have l: "length (raw_pending g) = data_raw_len g" using inv by (simp add: raw_pending_def gnss_ctrl_inv_def)
  have p: "raw_pending ?h = raw_pending g @ buf"
    using raw_pending_append [OF inv, of buf] fit l by simp
  have "gnss_ctrl_inv ?h" by (rule raw_append_inv(1) [OF inv])
  then have "data_raw_len ?h = length (raw_pending g @ buf)"
    unfolding p [symmetric] by (simp add: raw_pending_def gnss_ctrl_inv_def)
  moreover have "take (data_raw_len ?h) (data_raw ?h) = raw_pending g @ buf" using p by (simp add: raw_pending_def)
  ultimately show ?thesis using handle_raw_bytes_step [OF inv r] unfolding p by metis
qed

theorem raw_bytes_are_a_stream_witness:
  "\<exists>g' data c. gnss_handle_raw_bytes glob_comm_config_init [1, 2, 3] gnss_ctrl_init = Some (g', [])
     \<and> take 3 data = [1, 2, 3] \<and> handle_gnss_raw RAW_FUEL (cfg_ephb (data_cfg gnss_ctrl_init)) glob_comm_config_init data 3 = Some ([], c)
     \<and> raw_pending g' = drop c [1, 2, 3]"
proof -
  have l: "raw_pending gnss_ctrl_init = []" "data_raw_len gnss_ctrl_init = 0"
    by (simp_all add: raw_pending_def gnss_ctrl_init_def)
  have n: "data_raw_len (raw_append [1, 2, 3] gnss_ctrl_init) = 3"
    by (simp add: raw_append_def Let_def l(2) DATA_RAW_SIZE_def)
  have r: "gnss_handle_raw_bytes glob_comm_config_init [1, 2, 3] gnss_ctrl_init =
      Some (raw_consume 0 (raw_append [1, 2, 3] gnss_ctrl_init), [])"
    by (simp add: gnss_handle_raw_bytes_def Let_def handle_gnss_raw_def n RAW1_SIZE_def)
  have f: "length (raw_pending gnss_ctrl_init) + length [1, 2, 3 :: u8] \<le> DATA_RAW_SIZE"
    "data_raw_len gnss_ctrl_init < DATA_RAW_SIZE"
    by (simp_all add: l DATA_RAW_SIZE_def)
  have three: "length [1, 2, 3 :: u8] = 3" by simp
  from raw_bytes_are_a_stream [OF gnss_ctrl_init_inv f r] obtain data c where "take 3 data = [1, 2, 3]"
    "handle_gnss_raw RAW_FUEL (cfg_ephb (data_cfg gnss_ctrl_init)) glob_comm_config_init data 3 = Some ([], c)"
    "raw_pending (raw_consume 0 (raw_append [1, 2, 3] gnss_ctrl_init)) = drop c [1, 2, 3]"
    unfolding l(1) append_Nil three by blast
  with r show ?thesis by blast
qed

text \<open>C12: In the automatic mode an NMEA sentence of at most 94 characters after the dollar sign is handed on exactly once and unchanged, whatever text was pending before and wherever the stream is split between two reads.\<close>

theorem nmea_sentence_delivered:
  assumes "CHR ''$'' \<notin> set s" "CR \<notin> set s" "LF \<notin> set s" "NUL \<notin> set s" "length s \<le> 94"
    and "xs @ ys = bytes_of_string (CHR ''$'' # s @ [CR, LF])"
    and "gnss_handle_nmea_bytes xs True g = (g1, ss1)" "gnss_handle_nmea_bytes ys True g1 = (g2, ss2)"
  shows "ss1 @ ss2 = [CHR ''$'' # s] \<and> data_nmea g2 = []"
proof -
  have "string_of_bytes xs @ string_of_bytes ys = CHR ''$'' # s @ [CR, LF]"
    using arg_cong [OF assms(6), of string_of_bytes]
    by (simp only: string_of_bytes_of_string) (simp add: string_of_bytes_def)
  then have "nmea_chars True (string_of_bytes xs @ string_of_bytes ys) (data_nmea g) = ([], [CHR ''$'' # s])"
    using nmea_sentence [of s "data_nmea g"] assms(1-5) by (simp add: nmea_size)
  then show ?thesis using assms(7,8)
    by (auto simp: nmea_chars_append gnss_handle_nmea_bytes_def Let_def split: prod.splits)
qed

theorem nmea_sentence_delivered_witness:
  "\<exists>g1 g2. gnss_handle_nmea_bytes (bytes_of_string ''$GPG'') True gnss_ctrl_init = (g1, [])
     \<and> gnss_handle_nmea_bytes (bytes_of_string (''GA'' @ [CR, LF])) True g1 = (g2, [''$GPGGA'']) \<and> data_nmea g2 = []"
proof -
  let ?g = gnss_ctrl_init
  have a: "gnss_handle_nmea_bytes (bytes_of_string ''$GPG'') True ?g = (?g\<lparr>data_nmea := ''$GPG''\<rparr>, [])"
    by (simp add: gnss_handle_nmea_bytes_def string_of_bytes_of_string nmea_char_eq nmea_size CR_def LF_def)
  obtain g2 ss where b: "gnss_handle_nmea_bytes (bytes_of_string (''GA'' @ [CR, LF])) True (?g\<lparr>data_nmea := ''$GPG''\<rparr>) = (g2, ss)"
    by fastforce
  have "[] @ ss = [CHR ''$'' # ''GPGGA''] \<and> data_nmea g2 = []"
    by (rule nmea_sentence_delivered [OF _ _ _ _ _ _ a b]) (simp_all add: CR_def LF_def NUL_def bytes_of_string_def)
  with a b show ?thesis by auto
qed

text \<open>C13: Conversely, every sentence that the automatic mode hands on starts with its only dollar sign, has at most 95 characters and contains no line end and no NUL, whatever bytes arrive (the text pending before being of that kind, as it is from the start).\<close>

theorem nmea_sentences_wellformed:
  assumes "gnss_handle_nmea_bytes buf True g = (g', ss)" "nmea_text (data_nmea g)" "data_nmea_len g \<le> 95"
  shows "nmea_text (data_nmea g') \<and> (\<forall>x \<in> set ss. \<exists>r. x = CHR ''$'' # r \<and> CHR ''$'' \<notin> set r \<and> CR \<notin> set r
     \<and> LF \<notin> set r \<and> NUL \<notin> set r \<and> length x \<le> 95)"
proof -
  obtain n where "nmea_chars True (string_of_bytes buf) (data_nmea g) = (n, ss)" "data_nmea g' = n"
    using assms(1) by (auto simp: gnss_handle_nmea_bytes_def split: prod.splits)
  with nmea_chars_text [OF this(1) assms(2)] assms(3) show ?thesis by (simp add: nmea_size)
qed

theorem nmea_sentences_wellformed_witness:
  "\<exists>g' ss. gnss_handle_nmea_bytes [0x41, 0x24, 0x47, 0x0D, 0x0A] True gnss_ctrl_init = (g', ss)
     \<and> nmea_text (data_nmea g') \<and> list_all (\<lambda>x. length x \<le> 95) ss"
proof -
  obtain g' ss where r: "gnss_handle_nmea_bytes [0x41, 0x24, 0x47, 0x0D, 0x0A] True gnss_ctrl_init = (g', ss)" by fastforce
  have "nmea_text (data_nmea gnss_ctrl_init)" "data_nmea_len gnss_ctrl_init \<le> 95"
    by (simp_all add: gnss_ctrl_init_def nmea_text_def)
  from nmea_sentences_wellformed [OF r this] r show ?thesis by (auto simp: list_all_iff)
qed

section \<open>NMEA sentences\<close>

text \<open>C14: A sentence with a checksum in which one character between the dollar sign and the asterisk is replaced, by whatever character, is ignored: nothing is logged, sent or set. (A NUL is excluded because it would end the text.)\<close>

theorem damaged_sentence_ignored:
  assumes "minmea_check s False" "CHR ''*'' \<in> set s" "i < length (takeWhile (\<lambda>c. c \<noteq> CHR ''*'') s)"
    and "c \<noteq> s ! i" "c \<noteq> NUL"
  shows "handle_gnss_nmea ck (s[i := c]) w = Some w"
  by (rule handle_unchecked [OF damage_rejected [OF assms(1-4)]])

theorem damaged_sentence_ignored_witness:
  "minmea_check ''$GPGLL,4916.45,N*3B'' False \<and> (\<forall>ck w. handle_gnss_nmea ck ''$GPGLL,4976.45,N*3B'' w = Some w)"
proof -
  let ?s = "''$GPGLL,4916.45,N*3B''"
  have c: "minmea_check ?s False" by code_simp
  have "handle_gnss_nmea ck (?s[9 := CHR ''7'']) w = Some w" for ck w
    by (rule damaged_sentence_ignored [OF c]) (simp_all add: NUL_def)
  with c show ?thesis by simp
qed

text \<open>C15: The scanner of the NMEA parser, which works on a pointer into the sentence, reads the comma-separated fields one by one: it gives the same result as a scanner over the list of the fields, for every format and every sentence whose fields end at commas and at the asterisk or the end. In particular no conversion looks into the next field.\<close>

theorem scanner_reads_fields:
  assumes "list_all (list_all minmea_isfield) fs" "fs \<noteq> []" "r = [] \<or> hd r = CHR ''*''"
  shows "minmea_scan (join_fields fs @ r) format = scan_fields format fs False"
  by (rule minmea_scan_fields [OF assms])

theorem scanner_reads_fields_witness:
  "minmea_scan ''$GPGSV,12,,AB*00'' ''tii;sc'' = Parsed [Typ ''GP'' ''GSV'', Num 12, Num 0, Str ''AB'', Chr NUL]"
proof -
  have "minmea_scan (join_fields [''$GPGSV'', ''12'', [], ''AB''] @ ''*00'') ''tii;sc'' =
      scan_fields ''tii;sc'' [''$GPGSV'', ''12'', [], ''AB''] False"
    by (rule scanner_reads_fields) (code_simp, simp, simp)
  moreover have "scan_fields ''tii;sc'' [''$GPGSV'', ''12'', [], ''AB''] False =
      Parsed [Typ ''GP'' ''GSV'', Num 12, Num 0, Str ''AB'', Chr NUL]" by code_simp
  ultimately show ?thesis by simp
qed

text \<open>C16: What the scanner stores has the types of its format, in order, so the cases of the sentence parsers are complete, and the values stay in the ranges of their C types: values and scales of decimal numbers fit 32 bits and a scale is a power of ten (or zero for an empty field), directions are \<open>-1\<close>, \<open>0\<close> or \<open>1\<close>, the parts of a date or a time have two digits and microseconds are below one million, or all of them are \<open>-1\<close>.\<close>

theorem scanner_typed:
  assumes "minmea_scan sentence format = Parsed vs"
  shows "map val_type vs = filter (\<lambda>c. c \<noteq> CHR '';'' \<and> c \<noteq> CHR ''_'') format \<and> list_all val_ok vs"
  by (rule minmea_scan_typed [OF assms])

theorem scanner_typed_witness:
  "\<exists>vs. minmea_scan ''$GPRMC,123519.25,W,4807.038,,230394'' ''tTdf_D'' = Parsed vs \<and> map val_type vs = ''tTdfD'' \<and> list_all val_ok vs"
proof -
  have "minmea_scan ''$GPRMC,123519.25,W,4807.038,,230394'' ''tTdf_D'' =
     Parsed [Typ ''GP'' ''RMC'', Tim \<lparr>mt_hours = 12, mt_minutes = 35, mt_seconds = 19, mt_microseconds = 250000\<rparr>, Dir (- 1),
       Flt \<lparr>mf_value = 4807038, mf_scale = 1000\<rparr>, Dat \<lparr>md_day = 23, md_month = 3, md_year = 94\<rparr>]"
    by code_simp
  from this scanner_typed [OF this] show ?thesis by simp
qed

text \<open>C17: A sentence whose fields are short (at most ten characters each, seven in a GSV sentence) never brings the program into undefined behaviour: no scale overflows, the signal name fits its array, and \<open>abs\<close> gets no smallest integer.\<close>

theorem short_sentences_defined:
  assumes "list_all (list_all minmea_isfield) ((tk @ name) # fs)" "length tk = 2" "length name = 3"
    and "list_all (\<lambda>f. length f \<le> (if name = ''GSV'' then 7 else 10)) fs"
  shows "handle_gnss_nmea ck (nmea_sentence_of ((tk @ name) # fs)) w \<noteq> None"
  by (rule handle_short_defined [OF assms])

theorem short_sentences_defined_witness:
  "\<forall>ck w. handle_gnss_nmea ck (nmea_sentence_of [''GPZDA'', ''201530.00'', ''04'', ''07'', ''2002'', ''-05'', ''00'']) w \<noteq> None"
proof -
  have "handle_gnss_nmea ck (nmea_sentence_of ((''GP'' @ ''ZDA'') # [''201530.00'', ''04'', ''07'', ''2002'', ''-05'', ''00''])) w \<noteq> None" for ck w
    by (rule short_sentences_defined) (code_simp | simp)+
  then show ?thesis by simp
qed



section \<open>Network frames and the transports\<close>



text \<open>C20: Changing any single byte of an accepted frame, except the two bytes of its length field, makes the receiver reject it: the additive checksum and the two markers catch every such error.\<close>

theorem corrupted_frame_rejected:
  assumes "rx_frame mem len = Some (cmd, data)" "length data + NET_FRAME_SIZE \<le> length mem"
    and "k < length data + NET_FRAME_SIZE" "k \<notin> {5, 6}" "b \<noteq> mem ! k"
  shows "comm_service_receive COMM_SERVICE_UDP (mem[k := b]) len w = (- 1, w)"
  using rx_corrupt_body [OF assms] by (simp add: comm_service_receive_def)

theorem corrupted_frame_rejected_witness:
  "comm_service_receive COMM_SERVICE_UDP ((net_frame glob_comm_config_init 0xA1 [5])[7 := 6]) 11 (gw_comm gateway_boot)
     = (- 1, gw_comm gateway_boot)"
proof -
  have r: "rx_frame (net_frame glob_comm_config_init 0xA1 [5] @ []) 11 = Some (0xA1, [5])"
    by (rule rx_net_frame) (simp_all add: NET_FRAME_SIZE_def)
  have n: "net_frame glob_comm_config_init 0xA1 [5] ! 7 = 5"
    by (simp add: net_frame_def Let_def le16_def)
  show ?thesis
    by (rule corrupted_frame_rejected [OF r [unfolded append_Nil2]])
      (simp_all add: net_frame_length NET_FRAME_SIZE_def n)
qed

text \<open>C21: The UDP service under every interleaving of its threads and of the callers of \<open>comm_udp_send\<close>: frames go out in the order in which they were accepted, none is duplicated or invented, every frame goes to a client that had sent a datagram before, and the queue never holds more than 16 frames.\<close>

theorem udp_frames_in_order:
  assumes "udp_reachable cfg s"
  shows "subseq (wire s) (accepted s) \<and> prefix (popped s) (accepted s)
     \<and> (\<forall>(d, p) \<in> set (wire s). d \<noteq> [] \<and> p \<in> set (peers_seen s)) \<and> udp_count (ctx s) \<le> 16"
proof -
  have i: "udp_sys_inv s" by (rule udp_reachable_inv [OF assms])
  then have pre: "prefix (popped s) (accepted s)" by (simp add: udp_sys_inv_def)
  have "subseq (wire s) (popped s)"
    using i by (auto simp: udp_sys_inv_def split: option.splits dest: list_emb_prefix)
  then have sub: "subseq (wire s) (accepted s)"
    using pre sublist_imp_subseq [OF prefix_imp_sublist] subseq_order.order_trans by blast
  moreover have "set (wire s) \<subseteq> set (accepted s)" using list_emb_set [OF sub] by blast
  moreover have "udp_count (ctx s) \<le> 16"
    using i by (simp add: udp_sys_inv_def udp_inv_def ring_ok_def COMM_UDP_QUEUE_CAPACITY_def)
  moreover have "\<forall>(d, p) \<in> set (accepted s). d \<noteq> [] \<and> p \<in> set (peers_seen s)"
    using i by (simp add: udp_sys_inv_def)
  ultimately show ?thesis using pre sub by blast
qed

theorem udp_frames_in_order_witness:
  "\<exists>s. udp_reachable None s \<and> peers_seen s = [no_peer] \<and> subseq (wire s) (accepted s)"
proof -
  let ?s = "(udp_start None)\<lparr>ctx := (ctx (udp_start None))\<lparr>last_peer := no_peer, last_peer_valid := True\<rparr>,
      peers_seen := peers_seen (udp_start None) @ [no_peer]\<rparr>"
  have r: "udp_reachable None ?s" by (rule udp_reachable.step [OF udp_reachable.init udp_step.rx_datagram])
  moreover have "peers_seen ?s = [no_peer]" by (simp add: udp_start_def)
  ultimately show ?thesis using udp_frames_in_order [OF r] by blast
qed

text \<open>C22: The circular arrays of the UDP and the TCP service implement a bounded first-in first-out queue: for every sequence of submissions and deliveries from the initial state, what was delivered is a prefix of what was accepted, at most 16 elements are waiting, and enough deliveries hand out all of them.\<close>

theorem queues_are_bounded_fifos:
  "(case udp.run ops g_comm_udp_ctx of (acc, del, c) \<Rightarrow> prefix del acc \<and> length acc \<le> length del + 16
      \<and> fst (snd (udp.run (replicate 16 Deliver) c)) = drop (length del) acc)
   \<and> (case tcp.run ops' g_comm_tcp_ctx of (acc, del, c) \<Rightarrow> prefix del acc \<and> length acc \<le> length del + 16
      \<and> fst (snd (tcp.run (replicate 16 Deliver) c)) = drop (length del) acc)"
proof
  obtain acc del c where r: "udp.run ops g_comm_udp_ctx = (acc, del, c)" using prod_cases3 by blast
  note p = udp.run_prefix [OF udp_init_inv r] udp.run_fifo [OF udp_init_inv(1) r]
  have n: "length (udp_elems c) \<le> 16" using p(3) udp.inv_cap by (auto simp: COMM_UDP_QUEUE_CAPACITY_def)
  obtain t where "udp.run (replicate 16 Deliver) c = ([], udp_elems c, t)"
    using udp.run_drain [OF _ n] p(3) by blast
  with r p show "case udp.run ops g_comm_udp_ctx of (acc, del, c) \<Rightarrow> prefix del acc \<and> length acc \<le> length del + 16
      \<and> fst (snd (udp.run (replicate 16 Deliver) c)) = drop (length del) acc"
    by (simp add: udp_init_inv COMM_UDP_QUEUE_CAPACITY_def)
next
  obtain acc del c where r: "tcp.run ops' g_comm_tcp_ctx = (acc, del, c)" using prod_cases3 by blast
  note p = tcp.run_prefix [OF tcp_init_inv r] tcp.run_fifo [OF tcp_init_inv(1) r]
  have n: "length (tcp_elems c) \<le> 16" using p(3) tcp.inv_cap by (auto simp: COMM_TCP_QUEUE_CAPACITY_def)
  obtain t where "tcp.run (replicate 16 Deliver) c = ([], tcp_elems c, t)"
    using tcp.run_drain [OF _ n] p(3) by blast
  with r p show "case tcp.run ops' g_comm_tcp_ctx of (acc, del, c) \<Rightarrow> prefix del acc \<and> length acc \<le> length del + 16
      \<and> fst (snd (tcp.run (replicate 16 Deliver) c)) = drop (length del) acc"
    by (simp add: tcp_init_inv COMM_TCP_QUEUE_CAPACITY_def)
qed

text \<open>C23: The TCP service under every interleaving of its three threads and of the callers of \<open>comm_tcp_send\<close>, whatever the network does: the frames leave the queue in the order in which they were accepted, at most 16 wait; every write is a frame of its own or, when it fails, the first part of one, in that order, so that no frame is written twice or mixed with another; a descriptor is closed only while it is open, and the open ones are at any time exactly those that the service holds (at most the client's and one that was just accepted), so none is lost when clients follow each other. (Not excluded, and shown for the witness: the receive thread can close the client that has just replaced the one it was reading from, and a frame can go to a descriptor that is closed by then.)\<close>

theorem tcp_service_invariant:
  assumes "tcp_reachable port s"
  shows "tc_accepted s = tc_popped s @ tcp_elems (tc_ctx s) \<and> length (tcp_elems (tc_ctx s)) \<le> COMM_TCP_QUEUE_CAPACITY
     \<and> delivered (fd_writes (tc_log s)) (tc_popped s)
     \<and> open_fds (tc_log s) = Some (tcp_held s) \<and> distinct (tcp_held s) \<and> length (tcp_held s) \<le> 2
     \<and> (\<forall>es fd es'. tc_log s = es @ Fd_close fd # es' \<longrightarrow> (\<exists>S. open_fds es = Some S \<and> fd \<in> set S))
     \<and> (\<forall>fd. count_list (tc_log s) (Fd_open fd) = count_list (tc_log s) (Fd_close fd) + count_list (tcp_held s) fd)"
proof -
  have i: "tcp_sys_inv s" by (rule tcp_reachable_inv [OF assms])
  have "delivered (fd_writes (tc_log s)) (tc_popped s)"
    using i delivered_skip by (cases "frame_in_hand (tc_tx s)") (auto simp: tcp_sys_inv_def)
  moreover have "length (tcp_held s) \<le> 2" by (simp add: tcp_held_def client_fds_def split: tcp_accept_pc.splits)
  moreover have "tcp_count (tc_ctx s) \<le> COMM_TCP_QUEUE_CAPACITY" using i by (simp add: tcp_sys_inv_def tcp_inv_def ring_ok_def)
  ultimately show ?thesis
    using i tcp_threads.closed_was_open [OF assms] tcp_threads.opened_closed_held [OF assms] by (simp add: tcp_sys_inv_def)
qed

theorem tcp_service_invariant_witness:
  "(\<exists>s. tcp_reachable None s \<and> tc_log s = [Fd_open 5, Fd_open 6, Fd_close 5, Fd_close 6] \<and> tcp_held s = [])
   \<and> (\<exists>s. tcp_reachable None s \<and> tc_popped s = [[7]] \<and> tcp_elems (tc_ctx s) = []
        \<and> tc_log s = [Fd_open 5, Fd_open 6, Fd_close 5, Fd_write 5 [7]])"
proof -
  obtain s where s: "tcp_reachable None s" "tc_log s = [Fd_open 5, Fd_open 6, Fd_close 5, Fd_close 6]"
    using second_client_closed by blast
  obtain t where t: "tcp_reachable None t" "tc_accepted t = [[7]]" "tc_log t = [Fd_open 5, Fd_open 6, Fd_close 5, Fd_write 5 [7]]"
    using frame_to_closed_client by blast
  note si = tcp_service_invariant [OF s(1)] and ti = tcp_service_invariant [OF t(1)]
  have "tcp_held s = []" using si s(2) by (simp add: open_fds_def)
  moreover have "tc_popped t \<noteq> []" using ti t(3) by (auto simp: delivered_def dest!: list_emb_Nil2)
  with ti t(2) have "tc_popped t = [[7]] \<and> tcp_elems (tc_ctx t) = []" by (cases "tc_popped t") auto
  ultimately show ?thesis using s t by blast
qed

text \<open>C24: The MQTT client under every interleaving of its two threads and of the callers of \<open>comm_mqtt_send\<close>, whatever the network does: a descriptor is closed only while it is open, and the open ones are at any time exactly those that the client holds, so none is closed twice and none is lost, over any number of reconnections; the connection counts as up exactly while a descriptor is announced; and everything written is a packet of the protocol, or the first part of one when a write fails: the connect packet, a ping, or a publish packet that fits its 512-byte buffer and in which a broker that follows the MQTT specification reads the configured topic. (Not excluded, and shown for the witness: a caller can publish before the connect packet, or to a descriptor that the other thread has closed, and the receive thread can close the connection that the transmit thread has just opened.)\<close>

theorem mqtt_client_invariant:
  assumes "mqtt_reachable cfg s"
  shows "open_fds (mq_log s) = Some (held_fds s) \<and> length (held_fds s) \<le> 1
     \<and> (\<forall>es fd es'. mq_log s = es @ Fd_close fd # es' \<longrightarrow> (\<exists>S. open_fds es = Some S \<and> fd \<in> set S))
     \<and> (\<forall>fd. count_list (mq_log s) (Fd_open fd) = count_list (mq_log s) (Fd_close fd) + count_list (held_fds s) fd)
     \<and> (mqtt_connected (mq_ctx s) \<longleftrightarrow> 0 \<le> mqtt_fd (mq_ctx s))
     \<and> (\<forall>fd out. Fd_write fd out \<in> set (mq_log s) \<longrightarrow> (\<exists>p. client_packet (mqtt_config (mq_ctx s)) p \<and> prefix out p))"
proof -
  have i: "mqtt_sys_inv (mqtt_config (mq_ctx s)) s"
    using mqtt_reachable_inv [OF assms] by (simp add: mqtt_sys_inv_def)
  then have "event_ok (mqtt_config (mq_ctx s)) e" if "e \<in> set (mq_log s)" for e
    using that by (auto simp: mqtt_sys_inv_def list_all_iff)
  moreover have "length (held_fds s) \<le> 1" by (simp add: held_fds_def split: mqtt_tx.splits)
  moreover note mqtt_threads.closed_was_open [OF assms] mqtt_threads.opened_closed_held [OF assms]
  moreover have "open_fds (mq_log s) = Some (held_fds s)" "mqtt_connected (mq_ctx s) \<longleftrightarrow> 0 \<le> mqtt_fd (mq_ctx s)"
    using i by (simp_all add: mqtt_sys_inv_def)
  ultimately show ?thesis by fastforce
qed

theorem mqtt_client_invariant_witness:
  "(\<exists>s p. mqtt_reachable None s \<and> mq_log s = [Fd_open 5, Fd_close 5, Fd_write 5 p] \<and> held_fds s = [])
   \<and> (\<exists>s. mqtt_reachable None s \<and> mq_log s = [Fd_open 5, Fd_write 5 [], Fd_close 5, Fd_open 6, Fd_close 6])
   \<and> (\<exists>s p. mqtt_reachable None s \<and> (\<exists>d. broker_publish p = Some d)
        \<and> mq_log s = [Fd_open 5, Fd_write 5 p, Fd_write 5 (mqtt_connect_packet (mqtt_config g_comm_mqtt_ctx))])"
proof -
  obtain s p where s: "mqtt_reachable None s" "mq_log s = [Fd_open 5, Fd_close 5, Fd_write 5 p]"
    using write_after_close by blast
  moreover have "held_fds s = []" using mqtt_client_invariant [OF s(1)] s(2) by (simp add: open_fds_def)
  ultimately show ?thesis using new_connection_closed publish_before_connect by blast
qed

section \<open>The satellite modem\<close>

text \<open>C25: The two encodings of binary data for the modem: the encoders refuse exactly the output buffers that are too small (with their terminator), and the decoders recover the bytes from what the encoders produced, whatever the bytes are.\<close>

theorem hex_and_base64_roundtrip:
  assumes "bs \<noteq> []" "length bs \<le> n"
  shows "(if 2 * length bs < m
          then \<exists>s. dbb_hex_encode bs m = Some s \<and> length s = 2 * length bs \<and> hex_to_bytes s n = Some bs
          else dbb_hex_encode bs m = None)
       \<and> (if (length bs + 2) div 3 * 4 < m
          then \<exists>s. dbb_base64_encode bs m = Some s \<and> length s = (length bs + 2) div 3 * 4 \<and> dbb_base64_decode s n = Some bs
          else dbb_base64_encode bs m = None)"
  using hex.roundtrip [OF assms, of m] b64.roundtrip [OF assms, of m] by simp

theorem hex_and_base64_roundtrip_witness:
  "\<exists>s t. dbb_hex_encode [222, 173, 0, 255] 9 = Some s \<and> hex_to_bytes s 1024 = Some [222, 173, 0, 255]
     \<and> dbb_base64_encode [222, 173, 0, 255] 9 = Some t \<and> dbb_base64_decode t 1024 = Some [222, 173, 0, 255]"
  using hex_and_base64_roundtrip [of "[222, 173, 0, 255]" 1024 9] by auto

text \<open>C26: A short message that the modem is asked to send: the hexadecimal text is a submit PDU with the number in semi-octets, from which it can be recovered, the UCS-2 coding 8 and the converted text with its length, at most 140 bytes; the announced length leaves out the first byte (the service-centre field), and the text is at most 328 digits. The conversion of \<open>iconv\<close> is the parameter \<open>conv\<close>.\<close>

theorem submit_pdu_wellformed:
  assumes "dbb_build_sms_submit_pdu conv target txt n = Some (digits, announced)"
  shows "\<exists>pdu bcd k toa ud. hex_to_bytes digits 256 = Some pdu
     \<and> pdu = [0, 1, 0, k, toa] @ bcd @ [0, 8, of_nat (length ud)] @ ud
     \<and> decode_bcd_number bcd k 64 = Some (filter (\<lambda>c. c \<noteq> CHR ''+'') target)
     \<and> conv txt 140 = Some ud \<and> length ud \<le> 140
     \<and> announced = int (length pdu) - 1 \<and> length digits = 2 * length pdu \<and> length digits \<le> 328"
proof -
  obtain bcd k toa ud pdu where p:
    "encode_bcd_number target 16 0 = Some (bcd, k, toa)"
    "conv txt 140 = Some ud" "length ud \<le> 140"
    "pdu = [0, 1, 0, k, toa] @ bcd @ [0, 8, of_nat (length ud)] @ ud"
    "digits = concat (map hex_pair pdu)" "announced = int (length pdu) - 1"
    using submit_pdu_parts [OF assms] by metis
  have s: "length digits \<le> 328" by (rule submit_pdu_short [OF assms])
  have l: "length digits = 2 * length pdu" by (simp add: p(5) length_hex_pairs)
  have "hex_to_bytes digits 256 = Some pdu"
    unfolding p(5) by (rule hex_to_bytes_pairs) (use p(4) s l in simp_all)
  moreover have "decode_bcd_number bcd k 64 = Some (filter (\<lambda>c. c \<noteq> CHR ''+'') target)"
    by (rule bcd_roundtrip [OF p(1)]) simp
  ultimately show ?thesis using p s l by blast
qed

theorem submit_pdu_wellformed_witness:
  "\<exists>digits announced pdu. dbb_build_sms_submit_pdu (\<lambda>t n. Some [0, 72, 0, 105]) ''10086'' ''Hi'' 512 = Some (digits, announced)
     \<and> hex_to_bytes digits 256 = Some pdu \<and> announced = int (length pdu) - 1"
proof -
  obtain digits announced where
    b: "dbb_build_sms_submit_pdu (\<lambda>t n. Some [0, 72, 0, 105]) ''10086'' ''Hi'' 512 = Some (digits, announced)"
    by (simp add: dbb_build_sms_submit_pdu_def encode_bcd_number_def isdigit_def c_between_def ccode_def
        DBB_MAX_SMS_TARGET_LEN_def DBB_MAX_SMS_UD_BYTES_def utf8_to_ucs2be_iconv_def bytes_to_hex_def Let_def)
  from submit_pdu_wellformed [OF b] b show ?thesis by blast
qed

text \<open>C27: A received short message: from the hexadecimal text of a deliver PDU (service-centre field, header byte, sender, protocol, coding, time stamp, user data) the decoder returns the sender's number and, with the UCS-2 coding, the converted user data; every other coding gives a note with the coding instead of the text.\<close>

theorem deliver_pdu_decoded:
  assumes "length sca < 256" "length scts = 7" "length ud < 256" "length oa = (unat k + 1) div 2"
    and "length (deliver_pdu sca first k oa_type oa pid dcs scts ud) \<le> 256"
    and "decode_bcd_number oa k from_size = Some number"
  shows "dbb_decode_sms_deliver_pdu conv (concat (map hex_pair (deliver_pdu sca first k oa_type oa pid dcs scts ud)))
           from_size text_size =
         (if dcs = 8 then map_option (\<lambda>t. (number, t)) (ucs2be_to_utf8_iconv conv ud text_size)
          else Some (number, c_snprintf text_size (''[unsupported DCS=0x'' @ hex2 dcs @ '']'')))"
  by (rule decode_deliver_pdu) (rule assms)+

theorem deliver_pdu_decoded_witness:
  "dbb_decode_sms_deliver_pdu (\<lambda>b n. Some ''Hi'')
     (concat (map hex_pair (deliver_pdu [0x91] 4 5 0x81 [0x01, 0x80, 0xF6] 0 8 [1, 2, 3, 4, 5, 6, 7] [0, 72, 0, 105]))) 64 256
   = Some (''10086'', ''Hi'')"
proof -
  have n: "decode_bcd_number [0x01, 0x80, 0xF6] 5 64 = Some ''10086''"
    by code_simp
  show ?thesis
    by (subst deliver_pdu_decoded [OF _ _ _ _ _ n]) (simp_all add: deliver_pdu_def ucs2be_to_utf8_iconv_def)
qed

text \<open>C28: One exchange with a modem, whatever the line does (pieces, interruptions, silence, errors): what is stored of the answer fits the buffer with its terminator, a success has a non-empty answer and the whole command with its terminator on the line, and any other outcome has put at most a first part of it there.\<close>

theorem at_exchange_bounded:
  assumes "capture_response k terminator cmd n timeout p = (rc, response, p')" "n \<noteq> 0"
  shows "length response < n \<and> (rc = 0 \<or> rc = - 1) \<and> (rc = 0 \<longrightarrow> response \<noteq> [])
    \<and> (\<exists>sent. tx_log p' = tx_log p @ sent
         \<and> prefix sent (case cmd of None \<Rightarrow> [] | Some c \<Rightarrow> c @ terminator)
         \<and> (rc = 0 \<longrightarrow> sent = (case cmd of None \<Rightarrow> [] | Some c \<Rightarrow> c @ terminator)))"
  using capture_response_log [OF assms(1)] assms(2) by blast

theorem at_exchange_bounded_witness:
  "\<exists>p'. capture_response 256 [CR] (Some ''AT'') 8 1000
      \<lparr>at_fd = 3, open_script = [], rx_script = [Line_data ''OK and more than fits''], tx_script = [], tx_log = [], at_time = 0\<rparr>
      = (0, ''OK and '', p') \<and> tx_log p' = ''AT'' @ [CR]"
proof -
  let ?r = "capture_response 256 [CR] (Some ''AT'') 8 1000
      \<lparr>at_fd = 3, open_script = [], rx_script = [Line_data ''OK and more than fits''], tx_script = [], tx_log = [], at_time = 0\<rparr>"
  have "fst ?r = 0" "fst (snd ?r) = ''OK and ''" by code_simp+
  then obtain p' where r: "?r = (0, ''OK and '', p')" by (metis prod.collapse)
  from at_exchange_bounded [OF r] r show ?thesis by auto
qed

text \<open>C29: Sending binary data over the satellite link: when the call succeeds, exactly one uplink command has gone out, whose quoted payload decodes to the data in the announced encoding; data of more than 168 bytes is always refused without a byte on the line, although the interface is declared for 1024.\<close>

theorem uplink_sent_or_refused:
  "(case dbb_send_uplink raw codec p of (rc, p') \<Rightarrow>
      (rc = 0 \<and> length raw \<le> 168 \<and> (\<exists>payload chset.
         tx_log p' = tx_log p @ uplink_command (length raw) chset payload @ [CR]
         \<and> (case codec of
              DBB_DATA_CODEC_HEX \<Rightarrow> chset = ''HEX'' \<and> hex_to_bytes payload 1024 = Some raw
            | DBB_DATA_CODEC_BASE64 \<Rightarrow> chset = ''BASE64'' \<and> dbb_base64_decode payload 1024 = Some raw)))
      \<or> (rc = - 1 \<and> (length raw \<le> 168 \<or> p' = p)))"
proof -
  obtain rc p' where s: "dbb_send_uplink raw codec p = (rc, p')" by force
  have r: "rc = 0 \<or> rc = - 1"
    using s by (auto simp: dbb_send_uplink_def Let_def split: option.splits prod.splits if_splits)
  have l: "length raw \<le> 168 \<or> p' = p" "rc = 0 \<Longrightarrow> length raw \<le> 168"
    using uplink_too_long [of raw codec p] s by (auto simp: not_le [symmetric])
  show ?thesis
  proof (cases "rc = 0")
    case True
    with s have z: "dbb_send_uplink raw codec p = (0, p')" by simp
    show ?thesis by (rule uplink_sent [OF z]; cases codec; use s l True in auto)
  qed (use s r l in auto)
qed

theorem uplink_sent_or_refused_witness:
  "dbb_send_uplink (replicate 169 1) DBB_DATA_CODEC_HEX \<lparr>at_fd = 3, open_script = [], rx_script = [], tx_script = [], tx_log = [], at_time = 0\<rparr> = (- 1, \<lparr>at_fd = 3, open_script = [], rx_script = [], tx_script = [], tx_log = [], at_time = 0\<rparr>)"
  using uplink_sent_or_refused [where raw = "replicate 169 1" and codec = DBB_DATA_CODEC_HEX and p = "\<lparr>at_fd = 3, open_script = [], rx_script = [], tx_script = [], tx_log = [], at_time = 0\<rparr>"] by (auto split: prod.splits)

text \<open>C30: Data that the modem delivers: a single well-formed downlink message, wherever it ends in the received text, is decoded in the announced encoding, and the bytes, their count and their text are recorded; nothing else of the control block changes.\<close>

theorem downlink_recorded:
  assumes "CHR 0x22 \<notin> set chset" "chset \<noteq> []" "length chset \<le> 15"
    and "CHR 0x22 \<notin> set datastr" "datastr \<noteq> []" "length datastr \<le> 1023"
    and "record_decode chset datastr = Some bs"
    and "c_strstr (drop 11 (dlnetdata_text n chset datastr @ rest)) ''+DLNETDATA='' = None"
  shows "dbb_handle_dlnetdata (dlnetdata_text n chset datastr @ rest) d =
     d\<lparr>downlink_raw := overwrite bs (downlink_raw d), downlink_raw_len := length bs, downlink_text := string_of_bytes bs\<rparr>"
  by (rule dlnetdata_delivered) (use assms in auto)

theorem downlink_recorded_witness:
  "downlink_text (dbb_handle_dlnetdata (dlnetdata_text 2 ''hex'' ''4869'' @ [CR]) dbb_ctrl_init) = ''Hi''"
proof -
  have d: "record_decode ''hex'' ''4869'' = Some [0x48, 0x69]"
    by (simp add: record_decode_def c_strcaseeq_def lower_code_def c_between_def ccode_def hex_to_bytes_def
        is_hex_string_def isxdigit_def hex_char_to_nibble_def DBB_MAX_UL_DATA_RAW_def Let_def)
  have o: "c_strstr (drop 11 (dlnetdata_text 2 ''hex'' ''4869'' @ [CR])) ''+DLNETDATA='' = None"
    by code_simp
  show ?thesis
    using string_of_bytes_of_string [of "''Hi''"]
    by (subst downlink_recorded [OF _ _ _ _ _ _ d o]) (simp_all add: bytes_of_string_def)
qed



text \<open>C32: Normal mode, for every behaviour of the modem: in each state of the registration ladder the commands of the states before it are on the line, complete and in the order of the ladder; the states without commands of their own (idle, power off, data call, broadcast) are never entered, and once online the thread stays online.\<close>

theorem normal_mode_ladder:
  assumes "dbb_reach cs w0 w" "dbb_mode (dbb w0) = DBB_MODE_NORMAL" "downlink_ok (dbb w0)"
  shows "(\<exists>commands. setup_before (dbb_status (dbb w)) = Some commands
           \<and> in_order (map (\<lambda>c. c @ [CR]) commands) (tx_log (dport w)))
    \<and> dbb_status (dbb w) \<notin> {DEV_DBB_IDLE, DEV_DBB_POWER_OFF, DEV_DBB_PSDATA_OK, DEV_DBB_ONLINE_BROADCAST}
    \<and> (dbb_status (dbb w) = DEV_DBB_ONLINE \<longrightarrow> dbb_status (dbb (dbb_online_func cs now w)) = DEV_DBB_ONLINE)"
proof -
  have i: "normal_inv w" by (rule normal_reach_inv [OF assms])
  then have s: "\<exists>commands. setup_before (dbb_status (dbb w)) = Some commands
      \<and> in_order (map (\<lambda>c. c @ [CR]) commands) (tx_log (dport w))" "dbb_mode (dbb w) = DBB_MODE_NORMAL"
    by (simp_all add: normal_inv_def setup_seen_def)
  then show ?thesis using normal_online_stays [of w cs now] by auto
qed

theorem normal_mode_ladder_witness:
  "\<exists>w. dbb_reach \<lparr>to_ucs2 = (\<lambda>t n. None), to_utf8 = (\<lambda>b n. None)\<rparr> (\<lparr>dbb = dbb_ctrl_init\<lparr>dbb_mode := DBB_MODE_NORMAL\<rparr>, dport = \<lparr>at_fd = 3, open_script = [], rx_script = [], tx_script = [], tx_log = [], at_time = 0\<rparr>, dgnss = fgnss (gw_files gateway_boot), dio = \<lparr>io_script = [], io_inputs = [], io_log = [], io_error = io_errno.EINVAL\<rparr>, devents = []\<rparr>) w \<and> dbb_status (dbb w) = DEV_DBB_POWER_ON
     \<and> (\<exists>commands. setup_before (dbb_status (dbb w)) = Some commands)"
proof -
  let ?cs = "\<lparr>to_ucs2 = (\<lambda>t n. None), to_utf8 = (\<lambda>b n. None)\<rparr> :: charset"
  let ?w = "\<lparr>dbb = dbb_ctrl_init\<lparr>dbb_mode := DBB_MODE_NORMAL\<rparr>, dport = \<lparr>at_fd = 3, open_script = [], rx_script = [], tx_script = [], tx_log = [], at_time = 0\<rparr>, dgnss = fgnss (gw_files gateway_boot), dio = \<lparr>io_script = [], io_inputs = [], io_log = [], io_error = io_errno.EINVAL\<rparr>, devents = []\<rparr>"
  have r: "dbb_reach ?cs ?w (dbb_online_func ?cs 0 (dbb_thread_start ?w))"
    by (intro dbb_reach.iteration dbb_reach.start)
  have "downlink_ok (dbb ?w)" "dbb_mode (dbb ?w) = DBB_MODE_NORMAL"
    using downlink_ok_init by (simp_all add: downlink_ok_def)
  note t = normal_mode_ladder [OF r this(2,1)]
  have "dbb_status (dbb (dbb_online_func ?cs 0 (dbb_thread_start ?w))) = DEV_DBB_POWER_ON"
    by (simp add: dbb_thread_start_def dbb_sleep_def dbb_online_func_def normal_step_def dbb_led_def set_status_def)
  with r t show ?thesis by blast
qed

text \<open>C33: Normal mode gets online with every modem that answers in the end: on each rung of the ladder the line may stay silent for any number of rounds before a reply with the expected text comes, and after as many iterations of the thread as there are silent rounds and rungs, the thread is online.\<close>

theorem normal_mode_comes_online:
  assumes "dbb_mode (dbb w) = DBB_MODE_NORMAL" "dbb_status (dbb w) = DEV_DBB_INIT"
    and "line (modem_script NORMAL_LADDER rounds) (dport w)"
    and "list_all2 (\<lambda>(q, texts) (k, r). good_reply texts r) NORMAL_LADDER rounds"
  shows "dbb_status (dbb ((dbb_online_func cs now ^^ (sum_list (map fst rounds) + 11)) w)) = DEV_DBB_ONLINE"
proof -
  let ?f = "dbb_online_func cs now"
  have "length rounds = 10" using list_all2_lengthD [OF assms(4)] by (simp add: NORMAL_LADDER_def)
  moreover have "at_state DEV_DBB_POWER_ON (modem_script NORMAL_LADDER rounds) (?f w)"
    using assms(1-3) by (simp add: at_state_def dbb_online_func_def normal_step_def)
  ultimately have "at_state DEV_DBB_ONLINE [] ((?f ^^ (sum_list (map fst rounds) + 10)) (?f w))"
    using climbs_up [OF normal_ladder assms(4)] by metis
  moreover have "sum_list (map fst rounds) + 11 = Suc (sum_list (map fst rounds) + 10)" by simp
  then have "(?f ^^ (sum_list (map fst rounds) + 10)) (?f w) = (?f ^^ (sum_list (map fst rounds) + 11)) w"
    by (simp only: funpow_Suc_right o_apply)
  ultimately show ?thesis by (simp add: at_state_def)
qed

theorem normal_mode_comes_online_witness:
  "\<exists>w. dbb_status (dbb w) = DEV_DBB_INIT
     \<and> dbb_status (dbb ((dbb_online_func \<lparr>to_ucs2 = (\<lambda>t n. None), to_utf8 = (\<lambda>b n. None)\<rparr> 0 ^^ 14) w)) = DEV_DBB_ONLINE"
proof -
  let ?rounds = "[(2, ''OK''), (0, ''OK''), (0, ''OK''), (0, ''OK''), (0, ''OK''), (0, ''OK''), (0, ''OK''),
     (0, ''+CREGXW:1 OK''), (1, ''+CREV: ME PDN ACT 1''), (0, ''+CIREG:1 OK'')] :: (nat \<times> string) list"
  let ?w = "\<lparr>dbb = dbb_ctrl_init\<lparr>dbb_mode := DBB_MODE_NORMAL, dbb_status := DEV_DBB_INIT\<rparr>, dport = \<lparr>at_fd = 5, open_script = [], rx_script = modem_script NORMAL_LADDER ?rounds, tx_script = [], tx_log = [], at_time = 0\<rparr>, dgnss = fgnss (gw_files gateway_boot), dio = \<lparr>io_script = [], io_inputs = [], io_log = [], io_error = io_errno.EINVAL\<rparr>, devents = []\<rparr>"
  have w: "dbb_mode (dbb ?w) = DBB_MODE_NORMAL" "dbb_status (dbb ?w) = DEV_DBB_INIT" by simp_all
  have l: "line (modem_script NORMAL_LADDER ?rounds) (dport ?w)" by (simp add: line_def)
  have g: "list_all2 (\<lambda>(q, texts) (k, r). good_reply texts r) NORMAL_LADDER ?rounds" by code_simp
  have "dbb_status (dbb ((dbb_online_func \<lparr>to_ucs2 = (\<lambda>t n. None), to_utf8 = (\<lambda>b n. None)\<rparr> 0 ^^ (sum_list (map fst ?rounds) + 11)) ?w)) = DEV_DBB_ONLINE"
    by (rule normal_mode_comes_online [OF w l g])
  moreover have "sum_list (map fst ?rounds) + 11 = 14" by simp
  ultimately show ?thesis using w(2) by metis
qed



section \<open>The 4G modem and the pins\<close>

text \<open>C35: The state machine of the 4G modem, from power-up, for every behaviour of the modem, of the shell and of the pins, with the modem switched on and off at any time: in each state the commands of the states before it are on the line, complete and in order; the state \<open>DEV_4G_IP_OK\<close> is never entered, and the LED is never switched on.\<close>

theorem eth_setup_in_order:
  assumes "eth_reach env w0 w" "eth_status (eth w0) = DEV_4G_IDLE" "io_log (eio w0) = []"
  shows "(\<exists>commands. eth_setup (eth_apn (eth w)) (eth_status (eth w)) = Some commands
           \<and> in_order (map (\<lambda>c. c @ [CR]) commands) (tx_log (eport w)))
    \<and> eth_status (eth w) \<noteq> DEV_4G_IP_OK \<and> list_all (\<lambda>(file, txt). file \<noteq> LED_4G_FILE \<or> txt = ''0'') (io_log (eio w))"
proof -
  have "eth_inv w" by (rule eth_reach_inv [OF assms])
  then show ?thesis by (auto simp: eth_inv_def seen_def led_off_def list_all_iff)
qed

theorem eth_setup_in_order_witness:
  "\<exists>w. eth_reach (\<lambda>_. None) (\<lparr>eth = eth_4g_ctrl_init, eport = \<lparr>at_fd = 3, open_script = [], rx_script = [], tx_script = [], tx_log = [], at_time = 0\<rparr>, eio = \<lparr>io_script = [], io_inputs = [], io_log = [], io_error = io_errno.EINVAL\<rparr>, sh_script = [], sh_log = [], access_script = []\<rparr>) w \<and> eth_status (eth w) = DEV_4G_POWER_ON
     \<and> (\<exists>commands. eth_setup (eth_apn (eth w)) (eth_status (eth w)) = Some commands)"
proof -
  let ?w = "\<lparr>eth = eth_4g_ctrl_init, eport = \<lparr>at_fd = 3, open_script = [], rx_script = [], tx_script = [], tx_log = [], at_time = 0\<rparr>, eio = \<lparr>io_script = [], io_inputs = [], io_log = [], io_error = io_errno.EINVAL\<rparr>, sh_script = [], sh_log = [], access_script = []\<rparr>"
  have r: "eth_reach (\<lambda>_. None) ?w (eth_4g_online_func (\<lambda>_. None) (eth_4g_thread_start ?w))"
    by (intro eth_reach.iteration eth_reach.start)
  have "eth_status (eth ?w) = DEV_4G_IDLE" "io_log (eio ?w) = []" by (simp_all add: eth_4g_ctrl_init_def)
  note t = eth_setup_in_order [OF r this]
  have "eth_status (eth (eth_4g_online_func (\<lambda>_. None) (eth_4g_thread_start ?w))) = DEV_4G_POWER_ON"
    by (simp add: eth_4g_online_func_def eth_4g_thread_start_def eth_4g_enter_def eth_4g_switch_def eth_4g_init_step_def
        eth_4g_load_env_def env_value_def eth_4g_power_on_def eth_gpio_def io_set_output_level_def io_set_direction_def
        gpio_export_if_needed_def write_text_file_def sys_call_def eth_set_status_def eth_4g_ctrl_init_def
        eth_sleep_def eth_led_def set_led_def DEV_4G_IO_RESET_def DEV_4G_IO_POWER_def DEV_USB_IO_SW1_def Let_def)
  with r t show ?thesis by blast
qed

section \<open>Start, messages, files and commands\<close>



text \<open>C37: The observation message has two levels of counts that come from the message itself. The decoder fills exactly as many array elements as the counts say, so never more than 63 satellites and 15 signals each (the arrays have more room), and it reads at most 78768 bits. It never compares this with the length of the message: with a single satellite it already reads past the 15 bytes that the header takes.\<close>

theorem observation_counts:
  "(case prangeb_walk payload of (p, reach) \<Rightarrow>
      length (sat_info p) = unat (sat_count p) \<and> unat (sat_count p) \<le> 63
    \<and> list_all (\<lambda>s. length (signal_info s) = unat (signal_count s) \<and> unat (signal_count s) \<le> 15) (sat_info p)
    \<and> 144 + 48 * unat (sat_count p) \<le> reach \<and> reach \<le> 78768)
   \<and> (if n < 3 then True else decode_prangeb payload n = fst (prangeb_walk payload))"
proof -
  obtain p r where w: "prangeb_walk payload = (p, r)" by force
  note b = prangeb_walk_bounds [where payload = payload, unfolded w fst_conv snd_conv]
  have c: "unat (sat_count p) \<le> 63" using fld_less [of 6 payload 107] b(2) by simp
  have s: "length (signal_info s) = unat (signal_count s) \<and> unat (signal_count s) \<le> 15" if "s \<in> set (sat_info p)" for s
    using b(4) [OF that] by simp
  have "48 * length ss \<le> sats_bits ss" for ss by (induction ss) (simp_all add: sats_bits_def)
  moreover have "sats_bits ss \<le> 1248 * length ss" if "\<forall>s \<in> set ss. length (signal_info s) \<le> 15" for ss
    using that by (induction ss) (auto simp: sats_bits_def)
  ultimately have "48 * length (sat_info p) \<le> sats_bits (sat_info p)" "sats_bits (sat_info p) \<le> 1248 * length (sat_info p)"
    using s by simp_all
  then show ?thesis using b(1-3) c s by (simp add: w list_all_iff decode_prangeb_def)
qed


text \<open>C39: What is recorded of a message: the cells of a CSV row are the decoded values of the protocol table in the order of the message, all but the trailing ones (which the row leaves out on purpose); the BDXW row also leaves out four correction terms in its middle. The files have as many header columns as their rows have cells, for every message whatever its values, with one exception: the header of the \<open>bd3ephb\<close> file has 19 columns for rows of 32.\<close>

theorem recorded_cells:
  "bd2ephb_cells (decode_bd2ephb p) = take 30 (decode_rows bd2_layout 64 p)
   \<and> bd3ephb_cells (decode_bd3ephb p) = take 32 (decode_rows bd3_layout 64 p)
   \<and> bdxwephb_cells (decode_bdxwephb p) = take 17 (decode_rows bdxw_layout 64 p) @ take 11 (drop 21 (decode_rows bdxw_layout 64 p))
   \<and> bd3cnav2ephb_cells (decode_bd3cnav2ephb p) = take 32 (decode_rows cnav2_layout 64 p)
   \<and> bd3cnav3ephb_cells (decode_bd3cnav3ephb p) = take 30 (decode_rows cnav3_layout 64 p)
   \<and> gpsephb_cells (decode_gpsephb p) = take 32 (decode_rows gps_layout 64 p)
   \<and> columns (csv_row (gpsephb_cells g)) = columns gpsephb_header
   \<and> columns (csv_row (bd2ephb_cells b2)) = columns bd2ephb_header
   \<and> columns (csv_row_plain (bdxwephb_cells x)) = columns bdxwephb_header
   \<and> columns (csv_row (bd3cnav2ephb_cells c2)) = columns bd3cnav2ephb_header
   \<and> columns (csv_row (bd3cnav3ephb_cells c3)) = columns bd3cnav3ephb_header
   \<and> columns (csv_row (bd3ephb_cells b3)) = 32 \<and> columns bd3ephb_header = 19"
  by (intro conjI; (simp only: row_columns header_columns)?)
    (simp_all only: cells_values bd2_values_decode bd3_values_decode bdxw_values_decode cnav2_values_decode
      cnav3_values_decode gps_values_decode)



end
